(* ===== verification/Prelude.thy ===== *)
theory Prelude
  imports Main "HOL-Library.Char_ord" "HOL-Library.List_Lexorder"
begin

text \<open>
  Shared vocabulary of the development: Python exceptions as values, the result type every
  fallible operation returns, traversals that stop at the first exception, and the text helpers
  (decimal rendering, joining, \<open>repr\<close> of a string, identifier recognisers) that the components
  use when they build messages and check names.  Python text is modelled by \<open>string\<close>, so a
  character stands for one code point below 256.
\<close>

section \<open>Collections of facts\<close>

named_theorems res_simps \<open>how results and traversals compose\<close>
named_theorems err_intros \<open>which exceptions a computation may raise\<close>
named_theorems fl_simps \<open>binary64 arithmetic on finite arguments\<close>

section \<open>Exceptions and results\<close>

text \<open>
  \<open>InvalidRequest\<close> is the private exception class of the typed-evidence modules, which carries a
  diagnostic code and a message, and \<open>CompileError\<close> the \<open>TestbenchPlanCompileError\<close> of the plan compiler
  with code, path and message; the others are the built-in exceptions the modelled code raises.
\<close>

datatype pyexc =
    InvalidRequest (exc_code: string) (exc_message: string)
  | ValueError string
  | TypeError string
  | KeyError string
  | AttributeError string
  | OverflowError
  | ZeroDivisionError
  | AssertionError string
  | FileRecordLimitError string int int
  | FileRecordUnavailableError string
  | FileRecordChangedError string
  | CompileError string string string
  | OtherError string string

type_synonym 'a pyres = "pyexc + 'a"

definition pbind :: "'e + 'a \<Rightarrow> ('a \<Rightarrow> 'e + 'b) \<Rightarrow> 'e + 'b" where
  "pbind m f = (case m of Inl e \<Rightarrow> Inl e | Inr a \<Rightarrow> f a)"

lemma pbind_simps [simp]:
  "pbind (Inl e) f = Inl e"
  "pbind (Inr a) f = f a"
  by (simp_all add: pbind_def)

lemma pbind_eq_Inr [simp]: "pbind m f = Inr b \<longleftrightarrow> (\<exists>a. m = Inr a \<and> f a = Inr b)"
  by (cases m) simp_all

lemma pbind_eq_Inl: "pbind m f = Inl e \<longleftrightarrow> m = Inl e \<or> (\<exists>a. m = Inr a \<and> f a = Inl e)"
  by (cases m) simp_all

lemma pbind_cong [fundef_cong]:
  "m = n \<Longrightarrow> (\<And>a. n = Inr a \<Longrightarrow> f a = g a) \<Longrightarrow> pbind m f = pbind n g"
  by (cases n) simp_all

lemma pbind_assoc: "pbind (pbind m f) g = pbind m (\<lambda>a. pbind (f a) g)"
  by (cases m) simp_all

text \<open>The comprehensions \<open>[f(x) for x in xs]\<close> and \<open>[f(i, x) for i, x in enumerate(xs)]\<close>.\<close>

primrec map_res :: "('a \<Rightarrow> 'e + 'b) \<Rightarrow> 'a list \<Rightarrow> 'e + 'b list" where
  "map_res f [] = Inr []"
| "map_res f (x # xs) = pbind (f x) (\<lambda>y. pbind (map_res f xs) (\<lambda>ys. Inr (y # ys)))"

primrec map_res_i :: "(nat \<Rightarrow> 'a \<Rightarrow> 'e + 'b) \<Rightarrow> nat \<Rightarrow> 'a list \<Rightarrow> 'e + 'b list" where
  "map_res_i f i [] = Inr []"
| "map_res_i f i (x # xs) =
     pbind (f i x) (\<lambda>y. pbind (map_res_i f (Suc i) xs) (\<lambda>ys. Inr (y # ys)))"

text \<open>A loop \<open>for x in xs: body\<close> whose body may raise.\<close>

primrec fold_res :: "('a \<Rightarrow> 's \<Rightarrow> 'e + 's) \<Rightarrow> 'a list \<Rightarrow> 's \<Rightarrow> 'e + 's" where
  "fold_res f [] s = Inr s"
| "fold_res f (x # xs) s = pbind (f x s) (fold_res f xs)"

lemma map_res_cong [fundef_cong]:
  "xs = ys \<Longrightarrow> (\<And>x. x \<in> set ys \<Longrightarrow> f x = g x) \<Longrightarrow> map_res f xs = map_res g ys"
  by (induction ys arbitrary: xs) simp_all

lemma map_res_eq_Inr [res_simps]:
  "map_res f xs = Inr ys \<longleftrightarrow> list_all2 (\<lambda>x y. f x = Inr y) xs ys"
  by (induction xs arbitrary: ys) (auto simp: list_all2_Cons1)

lemma list_all2_mem_right: "list_all2 P xs ys \<Longrightarrow> y \<in> set ys \<Longrightarrow> \<exists>x \<in> set xs. P x y"
  by (induction rule: list_all2_induct) auto

lemma map_res_mem:
  "map_res f xs = Inr ys \<Longrightarrow> y \<in> set ys \<Longrightarrow> \<exists>x \<in> set xs. f x = Inr y"
  using list_all2_mem_right by (fastforce simp: map_res_eq_Inr)

lemma map_res_i_eq_Inr [res_simps]:
  "map_res_i f i xs = Inr ys \<longleftrightarrow>
     length ys = length xs \<and> (\<forall>k < length xs. f (i + k) (xs ! k) = Inr (ys ! k))"
proof (induction xs arbitrary: i ys)
  case Nil
  then show ?case by auto
next
  case (Cons x xs)
  show ?case
  proof (cases ys)
    case Nil
    then show ?thesis by simp
  next
    case (Cons y zs)
    have "(\<forall>k < Suc (length xs). f (i + k) ((x # xs) ! k) = Inr ((y # zs) ! k)) \<longleftrightarrow>
        f i x = Inr y \<and> (\<forall>k < length xs. f (Suc i + k) (xs ! k) = Inr (zs ! k))"
      by (auto simp: less_Suc_eq_0_disj)
    then show ?thesis using Cons.IH Cons by auto
  qed
qed

lemma map_res_Inr_map: "(\<And>x. x \<in> set xs \<Longrightarrow> f x = Inr (g x)) \<Longrightarrow> map_res f xs = Inr (map g xs)"
  by (induction xs) simp_all

lemma map_res_length: "map_res f xs = Inr ys \<Longrightarrow> length ys = length xs"
  by (simp add: res_simps list_all2_lengthD)

lemma map_res_i_length: "map_res_i f i xs = Inr ys \<Longrightarrow> length ys = length xs"
  by (simp add: res_simps)

lemma map_res_i_all:
  "map_res_i f i xs = Inr ys \<Longrightarrow> (\<And>k x y. f k x = Inr y \<Longrightarrow> P y) \<Longrightarrow> list_all P ys"
  by (auto simp: res_simps list_all_length)

lemma map_res_i_map:
  "(\<And>k x. x \<in> set xs \<Longrightarrow> f k (g x) = Inr x) \<Longrightarrow> map_res_i f i (map g xs) = Inr xs"
  by (induction xs arbitrary: i) simp_all

lemma fold_res_append:
  "fold_res f (xs @ ys) s = pbind (fold_res f xs s) (fold_res f ys)"
proof (induction xs arbitrary: s)
  case (Cons x xs)
  then have "fold_res f (xs @ ys) = (\<lambda>s. pbind (fold_res f xs s) (fold_res f ys))"
    by (simp add: fun_eq_iff)
  then show ?case by (simp add: pbind_assoc)
qed simp

lemma fold_res_invariant:
  assumes "fold_res f xs s = Inr t" and "P s"
    and "\<And>x s t. x \<in> set xs \<Longrightarrow> P s \<Longrightarrow> f x s = Inr t \<Longrightarrow> P t"
  shows "P t"
  using assms by (induction xs arbitrary: s) auto

text \<open>Which exceptions a computation may raise, composed along its structure.\<close>

definition errs_in :: "('e \<Rightarrow> bool) \<Rightarrow> 'e + 'a \<Rightarrow> bool" where
  "errs_in P m = (case m of Inl e \<Rightarrow> P e | Inr a \<Rightarrow> True)"

definition refusal :: "pyexc \<Rightarrow> bool" where
  "refusal e = (case e of InvalidRequest code msg \<Rightarrow> True | _ \<Rightarrow> False)"

lemma refusal_simps [simp]:
  "refusal (InvalidRequest code msg)" "\<not> refusal (ValueError m)" "\<not> refusal (TypeError m)"
  "\<not> refusal (KeyError m)" "\<not> refusal (AttributeError m)" "\<not> refusal OverflowError"
  "\<not> refusal ZeroDivisionError" "\<not> refusal (AssertionError m)"
  by (simp_all add: refusal_def)

lemma errs_in_simps [simp]:
  "errs_in P (Inl e) = P e" "errs_in P (Inr a)"
  by (simp_all add: errs_in_def)

lemma errs_in_iff: "errs_in P m \<longleftrightarrow> (\<forall>e. m = Inl e \<longrightarrow> P e)"
  by (cases m) simp_all

lemma errs_in_total: "\<exists>a. m = Inr a \<Longrightarrow> errs_in P m"
  by auto

lemma errs_in_mono: "errs_in P m \<Longrightarrow> (\<And>e. P e \<Longrightarrow> Q e) \<Longrightarrow> errs_in Q m"
  by (cases m) simp_all

lemma errs_in_pbind [err_intros]:
  "errs_in P m \<Longrightarrow> (\<And>a. m = Inr a \<Longrightarrow> errs_in P (f a)) \<Longrightarrow> errs_in P (pbind m f)"
  by (cases m) simp_all

lemma errs_in_if [err_intros]:
  "(b \<Longrightarrow> errs_in P m) \<Longrightarrow> (\<not> b \<Longrightarrow> errs_in P n) \<Longrightarrow> errs_in P (if b then m else n)"
  by simp

lemma errs_in_option [err_intros]:
  "(x = None \<Longrightarrow> errs_in P m) \<Longrightarrow> (\<And>y. x = Some y \<Longrightarrow> errs_in P (f y)) \<Longrightarrow>
   errs_in P (case x of None \<Rightarrow> m | Some y \<Rightarrow> f y)"
  by (cases x) simp_all

lemma errs_in_Let [err_intros]: "errs_in P (f a) \<Longrightarrow> errs_in P (Let a f)"
  by simp

lemma errs_in_map_res [err_intros]:
  "(\<And>x. x \<in> set xs \<Longrightarrow> errs_in P (f x)) \<Longrightarrow> errs_in P (map_res f xs)"
  by (induction xs) (auto intro!: errs_in_pbind)

lemma errs_in_map_res_i [err_intros]:
  "(\<And>k x. x \<in> set xs \<Longrightarrow> errs_in P (f k x)) \<Longrightarrow> errs_in P (map_res_i f i xs)"
  by (induction xs arbitrary: i) (auto intro!: errs_in_pbind)

lemma errs_in_fold_res:
  "(\<And>x s. x \<in> set xs \<Longrightarrow> errs_in P (f x s)) \<Longrightarrow> errs_in P (fold_res f xs s)"
  by (induction xs arbitrary: s) (auto intro!: errs_in_pbind)

section \<open>Text\<close>

definition digit_char :: "nat \<Rightarrow> char" where
  "digit_char n = ''0123456789'' ! n"

fun dec_nat :: "nat \<Rightarrow> string" where
  "dec_nat n = (if n < 10 then [digit_char n] else dec_nat (n div 10) @ [digit_char (n mod 10)])"

declare dec_nat.simps [simp del]

lemma dec_nat_not_Nil [simp]: "dec_nat n \<noteq> []"
  by (subst dec_nat.simps) simp

lemma dec_nat_length: "n < 10 ^ Suc k \<Longrightarrow> length (dec_nat n) \<le> Suc k"
proof (induction k arbitrary: n)
  case (Suc k)
  then have "n div 10 < 10 ^ Suc k" by (simp add: div_less_iff_less_mult)
  with Suc.IH [of "n div 10"] show ?case by (subst dec_nat.simps) simp
qed (simp add: dec_nat.simps)

lemma dec_nat_bounds: "n < 10 ^ length (dec_nat n) \<and> (0 < n \<longrightarrow> 10 ^ (length (dec_nat n) - 1) \<le> n)"
proof (induction n rule: dec_nat.induct)
  case (1 n)
  show ?case
  proof (cases "n < 10")
    case True
    then show ?thesis by (subst (1 2) dec_nat.simps) simp
  next
    case False
    define d where "d = dec_nat (n div 10)"
    have len: "length (dec_nat n) = Suc (length d)" using False by (subst dec_nat.simps) (simp add: d_def)
    have "n div 10 < 10 ^ length d" "10 ^ (length d - 1) \<le> n div 10" using 1 False by (simp_all add: d_def)
    moreover have "0 < length d" by (simp add: d_def)
    then have "(10 :: nat) ^ length d = 10 * 10 ^ (length d - 1)" by (cases "length d") simp_all
    moreover have "n < 10 * (10 * k) \<and> (0 < n \<longrightarrow> 10 * k \<le> n)" if "n div 10 < 10 * k" "k \<le> n div 10" for k
      using that by linarith
    ultimately show ?thesis by (simp add: len)
  qed
qed

definition dec_int :: "int \<Rightarrow> string" where
  "dec_int i = (if i < 0 then CHR ''-'' # dec_nat (nat (- i)) else dec_nat (nat i))"

definition ord :: "char \<Rightarrow> nat" where
  "ord c = of_char c"

text \<open>\<open>', '.join(parts)\<close>.\<close>

fun join :: "string \<Rightarrow> string list \<Rightarrow> string" where
  "join sep [] = []"
| "join sep [x] = x"
| "join sep (x # xs) = x @ sep @ join sep xs"

definition ascii_lower :: "char \<Rightarrow> bool" where
  "ascii_lower c = (c \<in> set ''abcdefghijklmnopqrstuvwxyz'')"

definition ascii_digit :: "char \<Rightarrow> bool" where
  "ascii_digit c = (c \<in> set ''0123456789'')"

definition lower_hex :: "char \<Rightarrow> bool" where
  "lower_hex c = (c \<in> set ''0123456789abcdef'')"

text \<open>\<open>sorted(set)\<close> of text orders by code point, which is the order of \<open>List_Lexorder\<close>.\<close>

definition sorted_texts :: "string list \<Rightarrow> string list" where
  "sorted_texts xs = sort (remdups xs)"

lemma set_sorted_texts [simp]: "set (sorted_texts xs) = set xs"
  by (simp add: sorted_texts_def)

lemma sorted_texts_Nil [simp]: "sorted_texts xs = [] \<longleftrightarrow> xs = []"
  by (metis set_sorted_texts set_empty)

text \<open>
  \<open>repr\<close> of a string: single quotes unless the text holds one and no double quote; backslash and
  the chosen quote escaped; control characters and the unprintable code points of Latin-1 written
  as escapes.
\<close>

definition hex_digit :: "nat \<Rightarrow> char" where
  "hex_digit n = ''0123456789abcdef'' ! n"

definition repr_char :: "char \<Rightarrow> char \<Rightarrow> string" where
  "repr_char q c =
     (if c = q \<or> c = CHR 0x5C then [CHR 0x5C, c]
      else if c = CHR 0x09 then [CHR 0x5C, CHR ''t'']
      else if c = CHR 0x0A then [CHR 0x5C, CHR ''n'']
      else if c = CHR 0x0D then [CHR 0x5C, CHR ''r'']
      else if ord c < 32 \<or> (127 \<le> ord c \<and> ord c \<le> 160) \<or> ord c = 173
      then [CHR 0x5C, CHR ''x'', hex_digit (ord c div 16), hex_digit (ord c mod 16)]
      else [c])"

definition repr_text :: "string \<Rightarrow> string" where
  "repr_text s =
     (let q = (if CHR 0x27 \<in> set s \<and> CHR 0x22 \<notin> set s then CHR 0x22 else CHR 0x27)
      in [q] @ concat (map (repr_char q) s) @ [q])"

text \<open>The first index of the greatest element, as \<open>max(range(n), key=xs.__getitem__)\<close> finds it.\<close>

fun argmax_from :: "('a \<Rightarrow> 'a \<Rightarrow> bool) \<Rightarrow> nat \<Rightarrow> 'a \<Rightarrow> nat \<Rightarrow> 'a list \<Rightarrow> nat" where
  "argmax_from gt best b i [] = best"
| "argmax_from gt best b i (x # xs) =
     (if gt b x then argmax_from gt i x (Suc i) xs else argmax_from gt best b (Suc i) xs)"

definition argmax :: "('a \<Rightarrow> 'a \<Rightarrow> bool) \<Rightarrow> 'a list \<Rightarrow> nat" where
  "argmax gt xs = (case xs of [] \<Rightarrow> 0 | x # ys \<Rightarrow> argmax_from gt 0 x 1 ys)"

lemma argmax_from_less:
  "best < i \<Longrightarrow> argmax_from gt best b i xs < i + length xs"
  by (induction gt best b i xs rule: argmax_from.induct) auto

lemma argmax_less: "xs \<noteq> [] \<Longrightarrow> argmax gt xs < length xs"
  using argmax_from_less [of 0 1 gt "hd xs" "tl xs"] by (cases xs) (auto simp: argmax_def)

section \<open>Slices\<close>

text \<open>
  \<open>take_last n xs\<close> is the last \<open>n\<close> elements; \<open>from_end n xs\<close> is the slice \<open>xs[-n:]\<close>, which for
  \<open>n = 0\<close> is the whole sequence.
\<close>

definition take_last :: "nat \<Rightarrow> 'a list \<Rightarrow> 'a list" where
  "take_last n xs = drop (length xs - n) xs"

definition from_end :: "nat \<Rightarrow> 'a list \<Rightarrow> 'a list" where
  "from_end n xs = (if n = 0 then xs else take_last n xs)"

lemma length_take_last [simp]: "length (take_last n xs) = min n (length xs)"
  by (simp add: take_last_def)

lemma take_last_all: "length xs \<le> n \<Longrightarrow> take_last n xs = xs"
  by (simp add: take_last_def)

lemma take_last_append: "take_last n (take_last n xs @ ys) = take_last n (xs @ ys)"
proof -
  have "length xs + length ys - (length xs - n + n) + (length xs - n) = length xs + length ys - n"
    by arith
  then show ?thesis by (simp add: take_last_def)
qed

lemma take_last_long: "n \<le> length ys \<Longrightarrow> take_last n (xs @ ys) = take_last n ys"
  by (simp add: take_last_def)

section \<open>Small list facts\<close>

lemma list_all_nth: "list_all P xs \<Longrightarrow> i < length xs \<Longrightarrow> P (xs ! i)"
  by (simp add: list_all_length)

lemma count_filter_le: "length (filter P xs) \<le> length xs"
  by simp

lemma length_filter_mono:
  "(\<And>x. x \<in> set xs \<Longrightarrow> P x \<Longrightarrow> Q x) \<Longrightarrow> length (filter P xs) \<le> length (filter Q xs)"
  by (induction xs) (auto simp: le_SucI)

end
