(* ===== verification/PyFloat.thy ===== *)
theory PyFloat
  imports Complex_Main Prelude
begin

text \<open>
  Python's \<open>float\<close>: IEEE 754 binary64 with rounding to nearest, ties to even.  A finite value is
  the rational number it denotes, so comparisons are comparisons of rationals and every arithmetic
  operation is the exact operation followed by \<open>round64\<close>.  The two zeros are one value.
  Addition, subtraction and multiplication follow IEEE on infinities and NaN; division by zero
  raises, as Python's does.
\<close>

datatype pyfloat = PFin rat | PInf (is_negative: bool) | PNaN

section \<open>Powers of two and binary exponents\<close>

definition pow2 :: "int \<Rightarrow> rat" where
  "pow2 e = (if 0 \<le> e then 2 ^ nat e else 1 / 2 ^ nat (- e))"

lemma pow2_powi: "pow2 e = 2 powi e"
  unfolding pow2_def power_int_def by (simp only: divide_inverse mult_1_left power_inverse)

lemma pow2_pos [simp]: "0 < pow2 e"
  by (simp add: pow2_def)

lemma pow2_nonneg [simp]: "0 \<le> pow2 e"
  using pow2_pos [of e] by linarith

lemma pow2_neq0 [simp]: "pow2 e \<noteq> 0"
  using pow2_pos [of e] by linarith

lemma pow2_add: "pow2 (a + b) = pow2 a * pow2 b"
  by (simp add: pow2_powi power_int_add)

lemma pow2_diff: "pow2 (a - b) = pow2 a / pow2 b"
  by (simp add: pow2_powi power_int_diff)

lemma pow2_0 [simp]: "pow2 0 = 1"
  by (simp add: pow2_def)

lemma pow2_1 [simp]: "pow2 1 = 2"
  by (simp add: pow2_def)

lemma pow2_le_iff [simp]: "pow2 a \<le> pow2 b \<longleftrightarrow> a \<le> b"
  unfolding pow2_powi
  using power_int_strict_increasing [of a b "2::rat"] power_int_strict_increasing [of b a "2::rat"]
  by (cases a b rule: linorder_cases) auto

lemma pow2_less_iff [simp]: "pow2 a < pow2 b \<longleftrightarrow> a < b"
  using pow2_le_iff [of b a] by linarith

lemma pow2_int: "0 \<le> e \<Longrightarrow> pow2 e = of_int (2 ^ nat e)"
  by (simp add: pow2_def)

text \<open>The number of binary digits of a natural number.\<close>

fun bits :: "nat \<Rightarrow> nat" where
  "bits n = (if n = 0 then 0 else Suc (bits (n div 2)))"

declare bits.simps [simp del]

lemma bits_bounds: "0 < n \<Longrightarrow> 2 ^ (bits n - 1) \<le> n \<and> n < 2 ^ bits n \<and> 0 < bits n"
proof (induction n rule: bits.induct)
  case (1 n)
  have eq: "bits n = Suc (bits (n div 2))"
    using "1.prems" by (simp add: bits.simps [of n])
  show ?case
  proof (cases "n div 2 = 0")
    case True
    then have "n = 1" using "1.prems" by linarith
    then show ?thesis using eq by (simp add: bits.simps [of 0])
  next
    case False
    with "1" have ih: "2 ^ (bits (n div 2) - 1) \<le> n div 2" "n div 2 < 2 ^ bits (n div 2)"
      "0 < bits (n div 2)" by auto
    have "(2::nat) ^ bits (n div 2) = 2 * 2 ^ (bits (n div 2) - 1)"
      using ih(3) by (metis power_eq_if nat_neq_iff)
    then show ?thesis using ih(1,2) unfolding eq by (simp, linarith)
  qed
qed

lemma bits_less: "n < 2 ^ bits n"
  using bits_bounds [of n] by (cases "n = 0") auto

text \<open>\<open>flog2 q\<close> is the integer part of the binary logarithm of a positive \<open>q\<close>.\<close>

definition flog2 :: "rat \<Rightarrow> int" where
  "flog2 q =
     (if 1 \<le> q then int (bits (nat \<lfloor>q\<rfloor>)) - 1 else - int (bits (nat (\<lceil>1 / q\<rceil> - 1))))"

lemma flog2_bounds_ge1:
  assumes "1 \<le> q"
  shows "pow2 (flog2 q) \<le> q \<and> q < pow2 (flog2 q + 1)"
proof -
  define n where "n = nat \<lfloor>q\<rfloor>"
  have n: "0 < n" and fl: "of_nat n \<le> q" "q < of_nat n + 1"
    using assms by (auto simp: n_def) linarith+
  from bits_bounds [OF n] have b: "2 ^ (bits n - 1) \<le> n" "n < 2 ^ bits n" "0 < bits n"
    by auto
  have e: "flog2 q = int (bits n) - 1"
    using assms by (simp add: flog2_def n_def)
  have "pow2 (flog2 q) = of_nat (2 ^ (bits n - 1))"
    using b(3) by (simp add: e pow2_def nat_diff_distrib')
  moreover have "(of_nat (2 ^ (bits n - 1)) :: rat) \<le> q"
    using b(1) fl(1) by (meson of_nat_le_iff order_trans)
  moreover have "pow2 (flog2 q + 1) = of_nat (2 ^ bits n)"
    by (simp add: e pow2_def)
  moreover have "(of_nat (n + 1) :: rat) \<le> of_nat (2 ^ bits n)"
    using b(2) by (intro of_nat_mono) simp
  then have "q < of_nat (2 ^ bits n)"
    using fl(2) by (metis less_le_trans of_nat_1 of_nat_add)
  ultimately show ?thesis by simp
qed

lemma flog2_bounds_lt1:
  assumes "0 < q" "q < 1"
  shows "pow2 (flog2 q) \<le> q \<and> q < pow2 (flog2 q + 1)"
proof -
  define r where "r = 1 / q"
  define n where "n = nat (\<lceil>r\<rceil> - 1)"
  have "1 < r" using assms by (simp add: r_def)
  then have n: "0 < n" and fl: "of_nat n < r" "r \<le> of_nat n + 1"
    by (auto simp: n_def) linarith+
  from bits_bounds [OF n] have b: "2 ^ (bits n - 1) \<le> n" "n < 2 ^ bits n" "0 < bits n"
    by auto
  have e: "flog2 q = - int (bits n)"
    using assms by (simp add: flog2_def n_def r_def)
  have q: "q = 1 / r" by (simp add: r_def)
  have p1: "pow2 (flog2 q) = 1 / of_nat (2 ^ bits n)"
    using b(3) by (simp add: e pow2_def)
  have "(of_nat (n + 1) :: rat) \<le> of_nat (2 ^ bits n)"
    using b(2) by (intro of_nat_mono) simp
  then have u: "r \<le> of_nat (2 ^ bits n)"
    using fl(2) by (metis order_trans of_nat_1 of_nat_add)
  have p2: "pow2 (flog2 q + 1) = 1 / of_nat (2 ^ (bits n - 1))"
    using b(3) by (cases "bits n = 1") (auto simp: e pow2_def nat_diff_distrib' intro: arg_cong)
  have l: "of_nat (2 ^ (bits n - 1)) < r"
    using b(1) fl(1) by (meson of_nat_le_iff le_less_trans)
  show ?thesis
    unfolding p1 p2 unfolding q using u l \<open>1 < r\<close>
    by (auto simp: field_simps)
qed

lemma flog2_bounds: "0 < q \<Longrightarrow> pow2 (flog2 q) \<le> q \<and> q < pow2 (flog2 q + 1)"
  using flog2_bounds_ge1 flog2_bounds_lt1 by (cases "1 \<le> q") auto

lemma flog2_less: "0 < q \<Longrightarrow> q < pow2 e \<Longrightarrow> flog2 q < e"
  using flog2_bounds [of q] pow2_less_iff by (meson le_less_trans)

lemma flog2_ge: "0 < q \<Longrightarrow> pow2 e \<le> q \<Longrightarrow> e \<le> flog2 q"
  using flog2_bounds [of q] pow2_less_iff [of e "flog2 q + 1"]
  by (smt (verit) le_less_trans)

lemma flog2_mono: "0 < q \<Longrightarrow> q \<le> r \<Longrightarrow> flog2 q \<le> flog2 r"
  using flog2_bounds [of q] by (intro flog2_ge) auto

section \<open>Rounding to an integer, ties to even\<close>

definition rhe :: "rat \<Rightarrow> int" where
  "rhe x =
     (let f = \<lfloor>x\<rfloor>; r = x - of_int f
      in if r < 1 / 2 then f else if 1 / 2 < r then f + 1 else if even f then f else f + 1)"

lemma rhe_cases: "rhe x = \<lfloor>x\<rfloor> \<or> rhe x = \<lfloor>x\<rfloor> + 1"
  by (auto simp: rhe_def Let_def)

lemma rhe_of_int [simp]: "rhe (of_int i) = i"
  by (simp add: rhe_def)

lemma rhe_0 [simp]: "rhe 0 = 0"
  using rhe_of_int [of 0] by simp

lemma rhe_bounds: "of_int (rhe x) - 1 / 2 \<le> x \<and> x \<le> of_int (rhe x) + 1 / 2"
  by (auto simp: rhe_def Let_def) linarith+

lemma rhe_mono: "x \<le> y \<Longrightarrow> rhe x \<le> rhe y"
proof (cases "\<lfloor>x\<rfloor> = \<lfloor>y\<rfloor>")
  case True
  assume "x \<le> y"
  then have "x - of_int \<lfloor>x\<rfloor> \<le> y - of_int \<lfloor>y\<rfloor>" using True by simp
  then show ?thesis using True by (auto simp: rhe_def Let_def)
next
  case False
  assume "x \<le> y"
  then have "\<lfloor>x\<rfloor> < \<lfloor>y\<rfloor>" using False floor_mono [of x y] by linarith
  then show ?thesis using rhe_cases [of x] rhe_cases [of y] by linarith
qed

lemma rhe_le_int: "x \<le> of_int n \<Longrightarrow> rhe x \<le> n"
  using rhe_mono [of x "of_int n"] by simp

lemma rhe_ge_int: "of_int n \<le> x \<Longrightarrow> n \<le> rhe x"
  using rhe_mono [of "of_int n" x] by simp

lemma rhe_minus: "rhe (- x) = - rhe x"
proof (cases "x = of_int \<lfloor>x\<rfloor>")
  case True
  then obtain i where i: "x = of_int i" by blast
  have "- x = of_int (- i)" using i by simp
  then show ?thesis using i rhe_of_int by metis
next
  case False
  then have "\<lfloor>- x\<rfloor> = - \<lfloor>x\<rfloor> - 1"
    by (smt (verit) ceiling_altdef floor_minus)
  then show ?thesis by (auto simp: rhe_def Let_def)
qed

section \<open>Rounding to binary64\<close>

text \<open>
  \<open>uexp q\<close> is the exponent of the unit in the last place at \<open>q\<close>: 52 below the binary exponent,
  and never below that of the least subnormal.  \<open>rnd\<close> rounds with an unbounded exponent;
  \<open>round64\<close> turns what reaches \<open>2 ^ 1024\<close> into an infinity.
\<close>

definition uexp :: "rat \<Rightarrow> int" where
  "uexp q = max (flog2 \<bar>q\<bar> - 52) (- 1074)"

definition rnd :: "rat \<Rightarrow> rat" where
  "rnd q = of_int (rhe (q / pow2 (uexp q))) * pow2 (uexp q)"

definition round64 :: "rat \<Rightarrow> pyfloat" where
  "round64 q = (if \<bar>rnd q\<bar> < pow2 1024 then PFin (rnd q) else PInf (q < 0))"

lemma uexp_minus [simp]: "uexp (- q) = uexp q"
  by (simp add: uexp_def)

lemma rnd_0 [simp]: "rnd 0 = 0"
  by (simp add: rnd_def)

lemma rnd_minus: "rnd (- q) = - rnd q"
proof -
  have "- q / pow2 (uexp q) = - (q / pow2 (uexp q))" by simp
  then show ?thesis unfolding rnd_def uexp_minus by (simp add: rhe_minus)
qed

lemma pow2_shift: "b \<le> a \<Longrightarrow> pow2 a / pow2 b = of_int (2 ^ nat (a - b))"
  using pow2_int [of "a - b"] by (simp add: pow2_diff)

lemma rnd_exact:
  assumes "uexp q \<le> j" and "q = of_int m * pow2 j"
  shows "rnd q = q"
proof -
  have "q / pow2 (uexp q) = of_int m * (pow2 j / pow2 (uexp q))"
    using assms(2) by simp
  also have "\<dots> = of_int (m * 2 ^ nat (j - uexp q))"
    by (simp only: pow2_shift [OF assms(1)] of_int_mult)
  finally have "rhe (q / pow2 (uexp q)) = m * 2 ^ nat (j - uexp q)"
    by (simp only: rhe_of_int)
  then have "rnd q = of_int m * (of_int (2 ^ nat (j - uexp q)) * pow2 (uexp q))"
    unfolding rnd_def by simp
  also have "\<dots> = of_int m * (pow2 j / pow2 (uexp q) * pow2 (uexp q))"
    by (simp only: pow2_shift [OF assms(1)])
  finally show ?thesis using assms(2) by simp
qed

lemma rnd_small_mantissa:
  assumes "\<bar>m\<bar> < 2 ^ 53" and "- 1074 \<le> k"
  shows "rnd (of_int m * pow2 k) = of_int m * pow2 k"
proof (cases "m = 0")
  case False
  let ?q = "of_int m * pow2 k"
  have "\<bar>?q\<bar> = of_int \<bar>m\<bar> * pow2 k" by (simp add: abs_mult)
  also have "\<dots> < of_int (2 ^ 53) * pow2 k"
    using assms(1) by (intro mult_strict_right_mono) (simp_all only: of_int_less_iff pow2_pos)
  also have "\<dots> = pow2 (53 + k)" using pow2_int [of 53] by (simp add: pow2_add)
  finally have "flog2 \<bar>?q\<bar> < 53 + k" using False by (intro flog2_less) auto
  then have "uexp ?q \<le> k" using assms(2) by (simp add: uexp_def)
  then show ?thesis by (rule rnd_exact) simp
qed simp

lemma rnd_fixed:
  assumes "\<bar>m\<bar> \<le> 2 ^ 53" and "- 1074 \<le> k"
  shows "rnd (of_int m * pow2 k) = of_int m * pow2 k"
proof (cases "\<bar>m\<bar> = 2 ^ 53")
  case True
  have eq: "of_int m * pow2 k = of_int (sgn m * 2 ^ 52) * pow2 (k + 1)"
  proof (cases "0 \<le> m")
    case False
    then have m: "m = - (2 ^ 53)" using True by simp
    then show ?thesis by (simp add: pow2_add)
  qed (use True in \<open>auto simp: pow2_add sgn_if\<close>)
  have "\<bar>sgn m * 2 ^ 52\<bar> < 2 ^ 53" by (simp add: abs_mult sgn_if)
  then show ?thesis unfolding eq using assms(2) by (intro rnd_small_mantissa) auto
next
  case False
  with assms show ?thesis by (intro rnd_small_mantissa) auto
qed

lemma pow2_fixed: "- 1074 \<le> k \<Longrightarrow> rnd (pow2 k) = pow2 k"
  using rnd_fixed [of 1 k] by simp

lemma rnd_scaled_less: "q \<noteq> 0 \<Longrightarrow> \<bar>q\<bar> < of_int (2 ^ 53) * pow2 (uexp q)"
proof -
  assume "q \<noteq> 0"
  then have "\<bar>q\<bar> < pow2 (flog2 \<bar>q\<bar> + 1)" using flog2_bounds [of "\<bar>q\<bar>"] by simp
  also have "\<dots> \<le> pow2 (53 + uexp q)" by (simp add: uexp_def)
  finally show ?thesis using pow2_int [of 53] by (simp add: pow2_add)
qed

lemma rnd_form: "\<exists>m k. rnd q = of_int m * pow2 k \<and> \<bar>m\<bar> \<le> 2 ^ 53 \<and> - 1074 \<le> k"
proof (intro exI conjI)
  let ?x = "q / pow2 (uexp q)"
  show "rnd q = of_int (rhe ?x) * pow2 (uexp q)" by (simp add: rnd_def)
  show "- 1074 \<le> uexp q" by (simp add: uexp_def)
  have "\<bar>?x\<bar> \<le> of_int (2 ^ 53)"
  proof (cases "q = 0")
    case False
    then show ?thesis using rnd_scaled_less [of q]
      by (simp add: abs_divide pos_divide_le_eq less_imp_le del: of_int_power)
  qed simp
  then have "?x \<le> of_int (2 ^ 53)" and "of_int (- (2 ^ 53)) \<le> ?x"
    by (simp_all only: abs_le_iff of_int_minus minus_le_iff)
  then have "rhe ?x \<le> 2 ^ 53" and "- (2 ^ 53) \<le> rhe ?x"
    by (blast intro: rhe_le_int rhe_ge_int)+
  then show "\<bar>rhe ?x\<bar> \<le> 2 ^ 53" by simp
qed

lemma rnd_idem [simp]: "rnd (rnd q) = rnd q"
  using rnd_form [of q] rnd_fixed by metis

lemma rnd_mono_pos:
  assumes "0 < q" and "q \<le> r"
  shows "rnd q \<le> rnd r"
proof (cases "uexp q = uexp r")
  case True
  have "q / pow2 (uexp q) \<le> r / pow2 (uexp q)"
    using assms by (simp add: divide_right_mono)
  then have "of_int (rhe (q / pow2 (uexp q))) \<le> (of_int (rhe (r / pow2 (uexp q))) :: rat)"
    by (intro of_int_le_iff [THEN iffD2] rhe_mono)
  then show ?thesis unfolding rnd_def True by (intro mult_right_mono) auto
next
  case False
  let ?e = "flog2 r"
  have "flog2 q \<le> flog2 r" using assms by (rule flog2_mono)
  then have er: "uexp r = ?e - 52" and lt: "uexp q < uexp r" and fl: "flog2 q < ?e"
    using False assms by (auto simp: uexp_def max_def split: if_splits)
  have j: "uexp q \<le> ?e" using lt er by simp
  have "q < pow2 (flog2 q + 1)" using flog2_bounds assms by blast
  also have "\<dots> \<le> pow2 ?e" using fl by simp
  finally have "q / pow2 (uexp q) \<le> pow2 ?e / pow2 (uexp q)"
    by (intro divide_right_mono) auto
  then have "rhe (q / pow2 (uexp q)) \<le> 2 ^ nat (?e - uexp q)"
    unfolding pow2_shift [OF j] by (rule rhe_le_int)
  then have "rnd q \<le> of_int (2 ^ nat (?e - uexp q)) * pow2 (uexp q)"
    unfolding rnd_def by (intro mult_right_mono of_int_le_iff [THEN iffD2]) auto
  also have "\<dots> = pow2 ?e" by (simp only: pow2_shift [OF j, symmetric]) simp
  finally have 1: "rnd q \<le> pow2 ?e" .
  have k: "uexp r \<le> ?e" using er by simp
  have "pow2 ?e / pow2 (uexp r) \<le> r / pow2 (uexp r)"
    using flog2_bounds [of r] assms by (intro divide_right_mono) auto
  then have "2 ^ nat (?e - uexp r) \<le> rhe (r / pow2 (uexp r))"
    unfolding pow2_shift [OF k] by (rule rhe_ge_int)
  then have "of_int (2 ^ nat (?e - uexp r)) * pow2 (uexp r) \<le> rnd r"
    unfolding rnd_def by (intro mult_right_mono of_int_le_iff [THEN iffD2]) auto
  moreover have "of_int (2 ^ nat (?e - uexp r)) * pow2 (uexp r) = pow2 ?e"
    by (simp only: pow2_shift [OF k, symmetric]) simp
  ultimately show ?thesis using 1 by linarith
qed

lemma rnd_nonneg: "0 \<le> q \<Longrightarrow> 0 \<le> rnd q"
proof -
  assume "0 \<le> q"
  then have "of_int 0 \<le> q / pow2 (uexp q)" by simp
  then have "0 \<le> rhe (q / pow2 (uexp q))" by (rule rhe_ge_int)
  then show ?thesis by (simp add: rnd_def)
qed

lemma rnd_nonpos: "q \<le> 0 \<Longrightarrow> rnd q \<le> 0"
  using rnd_nonneg [of "- q"] by (simp add: rnd_minus)

lemma rnd_mono: "q \<le> r \<Longrightarrow> rnd q \<le> rnd r"
proof (cases "0 < q")
  case True
  assume "q \<le> r"
  with True show ?thesis by (rule rnd_mono_pos)
next
  case False
  assume le: "q \<le> r"
  show ?thesis
  proof (cases "r < 0")
    case True
    then have "rnd (- r) \<le> rnd (- q)" using le by (intro rnd_mono_pos) auto
    then show ?thesis by (simp add: rnd_minus)
  next
    assume "\<not> r < 0"
    then show ?thesis using False rnd_nonpos [of q] rnd_nonneg [of r] by linarith
  qed
qed

lemma rnd_grid: "rnd q = q \<Longrightarrow> \<exists>m. q = of_int m * pow2 (- 1074)"
proof -
  assume q: "rnd q = q"
  obtain m k where mk: "rnd q = of_int m * pow2 k" "- 1074 \<le> k"
    using rnd_form [of q] by blast
  have "pow2 k = of_int (2 ^ nat (k + 1074)) * pow2 (- 1074)"
    using pow2_shift [OF mk(2)] by (simp add: field_simps)
  then have "q = of_int (m * 2 ^ nat (k + 1074)) * pow2 (- 1074)"
    using mk(1) q by simp
  then show ?thesis by blast
qed

lemma rnd_separates:
  assumes "rnd a = a" "rnd b = b" "b < a"
  shows "0 < rnd (a - b)"
proof -
  obtain m n where mn: "a = of_int m * pow2 (- 1074)" "b = of_int n * pow2 (- 1074)"
    using rnd_grid assms(1,2) by meson
  then have "of_int n < (of_int m :: rat)"
    using assms(3) by (simp add: mult_less_cancel_right)
  then have "1 \<le> m - n" by simp
  then have "(1::rat) \<le> of_int (m - n)" by simp
  then have "1 * pow2 (- 1074) \<le> of_int (m - n) * pow2 (- 1074)"
    by (intro mult_right_mono) auto
  then have "pow2 (- 1074) \<le> a - b" unfolding mn by (simp add: algebra_simps)
  then have "rnd (pow2 (- 1074)) \<le> rnd (a - b)" by (rule rnd_mono)
  then have "pow2 (- 1074) \<le> rnd (a - b)" by (simp add: pow2_fixed)
  then show ?thesis using pow2_pos [of "- 1074"] by linarith
qed

section \<open>The rounding contract\<close>

text \<open>
  What the clients of the arithmetic rely on: rounding is monotone, leaves binary64 values alone
  and separates distinct ones.  The sign of a rounded difference therefore decides the comparison
  of its operands, and a ratio of a smaller by a larger magnitude stays in the unit interval.
\<close>

locale faithful_rounding =
  fixes r :: "rat \<Rightarrow> rat"
  assumes r_mono: "q \<le> q' \<Longrightarrow> r q \<le> r q'"
    and r_zero: "r 0 = 0"
    and r_one: "r 1 = 1"
    and r_minus: "r (- q) = - r q"
    and r_separates: "r a = a \<Longrightarrow> r b = b \<Longrightarrow> b < a \<Longrightarrow> 0 < r (a - b)"
begin

lemma nonneg: "0 \<le> q \<Longrightarrow> 0 \<le> r q"
  using r_mono [of 0 q] by (simp add: r_zero)

lemma unit_interval: "0 \<le> q \<Longrightarrow> q \<le> 1 \<Longrightarrow> 0 \<le> r q \<and> r q \<le> 1"
  using nonneg r_mono [of q 1] by (simp add: r_one)

lemma diff_less_iff: "r a = a \<Longrightarrow> r b = b \<Longrightarrow> r (a - b) < 0 \<longleftrightarrow> a < b"
  using r_separates [of b a] r_minus [of "b - a"] nonneg [of "a - b"]
  by (cases "a < b") auto

lemma diff_eq_iff: "r a = a \<Longrightarrow> r b = b \<Longrightarrow> r (a - b) = 0 \<longleftrightarrow> a = b"
  using r_separates [of b a] r_separates [of a b] r_minus [of "b - a"] r_zero
  by (cases a b rule: linorder_cases) auto

lemma diff_le_iff: "r a = a \<Longrightarrow> r b = b \<Longrightarrow> r (a - b) \<le> 0 \<longleftrightarrow> a \<le> b"
  using diff_less_iff [of a b] diff_eq_iff [of a b] by auto

end

interpretation f64: faithful_rounding rnd
  using rnd_mono rnd_minus rnd_separates pow2_fixed [of 0] by unfold_locales simp_all

section \<open>Operations\<close>

definition is_finite :: "pyfloat \<Rightarrow> bool" where
  "is_finite x = (case x of PFin q \<Rightarrow> True | _ \<Rightarrow> False)"

text \<open>A value of the type denotes a Python float when rounding leaves it alone.\<close>

definition f64 :: "pyfloat \<Rightarrow> bool" where
  "f64 x = (case x of PFin q \<Rightarrow> round64 q = PFin q | _ \<Rightarrow> True)"

definition finite64 :: "pyfloat \<Rightarrow> bool" where
  "finite64 x = (case x of PFin q \<Rightarrow> round64 q = PFin q | _ \<Rightarrow> False)"

text \<open>The rational a finite float denotes.\<close>

primrec fval :: "pyfloat \<Rightarrow> rat" where
  "fval (PFin q) = q"
| "fval (PInf n) = 0"
| "fval PNaN = 0"

primrec fneg :: "pyfloat \<Rightarrow> pyfloat" where
  "fneg (PFin q) = PFin (- q)"
| "fneg (PInf n) = PInf (\<not> n)"
| "fneg PNaN = PNaN"

primrec fabs :: "pyfloat \<Rightarrow> pyfloat" where
  "fabs (PFin q) = PFin \<bar>q\<bar>"
| "fabs (PInf n) = PInf False"
| "fabs PNaN = PNaN"

fun fadd :: "pyfloat \<Rightarrow> pyfloat \<Rightarrow> pyfloat" where
  "fadd (PFin a) (PFin b) = round64 (a + b)"
| "fadd PNaN y = PNaN"
| "fadd x PNaN = PNaN"
| "fadd (PInf m) (PInf n) = (if m = n then PInf m else PNaN)"
| "fadd (PInf m) (PFin b) = PInf m"
| "fadd (PFin a) (PInf n) = PInf n"

definition fsub :: "pyfloat \<Rightarrow> pyfloat \<Rightarrow> pyfloat" where
  "fsub x y = fadd x (fneg y)"

fun fmul :: "pyfloat \<Rightarrow> pyfloat \<Rightarrow> pyfloat" where
  "fmul (PFin a) (PFin b) = round64 (a * b)"
| "fmul PNaN y = PNaN"
| "fmul x PNaN = PNaN"
| "fmul (PInf m) (PInf n) = PInf (m \<noteq> n)"
| "fmul (PInf m) (PFin b) = (if b = 0 then PNaN else PInf (m \<noteq> (b < 0)))"
| "fmul (PFin a) (PInf n) = (if a = 0 then PNaN else PInf (n \<noteq> (a < 0)))"

fun fdiv :: "pyfloat \<Rightarrow> pyfloat \<Rightarrow> pyfloat pyres" where
  "fdiv x (PFin b) =
     (if b = 0 then Inl ZeroDivisionError
      else (case x of PFin a \<Rightarrow> Inr (round64 (a / b))
            | PInf m \<Rightarrow> Inr (PInf (m \<noteq> (b < 0)))
            | PNaN \<Rightarrow> Inr PNaN))"
| "fdiv x (PInf n) = (case x of PFin a \<Rightarrow> Inr (PFin 0) | _ \<Rightarrow> Inr PNaN)"
| "fdiv x PNaN = Inr PNaN"

fun flt :: "pyfloat \<Rightarrow> pyfloat \<Rightarrow> bool" where
  "flt (PFin a) (PFin b) = (a < b)"
| "flt PNaN y = False"
| "flt x PNaN = False"
| "flt (PInf m) (PInf n) = (m \<and> \<not> n)"
| "flt (PInf m) (PFin b) = m"
| "flt (PFin a) (PInf n) = (\<not> n)"

definition feq :: "pyfloat \<Rightarrow> pyfloat \<Rightarrow> bool" where
  "feq x y = (x = y \<and> x \<noteq> PNaN)"

definition fle :: "pyfloat \<Rightarrow> pyfloat \<Rightarrow> bool" where
  "fle x y = (flt x y \<or> feq x y)"

text \<open>The built-ins \<open>max(a, b)\<close> and \<open>min(a, b)\<close>: the first argument wins ties.\<close>

definition fmax :: "pyfloat \<Rightarrow> pyfloat \<Rightarrow> pyfloat" where
  "fmax x y = (if flt x y then y else x)"

definition fmin :: "pyfloat \<Rightarrow> pyfloat \<Rightarrow> pyfloat" where
  "fmin x y = (if flt y x then y else x)"

text \<open>\<open>float(i)\<close> of an unbounded integer.\<close>

definition float_of_int :: "int \<Rightarrow> pyfloat pyres" where
  "float_of_int i = (if is_finite (round64 (of_int i)) then Inr (round64 (of_int i)) else Inl OverflowError)"

lemma is_finite_simps [simp]:
  "is_finite (PFin q)" "\<not> is_finite (PInf n)" "\<not> is_finite PNaN"
  by (simp_all add: is_finite_def)

lemma is_finite_iff: "is_finite x \<longleftrightarrow> (\<exists>q. x = PFin q)"
  by (cases x) auto

lemma finite64_simps [simp]:
  "\<not> finite64 (PInf n)" "\<not> finite64 PNaN"
  by (simp_all add: finite64_def)

lemma finite64_is_finite: "finite64 x \<Longrightarrow> is_finite x"
  by (cases x) (simp_all add: finite64_def)

lemma finite64_PFin: "finite64 x \<Longrightarrow> x = PFin (fval x)"
  by (cases x) simp_all

lemma finite64_rnd: "finite64 (PFin q) \<longleftrightarrow> rnd q = q \<and> \<bar>q\<bar> < pow2 1024"
  by (auto simp: finite64_def round64_def)

lemma finite64_fval: "finite64 x \<Longrightarrow> rnd (fval x) = fval x"
  by (cases x) (simp_all add: finite64_rnd)

lemma f64_finite64: "finite64 x \<longleftrightarrow> f64 x \<and> is_finite x"
  by (cases x) (simp_all add: finite64_def f64_def)

lemma round64_f64 [simp]: "f64 (round64 q)"
  by (simp add: f64_def round64_def)

lemma round64_finite64: "is_finite (round64 q) \<longleftrightarrow> finite64 (round64 q)"
  by (simp add: f64_finite64)

lemma round64_eq_PFin: "round64 q = PFin v \<Longrightarrow> v = rnd q"
  by (simp add: round64_def split: if_splits)

lemma round64_unit: "0 \<le> q \<Longrightarrow> q \<le> 1 \<Longrightarrow> round64 q = PFin (rnd q)"
proof -
  assume "0 \<le> q" "q \<le> 1"
  then have "\<bar>rnd q\<bar> \<le> 1" using f64.unit_interval [of q] by simp
  also have "(1 :: rat) < pow2 1024" using pow2_less_iff [of 0 1024] by simp
  finally show ?thesis by (simp add: round64_def)
qed

lemma feq_fin [simp]: "feq (PFin a) (PFin b) \<longleftrightarrow> a = b"
  by (simp add: feq_def)

lemma fle_fin [simp]: "fle (PFin a) (PFin b) \<longleftrightarrow> a \<le> b"
  by (auto simp: fle_def)

lemma fadd_f64 [simp]: "f64 (fadd x y) \<or> fadd x y = PNaN"
  by (induction x y rule: fadd.induct) (simp_all add: f64_def [of "PInf _"])

lemma fadd_f64' [simp]: "f64 (fadd x y)"
  using fadd_f64 [of x y] by (auto simp: f64_def)

lemma fsub_f64 [simp]: "f64 (fsub x y)"
  by (simp add: fsub_def)

lemma fmul_f64 [simp]: "f64 (fmul x y)"
  by (induction x y rule: fmul.induct) (simp_all add: f64_def [of "PInf _"] f64_def [of PNaN])

lemma f64_PFin_0: "f64 (PFin 0)"
  by (simp add: f64_def round64_def)

lemma fdiv_f64: "fdiv x y = Inr z \<Longrightarrow> f64 z"
  by (induction x y rule: fdiv.induct)
    (auto simp: f64_def [of "PInf _"] f64_def [of PNaN] f64_PFin_0 split: if_splits pyfloat.splits)

lemma fneg_finite64 [simp]: "finite64 (fneg x) = finite64 x"
  by (cases x) (simp_all add: finite64_rnd rnd_minus)

lemma fabs_finite64: "finite64 x \<Longrightarrow> finite64 (fabs x)"
  by (cases x) (simp_all add: finite64_rnd abs_if rnd_minus)

lemma finite64_of_int: "\<bar>i\<bar> \<le> 2 ^ 53 \<Longrightarrow> finite64 (PFin (of_int i))"
proof -
  assume i: "\<bar>i\<bar> \<le> 2 ^ 53"
  then have "\<bar>of_int i\<bar> \<le> (of_int (2 ^ 53) :: rat)" by (metis of_int_abs of_int_le_iff)
  also have "\<dots> = pow2 53" by (simp add: pow2_int)
  also have "\<dots> < pow2 1024" by simp
  finally show ?thesis using rnd_fixed [OF i, of 0] by (simp add: finite64_rnd)
qed

lemma finite64_0 [simp]: "finite64 (PFin 0)"
  using finite64_of_int [of 0] by simp

lemma finite64_1 [simp]: "finite64 (PFin 1)"
  using finite64_of_int [of 1] by simp

lemma finite64_numeral:
  assumes "(numeral w :: int) \<le> 2 ^ 53"
  shows "finite64 (PFin (numeral w))"
proof -
  have "\<bar>numeral w :: int\<bar> \<le> 2 ^ 53" using assms by (simp only: abs_numeral)
  from finite64_of_int [OF this] show ?thesis by (simp only: of_int_numeral)
qed

lemma float_of_int_finite64: "float_of_int i = Inr x \<Longrightarrow> finite64 x"
  by (auto simp: float_of_int_def round64_finite64 split: if_splits)

lemma round64_finite64_id: "finite64 x \<Longrightarrow> round64 (fval x) = x"
  by (cases x) (simp_all add: finite64_def)

lemma round64_0 [simp]: "round64 0 = PFin 0"
  using finite64_0 by (simp add: finite64_def del: finite64_0)

lemma round64_of_int: "\<bar>i\<bar> \<le> 2 ^ 53 \<Longrightarrow> round64 (of_int i) = PFin (of_int i)"
  using round64_finite64_id [OF finite64_of_int] by simp

text \<open>The sign of a finite difference is the order of its operands.\<close>

lemma fsub_fin:
  "finite64 x \<Longrightarrow> finite64 y \<Longrightarrow> is_finite (fsub x y) \<Longrightarrow> fsub x y = PFin (rnd (fval x - fval y))"
  by (cases x; cases y) (auto simp: fsub_def round64_def split: if_splits)

lemma fsub_sign:
  assumes "finite64 x" "finite64 y" "is_finite (fsub x y)"
  shows "fval (fsub x y) < 0 \<longleftrightarrow> flt x y"
    and "fval (fsub x y) = 0 \<longleftrightarrow> x = y"
proof -
  obtain a b where ab: "x = PFin a" "y = PFin b"
    using assms(1,2) finite64_PFin by blast
  have r: "rnd a = a" "rnd b = b" using assms(1,2) ab by (simp_all add: finite64_rnd)
  have v: "fval (fsub x y) = rnd (a - b)" using fsub_fin [OF assms] ab by simp
  show "fval (fsub x y) < 0 \<longleftrightarrow> flt x y"
    unfolding v unfolding ab using f64.diff_less_iff [OF r] by simp
  show "fval (fsub x y) = 0 \<longleftrightarrow> x = y"
    unfolding v unfolding ab using f64.diff_eq_iff [OF r] by simp
qed

section \<open>Exact summation and square roots\<close>

text \<open>
  \<open>math.fsum\<close>: the running sum is kept as a list of partials, exact because the rounding error
  of each addition is itself kept; the result is the correctly rounded total.  A finite summand
  whose insertion overflows raises; infinite or NaN summands decide the result by themselves.
\<close>

fun grow :: "rat \<Rightarrow> rat list \<Rightarrow> (rat \<times> rat list) option" where
  "grow x [] = Some (x, [])"
| "grow x (y # ys) =
     (case round64 (x + y) of
        PFin hi \<Rightarrow>
          (let lo = x + y - hi
           in case grow hi ys of
                None \<Rightarrow> None
              | Some (hd0, rest) \<Rightarrow> Some (hd0, if lo = 0 then rest else lo # rest))
      | _ \<Rightarrow> None)"

definition add_partial :: "rat \<Rightarrow> rat list \<Rightarrow> rat list pyres" where
  "add_partial x ps =
     (case grow x ps of
        None \<Rightarrow> Inl OverflowError
      | Some (hd0, rest) \<Rightarrow> Inr (if hd0 = 0 then rest else rest @ [hd0]))"

fun fsum_loop :: "pyfloat list \<Rightarrow> rat list \<Rightarrow> pyfloat \<Rightarrow> pyfloat \<Rightarrow> pyfloat pyres" where
  "fsum_loop [] ps special infs =
     (if special \<noteq> PFin 0
      then (if infs = PNaN then Inl (ValueError ''-inf + inf in fsum'') else Inr special)
      else Inr (round64 (sum_list ps)))"
| "fsum_loop (PFin q # xs) ps special infs =
     pbind (add_partial q ps) (\<lambda>ps'. fsum_loop xs ps' special infs)"
| "fsum_loop (PInf n # xs) ps special infs =
     fsum_loop xs [] (fadd special (PInf n)) (fadd infs (PInf n))"
| "fsum_loop (PNaN # xs) ps special infs = fsum_loop xs [] PNaN infs"

definition fsum :: "pyfloat list \<Rightarrow> pyfloat pyres" where
  "fsum xs = fsum_loop xs [] (PFin 0) (PFin 0)"

lemma grow_sum: "grow x ps = Some (hd0, rest) \<Longrightarrow> hd0 + sum_list rest = x + sum_list ps"
  by (induction x ps arbitrary: hd0 rest rule: grow.induct)
    (fastforce simp: Let_def split: pyfloat.splits option.splits prod.splits if_splits)+

lemma add_partial_sum: "add_partial x ps = Inr ps' \<Longrightarrow> sum_list ps' = x + sum_list ps"
  using grow_sum
  by (fastforce simp: add_partial_def split: option.splits prod.splits if_splits)

text \<open>On finite summands the result is the rounding of the exact sum.\<close>

lemma fsum_loop_exact:
  "list_all is_finite xs \<Longrightarrow> fsum_loop xs ps (PFin 0) (PFin 0) = Inr r \<Longrightarrow>
   r = round64 (sum_list ps + sum_list (map fval xs))"
proof (induction xs arbitrary: ps)
  case Nil
  then show ?case by simp
next
  case (Cons x xs)
  obtain q where q: "x = PFin q" using Cons.prems(1) by (auto simp: is_finite_iff)
  obtain ps' where "add_partial q ps = Inr ps'" and "fsum_loop xs ps' (PFin 0) (PFin 0) = Inr r"
    using Cons.prems(2) by (auto simp: q)
  then show ?case
    using Cons.IH [of ps'] Cons.prems(1) by (simp add: q add_partial_sum algebra_simps)
qed

lemma fsum_exact:
  "list_all is_finite xs \<Longrightarrow> fsum xs = Inr r \<Longrightarrow> r = round64 (sum_list (map fval xs))"
  using fsum_loop_exact [of xs "[]" r] by (simp add: fsum_def)

lemma fsum_loop_f64:
  "fsum_loop xs ps sp infs = Inr r \<Longrightarrow> f64 sp \<Longrightarrow> f64 r"
  by (induction xs ps sp infs rule: fsum_loop.induct)
    (auto split: if_splits simp: f64_def [of PNaN])

lemma fsum_f64: "fsum xs = Inr r \<Longrightarrow> f64 r"
  using fsum_loop_f64 [of xs "[]" "PFin 0" "PFin 0" r] by (simp add: fsum_def f64_PFin_0)

text \<open>\<open>math.sqrt\<close>, correctly rounded: an integer square root at the exponent of the result.\<close>

fun isqrt_bits :: "nat \<Rightarrow> int \<Rightarrow> int \<Rightarrow> int" where
  "isqrt_bits 0 t a = a"
| "isqrt_bits (Suc b) t a =
     (let c = a + 2 ^ b in if c * c \<le> t then isqrt_bits b t c else isqrt_bits b t a)"

definition isqrt :: "int \<Rightarrow> int" where
  "isqrt t = isqrt_bits (bits (nat t) div 2 + 1) t 0"

definition fsqrt :: "pyfloat \<Rightarrow> pyfloat pyres" where
  "fsqrt x =
     (case x of
        PFin q \<Rightarrow>
          (if q < 0 then Inl (ValueError ''math domain error'')
           else if q = 0 then Inr (PFin 0)
           else (let k = flog2 q div 2 - 52;
                     s = q / pow2 (2 * k);
                     m = isqrt \<lfloor>s\<rfloor>;
                     h = of_int m + 1 / 2
                 in Inr (PFin (of_int (if h * h < s \<or> (h * h = s \<and> odd m) then m + 1 else m)
                               * pow2 k))))
      | PInf n \<Rightarrow> (if n then Inl (ValueError ''math domain error'') else Inr (PInf False))
      | PNaN \<Rightarrow> Inr PNaN)"

lemma isqrt_bits_bounds:
  "0 \<le> a \<Longrightarrow> a * a \<le> t \<Longrightarrow> t < (a + 2 ^ b) * (a + 2 ^ b) \<Longrightarrow>
   0 \<le> isqrt_bits b t a \<and> isqrt_bits b t a * isqrt_bits b t a \<le> t \<and>
   t < (isqrt_bits b t a + 1) * (isqrt_bits b t a + 1)"
proof (induction b arbitrary: a)
  case (Suc b)
  let ?c = "a + 2 ^ b"
  have e: "a + 2 ^ Suc b = ?c + 2 ^ b" by simp
  show ?case
  proof (cases "?c * ?c \<le> t")
    case True
    have "0 \<le> ?c" using Suc.prems(1) by simp
    from Suc.IH [OF this True] Suc.prems(3)[unfolded e] show ?thesis
      using True by (simp add: Let_def)
  next
    case False
    then have "t < (a + 2 ^ b) * (a + 2 ^ b)" by simp
    from Suc.IH [OF Suc.prems(1,2) this] show ?thesis using False by (simp add: Let_def)
  qed
qed simp

text \<open>The integer square root is the greatest integer whose square does not exceed the argument.\<close>

lemma isqrt_bounds:
  assumes "0 \<le> t"
  shows "0 \<le> isqrt t \<and> isqrt t * isqrt t \<le> t \<and> t < (isqrt t + 1) * (isqrt t + 1)"
proof -
  let ?b = "bits (nat t) div 2 + 1"
  have "nat t < 2 ^ bits (nat t)" by (rule bits_less)
  also have "\<dots> \<le> 2 ^ (?b + ?b)" by (intro power_increasing) auto
  finally have "int (nat t) < int (2 ^ (?b + ?b))" by (simp only: of_nat_less_iff)
  then have "t < 2 ^ ?b * 2 ^ ?b" using assms by (simp only: power_add) simp
  then show ?thesis
    unfolding isqrt_def using assms by (intro isqrt_bits_bounds) simp_all
qed

end
