(* ===== verification/PyValue.thy ===== *)
theory PyValue
  imports PyFloat
begin

text \<open>
  Python values as the JSON-facing modules see them, dictionary access, and the shape checks the
  modules build their validators from.  A dictionary is an association list in insertion order;
  \<open>dget\<close> is \<open>dict.get\<close>, which is also what \<open>d[k]\<close> returns once the key is known to be
  present.  \<open>VOther\<close> stands for a value of any further type, named by its type.
\<close>

section \<open>Values\<close>

datatype pyval =
    VNone
  | VBool bool
  | VInt int
  | VFloat pyfloat
  | VStr string
  | VList "pyval list"
  | VTuple "pyval list"
  | VDict "(pyval \<times> pyval) list"
  | VOther string

type_synonym pydict = "(pyval \<times> pyval) list"

fun type_name :: "pyval \<Rightarrow> string" where
  "type_name VNone = ''NoneType''"
| "type_name (VBool b) = ''bool''"
| "type_name (VInt i) = ''int''"
| "type_name (VFloat x) = ''float''"
| "type_name (VStr s) = ''str''"
| "type_name (VList xs) = ''list''"
| "type_name (VTuple xs) = ''tuple''"
| "type_name (VDict d) = ''dict''"
| "type_name (VOther t) = t"

text \<open>Lists and dictionaries cannot be members of a set: testing them there raises.\<close>

fun hashable :: "pyval \<Rightarrow> bool" where
  "hashable (VList xs) = False"
| "hashable (VDict d) = False"
| "hashable (VTuple xs) = list_all hashable xs"
| "hashable v = True"

primrec is_str :: "pyval \<Rightarrow> bool" where
  "is_str VNone = False"
| "is_str (VBool b) = False"
| "is_str (VInt i) = False"
| "is_str (VFloat x) = False"
| "is_str (VStr s) = True"
| "is_str (VList xs) = False"
| "is_str (VTuple xs) = False"
| "is_str (VDict d) = False"
| "is_str (VOther t) = False"

text \<open>\<open>isinstance(value, Mapping)\<close> and a sequence other than text or bytes, as partial views.\<close>

definition as_dict :: "pyval \<Rightarrow> pydict option" where
  "as_dict v = (case v of VDict d \<Rightarrow> Some d | _ \<Rightarrow> None)"

definition as_sequence :: "pyval \<Rightarrow> pyval list option" where
  "as_sequence v = (case v of VList xs \<Rightarrow> Some xs | VTuple xs \<Rightarrow> Some xs | _ \<Rightarrow> None)"

definition as_list :: "pyval \<Rightarrow> pyval list option" where
  "as_list v = (case v of VList xs \<Rightarrow> Some xs | _ \<Rightarrow> None)"

definition as_str :: "pyval \<Rightarrow> string option" where
  "as_str v = (case v of VStr s \<Rightarrow> Some s | _ \<Rightarrow> None)"

lemma as_view_simps [simp]:
  "as_dict (VDict d) = Some d" "as_sequence (VList xs) = Some xs" "as_sequence (VTuple xs) = Some xs"
  "as_list (VList xs) = Some xs" "as_str (VStr s) = Some s"
  by (simp_all add: as_dict_def as_sequence_def as_list_def as_str_def)

lemma as_view_iff:
  "as_dict v = Some d \<longleftrightarrow> v = VDict d"
  "as_list v = Some xs \<longleftrightarrow> v = VList xs"
  "as_str v = Some s \<longleftrightarrow> v = VStr s"
  by (cases v; simp add: as_dict_def as_list_def as_str_def)+

section \<open>Dictionaries\<close>

definition dhas :: "pydict \<Rightarrow> string \<Rightarrow> bool" where
  "dhas d k = (VStr k \<in> fst ` set d)"

definition dget :: "pydict \<Rightarrow> string \<Rightarrow> pyval" where
  "dget d k = (case map_of d (VStr k) of Some v \<Rightarrow> v | None \<Rightarrow> VNone)"

text \<open>\<open>d.get(k)\<close> of a value, which raises when the value is no mapping.\<close>

definition vget :: "pyval \<Rightarrow> string \<Rightarrow> pyval pyres" where
  "vget v k =
     (case v of VDict d \<Rightarrow> Inr (dget d k)
      | _ \<Rightarrow> Inl (AttributeError (repr_text (type_name v) @ '' object has no attribute '' @ repr_text ''get'')))"

definition str_keys :: "pydict \<Rightarrow> string list" where
  "str_keys d = map (\<lambda>(k, v). case k of VStr s \<Rightarrow> s | _ \<Rightarrow> []) d"

text \<open>A dictionary literal with text keys.\<close>

definition obj :: "(string \<times> pyval) list \<Rightarrow> pyval" where
  "obj fields = VDict (map (\<lambda>(k, v). (VStr k, v)) fields)"

primrec opt_val :: "('a \<Rightarrow> pyval) \<Rightarrow> 'a option \<Rightarrow> pyval" where
  "opt_val f None = VNone"
| "opt_val f (Some x) = f x"

lemma dget_Nil [simp]: "dget [] k = VNone"
  by (simp add: dget_def)

lemma dget_Cons [simp]:
  "dget ((VStr k', v) # d) k = (if k' = k then v else dget d k)"
  by (simp add: dget_def)

lemma dhas_Nil [simp]: "\<not> dhas [] k"
  by (simp add: dhas_def)

lemma dhas_Cons [simp]: "dhas ((VStr k', v) # d) k \<longleftrightarrow> k' = k \<or> dhas d k"
  by (auto simp: dhas_def)

lemma obj_simps:
  "obj [] = VDict []"
  "obj ((k, v) # fs) = VDict ((VStr k, v) # (case obj fs of VDict d \<Rightarrow> d | _ \<Rightarrow> []))"
  by (simp_all add: obj_def)

lemma as_dict_obj [simp]: "as_dict (obj fs) = Some (map (\<lambda>(k, v). (VStr k, v)) fs)"
  by (simp add: obj_def)

lemma obj_inj [simp]: "obj fs = obj gs \<longleftrightarrow> fs = gs"
  by (auto simp: obj_def inj_on_def dest!: map_injective)

section \<open>Shape checks\<close>

text \<open>
  The check of a closed object that the typed-evidence modules share up to the diagnostic code:
  a mapping with text keys that has every required field and no undeclared one.
\<close>

definition closed_object ::
  "string \<Rightarrow> pyval \<Rightarrow> string \<Rightarrow> string list \<Rightarrow> string list \<Rightarrow> pydict pyres" where
  "closed_object code value label required optional =
     (case as_dict value of
        None \<Rightarrow> Inl (InvalidRequest code (label @ '' must be an object.''))
      | Some d \<Rightarrow>
          (if \<not> list_all (is_str \<circ> fst) d
           then Inl (InvalidRequest code (label @ '' field names must all be strings.''))
           else
             (let missing = filter (\<lambda>k. k \<notin> set (str_keys d)) required;
                  unexpected = filter (\<lambda>k. k \<notin> set required \<and> k \<notin> set optional) (str_keys d)
              in if missing \<noteq> []
                 then Inl (InvalidRequest code
                   (label @ '' is missing required fields: '' @ join '', '' (sorted_texts missing) @ ''.''))
                 else if unexpected \<noteq> []
                 then Inl (InvalidRequest code
                   (label @ '' contains undeclared fields: '' @ join '', '' (sorted_texts unexpected) @ ''.''))
                 else Inr d)))"

lemma str_keys_obj [simp]: "str_keys (map (\<lambda>(k, v). (VStr k, v)) fs) = map fst fs"
  by (simp add: str_keys_def case_prod_beta)

lemma closed_object_Inr:
  assumes "closed_object code v label req opt = Inr d"
  shows "v = VDict d" and "list_all (is_str \<circ> fst) d"
    and "set req \<subseteq> set (str_keys d)" and "set (str_keys d) \<subseteq> set req \<union> set opt"
  using assms
  by (auto simp: closed_object_def Let_def as_view_iff filter_empty_conv split: option.splits if_splits)

lemma closed_object_intro:
  assumes "set req \<subseteq> fst ` set fs" and "fst ` set fs \<subseteq> set req \<union> set opt"
  shows "closed_object code (obj fs) label req opt = Inr (map (\<lambda>(k, v). (VStr k, v)) fs)"
  using assms
  by (auto simp: closed_object_def filter_empty_conv list_all_iff image_subset_iff)

lemma closed_object_error_code:
  "closed_object code v label req opt = Inl e \<Longrightarrow> \<exists>m. e = InvalidRequest code m"
  by (auto simp: closed_object_def Let_def split: option.splits if_splits)

lemma str_keys_dhas:
  "list_all (is_str \<circ> fst) d \<Longrightarrow> k \<in> set (str_keys d) \<longleftrightarrow> dhas d k"
proof (induction d)
  case (Cons kv d)
  obtain s v where "kv = (VStr s, v)" using Cons.prems by (cases kv; cases "fst kv") auto
  then show ?case using Cons by (auto simp: str_keys_def dhas_def)
qed (simp add: str_keys_def dhas_def)

text \<open>The recognisers of the regular expressions for canonical roles and SHA-256 digests.\<close>

fun role_tail :: "bool \<Rightarrow> string \<Rightarrow> bool" where
  "role_tail alnum [] = alnum"
| "role_tail alnum (c # cs) =
     (if ascii_lower c \<or> ascii_digit c then role_tail True cs
      else alnum \<and> c \<in> set ''._-'' \<and> role_tail False cs)"

definition canonical_role :: "string \<Rightarrow> bool" where
  "canonical_role s = (case s of [] \<Rightarrow> False | c # cs \<Rightarrow> ascii_lower c \<and> role_tail True cs)"

definition sha256_text :: "string \<Rightarrow> bool" where
  "sha256_text s = (length s = 64 \<and> list_all lower_hex s)"

text \<open>
  \<open>float(value)\<close> of an \<open>int\<close> or \<open>float\<close> that is no \<open>bool\<close>: \<open>None\<close> for any other value.
\<close>

definition as_number :: "pyval \<Rightarrow> pyfloat pyres option" where
  "as_number v =
     (case v of VInt i \<Rightarrow> Some (float_of_int i) | VFloat x \<Rightarrow> Some (Inr x) | _ \<Rightarrow> None)"

text \<open>Well-formed values: dictionary keys are distinct and floats are binary64 values.\<close>

fun wf_val :: "pyval \<Rightarrow> bool" where
  "wf_val (VFloat x) = f64 x"
| "wf_val (VList xs) = list_all wf_val xs"
| "wf_val (VTuple xs) = list_all wf_val xs"
| "wf_val (VDict d) = (distinct (map fst d) \<and> list_all (\<lambda>kv. wf_val (fst kv) \<and> wf_val (snd kv)) d)"
| "wf_val v = True"

lemma wf_val_dget: "wf_val (VDict d) \<Longrightarrow> wf_val (dget d k)"
  by (auto simp: dget_def list_all_iff split: option.splits dest: map_of_SomeD)

lemma wf_val_sequence: "wf_val v \<Longrightarrow> as_sequence v = Some xs \<Longrightarrow> x \<in> set xs \<Longrightarrow> wf_val x"
  by (cases v) (auto simp: as_sequence_def list_all_iff)

section \<open>UUID text\<close>

definition hex_value :: "char \<Rightarrow> nat option" where
  "hex_value c =
     (let n = ord c
      in if 48 \<le> n \<and> n \<le> 57 then Some (n - 48)
         else if 97 \<le> n \<and> n \<le> 102 then Some (n - 87)
         else if 65 \<le> n \<and> n \<le> 70 then Some (n - 55)
         else None)"

text \<open>
  The digits of \<open>int(text, 16)\<close> after white space, sign and prefix: hexadecimal digits with single
  underscores between them.  \<open>us\<close> says whether an underscore may follow.
\<close>

fun hex_digits :: "nat \<Rightarrow> bool \<Rightarrow> string \<Rightarrow> nat option" where
  "hex_digits acc us [] = (if us then Some acc else None)"
| "hex_digits acc us (c # cs) =
     (if c = CHR ''_'' then (if us then hex_digits acc False cs else None)
      else (case hex_value c of None \<Rightarrow> None | Some v \<Rightarrow> hex_digits (16 * acc + v) True cs))"

definition py_space :: "char \<Rightarrow> bool" where
  "py_space c = (ord c \<in> {9, 10, 11, 12, 13, 28, 29, 30, 31, 32, 133, 160})"

definition strip_by :: "(char \<Rightarrow> bool) \<Rightarrow> string \<Rightarrow> string" where
  "strip_by p s = rev (dropWhile p (rev (dropWhile p s)))"

definition int_base16 :: "string \<Rightarrow> int option" where
  "int_base16 s =
     (let t = strip_by py_space s;
          (neg, u) = (case t of c # cs \<Rightarrow> (if c = CHR ''-'' then (True, cs)
                                          else if c = CHR ''+'' then (False, cs) else (False, t))
                      | [] \<Rightarrow> (False, []));
          prefixed = (case u of z # x # cs \<Rightarrow> z = CHR ''0'' \<and> x \<in> set ''xX'' | _ \<Rightarrow> False);
          w = (if prefixed then drop 2 u else u)
      in map_option (\<lambda>n. if neg then - int n else int n) (if w = [] then None else hex_digits 0 prefixed w))"

text \<open>\<open>text.replace(word, '')\<close> for a nonempty word.\<close>

function delete_all :: "string \<Rightarrow> string \<Rightarrow> string" where
  "delete_all w s =
     (if s = [] \<or> w = [] then s
      else if take (length w) s = w then delete_all w (drop (length w) s)
      else hd s # delete_all w (tl s))"
  by pat_completeness auto
termination
  by (relation "measure (\<lambda>(w, s). length s)") auto

declare delete_all.simps [simp del]

text \<open>\<open>uuid.UUID(text)\<close>: the 128-bit value, or nothing when the constructor raises.\<close>

definition uuid_parse :: "string \<Rightarrow> nat option" where
  "uuid_parse s =
     (let h = filter (\<lambda>c. c \<noteq> CHR ''-'')
                (strip_by (\<lambda>c. c \<in> set ''{}'') (delete_all ''uuid:'' (delete_all ''urn:'' s)))
      in if length h \<noteq> 32 then None
         else (case int_base16 h of
                 None \<Rightarrow> None
               | Some i \<Rightarrow> (if 0 \<le> i \<and> i < 2 ^ 128 then Some (nat i) else None)))"

primrec hex_fixed :: "nat \<Rightarrow> nat \<Rightarrow> string" where
  "hex_fixed 0 n = []"
| "hex_fixed (Suc k) n = hex_fixed k (n div 16) @ [hex_digit (n mod 16)]"

definition uuid_str :: "nat \<Rightarrow> string" where
  "uuid_str n =
     (let h = hex_fixed 32 n
      in take 8 h @ ''-'' @ take 4 (drop 8 h) @ ''-'' @ take 4 (drop 12 h) @ ''-''
         @ take 4 (drop 16 h) @ ''-'' @ drop 20 h)"

definition canonical_uuid :: "string \<Rightarrow> bool" where
  "canonical_uuid s = (case uuid_parse s of None \<Rightarrow> False | Some n \<Rightarrow> uuid_str n = s)"

text \<open>Evaluation of the UUID functions on concrete text.\<close>

lemma delete_all_absent: "w \<noteq> [] \<Longrightarrow> hd w \<notin> set s \<Longrightarrow> delete_all w s = s"
proof (induction s)
  case (Cons c s)
  have "take (length w) (c # s) \<noteq> w" using Cons.prems by (cases w) auto
  then show ?case using Cons by (subst delete_all.simps) simp
qed (simp add: delete_all.simps)

lemma hex_fixed_numeral:
  "hex_fixed (numeral k) n = hex_fixed (pred_numeral k) (n div 16) @ [hex_digit (n mod 16)]"
  by (subst numeral_eq_Suc) (rule hex_fixed.simps)

end
