(* ===== verification/PyJson.thy ===== *)
theory PyJson
  imports PyValue
begin

text \<open>
  The canonical JSON text \<open>json.dumps(value, allow_nan=False, ensure_ascii=False,
  separators=(",", ":"), sort_keys=True)\<close> that the typed-evidence modules hash, with Python's
  shortest round-trip rendering of a float, and the host environment whose values the code reads
  but does not compute: the SHA-256 function on text, a fresh UUID, the clock and the platform.
\<close>

section \<open>Floats as text\<close>

text \<open>\<open>flog10 q\<close> is the integer part of the decimal logarithm of a positive \<open>q\<close>.\<close>

definition flog10 :: "rat \<Rightarrow> int" where
  "flog10 q =
     (if 1 \<le> q then int (length (dec_nat (nat \<lfloor>q\<rfloor>))) - 1
      else (let n = nat (\<lceil>1 / q\<rceil> - 1) in - int (if n = 0 then 0 else length (dec_nat n))))"

definition pow10 :: "int \<Rightarrow> rat" where
  "pow10 e = (if 0 \<le> e then 10 ^ nat e else 1 / 10 ^ nat (- e))"

text \<open>
  The decimal of \<open>p\<close> significant digits that reads back as \<open>q\<close>, when there is one: the nearest
  such decimal, or else its neighbour on the other side of \<open>q\<close>.  A pair \<open>(m, k)\<close> is
  \<open>m * 10 ^ k\<close>.
\<close>

definition decimal_at :: "rat \<Rightarrow> nat \<Rightarrow> (int \<times> int) option" where
  "decimal_at q p =
     (let k = flog10 q - int p + 1;
          s = q / pow10 k;
          m = rhe s;
          m' = (if of_int m \<le> s then m + 1 else m - 1)
      in if round64 (of_int m * pow10 k) = PFin q then Some (m, k)
         else if round64 (of_int m' * pow10 k) = PFin q then Some (m', k) else None)"

fun shortest_from :: "nat \<Rightarrow> nat \<Rightarrow> rat \<Rightarrow> (int \<times> int) option" where
  "shortest_from 0 p q = None"
| "shortest_from (Suc fuel) p q =
     (case decimal_at q p of Some r \<Rightarrow> Some r | None \<Rightarrow> shortest_from fuel (Suc p) q)"

definition fixed_notation :: "string \<Rightarrow> int \<Rightarrow> string" where
  "fixed_notation ds pt =
     (if pt \<le> 0 then ''0.'' @ replicate (nat (- pt)) (CHR ''0'') @ ds
      else if int (length ds) \<le> pt then ds @ replicate (nat pt - length ds) (CHR ''0'') @ ''.0''
      else take (nat pt) ds @ ''.'' @ drop (nat pt) ds)"

definition exp_notation :: "string \<Rightarrow> int \<Rightarrow> string" where
  "exp_notation ds pt =
     (let e = pt - 1; a = dec_nat (nat \<bar>e\<bar>)
      in take 1 ds @ (if length ds = 1 then [] else ''.'' @ drop 1 ds)
         @ (if e < 0 then ''e-'' else ''e+'') @ (if length a < 2 then CHR ''0'' # a else a))"

text \<open>\<open>repr(x)\<close> of a finite float; 17 significant digits always suffice.\<close>

definition repr_float :: "rat \<Rightarrow> string" where
  "repr_float q =
     (if q = 0 then ''0.0''
      else (if q < 0 then ''-'' else []) @
        (case shortest_from 17 1 \<bar>q\<bar> of
           None \<Rightarrow> []
         | Some (m, k) \<Rightarrow>
             (let all = dec_nat (nat m);
                  pt = int (length all) + k;
                  ds = rev (dropWhile (\<lambda>c. c = CHR ''0'') (rev all))
              in if - 4 < pt \<and> pt \<le> 16 then fixed_notation ds pt else exp_notation ds pt)))"

text \<open>\<open>f"{x:g}"\<close> of a finite float: six significant digits, trailing zeros removed.\<close>

definition format_g :: "rat \<Rightarrow> string" where
  "format_g q =
     (if q = 0 then ''0''
      else (let a = \<bar>q\<bar>;
                k = flog10 a - 5;
                m0 = rhe (a / pow10 k);
                (m, x) = (if m0 = 10 ^ 6 then (10 ^ 5, flog10 a + 1) else (m0, flog10 a));
                ds = rev (dropWhile (\<lambda>c. c = CHR ''0'') (rev (dec_nat (nat m))))
            in (if q < 0 then ''-'' else []) @
               (if x < - 4 \<or> 6 \<le> x then exp_notation ds (x + 1)
                else if int (length ds) \<le> x + 1 then ds @ replicate (nat (x + 1) - length ds) (CHR ''0'')
                else fixed_notation ds (x + 1))))"

section \<open>Canonical JSON\<close>

definition json_char :: "char \<Rightarrow> string" where
  "json_char c =
     (if c = CHR 0x22 \<or> c = CHR 0x5C then [CHR 0x5C, c]
      else if c = CHR 0x0A then [CHR 0x5C, CHR ''n'']
      else if c = CHR 0x0D then [CHR 0x5C, CHR ''r'']
      else if c = CHR 0x09 then [CHR 0x5C, CHR ''t'']
      else if c = CHR 0x0C then [CHR 0x5C, CHR ''f'']
      else if c = CHR 0x08 then [CHR 0x5C, CHR ''b'']
      else if ord c < 32
      then [CHR 0x5C] @ ''u00'' @ [hex_digit (ord c div 16), hex_digit (ord c mod 16)]
      else [c])"

definition json_text :: "string \<Rightarrow> string" where
  "json_text s = [CHR 0x22] @ concat (map json_char s) @ [CHR 0x22]"

text \<open>
  Keys sort by code point.  A key that is no text, and a value that is not JSON, raise in the
  library (the coercion of numeric keys is not used by any caller, whose keys are all text).
\<close>

definition insert_field :: "string \<times> string \<Rightarrow> (string \<times> string) list \<Rightarrow> (string \<times> string) list" where
  "insert_field kv kvs = takeWhile (\<lambda>p. fst p \<le> fst kv) kvs @ kv # dropWhile (\<lambda>p. fst p \<le> fst kv) kvs"

definition sort_fields :: "(string \<times> string) list \<Rightarrow> (string \<times> string) list" where
  "sort_fields kvs = fold insert_field kvs []"

fun canonical_json :: "pyval \<Rightarrow> string pyres" where
  "canonical_json VNone = Inr ''null''"
| "canonical_json (VBool b) = Inr (if b then ''true'' else ''false'')"
| "canonical_json (VInt i) = Inr (dec_int i)"
| "canonical_json (VFloat (PFin q)) = Inr (repr_float q)"
| "canonical_json (VFloat x) = Inl (ValueError ''Out of range float values are not JSON compliant'')"
| "canonical_json (VStr s) = Inr (json_text s)"
| "canonical_json (VList xs) =
     pbind (map_res canonical_json xs) (\<lambda>ts. Inr (''['' @ join '','' ts @ '']''))"
| "canonical_json (VTuple xs) =
     pbind (map_res canonical_json xs) (\<lambda>ts. Inr (''['' @ join '','' ts @ '']''))"
| "canonical_json (VDict d) =
     pbind (map_res (\<lambda>kv. case kv of
               (VStr k, v) \<Rightarrow> pbind (canonical_json v) (\<lambda>t. Inr (k, t))
             | _ \<Rightarrow> Inl (TypeError ''keys must be str'')) d)
       (\<lambda>fs. Inr (''{'' @ join '','' (map (\<lambda>(k, t). json_text k @ '':'' @ t) (sort_fields fs)) @ ''}''))"
| "canonical_json (VOther t) = Inl (TypeError (''Object of type '' @ t @ '' is not JSON serializable''))"

section \<open>The host environment\<close>

record py_env =
  sha256 :: "string \<Rightarrow> string"
  new_uuid :: string
  created_at :: string
  host_system :: string
  host_machine :: string
  host_python :: string

text \<open>What the standard library documents of these values.\<close>

definition env_ok :: "py_env \<Rightarrow> bool" where
  "env_ok env \<longleftrightarrow> (\<forall>t. sha256_text (sha256 env t)) \<and> canonical_uuid (new_uuid env)"

definition canonical_sha256 :: "py_env \<Rightarrow> pyval \<Rightarrow> string pyres" where
  "canonical_sha256 env v = pbind (canonical_json v) (\<lambda>t. Inr (sha256 env t))"

lemma canonical_sha256_text:
  "env_ok env \<Longrightarrow> canonical_sha256 env v = Inr h \<Longrightarrow> sha256_text h"
  by (auto simp: canonical_sha256_def env_ok_def)

text \<open>The JSON-compliant values: those the canonical text is defined for.\<close>

fun json_value :: "pyval \<Rightarrow> bool" where
  "json_value (VFloat x) = is_finite x"
| "json_value (VList xs) = list_all json_value xs"
| "json_value (VTuple xs) = list_all json_value xs"
| "json_value (VDict d) = list_all (\<lambda>kv. is_str (fst kv) \<and> json_value (snd kv)) d"
| "json_value (VOther t) = False"
| "json_value v = True"

lemma map_res_total: "(\<And>x. x \<in> set xs \<Longrightarrow> \<exists>y. f x = Inr y) \<Longrightarrow> \<exists>ys. map_res f xs = Inr ys"
  by (induction xs) force+

lemma canonical_json_total: "json_value v \<Longrightarrow> \<exists>t. canonical_json v = Inr t"
proof (induction v rule: canonical_json.induct)
  case (9 d)
  have "\<exists>y. (case kv of (VStr k, v) \<Rightarrow> pbind (canonical_json v) (\<lambda>t. Inr (k, t))
             | _ \<Rightarrow> Inl (TypeError ''keys must be str'')) = Inr y" if "kv \<in> set d" for kv
  proof -
    have "is_str (fst kv)" and jv: "json_value (snd kv)"
      using "9.prems" that by (auto simp: list_all_iff)
    then obtain s v where kv: "kv = (VStr s, v)"
      by (cases kv; cases "fst kv") auto
    then have "\<exists>t. canonical_json v = Inr t"
      using "9.IH" [OF that kv [symmetric]] jv by (simp add: kv)
    then show ?thesis by (auto simp: kv)
  qed
  from map_res_total [OF this] show ?case by auto
next
  case (7 xs)
  then have "\<exists>ts. map_res canonical_json xs = Inr ts"
    by (intro map_res_total) (simp add: list_all_iff)
  then show ?case by auto
next
  case (8 xs)
  then have "\<exists>ts. map_res canonical_json xs = Inr ts"
    by (intro map_res_total) (simp add: list_all_iff)
  then show ?case by auto
qed simp_all

lemma canonical_sha256_total: "json_value v \<Longrightarrow> \<exists>h. canonical_sha256 env v = Inr h"
  using canonical_json_total [of v] by (auto simp: canonical_sha256_def)

lemma json_value_obj [simp]: "json_value (obj fs) = list_all (json_value \<circ> snd) fs"
  by (simp add: obj_def list_all_iff case_prod_beta)

end
