(* ===== verification/Process.thy ===== *)
theory Process
  imports PyJson
begin

text \<open>
  Bounded subprocess execution (\<open>src/openada/process.py\<close>): the tail buffer that keeps the last
  bytes of a captured stream, the reader loop over a stream, and \<open>run_process\<close>, which validates
  its arguments, starts the command, waits for it and its readers and classifies the outcome.
  The operating system is a record of what it answers during one call.
\<close>

section \<open>The capture buffer\<close>

definition MAX_CAPTURE_CHARS :: nat where "MAX_CAPTURE_CHARS = 12000"

definition MAX_CAPTURE_LIMIT_BYTES :: int where "MAX_CAPTURE_LIMIT_BYTES = 16 * 1024 * 1024"

definition append_tail :: "'a list \<Rightarrow> 'a list \<Rightarrow> nat \<Rightarrow> 'a list" where
  "append_tail buffer chunk limit =
     (if limit \<le> length chunk then from_end limit chunk
      else (let extended = buffer @ chunk
            in if limit < length extended then drop (length extended - limit) extended
               else extended))"

text \<open>
  A reader thread reads until an empty chunk or an error; \<open>reads\<close> lists what its \<open>read\<close> calls
  return, \<open>None\<close> standing for an \<open>OSError\<close> or \<open>ValueError\<close>.
\<close>

fun drain :: "'a list option list \<Rightarrow> 'a list \<times> nat \<Rightarrow> nat \<Rightarrow> 'a list \<times> nat" where
  "drain [] (buffer, seen) limit = (buffer, seen)"
| "drain (None # reads) (buffer, seen) limit = (buffer, seen)"
| "drain (Some chunk # reads) (buffer, seen) limit =
     (if chunk = [] then (buffer, seen)
      else drain reads (append_tail buffer chunk limit, seen + length chunk) limit)"

text \<open>What the reader receives in full: the chunks up to the first empty one or error.\<close>

fun received :: "'a list option list \<Rightarrow> 'a list" where
  "received [] = []"
| "received (None # reads) = []"
| "received (Some chunk # reads) = (if chunk = [] then [] else chunk @ received reads)"

text \<open>
  The contract of a bounded buffer, and what a reader built on any such buffer keeps of a stream.
\<close>

locale bounded_buffer =
  fixes push :: "'a list \<Rightarrow> 'a list \<Rightarrow> nat \<Rightarrow> 'a list"
  assumes push_tail: "0 < n \<Longrightarrow> push buffer chunk n = take_last n (buffer @ chunk)"
begin

lemma push_bounded: "0 < n \<Longrightarrow> length (push buffer chunk n) \<le> n"
  by (simp add: push_tail)

lemma fold_push:
  "0 < n \<Longrightarrow> fold (\<lambda>c b. push b c n) chunks (take_last n start) = take_last n (start @ concat chunks)"
  by (induction chunks arbitrary: start)
    (simp_all add: push_tail take_last_append)

end

lemma append_tail_take_last:
  "0 < limit \<Longrightarrow> append_tail buffer chunk limit = take_last limit (buffer @ chunk)"
  by (auto simp: append_tail_def from_end_def Let_def take_last_long take_last_all)
    (simp add: take_last_def)

interpretation tail: bounded_buffer append_tail
  by unfold_locales (rule append_tail_take_last)

lemma drain_received:
  "0 < limit \<Longrightarrow>
   drain reads (take_last limit start, seen) limit =
     (take_last limit (start @ received reads), seen + length (received reads))"
proof (induction reads arbitrary: start seen)
  case Nil
  then show ?case by simp
next
  case (Cons r reads)
  show ?case
  proof (cases r)
    case None
    then show ?thesis by simp
  next
    case (Some chunk)
    then show ?thesis
      using Cons.IH [of "start @ chunk" "seen + length chunk"] Cons.prems
      by (simp add: tail.push_tail take_last_append)
  qed
qed

section \<open>Running a command\<close>

record process_result =
  p_status :: string
  p_command :: "string list"
  p_exit_code :: "int option"
  p_duration_ms :: int
  p_stdout :: string
  p_stderr :: string
  p_error :: "string option"
  p_cwd :: "string option"
  p_stdout_bytes :: nat
  p_stderr_bytes :: nat
  p_stdout_truncated :: bool
  p_stderr_truncated :: bool
  p_stdout_utf8_valid :: bool
  p_stderr_utf8_valid :: bool

datatype spawn_outcome = Spawned | SpawnNotFound string | SpawnError string

text \<open>
  The answers of the operating system to one call: the resolution of the working directory, the
  outcome of the launch, whether the directory still exists after a failed launch, the exit code
  unless the wait times out, what each reader thread reads, whether a reader is still alive at the
  capture deadline, the elapsed milliseconds, and the UTF-8 codec (text and validity).
\<close>

record os_view =
  o_directory :: "string + string"
  o_spawn :: spawn_outcome
  o_cwd_exists :: bool
  o_wait :: "int option"
  o_stdout :: "string option list"
  o_stderr :: "string option list"
  o_reader_alive :: bool
  o_elapsed_ms :: int
  o_decode :: "string \<Rightarrow> string \<times> bool"

text \<open>The result record with its declared defaults.\<close>

definition early_result ::
  "string \<Rightarrow> string list \<Rightarrow> int \<Rightarrow> string \<Rightarrow> string option \<Rightarrow> process_result" where
  "early_result status argv duration err directory =
     \<lparr>p_status = status, p_command = argv, p_exit_code = None, p_duration_ms = duration,
      p_stdout = [], p_stderr = [], p_error = Some err, p_cwd = directory,
      p_stdout_bytes = 0, p_stderr_bytes = 0, p_stdout_truncated = False,
      p_stderr_truncated = False, p_stdout_utf8_valid = True, p_stderr_utf8_valid = True\<rparr>"

text \<open>
  \<open>isinstance\<close>, \<open>isfinite\<close> and positivity of the timeout; \<open>isfinite\<close> of an integer beyond the
  range of a float raises.
\<close>

definition valid_timeout :: "pyval \<Rightarrow> bool pyres" where
  "valid_timeout t =
     (case t of
        VInt i \<Rightarrow> pbind (float_of_int i) (\<lambda>x. Inr (0 < i))
      | VFloat x \<Rightarrow> Inr (is_finite x \<and> flt (PFin 0) x)
      | _ \<Rightarrow> Inr False)"

definition valid_capture_limit :: "pyval \<Rightarrow> bool" where
  "valid_capture_limit n =
     (case n of VInt i \<Rightarrow> 0 < i \<and> i \<le> MAX_CAPTURE_LIMIT_BYTES | _ \<Rightarrow> False)"

definition limit_nat :: "pyval \<Rightarrow> nat" where
  "limit_nat n = (case n of VInt i \<Rightarrow> nat i | _ \<Rightarrow> 0)"

definition timeout_text :: "pyval \<Rightarrow> string" where
  "timeout_text t =
     (case t of VInt i \<Rightarrow> format_g (of_int i) | VFloat x \<Rightarrow> format_g (fval x) | _ \<Rightarrow> [])"

text \<open>From the launched process to the result: waiting, joining the readers, decoding.\<close>

definition finish_process ::
  "os_view \<Rightarrow> string list \<Rightarrow> string \<Rightarrow> pyval \<Rightarrow> nat \<Rightarrow> process_result" where
  "finish_process os argv directory timeout limit =
     (let (status0, error0, exit0) =
            (case o_wait os of
               Some code \<Rightarrow> (''completed'', None, Some code)
             | None \<Rightarrow> (''timed_out'',
                 Some (''command exceeded '' @ timeout_text timeout @ '' seconds''), None));
          (status, err, exit) =
            (if o_reader_alive os
             then (''timed_out'',
               Some (''command process group exceeded '' @ timeout_text timeout @ '' seconds''), None)
             else (status0, error0, exit0));
          (out_buffer, out_total) = drain (o_stdout os) ([], 0) limit;
          (err_buffer, err_total) = drain (o_stderr os) ([], 0) limit;
          (out_text, out_valid) = o_decode os out_buffer;
          (err_text, err_valid) = o_decode os err_buffer
      in \<lparr>p_status = status, p_command = argv, p_exit_code = exit,
          p_duration_ms = o_elapsed_ms os, p_stdout = out_text, p_stderr = err_text,
          p_error = err, p_cwd = Some directory,
          p_stdout_bytes = out_total, p_stderr_bytes = err_total,
          p_stdout_truncated = (length out_buffer < out_total),
          p_stderr_truncated = (length err_buffer < err_total),
          p_stdout_utf8_valid = out_valid, p_stderr_utf8_valid = err_valid\<rparr>)"

definition run_process ::
  "os_view \<Rightarrow> string list \<Rightarrow> pyval \<Rightarrow> pyval \<Rightarrow> process_result pyres" where
  "run_process os argv timeout capture_limit =
     (case o_directory os of
        Inl err \<Rightarrow>
          Inr (early_result ''failed'' argv (o_elapsed_ms os)
            (''cannot resolve working directory: '' @ err) None)
      | Inr directory \<Rightarrow>
          pbind (valid_timeout timeout) (\<lambda>timeout_ok. Inr
          (if \<not> timeout_ok
           then early_result ''failed'' argv 0 ''timeout must be finite and greater than zero''
                  (Some directory)
           else if \<not> valid_capture_limit capture_limit
           then early_result ''failed'' argv (o_elapsed_ms os)
                  (''capture_limit_bytes must be an integer from 1 through ''
                   @ dec_int MAX_CAPTURE_LIMIT_BYTES) (Some directory)
           else if argv = []
           then early_result ''failed'' argv (o_elapsed_ms os)
                  ''command must contain at least one argv element'' (Some directory)
           else (case o_spawn os of
               SpawnNotFound msg \<Rightarrow>
                 early_result (if o_cwd_exists os then ''not_available'' else ''failed'') argv
                   (o_elapsed_ms os)
                   (if o_cwd_exists os then msg
                    else ''working directory disappeared before launch: '' @ directory)
                   (if o_cwd_exists os then Some directory else None)
             | SpawnError msg \<Rightarrow>
                 early_result ''failed'' argv (o_elapsed_ms os) msg (Some directory)
             | Spawned \<Rightarrow>
                 finish_process os argv directory timeout (limit_nat capture_limit)))))"

lemma valid_capture_limit_pos: "valid_capture_limit n \<Longrightarrow> 0 < limit_nat n"
  by (cases n) (simp_all add: valid_capture_limit_def limit_nat_def)

lemma early_result_simps [simp]:
  "p_status (early_result s a d e c) = s" "p_exit_code (early_result s a d e c) = None"
  "p_stdout_bytes (early_result s a d e c) = 0" "p_stdout_truncated (early_result s a d e c) = False"
  "p_stderr_bytes (early_result s a d e c) = 0" "p_stderr_truncated (early_result s a d e c) = False"
  "p_stdout (early_result s a d e c) = []" "p_error (early_result s a d e c) = Some e"
  by (simp_all add: early_result_def)

lemma drain_empty:
  "0 < n \<Longrightarrow> drain reads ([], 0) n = (take_last n (received reads), length (received reads))"
  using drain_received [of n reads "[]" 0] by (simp add: take_last_def)

section \<open>What a result tells\<close>

text \<open>
  The view of a captured stream that a result gives: how many bytes the stream held, whether some
  were dropped, and the text that the codec makes of the retained tail.
\<close>

definition capture_of :: "os_view \<Rightarrow> nat \<Rightarrow> string option list \<Rightarrow> nat \<times> bool \<times> (string \<times> bool)" where
  "capture_of os limit reads =
     (length (received reads), limit < length (received reads),
      o_decode os (take_last limit (received reads)))"

lemma finish_process_capture:
  assumes "0 < limit"
  shows "p_stdout_bytes (finish_process os argv d t limit) = length (received (o_stdout os))"
    and "p_stdout_truncated (finish_process os argv d t limit) \<longleftrightarrow> limit < length (received (o_stdout os))"
    and "(p_stdout (finish_process os argv d t limit), p_stdout_utf8_valid (finish_process os argv d t limit))
           = o_decode os (take_last limit (received (o_stdout os)))"
    and "p_stderr_bytes (finish_process os argv d t limit) = length (received (o_stderr os))"
    and "p_stderr_truncated (finish_process os argv d t limit) \<longleftrightarrow> limit < length (received (o_stderr os))"
    and "(p_stderr (finish_process os argv d t limit), p_stderr_utf8_valid (finish_process os argv d t limit))
           = o_decode os (take_last limit (received (o_stderr os)))"
  using assms by (auto simp: finish_process_def drain_empty Let_def split: prod.splits option.splits)

lemma finish_process_status:
  "p_status (finish_process os argv d t limit) =
     (if o_wait os = None \<or> o_reader_alive os then ''timed_out'' else ''completed'')"
  "p_exit_code (finish_process os argv d t limit) = (if o_reader_alive os then None else o_wait os)"
  "p_error (finish_process os argv d t limit) = None \<longleftrightarrow> o_wait os \<noteq> None \<and> \<not> o_reader_alive os"
  by (auto simp: finish_process_def Let_def split: prod.splits option.splits)

lemmas process_facts = run_process_def finish_process_status valid_timeout_def

lemma run_process_completed_launch:
  assumes "run_process os argv timeout capture_limit = Inr r" and "p_status r = ''completed''"
  shows "\<exists>d. r = finish_process os argv d timeout (limit_nat capture_limit) \<and>
           0 < limit_nat capture_limit"
  using assms valid_capture_limit_pos
  by (auto simp: run_process_def split: sum.splits if_splits spawn_outcome.splits)

text \<open>C39: a captured stream is the tail of what the process wrote, and the result says exactly when
  something was dropped: for a completed command, the reported byte counts are the lengths of the
  full streams, the truncation flags hold exactly when a stream is longer than the capture limit,
  and the texts decode the last bytes within the limit.\<close>

theorem run_process_capture:
  assumes "run_process os argv timeout capture_limit = Inr r" and "p_status r = ''completed''"
  shows "(p_stdout_bytes r, p_stdout_truncated r, p_stdout r, p_stdout_utf8_valid r)
           = capture_of os (limit_nat capture_limit) (o_stdout os) \<and>
         (p_stderr_bytes r, p_stderr_truncated r, p_stderr r, p_stderr_utf8_valid r)
           = capture_of os (limit_nat capture_limit) (o_stderr os)"
proof -
  obtain d where r: "r = finish_process os argv d timeout (limit_nat capture_limit)"
    and pos: "0 < limit_nat capture_limit"
    using run_process_completed_launch [OF assms] by blast
  show ?thesis
    unfolding r capture_of_def by (simp add: finish_process_capture [OF pos])
qed

definition example_os :: os_view where
  "example_os =
     \<lparr>o_directory = Inr ''/work'', o_spawn = Spawned, o_cwd_exists = True, o_wait = Some 0,
      o_stdout = [Some ''abc'', Some ''def'', Some []], o_stderr = [None], o_reader_alive = False,
      o_elapsed_ms = 12, o_decode = (\<lambda>b. (b, True))\<rparr>"

theorem run_process_capture_witness:
  "\<exists>r. run_process example_os [''tool''] (VInt 5) (VInt 4) = Inr r \<and>
       p_stdout r = ''cdef'' \<and> p_stdout_truncated r"
proof -
  have t: "valid_timeout (VInt 5) = Inr True"
    using finite64_numeral [of "num.Bit1 (num.Bit0 num.One)"]
    by (simp add: valid_timeout_def float_of_int_def round64_finite64 finite64_def)
  obtain r where r: "run_process example_os [''tool''] (VInt 5) (VInt 4) = Inr r"
    and c: "p_status r = ''completed''"
    using finish_process_status(1) [of example_os "[''tool'']" "''/work''" "VInt 5" 4]
    by (simp add: run_process_def t example_os_def valid_capture_limit_def
        MAX_CAPTURE_LIMIT_BYTES_def limit_nat_def)
  show ?thesis
    using run_process_capture [OF r c] r
    by (simp add: capture_of_def example_os_def limit_nat_def take_last_def)
qed

text \<open>the outcome of a command is classified without ambiguity: a result carries an exit code
  exactly when its status is completed, an error text exactly when it is not, and its status is one
  of the four the contract names.\<close>

theorem run_process_status:
  assumes "run_process os argv timeout capture_limit = Inr r"
  shows "(p_exit_code r \<noteq> None \<longleftrightarrow> p_status r = ''completed'') \<and>
         (p_error r = None \<longleftrightarrow> p_status r = ''completed'') \<and>
         p_status r \<in> {''completed'', ''failed'', ''timed_out'', ''not_available''}"
  using assms
  by (auto simp: run_process_def finish_process_status split: sum.splits if_splits spawn_outcome.splits)

theorem run_process_status_witness:
  "\<exists>r. run_process (example_os\<lparr>o_spawn := SpawnNotFound ''no such file''\<rparr>) [''tool''] (VInt 5) (VInt 4)
         = Inr r \<and> p_status r = ''not_available'' \<and> p_exit_code r = None"
proof -
  have t: "valid_timeout (VInt 5) = Inr True"
    using finite64_numeral [of "num.Bit1 (num.Bit0 num.One)"]
    by (simp add: valid_timeout_def float_of_int_def round64_finite64 finite64_def)
  obtain r where r: "run_process (example_os\<lparr>o_spawn := SpawnNotFound ''no such file''\<rparr>) [''tool'']
      (VInt 5) (VInt 4) = Inr r" and s: "p_status r = ''not_available''"
    by (simp add: run_process_def t example_os_def valid_capture_limit_def
        MAX_CAPTURE_LIMIT_BYTES_def)
  show ?thesis using run_process_status [OF r] r s by auto
qed

end
