(* ===== verification/Contract.thy ===== *)
theory Contract
  imports Process
begin

text \<open>
  The versioned result envelope (\<open>src/openada/contract.py\<close>): bounded explanatory text, diagnostics,
  tool and execution records, the envelope every operation returns, and the capture of a file record,
  which hashes a regular file within a byte ceiling and refuses a file that changes meanwhile.
\<close>

section \<open>Bounded text\<close>

definition SCHEMA_VERSION :: string where "SCHEMA_VERSION = ''openada.result/v0alpha1''"

definition MAX_CONTRACT_TEXT_CHARS :: int where "MAX_CONTRACT_TEXT_CHARS = 4000"

definition truncation_marker :: string where "truncation_marker = '' ... [truncated] ... ''"

text \<open>\<open>bounded_text\<close> on a value whose \<open>str\<close> is the given text.\<close>

definition bounded_text :: "string \<Rightarrow> int \<Rightarrow> string pyres" where
  "bounded_text msg limit =
     (if limit < 0 then Inl (ValueError ''text limit must be non-negative'')
      else if int (length msg) \<le> limit then Inr msg
      else if limit \<le> int (length truncation_marker) then Inr (take (nat limit) msg)
      else (let retained = limit - int (length truncation_marker);
                head = retained div 2;
                tail = retained - head
            in Inr (take (nat head) msg @ truncation_marker @ from_end (nat tail) msg)))"

definition contract_text :: "string \<Rightarrow> string" where
  "contract_text msg =
     (case bounded_text msg MAX_CONTRACT_TEXT_CHARS of Inr t \<Rightarrow> t | Inl e \<Rightarrow> [])"

lemma length_marker [simp]: "length truncation_marker = 21"
  by (simp add: truncation_marker_def)

lemma bounded_text_parts:
  assumes "21 < limit" and "limit < int (length msg)"
  shows "bounded_text msg limit =
    Inr (take (nat ((limit - 21) div 2)) msg @ truncation_marker
         @ take_last (nat (limit - 21 - (limit - 21) div 2)) msg)"
proof -
  have "0 < limit - 21 - (limit - 21) div 2" using assms(1) by linarith
  then show ?thesis using assms by (simp add: bounded_text_def from_end_def Let_def)
qed

lemma bounded_text_total: "0 \<le> limit \<Longrightarrow> \<exists>t. bounded_text msg limit = Inr t"
  by (auto simp: bounded_text_def Let_def)

lemma bounded_text_length:
  assumes "bounded_text msg limit = Inr t"
  shows "length t = min (length msg) (nat limit)"
proof (cases "21 < limit \<and> limit < int (length msg)")
  case True
  then have "t = take (nat ((limit - 21) div 2)) msg @ truncation_marker
         @ take_last (nat (limit - 21 - (limit - 21) div 2)) msg"
    using assms bounded_text_parts [of limit msg] by simp
  then have "length t = min (length msg) (nat ((limit - 21) div 2)) + 21
      + min (nat (limit - 21 - (limit - 21) div 2)) (length msg)"
    by simp
  then show ?thesis using True by linarith
next
  case False
  then show ?thesis using assms by (auto simp: bounded_text_def Let_def split: if_splits)
qed

text \<open>bounding a text is total for a nonnegative limit, never exceeds the limit, fills it exactly
  when the text is longer, and is the identity on a text that fits; bounding twice changes nothing.\<close>

theorem bounded_text_bound:
  assumes "0 \<le> limit"
  shows "\<exists>t. bounded_text msg limit = Inr t \<and> length t = min (length msg) (nat limit) \<and>
             (length msg \<le> nat limit \<longrightarrow> t = msg) \<and> bounded_text t limit = Inr t"
proof -
  obtain t where t: "bounded_text msg limit = Inr t" using bounded_text_total assms by blast
  have len: "length t = min (length msg) (nat limit)" using t by (rule bounded_text_length)
  have "t = msg" if "length msg \<le> nat limit"
    using t that assms by (simp add: bounded_text_def le_nat_iff)
  moreover have "bounded_text t limit = Inr t" using len assms by (simp add: bounded_text_def min_def le_nat_iff split: if_splits)
  ultimately show ?thesis using t len by blast
qed

theorem bounded_text_bound_witness:
  "\<exists>t. bounded_text (replicate 50 (CHR ''x'')) 30 = Inr t \<and> length t = 30"
  using bounded_text_bound [of 30 "replicate 50 (CHR ''x'')"] by auto

section \<open>Diagnostics and records\<close>

record diag =
  d_severity :: string
  d_code :: string
  d_message :: string
  d_hint :: "string option"

definition diagnostic :: "string \<Rightarrow> string \<Rightarrow> string \<Rightarrow> string option \<Rightarrow> diag" where
  "diagnostic severity code message hint =
     \<lparr>d_severity = severity, d_code = code, d_message = contract_text message,
      d_hint = (case hint of None \<Rightarrow> None
                | Some h \<Rightarrow> (if h = [] then None else Some (contract_text h)))\<rparr>"

record tool_rec =
  t_name :: string
  t_path :: "string option"
  t_version :: "string option"

definition tool_record :: "string \<Rightarrow> string option \<Rightarrow> string option \<Rightarrow> tool_rec" where
  "tool_record name path version = \<lparr>t_name = name, t_path = path, t_version = version\<rparr>"

record file_rec =
  f_kind :: string
  f_role :: string
  f_path :: string
  f_exists :: bool
  f_bytes :: "nat option"
  f_sha256 :: "string option"

record exec_rec =
  x_status :: string
  x_exit_code :: "int option"
  x_duration_ms :: int
  x_command :: "string list"
  x_error :: "string option"
  x_cwd :: "string option"

record provenance =
  v_openada :: string
  v_created_at :: string
  v_system :: string
  v_machine :: string
  v_python :: string

record envelope =
  e_schema :: string
  e_operation :: string
  e_tool :: "tool_rec option"
  e_execution :: exec_rec
  e_status :: string
  e_summary :: string
  e_inputs :: "file_rec list"
  e_artifacts :: "file_rec list"
  e_diagnostics :: "diag list"
  e_data :: pyval
  e_provenance :: provenance

definition static_execution :: "string \<Rightarrow> exec_rec" where
  "static_execution status =
     \<lparr>x_status = status, x_exit_code = (if status = ''completed'' then Some 0 else None),
      x_duration_ms = 0, x_command = [], x_error = None, x_cwd = None\<rparr>"

text \<open>The execution record of a finished process, whose error is kept only when it is not empty.\<close>

definition process_execution :: "process_result \<Rightarrow> exec_rec" where
  "process_execution p =
     \<lparr>x_status = p_status p, x_exit_code = p_exit_code p, x_duration_ms = p_duration_ms p,
      x_command = p_command p,
      x_error = (case p_error p of None \<Rightarrow> None
                 | Some m \<Rightarrow> (if m = [] then None else Some (contract_text m))),
      x_cwd = p_cwd p\<rparr>"

text \<open>An execution given as a dictionary is copied, its error text bounded.\<close>

definition dict_execution :: "exec_rec \<Rightarrow> exec_rec" where
  "dict_execution x = x\<lparr>x_error := map_option contract_text (x_error x)\<rparr>"

definition OPENADA_VERSION :: string where "OPENADA_VERSION = ''0.4.0''"

definition result_envelope ::
  "py_env \<Rightarrow> string \<Rightarrow> tool_rec option \<Rightarrow> process_result + exec_rec \<Rightarrow> string \<Rightarrow> string \<Rightarrow>
   file_rec list \<Rightarrow> file_rec list \<Rightarrow> diag list \<Rightarrow> pyval option \<Rightarrow> envelope" where
  "result_envelope env operation tool execution status summary inputs artifacts diagnostics data =
     \<lparr>e_schema = SCHEMA_VERSION, e_operation = operation, e_tool = tool,
      e_execution = (case execution of Inl p \<Rightarrow> process_execution p | Inr x \<Rightarrow> dict_execution x),
      e_status = status, e_summary = contract_text summary,
      e_inputs = inputs, e_artifacts = artifacts, e_diagnostics = diagnostics,
      e_data = (case data of None \<Rightarrow> VDict [] | Some d \<Rightarrow> d),
      e_provenance = \<lparr>v_openada = OPENADA_VERSION, v_created_at = created_at env,
        v_system = host_system env, v_machine = host_machine env, v_python = host_python env\<rparr>\<rparr>"

lemma contract_text_length: "length (contract_text t) = min (length t) 4000"
  using bounded_text_total [of 4000 t] bounded_text_length [of t 4000]
  by (auto simp: contract_text_def MAX_CONTRACT_TEXT_CHARS_def split: sum.splits)

lemma contract_text_id: "length t \<le> 4000 \<Longrightarrow> contract_text t = t"
  by (simp add: contract_text_def bounded_text_def MAX_CONTRACT_TEXT_CHARS_def)

lemma result_envelope_simps [simp]:
  "e_status (result_envelope env op tool x st sm i a d dt) = st"
  "e_data (result_envelope env op tool x st sm i a d (Some v)) = v"
  "e_operation (result_envelope env op tool x st sm i a d dt) = op"
  "e_diagnostics (result_envelope env op tool x st sm i a d dt) = d"
  "e_execution (result_envelope env op tool (Inr ex) st sm i a d dt) = dict_execution ex"
  by (simp_all add: result_envelope_def)

lemma static_execution_simps [simp]:
  "x_status (dict_execution (static_execution s)) = s"
  "x_exit_code (dict_execution (static_execution s)) = (if s = ''completed'' then Some 0 else None)"
  by (simp_all add: dict_execution_def static_execution_def)

section \<open>File records\<close>

text \<open>
  \<open>os.stat\<close> as the six fields of a file's identity, and the file system as one capture sees it:
  what opening the path yields (nothing when it fails), whether the descriptor is a regular file,
  the bytes the reads return, and the two status calls made after reading, which may fail.
\<close>

record file_stat =
  st_dev :: int
  st_ino :: int
  st_mode :: int
  st_size :: int
  st_mtime_ns :: int
  st_ctime_ns :: int

record fs_view =
  v_open :: "file_stat option"
  v_regular :: bool
  v_content :: string
  v_finished :: "file_stat option"
  v_current :: "file_stat option"

definition file_identity :: "file_stat \<Rightarrow> int \<times> int \<times> int \<times> int \<times> int \<times> int" where
  "file_identity st =
     (st_dev st, st_ino st, st_mode st, st_size st, st_mtime_ns st, st_ctime_ns st)"

text \<open>
  The context manager around a body that reads the opened file: the file must open and be regular,
  an exception of the body passes through, and a body that returns is followed by the identity check.
\<close>

definition stable_regular_file ::
  "fs_view \<Rightarrow> string \<Rightarrow> (file_stat \<Rightarrow> 'a pyres) \<Rightarrow> 'a pyres" where
  "stable_regular_file fs path body =
     (case v_open fs of
        None \<Rightarrow> Inl (FileRecordUnavailableError (path @ '' cannot be opened as a regular file''))
      | Some opened \<Rightarrow>
          (if \<not> v_regular fs
           then Inl (FileRecordUnavailableError (path @ '' is not a regular file''))
           else pbind (body opened) (\<lambda>r.
             (case (v_finished fs, v_current fs) of
                (Some finished, Some current) \<Rightarrow>
                  (if file_identity finished \<noteq> file_identity opened
                      \<or> file_identity current \<noteq> file_identity opened
                   then Inl (FileRecordChangedError (path @ '' changed during bounded capture''))
                   else Inr r)
              | _ \<Rightarrow> Inl (FileRecordChangedError (path @ '' changed during bounded capture''))))))"

text \<open>
  The read loop: it asks for a megabyte at a time, or with a ceiling for at most one byte more than
  the ceiling still allows, and stops at the first empty read.
\<close>

definition READ_SIZE :: nat where "READ_SIZE = 1024 * 1024"

definition read_size :: "int option \<Rightarrow> nat \<Rightarrow> nat" where
  "read_size maximum observed =
     (case maximum of None \<Rightarrow> READ_SIZE
      | Some m \<Rightarrow> nat (min (int READ_SIZE) (m - int observed + 1)))"

function read_loop :: "string \<Rightarrow> int option \<Rightarrow> string \<Rightarrow> string \<Rightarrow> string pyres" where
  "read_loop path maximum digested rest =
     (let chunk = take (read_size maximum (length digested)) rest
      in if chunk = [] then Inr digested
         else (case maximum of
             None \<Rightarrow> read_loop path maximum (digested @ chunk) (drop (length chunk) rest)
           | Some m \<Rightarrow>
               (if m < int (length digested + length chunk)
                then Inl (FileRecordLimitError path m (int (length digested + length chunk)))
                else read_loop path maximum (digested @ chunk) (drop (length chunk) rest))))"
  by pat_completeness auto
termination
  by (relation "measure (\<lambda>(path, maximum, digested, rest). length rest)")
    (auto simp: Let_def)

declare read_loop.simps [simp del]

definition file_record ::
  "py_env \<Rightarrow> fs_view \<Rightarrow> string \<Rightarrow> string \<Rightarrow> string \<Rightarrow> int option \<Rightarrow> file_rec pyres" where
  "file_record env fs path kind role maximum =
     (if (case maximum of None \<Rightarrow> False | Some m \<Rightarrow> m < 0)
      then Inl (ValueError ''maximum_bytes must be non-negative'')
      else (case stable_regular_file fs path (\<lambda>opened.
               (if (case maximum of None \<Rightarrow> False | Some m \<Rightarrow> m < st_size opened)
                then Inl (FileRecordLimitError path (the maximum) (st_size opened))
                else pbind (read_loop path maximum [] (v_content fs)) (\<lambda>content.
                  (if int (length content) \<noteq> st_size opened
                   then Inl (FileRecordChangedError (path @ '' changed during bounded capture''))
                   else Inr content)))) of
          Inl (FileRecordUnavailableError m) \<Rightarrow>
            Inr \<lparr>f_kind = kind, f_role = role, f_path = path, f_exists = False,
                 f_bytes = None, f_sha256 = None\<rparr>
        | Inl e \<Rightarrow> Inl e
        | Inr content \<Rightarrow>
            Inr \<lparr>f_kind = kind, f_role = role, f_path = path, f_exists = True,
                 f_bytes = Some (length content), f_sha256 = Some (sha256 env content)\<rparr>))"

lemma read_size_pos: "(case maximum of None \<Rightarrow> True | Some m \<Rightarrow> int n \<le> m) \<Longrightarrow> 0 < read_size maximum n"
  by (auto simp: read_size_def READ_SIZE_def split: option.splits)

lemma take_drop_rest: "take n xs @ drop (length (take n xs)) xs = xs"
  by (metis append_take_drop_id length_take min_def take_all_iff drop_all nat_le_linear append_Nil2)

text \<open>The loop returns exactly the content when it fits, and otherwise refuses it.\<close>

lemma read_loop_content:
  "(case maximum of None \<Rightarrow> True | Some m \<Rightarrow> int (length digested + length rest) \<le> m) \<Longrightarrow>
   read_loop path maximum digested rest = Inr (digested @ rest)"
proof (induction path maximum digested rest rule: read_loop.induct)
  case (1 path maximum digested rest)
  define chunk where "chunk = take (read_size maximum (length digested)) rest"
  show ?case
  proof (cases "rest = []")
    case True
    then show ?thesis by (simp add: read_loop.simps)
  next
    case False
    have "0 < read_size maximum (length digested)"
      using "1.prems" by (intro read_size_pos) (auto split: option.splits)
    then have ne: "chunk \<noteq> []" using False by (simp add: chunk_def)
    have len: "length chunk \<le> length rest" by (simp add: chunk_def)
    have split: "chunk @ drop (length chunk) rest = rest"
      unfolding chunk_def by (rule take_drop_rest)
    have step: "read_loop path maximum (digested @ chunk) (drop (length chunk) rest)
        = Inr (digested @ rest)"
    proof (cases maximum)
      case None
      have "read_loop path maximum (digested @ chunk) (drop (length chunk) rest)
          = Inr ((digested @ chunk) @ drop (length chunk) rest)"
        using 1(1) [OF refl] ne None by (simp add: chunk_def)
      then show ?thesis by (simp add: split)
    next
      case (Some m)
      have "read_loop path maximum (digested @ chunk) (drop (length chunk) rest)
          = Inr ((digested @ chunk) @ drop (length chunk) rest)"
        using 1(2) [OF refl _ Some] "1.prems" ne Some len by (simp add: chunk_def)
      then show ?thesis by (simp add: split)
    qed
    then show ?thesis
      using ne len "1.prems"
      by (subst read_loop.simps) (auto simp: Let_def chunk_def [symmetric] split: option.splits)
  qed
qed

lemma read_loop_over:
  "int (length digested) \<le> m \<Longrightarrow> m < int (length digested + length rest) \<Longrightarrow>
   \<exists>n. m < n \<and> read_loop path (Some m) digested rest = Inl (FileRecordLimitError path m n)"
proof (induction "length rest" arbitrary: digested rest rule: less_induct)
  case less
  define chunk where "chunk = take (read_size (Some m) (length digested)) rest"
  have "0 < read_size (Some m) (length digested)"
    using less.prems(1) by (intro read_size_pos) simp
  moreover have "rest \<noteq> []" using less.prems by auto
  ultimately have ne: "chunk \<noteq> []" by (simp add: chunk_def)
  have len: "length chunk \<le> length rest" by (simp add: chunk_def)
  show ?case
  proof (cases "m < int (length digested + length chunk)")
    case True
    then show ?thesis using ne
      by (subst read_loop.simps) (auto simp: Let_def chunk_def [symmetric])
  next
    case False
    have "length (drop (length chunk) rest) < length rest"
      using ne \<open>rest \<noteq> []\<close> by simp
    then have "\<exists>k. m < k \<and> read_loop path (Some m) (digested @ chunk)
        (drop (length chunk) rest) = Inl (FileRecordLimitError path m k)"
      using less.prems False len by (intro less.hyps) auto
    then show ?thesis using False ne
      by (subst read_loop.simps) (auto simp: Let_def chunk_def [symmetric])
  qed
qed

lemma stable_regular_file_Inr:
  "stable_regular_file fs path body = Inr r \<longleftrightarrow>
     (\<exists>st fin cur. v_open fs = Some st \<and> v_regular fs \<and> body st = Inr r \<and>
        v_finished fs = Some fin \<and> v_current fs = Some cur \<and>
        file_identity fin = file_identity st \<and> file_identity cur = file_identity st)"
  by (cases "v_open fs"; cases "v_finished fs"; cases "v_current fs")
    (auto simp: stable_regular_file_def)

lemma file_record_exists:
  assumes "file_record env fs path kind role (Some m) = Inr r" and "f_exists r"
  shows "0 \<le> m \<and> (\<exists>content. f_bytes r = Some (length content) \<and> f_sha256 r = Some (sha256 env content) \<and>
           stable_regular_file fs path (\<lambda>opened.
             if m < st_size opened then Inl (FileRecordLimitError path m (st_size opened))
             else pbind (read_loop path (Some m) [] (v_content fs)) (\<lambda>content.
               if int (length content) \<noteq> st_size opened
               then Inl (FileRecordChangedError (path @ '' changed during bounded capture''))
               else Inr content)) = Inr content)"
  using assms by (auto simp: file_record_def cong: if_cong split: sum.splits if_splits pyexc.splits)

text \<open>C38: a file record that claims an existing file within a byte ceiling is faithful: the file opened
  as a regular file, its recorded size is the length of its content and within the ceiling, its
  digest is the digest of exactly that content, and the file's identity was the same before and
  after the capture, both through the descriptor and through the path.\<close>

theorem file_record_sound:
  assumes "file_record env fs path kind role (Some m) = Inr r" and "f_exists r"
  shows "int (length (v_content fs)) \<le> m \<and> f_bytes r = Some (length (v_content fs)) \<and>
         f_sha256 r = Some (sha256 env (v_content fs)) \<and> v_regular fs \<and>
         (\<exists>st fin cur. v_open fs = Some st \<and> v_finished fs = Some fin \<and> v_current fs = Some cur \<and>
            st_size st = int (length (v_content fs)) \<and>
            file_identity fin = file_identity st \<and> file_identity cur = file_identity st)"
proof -
  obtain content st where m: "0 \<le> m"
    and rec: "f_bytes r = Some (length content)" "f_sha256 r = Some (sha256 env content)"
    and read: "read_loop path (Some m) [] (v_content fs) = Inr content"
    and size: "\<not> m < st_size st" "int (length content) = st_size st"
    and st: "v_regular fs \<and> (\<exists>fin cur. v_open fs = Some st \<and> v_finished fs = Some fin \<and>
       v_current fs = Some cur \<and> file_identity fin = file_identity st \<and>
       file_identity cur = file_identity st)"
    using file_record_exists [OF assms] by (auto simp: stable_regular_file_Inr split: if_splits)
  have le: "int (length (v_content fs)) \<le> m"
    using read_loop_over [of "[]" m "v_content fs" path] m read
    by (cases "m < int (length (v_content fs))") auto
  then have "content = v_content fs"
    using read read_loop_content [where maximum = "Some m" and digested = "[]"
        and rest = "v_content fs" and path = path] by simp
  then show ?thesis using rec st size le by auto
qed

definition example_stat :: file_stat where
  "example_stat = \<lparr>st_dev = 1, st_ino = 2, st_mode = 33188, st_size = 3, st_mtime_ns = 5, st_ctime_ns = 6\<rparr>"

definition example_fs :: fs_view where
  "example_fs = \<lparr>v_open = Some example_stat, v_regular = True, v_content = ''gds'',
     v_finished = Some example_stat, v_current = Some example_stat\<rparr>"

definition example_env :: py_env where
  "example_env =
     \<lparr>sha256 = (\<lambda>t. replicate 64 (CHR ''0'')), new_uuid = ''00000000-0000-4000-8000-000000000000'',
      created_at = ''2026-01-01T00:00:00Z'', host_system = ''Linux'', host_machine = ''x86_64'',
      host_python = ''3.12.0''\<rparr>"

lemma example_uuid_parse: "uuid_parse ''00000000-0000-4000-8000-000000000000'' = Some 302240678275694148452352"
  by (simp add: uuid_parse_def delete_all_absent strip_by_def int_base16_def py_space_def ord_def hex_value_def)

lemma example_uuid: "canonical_uuid ''00000000-0000-4000-8000-000000000000''"
  by (simp add: canonical_uuid_def example_uuid_parse uuid_str_def hex_fixed_numeral hex_digit_def)

lemma example_env_ok: "env_ok example_env"
  using example_uuid
  by (simp add: env_ok_def example_env_def sha256_text_def lower_hex_def ascii_digit_def ord_def
      list_all_iff)

theorem file_record_sound_witness:
  "\<exists>r. file_record example_env example_fs ''/a.gds'' ''gds'' ''layout'' (Some 10) = Inr r \<and>
       f_bytes r = Some 3"
proof -
  have l: "read_loop ''/a.gds'' (Some 10) [] ''gds'' = Inr ''gds''"
    using read_loop_content [where maximum = "Some 10" and digested = "[]" and rest = "''gds''" and path = "''/a.gds''"] by simp
  obtain r where r: "file_record example_env example_fs ''/a.gds'' ''gds'' ''layout'' (Some 10) = Inr r"
    and e: "f_exists r"
    by (simp add: file_record_def stable_regular_file_def example_fs_def example_stat_def l)
  show ?thesis using file_record_sound [OF r e] r by (simp add: example_fs_def)
qed

text \<open>the byte ceiling is enforced whatever the status call reported: capturing a regular file whose
  content exceeds a nonnegative ceiling raises the limit error, with an observed size above the
  ceiling, and no record or digest is produced.\<close>

theorem file_record_ceiling:
  assumes "v_open fs = Some st" and "v_regular fs" and "0 \<le> m" and "m < int (length (v_content fs))"
  shows "\<exists>n. m < n \<and> file_record env fs path kind role (Some m) = Inl (FileRecordLimitError path m n)"
proof -
  obtain n where "m < n" "read_loop path (Some m) [] (v_content fs) = Inl (FileRecordLimitError path m n)"
    using read_loop_over [of "[]" m "v_content fs" path] assms by auto
  then show ?thesis using assms
    by (cases "m < st_size st") (auto simp: file_record_def stable_regular_file_def)
qed

theorem file_record_ceiling_witness:
  "\<exists>n. 2 < n \<and> file_record example_env example_fs ''/a.gds'' ''gds'' ''layout'' (Some 2)
     = Inl (FileRecordLimitError ''/a.gds'' 2 n)"
  using file_record_ceiling [of example_fs example_stat 2 example_env "''/a.gds''" "''gds''" "''layout''"]
  by (simp add: example_fs_def)

end
