(* ===== verification/Evidence.thy ===== *)
theory Evidence
  imports Contract
begin

text \<open>
  What the typed-evidence modules \<open>operations/result_measure.py\<close> and
  \<open>operations/specification_evaluate.py\<close> share: the field validators, which the two files repeat
  with their own diagnostic codes, and the records they exchange (condition bindings, lineage and
  the source of a measurement), each with the dictionary it is written as.
\<close>

section \<open>Field validators\<close>

text \<open>The diagnostic codes that tell the copies of one validator apart.\<close>

record codes =
  request_code :: string
  source_code :: string

definition measure_codes :: codes where
  "measure_codes =
     \<lparr>request_code = ''measurement.request.invalid'', source_code = ''measurement.source.invalid''\<rparr>"

definition spec_codes :: codes where
  "spec_codes =
     \<lparr>request_code = ''specification.request.invalid'', source_code = ''specification.source.invalid''\<rparr>"

definition text_value :: "codes \<Rightarrow> pyval \<Rightarrow> string \<Rightarrow> nat \<Rightarrow> string pyres" where
  "text_value cs v label limit =
     (case as_str v of
        None \<Rightarrow> Inl (InvalidRequest (request_code cs)
          (label @ '' must be nonempty text of at most '' @ dec_nat limit @ '' characters.''))
      | Some t \<Rightarrow>
          (if t = [] \<or> limit < length t
           then Inl (InvalidRequest (request_code cs)
             (label @ '' must be nonempty text of at most '' @ dec_nat limit @ '' characters.''))
           else Inr t))"

definition unit_value :: "codes \<Rightarrow> pyval \<Rightarrow> string \<Rightarrow> string pyres" where
  "unit_value cs v label = text_value cs v label 64"

definition finite_value :: "codes \<Rightarrow> pyval \<Rightarrow> string \<Rightarrow> pyfloat pyres" where
  "finite_value cs v label =
     (case as_number v of
        None \<Rightarrow> Inl (InvalidRequest (request_code cs) (label @ '' must be a JSON number.''))
      | Some (Inl e) \<Rightarrow> Inl (InvalidRequest (request_code cs)
          (label @ '' must be representable as a finite JSON number.''))
      | Some (Inr x) \<Rightarrow>
          (if \<not> is_finite x
           then Inl (InvalidRequest (request_code cs) (label @ '' must be finite.''))
           else Inr x))"

definition empty_extensions :: "codes \<Rightarrow> pyval \<Rightarrow> string \<Rightarrow> unit pyres" where
  "empty_extensions cs v label =
     (case as_dict v of
        None \<Rightarrow> Inl (InvalidRequest (request_code cs) (label @ '' must be an object.''))
      | Some d \<Rightarrow>
          (if d \<noteq> []
           then Inl (InvalidRequest (request_code cs) (label @ '' must be empty in v1alpha1.''))
           else Inr ()))"

definition uuid_value :: "codes \<Rightarrow> pyval \<Rightarrow> string \<Rightarrow> string pyres" where
  "uuid_value cs v label =
     pbind (text_value cs v label 36) (\<lambda>t.
       (case uuid_parse t of
          None \<Rightarrow> Inl (InvalidRequest (source_code cs) (label @ '' must be a UUID.''))
        | Some n \<Rightarrow>
            (if uuid_str n \<noteq> t
             then Inl (InvalidRequest (source_code cs)
               (label @ '' must use canonical lowercase UUID form.''))
             else Inr t)))"

text \<open>The correlation identity of a request: a fresh UUID, or the given one when it is canonical.\<close>

definition correlation_id :: "codes \<Rightarrow> py_env \<Rightarrow> pyval \<Rightarrow> string pyres" where
  "correlation_id cs env v =
     (if v = VNone then Inr (new_uuid env) else uuid_value cs v ''request_id'')"

definition digest_value :: "codes \<Rightarrow> pyval \<Rightarrow> string \<Rightarrow> string pyres" where
  "digest_value cs v label =
     pbind (text_value cs v label 64) (\<lambda>t.
       if \<not> sha256_text t
       then Inl (InvalidRequest (source_code cs) (label @ '' must be a lowercase SHA-256 digest.''))
       else Inr t)"

definition role_value :: "codes \<Rightarrow> pyval \<Rightarrow> string \<Rightarrow> string pyres" where
  "role_value cs v label =
     pbind (text_value cs v label 120) (\<lambda>t.
       if \<not> canonical_role t
       then Inl (InvalidRequest (source_code cs) (label @ '' is not a canonical role.''))
       else Inr t)"

definition bounded_name :: "nat \<Rightarrow> string \<Rightarrow> bool" where
  "bounded_name limit t = (t \<noteq> [] \<and> length t \<le> limit)"

lemma text_value_Inr [res_simps]:
  "text_value cs v label limit = Inr t \<longleftrightarrow> v = VStr t \<and> bounded_name limit t"
  by (auto simp: text_value_def bounded_name_def as_view_iff split: option.splits)

lemma unit_value_Inr [res_simps]:
  "unit_value cs v label = Inr t \<longleftrightarrow> v = VStr t \<and> bounded_name 64 t"
  by (simp add: unit_value_def res_simps)

lemma empty_extensions_Inr [res_simps]: "empty_extensions cs v label = Inr u \<longleftrightarrow> v = VDict []"
  by (auto simp: empty_extensions_def as_view_iff split: option.splits)

lemma uuid_value_Inr [res_simps]:
  "uuid_value cs v label = Inr t \<longleftrightarrow> v = VStr t \<and> bounded_name 36 t \<and> canonical_uuid t"
  by (auto simp: uuid_value_def res_simps canonical_uuid_def split: option.splits)

lemma sha256_text_bounded: "sha256_text t \<Longrightarrow> bounded_name 64 t"
  by (cases t) (simp_all add: sha256_text_def bounded_name_def)

lemma digest_value_Inr [res_simps]:
  "digest_value cs v label = Inr t \<longleftrightarrow> v = VStr t \<and> sha256_text t"
  using sha256_text_bounded [of t] unfolding digest_value_def by (auto simp: text_value_Inr)

lemma role_value_Inr [res_simps]:
  "role_value cs v label = Inr t \<longleftrightarrow> v = VStr t \<and> bounded_name 120 t \<and> canonical_role t"
  by (auto simp: role_value_def res_simps)

lemma finite_value_finite64:
  "finite_value cs v label = Inr x \<Longrightarrow> wf_val v \<Longrightarrow> finite64 x"
  by (auto simp: finite_value_def as_number_def f64_finite64
      dest: float_of_int_finite64 split: option.splits sum.splits if_splits pyval.splits)

lemma finite_value_finite: "finite_value cs v label = Inr x \<Longrightarrow> is_finite x"
  by (auto simp: finite_value_def split: option.splits sum.splits if_splits)

lemma finite_value_VFloat [simp]: "is_finite x \<Longrightarrow> finite_value cs (VFloat x) label = Inr x"
  by (simp add: finite_value_def as_number_def)

lemma finite_value_json: "finite_value cs v label = Inr x \<Longrightarrow> json_value v"
  by (auto simp: finite_value_def as_number_def split: option.splits sum.splits if_splits pyval.splits)

text \<open>Every field validator raises typed refusals only.\<close>

lemma closed_object_refuses [err_intros]: "errs_in refusal (closed_object code v label req opt)"
  using closed_object_error_code by (fastforce simp: errs_in_iff)

lemma text_value_refuses [err_intros]: "errs_in refusal (text_value cs v label limit)"
  by (simp add: text_value_def split: option.splits)

lemma unit_value_refuses [err_intros]: "errs_in refusal (unit_value cs v label)"
  unfolding unit_value_def by (rule err_intros)

lemma finite_value_refuses [err_intros]: "errs_in refusal (finite_value cs v label)"
  by (simp add: finite_value_def split: option.splits sum.splits)

lemma empty_extensions_refuses [err_intros]: "errs_in refusal (empty_extensions cs v label)"
  by (simp add: empty_extensions_def split: option.splits)

lemma uuid_value_refuses [err_intros]: "errs_in refusal (uuid_value cs v label)"
  unfolding uuid_value_def by (intro err_intros) simp_all

lemma correlation_id_refuses [err_intros]: "errs_in refusal (correlation_id cs env v)"
  unfolding correlation_id_def by (intro err_intros) simp_all

lemma digest_value_refuses [err_intros]: "errs_in refusal (digest_value cs v label)"
  unfolding digest_value_def by (intro err_intros) simp_all

lemma role_value_refuses [err_intros]: "errs_in refusal (role_value cs v label)"
  unfolding role_value_def by (intro err_intros) simp_all

section \<open>Exchanged records\<close>

record cond =
  c_name :: string
  c_value :: pyval
  c_unit :: string

definition cond_json :: "cond \<Rightarrow> pyval" where
  "cond_json c = obj [(''name'', VStr (c_name c)), (''value'', c_value c), (''unit'', VStr (c_unit c))]"

text \<open>A normalised condition value is a finite float, bounded text or a boolean.\<close>

definition scalar_ok :: "pyval \<Rightarrow> bool" where
  "scalar_ok v =
     (case v of VFloat x \<Rightarrow> finite64 x | VStr t \<Rightarrow> bounded_name 256 t | VBool b \<Rightarrow> True | _ \<Rightarrow> False)"

definition cond_ok :: "cond \<Rightarrow> bool" where
  "cond_ok c = (bounded_name 256 (c_name c) \<and> scalar_ok (c_value c) \<and> bounded_name 64 (c_unit c))"

record lineage =
  l_operation :: string
  l_request_id :: string
  l_role :: string
  l_sha256 :: string

definition lineage_json :: "lineage \<Rightarrow> pyval" where
  "lineage_json l =
     obj [(''operation'', VStr (l_operation l)), (''request_id'', VStr (l_request_id l)),
          (''artifact_role'', VStr (l_role l)), (''artifact_sha256'', VStr (l_sha256 l)),
          (''binding'', VStr ''unverified'')]"

definition lineage_ok :: "lineage \<Rightarrow> bool" where
  "lineage_ok l =
     (bounded_name 256 (l_operation l) \<and> canonical_uuid (l_request_id l) \<and>
      bounded_name 36 (l_request_id l) \<and> bounded_name 120 (l_role l) \<and> canonical_role (l_role l) \<and>
      sha256_text (l_sha256 l))"

text \<open>The lineage check, the same block of code in both modules.\<close>

definition norm_lineage :: "codes \<Rightarrow> string \<Rightarrow> pyval \<Rightarrow> lineage pyres" where
  "norm_lineage cs label v =
     pbind (closed_object (request_code cs) v label
              [''operation'', ''request_id'', ''artifact_role'', ''artifact_sha256'', ''binding''] [])
       (\<lambda>d.
     pbind (digest_value cs (dget d ''artifact_sha256'') (label @ ''.artifact_sha256'')) (\<lambda>digest.
     pbind (role_value cs (dget d ''artifact_role'') (label @ ''.artifact_role'')) (\<lambda>role.
     if dget d ''binding'' \<noteq> VStr ''unverified''
     then Inl (InvalidRequest (source_code cs)
       (label @ ''.binding must be exactly '' @ repr_text ''unverified'' @ ''.''))
     else
     pbind (text_value cs (dget d ''operation'') (label @ ''.operation'') 256) (\<lambda>operation.
     pbind (uuid_value cs (dget d ''request_id'') (label @ ''.request_id'')) (\<lambda>request_id.
     Inr \<lparr>l_operation = operation, l_request_id = request_id, l_role = role,
          l_sha256 = digest\<rparr>)))))"

record evidence_source =
  s_operation :: string
  s_request_id :: string
  s_role :: string
  s_artifact_sha256 :: string
  s_series_sha256 :: string
  s_conditions_sha256 :: string
  s_conditions :: "cond list"
  s_lineage :: "lineage option"

definition source_json :: "evidence_source \<Rightarrow> pyval" where
  "source_json s =
     obj [(''operation'', VStr (s_operation s)), (''request_id'', VStr (s_request_id s)),
          (''artifact_role'', VStr (s_role s)), (''artifact_sha256'', VStr (s_artifact_sha256 s)),
          (''series_sha256'', VStr (s_series_sha256 s)),
          (''conditions_sha256'', VStr (s_conditions_sha256 s)),
          (''conditions'', VList (map cond_json (s_conditions s))),
          (''lineage'', opt_val lineage_json (s_lineage s))]"

text \<open>
  A closed object whose declared fields are JSON is JSON: its keys are text and, keys being
  distinct, every entry is the value its key is looked up at.
\<close>

lemma closed_object_json:
  assumes "closed_object code v label req opt = Inr d" and "wf_val v"
    and "\<And>k. k \<in> set req \<union> set opt \<Longrightarrow> dhas d k \<Longrightarrow> json_value (dget d k)"
  shows "json_value (VDict d)"
proof -
  note c = closed_object_Inr [OF assms(1)]
  have "is_str k \<and> json_value x" if kx: "(k, x) \<in> set d" for k x
  proof -
    have "is_str k" using c(2) kx by (auto simp: list_all_iff)
    then obtain s where s: "k = VStr s" by (cases k) auto
    have "dhas d s" using kx s by (force simp: dhas_def)
    moreover have "s \<in> set req \<union> set opt"
      using c(2,4) \<open>dhas d s\<close> str_keys_dhas by blast
    moreover have "dget d s = x"
      using assms(2) kx unfolding c(1) s by (simp add: dget_def)
    ultimately show ?thesis using assms(3) s by force
  qed
  then show ?thesis by (auto simp: list_all_iff)
qed

section \<open>Parse and print\<close>

text \<open>
  The contract of a record that the modules exchange as JSON: what parses is well formed, and the
  printed form of a well-formed record parses back to it.  Normalisation is then idempotent and a
  printed record determines the record.
\<close>

locale json_record =
  fixes parse :: "pyval \<Rightarrow> 'a pyres"
    and print :: "'a \<Rightarrow> pyval"
    and ok :: "'a \<Rightarrow> bool"
  assumes parse_ok: "wf_val v \<Longrightarrow> parse v = Inr a \<Longrightarrow> ok a"
    and parse_print: "ok a \<Longrightarrow> parse (print a) = Inr a"
begin

lemma idempotent: "wf_val v \<Longrightarrow> parse v = Inr a \<Longrightarrow> parse (print a) = Inr a"
  by (rule parse_print) (rule parse_ok)

lemma print_inj: "ok a \<Longrightarrow> ok b \<Longrightarrow> print a = print b \<Longrightarrow> a = b"
  by (metis parse_print sum.inject(2))

lemma print_list: "list_all ok xs \<Longrightarrow> map_res parse (map print xs) = Inr xs"
  by (induction xs) (simp_all add: parse_print)

end

lemma cond_json_value: "cond_ok c \<Longrightarrow> json_value (cond_json c)"
  by (auto simp: cond_json_def cond_ok_def scalar_ok_def finite64_is_finite split: pyval.splits)

lemma conds_json_value: "list_all cond_ok cs \<Longrightarrow> json_value (VList (map cond_json cs))"
  by (induction cs) (simp_all add: cond_json_value)

lemma closed_object_dict: "closed_object code v label req opt = Inr d \<Longrightarrow> v = VDict d"
  by (rule closed_object_Inr(1))

lemma norm_lineage_refuses [err_intros]: "errs_in refusal (norm_lineage cs label v)"
  unfolding norm_lineage_def by (intro err_intros) simp_all

lemma norm_lineage_ok: "norm_lineage cs label v = Inr l \<Longrightarrow> lineage_ok l"
  by (auto simp: norm_lineage_def lineage_ok_def res_simps split: if_splits)

lemma lineage_fields:
  "closed_object code (lineage_json l) label
     [''operation'', ''request_id'', ''artifact_role'', ''artifact_sha256'', ''binding''] []
   = Inr [(VStr ''operation'', VStr (l_operation l)), (VStr ''request_id'', VStr (l_request_id l)),
          (VStr ''artifact_role'', VStr (l_role l)), (VStr ''artifact_sha256'', VStr (l_sha256 l)),
          (VStr ''binding'', VStr ''unverified'')]"
  unfolding lineage_json_def by (subst closed_object_intro) auto

lemma norm_lineage_print: "lineage_ok l \<Longrightarrow> norm_lineage cs label (lineage_json l) = Inr l"
  by (simp add: norm_lineage_def lineage_fields lineage_ok_def res_simps text_value_Inr [THEN iffD2]
      uuid_value_Inr [THEN iffD2] digest_value_Inr [THEN iffD2] role_value_Inr [THEN iffD2])

interpretation lineage_record: json_record "norm_lineage cs label" lineage_json lineage_ok
  using norm_lineage_ok norm_lineage_print by unfold_locales blast+

end
