(* ===== verification/MeasureSeries.thy ===== *)
theory MeasureSeries
  imports Evidence
begin

text \<open>
  The normalised series of \<open>operations/result_measure.py\<close>: the validation of a series document
  (source, axis, signals, condition bindings), the digest binding of its content and the digest
  helper \<open>normalized_series_sha256\<close>.
\<close>

definition MAX_POINTS :: nat where "MAX_POINTS = 100000"
definition MAX_SIGNALS :: nat where "MAX_SIGNALS = 32"
definition MAX_CONDITIONS :: nat where "MAX_CONDITIONS = 64"

abbreviation measure_request :: "string \<Rightarrow> pyexc" where
  "measure_request msg \<equiv> InvalidRequest ''measurement.request.invalid'' msg"

abbreviation measure_source :: "string \<Rightarrow> pyexc" where
  "measure_source msg \<equiv> InvalidRequest ''measurement.source.invalid'' msg"

definition m_closed :: "pyval \<Rightarrow> string \<Rightarrow> string list \<Rightarrow> string list \<Rightarrow> pydict pyres" where
  "m_closed = closed_object (request_code measure_codes)"

definition m_text :: "pyval \<Rightarrow> string \<Rightarrow> nat \<Rightarrow> string pyres" where
  "m_text = text_value measure_codes"

definition m_unit :: "pyval \<Rightarrow> string \<Rightarrow> string pyres" where
  "m_unit = unit_value measure_codes"

definition m_finite :: "pyval \<Rightarrow> string \<Rightarrow> pyfloat pyres" where
  "m_finite = finite_value measure_codes"

definition m_extensions :: "pyval \<Rightarrow> string \<Rightarrow> unit pyres" where
  "m_extensions = empty_extensions measure_codes"

definition m_uuid :: "pyval \<Rightarrow> string \<Rightarrow> string pyres" where
  "m_uuid = uuid_value measure_codes"

definition m_correlation_id :: "py_env \<Rightarrow> pyval \<Rightarrow> string pyres" where
  "m_correlation_id = correlation_id measure_codes"

lemmas m_defs = m_closed_def m_text_def m_unit_def m_finite_def m_extensions_def m_uuid_def
  m_correlation_id_def

section \<open>Records\<close>

record axis_rec =
  a_name :: string
  a_unit :: string
  a_values :: "pyfloat list"

record signal_rec =
  g_name :: string
  g_unit :: string
  g_values :: "pyfloat list"

record series =
  r_axis :: axis_rec
  r_signals :: "signal_rec list"
  r_conditions :: "cond list"
  r_source :: evidence_source

definition axis_json :: "axis_rec \<Rightarrow> pyval" where
  "axis_json a = obj [(''name'', VStr (a_name a)), (''unit'', VStr (a_unit a)),
                      (''values'', VList (map VFloat (a_values a)))]"

definition signal_json :: "signal_rec \<Rightarrow> pyval" where
  "signal_json g = obj [(''name'', VStr (g_name g)), (''unit'', VStr (g_unit g)),
                        (''values'', VList (map VFloat (g_values g)))]"

text \<open>The digested content of a series.\<close>

definition content_json :: "axis_rec \<Rightarrow> signal_rec list \<Rightarrow> cond list \<Rightarrow> pyval" where
  "content_json axis signals conditions =
     obj [(''axis'', axis_json axis), (''signals'', VList (map signal_json signals)),
          (''conditions'', VList (map cond_json conditions))]"

section \<open>Conditions\<close>

definition m_scalar :: "string \<Rightarrow> pyval \<Rightarrow> pyval pyres" where
  "m_scalar label v =
     (case v of
        VInt i \<Rightarrow> pbind (m_finite v label) (\<lambda>x. Inr (VFloat x))
      | VFloat y \<Rightarrow> pbind (m_finite v label) (\<lambda>x. Inr (VFloat x))
      | VStr t \<Rightarrow> pbind (m_text v label 256) (\<lambda>t. Inr (VStr t))
      | VBool b \<Rightarrow> Inr (VBool b)
      | _ \<Rightarrow> Inl (measure_source (label @ '' must be a finite number, string, or boolean.'')))"

definition m_condition :: "pyval \<Rightarrow> nat \<Rightarrow> cond pyres" where
  "m_condition v index =
     (let label = ''series.conditions['' @ dec_nat index @ '']''
      in pbind (m_closed v label [''name'', ''value'', ''unit''] []) (\<lambda>d.
         pbind (m_scalar (label @ ''.value'') (dget d ''value'')) (\<lambda>value.
         pbind (m_text (dget d ''name'') (label @ ''.name'') 256) (\<lambda>name.
         pbind (m_unit (dget d ''unit'') (label @ ''.unit'')) (\<lambda>unit.
         Inr \<lparr>c_name = name, c_value = value, c_unit = unit\<rparr>)))))"

definition m_conditions :: "pyval \<Rightarrow> cond list pyres" where
  "m_conditions v =
     (case as_sequence v of
        None \<Rightarrow> Inl (InvalidRequest ''measurement.source.over_limit''
          (''series.conditions must be an array of at most '' @ dec_nat MAX_CONDITIONS @ '' entries.''))
      | Some items \<Rightarrow>
          (if MAX_CONDITIONS < length items
           then Inl (InvalidRequest ''measurement.source.over_limit''
             (''series.conditions must be an array of at most '' @ dec_nat MAX_CONDITIONS @ '' entries.''))
           else pbind (map_res_i (\<lambda>i item. m_condition item i) 0 items) (\<lambda>conditions.
             if \<not> distinct (map c_name conditions)
             then Inl (measure_source ''series.conditions names must be unique.'')
             else Inr conditions)))"

section \<open>Source, axis and signals\<close>

record source_head =
  h_operation :: string
  h_request_id :: string
  h_role :: string
  h_sha256 :: string
  h_lineage :: "lineage option"

definition m_source :: "pyval \<Rightarrow> source_head pyres" where
  "m_source v =
     pbind (m_closed v ''series.source''
              [''operation'', ''request_id'', ''artifact_role'', ''artifact_sha256''] [''lineage'']) (\<lambda>d.
     pbind (digest_value measure_codes (dget d ''artifact_sha256'') ''series.source.artifact_sha256'')
       (\<lambda>digest.
     pbind (role_value measure_codes (dget d ''artifact_role'') ''series.source.artifact_role'') (\<lambda>role.
     if role \<noteq> ''measurement.source''
     then Inl (measure_source (''series.source.artifact_role must be '' @ repr_text ''measurement.source''
       @ ''; native artifacts belong only in unverified lineage.''))
     else
     pbind (if dhas d ''lineage''
            then pbind (norm_lineage measure_codes ''series.source.lineage'' (dget d ''lineage''))
                   (\<lambda>l. Inr (Some l))
            else Inr None) (\<lambda>lineage.
     pbind (m_text (dget d ''operation'') ''series.source.operation'' 256) (\<lambda>operation.
     pbind (m_uuid (dget d ''request_id'') ''series.source.request_id'') (\<lambda>request_id.
     Inr \<lparr>h_operation = operation, h_request_id = request_id, h_role = role, h_sha256 = digest,
          h_lineage = lineage\<rparr>))))))"

text \<open>\<open>all(left < right)\<close> over neighbours, the negation of the code's \<open>any(right <= left)\<close>.\<close>

fun strictly_increasing :: "pyfloat list \<Rightarrow> bool" where
  "strictly_increasing (x # y # xs) = (\<not> fle y x \<and> strictly_increasing (y # xs))"
| "strictly_increasing xs = True"

definition m_axis :: "pyval \<Rightarrow> axis_rec pyres" where
  "m_axis v =
     pbind (m_closed v ''series.axis'' [''name'', ''unit'', ''values''] []) (\<lambda>d.
     (case as_sequence (dget d ''values'') of
        None \<Rightarrow> Inl (measure_source ''series.axis.values must be an array.'')
      | Some items \<Rightarrow>
          (if \<not> (1 \<le> length items \<and> length items \<le> MAX_POINTS)
           then Inl (InvalidRequest ''measurement.source.over_limit''
             (''series.axis.values must contain between 1 and '' @ dec_nat MAX_POINTS @ '' points.''))
           else
           pbind (map_res_i (\<lambda>i x. m_finite x (''series.axis.values['' @ dec_nat i @ '']'')) 0 items)
             (\<lambda>axis_values.
           if \<not> strictly_increasing axis_values
           then Inl (measure_source
             ''series.axis.values must be strictly increasing without duplicates.'')
           else
           pbind (m_text (dget d ''name'') ''series.axis.name'' 256) (\<lambda>name.
           pbind (m_unit (dget d ''unit'') ''series.axis.unit'') (\<lambda>unit.
           Inr \<lparr>a_name = name, a_unit = unit, a_values = axis_values\<rparr>))))))"

definition m_signal :: "nat \<Rightarrow> string list \<Rightarrow> nat \<Rightarrow> pyval \<Rightarrow> signal_rec pyres" where
  "m_signal points names index v =
     (let label = ''series.signals['' @ dec_nat index @ '']''
      in pbind (m_closed v label [''name'', ''unit'', ''values''] []) (\<lambda>d.
         pbind (m_text (dget d ''name'') (label @ ''.name'') 256) (\<lambda>name.
         if name \<in> set names
         then Inl (measure_source (''series.signals contains duplicate name '' @ repr_text name @ ''.''))
         else
         (case as_sequence (dget d ''values'') of
            None \<Rightarrow> Inl (measure_source (label @ ''.values must match the axis length exactly.''))
          | Some items \<Rightarrow>
              (if length items \<noteq> points
               then Inl (measure_source (label @ ''.values must match the axis length exactly.''))
               else
               pbind (m_unit (dget d ''unit'') (label @ ''.unit'')) (\<lambda>unit.
               pbind (map_res_i (\<lambda>p x. m_finite x (label @ ''.values['' @ dec_nat p @ '']'')) 0 items)
                 (\<lambda>sample_values.
               Inr \<lparr>g_name = name, g_unit = unit, g_values = sample_values\<rparr>)))))))"

fun m_signal_loop :: "nat \<Rightarrow> nat \<Rightarrow> string list \<Rightarrow> pyval list \<Rightarrow> signal_rec list pyres" where
  "m_signal_loop points index names [] = Inr []"
| "m_signal_loop points index names (v # vs) =
     pbind (m_signal points names index v) (\<lambda>g.
     pbind (m_signal_loop points (Suc index) (g_name g # names) vs) (\<lambda>gs. Inr (g # gs)))"

definition m_signals :: "nat \<Rightarrow> pyval \<Rightarrow> signal_rec list pyres" where
  "m_signals points v =
     (case as_sequence v of
        None \<Rightarrow> Inl (InvalidRequest ''measurement.source.over_limit''
          (''series.signals must contain between 1 and '' @ dec_nat MAX_SIGNALS @ '' signals.''))
      | Some items \<Rightarrow>
          (if \<not> (1 \<le> length items \<and> length items \<le> MAX_SIGNALS)
           then Inl (InvalidRequest ''measurement.source.over_limit''
             (''series.signals must contain between 1 and '' @ dec_nat MAX_SIGNALS @ '' signals.''))
           else m_signal_loop points 0 [] items))"

definition normalize_series :: "py_env \<Rightarrow> bool \<Rightarrow> pyval \<Rightarrow> series pyres" where
  "normalize_series env verify_digest v =
     pbind (m_closed v ''series'' [''source'', ''axis'', ''signals'', ''conditions'', ''extensions''] [])
       (\<lambda>root.
     pbind (m_extensions (dget root ''extensions'') ''series.extensions'') (\<lambda>_.
     pbind (m_source (dget root ''source'')) (\<lambda>head.
     pbind (m_axis (dget root ''axis'')) (\<lambda>axis.
     pbind (m_signals (length (a_values axis)) (dget root ''signals'')) (\<lambda>signals.
     pbind (m_conditions (dget root ''conditions'')) (\<lambda>conditions.
     pbind (canonical_sha256 env (content_json axis signals conditions)) (\<lambda>content_sha256.
     if verify_digest \<and> h_sha256 head \<noteq> content_sha256
     then Inl (InvalidRequest ''measurement.source.digest_mismatch''
       ''series.source.artifact_sha256 does not match the canonical normalized axis, signals, and conditions content.'')
     else
     pbind (canonical_sha256 env (VList (map cond_json conditions))) (\<lambda>conditions_sha256.
     Inr \<lparr>r_axis = axis, r_signals = signals, r_conditions = conditions,
          r_source = \<lparr>s_operation = h_operation head, s_request_id = h_request_id head,
            s_role = h_role head, s_artifact_sha256 = h_sha256 head,
            s_series_sha256 = content_sha256, s_conditions_sha256 = conditions_sha256,
            s_conditions = conditions, s_lineage = h_lineage head\<rparr>\<rparr>))))))))"

definition normalized_series_sha256 :: "py_env \<Rightarrow> pyval \<Rightarrow> pyval \<Rightarrow> pyval \<Rightarrow> string pyres" where
  "normalized_series_sha256 env axis signals conditions =
     pbind (normalize_series env False
       (obj [(''source'',
              obj [(''operation'', VStr ''normalized.series.digest''),
                   (''request_id'', VStr ''00000000-0000-4000-8000-000000000000''),
                   (''artifact_role'', VStr ''measurement.source''),
                   (''artifact_sha256'', VStr (replicate 64 (CHR ''0'')))]),
             (''axis'', axis), (''signals'', signals), (''conditions'', conditions),
             (''extensions'', VDict [])]))
       (\<lambda>s. Inr (s_series_sha256 (r_source s)))"

section \<open>What a normalised series satisfies\<close>

definition axis_ok :: "axis_rec \<Rightarrow> bool" where
  "axis_ok a =
     (bounded_name 256 (a_name a) \<and> bounded_name 64 (a_unit a) \<and> a_values a \<noteq> [] \<and>
      length (a_values a) \<le> MAX_POINTS \<and> list_all finite64 (a_values a) \<and>
      sorted_wrt (<) (map fval (a_values a)))"

definition signal_ok :: "nat \<Rightarrow> signal_rec \<Rightarrow> bool" where
  "signal_ok points g =
     (bounded_name 256 (g_name g) \<and> bounded_name 64 (g_unit g) \<and> length (g_values g) = points \<and>
      list_all finite64 (g_values g))"

definition source_ok :: "evidence_source \<Rightarrow> bool" where
  "source_ok s =
     (bounded_name 256 (s_operation s) \<and> canonical_uuid (s_request_id s) \<and>
      bounded_name 36 (s_request_id s) \<and> s_role s = ''measurement.source'' \<and>
      sha256_text (s_artifact_sha256 s) \<and> sha256_text (s_series_sha256 s) \<and>
      sha256_text (s_conditions_sha256 s) \<and> length (s_conditions s) \<le> MAX_CONDITIONS \<and>
      list_all cond_ok (s_conditions s) \<and> distinct (map c_name (s_conditions s)) \<and>
      (case s_lineage s of None \<Rightarrow> True | Some l \<Rightarrow> lineage_ok l))"

definition series_ok :: "series \<Rightarrow> bool" where
  "series_ok s =
     (axis_ok (r_axis s) \<and> r_signals s \<noteq> [] \<and> length (r_signals s) \<le> MAX_SIGNALS \<and>
      list_all (signal_ok (length (a_values (r_axis s)))) (r_signals s) \<and>
      distinct (map g_name (r_signals s)) \<and> source_ok (r_source s) \<and>
      s_conditions (r_source s) = r_conditions s)"

lemma m_scalar_ok: "wf_val v \<Longrightarrow> m_scalar label v = Inr w \<Longrightarrow> scalar_ok w"
  by (cases v) (auto simp: m_scalar_def m_defs res_simps scalar_ok_def dest: finite_value_finite64)

lemma m_condition_ok:
  assumes "wf_val v" and "m_condition v i = Inr c"
  shows "cond_ok c"
proof -
  obtain d label where "v = VDict d" and "m_scalar label (dget d ''value'') = Inr (c_value c)"
    and "bounded_name 256 (c_name c)" "bounded_name 64 (c_unit c)"
    using assms(2) by (auto simp: m_condition_def m_defs Let_def res_simps dest!: closed_object_dict)
  then show ?thesis
    using m_scalar_ok [OF wf_val_dget] assms(1) by (simp add: cond_ok_def)
qed

lemma map_res_i_wf:
  assumes "map_res_i f i xs = Inr ys" and "list_all wf_val xs"
    and "\<And>k x y. wf_val x \<Longrightarrow> f k x = Inr y \<Longrightarrow> P y"
  shows "list_all P ys"
  using assms(1,2) assms(3) by (induction xs arbitrary: i ys) auto

lemma wf_sequence: "wf_val v \<Longrightarrow> as_sequence v = Some xs \<Longrightarrow> list_all wf_val xs"
  by (cases v) (auto simp: as_sequence_def)

lemma m_conditions_ok:
  assumes "wf_val v" and "m_conditions v = Inr cs"
  shows "length cs \<le> MAX_CONDITIONS \<and> list_all cond_ok cs \<and> distinct (map c_name cs)"
proof -
  obtain items where items: "as_sequence v = Some items" "length items \<le> MAX_CONDITIONS"
    and cs: "map_res_i (\<lambda>i item. m_condition item i) 0 items = Inr cs" "distinct (map c_name cs)"
    using assms(2) by (auto simp: m_conditions_def split: option.splits if_splits)
  have "list_all cond_ok cs"
    using map_res_i_wf [OF cs(1) wf_sequence [OF assms(1) items(1)]] m_condition_ok by blast
  then show ?thesis using items cs map_res_i_length by fastforce
qed

lemma strictly_increasing_iff:
  "list_all is_finite xs \<Longrightarrow> strictly_increasing xs \<longleftrightarrow> sorted_wrt (<) (map fval xs)"
proof (induction xs rule: strictly_increasing.induct)
  case (1 x y xs)
  obtain a b where "x = PFin a" "y = PFin b" using 1 by (auto simp: is_finite_iff)
  then show ?case using 1 by (auto simp: list_all_iff not_le intro: less_trans)
qed simp_all

lemma m_axis_ok:
  assumes "wf_val v" and "m_axis v = Inr a"
  shows "axis_ok a"
proof -
  obtain d items where v: "v = VDict d" and items: "as_sequence (dget d ''values'') = Some items"
      "1 \<le> length items" "length items \<le> MAX_POINTS"
    and xs: "map_res_i (\<lambda>i x. m_finite x (''series.axis.values['' @ dec_nat i @ '']'')) 0 items
      = Inr (a_values a)" "strictly_increasing (a_values a)"
    and names: "bounded_name 256 (a_name a)" "bounded_name 64 (a_unit a)"
    using assms(2)
    by (auto simp: m_axis_def m_defs res_simps dest!: closed_object_dict split: option.splits if_splits)
  have fin: "list_all finite64 (a_values a)"
    using map_res_i_wf [OF xs(1) wf_sequence [OF wf_val_dget items(1)]] assms(1) v
    by (auto simp: m_finite_def dest: finite_value_finite64)
  then have "list_all is_finite (a_values a)"
    by (auto simp: list_all_iff finite64_is_finite)
  then show ?thesis
    using fin names xs items map_res_i_length [OF xs(1)]
    by (auto simp: axis_ok_def strictly_increasing_iff)
qed

lemma m_signal_ok:
  assumes "wf_val v" and "m_signal points names i v = Inr g"
  shows "signal_ok points g \<and> g_name g \<notin> set names"
proof -
  obtain d items where v: "v = VDict d" and items: "as_sequence (dget d ''values'') = Some items"
      "length items = points"
    and xs: "map_res_i (\<lambda>p x. m_finite x (''series.signals['' @ dec_nat i @ '']'' @ ''.values[''
      @ dec_nat p @ '']'')) 0 items = Inr (g_values g)"
    and names: "bounded_name 256 (g_name g)" "bounded_name 64 (g_unit g)" "g_name g \<notin> set names"
    using assms(2)
    by (auto simp: m_signal_def m_defs Let_def res_simps dest!: closed_object_dict
        split: option.splits if_splits)
  have "list_all finite64 (g_values g)"
    using map_res_i_wf [OF xs wf_sequence [OF wf_val_dget items(1)]] assms(1) v
    by (auto simp: m_finite_def dest: finite_value_finite64)
  then show ?thesis using names items map_res_i_length [OF xs] by (simp add: signal_ok_def)
qed

lemma m_signal_loop_ok:
  "list_all wf_val vs \<Longrightarrow> m_signal_loop points i names vs = Inr gs \<Longrightarrow>
   length gs = length vs \<and> list_all (signal_ok points) gs \<and> distinct (map g_name gs) \<and>
   set (map g_name gs) \<inter> set names = {}"
proof (induction vs arbitrary: i names gs)
  case (Cons v vs)
  then obtain g hs where "m_signal points names i v = Inr g" "gs = g # hs"
    "m_signal_loop points (Suc i) (g_name g # names) vs = Inr hs" by auto
  then show ?case
    using Cons.IH [of "Suc i" "g_name g # names" hs] Cons.prems m_signal_ok [of v points names i g]
    by auto
qed auto

lemma m_signals_ok:
  assumes "wf_val v" and "m_signals points v = Inr gs"
  shows "gs \<noteq> [] \<and> length gs \<le> MAX_SIGNALS \<and> list_all (signal_ok points) gs \<and> distinct (map g_name gs)"
proof -
  obtain items where "as_sequence v = Some items" "1 \<le> length items" "length items \<le> MAX_SIGNALS"
    "m_signal_loop points 0 [] items = Inr gs"
    using assms(2) by (auto simp: m_signals_def split: option.splits if_splits)
  then show ?thesis
    using m_signal_loop_ok [of items points 0 "[]" gs] wf_sequence [OF assms(1)] by fastforce
qed

text \<open>The heads of the sources whose fields are well formed.\<close>

definition head_ok :: "source_head \<Rightarrow> bool" where
  "head_ok h =
     (bounded_name 256 (h_operation h) \<and> canonical_uuid (h_request_id h) \<and>
      bounded_name 36 (h_request_id h) \<and> h_role h = ''measurement.source'' \<and> sha256_text (h_sha256 h) \<and>
      (case h_lineage h of None \<Rightarrow> True | Some l \<Rightarrow> lineage_ok l))"

lemma m_source_ok: "m_source v = Inr h \<Longrightarrow> head_ok h"
  by (auto simp: m_source_def m_defs res_simps head_ok_def dest: norm_lineage_ok split: if_splits)

lemma normalize_series_parts:
  assumes "normalize_series env b v = Inr s"
  shows "\<exists>root head. v = VDict root \<and> m_source (dget root ''source'') = Inr head \<and>
     m_axis (dget root ''axis'') = Inr (r_axis s) \<and>
     m_signals (length (a_values (r_axis s))) (dget root ''signals'') = Inr (r_signals s) \<and>
     m_conditions (dget root ''conditions'') = Inr (r_conditions s) \<and>
     canonical_sha256 env (content_json (r_axis s) (r_signals s) (r_conditions s))
       = Inr (s_series_sha256 (r_source s)) \<and>
     (b \<longrightarrow> h_sha256 head = s_series_sha256 (r_source s)) \<and>
     canonical_sha256 env (VList (map cond_json (r_conditions s))) = Inr (s_conditions_sha256 (r_source s)) \<and>
     r_source s = \<lparr>s_operation = h_operation head, s_request_id = h_request_id head,
       s_role = h_role head, s_artifact_sha256 = h_sha256 head,
       s_series_sha256 = s_series_sha256 (r_source s),
       s_conditions_sha256 = s_conditions_sha256 (r_source s),
       s_conditions = r_conditions s, s_lineage = h_lineage head\<rparr>"
  using assms
  by (auto simp: normalize_series_def m_closed_def dest!: closed_object_dict split: if_splits)

lemma normalize_series_ok:
  assumes "wf_val v" and "env_ok env" and "normalize_series env b v = Inr s"
  shows "series_ok s"
proof -
  obtain root head where p: "v = VDict root" "m_source (dget root ''source'') = Inr head"
     "m_axis (dget root ''axis'') = Inr (r_axis s)"
     "m_signals (length (a_values (r_axis s))) (dget root ''signals'') = Inr (r_signals s)"
     "m_conditions (dget root ''conditions'') = Inr (r_conditions s)"
     "sha256_text (s_series_sha256 (r_source s))" "sha256_text (s_conditions_sha256 (r_source s))"
     "r_source s = \<lparr>s_operation = h_operation head, s_request_id = h_request_id head,
       s_role = h_role head, s_artifact_sha256 = h_sha256 head,
       s_series_sha256 = s_series_sha256 (r_source s),
       s_conditions_sha256 = s_conditions_sha256 (r_source s),
       s_conditions = r_conditions s, s_lineage = h_lineage head\<rparr>"
    using normalize_series_parts [OF assms(3)] canonical_sha256_text [OF assms(2)] by blast
  have wf: "wf_val (dget root k)" for k using assms(1) p(1) wf_val_dget by blast
  have src: "s_operation (r_source s) = h_operation head" "s_request_id (r_source s) = h_request_id head"
    "s_role (r_source s) = h_role head" "s_artifact_sha256 (r_source s) = h_sha256 head"
    "s_conditions (r_source s) = r_conditions s" "s_lineage (r_source s) = h_lineage head"
    by (subst p(8), simp)+
  show ?thesis
    using m_axis_ok [OF wf p(3)] m_signals_ok [OF wf p(4)] m_conditions_ok [OF wf p(5)]
      m_source_ok [OF p(2)] p(6,7)
    by (simp add: series_ok_def source_ok_def head_ok_def src)
qed

section \<open>Normalisation never raises a built-in exception\<close>

lemma m_refuses [err_intros]:
  "errs_in refusal (m_closed v label req opt)" "errs_in refusal (m_text v label limit)"
  "errs_in refusal (m_unit v label)" "errs_in refusal (m_finite v label)"
  "errs_in refusal (m_extensions v label)" "errs_in refusal (m_uuid v label)"
  "errs_in refusal (m_correlation_id env v)"
  unfolding m_defs by (rule err_intros)+

lemma m_scalar_refuses [err_intros]: "errs_in refusal (m_scalar label v)"
  by (cases v) (auto simp: m_scalar_def intro!: err_intros)

lemma m_conditions_refuses [err_intros]: "errs_in refusal (m_conditions v)"
  unfolding m_conditions_def m_condition_def by (intro err_intros) simp_all

lemma m_source_refuses [err_intros]: "errs_in refusal (m_source v)"
  unfolding m_source_def by (intro err_intros) simp_all

lemma m_axis_refuses [err_intros]: "errs_in refusal (m_axis v)"
  unfolding m_axis_def by (intro err_intros) simp_all

lemma m_signal_loop_refuses: "errs_in refusal (m_signal_loop points i names vs)"
  by (induction vs arbitrary: i names) (auto simp: m_signal_def intro!: err_intros)

lemma m_signals_refuses [err_intros]: "errs_in refusal (m_signals points v)"
  unfolding m_signals_def by (intro err_intros m_signal_loop_refuses) simp_all

lemma floats_json: "list_all finite64 xs \<Longrightarrow> json_value (VList (map VFloat xs))"
  by (induction xs) (simp_all add: finite64_is_finite)

lemma content_json_value:
  assumes "axis_ok a" "list_all (signal_ok n) gs" "list_all cond_ok cs"
  shows "json_value (content_json a gs cs)"
proof -
  have "list_all json_value (map signal_json gs)"
    using assms(2) floats_json by (induction gs) (auto simp: signal_json_def signal_ok_def)
  moreover have "json_value (axis_json a)"
    using assms(1) floats_json by (simp add: axis_json_def axis_ok_def)
  ultimately show ?thesis
    using conds_json_value [OF assms(3)] by (simp add: content_json_def)
qed

lemma normalize_series_refuses [err_intros]:
  assumes "wf_val v"
  shows "errs_in refusal (normalize_series env b v)"
  unfolding normalize_series_def
proof (intro err_intros)
  fix root a gs cs
  assume root: "m_closed v ''series'' [''source'', ''axis'', ''signals'', ''conditions'', ''extensions''] [] = Inr root"
    and p: "m_axis (dget root ''axis'') = Inr a" "m_signals (length (a_values a)) (dget root ''signals'') = Inr gs"
      "m_conditions (dget root ''conditions'') = Inr cs"
  have "v = VDict root" using root by (auto simp: m_closed_def dest: closed_object_dict)
  then have wf: "wf_val (dget root k)" for k using assms wf_val_dget by blast
  have ok: "axis_ok a" "list_all (signal_ok (length (a_values a))) gs" "list_all cond_ok cs"
    using m_axis_ok [OF wf p(1)] m_signals_ok [OF wf p(2)] m_conditions_ok [OF wf p(3)] by auto
  show "errs_in refusal (canonical_sha256 env (content_json a gs cs))"
    by (rule errs_in_total [OF canonical_sha256_total [OF content_json_value [OF ok]]])
  show "errs_in refusal (canonical_sha256 env (VList (map cond_json cs)))"
    by (rule errs_in_total [OF canonical_sha256_total [OF conds_json_value [OF ok(3)]]])
qed simp_all

end
