(* ===== verification/MeasureKernel.thy ===== *)
theory MeasureKernel
  imports MeasureSeries "HOL-Library.Multiset"
begin

text \<open>
  The closed algorithm vocabulary of \<open>operations/result_measure.py\<close> over a validated axis and
  signal: sampling, extrema, mean and RMS, threshold crossings, rise and fall times, settling time
  and the least-squares slope with its exact-rational fallback.  Every float operation is the
  binary64 one; exceptions the code converts are converted here at the same place.
\<close>

type_synonym window = "(pyfloat \<times> pyfloat) option"

definition non_finite :: "string \<Rightarrow> pyexc" where
  "non_finite msg = InvalidRequest ''measurement.value.non_finite'' msg"

text \<open>\<open>except OverflowError\<close>, and the wider clause around the slope.\<close>

definition catch_overflow :: "string \<Rightarrow> 'a pyres \<Rightarrow> 'a pyres" where
  "catch_overflow msg m = (case m of Inl OverflowError \<Rightarrow> Inl (non_finite msg) | _ \<Rightarrow> m)"

definition catch_arithmetic :: "string \<Rightarrow> 'a pyres \<Rightarrow> 'a pyres" where
  "catch_arithmetic msg m =
     (case m of
        Inl OverflowError \<Rightarrow> Inl (non_finite msg)
      | Inl (ValueError s) \<Rightarrow> Inl (non_finite msg)
      | Inl ZeroDivisionError \<Rightarrow> Inl (non_finite msg)
      | _ \<Rightarrow> m)"

section \<open>Windows and samples\<close>

definition indices_in_window :: "pyfloat list \<Rightarrow> window \<Rightarrow> nat list" where
  "indices_in_window axis w =
     (case w of
        None \<Rightarrow> [0..<length axis]
      | Some (start, stop) \<Rightarrow>
          filter (\<lambda>i. fle start (axis ! i) \<and> fle (axis ! i) stop) [0..<length axis])"

definition interpolate :: "pyfloat \<Rightarrow> pyfloat \<Rightarrow> pyfloat \<Rightarrow> pyfloat \<Rightarrow> pyfloat \<Rightarrow> pyfloat pyres" where
  "interpolate x0 y0 x1 y1 x =
     pbind (fdiv (fsub x x0) (fsub x1 x0)) (\<lambda>t. Inr (fadd y0 (fmul (fsub y1 y0) t)))"

fun sample_at_loop ::
  "pyfloat list \<Rightarrow> pyfloat list \<Rightarrow> pyfloat \<Rightarrow> string \<Rightarrow> nat list \<Rightarrow> pyfloat option pyres" where
  "sample_at_loop axis ys pos interpolation [] = Inr None"
| "sample_at_loop axis ys pos interpolation (i # rest) =
     (if feq (axis ! i) pos then Inr (Some (ys ! i))
      else if flt pos (axis ! i)
      then (if interpolation = ''linear'' \<and> 0 < i
            then pbind (interpolate (axis ! (i - 1)) (ys ! (i - 1)) (axis ! i) (ys ! i) pos)
                   (\<lambda>v. Inr (Some v))
            else Inr None)
      else sample_at_loop axis ys pos interpolation rest)"

definition sample_at ::
  "pyfloat list \<Rightarrow> pyfloat list \<Rightarrow> pyfloat \<Rightarrow> string \<Rightarrow> pyfloat option pyres" where
  "sample_at axis ys pos interpolation = sample_at_loop axis ys pos interpolation [0..<length axis]"

section \<open>Threshold crossings\<close>

definition rising_at :: "pyfloat list \<Rightarrow> pyfloat \<Rightarrow> nat \<Rightarrow> bool" where
  "rising_at ys threshold i =
     (flt (ys ! i) threshold \<and> fle threshold (ys ! (i + 1)) \<and> flt (ys ! i) (ys ! (i + 1)))"

definition falling_at :: "pyfloat list \<Rightarrow> pyfloat \<Rightarrow> nat \<Rightarrow> bool" where
  "falling_at ys threshold i =
     (flt threshold (ys ! i) \<and> fle (ys ! (i + 1)) threshold \<and> flt (ys ! (i + 1)) (ys ! i))"

definition segment_outside :: "pyfloat list \<Rightarrow> window \<Rightarrow> nat \<Rightarrow> bool" where
  "segment_outside axis w i =
     (case w of None \<Rightarrow> False
      | Some (start, stop) \<Rightarrow> flt (axis ! i) start \<or> flt stop (axis ! (i + 1)))"

definition crosses :: "pyfloat list \<Rightarrow> pyfloat list \<Rightarrow> pyfloat \<Rightarrow> string \<Rightarrow> window \<Rightarrow> nat \<Rightarrow> bool" where
  "crosses axis ys threshold direction w i =
     (\<not> segment_outside axis w i \<and>
      (direction \<in> {''rising'', ''either''} \<and> rising_at ys threshold i \<or>
       direction \<in> {''falling'', ''either''} \<and> falling_at ys threshold i))"

text \<open>\<open>x0 + (threshold - y0) * (x1 - x0) / (y1 - y0)\<close>.\<close>

definition crossing_point :: "pyfloat list \<Rightarrow> pyfloat list \<Rightarrow> pyfloat \<Rightarrow> nat \<Rightarrow> pyfloat pyres" where
  "crossing_point axis ys threshold i =
     pbind (fdiv (fmul (fsub threshold (ys ! i)) (fsub (axis ! (i + 1)) (axis ! i)))
                 (fsub (ys ! (i + 1)) (ys ! i)))
       (\<lambda>t. Inr (fadd (axis ! i) t))"

definition crossings ::
  "pyfloat list \<Rightarrow> pyfloat list \<Rightarrow> pyfloat \<Rightarrow> string \<Rightarrow> window \<Rightarrow> pyfloat list pyres" where
  "crossings axis ys threshold direction w =
     map_res (crossing_point axis ys threshold)
       (filter (crosses axis ys threshold direction w) [0..<length axis - 1])"

section \<open>Extrema, mean and RMS\<close>

definition py_min :: "pyfloat list \<Rightarrow> pyfloat" where
  "py_min xs = fold (\<lambda>x best. fmin best x) (tl xs) (hd xs)"

definition py_max :: "pyfloat list \<Rightarrow> pyfloat" where
  "py_max xs = fold (\<lambda>x best. fmax best x) (tl xs) (hd xs)"

text \<open>\<open>xs.index(v)\<close>, for a value that occurs.\<close>

fun index_of :: "pyfloat \<Rightarrow> pyfloat list \<Rightarrow> nat" where
  "index_of v [] = 0"
| "index_of v (x # xs) = (if feq x v then 0 else Suc (index_of v xs))"

definition flen :: "'a list \<Rightarrow> pyfloat" where
  "flen xs = PFin (of_nat (length xs))"

definition arithmetic_mean :: "pyfloat list \<Rightarrow> pyfloat pyres" where
  "arithmetic_mean samples = pbind (fsum samples) (\<lambda>s. fdiv s (flen samples))"

definition root_mean_square :: "pyfloat list \<Rightarrow> pyfloat pyres" where
  "root_mean_square samples =
     pbind (fsum (map (\<lambda>y. fmul y y) samples)) (\<lambda>s. pbind (fdiv s (flen samples)) fsqrt)"

section \<open>Least-squares slope\<close>

definition MAX_EXACT_SLOPE_SAMPLES :: nat where "MAX_EXACT_SLOPE_SAMPLES = 8192"

text \<open>\<open>sample.as_integer_ratio()\<close> scaled by \<open>1 << 1074\<close>.\<close>

definition scaled :: "pyfloat \<Rightarrow> int" where
  "scaled x = (let (n, d) = quotient_of (fval x) in n * ((2 ^ 1074) div d))"

text \<open>
  The exact fallback: the closed-form slope of the scaled integers as a fraction, converted to a
  float; a magnitude beyond the float range overflows and a nonzero slope that rounds to zero is
  refused.
\<close>

definition exact_slope_fraction :: "int list \<Rightarrow> int list \<Rightarrow> rat pyres" where
  "exact_slope_fraction ix iy =
     (let n = int (length ix); sx = sum_list ix; sy = sum_list iy;
          sxy = sum_list (map2 (*) ix iy);
          sxx = sum_list (map (\<lambda>a. a * a) ix);
          den = n * sxx - sx * sx
      in if den = 0 then Inl ZeroDivisionError
         else Inr (of_int (n * sxy - sx * sy) / of_int den))"

definition float_of_fraction :: "rat \<Rightarrow> pyfloat pyres" where
  "float_of_fraction q = (if is_finite (round64 q) then Inr (round64 q) else Inl OverflowError)"

definition exact_slope :: "pyfloat list \<Rightarrow> pyfloat list \<Rightarrow> pyfloat pyres" where
  "exact_slope xs ys =
     (if MAX_EXACT_SLOPE_SAMPLES < length xs
      then Inl (non_finite (''The computed-zero slope cannot be decided within the closed ''
        @ dec_nat MAX_EXACT_SLOPE_SAMPLES @ ''-sample exact-arithmetic bound.''))
      else pbind (exact_slope_fraction (map scaled xs) (map scaled ys)) (\<lambda>exact.
           pbind (float_of_fraction exact) (\<lambda>v.
           if exact \<noteq> 0 \<and> feq v (PFin 0)
           then Inl (non_finite ''The least-squares slope underflows the finite result range.'')
           else Inr v)))"

definition scaled_slope ::
  "pyfloat list \<Rightarrow> pyfloat list \<Rightarrow> pyfloat \<Rightarrow> pyfloat \<Rightarrow> pyfloat \<Rightarrow> pyfloat \<Rightarrow> pyfloat pyres" where
  "scaled_slope xs ys x_mean y_mean x_scale y_scale =
     pbind (map_res (\<lambda>x. fdiv (fsub x x_mean) x_scale) xs) (\<lambda>ux.
     pbind (map_res (\<lambda>y. fdiv (fsub y y_mean) y_scale) ys) (\<lambda>uy.
     pbind (fsum (map (\<lambda>u. fmul u u) ux)) (\<lambda>suu.
     pbind (fsum (map2 fmul ux uy)) (\<lambda>suv.
     if feq suv (PFin 0) then exact_slope xs ys
     else
     pbind (fdiv suv suu) (\<lambda>a.
     pbind (fdiv y_scale x_scale) (\<lambda>b.
     if feq (fmul a b) (PFin 0) then exact_slope xs ys else Inr (fmul a b)))))))"

definition slope_value :: "pyfloat list \<Rightarrow> pyfloat list \<Rightarrow> pyfloat pyres" where
  "slope_value xs ys =
     catch_arithmetic ''The least-squares slope overflowed the finite result range.''
      (pbind (arithmetic_mean xs) (\<lambda>x_mean.
       pbind (arithmetic_mean ys) (\<lambda>y_mean.
       let x_scale = py_max (map (\<lambda>x. fabs (fsub x x_mean)) xs);
           y_scale = py_max (map (\<lambda>y. fabs (fsub y y_mean)) ys)
       in if feq x_scale (PFin 0)
          then Inl (non_finite
            ''The windowed axis span is not resolvable in finite floating-point arithmetic.'')
          else if feq y_scale (PFin 0) then Inr (PFin 0)
          else scaled_slope xs ys x_mean y_mean x_scale y_scale)))"

section \<open>Edge times and settling\<close>

text \<open>The first end crossing at or after the start crossing and before the next start crossing.\<close>

definition matching_end :: "pyfloat list \<Rightarrow> pyfloat list \<Rightarrow> nat \<Rightarrow> pyfloat option" where
  "matching_end starts ends occurrence =
     (let start = starts ! (occurrence - 1);
          next_start = (if occurrence < length starts then starts ! occurrence else PInf False)
      in find (\<lambda>e. fle start e \<and> flt e next_start) ends)"

text \<open>
  The scan over the reversed indices: \<open>inside\<close> says whether every sample from this one on stays
  within the tolerance, and the last index at which the hold condition also holds wins.
\<close>

fun settle_scan ::
  "pyfloat list \<Rightarrow> pyfloat list \<Rightarrow> pyfloat \<Rightarrow> pyfloat \<Rightarrow> pyfloat \<Rightarrow> nat \<Rightarrow> nat list \<Rightarrow> bool \<Rightarrow>
   nat option \<Rightarrow> nat option" where
  "settle_scan axis ys target tolerance hold final [] inside settled = settled"
| "settle_scan axis ys target tolerance hold final (i # rest) inside settled =
     (let inside' = (inside \<and> fle (fabs (fsub (ys ! i) target)) tolerance)
      in settle_scan axis ys target tolerance hold final rest inside'
           (if inside' \<and> fle hold (fsub (axis ! final) (axis ! i)) then Some i else settled))"

definition settled_index ::
  "pyfloat list \<Rightarrow> pyfloat list \<Rightarrow> pyfloat \<Rightarrow> pyfloat \<Rightarrow> pyfloat \<Rightarrow> nat list \<Rightarrow> nat option" where
  "settled_index axis ys target tolerance hold indices =
     (if indices = [] then None
      else settle_scan axis ys target tolerance hold (last indices) (rev indices) True None)"

section \<open>Settling\<close>

abbreviation inside_band :: "pyfloat list \<Rightarrow> pyfloat \<Rightarrow> pyfloat \<Rightarrow> nat \<Rightarrow> bool" where
  "inside_band ys target tolerance i \<equiv> fle (fabs (fsub (ys ! i) target)) tolerance"

lemma settle_scan_snoc:
  "settle_scan axis ys target tolerance hold final (xs @ [i]) inside settled =
     (if inside \<and> list_all (inside_band ys target tolerance) (i # xs) \<and>
         fle hold (fsub (axis ! final) (axis ! i))
      then Some i else settle_scan axis ys target tolerance hold final xs inside settled)"
  by (induction xs arbitrary: inside settled) (auto simp: Let_def)

lemma settle_scan_find:
  "sorted_wrt (<) is \<Longrightarrow>
   settle_scan axis ys target tolerance hold final (rev is) True None =
     find (\<lambda>i. list_all (inside_band ys target tolerance) (filter (\<lambda>j. i \<le> j) is) \<and>
               fle hold (fsub (axis ! final) (axis ! i))) is"
proof (induction "is")
  case (Cons i rest)
  have later: "filter (\<lambda>j. i \<le> j) (i # rest) = i # rest"
    using Cons.prems by (auto intro!: filter_True)
  have "find (\<lambda>k. list_all (inside_band ys target tolerance) (filter (\<lambda>j. k \<le> j) (i # rest)) \<and>
               fle hold (fsub (axis ! final) (axis ! k))) rest =
        find (\<lambda>k. list_all (inside_band ys target tolerance) (filter (\<lambda>j. k \<le> j) rest) \<and>
               fle hold (fsub (axis ! final) (axis ! k))) rest"
    using Cons.prems by (intro find_cong) auto
  then show ?case
    unfolding rev.simps settle_scan_snoc using Cons later by (simp add: rev_swap list_all_iff)
qed simp

lemma indices_in_window_filter:
  "indices_in_window axis w =
     filter (\<lambda>i. case w of None \<Rightarrow> True | Some (start, stop) \<Rightarrow> fle start (axis ! i) \<and> fle (axis ! i) stop)
       [0..<length axis]"
  by (auto simp: indices_in_window_def split: option.splits)

lemma indices_in_window_sorted [simp]: "sorted_wrt (<) (filter P (indices_in_window axis w))"
  unfolding indices_in_window_filter filter_filter by (intro sorted_wrt_filter) (simp add: strict_sorted_iff)

lemma indices_in_window_bound: "i \<in> set (indices_in_window axis w) \<Longrightarrow> i < length axis"
  by (auto simp: indices_in_window_filter)

lemma indices_in_window_length: "length (indices_in_window axis w) \<le> length axis"
  unfolding indices_in_window_filter using length_filter_le [of _ "[0..<length axis]"] by simp

text \<open>C36: the settling scan, which walks the window backwards with a running flag, returns the first
  sample of the window from which every later sample stays within the tolerance band and which lies
  at least the hold time before the last sample; it returns nothing exactly when there is none.\<close>

theorem settled_index_first:
  "settled_index axis ys target tolerance hold (filter P (indices_in_window axis w)) =
     (let is = filter P (indices_in_window axis w)
      in find (\<lambda>i. list_all (\<lambda>j. fle (fabs (fsub (ys ! j) target)) tolerance) (filter (\<lambda>j. i \<le> j) is) \<and>
                   fle hold (fsub (axis ! last is) (axis ! i))) is)"
  unfolding settled_index_def Let_def by (subst settle_scan_find) simp_all

section \<open>Sampling\<close>

lemma sample_at_loop_skip:
  "list_all (\<lambda>i. flt (axis ! i) pos) is \<Longrightarrow> list_all (\<lambda>i. is_finite (axis ! i)) is \<Longrightarrow> is_finite pos \<Longrightarrow>
   sample_at_loop axis ys pos interpolation (is @ rest) = sample_at_loop axis ys pos interpolation rest"
  by (induction "is") (auto simp: is_finite_iff)

lemma flt_fin: "is_finite x \<Longrightarrow> is_finite y \<Longrightarrow> flt x y \<longleftrightarrow> fval x < fval y"
  by (auto simp: is_finite_iff)

lemma feq_fval: "is_finite x \<Longrightarrow> is_finite y \<Longrightarrow> feq x y \<longleftrightarrow> fval x = fval y"
  by (auto simp: is_finite_iff)

text \<open>The loop arrives at the first axis sample that is not below the coordinate.\<close>

lemma sample_at_arrives:
  assumes "list_all finite64 axis" and "sorted_wrt (<) (map fval axis)" and "finite64 pos"
    and "k < length axis" and "\<And>j. j < k \<Longrightarrow> fval (axis ! j) < fval pos"
  shows "sample_at axis ys pos interpolation =
    sample_at_loop axis ys pos interpolation (k # [Suc k..<length axis])"
proof -
  have fin: "is_finite (axis ! j)" if "j < length axis" for j
    using assms(1) that by (simp add: list_all_length finite64_is_finite)
  have split: "[0..<length axis] = [0..<k] @ k # [Suc k..<length axis]"
    using assms(4) using upt_add_eq_append [of 0 k "length axis - k"] by (simp add: upt_conv_Cons)
  show ?thesis
    unfolding sample_at_def split
    using assms fin by (intro sample_at_loop_skip) (auto simp: list_all_iff flt_fin finite64_is_finite)
qed

lemma fsub_pos:
  assumes "finite64 x" "finite64 y" "fval y < fval x" "is_finite (fsub x y)"
  shows "fsub x y = PFin (rnd (fval x - fval y))" and "0 < rnd (fval x - fval y)"
  using assms fsub_fin [of x y] f64.r_separates [of "fval x" "fval y"] by (simp_all add: finite64_fval)

lemma fsub_finite_mono:
  assumes "finite64 a" "finite64 b" "finite64 p" "fval a \<le> fval p" "fval p \<le> fval b" "is_finite (fsub b a)"
  shows "is_finite (fsub p a)"
proof -
  obtain x y z where v: "a = PFin x" "b = PFin y" "p = PFin z"
    using assms(1-3) finite64_PFin by metis
  have "rnd (z - x) \<le> rnd (y - x)" "0 \<le> rnd (z - x)"
    using assms(4,5) v by (auto intro: rnd_mono rnd_nonneg)
  then show ?thesis
    using assms(6) unfolding v by (auto simp: fsub_def round64_def split: if_splits)
qed

lemma interpolate_weight:
  assumes "finite64 x0" "finite64 x1" "finite64 x" "fval x0 < fval x" "fval x < fval x1"
    and "is_finite (fsub x1 x0)"
  shows "\<exists>t. 0 \<le> t \<and> t \<le> 1 \<and> interpolate x0 y0 x1 y1 x = Inr (fadd y0 (fmul (fsub y1 y0) (PFin t)))"
proof -
  let ?a = "rnd (fval x - fval x0)" and ?b = "rnd (fval x1 - fval x0)"
  have sub: "fsub x x0 = PFin ?a" "fsub x1 x0 = PFin ?b" "0 < ?a" "0 < ?b"
    using fsub_pos [of x x0] fsub_pos [of x1 x0] fsub_finite_mono [of x0 x1 x] assms by simp_all
  have "?a \<le> ?b" using assms(5) by (intro rnd_mono) simp
  then have q: "0 \<le> ?a / ?b" "?a / ?b \<le> 1" using sub(3,4) by simp_all
  show ?thesis
    using f64.unit_interval [OF q] round64_unit [OF q] sub
    by (intro exI [of _ "rnd (?a / ?b)"]) (simp add: interpolate_def)
qed

text \<open>sampling a strictly increasing axis: at an axis coordinate the stored sample is returned
  unchanged, whatever the interpolation mode; strictly between two neighbouring coordinates the
  exact mode finds nothing, and the linear mode returns \<open>y0 + (y1 - y0) * t\<close> with a weight \<open>t\<close> in
  the unit interval, never dividing by zero (the neighbours' distance being a finite float).\<close>

theorem sample_at_correct:
  assumes "list_all finite64 axis" and "sorted_wrt (<) (map fval axis)" and "finite64 pos"
    and "k < length axis"
  shows "(axis ! k = pos \<longrightarrow> sample_at axis ys pos interpolation = Inr (Some (ys ! k))) \<and>
    (0 < k \<and> fval (axis ! (k - 1)) < fval pos \<and> fval pos < fval (axis ! k) \<and>
     is_finite (fsub (axis ! k) (axis ! (k - 1))) \<longrightarrow>
       sample_at axis ys pos ''exact'' = Inr None \<and>
       (\<exists>t. 0 \<le> t \<and> t \<le> 1 \<and> sample_at axis ys pos ''linear'' =
          Inr (Some (fadd (ys ! (k - 1)) (fmul (fsub (ys ! k) (ys ! (k - 1))) (PFin t))))))"
proof (intro conjI impI)
  have less: "fval (axis ! i) < fval (axis ! j)" if "i < j" "j < length axis" for i j
    using assms(2) that by (simp add: sorted_wrt_iff_nth_less)
  have fin: "finite64 (axis ! j)" if "j < length axis" for j
    using assms(1) that by (simp add: list_all_length)
  {
    assume "axis ! k = pos"
    then show "sample_at axis ys pos interpolation = Inr (Some (ys ! k))"
      using sample_at_arrives [OF assms, of ys interpolation] less assms(3,4)
      by (auto simp: feq_fval finite64_is_finite)
  next
    assume between: "0 < k \<and> fval (axis ! (k - 1)) < fval pos \<and> fval pos < fval (axis ! k) \<and>
      is_finite (fsub (axis ! k) (axis ! (k - 1)))"
    have before: "fval (axis ! j) < fval pos" if "j < k" for j
      using between less [of j "k - 1"] that assms(4)
      by (cases "j = k - 1") (auto intro: less_trans [of _ "fval (axis ! (k - 1))"])
    have at_k: "\<not> feq (axis ! k) pos" "flt pos (axis ! k)"
      using between fin [OF assms(4)] assms(3) by (simp_all add: feq_fval flt_fin finite64_is_finite)
    show "sample_at axis ys pos ''exact'' = Inr None"
      using sample_at_arrives [OF assms before, of ys "''exact''"] at_k by simp
    obtain t where t: "0 \<le> t" "t \<le> 1" "interpolate (axis ! (k - 1)) (ys ! (k - 1)) (axis ! k) (ys ! k) pos =
        Inr (fadd (ys ! (k - 1)) (fmul (fsub (ys ! k) (ys ! (k - 1))) (PFin t)))"
      using interpolate_weight [of "axis ! (k - 1)" "axis ! k" pos] between fin [of k] fin [of "k - 1"]
        assms(3,4) by auto
    then show "\<exists>t. 0 \<le> t \<and> t \<le> 1 \<and> sample_at axis ys pos ''linear'' =
          Inr (Some (fadd (ys ! (k - 1)) (fmul (fsub (ys ! k) (ys ! (k - 1))) (PFin t))))"
      using sample_at_arrives [OF assms before, of ys "''linear''"] at_k between by auto
  }
qed

definition small :: "int \<Rightarrow> pyfloat" where
  "small i = PFin (of_int i)"

lemma small_finite64: "\<bar>i\<bar> \<le> 2 ^ 53 \<Longrightarrow> finite64 (small i)"
  unfolding small_def by (rule finite64_of_int)

lemma small_simps [simp]: "fval (small i) = of_int i" "is_finite (small i)"
  by (simp_all add: small_def)

text \<open>A ramp sampled at its second coordinate and halfway along its second segment.\<close>

theorem sample_at_correct_witness:
  "sample_at [small 0, small 1, small 3] [small 5, small 7, small 9] (small 1) ''exact'' = Inr (Some (small 7)) \<and>
   sample_at [small 0, small 1, small 3] [small 5, small 7, small 9] (small 2) ''exact'' = Inr None"
proof -
  have fin: "list_all finite64 [small 0, small 1, small 3]" "finite64 (small 1)" "finite64 (small 2)"
    by (auto intro!: small_finite64)
  have sorted: "sorted_wrt (<) (map fval [small 0, small 1, small 3])" by simp
  have "fsub (small 3) (small 1) = round64 2" by (simp add: small_def fsub_def)
  moreover have "is_finite (round64 2)" using finite64_numeral [of "num.Bit0 num.One"] by (simp add: finite64_def)
  ultimately have "is_finite (fsub (small 3) (small 1))" by simp
  then show ?thesis
    using sample_at_correct [OF fin(1) sorted fin(2), of 1 "[small 5, small 7, small 9]" "''exact''"]
      sample_at_correct [OF fin(1) sorted fin(3), of 2 "[small 5, small 7, small 9]" "''exact''"]
    by simp
qed

section \<open>Crossings\<close>

text \<open>A float that is not negative: NaN counts, since no comparison with zero holds of it.\<close>

definition nonneg :: "pyfloat \<Rightarrow> bool" where
  "nonneg x = (case x of PFin q \<Rightarrow> 0 \<le> q | PInf n \<Rightarrow> \<not> n | PNaN \<Rightarrow> True)"

lemma nonneg_simps [simp]: "nonneg (PFin q) \<longleftrightarrow> 0 \<le> q" "nonneg (PInf n) \<longleftrightarrow> \<not> n" "nonneg PNaN"
  by (simp_all add: nonneg_def)

lemma nonneg_round64: "0 \<le> q \<Longrightarrow> nonneg (round64 q)"
  by (simp add: round64_def rnd_nonneg)

lemma fneg_round64: "fneg (round64 q) = round64 (- q)"
proof (cases "q = 0")
  case True
  then show ?thesis by (simp add: round64_def)
next
  case False
  then show ?thesis by (auto simp: round64_def rnd_minus)
qed

lemma nonneg_fsub: "finite64 x \<Longrightarrow> finite64 y \<Longrightarrow> fval y \<le> fval x \<Longrightarrow> nonneg (fsub x y)"
  by (cases x; cases y) (simp_all add: fsub_def nonneg_round64)

lemma fneg_fsub: "finite64 x \<Longrightarrow> finite64 y \<Longrightarrow> fneg (fsub x y) = fsub y x"
  by (cases x; cases y) (simp_all add: fsub_def fneg_round64)

lemma nonneg_fmul: "nonneg x \<Longrightarrow> nonneg y \<Longrightarrow> nonneg (fmul x y)"
  by (cases x; cases y) (simp_all add: nonneg_round64)

lemma nonneg_fdiv: "nonneg x \<Longrightarrow> nonneg y \<Longrightarrow> fdiv x y = Inr z \<Longrightarrow> nonneg z"
  by (cases x; cases y) (auto simp: nonneg_round64 split: if_splits)

lemma fneg_fmul: "fneg (fmul x y) = fmul (fneg x) y"
  by (cases x; cases y) (auto simp: fneg_round64 not_less order_le_less)

lemma fdiv_fneg: "fdiv (fneg x) (fneg y) = fdiv x y"
  by (cases x; cases y) (auto simp: not_less order_le_less)

lemma nonneg_fadd_ge:
  assumes "finite64 x" "nonneg z" "is_finite (fadd x z)"
  shows "fle x (fadd x z)"
proof -
  obtain a where a: "x = PFin a" "rnd a = a" using assms(1) finite64_PFin finite64_fval by (metis fval.simps(1))
  show ?thesis
  proof (cases z)
    case (PFin q)
    then have "rnd a \<le> rnd (a + q)" using assms(2) by (intro rnd_mono) simp
    then show ?thesis using a PFin assms(3) by (auto simp: round64_def split: if_splits)
  qed (use assms(3) a in auto)
qed

text \<open>The step from the left end of a crossed segment divides by a nonzero number and is never negative.\<close>

lemma crossing_step:
  assumes fin: "finite64 x0" "finite64 x1" "finite64 y0" "finite64 y1" "finite64 th"
    and x: "fval x0 < fval x1"
    and y: "flt y0 th \<and> fle th y1 \<and> flt y0 y1 \<or> flt th y0 \<and> fle y1 th \<and> flt y1 y0"
  shows "\<exists>t. fdiv (fmul (fsub th y0) (fsub x1 x0)) (fsub y1 y0) = Inr t \<and> nonneg t"
proof -
  let ?u = "fsub th y0" and ?v = "fsub x1 x0" and ?d = "fsub y1 y0"
  have "?d \<noteq> PFin 0"
  proof
    assume "?d = PFin 0"
    then show False using fsub_sign(2) [OF fin(4,3)] y by (cases y0) auto
  qed
  then obtain t where t: "fdiv (fmul ?u ?v) ?d = Inr t"
    by (cases ?d; cases "fmul ?u ?v") auto
  have v: "nonneg ?v" using fin x by (intro nonneg_fsub) auto
  have "nonneg t"
  proof (cases "flt y0 y1")
    case True
    then have "fval y0 \<le> fval th" "fval y0 \<le> fval y1"
      using fin y by (cases y0; cases y1; cases th; auto)+
    then show ?thesis
      using nonneg_fdiv [OF nonneg_fmul [OF _ v] _ t] nonneg_fsub fin by blast
  next
    case False
    then have "fval th \<le> fval y0" "fval y1 \<le> fval y0"
      using fin y by (cases y0; cases y1; cases th; auto)+
    then have "nonneg (fmul (fneg ?u) ?v)" "nonneg (fneg ?d)"
      using fin v by (simp_all add: fneg_fsub nonneg_fsub nonneg_fmul)
    moreover have "fdiv (fmul (fneg ?u) ?v) (fneg ?d) = Inr t"
      using t by (simp add: fneg_fmul [symmetric] fdiv_fneg)
    ultimately show ?thesis by (rule nonneg_fdiv)
  qed
  then show ?thesis using t by blast
qed

lemma crosses_strict: "crosses axis ys th direction w i \<Longrightarrow>
    flt (ys ! i) th \<and> fle th (ys ! (i + 1)) \<and> flt (ys ! i) (ys ! (i + 1)) \<or>
    flt th (ys ! i) \<and> fle (ys ! (i + 1)) th \<and> flt (ys ! (i + 1)) (ys ! i)"
  by (auto simp: crosses_def rising_at_def falling_at_def)

lemma map_res_list_all2:
  "(\<And>x. x \<in> set xs \<Longrightarrow> \<exists>y. f x = Inr y \<and> P x y) \<Longrightarrow> \<exists>ys. map_res f xs = Inr ys \<and> list_all2 P xs ys"
  by (induction xs) force+

lemma crossings_total:
  assumes "list_all finite64 axis" and "sorted_wrt (<) (map fval axis)" and "list_all finite64 ys"
    and "length ys = length axis" and "finite64 threshold"
  shows "\<exists>found. crossings axis ys threshold direction w = Inr found \<and>
    list_all2 (\<lambda>i t. is_finite t \<longrightarrow> fle (axis ! i) t)
      (filter (crosses axis ys threshold direction w) [0..<length axis - 1]) found"
  unfolding crossings_def
proof (rule map_res_list_all2)
  fix i assume "i \<in> set (filter (crosses axis ys threshold direction w) [0..<length axis - 1])"
  then have i: "i + 1 < length axis" "crosses axis ys threshold direction w i" by auto
  have fin: "finite64 (axis ! j)" "finite64 (ys ! j)" if "j < length axis" for j
    using assms that by (simp_all add: list_all_length)
  have "fval (axis ! i) < fval (axis ! (i + 1))"
    using assms(2) i(1) by (simp add: sorted_wrt_iff_nth_less)
  moreover have "finite64 (axis ! i)" "finite64 (axis ! (i + 1))" "finite64 (ys ! i)" "finite64 (ys ! (i + 1))"
    using fin i(1) by simp_all
  ultimately obtain t where t: "fdiv (fmul (fsub threshold (ys ! i)) (fsub (axis ! (i + 1)) (axis ! i)))
      (fsub (ys ! (i + 1)) (ys ! i)) = Inr t" "nonneg t"
    using crossing_step assms(5) crosses_strict [OF i(2)] by blast
  have "is_finite (fadd (axis ! i) t) \<longrightarrow> fle (axis ! i) (fadd (axis ! i) t)"
    using nonneg_fadd_ge [OF fin(1) t(2)] i(1) by simp
  then show "\<exists>v. crossing_point axis ys threshold i = Inr v \<and> (is_finite v \<longrightarrow> fle (axis ! i) v)"
    using t(1) by (simp add: crossing_point_def)
qed

text \<open>the crossing search never fails on a validated series: it reports one point per segment
  that meets the threshold in the requested direction within the window, in axis order, and each
  finite point lies at or after the left end of its segment.\<close>

theorem crossings_sound:
  assumes "list_all finite64 axis" and "sorted_wrt (<) (map fval axis)" and "list_all finite64 ys"
    and "length ys = length axis" and "finite64 threshold"
  shows "\<exists>found. crossings axis ys threshold direction w = Inr found \<and>
    list_all2 (\<lambda>i t. is_finite t \<longrightarrow> fle (axis ! i) t)
      (filter (crosses axis ys threshold direction w) [0..<length axis - 1]) found"
  by (rule crossings_total [OF assms])

theorem crossings_sound_witness:
  "\<exists>found. crossings [small 0, small 1, small 3] [small 0, small 4, small 0] (small 2) ''either'' None = Inr found \<and>
     length found = 2"
proof -
  have "list_all finite64 [small 0, small 1, small 3]" "sorted_wrt (<) (map fval [small 0, small 1, small 3])"
    "list_all finite64 [small 0, small 4, small 0]" "length [small 0, small 4, small 0] = length [small 0, small 1, small 3]"
    "finite64 (small 2)"
    by (auto intro!: small_finite64)
  from crossings_sound [OF this, of "''either''" None] obtain found where
    f: "crossings [small 0, small 1, small 3] [small 0, small 4, small 0] (small 2) ''either'' None = Inr found"
    and l: "list_all2 (\<lambda>i t. is_finite t \<longrightarrow> fle ([small 0, small 1, small 3] ! i) t)
      (filter (crosses [small 0, small 1, small 3] [small 0, small 4, small 0] (small 2) ''either'' None)
        [0..<length [small 0, small 1, small 3] - 1]) found" by blast
  have "[0..<length [small 0, small 1, small 3] - 1] = [0, 1]" by (simp add: upt_rec)
  then show ?thesis
    using f list_all2_lengthD [OF l]
    by (simp add: crosses_def segment_outside_def rising_at_def falling_at_def small_def)
qed

lemma rising_falling_disjoint: "rising_at ys threshold i \<Longrightarrow> \<not> falling_at ys threshold i"
  by (cases "ys ! i"; cases threshold) (auto simp: rising_at_def falling_at_def)

lemma map_res_filter_split:
  "map_res f (filter (\<lambda>i. P i \<or> Q i) xs) = Inr ys \<Longrightarrow> (\<And>i. \<not> (P i \<and> Q i)) \<Longrightarrow>
   \<exists>ps qs. map_res f (filter P xs) = Inr ps \<and> map_res f (filter Q xs) = Inr qs \<and> mset ys = mset ps + mset qs"
proof (induction xs arbitrary: ys)
  case (Cons x xs)
  show ?case
  proof (cases "P x \<or> Q x")
    case True
    then obtain y zs where y: "f x = Inr y" "ys = y # zs" "map_res f (filter (\<lambda>i. P i \<or> Q i) xs) = Inr zs"
      using Cons.prems(1) by auto
    then show ?thesis using Cons.IH [OF y(3)] Cons.prems(2) True by fastforce
  next
    case False
    then show ?thesis using Cons.IH [of ys] Cons.prems by simp
  qed
qed simp

text \<open>a search in either direction finds exactly the rising and the falling crossings, each once.\<close>

theorem crossings_either:
  assumes "crossings axis ys threshold ''either'' w = Inr both"
  shows "\<exists>rising falling. crossings axis ys threshold ''rising'' w = Inr rising \<and>
    crossings axis ys threshold ''falling'' w = Inr falling \<and> mset both = mset rising + mset falling"
proof -
  let ?r = "crosses axis ys threshold ''rising'' w" and ?f = "crosses axis ys threshold ''falling'' w"
  have e: "crosses axis ys threshold ''either'' w = (\<lambda>i. ?r i \<or> ?f i)"
    by (auto simp: crosses_def fun_eq_iff)
  have d: "\<And>i. \<not> (?r i \<and> ?f i)"
    using rising_falling_disjoint by (auto simp: crosses_def)
  show ?thesis
    using map_res_filter_split [OF assms [unfolded crossings_def e] d] unfolding crossings_def .
qed

theorem crossings_either_witness:
  "\<exists>rising falling. crossings [small 0, small 1] [small 0, small 0] (small 2) ''rising'' None = Inr rising \<and>
    crossings [small 0, small 1] [small 0, small 0] (small 2) ''falling'' None = Inr falling \<and>
    mset ([] :: pyfloat list) = mset rising + mset falling"
  by (rule crossings_either) (simp add: crossings_def crosses_def rising_at_def falling_at_def small_def fle_def feq_def)

section \<open>Which exceptions the algorithms raise\<close>

text \<open>The built-in exceptions of float arithmetic, and those that summation of finite values raises.\<close>

definition arithmetic_error :: "pyexc \<Rightarrow> bool" where
  "arithmetic_error e =
     (e = OverflowError \<or> e = ZeroDivisionError \<or> (case e of ValueError m \<Rightarrow> True | _ \<Rightarrow> False) \<or> refusal e)"

lemma arithmetic_error_simps [simp]:
  "arithmetic_error OverflowError" "arithmetic_error ZeroDivisionError" "arithmetic_error (ValueError m)"
  "arithmetic_error (InvalidRequest c m)"
  by (simp_all add: arithmetic_error_def)

lemma fdiv_errors [err_intros]: "errs_in arithmetic_error (fdiv x y)"
  by (cases y; cases x) auto

lemma fsum_loop_errors: "errs_in arithmetic_error (fsum_loop xs ps special infs)"
  by (induction xs ps special infs rule: fsum_loop.induct)
    (auto intro!: errs_in_pbind simp: add_partial_def split: option.splits)

lemma fsum_errors [err_intros]: "errs_in arithmetic_error (fsum xs)"
  unfolding fsum_def by (rule fsum_loop_errors)

lemma slope_value_refuses: "errs_in refusal (slope_value xs ys)"
proof -
  have wrap: "errs_in refusal (catch_arithmetic msg m)" if "errs_in arithmetic_error m" for msg and m :: "pyfloat pyres"
    using that by (cases m) (auto simp: catch_arithmetic_def arithmetic_error_def refusal_def non_finite_def
        split: pyexc.splits)
  have exact: "errs_in arithmetic_error (exact_slope xs ys)"
    unfolding exact_slope_def exact_slope_fraction_def float_of_fraction_def Let_def non_finite_def
    by (intro err_intros) simp_all
  show ?thesis
    unfolding slope_value_def arithmetic_mean_def scaled_slope_def Let_def non_finite_def
    by (intro wrap err_intros exact) simp_all
qed

lemma fsum_overflow_only:
  assumes "list_all is_finite xs"
  shows "errs_in (\<lambda>e. e = OverflowError) (fsum xs)"
proof -
  have "errs_in (\<lambda>e. e = OverflowError) (fsum_loop xs ps (PFin 0) (PFin 0))" for ps
    using assms
    by (induction xs arbitrary: ps)
      (auto intro!: errs_in_pbind simp: add_partial_def is_finite_iff split: option.splits)
  then show ?thesis by (simp add: fsum_def)
qed

lemma flen_fdiv: "xs \<noteq> [] \<Longrightarrow> errs_in P (fdiv x (flen xs))"
  by (cases x) (simp_all add: flen_def)

lemma mean_refuses:
  assumes "xs \<noteq> []" and "list_all is_finite xs"
  shows "errs_in refusal (catch_overflow msg (arithmetic_mean xs))"
proof -
  have "errs_in (\<lambda>e. e = OverflowError) (arithmetic_mean xs)"
    unfolding arithmetic_mean_def
    by (intro errs_in_pbind fsum_overflow_only [OF assms(2)] flen_fdiv [OF assms(1)])
  then show ?thesis
    by (cases "arithmetic_mean xs") (auto simp: catch_overflow_def non_finite_def)
qed

text \<open>The squares under the root are never negative, so the root is defined.\<close>

lemma fsum_loop_squares:
  "list_all nonneg xs \<Longrightarrow> PNaN \<notin> set xs \<Longrightarrow> 0 \<le> sum_list ps \<Longrightarrow> s \<in> {PFin 0, PInf False} \<Longrightarrow>
   t \<in> {PFin 0, PInf False} \<Longrightarrow>
   errs_in (\<lambda>e. e = OverflowError) (fsum_loop xs ps s t) \<and> (\<forall>r. fsum_loop xs ps s t = Inr r \<longrightarrow> nonneg r \<and> r \<noteq> PNaN)"
proof (induction xs ps s t rule: fsum_loop.induct)
  case (1 ps s t)
  have "round64 q \<noteq> PNaN" for q by (simp add: round64_def)
  then show ?case using 1 by (auto simp: nonneg_round64)
next
  case (2 q xs ps s t)
  show ?case
  proof (cases "add_partial q ps")
    case (Inl e)
    then show ?thesis by (auto simp: add_partial_def split: option.splits)
  next
    case (Inr ps')
    then have "0 \<le> sum_list ps'" using add_partial_sum [OF Inr] 2 by simp
    then show ?thesis using 2 Inr by simp
  qed
qed auto

lemma square_nonneg: "is_finite x \<Longrightarrow> nonneg (fmul x x) \<and> fmul x x \<noteq> PNaN"
  by (auto simp: is_finite_iff nonneg_round64) (simp add: round64_def split: if_splits)

lemma rms_refuses:
  assumes "xs \<noteq> []" and "list_all is_finite xs"
  shows "errs_in refusal (catch_overflow msg (root_mean_square xs))"
proof -
  let ?sq = "map (\<lambda>y. fmul y y) xs"
  have "list_all nonneg ?sq" "PNaN \<notin> set ?sq"
    using assms(2) square_nonneg by (fastforce simp: list_all_iff)+
  then have sum: "errs_in (\<lambda>e. e = OverflowError) (fsum ?sq)"
    "\<And>r. fsum ?sq = Inr r \<Longrightarrow> nonneg r \<and> r \<noteq> PNaN"
    using fsum_loop_squares [of ?sq "[]" "PFin 0" "PFin 0"] unfolding fsum_def by simp_all
  have root: "errs_in (\<lambda>e. e = OverflowError) (fsqrt d)" if "nonneg d" for d
    using that by (cases d) (auto simp: fsqrt_def Let_def)
  have len: "nonneg (flen xs)" by (simp add: flen_def)
  have "errs_in (\<lambda>e. e = OverflowError) (root_mean_square xs)"
    unfolding root_mean_square_def
  proof (intro errs_in_pbind sum(1))
    fix r assume r: "fsum ?sq = Inr r"
    show "errs_in (\<lambda>e. e = OverflowError) (fdiv r (flen xs))"
      by (rule flen_fdiv [OF assms(1)])
    fix d assume "fdiv r (flen xs) = Inr d"
    then have "nonneg d" using nonneg_fdiv sum(2) [OF r] len by blast
    then show "errs_in (\<lambda>e. e = OverflowError) (fsqrt d)"
      by (rule root)
  qed
  then show ?thesis
    by (cases "root_mean_square xs") (auto simp: catch_overflow_def non_finite_def)
qed

lemma sample_at_total:
  assumes "list_all finite64 axis" and "sorted_wrt (<) (map fval axis)"
  shows "\<exists>v. sample_at axis ys pos interpolation = Inr v"
proof -
  have step: "\<exists>v. interpolate (axis ! (i - 1)) y0 (axis ! i) y1 pos = Inr v" if "0 < i" "i < length axis" for i y0 y1
  proof -
    have "finite64 (axis ! i)" "finite64 (axis ! (i - 1))" using assms(1) that by (simp_all add: list_all_length)
    moreover have "fval (axis ! (i - 1)) < fval (axis ! i)"
      using assms(2) that by (simp add: sorted_wrt_iff_nth_less)
    ultimately have "fsub (axis ! i) (axis ! (i - 1)) \<noteq> PFin 0"
      using fsub_sign(2) [of "axis ! i" "axis ! (i - 1)"] by force
    then show ?thesis
      unfolding interpolate_def
      by (cases "fsub (axis ! i) (axis ! (i - 1))"; cases "fsub pos (axis ! (i - 1))") auto
  qed
  have "list_all (\<lambda>i. i < length axis) is \<Longrightarrow> \<exists>v. sample_at_loop axis ys pos interpolation is = Inr v" for "is"
  proof (induction "is")
    case (Cons i rest)
    then show ?case using step [of i "ys ! (i - 1)" "ys ! i"] by auto
  qed simp
  then show ?thesis unfolding sample_at_def by (simp add: list_all_iff)
qed

end
