(* ===== verification/MeasureNumeric.thy ===== *)
theory MeasureNumeric
  imports MeasureKernel
begin

text \<open>
  What the numeric algorithms of \<open>operations/result_measure.py\<close> compute: the extrema with the
  position they are reported at, and the exact-rational slope as the ordinary least-squares slope.
\<close>

section \<open>Extrema\<close>

lemma fmin_PFin: "fmin (PFin a) (PFin b) = PFin (min a b)"
  by (auto simp: fmin_def)

lemma fmax_PFin: "fmax (PFin a) (PFin b) = PFin (max a b)"
  by (auto simp: fmax_def)

lemma fold_fmin: "fold (\<lambda>x best. fmin best x) (map PFin qs) (PFin q) = PFin (Min (set (q # qs)))"
proof (induction qs arbitrary: q)
  case (Cons r rs)
  have "Min (set (min q r # rs)) = Min (set (q # r # rs))"
    by (cases "rs = []") (simp_all add: ac_simps)
  then show ?case using Cons by (simp add: fmin_PFin)
qed simp

lemma fold_fmax: "fold (\<lambda>x best. fmax best x) (map PFin qs) (PFin q) = PFin (Max (set (q # qs)))"
proof (induction qs arbitrary: q)
  case (Cons r rs)
  have "Max (set (max q r # rs)) = Max (set (q # r # rs))"
    by (cases "rs = []") (simp_all add: ac_simps)
  then show ?case using Cons by (simp add: fmax_PFin)
qed simp

lemma finite_samples: "list_all is_finite xs \<Longrightarrow> xs = map PFin (map fval xs)"
  by (induction xs) (auto simp: is_finite_iff)

lemma py_min_Min: "qs \<noteq> [] \<Longrightarrow> py_min (map PFin qs) = PFin (Min (set qs))"
  by (cases qs) (simp_all only: py_min_def list.map list.sel fold_fmin)

lemma py_max_Max: "qs \<noteq> [] \<Longrightarrow> py_max (map PFin qs) = PFin (Max (set qs))"
  by (cases qs) (simp_all only: py_max_def list.map list.sel fold_fmax)

lemma index_of_first:
  "v \<in> set xs \<Longrightarrow> v \<noteq> PNaN \<Longrightarrow>
   index_of v xs < length xs \<and> xs ! index_of v xs = v \<and> (\<forall>j < index_of v xs. xs ! j \<noteq> v)"
proof (induction xs)
  case (Cons x xs)
  then show ?case by (cases "x = v") (auto simp: feq_def less_Suc_eq_0_disj)
qed simp

text \<open>the reported extremum of a nonempty window of finite samples is the exact least (greatest)
  sample, and the position it is reported at is the first one that attains it.\<close>

theorem extremum_located:
  assumes "samples \<noteq> []" and "list_all is_finite samples"
  shows "(let v = py_min samples; k = index_of v samples
          in k < length samples \<and> samples ! k = v \<and> (\<forall>j < k. samples ! j \<noteq> v) \<and>
             fval v = Min (set (map fval samples))) \<and>
         (let v = py_max samples; k = index_of v samples
          in k < length samples \<and> samples ! k = v \<and> (\<forall>j < k. samples ! j \<noteq> v) \<and>
             fval v = Max (set (map fval samples)))"
proof -
  define qs where "qs = map fval samples"
  have s: "samples = map PFin qs" "qs \<noteq> []"
    using assms finite_samples by (simp_all add: qs_def)
  have "Min (set qs) \<in> set qs" "Max (set qs) \<in> set qs" using s(2) by simp_all
  then have "py_min samples \<in> set samples" "py_max samples \<in> set samples"
    using s by (auto simp: py_min_Min py_max_Max)
  moreover have "py_min samples \<noteq> PNaN" "py_max samples \<noteq> PNaN"
    using s by (simp_all add: py_min_Min py_max_Max)
  moreover have "fval (py_min samples) = Min (set (map fval samples))"
    "fval (py_max samples) = Max (set (map fval samples))"
    using s by (simp_all add: py_min_Min py_max_Max comp_def)
  ultimately show ?thesis
    using index_of_first [of "py_min samples" samples] index_of_first [of "py_max samples" samples]
    by (simp add: Let_def)
qed

theorem extremum_located_witness:
  "index_of (py_min [small 3, small 1, small 1]) [small 3, small 1, small 1] = 1 \<and>
   fval (py_max [small 3, small 1, small 1]) = 3"
  using extremum_located [of "[small 3, small 1, small 1]"]
  by (simp add: Let_def py_min_def py_max_def fmin_def fmax_def feq_def small_def)

section \<open>The exact least-squares slope\<close>

text \<open>The ordinary least-squares slope of rational points.\<close>

definition mean_of :: "rat list \<Rightarrow> rat" where
  "mean_of xs = sum_list xs / of_nat (length xs)"

definition ols_slope :: "rat list \<Rightarrow> rat list \<Rightarrow> rat" where
  "ols_slope xs ys =
     sum_list (map2 (\<lambda>x y. (x - mean_of xs) * (y - mean_of ys)) xs ys) /
     sum_list (map (\<lambda>x. (x - mean_of xs) * (x - mean_of xs)) xs)"

lemma sum_list_product:
  fixes xs ys :: "rat list"
  shows "length xs = length ys \<Longrightarrow> sum_list (map2 (\<lambda>x y. (x - a) * (y - b)) xs ys) =
    sum_list (map2 (*) xs ys) - b * sum_list xs - a * sum_list ys + of_nat (length xs) * a * b"
  by (induction xs ys rule: list_induct2) (simp_all add: algebra_simps)

lemma covariance_form:
  assumes "length xs = length ys"
  shows "of_nat (length xs) * sum_list (map2 (\<lambda>x y. (x - mean_of xs) * (y - mean_of ys)) xs ys) =
    of_nat (length xs) * sum_list (map2 (*) xs ys) - sum_list xs * sum_list ys"
proof (cases "xs = []")
  case False
  then have n: "(of_nat (length xs) :: rat) \<noteq> 0" by simp
  have m: "of_nat (length xs) * mean_of xs = sum_list xs" "of_nat (length xs) * mean_of ys = sum_list ys"
    using n assms by (simp_all add: mean_of_def)
  have "of_nat (length xs) * sum_list (map2 (\<lambda>x y. (x - mean_of xs) * (y - mean_of ys)) xs ys) =
    of_nat (length xs) * sum_list (map2 (*) xs ys) - (of_nat (length xs) * mean_of ys) * sum_list xs
    - (of_nat (length xs) * mean_of xs) * sum_list ys
    + (of_nat (length xs) * mean_of xs) * (of_nat (length xs) * mean_of ys)"
    unfolding sum_list_product [OF assms] by (simp add: algebra_simps)
  then show ?thesis unfolding m by (simp add: algebra_simps)
qed simp

lemma map2_self: "map2 f xs xs = map (\<lambda>x. f x x) xs"
  by (induction xs) simp_all

lemma variance_form:
  "of_nat (length xs) * sum_list (map (\<lambda>x. (x - mean_of xs) * (x - mean_of xs)) xs) =
    of_nat (length xs) * sum_list (map (\<lambda>x. x * x) xs) - sum_list xs * sum_list xs"
  using covariance_form [of xs xs] by (simp add: map2_self)

lemma variance_pos:
  fixes xs :: "rat list"
  assumes "x \<in> set xs" "y \<in> set xs" "x \<noteq> y"
  shows "0 < sum_list (map (\<lambda>x. (x - m) * (x - m)) xs)"
proof -
  obtain z where z: "z \<in> set xs" "z \<noteq> m" using assms by blast
  then have "0 < (z - m) * (z - m)" by (metis diff_eq_diff_eq diff_self mult_eq_0_iff not_real_square_gt_zero
    zero_less_mult_iff linorder_neqE)
  also have "\<dots> \<le> sum_list (map (\<lambda>x. (x - m) * (x - m)) xs)"
    using z(1) by (intro member_le_sum_list) auto
  finally show ?thesis .
qed

text \<open>A finite float is an integer multiple of the smallest subnormal, which is what scaling exposes.\<close>

lemma scaled_exact:
  assumes "finite64 x"
  shows "of_int (scaled x) = fval x * pow2 1074"
proof -
  obtain m where m: "fval x = of_int m * pow2 (- 1074)"
    using rnd_grid [OF finite64_fval [OF assms]] by blast
  have p: "pow2 (- 1074) * pow2 1074 = (1 :: rat)" by (simp flip: pow2_add)
  obtain n d where nd: "quotient_of (fval x) = (n, d)" by fastforce
  have d: "0 < d" "coprime n d" "fval x = of_int n / of_int d"
    using quotient_of_denom_pos [OF nd] quotient_of_coprime [OF nd] quotient_of_div [OF nd] by auto
  have P: "pow2 1074 = of_int (2 ^ 1074)" using pow2_int [of 1074] by simp
  have "of_int n * of_int (2 ^ 1074) = (of_int m * of_int d :: rat)"
    using m d p unfolding P by (simp only: field_simps)
  then have "n * 2 ^ 1074 = m * d" by (metis of_int_eq_iff of_int_mult)
  then have "d dvd 2 ^ 1074" using d(2) by (metis coprime_commute coprime_dvd_mult_right_iff dvd_triv_right)
  then have "n * (2 ^ 1074 div d) * d = n * 2 ^ 1074" by simp
  then have "of_int (n * (2 ^ 1074 div d)) * of_int d = (of_int n * pow2 1074 :: rat)"
    unfolding P by (metis of_int_mult)
  moreover have "scaled x = n * (2 ^ 1074 div d)" by (simp only: scaled_def nd Let_def prod.case)
  moreover have "(of_int d :: rat) \<noteq> 0" using d(1) by simp
  ultimately show ?thesis unfolding d(3) times_divide_eq_left by (metis nonzero_eq_divide_eq)
qed

lemma scaled_sums:
  assumes "list_all finite64 xs" "list_all finite64 ys" "length xs = length ys"
  defines "c \<equiv> pow2 1074"
  shows "of_int (sum_list (map scaled xs)) = c * sum_list (map fval xs)"
    and "of_int (sum_list (map2 (*) (map scaled xs) (map scaled ys))) =
         c * c * sum_list (map2 (*) (map fval xs) (map fval ys))"
  using assms(3,1,2) unfolding c_def
  by (induction xs ys rule: list_induct2) (simp_all add: scaled_exact algebra_simps)

lemma exact_slope_fraction_ols:
  assumes fin: "list_all finite64 xs" "list_all finite64 ys" and len: "length xs = length ys"
    and ne: "x \<in> set (map fval xs)" "y \<in> set (map fval xs)" "x \<noteq> y"
  shows "exact_slope_fraction (map scaled xs) (map scaled ys) = Inr (ols_slope (map fval xs) (map fval ys))"
proof -
  let ?X = "map fval xs" and ?Y = "map fval ys" and ?ix = "map scaled xs" and ?iy = "map scaled ys"
  define c n where "c = pow2 1074" and "n = (of_nat (length xs) :: rat)"
  define V C where "V = sum_list (map (\<lambda>x. (x - mean_of ?X) * (x - mean_of ?X)) ?X)"
    and "C = sum_list (map2 (\<lambda>x y. (x - mean_of ?X) * (y - mean_of ?Y)) ?X ?Y)"
  define num den where "num = int (length ?ix) * sum_list (map2 (*) ?ix ?iy) - sum_list ?ix * sum_list ?iy"
    and "den = int (length ?ix) * sum_list (map (\<lambda>a. a * a) ?ix) - sum_list ?ix * sum_list ?ix"
  have pos: "0 < V" "0 < n" "0 < c"
    using variance_pos [OF ne] ne(1) by (auto simp: V_def n_def c_def)
  have sx: "of_int (sum_list ?ix) = c * sum_list ?X" "of_int (sum_list ?iy) = c * sum_list ?Y"
    using scaled_sums(1) fin len unfolding c_def by auto
  have "of_int num = c * c * (n * sum_list (map2 (*) ?X ?Y) - sum_list ?X * sum_list ?Y)"
    using scaled_sums(2) [OF fin len] sx by (simp add: num_def n_def c_def algebra_simps)
  then have num: "of_int num = c * c * (n * C)"
    using covariance_form [of ?X ?Y] len by (simp add: n_def C_def)
  have "of_int den = c * c * (n * sum_list (map (\<lambda>x. x * x) ?X) - sum_list ?X * sum_list ?X)"
    using scaled_sums(2) [OF fin(1) fin(1)] sx by (simp add: den_def n_def c_def algebra_simps map2_self)
  then have den: "of_int den = c * c * (n * V)"
    using variance_form [of ?X] by (simp add: n_def V_def)
  have "den \<noteq> 0" using den pos by (metis mult_eq_0_iff of_int_0 less_irrefl)
  moreover have "of_int num / of_int den = C / V" using num den pos by (simp add: field_simps)
  ultimately show ?thesis
    by (simp add: exact_slope_fraction_def Let_def num_def den_def ols_slope_def C_def V_def)
qed

text \<open>C37: the exact fallback decides the least-squares slope: on at most 8192 finite samples whose
  axis is not constant it never divides by zero; what it returns is the correctly rounded ordinary
  least-squares slope, and it is zero exactly when the true slope is zero; otherwise it refuses,
  because the slope overflows or underflows.\<close>

theorem exact_slope_correct:
  assumes "list_all finite64 xs" and "list_all finite64 ys" and "length xs = length ys"
    and "length xs \<le> MAX_EXACT_SLOPE_SAMPLES" and "x \<in> set xs" and "y \<in> set xs" and "x \<noteq> y"
  shows "(case exact_slope xs ys of
       Inr v \<Rightarrow> v = round64 (ols_slope (map fval xs) (map fval ys)) \<and> finite64 v \<and>
               (v = PFin 0 \<longleftrightarrow> ols_slope (map fval xs) (map fval ys) = 0)
     | Inl e \<Rightarrow> ols_slope (map fval xs) (map fval ys) \<noteq> 0 \<and>
               (round64 (ols_slope (map fval xs) (map fval ys)) = PFin 0 \<or>
                \<not> is_finite (round64 (ols_slope (map fval xs) (map fval ys)))))"
proof -
  have "finite64 x" "finite64 y" using assms by (auto simp: list_all_iff)
  then have "fval x \<noteq> fval y" using assms(7) finite64_PFin by metis
  then have q: "exact_slope_fraction (map scaled xs) (map scaled ys) =
      Inr (ols_slope (map fval xs) (map fval ys))"
    using assms by (intro exact_slope_fraction_ols [of _ _ "fval x" "fval y"]) auto
  have "round64 0 = PFin 0" by (simp add: round64_def)
  moreover have "feq v (PFin 0) \<longleftrightarrow> v = PFin 0" for v by (auto simp: feq_def)
  ultimately show ?thesis
    using assms(4) round64_finite64
    by (auto simp: exact_slope_def q float_of_fraction_def)
qed

text \<open>The witness: the slope of a falling pair of points.\<close>

theorem exact_slope_correct_witness:
  "exact_slope [small 0, small 1] [small 4, small 2] = Inr (small (- 2))"
proof -
  have s: "ols_slope (map fval [small 0, small 1]) (map fval [small 4, small 2]) = - 2"
    by (simp add: ols_slope_def mean_of_def)
  have "finite64 (small (- 2))" by (rule small_finite64) simp
  then have r: "round64 (- 2) = small (- 2)" by (simp add: small_def finite64_def)
  have "list_all finite64 [small 0, small 1]" "list_all finite64 [small 4, small 2]"
    by (auto intro!: small_finite64)
  moreover have "small 0 \<noteq> small 1" by (simp add: small_def)
  ultimately have "(case exact_slope [small 0, small 1] [small 4, small 2] of
       Inr v \<Rightarrow> v = small (- 2) \<and> finite64 v \<and> (v = PFin 0 \<longleftrightarrow> (- 2 :: rat) = 0)
     | Inl e \<Rightarrow> (- 2 :: rat) \<noteq> 0 \<and> (small (- 2) = PFin 0 \<or> \<not> is_finite (small (- 2))))"
    using exact_slope_correct [of "[small 0, small 1]" "[small 4, small 2]" "small 0" "small 1", unfolded s r]
    by (simp only: MAX_EXACT_SLOPE_SAMPLES_def) simp
  then show ?thesis by (auto simp: small_def split: sum.splits)
qed

end
