(* ===== verification/MeasureResult.thy ===== *)
theory MeasureResult
  imports MeasureNumeric
begin

text \<open>
  The operation \<open>result.measure\<close> (\<open>operations/result_measure.py\<close>): the parameters of each
  measurement kind, the measurement record and the operation \<open>measure_result\<close>, which validates
  the series and the request in the code's order, dispatches to one algorithm and wraps the outcome
  in the result envelope.  What the request has established when a check fails travels with the
  exception, since the refusal quotes it.
\<close>

section \<open>Parameters\<close>

definition m_quantity :: "pyval \<Rightarrow> string \<Rightarrow> string \<Rightarrow> pyfloat pyres" where
  "m_quantity v label expected_unit =
     pbind (m_closed v label [''value'', ''unit''] []) (\<lambda>d.
     pbind (m_unit (dget d ''unit'') (label @ ''.unit'')) (\<lambda>unit.
     if unit \<noteq> expected_unit
     then Inl (InvalidRequest ''measurement.unit.mismatch''
       (label @ ''.unit is '' @ repr_text unit @ ''; expected exact unit '' @ repr_text expected_unit @ ''.''))
     else m_finite (dget d ''value'') (label @ ''.value'')))"

definition m_window :: "pyval \<Rightarrow> string \<Rightarrow> (pyfloat \<times> pyfloat) pyres" where
  "m_window v axis_unit =
     pbind (m_closed v ''measurement.parameters.window'' [''start'', ''stop''] []) (\<lambda>d.
     pbind (m_quantity (dget d ''start'') ''measurement.parameters.window.start'' axis_unit) (\<lambda>start.
     pbind (m_quantity (dget d ''stop'') ''measurement.parameters.window.stop'' axis_unit) (\<lambda>stop.
     if fle stop start
     then Inl (measure_request ''measurement.parameters.window.stop must be greater than start.'')
     else Inr (start, stop))))"

definition m_optional_window :: "pydict \<Rightarrow> string \<Rightarrow> window pyres" where
  "m_optional_window params axis_unit =
     (if dhas params ''window''
      then pbind (m_window (dget params ''window'') axis_unit) (\<lambda>w. Inr (Some w))
      else Inr None)"

definition m_occurrence :: "pyval \<Rightarrow> nat pyres" where
  "m_occurrence v =
     (case v of
        VInt i \<Rightarrow> (if 1 \<le> i \<and> i \<le> int MAX_POINTS then Inr (nat i)
          else Inl (measure_request (''measurement.parameters.occurrence must be an integer from 1 to ''
            @ dec_nat MAX_POINTS @ ''.'')))
      | _ \<Rightarrow> Inl (measure_request (''measurement.parameters.occurrence must be an integer from 1 to ''
            @ dec_nat MAX_POINTS @ ''.'')))"

section \<open>One definition per kind\<close>

text \<open>What an algorithm yields: value, unit, location, sample count and the not-found message.\<close>

record outcome =
  oc_value :: "pyfloat option"
  oc_unit :: string
  oc_location :: "pyfloat option"
  oc_count :: nat
  oc_missing :: string

text \<open>The selected signal on its axis.\<close>

record selection =
  sel_x :: "pyfloat list"
  sel_y :: "pyfloat list"
  sel_axis_unit :: string
  sel_signal_unit :: string

definition default_missing :: string where
  "default_missing = ''The requested measurement was not observed in the declared series domain.''"

definition measure_sample_at :: "selection \<Rightarrow> pyval \<Rightarrow> outcome pyres" where
  "measure_sample_at sel parameters =
     pbind (m_closed parameters ''measurement.parameters'' [''at'', ''interpolation''] []) (\<lambda>params.
     pbind (m_quantity (dget params ''at'') ''measurement.parameters.at'' (sel_axis_unit sel)) (\<lambda>pos.
     pbind (m_text (dget params ''interpolation'') ''measurement.parameters.interpolation'' 20)
       (\<lambda>interpolation.
     if interpolation \<notin> {''exact'', ''linear''}
     then Inl (measure_request (''measurement.parameters.interpolation must be '' @ repr_text ''exact''
       @ '' or '' @ repr_text ''linear'' @ ''.''))
     else if \<not> (fle (hd (sel_x sel)) pos \<and> fle pos (last (sel_x sel)))
     then Inl (InvalidRequest ''measurement.domain.invalid''
       ''measurement.parameters.at lies outside the declared axis domain.'')
     else
     pbind (sample_at (sel_x sel) (sel_y sel) pos interpolation) (\<lambda>value.
     Inr \<lparr>oc_value = value, oc_unit = sel_signal_unit sel,
          oc_location = (if value = None then None else Some pos),
          oc_count = (if value = None then 0 else 1),
          oc_missing = ''No exact axis sample exists at the requested coordinate.''\<rparr>))))"

definition measure_statistic :: "string \<Rightarrow> selection \<Rightarrow> pyval \<Rightarrow> outcome pyres" where
  "measure_statistic kind sel parameters =
     pbind (m_closed parameters ''measurement.parameters'' [] [''window'']) (\<lambda>params.
     pbind (m_optional_window params (sel_axis_unit sel)) (\<lambda>w.
     let indices = indices_in_window (sel_x sel) w;
         samples = map (\<lambda>i. sel_y sel ! i) indices;
         place = (\<lambda>v. sel_x sel ! (indices ! index_of v samples));
         outcome = (\<lambda>v l. \<lparr>oc_value = v, oc_unit = sel_signal_unit sel, oc_location = l,
           oc_count = length indices,
           oc_missing = ''The declared window contains no source samples.''\<rparr>)
     in if indices = [] then Inr (outcome None None)
        else if kind = ''minimum''
        then Inr (outcome (Some (py_min samples)) (Some (place (py_min samples))))
        else if kind = ''maximum''
        then Inr (outcome (Some (py_max samples)) (Some (place (py_max samples))))
        else if kind = ''mean''
        then pbind (catch_overflow ''The arithmetic mean overflowed the finite result range.''
               (arithmetic_mean samples)) (\<lambda>v. Inr (outcome (Some v) None))
        else pbind (catch_overflow ''The RMS calculation overflowed the finite result range.''
               (root_mean_square samples)) (\<lambda>v. Inr (outcome (Some v) None))))"

definition measure_crossing :: "selection \<Rightarrow> pyval \<Rightarrow> outcome pyres" where
  "measure_crossing sel parameters =
     pbind (m_closed parameters ''measurement.parameters'' [''threshold'', ''direction'', ''occurrence'']
              [''window'']) (\<lambda>params.
     pbind (m_quantity (dget params ''threshold'') ''measurement.parameters.threshold''
              (sel_signal_unit sel)) (\<lambda>threshold.
     pbind (m_text (dget params ''direction'') ''measurement.parameters.direction'' 20) (\<lambda>direction.
     if direction \<notin> {''rising'', ''falling'', ''either''}
     then Inl (measure_request ''measurement.parameters.direction must be rising, falling, or either.'')
     else
     pbind (m_occurrence (dget params ''occurrence'')) (\<lambda>occurrence.
     pbind (m_optional_window params (sel_axis_unit sel)) (\<lambda>w.
     pbind (crossings (sel_x sel) (sel_y sel) threshold direction w) (\<lambda>found.
     let value = (if occurrence \<le> length found then Some (found ! (occurrence - 1)) else None)
     in Inr \<lparr>oc_value = value, oc_unit = sel_axis_unit sel, oc_location = value,
             oc_count = length (indices_in_window (sel_x sel) w),
             oc_missing = default_missing\<rparr>))))))"

definition measure_slope :: "selection \<Rightarrow> pyval \<Rightarrow> outcome pyres" where
  "measure_slope sel parameters =
     pbind (m_closed parameters ''measurement.parameters'' [] [''window'']) (\<lambda>params.
     pbind (m_optional_window params (sel_axis_unit sel)) (\<lambda>w.
     let indices = indices_in_window (sel_x sel) w;
         unit = sel_signal_unit sel @ ''/'' @ sel_axis_unit sel
     in if 64 < length unit
        then Inl (measure_request ''The composed slope unit exceeds 64 characters.'')
        else
        pbind (if 2 \<le> length indices
               then pbind (slope_value (map (\<lambda>i. sel_x sel ! i) indices) (map (\<lambda>i. sel_y sel ! i) indices))
                      (\<lambda>v. Inr (Some v))
               else Inr None) (\<lambda>value.
        Inr \<lparr>oc_value = value, oc_unit = unit, oc_location = None, oc_count = length indices,
             oc_missing = ''The declared window does not contain at least two axis samples.''\<rparr>)))"

definition measure_edge_time :: "string \<Rightarrow> selection \<Rightarrow> pyval \<Rightarrow> outcome pyres" where
  "measure_edge_time kind sel parameters =
     pbind (m_closed parameters ''measurement.parameters''
              [''lower_threshold'', ''upper_threshold'', ''occurrence''] [''window'']) (\<lambda>params.
     pbind (m_quantity (dget params ''lower_threshold'') ''measurement.parameters.lower_threshold''
              (sel_signal_unit sel)) (\<lambda>lower.
     pbind (m_quantity (dget params ''upper_threshold'') ''measurement.parameters.upper_threshold''
              (sel_signal_unit sel)) (\<lambda>upper.
     if fle upper lower
     then Inl (measure_request ''upper_threshold must be greater than lower_threshold.'')
     else
     pbind (m_occurrence (dget params ''occurrence'')) (\<lambda>occurrence.
     pbind (m_optional_window params (sel_axis_unit sel)) (\<lambda>w.
     let rise = (kind = ''rise_time'');
         direction = (if rise then ''rising'' else ''falling'');
         start_threshold = (if rise then lower else upper);
         end_threshold = (if rise then upper else lower)
     in pbind (crossings (sel_x sel) (sel_y sel) start_threshold direction w) (\<lambda>starts.
        pbind (crossings (sel_x sel) (sel_y sel) end_threshold direction w) (\<lambda>ends.
        let matched = (if occurrence \<le> length starts then matching_end starts ends occurrence else None)
        in Inr \<lparr>oc_value = map_option (\<lambda>e. fsub e (starts ! (occurrence - 1))) matched,
                oc_unit = sel_axis_unit sel, oc_location = matched,
                oc_count = length (indices_in_window (sel_x sel) w),
                oc_missing = default_missing\<rparr>)))))))"

definition measure_settling :: "selection \<Rightarrow> pyval \<Rightarrow> outcome pyres" where
  "measure_settling sel parameters =
     pbind (m_closed parameters ''measurement.parameters''
              [''target'', ''tolerance'', ''reference'', ''hold_for''] [''window'']) (\<lambda>params.
     pbind (m_quantity (dget params ''target'') ''measurement.parameters.target'' (sel_signal_unit sel))
       (\<lambda>target.
     pbind (m_quantity (dget params ''tolerance'') ''measurement.parameters.tolerance''
              (sel_signal_unit sel)) (\<lambda>tolerance.
     pbind (m_quantity (dget params ''reference'') ''measurement.parameters.reference''
              (sel_axis_unit sel)) (\<lambda>reference.
     pbind (m_quantity (dget params ''hold_for'') ''measurement.parameters.hold_for''
              (sel_axis_unit sel)) (\<lambda>hold_for.
     if fle tolerance (PFin 0) \<or> fle hold_for (PFin 0)
     then Inl (measure_request ''settling_time tolerance and hold_for must be greater than zero.'')
     else
     pbind (m_optional_window params (sel_axis_unit sel)) (\<lambda>w.
     if \<not> (fle (hd (sel_x sel)) reference \<and> fle reference (last (sel_x sel)))
     then Inl (InvalidRequest ''measurement.domain.invalid''
       ''settling_time reference lies outside the declared axis domain.'')
     else
     let indices = filter (\<lambda>i. fle reference (sel_x sel ! i)) (indices_in_window (sel_x sel) w);
         settled = settled_index (sel_x sel) (sel_y sel) target tolerance hold_for indices
     in Inr \<lparr>oc_value = map_option (\<lambda>i. fsub (sel_x sel ! i) reference) settled,
             oc_unit = sel_axis_unit sel, oc_location = map_option (\<lambda>i. sel_x sel ! i) settled,
             oc_count = length indices, oc_missing = default_missing\<rparr>))))))"

definition MEASUREMENT_KINDS :: "string list" where
  "MEASUREMENT_KINDS =
     [''sample_at'', ''minimum'', ''maximum'', ''mean'', ''rms'', ''crossing'', ''rise_time'',
      ''fall_time'', ''settling_time'', ''slope'']"

definition measure_kind :: "string \<Rightarrow> selection \<Rightarrow> pyval \<Rightarrow> outcome pyres" where
  "measure_kind kind sel parameters =
     (if kind = ''sample_at'' then measure_sample_at sel parameters
      else if kind \<in> {''minimum'', ''maximum'', ''mean'', ''rms''}
      then measure_statistic kind sel parameters
      else if kind = ''crossing'' then measure_crossing sel parameters
      else if kind = ''slope'' then measure_slope sel parameters
      else if kind \<in> {''rise_time'', ''fall_time''} then measure_edge_time kind sel parameters
      else measure_settling sel parameters)"

section \<open>The measurement record\<close>

record measurement =
  m_id :: "string option"
  m_kind :: "string option"
  m_status :: string
  m_request_sha256 :: "string option"
  m_value :: "pyfloat option"
  m_unit_name :: "string option"
  m_signal_name :: "string option"
  m_location :: "(pyfloat \<times> string) option"
  m_sample_count :: nat
  m_evidence :: "evidence_source option"

definition MEASURE_VERSION :: string where "MEASURE_VERSION = ''1.1.0''"

text \<open>\<open>kind.replace('_', '-')\<close> in the algorithm identifier.\<close>

definition algorithm_id :: "string \<Rightarrow> string" where
  "algorithm_id kind =
     ''openada.algorithm/measurement.'' @ map (\<lambda>c. if c = CHR ''_'' then CHR ''-'' else c) kind @ ''/v1''"

definition measurement_json :: "measurement \<Rightarrow> pyval" where
  "measurement_json m =
     obj [(''measurement_id'', opt_val VStr (m_id m)), (''kind'', opt_val VStr (m_kind m)),
          (''status'', VStr (m_status m)), (''request_sha256'', opt_val VStr (m_request_sha256 m)),
          (''value'', opt_val VFloat (m_value m)), (''unit'', opt_val VStr (m_unit_name m)),
          (''signal'', opt_val VStr (m_signal_name m)),
          (''location'', opt_val (\<lambda>(v, u). obj [(''value'', VFloat v), (''unit'', VStr u)])
             (m_location m)),
          (''algorithm'', obj [(''id'', opt_val (\<lambda>k. VStr (algorithm_id k)) (m_kind m)),
             (''version'', VStr MEASURE_VERSION)]),
          (''sample_count'', VInt (int (m_sample_count m))),
          (''source'', opt_val source_json (m_evidence m)), (''extensions'', VDict [])]"

definition measurement_template ::
  "string option \<Rightarrow> string option \<Rightarrow> string option \<Rightarrow> evidence_source option \<Rightarrow> measurement" where
  "measurement_template measurement_id kind signal source =
     \<lparr>m_id = measurement_id, m_kind = kind, m_status = ''unknown'', m_request_sha256 = None,
      m_value = None, m_unit_name = None, m_signal_name = signal, m_location = None,
      m_sample_count = 0, m_evidence = source\<rparr>"

definition measure_payload ::
  "py_env \<Rightarrow> string \<Rightarrow> measurement \<Rightarrow> string \<Rightarrow> string \<Rightarrow> string \<Rightarrow> diag list \<Rightarrow> envelope" where
  "measure_payload env correlation m status summary execution_status diagnostics =
     result_envelope env ''result.measure'' None (Inr (static_execution execution_status)) status summary
       [] [] diagnostics
       (Some (obj [(''protocol'',
           obj [(''request_id'', VStr correlation),
                (''operation_profile'', VStr ''openada.operation/result.measure/v1alpha2''),
                (''assertion_profile'', VStr ''openada.assertion/measurement.valid/v1alpha1''),
                (''implementation_id'', VStr ''org.openada.kernel.typed-evidence''),
                (''implementation_version'', VStr MEASURE_VERSION)]),
         (''measurement'', measurement_json m), (''extensions'', VDict [])]))"

section \<open>The operation\<close>

text \<open>What the request has established so far, quoted by a refusal.\<close>

record progress =
  pr_source :: "evidence_source option"
  pr_id :: "string option"
  pr_kind :: "string option"
  pr_signal :: "string option"

definition no_progress :: progress where
  "no_progress = \<lparr>pr_source = None, pr_id = None, pr_kind = None, pr_signal = None\<rparr>"

definition tag :: "'p \<Rightarrow> 'a pyres \<Rightarrow> ('p \<times> pyexc) + 'a" where
  "tag p m = (case m of Inl e \<Rightarrow> Inl (p, e) | Inr a \<Rightarrow> Inr a)"

text \<open>The successful tail: digest of the request, then the not-found or the measured record.\<close>

definition finish_measurement ::
  "py_env \<Rightarrow> string \<Rightarrow> measurement \<Rightarrow> string \<Rightarrow> string \<Rightarrow> string \<Rightarrow> outcome \<Rightarrow> pydict \<Rightarrow> envelope pyres" where
  "finish_measurement env correlation template measurement_id kind axis_unit oc request =
     pbind (canonical_sha256 env (VDict request)) (\<lambda>digest.
     let output = template\<lparr>m_request_sha256 := Some digest, m_sample_count := oc_count oc,
                           m_unit_name := Some (oc_unit oc)\<rparr>
     in (case oc_value oc of
           None \<Rightarrow> Inr (measure_payload env correlation (output\<lparr>m_status := ''not_found''\<rparr>) ''fail''
             (oc_missing oc) ''completed''
             [diagnostic ''error'' ''measurement.value.not_found'' (oc_missing oc)
               (Some ''Review the declared domain, units, event direction, thresholds, and observation duration.'')])
         | Some v \<Rightarrow>
             (if \<not> is_finite v
              then Inl (non_finite ''The selected algorithm did not produce a finite scalar value.'')
              else Inr (measure_payload env correlation
                (output\<lparr>m_status := ''measured'', m_value := Some v,
                        m_location := map_option (\<lambda>l. (l, axis_unit)) (oc_location oc)\<rparr>) ''pass''
                (''Derived '' @ repr_text measurement_id @ '' using the closed '' @ kind @ '' algorithm.'')
                ''completed'' []))))"

definition measure_body ::
  "py_env \<Rightarrow> string \<Rightarrow> pyval \<Rightarrow> pyval \<Rightarrow> (progress \<times> pyexc) + envelope" where
  "measure_body env correlation series measurement =
     pbind (tag no_progress (normalize_series env True series)) (\<lambda>n.
     let p1 = no_progress\<lparr>pr_source := Some (r_source n)\<rparr> in
     pbind (tag p1 (m_closed measurement ''measurement''
              [''measurement_id'', ''kind'', ''signal'', ''parameters'', ''extensions''] [])) (\<lambda>request.
     pbind (tag p1 (m_extensions (dget request ''extensions'') ''measurement.extensions'')) (\<lambda>_.
     pbind (tag p1 (m_text (dget request ''measurement_id'') ''measurement.measurement_id'' 120))
       (\<lambda>measurement_id.
     let p2 = p1\<lparr>pr_id := Some measurement_id\<rparr> in
     if \<not> canonical_role measurement_id
     then Inl (p2, measure_request ''measurement.measurement_id is not a canonical identifier.'')
     else
     pbind (tag p2 (m_text (dget request ''kind'') ''measurement.kind'' 40)) (\<lambda>kind.
     let p3 = p2\<lparr>pr_kind := Some kind\<rparr> in
     if kind \<notin> set MEASUREMENT_KINDS
     then Inl (p3, InvalidRequest ''measurement.kind.unsupported''
       (''Unsupported measurement kind '' @ repr_text kind @ ''.''))
     else
     pbind (tag p3 (m_text (dget request ''signal'') ''measurement.signal'' 256)) (\<lambda>signal.
     let p4 = p3\<lparr>pr_signal := Some signal\<rparr> in
     (case filter (\<lambda>g. g_name g = signal) (r_signals n) of
        [selected] \<Rightarrow>
          let sel = \<lparr>sel_x = a_values (r_axis n), sel_y = g_values selected,
                     sel_axis_unit = a_unit (r_axis n), sel_signal_unit = g_unit selected\<rparr>
          in pbind (tag p4 (measure_kind kind sel (dget request ''parameters''))) (\<lambda>oc.
             tag p4 (finish_measurement env correlation
               (measurement_template (Some measurement_id) (Some kind) (Some signal) (Some (r_source n)))
               measurement_id kind (a_unit (r_axis n)) oc request))
      | _ \<Rightarrow> Inl (p4, InvalidRequest ''measurement.signal.missing''
          (''The normalized series has no signal named '' @ repr_text signal @ ''.'')))))))))"

definition measure_result :: "py_env \<Rightarrow> pyval \<Rightarrow> pyval \<Rightarrow> pyval \<Rightarrow> envelope pyres" where
  "measure_result env series measurement request_id =
     (case m_correlation_id env request_id of
        Inl (InvalidRequest code msg) \<Rightarrow>
          Inr (measure_payload env (new_uuid env) (measurement_template None None None None) ''unknown''
            ''The result.measure correlation identity is invalid.'' ''invalid_request''
            [diagnostic ''error'' code msg None])
      | Inl e \<Rightarrow> Inl e
      | Inr correlation \<Rightarrow>
          (case measure_body env correlation series measurement of
             Inr r \<Rightarrow> Inr r
           | Inl (p, InvalidRequest code msg) \<Rightarrow>
               Inr (measure_payload env correlation
                 (measurement_template (pr_id p) (pr_kind p) (pr_signal p) (pr_source p)) ''unknown''
                 ''The result.measure request could not be evaluated safely.'' ''invalid_request''
                 [diagnostic ''error'' code msg None])
           | Inl (p, e) \<Rightarrow> Inl e))"

section \<open>Parameters raise typed refusals and are JSON\<close>

declare wf_val.simps(4) [simp del] json_value.simps(4) [simp del]

lemma measure_request_refusal: "refusal (measure_request msg)" "refusal (non_finite msg)"
  by (simp_all add: non_finite_def)

lemma m_quantity_refuses [err_intros]: "errs_in refusal (m_quantity v label unit)"
  unfolding m_quantity_def by (intro err_intros) simp_all

lemma m_optional_window_refuses [err_intros]: "errs_in refusal (m_optional_window params unit)"
  unfolding m_optional_window_def m_window_def by (intro err_intros) simp_all

lemma m_occurrence_refuses [err_intros]: "errs_in refusal (m_occurrence v)"
  by (simp add: m_occurrence_def split: pyval.splits)

lemma m_quantity_finite64: "wf_val v \<Longrightarrow> m_quantity v label unit = Inr x \<Longrightarrow> finite64 x"
  by (auto simp: m_quantity_def m_defs res_simps dest!: closed_object_dict
      intro: finite_value_finite64 wf_val_dget split: if_splits)

lemma m_quantity_json:
  assumes "m_quantity v label unit = Inr x" and "wf_val v"
  shows "json_value v"
proof -
  obtain d where d: "closed_object (request_code measure_codes) v label [''value'', ''unit''] [] = Inr d"
    and f: "finite_value measure_codes (dget d ''value'') (label @ ''.value'') = Inr x" "dget d ''unit'' = VStr unit"
    using assms(1) by (auto simp: m_quantity_def m_defs res_simps split: if_splits)
  have "json_value (VDict d)"
    by (rule closed_object_json [OF d assms(2)]) (use finite_value_json [OF f(1)] f(2) in auto)
  then show ?thesis using closed_object_dict [OF d] by simp
qed

lemma m_window_json:
  assumes "m_window v unit = Inr w" and "wf_val v"
  shows "json_value v"
proof -
  obtain d a b where d: "closed_object (request_code measure_codes) v ''measurement.parameters.window''
      [''start'', ''stop''] [] = Inr d"
    and q: "m_quantity (dget d ''start'') ''measurement.parameters.window.start'' unit = Inr a"
      "m_quantity (dget d ''stop'') ''measurement.parameters.window.stop'' unit = Inr b"
    using assms(1) by (auto simp: m_window_def m_closed_def split: if_splits)
  have wf: "wf_val (dget d k)" for k using assms(2) closed_object_dict [OF d] wf_val_dget by blast
  have "json_value (VDict d)"
    by (rule closed_object_json [OF d assms(2)])
      (use m_quantity_json [OF q(1) wf] m_quantity_json [OF q(2) wf] in auto)
  then show ?thesis using closed_object_dict [OF d] by simp
qed

lemma m_occurrence_json: "m_occurrence v = Inr n \<Longrightarrow> json_value v"
  by (auto simp: m_occurrence_def split: pyval.splits)

lemma m_optional_window_json:
  "m_optional_window d unit = Inr w \<Longrightarrow> wf_val (VDict d) \<Longrightarrow> dhas d ''window'' \<Longrightarrow> json_value (dget d ''window'')"
  by (auto simp del: split_paired_Ex simp: m_optional_window_def intro: m_window_json [OF _ wf_val_dget])

text \<open>The closed objects of parameters, in one place.\<close>

lemma m_closed_json:
  assumes "m_closed v label req opt = Inr d" and "wf_val v"
    and "\<And>k. wf_val (VDict d) \<Longrightarrow> k \<in> set req \<union> set opt \<Longrightarrow> dhas d k \<Longrightarrow> json_value (dget d k)"
  shows "json_value v"
proof -
  have v: "v = VDict d" using assms(1) by (auto simp: m_closed_def dest: closed_object_dict)
  then show ?thesis
    using closed_object_json [OF assms(1)[unfolded m_closed_def] assms(2)] assms(2,3) by simp
qed

lemma m_quantity_field: "m_quantity (dget d k) l u = Inr x \<Longrightarrow> wf_val (VDict d) \<Longrightarrow> json_value (dget d k)"
  using m_quantity_json wf_val_dget by blast

lemma m_text_json: "m_text v label limit = Inr t \<Longrightarrow> json_value v"
  by (auto simp: m_text_def res_simps)

lemmas field_json = m_quantity_field m_text_json m_occurrence_json m_optional_window_json

lemma measure_sample_at_json:
  assumes "measure_sample_at sel p = Inr oc" and "wf_val p"
  shows "json_value p"
proof -
  obtain d where "m_closed p ''measurement.parameters'' [''at'', ''interpolation''] [] = Inr d"
    "\<exists>x. m_quantity (dget d ''at'') ''measurement.parameters.at'' (sel_axis_unit sel) = Inr x"
    "\<exists>x. m_text (dget d ''interpolation'') ''measurement.parameters.interpolation'' 20 = Inr x"
    using assms(1) by (auto simp: measure_sample_at_def split: if_splits)
  then show ?thesis by (elim m_closed_json [OF _ assms(2)]) (auto dest: field_json)
qed

lemma measure_statistic_json:
  assumes "measure_statistic kind sel p = Inr oc" and "wf_val p"
  shows "json_value p"
proof -
  obtain d w where "m_closed p ''measurement.parameters'' [] [''window''] = Inr d"
    "m_optional_window d (sel_axis_unit sel) = Inr w"
    using assms(1) by (auto simp: measure_statistic_def)
  then show ?thesis by (elim m_closed_json [OF _ assms(2)]) (auto dest: field_json)
qed

lemma measure_slope_json:
  assumes "measure_slope sel p = Inr oc" and "wf_val p"
  shows "json_value p"
proof -
  obtain d w where "m_closed p ''measurement.parameters'' [] [''window''] = Inr d"
    "m_optional_window d (sel_axis_unit sel) = Inr w"
    using assms(1) by (auto simp: measure_slope_def)
  then show ?thesis by (elim m_closed_json [OF _ assms(2)]) (auto dest: field_json)
qed

lemma measure_crossing_json:
  assumes "measure_crossing sel p = Inr oc" and "wf_val p"
  shows "json_value p"
proof -
  obtain d w where "m_closed p ''measurement.parameters'' [''threshold'', ''direction'', ''occurrence'']
      [''window''] = Inr d"
    "\<exists>x. m_quantity (dget d ''threshold'') ''measurement.parameters.threshold'' (sel_signal_unit sel) = Inr x"
    "\<exists>x. m_text (dget d ''direction'') ''measurement.parameters.direction'' 20 = Inr x"
    "\<exists>n. m_occurrence (dget d ''occurrence'') = Inr n"
    "m_optional_window d (sel_axis_unit sel) = Inr w"
    using assms(1) by (auto simp: measure_crossing_def split: if_splits)
  then show ?thesis by (elim m_closed_json [OF _ assms(2)]) (auto dest: field_json)
qed

lemma measure_edge_time_json:
  assumes "measure_edge_time kind sel p = Inr oc" and "wf_val p"
  shows "json_value p"
proof -
  obtain d w where "m_closed p ''measurement.parameters'' [''lower_threshold'', ''upper_threshold'',
      ''occurrence''] [''window''] = Inr d"
    "\<exists>x. m_quantity (dget d ''lower_threshold'') ''measurement.parameters.lower_threshold''
       (sel_signal_unit sel) = Inr x"
    "\<exists>x. m_quantity (dget d ''upper_threshold'') ''measurement.parameters.upper_threshold''
       (sel_signal_unit sel) = Inr x"
    "\<exists>n. m_occurrence (dget d ''occurrence'') = Inr n"
    "m_optional_window d (sel_axis_unit sel) = Inr w"
    using assms(1) by (auto simp: measure_edge_time_def split: if_splits)
  then show ?thesis by (elim m_closed_json [OF _ assms(2)]) (auto dest: field_json)
qed

lemma measure_settling_json:
  assumes "measure_settling sel p = Inr oc" and "wf_val p"
  shows "json_value p"
proof -
  obtain d w where "m_closed p ''measurement.parameters''
      [''target'', ''tolerance'', ''reference'', ''hold_for''] [''window''] = Inr d"
    "\<exists>x. m_quantity (dget d ''target'') ''measurement.parameters.target'' (sel_signal_unit sel) = Inr x"
    "\<exists>x. m_quantity (dget d ''tolerance'') ''measurement.parameters.tolerance'' (sel_signal_unit sel) = Inr x"
    "\<exists>x. m_quantity (dget d ''reference'') ''measurement.parameters.reference'' (sel_axis_unit sel) = Inr x"
    "\<exists>x. m_quantity (dget d ''hold_for'') ''measurement.parameters.hold_for'' (sel_axis_unit sel) = Inr x"
    "m_optional_window d (sel_axis_unit sel) = Inr w"
    using assms(1) by (auto simp: measure_settling_def split: if_splits)
  then show ?thesis by (elim m_closed_json [OF _ assms(2)]) (auto dest: field_json)
qed

lemma measure_kind_cases:
  "measure_kind kind sel p \<in> {measure_sample_at sel p, measure_statistic kind sel p, measure_crossing sel p,
     measure_slope sel p, measure_edge_time kind sel p, measure_settling sel p}"
  by (simp add: measure_kind_def)

lemma measure_kind_json: "measure_kind kind sel p = Inr oc \<Longrightarrow> wf_val p \<Longrightarrow> json_value p"
  using measure_kind_cases [of kind sel p] measure_sample_at_json [of sel p oc]
    measure_statistic_json [of kind sel p oc] measure_slope_json [of sel p oc]
    measure_crossing_json [of sel p oc] measure_edge_time_json [of kind sel p oc]
    measure_settling_json [of sel p oc]
  by (elim insertE) simp_all

section \<open>Every kind raises typed refusals only\<close>

definition sel_ok :: "selection \<Rightarrow> bool" where
  "sel_ok sel =
     (sel_x sel \<noteq> [] \<and> list_all finite64 (sel_x sel) \<and> sorted_wrt (<) (map fval (sel_x sel)) \<and>
      length (sel_y sel) = length (sel_x sel) \<and> list_all finite64 (sel_y sel))"

lemma crossings_refuses:
  "sel_ok sel \<Longrightarrow> finite64 threshold \<Longrightarrow> errs_in refusal (crossings (sel_x sel) (sel_y sel) threshold direction w)"
  using crossings_total [of "sel_x sel" "sel_y sel" threshold direction w]
  by (auto simp: sel_ok_def)

lemma window_samples_finite:
  "sel_ok sel \<Longrightarrow> list_all is_finite (map (\<lambda>i. sel_y sel ! i) (indices_in_window (sel_x sel) w))"
  by (auto simp: sel_ok_def list_all_iff dest!: indices_in_window_bound intro!: finite64_is_finite)

lemma closed_wf: "m_closed v label req opt = Inr d \<Longrightarrow> wf_val v \<Longrightarrow> wf_val (dget d k)"
  by (auto simp: m_closed_def dest!: closed_object_dict intro: wf_val_dget)

lemma measure_kind_refuses:
  assumes "sel_ok sel" and "wf_val p"
  shows "errs_in refusal (measure_kind kind sel p)"
proof -
  have threshold: "finite64 x"
    if "m_closed p l req opt = Inr d" "m_quantity (dget d k) lq u = Inr x" for l req opt d k lq u x
    using m_quantity_finite64 closed_wf [OF that(1) assms(2)] that(2) by blast
  have sample: "errs_in refusal (sample_at (sel_x sel) (sel_y sel) pos interpolation)" for pos interpolation
    using sample_at_total [of "sel_x sel"] assms(1) errs_in_total unfolding sel_ok_def by metis
  have "errs_in refusal (measure_sample_at sel p)"
    unfolding measure_sample_at_def by (intro err_intros sample) simp_all
  moreover have "errs_in refusal (measure_statistic kind sel p)"
    unfolding measure_statistic_def
    by (intro err_intros mean_refuses rms_refuses window_samples_finite [OF assms(1)]) simp_all
  moreover have "errs_in refusal (measure_crossing sel p)"
    unfolding measure_crossing_def
    by (intro err_intros crossings_refuses [OF assms(1)]) (auto intro: threshold)
  moreover have "errs_in refusal (measure_slope sel p)"
    unfolding measure_slope_def by (intro err_intros slope_value_refuses) simp_all
  moreover have "errs_in refusal (measure_edge_time kind sel p)"
    unfolding measure_edge_time_def
    by (intro err_intros crossings_refuses [OF assms(1)]) (auto intro: threshold)
  moreover have "errs_in refusal (measure_settling sel p)"
    unfolding measure_settling_def by (intro err_intros) simp_all
  ultimately show ?thesis by (simp add: measure_kind_def)
qed

section \<open>The operation never raises\<close>

abbreviation tagged_refusal :: "progress \<times> pyexc \<Rightarrow> bool" where
  "tagged_refusal pe \<equiv> refusal (snd pe)"

lemma errs_in_tag [err_intros]: "errs_in refusal m \<Longrightarrow> errs_in tagged_refusal (tag p m)"
  by (cases m) (simp_all add: tag_def)

lemma tag_Inr [simp]: "tag p m = Inr a \<longleftrightarrow> m = Inr a"
  by (cases m) (simp_all add: tag_def)

lemma finish_measurement_refuses:
  "json_value (VDict request) \<Longrightarrow>
   errs_in refusal (finish_measurement env correlation template measurement_id kind axis_unit oc request)"
  using canonical_sha256_total [of "VDict request" env]
  by (auto simp: finish_measurement_def Let_def non_finite_def split: option.split)

lemma selected_ok:
  assumes "series_ok n" and "filter (\<lambda>g. g_name g = signal) (r_signals n) = [g]"
  shows "sel_ok \<lparr>sel_x = a_values (r_axis n), sel_y = g_values g, sel_axis_unit = a_unit (r_axis n),
    sel_signal_unit = g_unit g\<rparr>"
proof -
  have "g \<in> set (filter (\<lambda>g. g_name g = signal) (r_signals n))" using assms(2) by simp
  then have "g \<in> set (r_signals n)" by simp
  then show ?thesis using assms(1) by (auto simp: series_ok_def sel_ok_def signal_ok_def axis_ok_def list_all_iff)
qed

lemma errs_in_single [err_intros]:
  "(\<And>x. xs = [x] \<Longrightarrow> errs_in P (f x)) \<Longrightarrow> errs_in P m \<Longrightarrow>
   errs_in P (case xs of [] \<Rightarrow> m | x # ys \<Rightarrow> (case ys of [] \<Rightarrow> f x | _ # _ \<Rightarrow> m))"
  by (simp split: list.split)

lemma measure_body_refuses:
  assumes "env_ok env" and "wf_val series" and "wf_val measurement"
  shows "errs_in tagged_refusal (measure_body env correlation series measurement)"
  unfolding measure_body_def Let_def
proof (intro err_intros assms(2))
  fix n request signal g kind
  assume n: "tag no_progress (normalize_series env True series) = Inr n"
    and request: "tag (no_progress\<lparr>pr_source := Some (r_source n)\<rparr>) (m_closed measurement ''measurement''
      [''measurement_id'', ''kind'', ''signal'', ''parameters'', ''extensions''] []) = Inr request"
    and g: "filter (\<lambda>g. g_name g = signal) (r_signals n) = [g]"
  let ?sel = "\<lparr>sel_x = a_values (r_axis n), sel_y = g_values g, sel_axis_unit = a_unit (r_axis n),
    sel_signal_unit = g_unit g\<rparr>"
  have wf: "wf_val (dget request k)" for k using request closed_wf [of measurement] assms(3) by auto
  have ok: "sel_ok ?sel"
    using normalize_series_ok [OF assms(2,1)] n g by (intro selected_ok) auto
  show "errs_in refusal (measure_kind kind ?sel (dget request ''parameters''))"
    by (rule measure_kind_refuses [OF ok wf])
  fix u measurement_id oc p1 p2 p3 p4 env' correlation' template axis_unit
  assume "tag p1 (m_extensions (dget request ''extensions'') ''measurement.extensions'') = Inr u"
    "tag p1 (m_text (dget request ''measurement_id'') ''measurement.measurement_id'' 120) = Inr measurement_id"
    "tag p2 (m_text (dget request ''kind'') ''measurement.kind'' 40) = Inr kind"
    "tag p3 (m_text (dget request ''signal'') ''measurement.signal'' 256) = Inr signal"
    "tag p4 (measure_kind kind ?sel (dget request ''parameters'')) = Inr oc"
  then have fields: "dget request ''extensions'' = VDict []" "json_value (dget request ''measurement_id'')"
    "json_value (dget request ''kind'')" "json_value (dget request ''signal'')"
    "json_value (dget request ''parameters'')"
    using wf by (auto simp: m_extensions_def res_simps dest: m_text_json measure_kind_json)
  have "m_closed measurement ''measurement'' [''measurement_id'', ''kind'', ''signal'', ''parameters'',
    ''extensions''] [] = Inr request" using request by simp
  then have "json_value measurement"
    by (rule m_closed_json [OF _ assms(3)]) (use fields in \<open>auto simp: json_value.simps(4)\<close>)
  then have "json_value (VDict request)"
    using request by (auto simp: m_closed_def dest: closed_object_dict)
  then show "errs_in refusal (finish_measurement env' correlation' template measurement_id kind axis_unit oc request)"
    by (rule finish_measurement_refuses)
qed simp_all



section \<open>An example request\<close>

definition zeros :: string where "zeros = replicate 64 (CHR ''0'')"

definition example_series :: pyval where
  "example_series =
     obj [(''source'',
            obj [(''operation'', VStr ''simulate''),
                 (''request_id'', VStr ''00000000-0000-4000-8000-000000000000''),
                 (''artifact_role'', VStr ''measurement.source''), (''artifact_sha256'', VStr zeros)]),
          (''axis'', obj [(''name'', VStr ''time''), (''unit'', VStr ''s''), (''values'', VList [VFloat (PFin 0), VFloat (PFin 1)])]),
          (''signals'', VList [obj [(''name'', VStr ''out''), (''unit'', VStr ''V''),
             (''values'', VList [VFloat (PFin 1), VFloat (PFin 0)])]]),
          (''conditions'', VList []), (''extensions'', VDict [])]"

lemma zeros_sha: "sha256_text zeros"
  by (simp add: zeros_def sha256_text_def lower_hex_def ascii_digit_def ord_def list_all_iff)

lemma example_sha: "json_value v \<Longrightarrow> canonical_sha256 example_env v = Inr zeros"
  using canonical_json_total [of v] by (auto simp: canonical_sha256_def example_env_def zeros_def)

lemma m_values [simp]:
  "bounded_name limit t \<Longrightarrow> m_text (VStr t) label limit = Inr t"
  "bounded_name 64 t \<Longrightarrow> m_unit (VStr t) label = Inr t"
  "is_finite x \<Longrightarrow> m_finite (VFloat x) label = Inr x"
  "m_extensions (VDict []) label = Inr ()"
  by (simp_all add: m_defs res_simps)

lemma m_closed_obj [simp]:
  "set req \<subseteq> fst ` set fs \<Longrightarrow> fst ` set fs \<subseteq> set req \<union> set opt \<Longrightarrow>
   m_closed (obj fs) label req opt = Inr (map (\<lambda>(k, v). (VStr k, v)) fs)"
  unfolding m_closed_def by (rule closed_object_intro)

definition example_normal :: series where
  "example_normal =
     \<lparr>r_axis = \<lparr>a_name = ''time'', a_unit = ''s'', a_values = [PFin 0, PFin 1]\<rparr>,
      r_signals = [\<lparr>g_name = ''out'', g_unit = ''V'', g_values = [PFin 1, PFin 0]\<rparr>], r_conditions = [],
      r_source = \<lparr>s_operation = ''simulate'', s_request_id = ''00000000-0000-4000-8000-000000000000'',
        s_role = ''measurement.source'', s_artifact_sha256 = zeros, s_series_sha256 = zeros,
        s_conditions_sha256 = zeros, s_conditions = [], s_lineage = None\<rparr>\<rparr>"

lemma example_source:
  "m_source (obj [(''operation'', VStr ''simulate''),
                 (''request_id'', VStr ''00000000-0000-4000-8000-000000000000''),
                 (''artifact_role'', VStr ''measurement.source''), (''artifact_sha256'', VStr zeros)]) =
   Inr \<lparr>h_operation = ''simulate'', h_request_id = ''00000000-0000-4000-8000-000000000000'',
        h_role = ''measurement.source'', h_sha256 = zeros, h_lineage = None\<rparr>"
proof -
  have "digest_value measure_codes (VStr zeros) l = Inr zeros" for l
    using zeros_sha by (simp add: res_simps)
  moreover have "role_value measure_codes (VStr ''measurement.source'') l = Inr ''measurement.source''" for l
    by (simp add: res_simps bounded_name_def canonical_role_def ascii_lower_def ord_def)
  moreover have "m_uuid (VStr ''00000000-0000-4000-8000-000000000000'') l = Inr ''00000000-0000-4000-8000-000000000000''" for l
    using example_uuid by (simp add: m_uuid_def res_simps bounded_name_def)
  ultimately show ?thesis by (simp add: m_source_def bounded_name_def)
qed

lemma example_normalises: "normalize_series example_env True example_series = Inr example_normal"
  by (simp add: normalize_series_def example_series_def example_source m_axis_def m_signals_def m_signal_def
      m_conditions_def bounded_name_def MAX_POINTS_def MAX_SIGNALS_def MAX_CONDITIONS_def example_normal_def
      example_sha content_json_def axis_json_def signal_json_def fle_def)

definition example_request :: pyval where
  "example_request =
     obj [(''measurement_id'', VStr ''vmin''), (''kind'', VStr ''minimum''), (''signal'', VStr ''out''),
          (''parameters'', VDict []), (''extensions'', VDict [])]"
lemma m_closed_VDict_Nil [simp]: "m_closed (VDict []) label [] opt = Inr []"
  using m_closed_obj [of "[]" "[]" opt label] by (simp add: obj_def)

lemma canonical_vmin: "canonical_role ''vmin''"
  by (simp add: canonical_role_def ascii_lower_def ord_def)

lemma example_minimum:
  "measure_kind ''minimum'' \<lparr>sel_x = [PFin 0, PFin 1], sel_y = [PFin 1, PFin 0], sel_axis_unit = ''s'',
     sel_signal_unit = ''V''\<rparr> (VDict []) =
   Inr \<lparr>oc_value = Some (PFin 0), oc_unit = ''V'', oc_location = Some (PFin 1), oc_count = 2,
     oc_missing = ''The declared window contains no source samples.''\<rparr>"
  by (simp add: measure_kind_def measure_statistic_def m_optional_window_def indices_in_window_def py_min_def
      fmin_def feq_def Let_def)

lemma example_pass:
  "\<exists>r. measure_result example_env example_series example_request VNone = Inr r \<and> e_status r = ''pass''"
proof -
  have "m_correlation_id example_env VNone = Inr (new_uuid example_env)"
    by (simp add: m_correlation_id_def correlation_id_def)
  moreover have "\<exists>r. measure_body example_env c example_series example_request = Inr r \<and> e_status r = ''pass''" for c
    by (simp add: measure_body_def example_normalises example_request_def Let_def bounded_name_def tag_def
        canonical_vmin MEASUREMENT_KINDS_def)
      (simp add: example_normal_def example_minimum finish_measurement_def example_sha measure_payload_def
        json_value.simps(4))
  moreover obtain r where "measure_body example_env (new_uuid example_env) example_series example_request = Inr r"
    "e_status r = ''pass''" using calculation(2) by blast
  ultimately show ?thesis by (simp add: measure_result_def)
qed

lemma example_series_wf: "wf_val example_series"
  using finite64_0 finite64_1
  by (simp add: example_series_def obj_def wf_val.simps(4) f64_finite64)

section \<open>Verdicts\<close>

lemma single_Inr:
  "(case xs of [] \<Rightarrow> Inl e | x # ys \<Rightarrow> (case ys of [] \<Rightarrow> f x | _ # _ \<Rightarrow> Inl e)) = Inr r \<longleftrightarrow>
   (\<exists>x. xs = [x] \<and> f x = Inr r)"
  by (cases xs; cases "tl xs") auto

lemma measure_body_Inr:
  assumes "measure_body env correlation series measurement = Inr r"
  shows "\<exists>n request measurement_id kind signal g oc.
    normalize_series env True series = Inr n \<and> measurement = VDict request \<and>
    dget request ''measurement_id'' = VStr measurement_id \<and> dget request ''kind'' = VStr kind \<and>
    dget request ''signal'' = VStr signal \<and> canonical_role measurement_id \<and> bounded_name 120 measurement_id \<and>
    kind \<in> set MEASUREMENT_KINDS \<and> bounded_name 256 signal \<and>
    filter (\<lambda>g. g_name g = signal) (r_signals n) = [g] \<and>
    measure_kind kind \<lparr>sel_x = a_values (r_axis n), sel_y = g_values g, sel_axis_unit = a_unit (r_axis n),
      sel_signal_unit = g_unit g\<rparr> (dget request ''parameters'') = Inr oc \<and>
    finish_measurement env correlation
      (measurement_template (Some measurement_id) (Some kind) (Some signal) (Some (r_source n)))
      measurement_id kind (a_unit (r_axis n)) oc request = Inr r"
  using assms
  by (auto simp: measure_body_def Let_def single_Inr m_defs res_simps split: if_splits
      dest!: closed_object_dict intro!: exI)

text \<open>C19: every result is one of three: a pass that carries a finite measured value and no diagnostic, a
  fail that says the value was not found, or an unknown for a refused request, which carries no
  value; the execution status is completed exactly for the first two.\<close>

theorem measure_result_verdict:
  assumes "measure_result env series measurement request_id = Inr r"
  shows "\<exists>correlation m summary execution ds.
    r = measure_payload env correlation m (e_status r) summary execution ds \<and>
    (e_status r = ''pass'' \<and> m_status m = ''measured'' \<and> execution = ''completed'' \<and> ds = [] \<and>
       (\<exists>v. m_value m = Some v \<and> is_finite v) \<or>
     e_status r = ''fail'' \<and> m_status m = ''not_found'' \<and> execution = ''completed'' \<and>
       map d_code ds = [''measurement.value.not_found''] \<and> m_value m = None \<or>
     e_status r = ''unknown'' \<and> m_status m = ''unknown'' \<and> execution = ''invalid_request'' \<and>
       length ds = 1 \<and> m_value m = None \<and> m_sample_count m = 0)"
proof -
  have payload: "e_status (measure_payload env c m st su ex ds) = st" for c m st su ex ds
    by (simp add: measure_payload_def)
  have give: ?thesis
    if "r = measure_payload env c m st su ex ds"
      and "st = ''pass'' \<and> m_status m = ''measured'' \<and> ex = ''completed'' \<and> ds = [] \<and>
             (\<exists>v. m_value m = Some v \<and> is_finite v) \<or>
           st = ''fail'' \<and> m_status m = ''not_found'' \<and> ex = ''completed'' \<and>
             map d_code ds = [''measurement.value.not_found''] \<and> m_value m = None \<or>
           st = ''unknown'' \<and> m_status m = ''unknown'' \<and> ex = ''invalid_request'' \<and>
             length ds = 1 \<and> m_value m = None \<and> m_sample_count m = 0"
    for c m st su ex ds
    using that
    by (intro exI [of _ c] exI [of _ m] exI [of _ su] exI [of _ ex] exI [of _ ds]) (simp only: payload simp_thms)
  have refused: ?thesis
    if "r = measure_payload env c (measurement_template i k g s) ''unknown'' su ''invalid_request'' [d]"
    for c i k g s su d
    using that by (rule give) (simp add: measurement_template_def)
  show ?thesis
  proof (cases "m_correlation_id env request_id")
    case (Inl e)
    then show ?thesis using assms refused by (cases e) (auto simp: measure_result_def)
  next
    case (Inr correlation)
    note ok = Inr
    show ?thesis
    proof (cases "measure_body env correlation series measurement")
      case (Inl pe)
      obtain p e where "pe = (p, e)" by (cases pe) auto
      then show ?thesis using assms Inl ok refused by (cases e) (auto simp: measure_result_def)
    next
      case (Inr r')
      then have "measure_body env correlation series measurement = Inr r" using assms ok by (simp add: measure_result_def)
      from measure_body_Inr [OF this] obtain i k g s measurement_id kind axis_unit oc request where
        f: "finish_measurement env correlation (measurement_template i k g s) measurement_id kind axis_unit oc
          request = Inr r"
        by blast
      obtain digest where d: "canonical_sha256 env (VDict request) = Inr digest"
        using f by (auto simp: finish_measurement_def)
      show ?thesis
      proof (cases "oc_value oc")
        case None
        then have "r = measure_payload env correlation ((measurement_template i k g s)\<lparr>
            m_request_sha256 := Some digest, m_sample_count := oc_count oc, m_unit_name := Some (oc_unit oc),
            m_status := ''not_found''\<rparr>) ''fail'' (oc_missing oc) ''completed''
            [diagnostic ''error'' ''measurement.value.not_found'' (oc_missing oc)
              (Some ''Review the declared domain, units, event direction, thresholds, and observation duration.'')]"
          using f by (simp add: finish_measurement_def Let_def d)
        then show ?thesis by (rule give) (simp add: diagnostic_def measurement_template_def)
      next
        case (Some v)
        then have fin: "is_finite v" using f by (auto simp: finish_measurement_def Let_def d split: if_splits)
        have "r = measure_payload env correlation ((measurement_template i k g s)\<lparr>
            m_request_sha256 := Some digest, m_sample_count := oc_count oc, m_unit_name := Some (oc_unit oc),
            m_status := ''measured'', m_value := Some v,
            m_location := map_option (\<lambda>l. (l, axis_unit)) (oc_location oc)\<rparr>) ''pass''
            (''Derived '' @ repr_text measurement_id @ '' using the closed '' @ kind @ '' algorithm.'')
            ''completed'' []"
          using f Some fin by (simp add: finish_measurement_def Let_def d)
        then show ?thesis by (rule give) (simp add: fin)
      qed
    qed
  qed
qed

theorem measure_result_verdict_witness:
  "\<exists>r. measure_result example_env VNone VNone (VInt 0) = Inr r \<and> e_status r \<in> {''pass'', ''fail'', ''unknown''}"
proof -
  obtain r where r: "measure_result example_env VNone VNone (VInt 0) = Inr r"
    by (simp add: measure_result_def m_defs correlation_id_def uuid_value_def text_value_def as_str_def)
  then show ?thesis using measure_result_verdict [OF r] by auto
qed

section \<open>What a measured value rests on\<close>

lemma measure_kind_count:
  assumes "sel_ok sel" and "measure_kind kind sel p = Inr oc"
  shows "oc_count oc \<le> length (sel_x sel)"
proof -
  note le = indices_in_window_length [of "sel_x sel"] le_trans [OF length_filter_le indices_in_window_length]
  have "measure_sample_at sel p = Inr oc \<Longrightarrow> ?thesis"
    using assms(1) by (auto simp: measure_sample_at_def sel_ok_def Suc_le_eq split: if_splits)
  moreover have "measure_statistic kind sel p = Inr oc \<Longrightarrow> ?thesis"
    using le by (auto simp: measure_statistic_def Let_def split: if_splits)
  moreover have "measure_crossing sel p = Inr oc \<Longrightarrow> ?thesis"
    using le by (auto simp: measure_crossing_def Let_def split: if_splits)
  moreover have "measure_slope sel p = Inr oc \<Longrightarrow> ?thesis"
    using le by (auto simp: measure_slope_def Let_def split: if_splits)
  moreover have "measure_edge_time kind sel p = Inr oc \<Longrightarrow> ?thesis"
    using le by (auto simp: measure_edge_time_def Let_def split: if_splits)
  moreover have "measure_settling sel p = Inr oc \<Longrightarrow> ?thesis"
    using le by (auto simp: measure_settling_def Let_def split: if_splits)
  ultimately show ?thesis using measure_kind_cases [of kind sel p] assms(2) by auto
qed



section \<open>Elapsed times\<close>

lemma map_res_all: "map_res f xs = Inr ys \<Longrightarrow> (\<And>x y. f x = Inr y \<Longrightarrow> P y) \<Longrightarrow> list_all P ys"
  by (induction xs arbitrary: ys) auto

lemma crossings_f64: "crossings axis ys threshold direction w = Inr found \<Longrightarrow> list_all f64 found"
  unfolding crossings_def by (erule map_res_all) (auto simp: crossing_point_def)

lemma elapsed_sign:
  assumes "f64 s" "f64 e" "fle s e" "is_finite (fsub e s)"
  shows "fle (PFin 0) (fsub e s)"
proof -
  have "is_finite e" "is_finite s" using assms(3,4) by (cases s; cases e; auto simp: fsub_def fle_def feq_def)+
  then have f: "finite64 s" "finite64 e" using assms(1,2) by (simp_all add: f64_finite64)
  then have "fval s \<le> fval e" using assms(3) by (cases s; cases e) auto
  then have "nonneg (fsub e s)" using f by (intro nonneg_fsub)
  then show ?thesis using assms(4) by (cases "fsub e s") auto
qed

lemma matching_end_Some:
  "matching_end starts ends k = Some e \<Longrightarrow> e \<in> set ends \<and> fle (starts ! (k - 1)) e"
  by (auto simp: matching_end_def Let_def find_Some_iff)

lemma settled_index_Some:
  assumes "settled_index axis ys target tolerance hold (filter P (indices_in_window axis w)) = Some i"
  shows "i < length axis \<and> P i"
proof -
  define js where "js = filter P (indices_in_window axis w)"
  have sorted: "sorted_wrt (<) js" by (simp add: js_def)
  have "js \<noteq> []" and "settle_scan axis ys target tolerance hold (last js) (rev js) True None = Some i"
    using assms unfolding js_def [symmetric] settled_index_def by (simp_all split: if_splits)
  then have "i \<in> set js"
    unfolding settle_scan_find [OF sorted] by (auto simp: find_Some_iff)
  then have "i \<in> set (filter P (indices_in_window axis w))" by (simp only: js_def)
  then show ?thesis using indices_in_window_bound by auto
qed

text \<open>no rise, fall or settling time that is reported is negative.\<close>

theorem elapsed_time_nonneg:
  assumes "kind \<in> {''rise_time'', ''fall_time'', ''settling_time''}" and "sel_ok sel" and "wf_val p"
    and "measure_kind kind sel p = Inr oc" and "oc_value oc = Some v" and "is_finite v"
  shows "fle (PFin 0) v"
proof (cases "kind = ''settling_time''")
  case True
  then have "measure_settling sel p = Inr oc" using assms(4) by (simp add: measure_kind_def)
  then obtain d reference target tolerance hold w i where
    c: "m_closed p ''measurement.parameters'' [''target'', ''tolerance'', ''reference'', ''hold_for''] [''window''] = Inr d"
      "m_quantity (dget d ''reference'') ''measurement.parameters.reference'' (sel_axis_unit sel) = Inr reference"
      "settled_index (sel_x sel) (sel_y sel) target tolerance hold
         (filter (\<lambda>i. fle reference (sel_x sel ! i)) (indices_in_window (sel_x sel) w)) = Some i"
      "v = fsub (sel_x sel ! i) reference"
    using assms(5) by (auto simp: measure_settling_def Let_def split: if_splits)
  have "finite64 reference" using m_quantity_finite64 [OF closed_wf [OF c(1) assms(3)] c(2)] .
  moreover have "finite64 (sel_x sel ! i)"
    using settled_index_Some [OF c(3)] assms(2) by (auto simp: sel_ok_def list_all_length)
  ultimately show ?thesis
    using elapsed_sign [of reference "sel_x sel ! i"] settled_index_Some [OF c(3)] c(4) assms(6)
    by (simp add: f64_finite64)
next
  case False
  then have "measure_edge_time kind sel p = Inr oc" using assms(1,4) by (auto simp: measure_kind_def)
  then obtain starts ends k th th' dir w e where
    c: "crossings (sel_x sel) (sel_y sel) th dir w = Inr starts"
      "crossings (sel_x sel) (sel_y sel) th' dir w = Inr ends"
      "k \<le> length starts" "1 \<le> k" "matching_end starts ends k = Some e" "v = fsub e (starts ! (k - 1))"
    using assms(5) by (auto simp: measure_edge_time_def Let_def m_occurrence_def split: if_splits pyval.splits)
  have "f64 e" using crossings_f64 [OF c(2)] matching_end_Some [OF c(5)] by (simp add: list_all_iff)
  moreover have "f64 (starts ! (k - 1))" using crossings_f64 [OF c(1)] c(3,4) by (simp add: list_all_length)
  ultimately show ?thesis
    using elapsed_sign [of "starts ! (k - 1)" e] matching_end_Some [OF c(5)] c(6) assms(6) by simp
qed

definition example_rise :: pyval where
  "example_rise =
     obj [(''target'', obj [(''value'', VFloat (PFin 0)), (''unit'', VStr ''V'')]),
          (''tolerance'', obj [(''value'', VFloat (PFin 1)), (''unit'', VStr ''V'')]),
          (''reference'', obj [(''value'', VFloat (PFin 0)), (''unit'', VStr ''s'')]),
          (''hold_for'', obj [(''value'', VFloat (PFin 1)), (''unit'', VStr ''s'')])]"

theorem elapsed_time_nonneg_witness:
  "\<exists>oc v. measure_kind ''settling_time'' \<lparr>sel_x = [PFin 0, PFin 1], sel_y = [PFin 1, PFin 0],
     sel_axis_unit = ''s'', sel_signal_unit = ''V''\<rparr> example_rise = Inr oc \<and> oc_value oc = Some v \<and>
     fle (PFin 0) v"
proof -
  let ?sel = "\<lparr>sel_x = [PFin 0, PFin 1], sel_y = [PFin 1, PFin 0], sel_axis_unit = ''s'', sel_signal_unit = ''V''\<rparr>"
  have ok: "sel_ok ?sel" by (simp add: sel_ok_def)
  have wf: "wf_val example_rise"
    using finite64_0 finite64_1 by (simp add: example_rise_def obj_def wf_val.simps(4) f64_finite64)
  have one: "round64 1 = PFin 1" "round64 0 = PFin 0"
    using finite64_1 finite64_0 by (simp_all add: finite64_def)
  have "measure_kind ''settling_time'' ?sel example_rise =
    Inr \<lparr>oc_value = Some (PFin 0), oc_unit = ''s'', oc_location = Some (PFin 0), oc_count = 2,
         oc_missing = default_missing\<rparr>"
    by (simp add: measure_kind_def measure_settling_def example_rise_def m_quantity_def bounded_name_def
        m_optional_window_def indices_in_window_def settled_index_def Let_def fsub_def one fle_def upt_rec)
  then show ?thesis using elapsed_time_nonneg [OF _ ok wf] by auto
qed

end
