(* ===== verification/SpecModel.thy ===== *)
theory SpecModel
  imports MeasureResult
begin

text \<open>
  The data model of \<open>operations/specification_evaluate.py\<close>: the measurement record it accepts (the
  one \<open>result.measure\<close> writes), the specification with its bounds and conditions, and the
  normalisation of both from untyped values.
\<close>

definition SPEC_VERSION :: string where "SPEC_VERSION = ''1.0.0''"

abbreviation spec_request :: "string \<Rightarrow> pyexc" where
  "spec_request msg \<equiv> InvalidRequest ''specification.request.invalid'' msg"

abbreviation spec_source :: "string \<Rightarrow> pyexc" where
  "spec_source msg \<equiv> InvalidRequest ''specification.source.invalid'' msg"

abbreviation spec_measurement :: "string \<Rightarrow> pyexc" where
  "spec_measurement msg \<equiv> InvalidRequest ''specification.measurement.invalid'' msg"

definition s_closed :: "pyval \<Rightarrow> string \<Rightarrow> string list \<Rightarrow> string list \<Rightarrow> pydict pyres" where
  "s_closed = closed_object (request_code spec_codes)"

definition s_text :: "pyval \<Rightarrow> string \<Rightarrow> nat \<Rightarrow> string pyres" where
  "s_text = text_value spec_codes"

definition s_unit :: "pyval \<Rightarrow> string \<Rightarrow> string pyres" where
  "s_unit = unit_value spec_codes"

definition s_finite :: "pyval \<Rightarrow> string \<Rightarrow> pyfloat pyres" where
  "s_finite = finite_value spec_codes"

definition s_extensions :: "pyval \<Rightarrow> string \<Rightarrow> unit pyres" where
  "s_extensions = empty_extensions spec_codes"

definition s_uuid :: "pyval \<Rightarrow> string \<Rightarrow> string pyres" where
  "s_uuid = uuid_value spec_codes"

definition s_correlation_id :: "py_env \<Rightarrow> pyval \<Rightarrow> string pyres" where
  "s_correlation_id = correlation_id spec_codes"

lemmas s_defs = s_closed_def s_text_def s_unit_def s_finite_def s_extensions_def s_uuid_def
  s_correlation_id_def

lemma s_refuses [err_intros]:
  "errs_in refusal (s_closed v label req opt)" "errs_in refusal (s_text v label limit)"
  "errs_in refusal (s_unit v label)" "errs_in refusal (s_finite v label)"
  "errs_in refusal (s_extensions v label)" "errs_in refusal (s_uuid v label)"
  "errs_in refusal (s_correlation_id env v)"
  unfolding s_defs by (rule err_intros)+

section \<open>Conditions and sources\<close>

definition s_scalar :: "pyval \<Rightarrow> string \<Rightarrow> pyval pyres" where
  "s_scalar v label =
     (case v of
        VInt i \<Rightarrow> pbind (s_finite v label) (\<lambda>x. Inr (VFloat x))
      | VFloat y \<Rightarrow> pbind (s_finite v label) (\<lambda>x. Inr (VFloat x))
      | VStr t \<Rightarrow> pbind (s_text v label 256) (\<lambda>t. Inr (VStr t))
      | VBool b \<Rightarrow> Inr (VBool b)
      | _ \<Rightarrow> Inl (spec_request (label @ '' must be a finite number, string, or boolean.'')))"

definition s_condition :: "string \<Rightarrow> pyval \<Rightarrow> cond pyres" where
  "s_condition label v =
     pbind (s_closed v label [''name'', ''value'', ''unit''] []) (\<lambda>d.
     pbind (s_text (dget d ''name'') (label @ ''.name'') 256) (\<lambda>name.
     pbind (s_scalar (dget d ''value'') (label @ ''.value'')) (\<lambda>value.
     pbind (s_unit (dget d ''unit'') (label @ ''.unit'')) (\<lambda>unit.
     Inr \<lparr>c_name = name, c_value = value, c_unit = unit\<rparr>))))"

text \<open>The array of conditions, the same block for the source and for the specification.\<close>

definition s_condition_list :: "(string \<Rightarrow> pyexc) \<Rightarrow> string \<Rightarrow> pyval \<Rightarrow> cond list pyres" where
  "s_condition_list refuse label v =
     (case as_sequence v of
        None \<Rightarrow> Inl (refuse (label @ '' must be an array of at most '' @ dec_nat MAX_CONDITIONS @ '' entries.''))
      | Some items \<Rightarrow>
          (if MAX_CONDITIONS < length items
           then Inl (refuse (label @ '' must be an array of at most '' @ dec_nat MAX_CONDITIONS @ '' entries.''))
           else pbind (map_res_i (\<lambda>i. s_condition (label @ ''['' @ dec_nat i @ '']'')) 0 items) (\<lambda>conditions.
             if \<not> distinct (map c_name conditions)
             then Inl (refuse (label @ '' names must be unique.''))
             else Inr conditions)))"

definition s_digest :: "pydict \<Rightarrow> string \<Rightarrow> string pyres" where
  "s_digest d field = digest_value spec_codes (dget d field) (''measurement.source.'' @ field)"

definition s_source_record :: "py_env \<Rightarrow> pyval \<Rightarrow> evidence_source pyres" where
  "s_source_record env v =
     pbind (s_closed v ''measurement.source''
              [''operation'', ''request_id'', ''artifact_role'', ''artifact_sha256'', ''series_sha256'',
               ''conditions_sha256'', ''conditions'', ''lineage''] []) (\<lambda>d.
     pbind (role_value spec_codes (dget d ''artifact_role'') ''measurement.source.artifact_role'') (\<lambda>role.
     if role \<noteq> ''measurement.source''
     then Inl (spec_source (''measurement.source.artifact_role must be '' @ repr_text ''measurement.source'' @ ''.''))
     else
     pbind (s_digest d ''artifact_sha256'') (\<lambda>artifact.
     pbind (s_digest d ''series_sha256'') (\<lambda>series.
     pbind (s_digest d ''conditions_sha256'') (\<lambda>bindings.
     if artifact \<noteq> series
     then Inl (spec_source ''measurement.source artifact_sha256 and series_sha256 must identify the same canonical normalized series.'')
     else
     pbind (s_condition_list (\<lambda>m. spec_source m) ''measurement.source.conditions'' (dget d ''conditions'')) (\<lambda>conditions.
     pbind (canonical_sha256 env (VList (map cond_json conditions))) (\<lambda>expected.
     if bindings \<noteq> expected
     then Inl (spec_source ''measurement.source.conditions_sha256 does not match the normalized condition bindings.'')
     else
     pbind (if dget d ''lineage'' = VNone then Inr None
            else pbind (norm_lineage spec_codes ''measurement.source.lineage'' (dget d ''lineage''))
                   (\<lambda>l. Inr (Some l))) (\<lambda>lineage.
     pbind (s_text (dget d ''operation'') ''measurement.source.operation'' 256) (\<lambda>operation.
     pbind (s_uuid (dget d ''request_id'') ''measurement.source.request_id'') (\<lambda>request_id.
     Inr \<lparr>s_operation = operation, s_request_id = request_id, s_role = role,
          s_artifact_sha256 = artifact, s_series_sha256 = series, s_conditions_sha256 = bindings,
          s_conditions = conditions, s_lineage = lineage\<rparr>))))))))))"

section \<open>Measurements\<close>

record norm_measurement =
  n_id :: string
  n_kind :: string
  n_status :: string
  n_request_sha256 :: "string option"
  n_value :: "pyfloat option"
  n_unit :: "string option"
  n_signal :: string
  n_location :: "(pyfloat \<times> string) option"
  n_algorithm :: "string \<times> string"
  n_count :: nat
  n_source :: evidence_source

definition norm_measurement_json :: "norm_measurement \<Rightarrow> pyval" where
  "norm_measurement_json m =
     obj [(''measurement_id'', VStr (n_id m)), (''kind'', VStr (n_kind m)), (''status'', VStr (n_status m)),
          (''request_sha256'', opt_val VStr (n_request_sha256 m)), (''value'', opt_val VFloat (n_value m)),
          (''unit'', opt_val VStr (n_unit m)), (''signal'', VStr (n_signal m)),
          (''location'', opt_val (\<lambda>(v, u). obj [(''value'', VFloat v), (''unit'', VStr u)]) (n_location m)),
          (''algorithm'', obj [(''id'', VStr (fst (n_algorithm m))), (''version'', VStr (snd (n_algorithm m)))]),
          (''sample_count'', VInt (int (n_count m))), (''source'', source_json (n_source m)),
          (''extensions'', VDict [])]"

definition s_request_digest :: "pyval \<Rightarrow> string \<Rightarrow> string option pyres" where
  "s_request_digest v status =
     pbind (if v = VNone then Inr None
            else pbind (s_text v ''measurement.request_sha256'' 64) (\<lambda>t.
              if \<not> sha256_text t
              then Inl (spec_measurement ''measurement.request_sha256 must be a lowercase SHA-256 digest.'')
              else Inr (Some t))) (\<lambda>digest.
     if status \<in> {''measured'', ''not_found''} \<and> digest = None
     then Inl (spec_measurement ''A measured or not_found record must retain measurement.request_sha256.'')
     else Inr digest)"

definition s_measured :: "pydict \<Rightarrow> string \<Rightarrow> (pyfloat option \<times> string option) pyres" where
  "s_measured d status =
     (if status = ''measured''
      then pbind (s_finite (dget d ''value'') ''measurement.value'') (\<lambda>value.
           pbind (s_unit (dget d ''unit'') ''measurement.unit'') (\<lambda>unit. Inr (Some value, Some unit)))
      else if dget d ''value'' \<noteq> VNone
      then Inl (spec_measurement ''A non-measured record must carry null measurement.value.'')
      else if dget d ''unit'' = VNone then Inr (None, None)
      else pbind (s_unit (dget d ''unit'') ''measurement.unit'') (\<lambda>unit. Inr (None, Some unit)))"

definition s_location :: "pyval \<Rightarrow> (pyfloat \<times> string) option pyres" where
  "s_location v =
     (if v = VNone then Inr None
      else pbind (s_closed v ''measurement.location'' [''value'', ''unit''] []) (\<lambda>d.
           pbind (s_finite (dget d ''value'') ''measurement.location.value'') (\<lambda>value.
           pbind (s_unit (dget d ''unit'') ''measurement.location.unit'') (\<lambda>unit. Inr (Some (value, unit))))))"

definition s_sample_count :: "pyval \<Rightarrow> nat pyres" where
  "s_sample_count v =
     (case v of
        VInt i \<Rightarrow> (if 0 \<le> i \<and> i \<le> 100000 then Inr (nat i)
          else Inl (spec_measurement ''measurement.sample_count must be an integer from 0 to 100000.''))
      | _ \<Rightarrow> Inl (spec_measurement ''measurement.sample_count must be an integer from 0 to 100000.''))"

definition normalize_measurement :: "py_env \<Rightarrow> pyval \<Rightarrow> norm_measurement pyres" where
  "normalize_measurement env v =
     pbind (s_closed v ''measurement''
              [''measurement_id'', ''kind'', ''status'', ''request_sha256'', ''value'', ''unit'', ''signal'',
               ''location'', ''algorithm'', ''sample_count'', ''source'', ''extensions''] []) (\<lambda>d.
     pbind (s_extensions (dget d ''extensions'') ''measurement.extensions'') (\<lambda>_.
     pbind (s_text (dget d ''measurement_id'') ''measurement.measurement_id'' 120) (\<lambda>measurement_id.
     if \<not> canonical_role measurement_id
     then Inl (spec_measurement ''measurement.measurement_id is not a canonical identifier.'')
     else
     pbind (s_text (dget d ''status'') ''measurement.status'' 20) (\<lambda>status.
     if status \<notin> {''measured'', ''not_found'', ''unknown''}
     then Inl (spec_measurement ''measurement.status must be measured, not_found, or unknown.'')
     else
     pbind (s_request_digest (dget d ''request_sha256'') status) (\<lambda>digest.
     pbind (s_measured d status) (\<lambda>(value, unit).
     pbind (s_location (dget d ''location'')) (\<lambda>location.
     pbind (s_closed (dget d ''algorithm'') ''measurement.algorithm'' [''id'', ''version''] []) (\<lambda>a.
     pbind (s_text (dget a ''id'') ''measurement.algorithm.id'' 256) (\<lambda>aid.
     pbind (s_text (dget a ''version'') ''measurement.algorithm.version'' 100) (\<lambda>aversion.
     pbind (s_sample_count (dget d ''sample_count'')) (\<lambda>count.
     pbind (s_text (dget d ''kind'') ''measurement.kind'' 40) (\<lambda>kind.
     pbind (s_text (dget d ''signal'') ''measurement.signal'' 256) (\<lambda>signal.
     pbind (s_source_record env (dget d ''source'')) (\<lambda>source.
     Inr \<lparr>n_id = measurement_id, n_kind = kind, n_status = status, n_request_sha256 = digest,
          n_value = value, n_unit = unit, n_signal = signal, n_location = location,
          n_algorithm = (aid, aversion), n_count = count, n_source = source\<rparr>))))))))))))))"

section \<open>Specifications\<close>

record bound =
  b_value :: pyfloat
  b_unit :: string
  b_inclusive :: bool

record spec_record =
  sp_id :: string
  sp_measurement :: string
  sp_limits :: "(string \<times> bound) list"
  sp_conditions :: "cond list"

definition bound_fields :: "bound \<Rightarrow> (string \<times> pyval) list" where
  "bound_fields b =
     [(''value'', VFloat (b_value b)), (''unit'', VStr (b_unit b)), (''inclusive'', VBool (b_inclusive b))]"

definition bound_json :: "bound \<Rightarrow> pyval" where
  "bound_json b = obj (bound_fields b)"

definition specification_json :: "spec_record \<Rightarrow> pyval" where
  "specification_json sp =
     obj [(''specification_id'', VStr (sp_id sp)), (''measurement_id'', VStr (sp_measurement sp)),
          (''limits'', obj (map (\<lambda>(k, b). (k, bound_json b)) (sp_limits sp))),
          (''conditions'', VList (map cond_json (sp_conditions sp))), (''extensions'', VDict [])]"

definition s_bound :: "string \<Rightarrow> pyval \<Rightarrow> bound pyres" where
  "s_bound label v =
     pbind (s_closed v label [''value'', ''unit'', ''inclusive''] []) (\<lambda>d.
     (case dget d ''inclusive'' of
        VBool inclusive \<Rightarrow>
          pbind (s_finite (dget d ''value'') (label @ ''.value'')) (\<lambda>value.
          pbind (s_unit (dget d ''unit'') (label @ ''.unit'')) (\<lambda>unit.
          Inr \<lparr>b_value = value, b_unit = unit, b_inclusive = inclusive\<rparr>))
      | _ \<Rightarrow> Inl (spec_request (label @ ''.inclusive must be boolean.''))))"

definition s_limits :: "pydict \<Rightarrow> (string \<times> bound) list pyres" where
  "s_limits d =
     map_res (\<lambda>(k, raw). case k of
         VStr name \<Rightarrow> pbind (s_bound (''specification.limits.'' @ name) raw) (\<lambda>b. Inr (name, b))
       | _ \<Rightarrow> Inl (TypeError ''limit name'')) d"

text \<open>The check of the interval, made only when both bounds are declared.\<close>

definition check_interval :: "(string \<times> bound) list \<Rightarrow> unit pyres" where
  "check_interval limits =
     (case (map_of limits ''lower'', map_of limits ''upper'') of
        (Some lower, Some upper) \<Rightarrow>
          (if b_unit lower \<noteq> b_unit upper
           then Inl (InvalidRequest ''specification.unit.mismatch''
             ''Lower and upper specification limits must use the same exact unit.'')
           else if flt (b_value upper) (b_value lower) \<or>
             feq (b_value lower) (b_value upper) \<and> (\<not> b_inclusive lower \<or> \<not> b_inclusive upper)
           then Inl (spec_request ''The declared lower and upper limits form an empty interval.'')
           else Inr ())
      | _ \<Rightarrow> Inr ())"

definition normalize_specification :: "pyval \<Rightarrow> spec_record pyres" where
  "normalize_specification v =
     pbind (s_closed v ''specification''
              [''specification_id'', ''measurement_id'', ''limits'', ''conditions'', ''extensions''] []) (\<lambda>d.
     pbind (s_extensions (dget d ''extensions'') ''specification.extensions'') (\<lambda>_.
     pbind (s_text (dget d ''specification_id'') ''specification.specification_id'' 120) (\<lambda>specification_id.
     pbind (s_text (dget d ''measurement_id'') ''specification.measurement_id'' 120) (\<lambda>measurement_id.
     if \<not> canonical_role specification_id \<or> \<not> canonical_role measurement_id
     then Inl (spec_request ''specification identifiers must be canonical role-like identifiers.'')
     else
     pbind (s_closed (dget d ''limits'') ''specification.limits'' [] [''lower'', ''upper'']) (\<lambda>raw_limits.
     if raw_limits = []
     then Inl (spec_request ''specification.limits must declare at least one lower or upper bound.'')
     else
     pbind (s_limits raw_limits) (\<lambda>limits.
     pbind (check_interval limits) (\<lambda>_.
     pbind (s_condition_list (\<lambda>m. spec_request m) ''specification.conditions'' (dget d ''conditions'')) (\<lambda>conditions.
     Inr \<lparr>sp_id = specification_id, sp_measurement = measurement_id, sp_limits = limits,
          sp_conditions = conditions\<rparr>))))))))"

end
