(* ===== verification/SpecRecords.thy ===== *)
theory SpecRecords
  imports SpecModel
begin

text \<open>
  What the normalised records of \<open>operations/specification_evaluate.py\<close> satisfy, and that each of them
  parses back from its printed form: conditions, bounds, sources, measurements and specifications
  are interpretations of the interface \<open>json_record\<close>.
\<close>

declare wf_val.simps(4) [simp del] json_value.simps(4) [simp del]

lemma s_closed_obj [simp]:
  "set req \<subseteq> fst ` set fs \<Longrightarrow> fst ` set fs \<subseteq> set req \<union> set opt \<Longrightarrow>
   s_closed (obj fs) label req opt = Inr (map (\<lambda>(k, v). (VStr k, v)) fs)"
  unfolding s_closed_def by (rule closed_object_intro)

lemma s_values [simp]:
  "bounded_name limit t \<Longrightarrow> s_text (VStr t) label limit = Inr t"
  "bounded_name 64 t \<Longrightarrow> s_unit (VStr t) label = Inr t"
  "is_finite x \<Longrightarrow> s_finite (VFloat x) label = Inr x"
  "s_extensions (VDict []) label = Inr ()"
  "canonical_uuid t \<Longrightarrow> bounded_name 36 t \<Longrightarrow> s_uuid (VStr t) label = Inr t"
  by (simp_all add: s_defs res_simps)

lemma s_Inr [res_simps]:
  "s_text v label limit = Inr t \<longleftrightarrow> v = VStr t \<and> bounded_name limit t"
  "s_unit v label = Inr t \<longleftrightarrow> v = VStr t \<and> bounded_name 64 t"
  "s_extensions v label = Inr u \<longleftrightarrow> v = VDict []"
  "s_uuid v label = Inr t \<longleftrightarrow> v = VStr t \<and> bounded_name 36 t \<and> canonical_uuid t"
  by (simp_all add: s_defs res_simps)

lemma obj_not_None [simp]: "obj fs \<noteq> VNone"
  by (simp add: obj_def)

lemma s_closed_dict: "s_closed v label req opt = Inr d \<Longrightarrow> v = VDict d"
  by (auto simp: s_closed_def dest: closed_object_dict)

lemma s_closed_wf: "s_closed v label req opt = Inr d \<Longrightarrow> wf_val v \<Longrightarrow> wf_val (dget d k)"
  by (auto dest!: s_closed_dict intro: wf_val_dget)

lemma s_finite_finite64: "s_finite v label = Inr x \<Longrightarrow> wf_val v \<Longrightarrow> finite64 x"
  unfolding s_finite_def by (rule finite_value_finite64)

section \<open>Conditions\<close>

lemma s_scalar_ok: "wf_val v \<Longrightarrow> s_scalar v label = Inr w \<Longrightarrow> scalar_ok w"
  by (cases v) (auto simp: s_scalar_def res_simps scalar_ok_def dest: s_finite_finite64)

lemma s_scalar_id: "scalar_ok v \<Longrightarrow> s_scalar v label = Inr v"
  by (cases v) (auto simp: s_scalar_def scalar_ok_def finite64_is_finite)

lemma s_condition_ok:
  assumes "wf_val v" and "s_condition label v = Inr c"
  shows "cond_ok c"
proof -
  obtain d where "s_closed v label [''name'', ''value'', ''unit''] [] = Inr d"
    and "s_scalar (dget d ''value'') (label @ ''.value'') = Inr (c_value c)"
    and "bounded_name 256 (c_name c)" "bounded_name 64 (c_unit c)"
    using assms(2) by (auto simp: s_condition_def res_simps)
  then show ?thesis using s_scalar_ok [OF s_closed_wf] assms(1) by (auto simp: cond_ok_def)
qed

lemma s_condition_print: "cond_ok c \<Longrightarrow> s_condition label (cond_json c) = Inr c"
  by (cases c) (simp add: s_condition_def cond_json_def cond_ok_def s_scalar_id)

interpretation cond_record: json_record "s_condition label" cond_json cond_ok
  using s_condition_ok s_condition_print by unfold_locales blast+

definition conds_ok :: "cond list \<Rightarrow> bool" where
  "conds_ok cs = (length cs \<le> MAX_CONDITIONS \<and> list_all cond_ok cs \<and> distinct (map c_name cs))"

lemma s_conditions_ok:
  assumes "wf_val v" and "s_condition_list refuse label v = Inr cs"
  shows "conds_ok cs"
proof -
  obtain items where items: "as_sequence v = Some items" "length items \<le> MAX_CONDITIONS"
    and cs: "map_res_i (\<lambda>i. s_condition (label @ ''['' @ dec_nat i @ '']'')) 0 items = Inr cs"
      "distinct (map c_name cs)"
    using assms(2) by (auto simp: s_condition_list_def split: option.splits if_splits)
  have "list_all cond_ok cs"
    using map_res_i_wf [OF cs(1) wf_sequence [OF assms(1) items(1)]] s_condition_ok by blast
  then show ?thesis using items cs map_res_i_length by (fastforce simp: conds_ok_def)
qed

lemma s_conditions_print:
  "conds_ok cs \<Longrightarrow> s_condition_list refuse label (VList (map cond_json cs)) = Inr cs"
  by (auto simp: s_condition_list_def conds_ok_def list_all_iff s_condition_print
      map_res_i_map [where g = cond_json])

lemma s_conditions_refuses:
  "(\<And>m. refusal (refuse m)) \<Longrightarrow> errs_in refusal (s_condition_list refuse label v)"
  unfolding s_condition_list_def s_condition_def
  by (intro err_intros) (auto simp: s_scalar_def intro!: err_intros split: pyval.split)

section \<open>Sources\<close>

text \<open>A source whose digests identify one series and its condition bindings.\<close>

definition source_bound :: "py_env \<Rightarrow> evidence_source \<Rightarrow> bool" where
  "source_bound env s =
     (source_ok s \<and> s_artifact_sha256 s = s_series_sha256 s \<and>
      canonical_sha256 env (VList (map cond_json (s_conditions s))) = Inr (s_conditions_sha256 s))"

lemma s_digest_Inr [res_simps]: "s_digest d field = Inr t \<longleftrightarrow> dget d field = VStr t \<and> sha256_text t"
  by (simp add: s_digest_def res_simps)

lemma conds_ok_all: "conds_ok cs \<Longrightarrow> list_all cond_ok cs"
  by (simp add: conds_ok_def)

lemma s_source_parts:
  assumes "s_source_record env v = Inr s"
  shows "\<exists>d. s_closed v ''measurement.source''
      [''operation'', ''request_id'', ''artifact_role'', ''artifact_sha256'', ''series_sha256'',
       ''conditions_sha256'', ''conditions'', ''lineage''] [] = Inr d \<and>
    s_condition_list spec_source ''measurement.source.conditions'' (dget d ''conditions'') = Inr (s_conditions s) \<and>
    canonical_sha256 env (VList (map cond_json (s_conditions s))) = Inr (s_conditions_sha256 s) \<and>
    s_artifact_sha256 s = s_series_sha256 s \<and> s_role s = ''measurement.source'' \<and>
    sha256_text (s_artifact_sha256 s) \<and> sha256_text (s_conditions_sha256 s) \<and>
    bounded_name 256 (s_operation s) \<and> canonical_uuid (s_request_id s) \<and> bounded_name 36 (s_request_id s) \<and>
    (case s_lineage s of None \<Rightarrow> True | Some l \<Rightarrow> lineage_ok l)"
  using assms
  by (auto simp: s_source_record_def res_simps dest: norm_lineage_ok split: if_splits)

lemma s_source_ok:
  assumes "wf_val v" and "s_source_record env v = Inr s"
  shows "source_bound env s"
proof -
  obtain d where d: "s_closed v ''measurement.source''
      [''operation'', ''request_id'', ''artifact_role'', ''artifact_sha256'', ''series_sha256'',
       ''conditions_sha256'', ''conditions'', ''lineage''] [] = Inr d"
    "s_condition_list spec_source ''measurement.source.conditions'' (dget d ''conditions'') = Inr (s_conditions s)"
    using s_source_parts [OF assms(2)] by blast
  have "conds_ok (s_conditions s)" by (rule s_conditions_ok [OF s_closed_wf [OF d(1) assms(1)] d(2)])
  then show ?thesis
    using s_source_parts [OF assms(2)] by (auto simp: source_bound_def source_ok_def conds_ok_def)
qed

lemma s_source_print: "source_bound env s \<Longrightarrow> s_source_record env (source_json s) = Inr s"
proof -
  assume ok: "source_bound env s"
  then have role: "role_value spec_codes (VStr ''measurement.source'') l = Inr ''measurement.source''" for l
    by (simp add: res_simps bounded_name_def canonical_role_def ascii_lower_def ord_def)
  have "conds_ok (s_conditions s)" using ok by (auto simp: source_bound_def source_ok_def conds_ok_def)
  then have cs: "s_condition_list r l (VList (map cond_json (s_conditions s))) = Inr (s_conditions s)" for r l
    by (rule s_conditions_print)
  have sha: "digest_value spec_codes (VStr t) l = Inr t" if "sha256_text t" for t l
    using that by (simp add: res_simps)
  have lin: "lineage_json l \<noteq> VNone" for l by (simp add: lineage_json_def obj_def)
  show ?thesis
    using ok
    by (cases "s_lineage s")
      (auto simp: s_source_record_def source_json_def source_bound_def source_ok_def role s_digest_def sha cs lin
        norm_lineage_print intro!: evidence_source.equality)
qed

interpretation source_record: json_record "s_source_record env" source_json "source_bound env"
  using s_source_ok s_source_print by unfold_locales blast+

lemma s_source_refuses:
  assumes "wf_val v"
  shows "errs_in refusal (s_source_record env v)"
  unfolding s_source_record_def s_digest_def
proof (intro err_intros s_conditions_refuses)
  fix d cs
  assume d: "s_closed v ''measurement.source''
      [''operation'', ''request_id'', ''artifact_role'', ''artifact_sha256'', ''series_sha256'',
       ''conditions_sha256'', ''conditions'', ''lineage''] [] = Inr d"
    and cs: "s_condition_list spec_source ''measurement.source.conditions'' (dget d ''conditions'') = Inr cs"
  have "list_all cond_ok cs"
    by (rule conds_ok_all [OF s_conditions_ok [OF s_closed_wf [OF d assms] cs]])
  then show "errs_in refusal (canonical_sha256 env (VList (map cond_json cs)))"
    by (rule errs_in_total [OF canonical_sha256_total [OF conds_json_value]])
qed simp_all

section \<open>Measurements\<close>

text \<open>The shape that prints and parses back, and the one that parsing well-formed values yields.\<close>

definition norm_shape :: "py_env \<Rightarrow> norm_measurement \<Rightarrow> bool" where
  "norm_shape env m =
     (bounded_name 120 (n_id m) \<and> canonical_role (n_id m) \<and> bounded_name 40 (n_kind m) \<and>
      n_status m \<in> {''measured'', ''not_found'', ''unknown''} \<and>
      (case n_request_sha256 m of None \<Rightarrow> n_status m = ''unknown'' | Some t \<Rightarrow> sha256_text t) \<and>
      (n_value m = None \<longleftrightarrow> n_status m \<noteq> ''measured'') \<and> list_all is_finite (case_option [] (\<lambda>x. [x]) (n_value m)) \<and>
      (n_unit m = None \<longrightarrow> n_status m \<noteq> ''measured'') \<and>
      list_all (bounded_name 64) (case_option [] (\<lambda>x. [x]) (n_unit m)) \<and>
      bounded_name 256 (n_signal m) \<and>
      (case n_location m of None \<Rightarrow> True | Some (x, u) \<Rightarrow> is_finite x \<and> bounded_name 64 u) \<and>
      bounded_name 256 (fst (n_algorithm m)) \<and> bounded_name 100 (snd (n_algorithm m)) \<and>
      n_count m \<le> 100000 \<and> source_bound env (n_source m))"

definition norm_ok :: "py_env \<Rightarrow> norm_measurement \<Rightarrow> bool" where
  "norm_ok env m =
     (norm_shape env m \<and> list_all finite64 (case_option [] (\<lambda>x. [x]) (n_value m)) \<and>
      (case n_location m of None \<Rightarrow> True | Some (x, u) \<Rightarrow> finite64 x))"

lemma normalize_measurement_parts:
  assumes "normalize_measurement env v = Inr m"
  shows "\<exists>d. s_closed v ''measurement''
      [''measurement_id'', ''kind'', ''status'', ''request_sha256'', ''value'', ''unit'', ''signal'',
       ''location'', ''algorithm'', ''sample_count'', ''source'', ''extensions''] [] = Inr d \<and>
    bounded_name 120 (n_id m) \<and> canonical_role (n_id m) \<and> bounded_name 40 (n_kind m) \<and>
    n_status m \<in> {''measured'', ''not_found'', ''unknown''} \<and>
    s_request_digest (dget d ''request_sha256'') (n_status m) = Inr (n_request_sha256 m) \<and>
    s_measured d (n_status m) = Inr (n_value m, n_unit m) \<and>
    s_location (dget d ''location'') = Inr (n_location m) \<and>
    bounded_name 256 (fst (n_algorithm m)) \<and> bounded_name 100 (snd (n_algorithm m)) \<and>
    s_sample_count (dget d ''sample_count'') = Inr (n_count m) \<and> bounded_name 256 (n_signal m) \<and>
    s_source_record env (dget d ''source'') = Inr (n_source m)"
  using assms
  by (auto simp: normalize_measurement_def s_Inr split: if_splits prod.splits)

lemma s_measured_ok:
  assumes "s_measured d status = Inr (value, unit)" and "\<And>k. wf_val (dget d k)"
  shows "(value = None \<longleftrightarrow> status \<noteq> ''measured'') \<and> list_all finite64 (case_option [] (\<lambda>x. [x]) value) \<and>
    (unit = None \<longrightarrow> status \<noteq> ''measured'') \<and> list_all (bounded_name 64) (case_option [] (\<lambda>x. [x]) unit)"
  using assms(1) by (auto simp: s_measured_def s_Inr intro: s_finite_finite64 [OF _ assms(2)] split: if_splits)

lemma s_location_ok:
  assumes "s_location v = Inr l" and "wf_val v"
  shows "case l of None \<Rightarrow> True | Some (x, u) \<Rightarrow> finite64 x \<and> bounded_name 64 u"
proof (cases "v = VNone")
  case False
  then obtain d x u where l: "s_closed v ''measurement.location'' [''value'', ''unit''] [] = Inr d"
    "s_finite (dget d ''value'') ''measurement.location.value'' = Inr x" "l = Some (x, u)" "bounded_name 64 u"
    using assms(1) by (auto simp: s_location_def s_Inr)
  then show ?thesis using s_finite_finite64 [OF l(2) s_closed_wf [OF l(1) assms(2)]] by simp
qed (use assms in \<open>simp add: s_location_def\<close>)

lemma s_request_digest_ok:
  "s_request_digest v status = Inr t \<Longrightarrow> status \<in> {''measured'', ''not_found'', ''unknown''} \<Longrightarrow>
   case t of None \<Rightarrow> status = ''unknown'' | Some t \<Rightarrow> sha256_text t"
  by (auto simp: s_request_digest_def split: if_splits)

lemma s_sample_count_ok: "s_sample_count v = Inr n \<Longrightarrow> n \<le> 100000"
  by (auto simp: s_sample_count_def split: pyval.splits if_splits)

lemma normalize_measurement_ok:
  assumes "wf_val v" and "normalize_measurement env v = Inr m"
  shows "norm_ok env m"
proof -
  obtain d where d: "s_closed v ''measurement''
      [''measurement_id'', ''kind'', ''status'', ''request_sha256'', ''value'', ''unit'', ''signal'',
       ''location'', ''algorithm'', ''sample_count'', ''source'', ''extensions''] [] = Inr d"
    and p: "s_request_digest (dget d ''request_sha256'') (n_status m) = Inr (n_request_sha256 m)"
      "s_measured d (n_status m) = Inr (n_value m, n_unit m)" "s_location (dget d ''location'') = Inr (n_location m)"
      "s_sample_count (dget d ''sample_count'') = Inr (n_count m)"
      "s_source_record env (dget d ''source'') = Inr (n_source m)"
    using normalize_measurement_parts [OF assms(2)] by blast
  have wf: "wf_val (dget d k)" for k by (rule s_closed_wf [OF d assms(1)])
  show ?thesis
    using normalize_measurement_parts [OF assms(2)] s_measured_ok [OF p(2) wf] s_location_ok [OF p(3) wf]
      s_request_digest_ok [OF p(1)] s_sample_count_ok [OF p(4)] s_source_ok [OF wf p(5)]
    by (simp add: norm_ok_def norm_shape_def finite64_is_finite split: option.splits prod.splits)
qed

lemma errs_in_case_prod [err_intros]:
  "(\<And>a b. p = (a, b) \<Longrightarrow> errs_in P (f a b)) \<Longrightarrow> errs_in P (case p of (a, b) \<Rightarrow> f a b)"
  by (cases p) simp

lemma s_field_refuses [err_intros]:
  "errs_in refusal (s_request_digest v status)" "errs_in refusal (s_measured d status)"
  "errs_in refusal (s_location v)"
  unfolding s_request_digest_def s_measured_def s_location_def by (intro err_intros; simp)+

lemma s_sample_count_refuses [err_intros]: "errs_in refusal (s_sample_count v)"
  by (simp add: s_sample_count_def split: pyval.split)

lemma normalize_measurement_refuses:
  assumes "wf_val v"
  shows "errs_in refusal (normalize_measurement env v)"
proof -
  have "errs_in refusal (s_source_record env (dget d k))" if "s_closed v l req opt = Inr d" for l req opt d k
    by (rule s_source_refuses [OF s_closed_wf [OF that assms]])
  then show ?thesis
    unfolding normalize_measurement_def by (intro err_intros) simp_all
qed

text \<open>A normalised record is JSON and parses back to itself.\<close>

lemma s_fields_print:
  assumes "norm_shape env m"
  shows "s_request_digest (opt_val VStr (n_request_sha256 m)) (n_status m) = Inr (n_request_sha256 m)"
    and "s_location (opt_val (\<lambda>(v, u). obj [(''value'', VFloat v), (''unit'', VStr u)]) (n_location m))
      = Inr (n_location m)"
    and "s_sample_count (VInt (int (n_count m))) = Inr (n_count m)"
proof -
  have 64: "bounded_name 64 t" if "sha256_text t" for t by (rule sha256_text_bounded [OF that])
  show "s_request_digest (opt_val VStr (n_request_sha256 m)) (n_status m) = Inr (n_request_sha256 m)"
    using assms 64 by (auto simp: norm_shape_def s_request_digest_def split: option.splits)
  show "s_location (opt_val (\<lambda>(v, u). obj [(''value'', VFloat v), (''unit'', VStr u)]) (n_location m))
      = Inr (n_location m)"
    using assms
    unfolding norm_shape_def s_location_def
    by (cases "n_location m") (clarsimp split: prod.splits)+
  show "s_sample_count (VInt (int (n_count m))) = Inr (n_count m)"
    using assms by (simp add: norm_shape_def s_sample_count_def)
qed

lemma normalize_measurement_print:
  assumes "norm_shape env m"
  shows "normalize_measurement env (norm_measurement_json m) = Inr m"
proof -
  have measured: "s_measured d (n_status m) = Inr (n_value m, n_unit m)"
    if "dget d ''value'' = opt_val VFloat (n_value m)" "dget d ''unit'' = opt_val VStr (n_unit m)" for d
    using assms that
    by (cases "n_value m"; cases "n_unit m") (auto simp: norm_shape_def s_measured_def)
  have source: "s_source_record env (source_json (n_source m)) = Inr (n_source m)"
    using assms by (simp add: norm_shape_def s_source_print)
  have status: "bounded_name 20 (n_status m)"
    using assms by (auto simp: norm_shape_def bounded_name_def)
  show ?thesis
    using assms status
    by (auto simp: normalize_measurement_def norm_measurement_json_def measured source s_fields_print [OF assms]
        norm_shape_def intro!: norm_measurement.equality)
qed

interpretation measurement_record: json_record "normalize_measurement env" norm_measurement_json "norm_ok env"
  using normalize_measurement_ok normalize_measurement_print by unfold_locales (blast, auto simp: norm_ok_def)

lemma json_empty [simp]: "json_value (VDict [])"
  by (simp add: json_value.simps(4))

lemma obj_opt_json: "json_value (opt_val f x) \<longleftrightarrow> (case x of None \<Rightarrow> True | Some y \<Rightarrow> json_value (f y))"
  by (cases x) simp_all

lemma source_json_value:
  assumes "source_bound env s"
  shows "json_value (source_json s)"
proof -
  have "json_value (VList (map cond_json (s_conditions s)))"
    using assms by (intro conds_json_value) (simp add: source_bound_def source_ok_def)
  then show ?thesis
    by (auto simp: source_json_def lineage_json_def obj_opt_json simp del: json_value.simps split: option.split)
      (simp_all add: json_value.simps)
qed

lemma norm_measurement_json_value:
  assumes "norm_shape env m"
  shows "json_value (norm_measurement_json m)"
  using assms source_json_value [of env "n_source m"]
  by (auto simp: norm_measurement_json_def norm_shape_def obj_opt_json split: option.splits)

section \<open>Specifications\<close>

definition bound_ok :: "bound \<Rightarrow> bool" where
  "bound_ok b = (finite64 (b_value b) \<and> bounded_name 64 (b_unit b))"

lemma s_bound_ok:
  assumes "wf_val v" and "s_bound label v = Inr b"
  shows "bound_ok b"
proof -
  obtain d where d: "s_closed v label [''value'', ''unit'', ''inclusive''] [] = Inr d"
    using assms(2) by (auto simp: s_bound_def)
  then have "s_finite (dget d ''value'') (label @ ''.value'') = Inr (b_value b)" "bounded_name 64 (b_unit b)"
    using assms(2) by (cases "dget d ''inclusive''"; auto simp: s_bound_def s_Inr)+
  then show ?thesis using s_finite_finite64 [OF _ s_closed_wf [OF d assms(1)]] by (simp add: bound_ok_def)
qed

lemma s_bound_print: "bound_ok b \<Longrightarrow> s_bound label (bound_json b) = Inr b"
  by (cases b) (simp add: s_bound_def bound_json_def bound_fields_def bound_ok_def finite64_is_finite)

interpretation bound_record: json_record "s_bound label" bound_json bound_ok
  using s_bound_ok s_bound_print by unfold_locales blast+

definition spec_ok :: "spec_record \<Rightarrow> bool" where
  "spec_ok sp =
     (bounded_name 120 (sp_id sp) \<and> bounded_name 120 (sp_measurement sp) \<and> canonical_role (sp_id sp) \<and>
      canonical_role (sp_measurement sp) \<and> sp_limits sp \<noteq> [] \<and> distinct (map fst (sp_limits sp)) \<and>
      set (map fst (sp_limits sp)) \<subseteq> {''lower'', ''upper''} \<and> list_all (bound_ok \<circ> snd) (sp_limits sp) \<and>
      check_interval (sp_limits sp) = Inr () \<and> conds_ok (sp_conditions sp))"

lemma s_limits_Inr:
  "s_limits d = Inr ls \<Longrightarrow>
   map fst d = map (VStr \<circ> fst) ls \<and>
   list_all2 (\<lambda>kv l. s_bound (''specification.limits.'' @ fst l) (snd kv) = Inr (snd l)) d ls"
  unfolding s_limits_def
  by (induction d arbitrary: ls) (auto split: pyval.splits prod.splits)

lemma normalize_specification_parts:
  assumes "normalize_specification v = Inr sp"
  shows "\<exists>d raw. s_closed v ''specification''
      [''specification_id'', ''measurement_id'', ''limits'', ''conditions'', ''extensions''] [] = Inr d \<and>
    s_closed (dget d ''limits'') ''specification.limits'' [] [''lower'', ''upper''] = Inr raw \<and> raw \<noteq> [] \<and>
    s_limits raw = Inr (sp_limits sp) \<and> check_interval (sp_limits sp) = Inr () \<and>
    s_condition_list spec_request ''specification.conditions'' (dget d ''conditions'') = Inr (sp_conditions sp) \<and>
    bounded_name 120 (sp_id sp) \<and> bounded_name 120 (sp_measurement sp) \<and> canonical_role (sp_id sp) \<and>
    canonical_role (sp_measurement sp)"
  using assms by (auto simp: normalize_specification_def s_Inr split: if_splits)

lemma closed_keys:
  "s_closed v label req opt = Inr d \<Longrightarrow> VStr k \<in> fst ` set d \<Longrightarrow> k \<in> set req \<union> set opt"
  using closed_object_Inr(2,4) str_keys_dhas unfolding s_closed_def dhas_def by blast

lemma normalize_specification_ok:
  assumes "wf_val v" and "normalize_specification v = Inr sp"
  shows "spec_ok sp"
proof -
  obtain d raw where p: "s_closed v ''specification''
      [''specification_id'', ''measurement_id'', ''limits'', ''conditions'', ''extensions''] [] = Inr d"
    "s_closed (dget d ''limits'') ''specification.limits'' [] [''lower'', ''upper''] = Inr raw" "raw \<noteq> []"
    "s_limits raw = Inr (sp_limits sp)"
    "s_condition_list spec_request ''specification.conditions'' (dget d ''conditions'') = Inr (sp_conditions sp)"
    using normalize_specification_parts [OF assms(2)] by blast
  have wf: "wf_val (dget d k)" for k by (rule s_closed_wf [OF p(1) assms(1)])
  have raw: "dget d ''limits'' = VDict raw" using s_closed_dict [OF p(2)] .
  then have wfr: "distinct (map fst raw)" "list_all (\<lambda>kv. wf_val (snd kv)) raw"
    using wf [of "''limits''"] by (auto simp: wf_val.simps(4) list_all_iff)
  note l = s_limits_Inr [OF p(4)]
  have "distinct (map (VStr \<circ> fst) (sp_limits sp))" using l wfr(1) by metis
  then have "distinct (map fst (sp_limits sp))" by (simp add: distinct_map comp_inj_on_iff inj_on_def)
  moreover have "set (map fst (sp_limits sp)) \<subseteq> {''lower'', ''upper''}"
  proof
    fix k assume "k \<in> set (map fst (sp_limits sp))"
    then have "VStr k \<in> set (map (VStr \<circ> fst) (sp_limits sp))" by auto
    then have "VStr k \<in> set (map fst raw)" using l by metis
    then show "k \<in> {''lower'', ''upper''}" using closed_keys [OF p(2), of k] by auto
  qed
  moreover have "list_all (bound_ok \<circ> snd) (sp_limits sp)"
    using l wfr(2) s_bound_ok by (fastforce simp: list_all2_conv_all_nth list_all_length)
  moreover have "sp_limits sp \<noteq> []" using l p(3) by auto
  ultimately show ?thesis
    using normalize_specification_parts [OF assms(2)] s_conditions_ok [OF wf p(5)]
    unfolding spec_ok_def by blast
qed

lemma normalize_specification_refuses: "errs_in refusal (normalize_specification v)"
proof -
  have limits: "errs_in refusal (s_limits raw)"
    if "s_closed x label req opt = Inr raw" for x label req opt raw
    unfolding s_limits_def
  proof (intro err_intros)
    fix kv k r assume "kv \<in> set raw" "kv = (k, r)"
    moreover have "list_all (is_str \<circ> fst) raw"
      using that unfolding s_closed_def by (rule closed_object_Inr(2))
    ultimately have "is_str k" by (auto simp: list_all_iff)
    then obtain s where "k = VStr s" by (cases k) auto
    then show "errs_in refusal (case k of VStr name \<Rightarrow>
        pbind (s_bound (''specification.limits.'' @ name) r) (\<lambda>b. Inr (name, b))
       | _ \<Rightarrow> Inl (TypeError ''limit name''))"
      by (auto simp: s_bound_def intro!: err_intros split: pyval.split)
  qed
  have check: "errs_in refusal (check_interval limits)" for limits
    by (simp add: check_interval_def split: option.split)
  show ?thesis
    unfolding normalize_specification_def
    by (intro err_intros s_conditions_refuses limits check) simp_all
qed

lemma s_limits_print:
  "list_all (bound_ok \<circ> snd) ls \<Longrightarrow>
   s_limits (map (\<lambda>(k, v). (VStr k, v)) (map (\<lambda>(k, b). (k, bound_json b)) ls)) = Inr ls"
  unfolding s_limits_def by (induction ls) (auto simp: s_bound_print)

lemma normalize_specification_print:
  assumes "spec_ok sp"
  shows "normalize_specification (specification_json sp) = Inr sp"
proof -
  have closed: "s_closed (obj (map (\<lambda>(k, b). (k, bound_json b)) (sp_limits sp))) ''specification.limits'' []
      [''lower'', ''upper''] = Inr (map (\<lambda>(k, v). (VStr k, v)) (map (\<lambda>(k, b). (k, bound_json b)) (sp_limits sp)))"
    using assms by (intro s_closed_obj) (auto simp: spec_ok_def)
  have limits: "s_limits (map (\<lambda>(k, v). (VStr k, v)) (map (\<lambda>(k, b). (k, bound_json b)) (sp_limits sp)))
      = Inr (sp_limits sp)"
    using assms by (intro s_limits_print) (simp add: spec_ok_def)
  show ?thesis
    unfolding normalize_specification_def specification_json_def
    using assms
    by (auto simp: closed limits [simplified] limits spec_ok_def s_conditions_print simp del: map_map
        intro!: spec_record.equality)
qed

interpretation specification_record: json_record normalize_specification specification_json spec_ok
  using normalize_specification_ok normalize_specification_print by unfold_locales blast+

lemma specification_json_value:
  assumes "spec_ok sp"
  shows "json_value (specification_json sp)"
proof -
  have "json_value (VList (map cond_json (sp_conditions sp)))"
    using assms by (intro conds_json_value) (simp add: spec_ok_def conds_ok_def)
  moreover have "list_all (json_value \<circ> snd) (map (\<lambda>(k, b). (k, bound_json b)) (sp_limits sp))"
    using assms
    by (auto simp: spec_ok_def list_all_iff bound_json_def bound_fields_def bound_ok_def finite64_is_finite)
  ultimately show ?thesis by (simp add: specification_json_def)
qed

end
