(* ===== verification/SpecEvaluate.thy ===== *)
theory SpecEvaluate
  imports SpecRecords
begin

text \<open>
  The operation \<open>specification.evaluate\<close> (\<open>operations/specification_evaluate.py\<close>): one normalised
  measurement is compared with the declared bounds, after its unit and every required operating
  condition have been matched exactly.
\<close>

section \<open>Evaluations\<close>

record evaluation =
  ev_specification_id :: "string option"
  ev_measurement_id :: "string option"
  ev_status :: string
  ev_measured :: "(pyfloat option \<times> string option) option"
  ev_limits :: "(string \<times> bound) list"
  ev_conditions :: string
  ev_required :: nat
  ev_matched :: nat
  ev_margin :: "(pyfloat \<times> string option \<times> string) option"
  ev_source :: "(string \<times> evidence_source \<times> string \<times> spec_record) option"

definition evaluation_json :: "evaluation \<Rightarrow> pyval" where
  "evaluation_json ev =
     obj [(''specification_id'', opt_val VStr (ev_specification_id ev)),
          (''measurement_id'', opt_val VStr (ev_measurement_id ev)), (''status'', VStr (ev_status ev)),
          (''measured'', opt_val (\<lambda>(v, u). obj [(''value'', opt_val VFloat v), (''unit'', opt_val VStr u)])
             (ev_measured ev)),
          (''limits'', VList (map (\<lambda>(k, b). obj ((''kind'', VStr k) # bound_fields b)) (ev_limits ev))),
          (''conditions'', obj [(''status'', VStr (ev_conditions ev)),
             (''required_count'', VInt (int (ev_required ev))),
             (''matched_count'', VInt (int (ev_matched ev)))]),
          (''margin'', opt_val (\<lambda>(v, u, k). obj [(''value'', VFloat v), (''unit'', opt_val VStr u),
             (''relative_to'', VStr k)]) (ev_margin ev)),
          (''algorithm'', obj [(''id'', VStr ''openada.algorithm/specification.closed-interval/v1''),
             (''version'', VStr SPEC_VERSION)]),
          (''source'', opt_val (\<lambda>(mh, src, sh, sp). obj [(''measurement_sha256'', VStr mh),
             (''measurement_source'', source_json src), (''specification_sha256'', VStr sh),
             (''specification'', specification_json sp)]) (ev_source ev)),
          (''extensions'', VDict [])]"

definition evaluation_template ::
  "py_env \<Rightarrow> norm_measurement option \<Rightarrow> spec_record option \<Rightarrow> evaluation pyres" where
  "evaluation_template env measurement spec =
     pbind (case (measurement, spec) of
        (Some m, Some sp) \<Rightarrow>
          pbind (canonical_sha256 env (norm_measurement_json m)) (\<lambda>mh.
          pbind (canonical_sha256 env (specification_json sp)) (\<lambda>sh.
          Inr (Some (mh, n_source m, sh, sp))))
      | _ \<Rightarrow> Inr None) (\<lambda>source.
     Inr \<lparr>ev_specification_id = map_option sp_id spec, ev_measurement_id = map_option n_id measurement,
          ev_status = ''unknown'',
          ev_measured = (case measurement of None \<Rightarrow> None
            | Some m \<Rightarrow> (if n_status m = ''measured'' then Some (n_value m, n_unit m) else None)),
          ev_limits = (case spec of None \<Rightarrow> [] | Some sp \<Rightarrow> sp_limits sp),
          ev_conditions = ''not-established'', ev_required = 0, ev_matched = 0, ev_margin = None,
          ev_source = source\<rparr>)"

definition evaluate_payload ::
  "py_env \<Rightarrow> string \<Rightarrow> evaluation \<Rightarrow> string \<Rightarrow> string \<Rightarrow> string \<Rightarrow> diag list \<Rightarrow> envelope" where
  "evaluate_payload env correlation ev status summary execution_status diagnostics =
     result_envelope env ''specification.evaluate'' None (Inr (static_execution execution_status)) status summary
       [] [] diagnostics
       (Some (obj [(''protocol'',
           obj [(''request_id'', VStr correlation),
                (''operation_profile'', VStr ''openada.operation/specification.evaluate/v1alpha1''),
                (''assertion_profile'', VStr ''openada.assertion/specification.satisfied/v1alpha1''),
                (''implementation_id'', VStr ''org.openada.kernel.typed-evidence''),
                (''implementation_version'', VStr SPEC_VERSION)]),
         (''evaluation'', evaluation_json ev), (''extensions'', VDict [])]))"

section \<open>Conditions\<close>

text \<open>
  The loop over the required conditions, with the number matched so far: it stops at the first one
  that is absent, in another unit, or bound to another value (of the same type).
\<close>

definition actual_condition :: "cond list \<Rightarrow> string \<Rightarrow> cond option" where
  "actual_condition actual name = map_of (rev (map (\<lambda>c. (c_name c, c)) actual)) name"

fun match_conditions :: "cond list \<Rightarrow> cond list \<Rightarrow> nat \<Rightarrow> (nat \<times> string \<times> diag) + nat" where
  "match_conditions actual [] matched = Inr matched"
| "match_conditions actual (c # cs) matched =
     (case actual_condition actual (c_name c) of
        None \<Rightarrow> Inl (matched, ''A required specification condition is absent from the measurement evidence.'',
          diagnostic ''error'' ''specification.condition.unproven''
            (''Measurement evidence does not bind condition '' @ repr_text (c_name c) @ ''.'') None)
      | Some a \<Rightarrow>
          (if c_unit a \<noteq> c_unit c
           then Inl (matched, ''A required specification condition has incompatible units.'',
             diagnostic ''error'' ''specification.unit.mismatch''
               (''Condition '' @ repr_text (c_name c) @ '' uses '' @ repr_text (c_unit a)
                @ '' in the measurement and '' @ repr_text (c_unit c) @ '' in the specification.'') None)
           else if type_name (c_value a) \<noteq> type_name (c_value c) \<or> c_value a \<noteq> c_value c
           then Inl (matched, ''The measurement was not produced at a required specification condition.'',
             diagnostic ''error'' ''specification.condition.unproven''
               (''Condition '' @ repr_text (c_name c) @ '' does not exactly match the measurement evidence.'') None)
           else match_conditions actual cs (Suc matched)))"

section \<open>Bounds and margins\<close>

definition violated :: "string \<Rightarrow> pyfloat \<Rightarrow> bound \<Rightarrow> bool" where
  "violated kind v b =
     (if kind = ''lower''
      then flt v (b_value b) \<or> feq v (b_value b) \<and> \<not> b_inclusive b
      else flt (b_value b) v \<or> feq v (b_value b) \<and> \<not> b_inclusive b)"

definition bound_margin :: "string \<Rightarrow> pyfloat \<Rightarrow> bound \<Rightarrow> pyfloat" where
  "bound_margin kind v b = (if kind = ''lower'' then fsub v (b_value b) else fsub (b_value b) v)"

text \<open>One side: its margin with its name, and its name again when the value violates it.\<close>

definition side :: "string \<Rightarrow> pyfloat \<Rightarrow> (string \<times> bound) list \<Rightarrow> ((pyfloat \<times> string) list \<times> string list) pyres" where
  "side kind v limits =
     (case map_of limits kind of
        None \<Rightarrow> Inr ([], [])
      | Some b \<Rightarrow>
          (if \<not> is_finite (bound_margin kind v b)
           then Inl (InvalidRequest ''specification.value.non_finite''
             (''The '' @ kind @ ''-bound margin is not representable as a finite JSON number.''))
           else Inr ([(bound_margin kind v b, kind)], if violated kind v b then [kind] else [])))"

text \<open>\<open>min(margins, key=...)\<close>: the first of the least margins.\<close>

definition limiting :: "(pyfloat \<times> string) list \<Rightarrow> (pyfloat \<times> string) pyres" where
  "limiting margins =
     (case margins of
        [] \<Rightarrow> Inl (ValueError ''min() iterable argument is empty'')
      | x # xs \<Rightarrow> Inr (fold (\<lambda>y best. if flt (fst y) (fst best) then y else best) xs x))"

section \<open>The operation\<close>

definition decide ::
  "py_env \<Rightarrow> string \<Rightarrow> norm_measurement \<Rightarrow> spec_record \<Rightarrow> evaluation \<Rightarrow> nat \<Rightarrow> envelope pyres" where
  "decide env correlation m sp ev matched =
     (case n_value m of
        None \<Rightarrow> Inl (AssertionError [])
      | Some v \<Rightarrow>
          pbind (side ''lower'' v (sp_limits sp)) (\<lambda>(lower_margins, lower_violations).
          pbind (side ''upper'' v (sp_limits sp)) (\<lambda>(upper_margins, upper_violations).
          pbind (limiting (lower_margins @ upper_margins)) (\<lambda>(margin, relative).
          let violations = lower_violations @ upper_violations;
              decided = ev\<lparr>ev_conditions := ''matched'', ev_required := length (sp_conditions sp),
                ev_matched := matched, ev_margin := Some (margin, n_unit m, relative)\<rparr>
          in if violations \<noteq> []
             then Inr (evaluate_payload env correlation (decided\<lparr>ev_status := ''fail''\<rparr>) ''fail''
               (''Specification '' @ repr_text (sp_id sp) @ '' is violated.'') ''completed''
               [diagnostic ''error'' ''specification.limit.violated''
                 (''The measured value violates the '' @ join '', '' violations @ '' limit.'') None])
             else Inr (evaluate_payload env correlation (decided\<lparr>ev_status := ''pass''\<rparr>) ''pass''
               (''Specification '' @ repr_text (sp_id sp) @ '' is satisfied.'') ''completed'' [])))))"

definition repr_unit :: "string option \<Rightarrow> string" where
  "repr_unit u = (case u of None \<Rightarrow> ''None'' | Some t \<Rightarrow> repr_text t)"

definition evaluate_normalized ::
  "py_env \<Rightarrow> string \<Rightarrow> norm_measurement \<Rightarrow> spec_record \<Rightarrow> envelope pyres" where
  "evaluate_normalized env correlation m sp =
     (if sp_measurement sp \<noteq> n_id m
      then Inl (InvalidRequest ''specification.measurement.mismatch''
        ''The specification measurement_id does not match the supplied measurement.'')
      else
      pbind (evaluation_template env (Some m) (Some sp)) (\<lambda>ev0.
      let ev = ev0\<lparr>ev_required := length (sp_conditions sp)\<rparr>
      in if n_status m \<noteq> ''measured''
         then Inr (evaluate_payload env correlation ev ''unknown''
           ''The specification cannot be evaluated because its measurement has no value.'' ''completed''
           [diagnostic ''error'' ''specification.measurement.unknown''
             (''Measurement status '' @ repr_text (n_status m) @ '' carries no finite value.'')
             (Some ''Produce a successful typed measurement before evaluating this specification.'')])
         else
         (case find (\<lambda>(name, b). Some (b_unit b) \<noteq> n_unit m) (sp_limits sp) of
            Some (name, b) \<Rightarrow>
              Inr (evaluate_payload env correlation ev ''unknown''
                ''The specification units do not match the measured value.'' ''completed''
                [diagnostic ''error'' ''specification.unit.mismatch''
                  (''The '' @ name @ '' limit uses '' @ repr_text (b_unit b)
                   @ '', while the measurement uses '' @ repr_unit (n_unit m) @ ''.'')
                  (Some ''Supply limits in the exact measurement unit; v1alpha1 performs no implicit conversion.'')])
          | None \<Rightarrow>
              (case match_conditions (s_conditions (n_source m)) (sp_conditions sp) 0 of
                 Inl (matched, summary, d) \<Rightarrow>
                   Inr (evaluate_payload env correlation (ev\<lparr>ev_matched := matched\<rparr>) ''unknown'' summary
                     ''completed'' [d])
               | Inr matched \<Rightarrow> decide env correlation m sp ev matched))))"

text \<open>A refusal quotes what had been normalised before it.\<close>

definition refuse_evaluation ::
  "py_env \<Rightarrow> string \<Rightarrow> norm_measurement option \<Rightarrow> spec_record option \<Rightarrow> pyexc \<Rightarrow> envelope pyres" where
  "refuse_evaluation env correlation measurement spec e =
     (case e of
        InvalidRequest code msg \<Rightarrow>
          pbind (evaluation_template env measurement spec) (\<lambda>ev.
          Inr (evaluate_payload env correlation ev ''unknown''
            ''The specification.evaluate request could not be evaluated safely.'' ''invalid_request''
            [diagnostic ''error'' code msg None]))
      | _ \<Rightarrow> Inl e)"

definition evaluate_specification :: "py_env \<Rightarrow> pyval \<Rightarrow> pyval \<Rightarrow> pyval \<Rightarrow> envelope pyres" where
  "evaluate_specification env measurement spec request_id =
     (case s_correlation_id env request_id of
        Inl (InvalidRequest code msg) \<Rightarrow>
          pbind (evaluation_template env None None) (\<lambda>ev.
          Inr (evaluate_payload env (new_uuid env) ev ''unknown''
            ''The specification.evaluate correlation identity is invalid.'' ''invalid_request''
            [diagnostic ''error'' code msg None]))
      | Inl e \<Rightarrow> Inl e
      | Inr correlation \<Rightarrow>
          (case normalize_measurement env measurement of
             Inl e \<Rightarrow> refuse_evaluation env correlation None None e
           | Inr m \<Rightarrow>
               (case normalize_specification spec of
                  Inl e \<Rightarrow> refuse_evaluation env correlation (Some m) None e
                | Inr sp \<Rightarrow>
                    (case evaluate_normalized env correlation m sp of
                       Inl e \<Rightarrow> refuse_evaluation env correlation (Some m) (Some sp) e
                     | Inr r \<Rightarrow> Inr r))))"

end
