(* ===== verification/SpecVerdict.thy ===== *)
theory SpecVerdict
  imports SpecEvaluate
begin

text \<open>
  What \<open>specification.evaluate\<close> decides: totality, the meaning of a pass and a fail over the rational
  numbers the floats denote, the sign of the reported margin and the intervals that are accepted.
\<close>

section \<open>The operation never raises\<close>

lemma evaluation_template_total:
  assumes "\<And>m. measurement = Some m \<Longrightarrow> norm_ok env m" and "\<And>sp. spec = Some sp \<Longrightarrow> spec_ok sp"
  shows "\<exists>ev. evaluation_template env measurement spec = Inr ev"
proof (cases measurement)
  case (Some m)
  note ms = Some
  show ?thesis
  proof (cases spec)
    case (Some sp)
    then obtain h h' where "canonical_sha256 env (norm_measurement_json m) = Inr h"
      "canonical_sha256 env (specification_json sp) = Inr h'"
      using assms ms canonical_sha256_total norm_measurement_json_value specification_json_value norm_ok_def by metis
    then show ?thesis using ms Some by (simp add: evaluation_template_def)
  qed (simp add: evaluation_template_def split: option.split)
qed (simp add: evaluation_template_def split: option.split)

text \<open>Every side that is declared yields one margin.\<close>

lemma side_Inr:
  "side kind v limits = Inr (ms, vs) \<longleftrightarrow>
   (case map_of limits kind of
      None \<Rightarrow> ms = [] \<and> vs = []
    | Some b \<Rightarrow> is_finite (bound_margin kind v b) \<and> ms = [(bound_margin kind v b, kind)] \<and>
        vs = (if violated kind v b then [kind] else []))"
  by (auto simp: side_def split: option.split)

lemma side_refuses: "errs_in refusal (side kind v limits)"
  by (simp add: side_def split: option.split)

lemma declared_side:
  assumes "spec_ok sp"
  shows "map_of (sp_limits sp) ''lower'' \<noteq> None \<or> map_of (sp_limits sp) ''upper'' \<noteq> None"
proof -
  obtain k b rest where l: "sp_limits sp = (k, b) # rest"
    using assms by (cases "sp_limits sp") (auto simp: spec_ok_def)
  then have "k \<in> {''lower'', ''upper''}" using assms by (auto simp: spec_ok_def)
  then show ?thesis using l by auto
qed

lemma decide_refuses:
  assumes "norm_ok env m" and "spec_ok sp" and "n_status m = ''measured''"
  shows "errs_in refusal (decide env correlation m sp ev matched)"
proof -
  obtain v where v: "n_value m = Some v" using assms(1,3) by (auto simp: norm_ok_def norm_shape_def)
  have "errs_in refusal (limiting (lm @ um))"
    if "side ''lower'' v (sp_limits sp) = Inr (lm, lv)" "side ''upper'' v (sp_limits sp) = Inr (um, uv)" for lm lv um uv
  proof -
    have "lm @ um \<noteq> []" using that declared_side [OF assms(2)] by (auto simp: side_Inr split: option.splits)
    then show ?thesis by (auto simp: limiting_def split: list.split)
  qed
  then show ?thesis
    unfolding decide_def v option.case Let_def by (intro err_intros side_refuses) auto
qed

lemma evaluate_normalized_refuses:
  assumes "norm_ok env m" and "spec_ok sp"
  shows "errs_in refusal (evaluate_normalized env correlation m sp)"
proof -
  have "errs_in refusal (evaluation_template env (Some m) (Some sp))"
    by (rule errs_in_total) (use assms in \<open>auto intro: evaluation_template_total\<close>)
  then show ?thesis
    unfolding evaluate_normalized_def Let_def
    by (intro err_intros) (auto intro: decide_refuses [OF assms] split: option.split sum.split)
qed

lemma refuse_evaluation_total:
  assumes "refusal e" and "\<And>m. measurement = Some m \<Longrightarrow> norm_ok env m"
    and "\<And>sp. spec = Some sp \<Longrightarrow> spec_ok sp"
  shows "\<exists>r. refuse_evaluation env correlation measurement spec e = Inr r"
proof -
  obtain ev where "evaluation_template env measurement spec = Inr ev"
    using evaluation_template_total [OF assms(2,3)] by blast
  then show ?thesis using assms(1) by (cases e) (simp_all add: refuse_evaluation_def refusal_def)
qed

text \<open>the operation is total on well-formed values: every request, however malformed, gets a result
  envelope; no assertion, empty minimum, type or serialisation error escapes.\<close>

theorem evaluate_specification_total:
  assumes "wf_val measurement" and "wf_val spec"
  shows "\<exists>r. evaluate_specification env measurement spec request_id = Inr r"
proof (cases "s_correlation_id env request_id")
  case (Inl e)
  moreover have "refusal e" using Inl s_refuses(7) [of env request_id] by simp
  moreover have "\<exists>ev. evaluation_template env None None = Inr ev" by (rule evaluation_template_total) simp_all
  ultimately show ?thesis by (cases e) (auto simp: evaluate_specification_def refusal_def)
next
  case (Inr correlation)
  note c = Inr
  show ?thesis
  proof (cases "normalize_measurement env measurement")
    case (Inl e)
    then have "refusal e" using normalize_measurement_refuses [OF assms(1), of env] by simp
    then show ?thesis using refuse_evaluation_total [of e None env None] c Inl
      by (simp add: evaluate_specification_def)
  next
    case (Inr m)
    note m = Inr
    have mok: "norm_ok env m" by (rule normalize_measurement_ok [OF assms(1) m])
    show ?thesis
    proof (cases "normalize_specification spec")
      case (Inl e)
      then have "refusal e" using normalize_specification_refuses [of spec] by simp
      then show ?thesis using refuse_evaluation_total [of e "Some m" env None] c m Inl mok
        by (simp add: evaluate_specification_def)
    next
      case (Inr sp)
      note sp = Inr
      have spok: "spec_ok sp" by (rule normalize_specification_ok [OF assms(2) sp])
      show ?thesis
      proof (cases "evaluate_normalized env correlation m sp")
        case (Inl e)
        then have "refusal e" using evaluate_normalized_refuses [OF mok spok, of correlation] by simp
        then show ?thesis using refuse_evaluation_total [of e "Some m" env "Some sp"] c m sp Inl mok spok
          by (simp add: evaluate_specification_def)
      qed (simp add: evaluate_specification_def c m sp)
    qed
  qed
qed

theorem evaluate_specification_total_witness:
  "\<exists>r. evaluate_specification example_env (VList [VNone]) (VFloat PNaN) (VBool True) = Inr r"
  by (rule evaluate_specification_total) (simp_all add: f64_def)

section \<open>The abstract specification: an interval of rationals\<close>

definition admits :: "string \<Rightarrow> bound \<Rightarrow> rat \<Rightarrow> bool" where
  "admits kind b q =
     (if kind = ''lower'' then (if b_inclusive b then fval (b_value b) \<le> q else fval (b_value b) < q)
      else (if b_inclusive b then q \<le> fval (b_value b) else q < fval (b_value b)))"

definition satisfies :: "(string \<times> bound) list \<Rightarrow> rat \<Rightarrow> bool" where
  "satisfies limits q = list_all (\<lambda>(kind, b). admits kind b q) limits"

lemma violated_admits: "finite64 v \<Longrightarrow> bound_ok b \<Longrightarrow> violated kind v b \<longleftrightarrow> \<not> admits kind b (fval v)"
  by (cases v; cases "b_value b") (auto simp: violated_def admits_def bound_ok_def)

lemma satisfies_sides:
  assumes "spec_ok sp"
  shows "satisfies (sp_limits sp) q \<longleftrightarrow>
    (\<forall>b. map_of (sp_limits sp) ''lower'' = Some b \<longrightarrow> admits ''lower'' b q) \<and>
    (\<forall>b. map_of (sp_limits sp) ''upper'' = Some b \<longrightarrow> admits ''upper'' b q)"
proof -
  have d: "distinct (map fst (sp_limits sp))" and k: "set (map fst (sp_limits sp)) \<subseteq> {''lower'', ''upper''}"
    using assms by (auto simp: spec_ok_def)
  have "satisfies (sp_limits sp) q \<longleftrightarrow> (\<forall>k b. map_of (sp_limits sp) k = Some b \<longrightarrow> admits k b q)"
    using map_of_eq_Some_iff [OF d] by (auto simp: satisfies_def list_all_iff)
  moreover have "map_of (sp_limits sp) k = Some b \<Longrightarrow> k \<in> {''lower'', ''upper''}" for k b
    using k map_of_SomeD [of "sp_limits sp" k b] by force
  ultimately show ?thesis by blast
qed

text \<open>normalisation accepts only specifications whose limits some value satisfies: the declared
  bounds never form an empty interval of numbers.\<close>

theorem accepted_interval_nonempty:
  assumes "wf_val v" and "normalize_specification v = Inr sp"
  shows "\<exists>q. satisfies (sp_limits sp) q"
proof -
  have ok: "spec_ok sp" by (rule normalize_specification_ok [OF assms])
  have fin: "bound_ok b" if "map_of (sp_limits sp) k = Some b" for k b
    using ok map_of_SomeD [OF that] by (auto simp: spec_ok_def list_all_iff)
  show ?thesis
  proof (cases "map_of (sp_limits sp) ''lower''")
    case None
    obtain b where "map_of (sp_limits sp) ''upper'' = Some b" using declared_side [OF ok] None by auto
    then have "satisfies (sp_limits sp) (fval (b_value b) - 1)"
      using None by (simp add: satisfies_sides [OF ok] admits_def)
    then show ?thesis ..
  next
    case (Some lo)
    note l = Some
    show ?thesis
    proof (cases "map_of (sp_limits sp) ''upper''")
      case None
      then have "satisfies (sp_limits sp) (fval (b_value lo) + 1)"
        using l by (simp add: satisfies_sides [OF ok] admits_def)
      then show ?thesis ..
    next
      case (Some up)
      obtain a b where ab: "b_value lo = PFin a" "b_value up = PFin b"
        using fin [OF l] fin [OF Some] finite64_PFin unfolding bound_ok_def by metis
      have c: "a < b \<or> a = b \<and> b_inclusive lo \<and> b_inclusive up"
        using ok l Some ab by (auto simp: spec_ok_def check_interval_def split: if_splits)
      have "satisfies (sp_limits sp) ((a + b) / 2)"
        using c l Some ab by (auto simp: satisfies_sides [OF ok] admits_def field_simps)
      then show ?thesis ..
    qed
  qed
qed

section \<open>Verdicts\<close>

lemma match_conditions_Inr:
  "match_conditions actual required n = Inr k \<Longrightarrow> set required \<subseteq> set actual \<and> k = n + length required"
proof (induction required arbitrary: n)
  case (Cons c cs)
  obtain a where a: "actual_condition actual (c_name c) = Some a" "c_unit a = c_unit c" "c_value a = c_value c"
    "match_conditions actual cs (Suc n) = Inr k"
    using Cons.prems by (auto split: option.splits if_splits)
  have "(c_name c, a) \<in> set (map (\<lambda>c. (c_name c, c)) actual)"
    using map_of_SomeD [OF a(1)[unfolded actual_condition_def]] by simp
  then have "a \<in> set actual" "c_name a = c_name c" by auto
  moreover have "a = c" using calculation(2) a(2,3) by (intro cond.equality) auto
  ultimately show ?case using Cons.IH [OF a(4)] by simp
qed simp

lemma evaluate_payload_status [simp]: "e_status (evaluate_payload env c ev st su ex ds) = st"
  by (simp add: evaluate_payload_def)

lemma refuse_evaluation_status: "refuse_evaluation env c m sp e = Inr r \<Longrightarrow> e_status r = ''unknown''"
  by (cases e) (auto simp: refuse_evaluation_def)

text \<open>A decided verdict comes from \<open>decide\<close> on the normalised records.\<close>

lemma evaluate_decided:
  assumes "evaluate_specification env measurement spec request_id = Inr r" and "e_status r \<noteq> ''unknown''"
  shows "\<exists>correlation m sp ev matched.
    normalize_measurement env measurement = Inr m \<and> normalize_specification spec = Inr sp \<and>
    sp_measurement sp = n_id m \<and> n_status m = ''measured'' \<and>
    (\<forall>(k, b) \<in> set (sp_limits sp). Some (b_unit b) = n_unit m) \<and>
    set (sp_conditions sp) \<subseteq> set (s_conditions (n_source m)) \<and> matched = length (sp_conditions sp) \<and>
    decide env correlation m sp ev matched = Inr r"
proof -
  obtain correlation where "s_correlation_id env request_id = Inr correlation"
    using assms by (auto simp: evaluate_specification_def split: sum.splits pyexc.splits)
  then obtain m sp where n: "normalize_measurement env measurement = Inr m" "normalize_specification spec = Inr sp"
    and e: "evaluate_normalized env correlation m sp = Inr r"
    using assms refuse_evaluation_status by (fastforce simp: evaluate_specification_def split: sum.splits)
  have id: "sp_measurement sp = n_id m"
    using e by (cases "sp_measurement sp = n_id m") (simp_all add: evaluate_normalized_def)
  obtain ev0 where ev0: "evaluation_template env (Some m) (Some sp) = Inr ev0"
    using e id by (cases "evaluation_template env (Some m) (Some sp)") (simp_all add: evaluate_normalized_def)
  let ?ev = "ev0\<lparr>ev_required := length (sp_conditions sp)\<rparr>"
  have status: "n_status m = ''measured''"
    using e assms(2) by (cases "n_status m = ''measured''") (auto simp: evaluate_normalized_def id ev0 Let_def)
  have units: "find (\<lambda>(name, b). Some (b_unit b) \<noteq> n_unit m) (sp_limits sp) = None"
    using e assms(2)
    by (cases "find (\<lambda>(name, b). Some (b_unit b) \<noteq> n_unit m) (sp_limits sp)")
      (auto simp: evaluate_normalized_def id ev0 Let_def status)
  obtain matched where k: "match_conditions (s_conditions (n_source m)) (sp_conditions sp) 0 = Inr matched"
    and d: "decide env correlation m sp ?ev matched = Inr r"
    using e assms(2) units
    by (cases "match_conditions (s_conditions (n_source m)) (sp_conditions sp) 0")
      (auto simp: evaluate_normalized_def id ev0 Let_def status)
  show ?thesis
    using n id status units match_conditions_Inr [OF k] d
    by (auto simp: find_None_iff intro!: exI)
qed

lemma decide_Inr:
  assumes "decide env correlation m sp ev matched = Inr r"
  shows "\<exists>v lm lv um uv mg rel ev' su ds. n_value m = Some v \<and>
    side ''lower'' v (sp_limits sp) = Inr (lm, lv) \<and> side ''upper'' v (sp_limits sp) = Inr (um, uv) \<and>
    limiting (lm @ um) = Inr (mg, rel) \<and>
    r = evaluate_payload env correlation ev' (if lv @ uv = [] then ''pass'' else ''fail'') su ''completed'' ds \<and>
    ev_status ev' = (if lv @ uv = [] then ''pass'' else ''fail'') \<and> ev_margin ev' = Some (mg, n_unit m, rel) \<and>
    ev_matched ev' = matched"
proof -
  obtain v lm lv um uv mg rel where p: "n_value m = Some v" "side ''lower'' v (sp_limits sp) = Inr (lm, lv)"
    "side ''upper'' v (sp_limits sp) = Inr (um, uv)" "limiting (lm @ um) = Inr (mg, rel)"
    using assms by (auto simp: decide_def split: option.splits)
  let ?st = "if lv @ uv = [] then ''pass'' else ''fail''"
  let ?ev = "ev\<lparr>ev_conditions := ''matched'', ev_required := length (sp_conditions sp), ev_matched := matched,
    ev_margin := Some (mg, n_unit m, rel), ev_status := ?st\<rparr>"
  have "\<exists>su ds. r = evaluate_payload env correlation ?ev ?st su ''completed'' ds"
    using assms by (cases "lv @ uv = []") (auto simp: decide_def p Let_def)
  then obtain su ds where r: "r = evaluate_payload env correlation ?ev ?st su ''completed'' ds" by blast
  show ?thesis
    by (intro exI [of _ v] exI [of _ lm] exI [of _ lv] exI [of _ um] exI [of _ uv] exI [of _ mg] exI [of _ rel]
        exI [of _ ?ev] exI [of _ su] exI [of _ ds] conjI p r) simp_all
qed

lemma no_violations:
  assumes "spec_ok sp" and "finite64 v" and "side ''lower'' v (sp_limits sp) = Inr (lm, lv)"
    and "side ''upper'' v (sp_limits sp) = Inr (um, uv)"
  shows "lv @ uv = [] \<longleftrightarrow> satisfies (sp_limits sp) (fval v)"
proof -
  have fin: "bound_ok b" if "map_of (sp_limits sp) k = Some b" for k b
    using assms(1) map_of_SomeD [OF that] by (auto simp: spec_ok_def list_all_iff)
  show ?thesis
    using assms(3,4) fin violated_admits [OF assms(2)]
    by (auto simp: satisfies_sides [OF assms(1)] side_Inr split: option.splits if_splits)
qed

text \<open>C20: a pass or a fail is decided only on a measured value whose unit is that of every limit and
  whose evidence binds every required condition exactly (same name, unit, type and value), all of
  them counted as matched; the verdict is then pass exactly when the rational the value denotes
  satisfies every declared bound, inclusive or strict as declared.\<close>

theorem specification_verdict:
  assumes "wf_val measurement" and "wf_val spec"
    and "evaluate_specification env measurement spec request_id = Inr r" and "e_status r \<noteq> ''unknown''"
  shows "\<exists>m sp v. normalize_measurement env measurement = Inr m \<and> normalize_specification spec = Inr sp \<and>
    sp_measurement sp = n_id m \<and> n_value m = Some v \<and>
    list_all (\<lambda>(k, b). Some (b_unit b) = n_unit m) (sp_limits sp) \<and>
    set (sp_conditions sp) \<subseteq> set (s_conditions (n_source m)) \<and>
    e_status r = (if satisfies (sp_limits sp) (fval v) then ''pass'' else ''fail'')"
proof -
  obtain correlation m sp ev matched where e: "normalize_measurement env measurement = Inr m"
    "normalize_specification spec = Inr sp" "sp_measurement sp = n_id m"
    "\<forall>(k, b) \<in> set (sp_limits sp). Some (b_unit b) = n_unit m"
    "set (sp_conditions sp) \<subseteq> set (s_conditions (n_source m))"
    and d: "decide env correlation m sp ev matched = Inr r"
    using evaluate_decided [OF assms(3,4)] by blast
  obtain v lm lv um uv ev' su ds where p: "n_value m = Some v" "side ''lower'' v (sp_limits sp) = Inr (lm, lv)"
    "side ''upper'' v (sp_limits sp) = Inr (um, uv)"
    "r = evaluate_payload env correlation ev' (if lv @ uv = [] then ''pass'' else ''fail'') su ''completed'' ds"
    using decide_Inr [OF d] by blast
  have status: "e_status r = (if lv @ uv = [] then ''pass'' else ''fail'')" by (subst p(4)) simp
  have "finite64 v" using normalize_measurement_ok [OF assms(1) e(1)] p(1) by (simp add: norm_ok_def)
  then have "lv @ uv = [] \<longleftrightarrow> satisfies (sp_limits sp) (fval v)"
    using no_violations [OF normalize_specification_ok [OF assms(2) e(2)] _ p(2,3)] by blast
  then show ?thesis using e p(1) status by (auto simp: list_all_iff)
qed

lemma margin_sign:
  assumes "finite64 v" and "bound_ok b" and "is_finite (bound_margin kind v b)"
  shows "(\<not> violated kind v b \<longrightarrow> 0 \<le> fval (bound_margin kind v b)) \<and>
    (violated kind v b \<longrightarrow> fval (bound_margin kind v b) \<le> 0)"
proof (cases "kind = ''lower''")
  case True
  then show ?thesis
    using fsub_sign [of v "b_value b"] assms by (cases v; cases "b_value b")
      (auto simp: violated_def bound_margin_def bound_ok_def not_less)
next
  case False
  then show ?thesis
    using fsub_sign [of "b_value b" v] assms by (cases v; cases "b_value b")
      (auto simp: violated_def bound_margin_def bound_ok_def not_less)
qed

lemma limiting_two:
  assumes "limiting xs = Inr (mg, rel)" and "length xs \<le> 2" and "list_all (is_finite \<circ> fst) xs"
  shows "(mg, rel) \<in> set xs \<and> list_all (\<lambda>x. fval mg \<le> fval (fst x)) xs"
proof -
  consider x where "xs = [x]" | x y where "xs = [x, y]"
    using assms(1,2) by (cases xs; cases "tl xs") (auto simp: limiting_def)
  then show ?thesis
    using assms(1,3) by cases (auto simp: limiting_def is_finite_iff split: if_splits)
qed

text \<open>the reported margin is the least signed distance to a declared bound, a finite number, and its
  sign agrees with the verdict: it is never negative on a pass and never positive on a fail, although
  verdict and margin are computed by separate float comparisons and subtractions.\<close>

theorem specification_margin:
  assumes "wf_val measurement" and "wf_val spec"
    and "evaluate_specification env measurement spec request_id = Inr r" and "e_status r \<noteq> ''unknown''"
  shows "\<exists>correlation ev su ds mg u rel. r = evaluate_payload env correlation ev (e_status r) su ''completed'' ds \<and>
    ev_status ev = e_status r \<and> ev_margin ev = Some (mg, u, rel) \<and> is_finite mg \<and>
    rel \<in> {''lower'', ''upper''} \<and>
    (if e_status r = ''pass'' then 0 \<le> fval mg else fval mg \<le> 0)"
proof -
  obtain correlation m sp ev matched where e: "normalize_measurement env measurement = Inr m"
    "normalize_specification spec = Inr sp" and d: "decide env correlation m sp ev matched = Inr r"
    using evaluate_decided [OF assms(3,4)] by blast
  obtain v lm lv um uv mg rel ev' su ds where p: "n_value m = Some v"
    "side ''lower'' v (sp_limits sp) = Inr (lm, lv)" "side ''upper'' v (sp_limits sp) = Inr (um, uv)"
    "limiting (lm @ um) = Inr (mg, rel)"
    "r = evaluate_payload env correlation ev' (if lv @ uv = [] then ''pass'' else ''fail'') su ''completed'' ds"
    "ev_status ev' = (if lv @ uv = [] then ''pass'' else ''fail'')" "ev_margin ev' = Some (mg, n_unit m, rel)"
    using decide_Inr [OF d] by blast
  have v: "finite64 v" using normalize_measurement_ok [OF assms(1) e(1)] p(1) by (simp add: norm_ok_def)
  have ok: "spec_ok sp" by (rule normalize_specification_ok [OF assms(2) e(2)])
  have fin: "bound_ok b" if "map_of (sp_limits sp) k = Some b" for k b
    using ok map_of_SomeD [OF that] by (auto simp: spec_ok_def list_all_iff)
  have sides: "list_all (is_finite \<circ> fst) (lm @ um)" "length (lm @ um) \<le> 2"
    "set (map snd (lm @ um)) \<subseteq> {''lower'', ''upper''}"
    using p(2,3) by (auto simp: side_Inr split: option.splits)
  note lim = limiting_two [OF p(4) sides(2,1)]
  have pos: "lv @ uv = [] \<Longrightarrow> list_all (\<lambda>x. 0 \<le> fval (fst x)) (lm @ um)"
    and neg: "lv @ uv \<noteq> [] \<Longrightarrow> \<exists>x \<in> set (lm @ um). fval (fst x) \<le> 0"
    using p(2,3) fin margin_sign [OF v] by (auto simp: side_Inr split: option.splits if_splits)
  have "(mg, rel) \<in> set (lm @ um)" using lim by blast
  then have "(is_finite \<circ> fst) (mg, rel)" "snd (mg, rel) \<in> set (map snd (lm @ um))"
    using sides(1) unfolding list_all_iff set_map by blast+
  then have "is_finite mg" "rel \<in> {''lower'', ''upper''}" using sides(3) by auto
  moreover have "if lv @ uv = [] then 0 \<le> fval mg else fval mg \<le> 0"
  proof (cases "lv @ uv = []")
    case True
    have "0 \<le> fval (fst (mg, rel))" using pos [OF True] \<open>(mg, rel) \<in> set (lm @ um)\<close> unfolding list_all_iff by blast
    then show ?thesis using True by simp
  next
    case False
    obtain x where "x \<in> set (lm @ um)" "fval (fst x) \<le> 0" using neg [OF False] by blast
    moreover have "fval mg \<le> fval (fst x)" using lim calculation(1) unfolding list_all_iff by blast
    ultimately have "fval mg \<le> 0" by linarith
    then show ?thesis using False by (simp only: if_False)
  qed
  moreover have "e_status r = (if lv @ uv = [] then ''pass'' else ''fail'')" by (subst p(5)) simp
  ultimately show ?thesis
    using p(5-7) by (intro exI [of _ correlation] exI [of _ ev'] exI [of _ su] exI [of _ ds] exI [of _ mg]
        exI [of _ "n_unit m"] exI [of _ rel]) (auto split: if_splits)
qed

section \<open>An example evaluation\<close>

definition example_measured :: norm_measurement where
  "example_measured =
     \<lparr>n_id = ''vmin'', n_kind = ''minimum'', n_status = ''measured'', n_request_sha256 = Some zeros,
      n_value = Some (PFin 1), n_unit = Some ''V'', n_signal = ''out'', n_location = None,
      n_algorithm = (''a'', ''1''), n_count = 2, n_source = r_source example_normal\<rparr>"

definition example_limits :: spec_record where
  "example_limits =
     \<lparr>sp_id = ''vmin'', sp_measurement = ''vmin'',
      sp_limits = [(''lower'', \<lparr>b_value = PFin 0, b_unit = ''V'', b_inclusive = False\<rparr>)], sp_conditions = []\<rparr>"

lemma example_measured_ok: "norm_ok example_env example_measured"
proof -
  have "canonical_sha256 example_env (VList []) = Inr zeros" by (rule example_sha) simp
  then have "source_bound example_env (r_source example_normal)"
    using zeros_sha example_uuid
    by (simp add: source_bound_def source_ok_def example_normal_def bounded_name_def)
  then show ?thesis
    using zeros_sha canonical_vmin by (simp add: norm_ok_def norm_shape_def example_measured_def bounded_name_def)
qed

lemma example_limits_ok: "spec_ok example_limits"
  using canonical_vmin
  by (simp add: spec_ok_def example_limits_def bounded_name_def bound_ok_def check_interval_def conds_ok_def)

lemma example_records_wf: "wf_val (norm_measurement_json example_measured)" "wf_val (specification_json example_limits)"
  using finite64_0 finite64_1
  by (simp_all add: norm_measurement_json_def example_measured_def specification_json_def example_limits_def
      bound_json_def bound_fields_def obj_def wf_val.simps(4) f64_finite64 source_json_def example_normal_def)

lemma example_evaluated:
  "\<exists>r. evaluate_specification example_env (norm_measurement_json example_measured)
     (specification_json example_limits) VNone = Inr r \<and> e_status r = ''pass''"
proof -
  have n: "normalize_measurement example_env (norm_measurement_json example_measured) = Inr example_measured"
    "normalize_specification (specification_json example_limits) = Inr example_limits"
    using measurement_record.parse_print [OF example_measured_ok] normalize_specification_print [OF example_limits_ok] .
  have c: "s_correlation_id example_env VNone = Inr (new_uuid example_env)"
    by (simp add: s_correlation_id_def correlation_id_def)
  obtain ev where ev: "evaluation_template example_env (Some example_measured) (Some example_limits) = Inr ev"
    using evaluation_template_total [of "Some example_measured" example_env "Some example_limits"]
      example_measured_ok example_limits_ok by auto
  have one: "round64 1 = PFin 1" using finite64_1 by (simp add: finite64_def)
  have f: "sp_measurement example_limits = n_id example_measured" "n_status example_measured = ''measured''"
    "find (\<lambda>(name, b). Some (b_unit b) \<noteq> n_unit example_measured) (sp_limits example_limits) = None"
    "match_conditions (s_conditions (n_source example_measured)) (sp_conditions example_limits) 0 = Inr 0"
    by (simp_all add: example_measured_def example_limits_def)
  have "\<exists>r. decide example_env (new_uuid example_env) example_measured example_limits ev' 0 = Inr r \<and>
      e_status r = ''pass''" for ev'
    by (simp add: decide_def example_measured_def example_limits_def side_def bound_margin_def violated_def
        limiting_def fsub_def one feq_def Let_def)
  then obtain r where "decide example_env (new_uuid example_env) example_measured example_limits
      (ev\<lparr>ev_required := length (sp_conditions example_limits)\<rparr>) 0 = Inr r" "e_status r = ''pass''" by blast
  then show ?thesis
    by (simp add: evaluate_specification_def n c evaluate_normalized_def ev Let_def f)
qed

theorem accepted_interval_nonempty_witness:
  "\<exists>sp q. normalize_specification (specification_json example_limits) = Inr sp \<and> satisfies (sp_limits sp) q"
  using accepted_interval_nonempty [OF example_records_wf(2) normalize_specification_print [OF example_limits_ok]]
    normalize_specification_print [OF example_limits_ok] by blast

theorem specification_verdict_witness:
  "\<exists>r. evaluate_specification example_env (norm_measurement_json example_measured)
     (specification_json example_limits) VNone = Inr r \<and> e_status r = ''pass'' \<and>
     (\<exists>sp v. normalize_specification (specification_json example_limits) = Inr sp \<and> satisfies (sp_limits sp) v)"
proof -
  obtain r where r: "evaluate_specification example_env (norm_measurement_json example_measured)
     (specification_json example_limits) VNone = Inr r" "e_status r = ''pass''"
    using example_evaluated by blast
  then have "e_status r \<noteq> ''unknown''" by simp
  from specification_verdict [OF example_records_wf r(1) this] obtain sp v where
    "normalize_specification (specification_json example_limits) = Inr sp" "satisfies (sp_limits sp) v"
    using r(2) by (auto split: if_splits)
  then show ?thesis using r by blast
qed

theorem specification_margin_witness:
  "\<exists>r (ev :: evaluation) mg u rel. evaluate_specification example_env (norm_measurement_json example_measured)
     (specification_json example_limits) VNone = Inr r \<and> ev_margin ev = Some (mg, u, rel) \<and> 0 \<le> fval mg"
proof -
  obtain r where r: "evaluate_specification example_env (norm_measurement_json example_measured)
     (specification_json example_limits) VNone = Inr r" "e_status r = ''pass''"
    using example_evaluated by blast
  then have "e_status r \<noteq> ''unknown''" by simp
  have "\<exists>(ev :: evaluation) mg u rel. ev_margin ev = Some (mg, u, rel) \<and>
      (if e_status r = ''pass'' then 0 \<le> fval mg else fval mg \<le> 0)"
    using specification_margin [OF example_records_wf r(1) \<open>e_status r \<noteq> ''unknown''\<close>] by blast
  then show ?thesis using r by auto
qed

end
