(* ===== verification/SpecChain.thy ===== *)
theory SpecChain
  imports SpecVerdict
begin

text \<open>
  The two typed-evidence operations composed: the measurement record that \<open>result.measure\<close> writes
  into its envelope is one that \<open>specification.evaluate\<close> accepts, with the same value, unit and source;
  and the normalised records of \<open>specification.evaluate\<close> are fixed points of normalisation.
\<close>

text \<open>normalising a specification is idempotent: what an accepted specification is normalised to,
  printed, is accepted again and normalises to itself.\<close>

theorem specification_roundtrip:
  assumes "wf_val v" and "normalize_specification v = Inr sp"
  shows "normalize_specification (specification_json sp) = Inr sp"
  using assms by (rule specification_record.idempotent)

theorem specification_roundtrip_witness:
  "normalize_specification (specification_json example_limits) = Inr example_limits"
  by (rule specification_roundtrip [OF example_records_wf(2) normalize_specification_print [OF example_limits_ok]])

text \<open>C35: normalising a measurement is idempotent, and two accepted measurements whose normal forms print
  alike are the same, so the digest of the printed form identifies the record.\<close>

theorem measurement_roundtrip:
  assumes "wf_val v" and "normalize_measurement env v = Inr m"
    and "wf_val v'" and "normalize_measurement env v' = Inr m'"
  shows "normalize_measurement env (norm_measurement_json m) = Inr m \<and>
    (norm_measurement_json m = norm_measurement_json m' \<longrightarrow> m = m')"
proof -
  have "normalize_measurement env (norm_measurement_json m) = Inr m"
    by (rule measurement_record.idempotent [OF assms(1,2)])
  moreover have "m = m'" if "norm_measurement_json m = norm_measurement_json m'"
    using measurement_record.print_inj [OF measurement_record.parse_ok [OF assms(1,2)]
      measurement_record.parse_ok [OF assms(3,4)] that] .
  ultimately show ?thesis by blast
qed

theorem measurement_roundtrip_witness:
  "normalize_measurement example_env (norm_measurement_json example_measured) = Inr example_measured"
  using measurement_roundtrip [OF example_records_wf(1) measurement_record.parse_print [OF example_measured_ok]
    example_records_wf(1) measurement_record.parse_print [OF example_measured_ok]] by blast

section \<open>From measurement to evaluation\<close>

definition sel_units :: "selection \<Rightarrow> bool" where
  "sel_units sel = (bounded_name 64 (sel_axis_unit sel) \<and> bounded_name 64 (sel_signal_unit sel))"

lemma measure_kind_unit:
  assumes "sel_units sel" and "measure_kind kind sel p = Inr oc"
  shows "bounded_name 64 (oc_unit oc)"
proof -
  have "measure_sample_at sel p = Inr oc \<Longrightarrow> ?thesis"
    using assms(1) by (auto simp: measure_sample_at_def sel_units_def split: if_splits)
  moreover have "measure_statistic kind sel p = Inr oc \<Longrightarrow> ?thesis"
    using assms(1) by (auto simp: measure_statistic_def sel_units_def Let_def split: if_splits)
  moreover have "measure_crossing sel p = Inr oc \<Longrightarrow> ?thesis"
    using assms(1) by (auto simp: measure_crossing_def sel_units_def Let_def split: if_splits)
  moreover have "measure_slope sel p = Inr oc \<Longrightarrow> ?thesis"
    by (auto simp: measure_slope_def bounded_name_def Let_def split: if_splits)
  moreover have "measure_edge_time kind sel p = Inr oc \<Longrightarrow> ?thesis"
    using assms(1) by (auto simp: measure_edge_time_def sel_units_def Let_def split: if_splits)
  moreover have "measure_settling sel p = Inr oc \<Longrightarrow> ?thesis"
    using assms(1) by (auto simp: measure_settling_def sel_units_def Let_def split: if_splits)
  ultimately show ?thesis using measure_kind_cases [of kind sel p] assms(2) by auto
qed

lemma sel_x_finite: "sel_ok sel \<Longrightarrow> i < length (sel_x sel) \<Longrightarrow> is_finite (sel_x sel ! i)"
  by (simp add: sel_ok_def list_all_length finite64_is_finite)

lemma extremum_index:
  assumes "indices \<noteq> []" and "list_all is_finite (map f indices)"
    and "v = py_min (map f indices) \<or> v = py_max (map f indices)"
  shows "index_of v (map f indices) < length indices"
proof -
  define qs where "qs = map fval (map f indices)"
  have s: "map f indices = map PFin qs" "qs \<noteq> []" using finite_samples [OF assms(2)] assms(1) by (simp_all add: qs_def)
  have "Min (set qs) \<in> set qs" "Max (set qs) \<in> set qs" using s(2) by simp_all
  then have "v \<in> set (map f indices)" "v \<noteq> PNaN"
    using assms(3) unfolding s(1) by (auto simp: py_min_Min [OF s(2)] py_max_Max [OF s(2)])
  then show ?thesis using index_of_first by fastforce
qed

lemma measure_statistic_location:
  assumes "sel_ok sel" and "measure_statistic kind sel p = Inr oc" and "oc_location oc = Some l"
  shows "is_finite l"
proof -
  have place: "is_finite (sel_x sel ! (indices_in_window (sel_x sel) w ! index_of v
      (map ((!) (sel_y sel)) (indices_in_window (sel_x sel) w))))"
    if "indices_in_window (sel_x sel) w \<noteq> []"
      and "v = py_min (map ((!) (sel_y sel)) (indices_in_window (sel_x sel) w)) \<or>
        v = py_max (map ((!) (sel_y sel)) (indices_in_window (sel_x sel) w))" for w v
    using extremum_index [OF that(1) window_samples_finite [OF assms(1)] that(2)]
    by (intro sel_x_finite [OF assms(1)] indices_in_window_bound [where w = w] nth_mem)
  show ?thesis
    using assms(2,3) by (auto simp: measure_statistic_def Let_def intro!: place split: if_splits)
qed

lemma measure_kind_location:
  assumes ok: "sel_ok sel" and wf: "wf_val p" and kind: "measure_kind kind sel p = Inr oc"
    and v: "oc_value oc = Some v" "is_finite v" and l: "oc_location oc = Some l"
  shows "is_finite l"
proof -
  have "measure_sample_at sel p = Inr oc \<Longrightarrow> ?thesis"
    using l m_quantity_finite64 [OF closed_wf [OF _ wf]] finite64_is_finite
    by (auto simp: measure_sample_at_def split: if_splits)
  moreover have "measure_statistic kind sel p = Inr oc \<Longrightarrow> ?thesis"
    using measure_statistic_location [OF ok] l by blast
  moreover have "measure_crossing sel p = Inr oc \<Longrightarrow> ?thesis"
    using v l by (auto simp: measure_crossing_def Let_def split: if_splits)
  moreover have "measure_slope sel p = Inr oc \<Longrightarrow> ?thesis"
    using l by (auto simp: measure_slope_def Let_def split: if_splits)
  moreover have "measure_edge_time kind sel p = Inr oc \<Longrightarrow> ?thesis"
  proof -
    assume "measure_edge_time kind sel p = Inr oc"
    then obtain s where "v = fsub l s" using v l by (auto simp: measure_edge_time_def Let_def split: if_splits)
    then show ?thesis using v(2) by (cases l; cases s) (auto simp: fsub_def split: if_splits)
  qed
  moreover have "measure_settling sel p = Inr oc \<Longrightarrow> ?thesis"
    using l settled_index_Some sel_x_finite [OF ok] by (fastforce simp: measure_settling_def Let_def split: if_splits)
  ultimately show ?thesis using measure_kind_cases [of kind sel p] kind by auto
qed

lemma series_source_bound:
  assumes "env_ok env" and "wf_val v" and "normalize_series env True v = Inr n"
  shows "source_bound env (r_source n)"
proof -
  have ok: "series_ok n" by (rule normalize_series_ok [OF assms(2,1,3)])
  then have "source_ok (r_source n)" "s_conditions (r_source n) = r_conditions n"
    by (simp_all add: series_ok_def)
  moreover have "canonical_sha256 env (VList (map cond_json (r_conditions n))) = Inr (s_conditions_sha256 (r_source n))"
    "s_artifact_sha256 (r_source n) = s_series_sha256 (r_source n)"
    using normalize_series_parts [OF assms(3)] by (metis evidence_source.select_convs(4))+
  ultimately show ?thesis by (simp add: source_bound_def)
qed

text \<open>C34: every measurement record that a completed \<open>result.measure\<close> writes, whether it measured a value
  or found none, is accepted by \<open>specification.evaluate\<close> and normalises to the same identifier,
  status, value, unit and source, so a chained evaluation is never refused on account of its
  measurement.\<close>

theorem measured_record_accepted:
  assumes "env_ok env" and "wf_val series" and "wf_val measurement"
    and "measure_result env series measurement request_id = Inr r" and "e_status r \<noteq> ''unknown''"
  shows "\<exists>correlation m su ds nm. r = measure_payload env correlation m (e_status r) su ''completed'' ds \<and>
    normalize_measurement env (measurement_json m) = Inr nm \<and> m_id m = Some (n_id nm) \<and>
    n_status nm = m_status m \<and> n_value nm = m_value m \<and> n_unit nm = m_unit_name m \<and>
    m_evidence m = Some (n_source nm)"
proof -
  have payload: "e_status (measure_payload env c m st su ex ds) = st" for c m st su ex ds
    by (simp add: measure_payload_def)
  obtain correlation where "measure_body env correlation series measurement = Inr r"
    using assms(4,5) by (auto simp: measure_result_def payload split: sum.splits pyexc.splits)
  from measure_body_Inr [OF this] obtain n request mid kind signal g oc where
    b: "normalize_series env True series = Inr n" "measurement = VDict request" "canonical_role mid"
      "bounded_name 120 mid" "kind \<in> set MEASUREMENT_KINDS" "bounded_name 256 signal"
      "filter (\<lambda>g. g_name g = signal) (r_signals n) = [g]"
    and kind: "measure_kind kind \<lparr>sel_x = a_values (r_axis n), sel_y = g_values g, sel_axis_unit = a_unit (r_axis n),
        sel_signal_unit = g_unit g\<rparr> (dget request ''parameters'') = Inr oc"
    and f: "finish_measurement env correlation
      (measurement_template (Some mid) (Some kind) (Some signal) (Some (r_source n)))
      mid kind (a_unit (r_axis n)) oc request = Inr r" by blast
  let ?sel = "\<lparr>sel_x = a_values (r_axis n), sel_y = g_values g, sel_axis_unit = a_unit (r_axis n),
        sel_signal_unit = g_unit g\<rparr>"
  have ok: "series_ok n" by (rule normalize_series_ok [OF assms(2,1) b(1)])
  have sel: "sel_ok ?sel" by (rule selected_ok [OF ok b(7)])
  have "g \<in> set (filter (\<lambda>g. g_name g = signal) (r_signals n))" using b(7) by simp
  then have units: "sel_units ?sel" "bounded_name 64 (a_unit (r_axis n))"
    using ok by (auto simp: series_ok_def axis_ok_def signal_ok_def sel_units_def list_all_iff)
  have wfp: "wf_val (dget request ''parameters'')" using assms(3) b(2) wf_val_dget by blast
  have count: "oc_count oc \<le> 100000"
    using measure_kind_count [OF sel kind] ok by (simp add: series_ok_def axis_ok_def MAX_POINTS_def)
  obtain digest where d: "canonical_sha256 env (VDict request) = Inr digest"
    using f by (auto simp: finish_measurement_def)
  have sha: "sha256_text digest" by (rule canonical_sha256_text [OF assms(1) d])
  have src: "source_bound env (r_source n)" by (rule series_source_bound [OF assms(1,2) b(1)])
  have alg: "bounded_name 256 (algorithm_id kind)" "bounded_name 40 kind"
    using b(5) by (auto simp: MEASUREMENT_KINDS_def algorithm_id_def bounded_name_def)
  let ?m = "\<lambda>st v l. (measurement_template (Some mid) (Some kind) (Some signal) (Some (r_source n)))\<lparr>
     m_request_sha256 := Some digest, m_sample_count := oc_count oc, m_unit_name := Some (oc_unit oc),
     m_status := st, m_value := v, m_location := l\<rparr>"
  have accepted: "\<exists>nm. normalize_measurement env (measurement_json (?m st v l)) = Inr nm \<and> n_id nm = mid \<and>
      n_status nm = st \<and> n_value nm = v \<and> n_unit nm = Some (oc_unit oc) \<and> n_source nm = r_source n"
    if "st \<in> {''measured'', ''not_found''}" "v = None \<longleftrightarrow> st \<noteq> ''measured''"
      "\<And>x. v = Some x \<Longrightarrow> is_finite x" "\<And>x u. l = Some (x, u) \<Longrightarrow> is_finite x \<and> bounded_name 64 u" for st v l
  proof -
    let ?nm = "\<lparr>n_id = mid, n_kind = kind, n_status = st, n_request_sha256 = Some digest, n_value = v,
      n_unit = Some (oc_unit oc), n_signal = signal, n_location = l,
      n_algorithm = (algorithm_id kind, MEASURE_VERSION), n_count = oc_count oc, n_source = r_source n\<rparr>"
    have "norm_shape env ?nm"
      using that b(3,4,6) sha alg count src measure_kind_unit [OF units(1) kind]
      by (auto simp: norm_shape_def MEASURE_VERSION_def bounded_name_def split: option.split)
    moreover have "measurement_json (?m st v l) = norm_measurement_json ?nm"
      by (simp add: measurement_json_def measurement_template_def norm_measurement_json_def)
    ultimately show ?thesis using normalize_measurement_print [of env ?nm] by auto
  qed
  show ?thesis
  proof (cases "oc_value oc")
    case None
    obtain nm where nm: "normalize_measurement env (measurement_json (?m ''not_found'' None None)) = Inr nm"
      "n_id nm = mid" "n_status nm = ''not_found''" "n_value nm = None" "n_unit nm = Some (oc_unit oc)"
      "n_source nm = r_source n" using accepted [of "''not_found''" None None] by auto
    obtain su ds where "r = measure_payload env correlation (?m ''not_found'' None None) ''fail'' su ''completed'' ds"
      using f None by (simp add: finish_measurement_def Let_def d measurement_template_def) blast
    then show ?thesis using nm payload
      by (intro exI [of _ correlation] exI [of _ "?m ''not_found'' None None"] exI [of _ su] exI [of _ ds]
          exI [of _ nm]) (simp add: measurement_template_def)
  next
    case (Some v)
    have fin: "is_finite v" using f Some by (auto simp: finish_measurement_def Let_def d split: if_splits)
    let ?l = "map_option (\<lambda>l. (l, a_unit (r_axis n))) (oc_location oc)"
    have "\<And>x u. ?l = Some (x, u) \<Longrightarrow> is_finite x \<and> bounded_name 64 u"
      using measure_kind_location [OF sel wfp kind Some fin] units(2) by auto
    then obtain nm where nm: "normalize_measurement env (measurement_json (?m ''measured'' (Some v) ?l)) = Inr nm"
      "n_id nm = mid" "n_status nm = ''measured''" "n_value nm = Some v" "n_unit nm = Some (oc_unit oc)"
      "n_source nm = r_source n" using accepted [of "''measured''" "Some v" ?l] fin by auto
    obtain su ds where "r = measure_payload env correlation (?m ''measured'' (Some v) ?l) ''pass'' su ''completed'' ds"
      using f Some fin by (simp add: finish_measurement_def Let_def d measurement_template_def) blast
    then show ?thesis using nm payload
      by (intro exI [of _ correlation] exI [of _ "?m ''measured'' (Some v) ?l"] exI [of _ su] exI [of _ ds]
          exI [of _ nm]) (simp add: measurement_template_def)
  qed
qed

theorem measured_record_accepted_witness:
  "\<exists>r m nm. measure_result example_env example_series example_request VNone = Inr r \<and>
     normalize_measurement example_env (measurement_json m) = Inr nm \<and> m_id m = Some (n_id nm)"
proof -
  obtain r where r: "measure_result example_env example_series example_request VNone = Inr r"
    "e_status r = ''pass''" using example_pass by blast
  have wf: "wf_val example_request" by (simp add: example_request_def obj_def wf_val.simps(4))
  have "e_status r \<noteq> ''unknown''" using r(2) by simp
  from measured_record_accepted [OF example_env_ok example_series_wf wf r(1) this] show ?thesis
    using r(1) by blast
qed

end
