(* ===== verification/PlanModel.thy ===== *)
theory PlanModel
  imports PyFloat
begin

text \<open>
  The documents of \<open>openada/operations/testbench_plan.py\<close>: a testbench plan as its published JSON
  schema admits it, the issues the validator records, and the small tables of units it works with.
  The schema is checked by the third-party \<open>jsonschema\<close> package before any function modelled here
  runs, so a document is a value of the typed records below, one field per property the code reads
  and one constructor per \<open>kind\<close>; an absent optional property is \<open>None\<close>.  A JSON number is its
  exact rational value, bounded by the schema to 1e300, and \<open>float(x)\<close> is \<open>round64 x\<close>.
\<close>

section \<open>Issues\<close>

record issue =
  is_code :: string
  is_path :: string
  is_message :: string

definition issue_record :: "issue \<Rightarrow> issue" where
  "issue_record i = i\<lparr>is_message := take 4000 (is_message i)\<rparr>"

text \<open>\<open>self.add(code, path, message)\<close>, and the same under a condition.\<close>

definition add :: "string \<Rightarrow> string \<Rightarrow> string \<Rightarrow> issue list" where
  "add code path msg = [\<lparr>is_code = ''testbench_plan.'' @ code, is_path = path, is_message = msg\<rparr>]"

definition add_if :: "bool \<Rightarrow> string \<Rightarrow> string \<Rightarrow> string \<Rightarrow> issue list" where
  "add_if b code path msg = (if b then add code path msg else [])"

lemma add_not_Nil [simp]: "add code path msg \<noteq> []"
  by (simp add: add_def)

lemma add_if_Nil [simp]: "add_if b code path msg = [] \<longleftrightarrow> \<not> b"
  by (simp add: add_if_def)

text \<open>\<open>base/i\<close>.\<close>

definition at_index :: "string \<Rightarrow> nat \<Rightarrow> string" where
  "at_index base i = base @ ''/'' @ dec_nat i"

text \<open>\<open>for i, x in enumerate(xs): body\<close>, collecting what the body records.\<close>

fun each_from :: "nat \<Rightarrow> (nat \<Rightarrow> 'a \<Rightarrow> issue list) \<Rightarrow> 'a list \<Rightarrow> issue list" where
  "each_from i f [] = []"
| "each_from i f (x # xs) = f i x @ each_from (Suc i) f xs"

abbreviation each :: "(nat \<Rightarrow> 'a \<Rightarrow> issue list) \<Rightarrow> 'a list \<Rightarrow> issue list" where
  "each \<equiv> each_from 0"

lemma each_from_Nil:
  "each_from i f xs = [] \<longleftrightarrow> (\<forall>k < length xs. f (i + k) (xs ! k) = [])"
proof (induction xs arbitrary: i)
  case (Cons x xs)
  have "(\<forall>k < Suc (length xs). f (i + k) ((x # xs) ! k) = []) \<longleftrightarrow>
      f i x = [] \<and> (\<forall>k < length xs. f (Suc i + k) (xs ! k) = [])"
    by (auto simp: less_Suc_eq_0_disj)
  then show ?case using Cons.IH by simp
qed simp

lemma each_Nil: "each f xs = [] \<longleftrightarrow> (\<forall>k < length xs. f k (xs ! k) = [])"
  using each_from_Nil [of 0] by simp

lemma each_Nil_mem: "each f xs = [] \<Longrightarrow> x \<in> set xs \<Longrightarrow> \<exists>k. f k x = []"
  by (auto simp: each_Nil in_set_conv_nth)

text \<open>
  \<open>casefold\<close> of the names the schema admits, which are ASCII letters, digits and underscores.
\<close>

definition fold_char :: "char \<Rightarrow> char" where
  "fold_char c = (if 65 \<le> ord c \<and> ord c \<le> 90 then char_of (ord c + 32) else c)"

definition casefold :: "string \<Rightarrow> string" where
  "casefold s = map fold_char s"

text \<open>
  The folded names that occur again, in order of their first repetition; the code iterates over a
  set of them, whose order is not specified.
\<close>

fun folded_duplicates_from :: "string list \<Rightarrow> string list \<Rightarrow> string list \<Rightarrow> string list" where
  "folded_duplicates_from seen dups [] = dups"
| "folded_duplicates_from seen dups (v # vs) =
     (let f = casefold v
      in folded_duplicates_from (f # seen) (if f \<in> set seen \<and> f \<notin> set dups then dups @ [f] else dups) vs)"

definition folded_duplicates :: "string list \<Rightarrow> string list" where
  "folded_duplicates vs = folded_duplicates_from [] [] vs"

lemma folded_duplicates_from_Nil:
  "folded_duplicates_from seen dups vs = [] \<longleftrightarrow>
     dups = [] \<and> distinct (map casefold vs) \<and> set (map casefold vs) \<inter> set seen = {}"
  by (induction seen dups vs rule: folded_duplicates_from.induct) (auto simp: Let_def)

lemma folded_duplicates_Nil: "folded_duplicates vs = [] \<longleftrightarrow> distinct (map casefold vs)"
  by (simp add: folded_duplicates_def folded_duplicates_from_Nil)

section \<open>Quantities\<close>

record quantity =
  q_value :: rat
  q_unit :: string

datatype value_source =
    LiteralValue quantity
  | InputValue string string
  | AffineValue string rat quantity string

primrec vs_unit :: "value_source \<Rightarrow> string" where
  "vs_unit (LiteralValue q) = q_unit q"
| "vs_unit (InputValue input_id u) = u"
| "vs_unit (AffineValue input_id k offset u) = u"

primrec vs_literal :: "value_source \<Rightarrow> rat option" where
  "vs_literal (LiteralValue q) = Some (q_value q)"
| "vs_literal (InputValue input_id u) = None"
| "vs_literal (AffineValue input_id k offset u) = None"

primrec vs_input :: "value_source \<Rightarrow> string option" where
  "vs_input (LiteralValue q) = None"
| "vs_input (InputValue input_id u) = Some input_id"
| "vs_input (AffineValue input_id k offset u) = Some input_id"

primrec vs_offset :: "value_source \<Rightarrow> quantity option" where
  "vs_offset (LiteralValue q) = None"
| "vs_offset (InputValue input_id u) = None"
| "vs_offset (AffineValue input_id k offset u) = Some offset"

datatype threshold =
    ThresholdQuantity quantity
  | SupplyScaled string rat

section \<open>The parts of a plan\<close>

record dut_port =
  port_name :: string
  port_direction :: string
  port_internals :: "string list"

record dut_binding =
  dut_artifact :: string
  dut_sha256 :: string
  dut_namespace :: string
  dut_top :: string
  dut_ports :: "dut_port list"
  dut_connections :: "(string \<times> string) list"

record corner_binding =
  cb_id :: string
  cb_temperature :: rat
  cb_values :: "(string \<times> quantity) list"

record supply_doc =
  su_id :: string
  su_positive :: string
  su_negative :: string
  su_value_id :: string

record scaled_level =
  lv_supply :: string
  lv_fraction :: rat

record pulse_shape =
  pu_low :: scaled_level
  pu_high :: scaled_level
  pu_delay :: rat
  pu_rise :: rat
  pu_fall :: rat
  pu_width :: rat
  pu_period :: rat
  pu_count :: nat

datatype stimulus_doc =
    DcState string string string scaled_level
  | PulseTrain string string string pulse_shape
  | PhasePair string string string string string pulse_shape value_source
  | SmallSignal string string

record stimulus =
  st_id :: string
  st_doc :: stimulus_doc

record loop_construction =
  lc_pump :: value_source
  lc_vco :: value_source
  lc_divider :: value_source
  lc_r1 :: value_source
  lc_c1 :: value_source
  lc_r2 :: value_source
  lc_c2 :: value_source

datatype probe_doc =
    PortVoltage string string
  | PortCurrent string string
  | InternalNode string string
  | BranchCurrent string string string
  | LoopGain string string string loop_construction

record probe =
  pr_id :: string
  pr_unit :: string
  pr_doc :: probe_doc

datatype analysis =
    DcSweep string value_source value_source value_source
  | PulseTransient string value_source value_source
  | PhaseTransient string value_source value_source
  | LinearAc string value_source value_source

datatype state_policy =
    Fresh "(bool \<times> string \<times> rat) list"
  | Carryover string string

datatype settle_policy =
    OperatingPoint
  | FixedTime rat
  | UntilDelta string quantity rat rat

datatype measurement_doc =
    Integrate string string value_source value_source "(string \<times> nat) option"
  | LinearFit string value_source value_source
  | Crossing string threshold string nat
  | Sign string quantity
  | Curve string
  | MaxAbs string
  | Mismatch string string quantity
  | Compliance string quantity quantity
  | LoopTransfer string
  | UnityFrequency string
  | PhaseMargin string string

record plan_measurement =
  me_id :: string
  me_unit :: string
  me_doc :: measurement_doc

datatype rule_doc =
    R2Rule string rat
  | SettlingRule "string list" quantity
  | MonotonicityRule string quantity
  | SignChangeRule string quantity
  | FiniteRule "string list"
  | ThresholdRule string threshold string
  | CrossingsRule string threshold nat nat
  | PulseCountRule string nat nat
  | UnityRule string nat nat

record validity_rule =
  vr_id :: string
  vr_doc :: rule_doc
  vr_reason :: string

datatype operand =
    OperandValue quantity
  | OperandReduction string string string

datatype sample_axis =
    AxisValue quantity
  | AxisParameter string string

datatype selector =
    SelectIndex nat
  | SelectCondition string quantity

datatype reduction_doc =
    CollectArray "((string \<times> string) \<times> (string \<times> quantity) list) list"
  | CollectCurve string "(sample_axis \<times> (string \<times> string)) list"
  | ReduceFit string quantity quantity
  | ReduceCrossing string threshold
  | Arithmetic string "operand list"
  | Select string selector
  | Intersection string string operand operand

record reduction =
  re_id :: string
  re_unit :: string
  re_doc :: reduction_doc

record plan_point =
  pt_id :: string
  pt_corner :: string
  pt_temperature :: rat
  pt_parameters :: "(string \<times> value_source) list"
  pt_state :: state_policy
  pt_settle :: settle_policy
  pt_active :: "string list"
  pt_analysis :: analysis
  pt_measurements :: "plan_measurement list"
  pt_rules :: "validity_rule list"

record plan_stage =
  sg_id :: string
  sg_depends :: "string list"
  sg_inputs :: "(string \<times> string) list"
  sg_points :: "plan_point list"
  sg_reductions :: "reduction list"
  sg_rules :: "validity_rule list"

datatype binding_source =
    FromMeasurement string string string string
  | FromReduction string string string

record plan_binding =
  bi_id :: string
  bi_from :: binding_source
  bi_to :: "string \<times> string"
  bi_unit :: string
  bi_transform :: "rat option"

datatype observable_source =
    ObMeasurement string string string
  | ObValidity string string string
  | ObReduction string string string
  | ObStageValidity string string

record plan_observable =
  ob_id :: string
  ob_source :: observable_source
  ob_unit :: string
  ob_shape :: string

record plan_document =
  pl_id :: string
  pl_dut :: dut_binding
  pl_supplies :: "supply_doc list"
  pl_corners :: "corner_binding list"
  pl_stimuli :: "stimulus list"
  pl_probes :: "probe list"
  pl_stages :: "plan_stage list"
  pl_bindings :: "plan_binding list"
  pl_observables :: "plan_observable list"

section \<open>Kinds\<close>

primrec stimulus_kind :: "stimulus_doc \<Rightarrow> string" where
  "stimulus_kind (DcState s t st l) = ''dc_state''"
| "stimulus_kind (PulseTrain s t pol p) = ''pulse_train''"
| "stimulus_kind (PhasePair s r off rp oq p v) = ''phase_offset_pair''"
| "stimulus_kind (SmallSignal t r) = ''small_signal_ac''"

primrec probe_kind :: "probe_doc \<Rightarrow> string" where
  "probe_kind (PortVoltage p r) = ''dut_port_voltage''"
| "probe_kind (PortCurrent p d) = ''dut_port_current''"
| "probe_kind (InternalNode n r) = ''dut_internal_node''"
| "probe_kind (BranchCurrent s b d) = ''stimulus_branch_current''"
| "probe_kind (LoopGain s r f c) = ''pll_loop_gain''"

primrec analysis_kind :: "analysis \<Rightarrow> string" where
  "analysis_kind (DcSweep s a b c) = ''dc_sweep''"
| "analysis_kind (PulseTransient s a b) = ''pulse_train_transient''"
| "analysis_kind (PhaseTransient s a b) = ''phase_offset_pair_transient''"
| "analysis_kind (LinearAc s a b) = ''linear_ac''"

primrec analysis_stimulus :: "analysis \<Rightarrow> string" where
  "analysis_stimulus (DcSweep s a b c) = s"
| "analysis_stimulus (PulseTransient s a b) = s"
| "analysis_stimulus (PhaseTransient s a b) = s"
| "analysis_stimulus (LinearAc s a b) = s"

primrec measurement_kind :: "measurement_doc \<Rightarrow> string" where
  "measurement_kind (Integrate q p a b n) = ''integrate''"
| "measurement_kind (LinearFit m a b) = ''linear_fit''"
| "measurement_kind (Crossing m t dir n) = ''crossing''"
| "measurement_kind (Sign m z) = ''sign''"
| "measurement_kind (Curve p) = ''curve''"
| "measurement_kind (MaxAbs m) = ''max_abs''"
| "measurement_kind (Mismatch a r fl) = ''mismatch_fraction''"
| "measurement_kind (Compliance m l u) = ''compliance_interval''"
| "measurement_kind (LoopTransfer p) = ''loop_transfer''"
| "measurement_kind (UnityFrequency m) = ''unity_frequency''"
| "measurement_kind (PhaseMargin m u) = ''negative_feedback_phase_margin''"

primrec reduction_kind :: "reduction_doc \<Rightarrow> string" where
  "reduction_kind (CollectArray items) = ''collect_array''"
| "reduction_kind (CollectCurve u samples) = ''collect_curve''"
| "reduction_kind (ReduceFit p a b) = ''linear_fit''"
| "reduction_kind (ReduceCrossing p t) = ''crossing''"
| "reduction_kind (Arithmetic op xs) = ''arithmetic''"
| "reduction_kind (Select p s) = ''select''"
| "reduction_kind (Intersection p n a b) = ''compliance_intersection''"

text \<open>
  The parents a measurement names, with the property that names each, in the order the code reads
  the four properties.
\<close>

primrec measurement_parents :: "measurement_doc \<Rightarrow> (string \<times> string) list" where
  "measurement_parents (Integrate q p a b n) = []"
| "measurement_parents (LinearFit m a b) = [(''input_measurement_id'', m)]"
| "measurement_parents (Crossing m t dir n) = [(''input_measurement_id'', m)]"
| "measurement_parents (Sign m z) = [(''input_measurement_id'', m)]"
| "measurement_parents (Curve p) = []"
| "measurement_parents (MaxAbs m) = [(''input_measurement_id'', m)]"
| "measurement_parents (Mismatch a r fl) =
     [(''actual_measurement_id'', a), (''reference_measurement_id'', r)]"
| "measurement_parents (Compliance m l u) = [(''input_measurement_id'', m)]"
| "measurement_parents (LoopTransfer p) = []"
| "measurement_parents (UnityFrequency m) = [(''input_measurement_id'', m)]"
| "measurement_parents (PhaseMargin m u) =
     [(''input_measurement_id'', m), (''unity_frequency_measurement_id'', u)]"

section \<open>Units\<close>

definition divide_units :: "string \<Rightarrow> string \<Rightarrow> string option" where
  "divide_units numerator denominator =
     (if denominator = ''1'' then Some numerator
      else if numerator = denominator then Some ''1''
      else map_of
        [((''C'', ''A''), ''s''), ((''A'', ''V''), ''A/V''), ((''C'', ''V''), ''C/V''),
         ((''V'', ''s''), ''V/s''), ((''A'', ''s''), ''A/s''), ((''C'', ''s''), ''A'')]
        (numerator, denominator))"

definition multiply_units :: "string \<Rightarrow> string \<Rightarrow> string option" where
  "multiply_units left right =
     (if left = ''1'' then Some right
      else if right = ''1'' then Some left
      else if {left, right} = {''A'', ''s''} then Some ''C''
      else if {left, right} = {''A/V'', ''V''} then Some ''A''
      else if {left, right} = {''C/V'', ''V''} then Some ''C''
      else if {left, right} = {''V/s'', ''s''} then Some ''V''
      else None)"

definition fit_unit :: "string \<Rightarrow> string" where
  "fit_unit u =
     (case map_of [(''A'', ''A/V''), (''C'', ''C/V''), (''V'', ''V/V'')] u of Some v \<Rightarrow> v | None \<Rightarrow> u)"

definition fit_intercept_unit :: "string \<Rightarrow> string" where
  "fit_intercept_unit u =
     (case map_of [(''A/V'', ''A''), (''C/V'', ''C''), (''V/V'', ''V'')] u of Some v \<Rightarrow> v | None \<Rightarrow> u)"

definition threshold_unit :: "threshold \<Rightarrow> supply_doc list \<Rightarrow> string option" where
  "threshold_unit t supplies =
     (case t of
        SupplyScaled s fraction \<Rightarrow> (if s \<in> set (map su_id supplies) then Some ''V'' else None)
      | ThresholdQuantity q \<Rightarrow> Some (q_unit q))"

definition point_curve_axis_unit :: "plan_measurement \<Rightarrow> analysis \<Rightarrow> string option" where
  "point_curve_axis_unit m analysis =
     (if measurement_kind (me_doc m) \<notin> {''curve'', ''loop_transfer''} then None
      else map_of [(''dc_sweep'', ''V''), (''pulse_train_transient'', ''s''),
                   (''phase_offset_pair_transient'', ''s''), (''linear_ac'', ''Hz'')]
             (analysis_kind analysis))"

text \<open>Dictionary lookups by identifier.\<close>

definition find_id :: "('a \<Rightarrow> string) \<Rightarrow> 'a list \<Rightarrow> string \<Rightarrow> 'a option" where
  "find_id ident xs k = find (\<lambda>x. ident x = k) xs"

lemma find_id_Some: "find_id ident xs k = Some x \<Longrightarrow> x \<in> set xs \<and> ident x = k"
  by (auto simp: find_id_def find_Some_iff)

lemma find_id_None: "find_id ident xs k = None \<longleftrightarrow> k \<notin> ident ` set xs"
  by (auto simp: find_id_def find_None_iff)

end
