(* ===== verification/PlanParts.thy ===== *)
theory PlanParts
  imports PlanModel
begin

text \<open>
  The sealed identities of a testbench plan: the validators of the DUT binding, the corner
  bindings, the supplies, the stimuli and the probes of \<open>testbench_plan.py\<close>.  Each returns the
  issues it records and the dictionary it builds, which is the list of the documents accepted
  under a new identifier, in insertion order.
\<close>

section \<open>Building a dictionary\<close>

text \<open>
  The loop all these validators share: a repeated identifier is recorded and skipped, otherwise the
  body runs on the dictionary so far and the document is added.
\<close>

fun register :: "('a \<Rightarrow> string) \<Rightarrow> string \<Rightarrow> string \<Rightarrow> (string \<Rightarrow> 'a list \<Rightarrow> 'a \<Rightarrow> issue list) \<Rightarrow>
    nat \<Rightarrow> 'a list \<Rightarrow> 'a list \<Rightarrow> issue list \<times> 'a list" where
  "register ident base label body i out [] = ([], out)"
| "register ident base label body i out (raw # raws) =
     (if ident raw \<in> ident ` set out
      then (case register ident base label body (Suc i) out raws of
              (iss, out') \<Rightarrow> (add ''id.duplicate'' (at_index base i @ ''/id'') (''duplicate '' @ label) @ iss, out'))
      else (case register ident base label body (Suc i) (out @ [raw]) raws of
              (iss, out') \<Rightarrow> (body (at_index base i) out raw @ iss, out')))"

lemma register_silent:
  "register ident base label body i out raws = ([], out') \<Longrightarrow> distinct (map ident out) \<Longrightarrow>
   out' = out @ raws \<and> distinct (map ident out') \<and>
   (\<forall>k < length raws. body (at_index base (i + k)) (out @ take k raws) (raws ! k) = [])"
proof (induction ident base label body i out raws arbitrary: out' rule: register.induct)
  case (2 ident base label body i out raw raws)
  then have new: "ident raw \<notin> ident ` set out" by (auto split: if_splits prod.splits)
  obtain iss where r: "register ident base label body (Suc i) (out @ [raw]) raws = (iss, out')"
      "body (at_index base i) out raw = []" "iss = []"
    using "2.prems"(1) new by (auto split: prod.splits)
  have d: "distinct (map ident (out @ [raw]))" using "2.prems"(2) new by auto
  note ih = "2.IH"(2) [OF new r(1) [unfolded r(3)] d]
  have "body (at_index base (i + k)) (out @ take k (raw # raws)) ((raw # raws) ! k) = []"
    if "k < length (raw # raws)" for k
    using ih r(2) that by (cases k) auto
  moreover have "distinct (map ident out')" using ih by blast
  moreover have "out' = out @ raw # raws" using ih by simp
  ultimately show ?case by blast
qed simp

text \<open>What a silent registration gives, from an empty dictionary.\<close>

lemma register_ok:
  assumes "register ident base label body 0 [] raws = ([], out)"
  shows "out = raws" and "distinct (map ident raws)"
    and "\<And>k. k < length raws \<Longrightarrow> body (at_index base k) (take k raws) (raws ! k) = []"
  using register_silent [OF assms] by auto

lemma register_ok_mem:
  assumes "register ident base label body 0 [] raws = ([], out)" and "x \<in> set raws"
  shows "\<exists>path before. body path before x = [] \<and> set before \<subseteq> set raws"
proof -
  obtain k where "k < length raws" "x = raws ! k" using assms(2) by (auto simp: in_set_conv_nth)
  then show ?thesis using register_ok(3) [OF assms(1)] set_take_subset by metis
qed

section \<open>The DUT\<close>

fun split_on :: "char \<Rightarrow> string \<Rightarrow> string list" where
  "split_on c [] = [[]]"
| "split_on c (x # xs) =
     (if x = c then [] # split_on c xs
      else (case split_on c xs of [] \<Rightarrow> [[x]] | w # ws \<Rightarrow> (x # w) # ws))"

text \<open>
  The locator test; on the locators the schema admits, \<open>normpath\<close> and the parts of the path ask
  the same question of the components.
\<close>

definition canonical_locator :: "string \<Rightarrow> bool" where
  "canonical_locator s =
     (case s of
        [] \<Rightarrow> False
      | c # rest \<Rightarrow> c = CHR ''/'' \<and> list_all (\<lambda>w. w \<notin> {'''', ''.'', ''..''}) (split_on (CHR ''/'') rest))"

definition port_names :: "dut_binding \<Rightarrow> string list" where
  "port_names dut = map port_name (dut_ports dut)"

definition exposed_nodes :: "dut_binding \<Rightarrow> string list" where
  "exposed_nodes dut = concat (map port_internals (dut_ports dut))"

definition find_port :: "dut_binding \<Rightarrow> string \<Rightarrow> dut_port option" where
  "find_port dut n = find (\<lambda>p. port_name p = n) (rev (dut_ports dut))"

definition validate_dut :: "dut_binding \<Rightarrow> issue list" where
  "validate_dut dut =
     (let names = port_names dut; internals = exposed_nodes dut;
          bound = map fst (dut_connections dut)
      in add_if (\<not> canonical_locator (dut_artifact dut)) ''dut.locator_invalid'' ''/dut/artifact''
           ''artifact must be one canonical absolute non-expanding locator''
       @ add_if (casefold (dut_namespace dut) = casefold (dut_top dut) \<or>
                 take 7 (dut_namespace dut) = ''openada'')
           ''dut.namespace_collision'' ''/dut/namespace''
           ''namespace must not shadow the DUT top or OpenADA-owned namespace''
       @ concat (map (\<lambda>f. add ''dut.port_duplicate'' ''/dut/ports''
           (''DUT port names collide case-insensitively at '' @ repr_text f)) (folded_duplicates names))
       @ concat (map (\<lambda>f. add ''dut.internal_node_duplicate'' ''/dut/ports''
           (''exposed internal nodes collide case-insensitively at '' @ repr_text f))
           (folded_duplicates internals))
       @ concat (map (\<lambda>f. add ''dut.namespace_collision'' ''/dut/ports''
           (''port and internal-node ABI names collide at '' @ repr_text f))
           (sorted_texts (filter (\<lambda>f. f \<in> set (map casefold internals)) (map casefold names))))
       @ concat (map (\<lambda>n. add ''dut.port_unbound'' (''/dut/connections/'' @ n)
           (''DUT port '' @ repr_text n @ '' has no external connection''))
           (sorted_texts (filter (\<lambda>n. n \<notin> set bound) names)))
       @ concat (map (\<lambda>n. add ''dut.port_unknown'' (''/dut/connections/'' @ n)
           (repr_text n @ '' is not in the sealed port ABI''))
           (sorted_texts (filter (\<lambda>n. n \<notin> set names) bound))))"

section \<open>Corners\<close>

text \<open>\<open>entries\<close>, as the last unit stored under each value id.\<close>

definition corner_values :: "corner_binding \<Rightarrow> (string \<times> string) list" where
  "corner_values cb =
     (let stored = map (\<lambda>(k, q). (k, q_unit q)) (rev (cb_values cb))
      in map (\<lambda>k. (k, the (map_of stored k))) (remdups (map fst stored)))"

definition corner_value :: "corner_binding \<Rightarrow> string \<Rightarrow> quantity option" where
  "corner_value cb k = map_of (rev (cb_values cb)) k"

fun repeated_values :: "string \<Rightarrow> nat \<Rightarrow> string list \<Rightarrow> (string \<times> quantity) list \<Rightarrow> issue list" where
  "repeated_values path i seen [] = []"
| "repeated_values path i seen ((k, q) # rest) =
     add_if (k \<in> set seen) ''id.duplicate'' (at_index (path @ ''/values'') i @ ''/id'')
       ''duplicate corner value id''
     @ repeated_values path (Suc i) (k # seen) rest"

definition corner_body :: "string \<Rightarrow> corner_binding list \<Rightarrow> corner_binding \<Rightarrow> issue list" where
  "corner_body path out cb =
     repeated_values path 0 [] (cb_values cb)
     @ (case out of
          [] \<Rightarrow> []
        | cb1 # cbs \<Rightarrow>
            add_if (set (corner_values cb1) \<noteq> set (corner_values cb)) ''corner.abi_mismatch''
              (path @ ''/values'') ''every corner must expose the same typed value ABI'')"

definition validate_corners :: "corner_binding list \<Rightarrow> issue list \<times> corner_binding list" where
  "validate_corners cbs = register cb_id ''/corner_bindings'' ''corner id'' corner_body 0 [] cbs"

section \<open>Supplies\<close>

definition supply_at_corner :: "string \<Rightarrow> supply_doc \<Rightarrow> corner_binding \<Rightarrow> issue list" where
  "supply_at_corner path su cb =
     (case corner_value cb (su_value_id su) of
        None \<Rightarrow> add ''supply.corner_value_unknown'' (path @ ''/voltage/value_id'')
          (''corner '' @ repr_text (cb_id cb) @ '' does not expose '' @ repr_text (su_value_id su))
      | Some q \<Rightarrow>
          add_if (q_unit q \<noteq> ''V'' \<or> q_value q \<le> 0) ''supply.voltage_invalid''
            (''/corner_bindings/'' @ cb_id cb @ ''/values/'' @ su_value_id su)
            ''supply corner value must be a positive voltage'')"

definition supply_body ::
  "dut_binding \<Rightarrow> corner_binding list \<Rightarrow> string \<Rightarrow> supply_doc list \<Rightarrow> supply_doc \<Rightarrow> issue list" where
  "supply_body dut corners path out su =
     (let nets = ''0'' # map snd (dut_connections dut)
      in add_if (casefold (su_positive su) = casefold (su_negative su)) ''supply.terminal_short'' path
           ''positive and negative terminals must differ''
       @ add_if (su_positive su \<notin> set nets) ''supply.net_unknown'' (path @ ''/positive'')
           (''net '' @ repr_text (su_positive su) @ '' is outside the DUT connection namespace'')
       @ add_if (su_negative su \<notin> set nets) ''supply.net_unknown'' (path @ ''/negative'')
           (''net '' @ repr_text (su_negative su) @ '' is outside the DUT connection namespace'')
       @ concat (map (supply_at_corner path su) corners))"

definition validate_supplies ::
  "dut_binding \<Rightarrow> corner_binding list \<Rightarrow> supply_doc list \<Rightarrow> issue list \<times> supply_doc list" where
  "validate_supplies dut corners sus =
     register su_id ''/supplies'' ''supply id'' (supply_body dut corners) 0 [] sus"

section \<open>Stimuli\<close>

primrec stimulus_supply :: "stimulus_doc \<Rightarrow> string option" where
  "stimulus_supply (DcState s t st l) = Some s"
| "stimulus_supply (PulseTrain s t pol p) = Some s"
| "stimulus_supply (PhasePair s r off rp oq p v) = Some s"
| "stimulus_supply (SmallSignal t r) = None"

text \<open>The driven ports, with the property that names each.\<close>

primrec stimulus_ports :: "stimulus_doc \<Rightarrow> (string \<times> string) list" where
  "stimulus_ports (DcState s t st l) = [(''target_port'', t)]"
| "stimulus_ports (PulseTrain s t pol p) = [(''target_port'', t)]"
| "stimulus_ports (PhasePair s r off rp oq p v) = [(''reference_port'', r), (''offset_port'', off)]"
| "stimulus_ports (SmallSignal t r) = [(''target_port'', t)]"

primrec stimulus_shape :: "stimulus_doc \<Rightarrow> pulse_shape option" where
  "stimulus_shape (DcState s t st l) = None"
| "stimulus_shape (PulseTrain s t pol p) = Some p"
| "stimulus_shape (PhasePair s r off rp oq p v) = Some p"
| "stimulus_shape (SmallSignal t r) = None"

definition stimulus_levels :: "stimulus_doc \<Rightarrow> (string \<times> scaled_level) list" where
  "stimulus_levels d =
     (case d of
        DcState s t st l \<Rightarrow> [(''level'', l)]
      | PulseTrain s t pol p \<Rightarrow> [(''low_level'', pu_low p), (''high_level'', pu_high p)]
      | PhasePair s r off rp oq p v \<Rightarrow> [(''low_level'', pu_low p), (''high_level'', pu_high p)]
      | SmallSignal t r \<Rightarrow> [])"

definition allowed_directions :: "stimulus_doc \<Rightarrow> string list \<times> string" where
  "allowed_directions d =
     (case d of
        SmallSignal t r \<Rightarrow>
          ([''input'', ''output'', ''inout''], ''AC current injection must name a signal DUT port'')
      | DcState s t st l \<Rightarrow>
          (if st = ''bias''
           then ([''output'', ''inout'', ''reference''],
                 ''bias state must drive an output, inout, or reference port'')
           else ([''input'', ''inout''], ''stimulus target must be an input or inout DUT port''))
      | _ \<Rightarrow> ([''input'', ''inout''], ''stimulus target must be an input or inout DUT port''))"

definition stimulus_port_issues :: "dut_binding \<Rightarrow> string \<Rightarrow> stimulus_doc \<Rightarrow> string \<times> string \<Rightarrow> issue list"
where
  "stimulus_port_issues dut path d field =
     (case find_port dut (snd field) of
        None \<Rightarrow> add ''stimulus.port_unknown'' (path @ ''/'' @ fst field)
          (''unknown DUT port '' @ repr_text (snd field))
      | Some p \<Rightarrow>
          add_if (port_direction p \<notin> set (fst (allowed_directions d))) ''stimulus.port_incompatible''
            (path @ ''/'' @ fst field) (snd (allowed_directions d)))"

definition small_signal_issues :: "dut_binding \<Rightarrow> string \<Rightarrow> string \<Rightarrow> string \<Rightarrow> issue list" where
  "small_signal_issues dut path target reference =
     (case find_port dut reference of
        None \<Rightarrow> add ''stimulus.port_unknown'' (path @ ''/reference_port'')
          (''unknown DUT reference port '' @ repr_text reference)
      | Some p \<Rightarrow>
          add_if (port_direction p \<notin> {''reference'', ''supply''}) ''stimulus.port_incompatible''
            (path @ ''/reference_port'') ''AC injection reference must be a DUT reference or supply port'')
     @ add_if (casefold reference = casefold target) ''stimulus.port_incompatible'' path
         ''AC injection target and reference must be distinct''"

text \<open>\<open>float(x)\<close> of a schema-bounded number, and the comparisons on it.\<close>

definition py_float :: "rat \<Rightarrow> pyfloat" where
  "py_float q = round64 q"

definition level_issues :: "string \<Rightarrow> stimulus_doc \<Rightarrow> issue list" where
  "level_issues path d =
     concat (map (\<lambda>(field, l).
       add_if (Some (lv_supply l) \<noteq> stimulus_supply d) ''stimulus.supply_conflict''
         (path @ ''/'' @ field @ ''/supply_id'') ''supply-scaled level must use the stimulus supply'')
       (stimulus_levels d))"

definition dc_level_issues :: "string \<Rightarrow> string \<Rightarrow> scaled_level \<Rightarrow> issue list" where
  "dc_level_issues path st l =
     (let fraction = py_float (lv_fraction l)
      in add_if (st \<noteq> ''bias'' \<and>
                 (st = ''low'' \<and> flt (PFin (1 / 2)) fraction \<or> st = ''high'' \<and> fle fraction (PFin (1 / 2))))
           ''stimulus.level_inconsistent'' (path @ ''/level/fraction'')
           ''declared logic state conflicts with its supply-scaled level'')"

text \<open>
  \<open>sum\<close> of the three durations, left to right, as Python 3.10 and 3.11 form it; from 3.12 on \<open>sum\<close>
  compensates its rounding, which can move the last bit.
\<close>

definition occupied :: "pulse_shape \<Rightarrow> pyfloat" where
  "occupied p = fadd (fadd (py_float (pu_rise p)) (py_float (pu_width p))) (py_float (pu_fall p))"

definition pulse_issues :: "string \<Rightarrow> pulse_shape \<Rightarrow> issue list" where
  "pulse_issues path p =
     add_if (fle (py_float (lv_fraction (pu_high p))) (py_float (lv_fraction (pu_low p))))
       ''stimulus.level_inconsistent'' path ''high_level fraction must exceed low_level fraction''
     @ concat (map (\<lambda>(field, x). add_if (flt (py_float x) (PFin 0)) ''stimulus.timing_invalid''
         (path @ ''/'' @ field @ ''/value'') ''must be non-negative'')
         [(''delay'', pu_delay p), (''rise_time'', pu_rise p), (''fall_time'', pu_fall p)])
     @ concat (map (\<lambda>(field, x). add_if (fle (py_float x) (PFin 0)) ''stimulus.timing_invalid''
         (path @ ''/'' @ field @ ''/value'') ''must be greater than zero'')
         [(''pulse_width'', pu_width p), (''period'', pu_period p)])
     @ add_if (flt (py_float (pu_period p)) (occupied p)) ''stimulus.timing_invalid''
         (path @ ''/period/value'') ''period must cover rise, pulse width, and fall times''"

definition stimulus_body ::
  "dut_binding \<Rightarrow> supply_doc list \<Rightarrow> string \<Rightarrow> stimulus list \<Rightarrow> stimulus \<Rightarrow> issue list" where
  "stimulus_body dut supplies path out st =
     (let d = st_doc st
      in (case stimulus_supply d of
            None \<Rightarrow> []
          | Some s \<Rightarrow> add_if (s \<notin> su_id ` set supplies) ''stimulus.supply_unknown''
              (path @ ''/supply_id'') (''unknown supply '' @ repr_text s))
       @ concat (map (stimulus_port_issues dut path d) (stimulus_ports d))
       @ (case d of
            SmallSignal target reference \<Rightarrow> small_signal_issues dut path target reference
          | DcState s t state l \<Rightarrow> level_issues path d @ dc_level_issues path state l
          | PulseTrain s t pol p \<Rightarrow> level_issues path d @ pulse_issues path p
          | PhasePair s reference offset rp oq p v \<Rightarrow>
              add_if (casefold reference = casefold offset) ''stimulus.port_incompatible'' path
                ''phase-offset pair requires two distinct DUT ports''
              @ level_issues path d @ pulse_issues path p))"

definition validate_stimuli ::
  "dut_binding \<Rightarrow> supply_doc list \<Rightarrow> stimulus list \<Rightarrow> issue list \<times> stimulus list" where
  "validate_stimuli dut supplies sts =
     register st_id ''/stimuli'' ''stimulus id'' (stimulus_body dut supplies) 0 [] sts"

section \<open>Probes\<close>

definition probe_port_issues :: "dut_binding \<Rightarrow> string \<Rightarrow> string \<Rightarrow> string \<Rightarrow> string \<Rightarrow> issue list" where
  "probe_port_issues dut path field what name =
     add_if (name \<notin> set (port_names dut)) ''probe.port_unknown'' (path @ ''/'' @ field)
       (''unknown '' @ what @ '' '' @ repr_text name)"

definition branch_issues :: "stimulus list \<Rightarrow> string \<Rightarrow> string \<Rightarrow> string \<Rightarrow> issue list" where
  "branch_issues stimuli path sid branch =
     (case find_id st_id stimuli sid of
        None \<Rightarrow> add ''probe.stimulus_unknown'' (path @ ''/stimulus_id'') (''unknown stimulus '' @ repr_text sid)
      | Some st \<Rightarrow>
          add_if (branch \<notin> (if stimulus_kind (st_doc st) = ''phase_offset_pair''
                             then {''reference'', ''offset''} else {''single''}))
            ''probe.branch_incompatible'' (path @ ''/branch'')
            (''phase-pair sources require an exact reference or ''
             @ ''offset branch; single-output sources require '' @ repr_text ''single''))"

definition loop_probe_issues ::
  "stimulus list \<Rightarrow> probe list \<Rightarrow> string \<Rightarrow> string \<Rightarrow> string \<Rightarrow> issue list" where
  "loop_probe_issues stimuli out path injection response =
     (case find_id st_id stimuli injection of
        None \<Rightarrow> add ''probe.stimulus_unknown'' (path @ ''/injection_stimulus_id'')
          ''PLL loop gain names an unknown AC injection''
      | Some st \<Rightarrow>
          add_if (stimulus_kind (st_doc st) \<noteq> ''small_signal_ac'') ''probe.stimulus_incompatible''
            (path @ ''/injection_stimulus_id'')
            ''PLL loop gain requires a small_signal_ac current injection'')
     @ (case find_id pr_id out response of
          None \<Rightarrow> add ''probe.response_unknown'' (path @ ''/response_probe_id'')
            ''loop response must name an earlier physical voltage probe''
        | Some p \<Rightarrow>
            add_if (probe_kind (pr_doc p) \<notin> {''dut_port_voltage'', ''dut_internal_node''})
              ''probe.response_incompatible'' (path @ ''/response_probe_id'')
              ''loop response must be a physical DUT voltage identity'')"

definition probe_body ::
  "dut_binding \<Rightarrow> stimulus list \<Rightarrow> string \<Rightarrow> probe list \<Rightarrow> probe \<Rightarrow> issue list" where
  "probe_body dut stimuli path out pr =
     (case pr_doc pr of
        PortVoltage port reference \<Rightarrow>
          probe_port_issues dut path ''port'' ''DUT port'' port
          @ probe_port_issues dut path ''reference_port'' ''reference port'' reference
      | PortCurrent port direction \<Rightarrow> probe_port_issues dut path ''port'' ''DUT port'' port
      | InternalNode node reference \<Rightarrow>
          probe_port_issues dut path ''reference_port'' ''reference port'' reference
          @ add_if (node \<notin> set (exposed_nodes dut)) ''probe.internal_node_unexposed'' (path @ ''/node'')
              ''DUT-internal node is absent from the sealed probe ABI''
      | BranchCurrent sid branch direction \<Rightarrow> branch_issues stimuli path sid branch
      | LoopGain injection response feedback construction \<Rightarrow>
          loop_probe_issues stimuli out path injection response)"

definition validate_probes ::
  "dut_binding \<Rightarrow> stimulus list \<Rightarrow> probe list \<Rightarrow> issue list \<times> probe list" where
  "validate_probes dut stimuli prs =
     register pr_id ''/probes'' ''probe id'' (probe_body dut stimuli) 0 [] prs"

end
