(* ===== verification/PlanDag.thy ===== *)
theory PlanDag
  imports PlanModel
begin

text \<open>
  The cycle check \<open>_check_dag\<close> of \<open>testbench_plan.py\<close>: the depth-first search as the code writes
  it, and the proof that it reports an issue exactly when the dependency graph has a cycle.
\<close>

section \<open>The search\<close>

text \<open>
  A graph maps each node to the nodes it depends on.  \<open>dag_visit\<close> is the inner function \<open>visit\<close>:
  \<open>active\<close> is the set the code adds the node to before the recursion and removes it from
  afterwards, so it is passed down; \<open>finished\<close> is threaded through, newest first; \<open>dag_parents\<close> is
  the loop over the parents that are nodes themselves.
\<close>

type_synonym graph = "(string \<times> string list) list"

definition graph_parents :: "graph \<Rightarrow> string \<Rightarrow> string list" where
  "graph_parents g n =
     (case map_of g n of None \<Rightarrow> [] | Some ps \<Rightarrow> filter (\<lambda>p. p \<in> set (map fst g)) ps)"

definition cycle_issue :: "string \<Rightarrow> string list \<Rightarrow> string \<Rightarrow> issue list" where
  "cycle_issue path trail n =
     add ''graph.cycle'' path (''dependency cycle: '' @ join '' -> '' (trail @ [n]))"

function dag_visit :: "graph \<Rightarrow> string \<Rightarrow> string list \<Rightarrow> string list \<Rightarrow> string \<Rightarrow> string list \<Rightarrow>
    issue list \<times> string list"
  and dag_parents :: "graph \<Rightarrow> string \<Rightarrow> string list \<Rightarrow> string list \<Rightarrow> string list \<Rightarrow> string list \<Rightarrow>
    issue list \<times> string list" where
  "dag_visit g path active trail n finished =
     (if n \<in> set finished then ([], finished)
      else if n \<in> set active then (cycle_issue path trail n, finished)
      else (case dag_parents g path (n # active) (trail @ [n]) (graph_parents g n) finished of
              (iss, finished') \<Rightarrow> (iss, n # finished')))"
| "dag_parents g path active trail [] finished = ([], finished)"
| "dag_parents g path active trail (p # ps) finished =
     (case dag_visit g path active trail p finished of
        (iss, finished') \<Rightarrow>
          (case dag_parents g path active trail ps finished' of
             (iss', finished'') \<Rightarrow> (iss @ iss', finished'')))"
  by pat_completeness auto

lemma graph_parents_node: "p \<in> set (graph_parents g n) \<Longrightarrow> p \<in> set (map fst g) \<and> n \<in> set (map fst g)"
  by (cases "map_of g n") (auto simp: graph_parents_def dest!: map_of_SomeD intro: rev_image_eqI)

termination dag_visit
proof (relation "inv_image (less_than <*lex*> less_than) (\<lambda>x. case x of
      Inl (g, path, active, trail, n, finished) \<Rightarrow> (card (set (map fst g) - set active), 1)
    | Inr (g, path, active, trail, ps, finished) \<Rightarrow> (card (set (map fst g) - set active), 2 * length ps))")
  fix g :: graph and path n :: string and active trail finished :: "string list"
  assume new: "n \<notin> set finished" "n \<notin> set active"
  show "(Inr (g, path, n # active, trail @ [n], graph_parents g n, finished),
         Inl (g, path, active, trail, n, finished)) \<in> inv_image (less_than <*lex*> less_than) (\<lambda>x. case x of
      Inl (g, path, active, trail, n, finished) \<Rightarrow> (card (set (map fst g) - set active), 1)
    | Inr (g, path, active, trail, ps, finished) \<Rightarrow> (card (set (map fst g) - set active), 2 * length ps))"
  proof (cases "n \<in> set (map fst g)")
    case True
    then have "set (map fst g) - set (n # active) \<subset> set (map fst g) - set active"
      using new(2) by auto
    then have "card (set (map fst g) - set (n # active)) < card (set (map fst g) - set active)"
      by (intro psubset_card_mono) auto
    then show ?thesis by simp
  next
    case False
    then have "graph_parents g n = []"
      using graph_parents_node [of _ g n] by (cases "graph_parents g n") auto
    moreover have "set (map fst g) - set (n # active) = set (map fst g) - set active"
      using False by auto
    ultimately show ?thesis by simp
  qed
qed auto

declare dag_visit.simps [simp del]

fun dag_nodes :: "graph \<Rightarrow> string \<Rightarrow> string list \<Rightarrow> string list \<Rightarrow> issue list" where
  "dag_nodes g path [] finished = []"
| "dag_nodes g path (n # ns) finished =
     (case dag_visit g path [] [] n finished of
        (iss, finished') \<Rightarrow> iss @ dag_nodes g path ns finished')"

definition check_dag :: "graph \<Rightarrow> string \<Rightarrow> issue list" where
  "check_dag g path = dag_nodes g path (map fst g) []"

section \<open>What it decides\<close>

definition edges :: "graph \<Rightarrow> (string \<times> string) set" where
  "edges g = {(n, p). p \<in> set (graph_parents g n)}"

text \<open>
  A silent search extends the completion order, in which every node comes after its parents.
\<close>

fun topo :: "graph \<Rightarrow> string list \<Rightarrow> bool" where
  "topo g [] = True"
| "topo g (n # rest) = (set (graph_parents g n) \<subseteq> set rest \<and> n \<notin> set rest \<and> topo g rest)"

lemma dag_silent:
  "dag_visit g path active trail n finished = ([], finished') \<Longrightarrow> topo g finished \<Longrightarrow>
     set finished \<inter> set active = {} \<Longrightarrow>
     topo g finished' \<and> set finished \<subseteq> set finished' \<and> n \<in> set finished' \<and> set finished' \<inter> set active = {}"
  "dag_parents g path active trail ps finished = ([], finished') \<Longrightarrow> topo g finished \<Longrightarrow>
     set finished \<inter> set active = {} \<Longrightarrow>
     topo g finished' \<and> set finished \<subseteq> set finished' \<and> set ps \<subseteq> set finished' \<and> set finished' \<inter> set active = {}"
proof (induction g path active trail n finished and g path active trail ps finished
    arbitrary: finished' and finished' rule: dag_visit_dag_parents.induct)
  case (1 g path active trail n finished)
  show ?case
  proof (cases "n \<in> set finished")
    case True
    then show ?thesis using "1.prems" by (simp add: dag_visit.simps)
  next
    case new: False
    then have act: "n \<notin> set active"
      using "1.prems"(1) by (auto simp: dag_visit.simps cycle_issue_def split: if_splits)
    obtain c where c: "dag_parents g path (n # active) (trail @ [n]) (graph_parents g n) finished = ([], c)"
        "finished' = n # c"
      using "1.prems"(1) new act by (auto simp: dag_visit.simps split: prod.splits)
    from "1.IH" [OF new act c(1) "1.prems"(2)] "1.prems"(3) new c(2) act
    show ?thesis by auto
  qed
next
  case (3 g path active trail p ps finished)
  obtain c where c: "dag_visit g path active trail p finished = ([], c)"
      "dag_parents g path active trail ps c = ([], finished')"
    using "3.prems"(1) by (auto split: prod.splits)
  note step = "3.IH"(1) [OF c(1) "3.prems"(2,3)]
  with "3.IH"(2) [OF c(1) [symmetric] c(2)] show ?case by auto
qed auto

lemma dag_nodes_silent:
  "dag_nodes g path ns finished = [] \<Longrightarrow> topo g finished \<Longrightarrow>
   \<exists>order. topo g order \<and> set ns \<union> set finished \<subseteq> set order"
proof (induction ns arbitrary: finished)
  case (Cons n ns)
  obtain c where c: "dag_visit g path [] [] n finished = ([], c)" "dag_nodes g path ns c = []"
    using Cons.prems(1) by (auto split: prod.splits)
  from dag_silent(1) [OF c(1) Cons.prems(2)] have "topo g c" "set finished \<subseteq> set c" "n \<in> set c" by auto
  with Cons.IH [OF c(2)] show ?case by auto
qed auto

lemma topo_closed: "topo g xs \<Longrightarrow> (n, p) \<in> edges g \<Longrightarrow> n \<in> set xs \<Longrightarrow> p \<in> set xs"
  by (induction xs) (auto simp: edges_def)

lemma topo_reaches: "(n, p) \<in> (edges g)\<^sup>* \<Longrightarrow> topo g xs \<Longrightarrow> n \<in> set xs \<Longrightarrow> p \<in> set xs"
  by (induction rule: rtrancl_induct) (auto intro: topo_closed)

lemma topo_acyclic: "topo g order \<Longrightarrow> n \<in> set order \<Longrightarrow> (n, n) \<notin> (edges g)\<^sup>+"
proof (induction order)
  case (Cons m rest)
  have "(m, m) \<notin> (edges g)\<^sup>+"
  proof
    assume "(m, m) \<in> (edges g)\<^sup>+"
    then obtain q where q: "(m, q) \<in> edges g" "(q, m) \<in> (edges g)\<^sup>*" by (meson tranclD)
    then have "q \<in> set rest" using Cons.prems(1) by (auto simp: edges_def)
    from topo_reaches [OF q(2) _ this] show False using Cons.prems(1) by simp
  qed
  then show ?case using Cons by auto
qed simp

text \<open>A reported cycle is one: the active nodes all lead to the node being visited.\<close>

lemma dag_complains:
  "dag_visit g path active trail n finished = (iss, finished') \<Longrightarrow> iss \<noteq> [] \<Longrightarrow>
     (\<forall>a \<in> set active. (a, n) \<in> (edges g)\<^sup>+) \<Longrightarrow> \<exists>m. (m, m) \<in> (edges g)\<^sup>+"
  "dag_parents g path active trail ps finished = (iss, finished') \<Longrightarrow> iss \<noteq> [] \<Longrightarrow>
     (\<forall>p \<in> set ps. \<forall>a \<in> set active. (a, p) \<in> (edges g)\<^sup>+) \<Longrightarrow> \<exists>m. (m, m) \<in> (edges g)\<^sup>+"
proof (induction g path active trail n finished and g path active trail ps finished
    arbitrary: iss finished' and iss finished' rule: dag_visit_dag_parents.induct)
  case (1 g path active trail n finished)
  show ?case
  proof (cases "n \<in> set active")
    case True
    then show ?thesis using "1.prems"(3) by blast
  next
    case act: False
    have new: "n \<notin> set finished" using "1.prems"(1,2) by (auto simp: dag_visit.simps)
    obtain c where c: "dag_parents g path (n # active) (trail @ [n]) (graph_parents g n) finished = (iss, c)"
      using "1.prems"(1) new act by (auto simp: dag_visit.simps split: prod.splits)
    have "\<forall>p \<in> set (graph_parents g n). \<forall>a \<in> set (n # active). (a, p) \<in> (edges g)\<^sup>+"
      using "1.prems"(3) by (auto simp: edges_def intro: trancl_into_trancl)
    from "1.IH" [OF new act c "1.prems"(2) this] show ?thesis .
  qed
next
  case (3 g path active trail p ps finished)
  obtain i1 c i2 where c: "dag_visit g path active trail p finished = (i1, c)"
      "dag_parents g path active trail ps c = (i2, finished')" "iss = i1 @ i2"
    using "3.prems"(1) by (auto split: prod.splits)
  show ?case
  proof (cases "i1 = []")
    case False
    then show ?thesis using "3.IH"(1) [OF c(1)] "3.prems"(3) by auto
  next
    case True
    then have "i2 \<noteq> []" using "3.prems"(2) c(3) by simp
    then show ?thesis using "3.IH"(2) [OF c(1) [symmetric] c(2)] "3.prems"(3) by auto
  qed
qed auto

lemma dag_nodes_complains:
  "dag_nodes g path ns finished \<noteq> [] \<Longrightarrow> \<exists>m. (m, m) \<in> (edges g)\<^sup>+"
proof (induction ns arbitrary: finished)
  case (Cons n ns)
  obtain i c where c: "dag_visit g path [] [] n finished = (i, c)" by (cases "dag_visit g path [] [] n finished")
  then show ?case
    using Cons dag_complains(1) [OF c] by (cases "i = []") auto
qed simp

text \<open>C31: The depth-first search \<open>_check_dag\<close>, with its active and finished sets, terminates on every
  graph and records an issue exactly when the dependency graph has a cycle.\<close>

theorem check_dag_exact:
  "check_dag g path = [] \<longleftrightarrow> acyclic (edges g)"
proof
  assume "check_dag g path = []"
  then obtain order where o: "topo g order" "set (map fst g) \<subseteq> set order"
    using dag_nodes_silent [of g path "map fst g" "[]"] by (auto simp: check_dag_def)
  show "acyclic (edges g)"
    unfolding acyclic_def
  proof (intro allI notI)
    fix n assume cyc: "(n, n) \<in> (edges g)\<^sup>+"
    then obtain p where "(n, p) \<in> edges g" by (meson tranclD)
    then have "n \<in> set order" using o(2) graph_parents_node [of p g n] by (auto simp: edges_def)
    then show False using topo_acyclic [OF o(1)] cyc by blast
  qed
next
  assume "acyclic (edges g)"
  then show "check_dag g path = []"
    using dag_nodes_complains [of g path "map fst g" "[]"] by (auto simp: check_dag_def acyclic_def)
qed

end
