(* ===== verification/PlanPoints.thy ===== *)
theory PlanPoints
  imports PlanParts PlanDag
begin

text \<open>
  The validators of one condition point of \<open>testbench_plan.py\<close>: value sources, the state and settle
  policies, the analysis and its active stimuli, the measurements and the validity rules over them.
  A subscript that can miss its key is an exception of the measurement validator.
\<close>

section \<open>Value sources\<close>

text \<open>
  The dictionary of stage inputs is keyed by stage and input; a point only looks at its own stage,
  so \<open>inputs\<close> are the declared inputs of that stage, the last one of a name deciding its unit.
\<close>

definition input_unit :: "(string \<times> string) list \<Rightarrow> string \<Rightarrow> string option" where
  "input_unit inputs k = map_of (rev inputs) k"

definition check_value_source ::
  "string \<Rightarrow> (string \<times> string) list \<Rightarrow> string \<Rightarrow> string option \<Rightarrow> value_source \<Rightarrow> issue list" where
  "check_value_source stage inputs path expected v =
     (case vs_input v of
        None \<Rightarrow> []
      | Some k \<Rightarrow>
          (case input_unit inputs k of
             None \<Rightarrow> add ''binding.input_unknown'' (path @ ''/input_id'')
               (''unknown input '' @ repr_text k @ '' in stage '' @ repr_text stage)
           | Some u \<Rightarrow> add_if (u \<noteq> vs_unit v) ''unit.mismatch'' (path @ ''/unit'')
               (''declared input unit '' @ repr_text (vs_unit v) @ '' differs from '' @ repr_text u))
          @ (case vs_offset v of
               None \<Rightarrow> []
             | Some offset \<Rightarrow> add_if (q_unit offset \<noteq> vs_unit v) ''unit.mismatch'' (path @ ''/offset/unit'')
                 ''affine offset must use the value-source output unit''))
     @ (case expected of
          None \<Rightarrow> []
        | Some u \<Rightarrow> add_if (vs_unit v \<noteq> u) ''unit.mismatch'' (path @ ''/unit'')
            (''expected '' @ repr_text u @ '', got '' @ repr_text (vs_unit v)))"

section \<open>Policies\<close>

fun initial_issues :: "dut_binding \<Rightarrow> string \<Rightarrow> nat \<Rightarrow> (bool \<times> string) list \<Rightarrow> (bool \<times> string \<times> rat) list \<Rightarrow>
    issue list" where
  "initial_issues dut path i seen [] = []"
| "initial_issues dut path i seen ((is_port, name, v) # rest) =
     (let here = at_index (path @ ''/state_policy/initial_node_voltages'') i
      in add_if ((is_port, casefold name) \<in> set seen) ''state.initial_duplicate'' here
           ''duplicate initial-voltage identity''
       @ add_if (name \<notin> set (if is_port then port_names dut else exposed_nodes dut)) ''state.node_unknown''
           (here @ (if is_port then ''/port'' else ''/node''))
           ''initial-voltage target is absent from the sealed DUT ABI''
       @ initial_issues dut path (Suc i) ((is_port, casefold name) # seen) rest)"

definition validate_state_policy :: "dut_binding \<Rightarrow> string \<Rightarrow> state_policy \<Rightarrow> issue list" where
  "validate_state_policy dut path st =
     (case st of Fresh initial \<Rightarrow> initial_issues dut path 0 [] initial | Carryover s p \<Rightarrow> [])"

definition validate_settle_policy ::
  "probe list \<Rightarrow> string \<Rightarrow> analysis \<Rightarrow> settle_policy \<Rightarrow> issue list" where
  "validate_settle_policy probes point_path analysis settle =
     (let path = point_path @ ''/settle_policy''
      in case settle of
           OperatingPoint \<Rightarrow>
             add_if (analysis_kind analysis \<noteq> ''dc_sweep'') ''settle.analysis_incompatible'' path
               ''operating_point settling is available only for a DC sweep''
         | FixedTime duration \<Rightarrow>
             add_if (analysis_kind analysis = ''dc_sweep'') ''settle.analysis_incompatible'' path
               ''a DC sweep must declare operating_point settling; fixed_time implies elapsed transient time''
             @ add_if (flt (py_float duration) (PFin 0)) ''settle.invalid'' (path @ ''/duration/value'')
                 ''fixed settle duration must be non-negative''
         | UntilDelta pid tolerance hold_for maximum \<Rightarrow>
             (case find_id pr_id probes pid of
                None \<Rightarrow> add ''settle.probe_unknown'' (path @ ''/probe_id'') (''unknown probe '' @ repr_text pid)
              | Some p \<Rightarrow> add_if (q_unit tolerance \<noteq> pr_unit p) ''unit.mismatch'' (path @ ''/tolerance/unit'')
                  (''settling tolerance must use probe unit '' @ repr_text (pr_unit p)))
             @ concat (map (\<lambda>(field, x). add_if (fle (py_float x) (PFin 0)) ''settle.invalid''
                 (path @ ''/'' @ field @ ''/value'') ''must be greater than zero'')
                 [(''tolerance'', q_value tolerance), (''hold_for'', hold_for), (''maximum'', maximum)])
             @ add_if (flt (py_float maximum) (py_float hold_for)) ''settle.invalid'' path
                 ''hold_for must not exceed maximum'')"

section \<open>The analysis\<close>

primrec analysis_fields :: "analysis \<Rightarrow> (string \<times> value_source) list" where
  "analysis_fields (DcSweep s a b c) = [(''start'', a), (''stop'', b), (''step'', c)]"
| "analysis_fields (PulseTransient s a b) = [(''step'', a), (''stop'', b)]"
| "analysis_fields (PhaseTransient s a b) = [(''step'', a), (''stop'', b)]"
| "analysis_fields (LinearAc s a b) = [(''start'', a), (''stop'', b)]"

definition expected_stimulus_kind :: "analysis \<Rightarrow> string" where
  "expected_stimulus_kind a =
     (case a of DcSweep s x y z \<Rightarrow> ''dc_state'' | PulseTransient s x y \<Rightarrow> ''pulse_train''
      | PhaseTransient s x y \<Rightarrow> ''phase_offset_pair'' | LinearAc s x y \<Rightarrow> ''small_signal_ac'')"

definition stimulus_key :: "analysis \<Rightarrow> string" where
  "stimulus_key a = (case a of DcSweep s x y z \<Rightarrow> ''source_stimulus_id'' | _ \<Rightarrow> ''stimulus_id'')"

definition range_issues :: "string \<Rightarrow> analysis \<Rightarrow> issue list" where
  "range_issues path a =
     (case those (map (\<lambda>(f, v). vs_literal v) (analysis_fields a)) of
        None \<Rightarrow> []
      | Some literals \<Rightarrow>
          (let x = map py_float literals
           in case a of
                DcSweep s u v w \<Rightarrow>
                  add_if (fle (x ! 1) (x ! 0) \<or> fle (x ! 2) (PFin 0)) ''analysis.range_invalid'' path
                    ''DC stop must exceed start and step must be positive''
              | LinearAc s u v \<Rightarrow>
                  add_if (fle (x ! 0) (PFin 0) \<or> fle (x ! 1) (x ! 0)) ''analysis.range_invalid'' path
                    ''AC start must be positive and stop must exceed start''
              | _ \<Rightarrow>
                  add_if (fle (x ! 0) (PFin 0) \<or> fle (x ! 1) (PFin 0)) ''analysis.range_invalid'' path
                    ''transient step and stop must be positive''))"

definition validate_analysis ::
  "stimulus list \<Rightarrow> string \<Rightarrow> (string \<times> string) list \<Rightarrow> string \<Rightarrow> analysis \<Rightarrow> issue list" where
  "validate_analysis stimuli stage inputs point_path a =
     (let path = point_path @ ''/analysis'';
          expected = (if analysis_kind a = ''linear_ac'' then Some ''Hz'' else None)
      in (case find_id st_id stimuli (analysis_stimulus a) of
            None \<Rightarrow> add ''analysis.stimulus_unknown'' (path @ ''/'' @ stimulus_key a)
              (''unknown stimulus '' @ repr_text (analysis_stimulus a))
          | Some st \<Rightarrow>
              add_if (stimulus_kind (st_doc st) \<noteq> expected_stimulus_kind a) ''analysis.stimulus_incompatible''
                (path @ ''/'' @ stimulus_key a)
                (''analysis requires '' @ repr_text (expected_stimulus_kind a) @ '', got ''
                 @ repr_text (stimulus_kind (st_doc st))))
       @ concat (map (\<lambda>(f, v). check_value_source stage inputs (path @ ''/'' @ f) expected v) (analysis_fields a))
       @ add_if (card (set (map (\<lambda>(f, v). vs_unit v) (analysis_fields a))) \<noteq> 1) ''unit.mismatch'' path
           ''analysis bounds and step must use one exact unit''
       @ range_issues path a)"

section \<open>Active stimuli\<close>

primrec stimulus_targets :: "stimulus_doc \<Rightarrow> string list" where
  "stimulus_targets (DcState s t st l) = [t]"
| "stimulus_targets (PulseTrain s t pol p) = [t]"
| "stimulus_targets (PhasePair s r off rp oq p v) = [r, off]"
| "stimulus_targets (SmallSignal t r) = [t]"

fun claim_targets :: "string \<Rightarrow> string \<Rightarrow> (string \<times> string) list \<Rightarrow> string list \<Rightarrow>
    issue list \<times> (string \<times> string) list" where
  "claim_targets path ident owners [] = ([], owners)"
| "claim_targets path ident owners (t # ts) =
     (case map_of owners t of
        Some other \<Rightarrow>
          (case claim_targets path ident owners ts of (iss, owners') \<Rightarrow>
            (add ''stimulus.target_conflict'' path
               (''active stimuli '' @ repr_text other @ '' and '' @ repr_text ident @ '' both drive '' @ repr_text t)
             @ iss, owners'))
      | None \<Rightarrow> claim_targets path ident ((t, ident) # owners) ts)"

definition active_value_issues ::
  "supply_doc list \<Rightarrow> string \<Rightarrow> (string \<times> string) list \<Rightarrow> stimulus \<Rightarrow> issue list" where
  "active_value_issues supplies stage inputs st =
     (let base = ''/stimuli/'' @ st_id st
      in (case st_doc st of
            PhasePair s r off rp oq p v \<Rightarrow> check_value_source stage inputs (base @ ''/phase_offset'') (Some ''s'') v
          | _ \<Rightarrow> [])
       @ concat (map (\<lambda>(field, l).
           add_if (lv_supply l \<notin> su_id ` set supplies) ''stimulus.supply_unknown''
             (base @ ''/'' @ field @ ''/supply_id'') ''active stimulus uses an unknown supply'')
           (stimulus_levels (st_doc st))))"

fun active_from :: "stimulus list \<Rightarrow> supply_doc list \<Rightarrow> string \<Rightarrow> (string \<times> string) list \<Rightarrow> string \<Rightarrow> nat \<Rightarrow>
    (string \<times> string) list \<Rightarrow> string list \<Rightarrow> issue list" where
  "active_from stimuli supplies stage inputs path i owners [] = []"
| "active_from stimuli supplies stage inputs path i owners (k # ks) =
     (case find_id st_id stimuli k of
        None \<Rightarrow>
          add ''stimulus.active_unknown'' (at_index path i) (''unknown active stimulus '' @ repr_text k)
          @ active_from stimuli supplies stage inputs path (Suc i) owners ks
      | Some st \<Rightarrow>
          (case claim_targets (at_index path i) k owners (stimulus_targets (st_doc st)) of
             (iss, owners') \<Rightarrow>
               iss @ active_value_issues supplies stage inputs st
               @ active_from stimuli supplies stage inputs path (Suc i) owners' ks))"

definition validate_active_stimuli ::
  "stimulus list \<Rightarrow> supply_doc list \<Rightarrow> string \<Rightarrow> (string \<times> string) list \<Rightarrow> string \<Rightarrow> analysis \<Rightarrow>
   string list \<Rightarrow> issue list" where
  "validate_active_stimuli stimuli supplies stage inputs point_path a active =
     (let path = point_path @ ''/active_stimulus_ids''
      in add_if (analysis_stimulus a \<notin> set active) ''stimulus.analysis_inactive'' path
           ''the selected analysis stimulus must be active at this point''
       @ active_from stimuli supplies stage inputs path 0 [] active)"

section \<open>Measurements\<close>

text \<open>What the body of the measurement loop sees besides the measurements before it.\<close>

record point_context =
  cx_stage :: string
  cx_inputs :: "(string \<times> string) list"
  cx_probes :: "probe list"
  cx_stimuli :: "stimulus list"
  cx_supplies :: "supply_doc list"
  cx_analysis :: analysis

definition factor_issues :: "point_context \<Rightarrow> string \<Rightarrow> loop_construction \<Rightarrow> issue list" where
  "factor_issues cx pid c =
     concat (map (\<lambda>(field, v, unit).
       let path = ''/probes/'' @ pid @ ''/construction/'' @ field
       in check_value_source (cx_stage cx) (cx_inputs cx) path (Some unit) v
          @ (case vs_literal v of
               None \<Rightarrow> []
             | Some x \<Rightarrow> add_if (fle (py_float x) (PFin 0)) ''probe.factor_invalid'' (path @ ''/value'')
                 ''PLL loop construction factors must be positive''))
       [(''charge_pump_gain'', lc_pump c, ''A''), (''vco_gain'', lc_vco c, ''Hz/V''),
        (''divider_ratio'', lc_divider c, ''1''), (''loop_filter/r1'', lc_r1 c, ''Ohm''),
        (''loop_filter/c1'', lc_c1 c, ''F''), (''loop_filter/r2'', lc_r2 c, ''Ohm''),
        (''loop_filter/c2'', lc_c2 c, ''F'')])"

text \<open>
  A loop transfer reads \<open>analysis["stimulus_id"]\<close>, which a DC sweep does not have: its own key is
  \<open>source_stimulus_id\<close>.
\<close>

definition loop_transfer_issues :: "point_context \<Rightarrow> string \<Rightarrow> probe \<Rightarrow> issue list pyres" where
  "loop_transfer_issues cx path p =
     (let head = add_if (analysis_kind (cx_analysis cx) \<noteq> ''linear_ac'') ''measurement.analysis_incompatible'' path
            ''loop_transfer requires a linear_ac analysis''
      in case pr_doc p of
           LoopGain injection response feedback construction \<Rightarrow>
             (case cx_analysis cx of
                DcSweep s a b c \<Rightarrow> Inl (KeyError (repr_text ''stimulus_id''))
              | _ \<Rightarrow> Inr (head
                  @ add_if (injection \<noteq> analysis_stimulus (cx_analysis cx)) ''measurement.probe_incompatible''
                      (path @ ''/probe_id'')
                      ''loop-gain probe injection must equal the active AC analysis source''
                  @ factor_issues cx (pr_id p) construction))
         | _ \<Rightarrow> Inr (head @ add ''measurement.probe_incompatible'' (path @ ''/probe_id'')
             ''loop_transfer requires an explicit pll_loop_gain probe''))"

definition integrate_issues :: "string \<Rightarrow> string \<Rightarrow> probe \<Rightarrow> issue list" where
  "integrate_issues path quantity p =
     add_if (pr_unit p \<noteq> ''A'') ''measurement.probe_incompatible'' (path @ ''/probe_id'')
       ''charge integration requires a current probe''
     @ add_if (quantity = ''delivered_charge'' \<and> probe_kind (pr_doc p) \<noteq> ''dut_port_current'')
         ''measurement.probe_cheat'' (path @ ''/probe_id'')
         ''delivered_charge must probe a DUT port current, never a command source''
     @ add_if (quantity = ''source_charge'' \<and> probe_kind (pr_doc p) \<noteq> ''stimulus_branch_current'')
         ''measurement.probe_incompatible'' (path @ ''/probe_id'')
         ''source_charge requires an explicitly identified stimulus branch''"

definition measurement_probe :: "measurement_doc \<Rightarrow> string option" where
  "measurement_probe d =
     (case d of Integrate q p a b n \<Rightarrow> Some p | Curve p \<Rightarrow> Some p | LoopTransfer p \<Rightarrow> Some p | _ \<Rightarrow> None)"

definition probe_issues :: "point_context \<Rightarrow> string \<Rightarrow> plan_measurement \<Rightarrow> issue list pyres" where
  "probe_issues cx path m =
     (case measurement_probe (me_doc m) of
        None \<Rightarrow> Inr []
      | Some pid \<Rightarrow>
          (case find_id pr_id (cx_probes cx) pid of
             None \<Rightarrow> Inr (add ''measurement.probe_unknown'' (path @ ''/probe_id'') (''unknown probe '' @ repr_text pid))
           | Some p \<Rightarrow>
               (case me_doc m of
                  Curve q \<Rightarrow> Inr (add_if (me_unit m \<noteq> pr_unit p) ''unit.mismatch'' (path @ ''/unit'')
                    (''curve unit must equal probe unit '' @ repr_text (pr_unit p)))
                | Integrate quantity q a b n \<Rightarrow> Inr (integrate_issues path quantity p)
                | LoopTransfer q \<Rightarrow> loop_transfer_issues cx path p
                | _ \<Rightarrow> Inr [])))"

definition window_issues :: "point_context \<Rightarrow> string \<Rightarrow> value_source \<Rightarrow> value_source \<Rightarrow> issue list" where
  "window_issues cx path start stop =
     check_value_source (cx_stage cx) (cx_inputs cx) (path @ ''/window/start'') None start
     @ check_value_source (cx_stage cx) (cx_inputs cx) (path @ ''/window/stop'') None stop
     @ add_if (vs_unit start \<noteq> vs_unit stop) ''unit.mismatch'' (path @ ''/window'')
         ''measurement window endpoints must use one exact unit''"

definition measurement_window_issues :: "point_context \<Rightarrow> string \<Rightarrow> measurement_doc \<Rightarrow> issue list" where
  "measurement_window_issues cx path d =
     (case d of Integrate q p a b n \<Rightarrow> window_issues cx path a b
      | LinearFit m a b \<Rightarrow> window_issues cx path a b | _ \<Rightarrow> [])"

text \<open>The literal window must last \<open>count\<close> periods, up to a relative 1e-12.\<close>

definition window_duration_off :: "rat \<Rightarrow> rat \<Rightarrow> nat \<Rightarrow> rat \<Rightarrow> bool" where
  "window_duration_off start stop count period =
     (let duration = fsub (py_float stop) (py_float start);
          expected = fmul (py_float (of_nat count)) (py_float period);
          tolerance = fmax (fmul (fabs expected) (round64 (1 / 10 ^ 12))) (round64 (1 / 10 ^ 30))
      in flt tolerance (fabs (fsub duration expected)))"

definition normalization_issues :: "point_context \<Rightarrow> string \<Rightarrow> measurement_doc \<Rightarrow> issue list" where
  "normalization_issues cx path d =
     (case d of
        Integrate q p start stop (Some (sid, count)) \<Rightarrow>
          (case Option.bind (find_id st_id (cx_stimuli cx) sid) (\<lambda>st. stimulus_shape (st_doc st)) of
             None \<Rightarrow> add ''measurement.normalization_invalid'' (path @ ''/normalization/stimulus_id'')
               ''pulse-count normalization requires a declared pulsed stimulus''
           | Some shape \<Rightarrow>
               add_if (pu_count shape < count) ''measurement.normalization_invalid'' (path @ ''/normalization/count'')
                 ''normalization count exceeds the emitted stimulus pulse count''
               @ (case (vs_literal start, vs_literal stop) of
                    (Some a, Some b) \<Rightarrow>
                      add_if (window_duration_off a b count (pu_period shape)) ''measurement.normalization_invalid''
                        (path @ ''/window'')
                        ''literal integration window duration must equal count times period''
                  | _ \<Rightarrow> []))
      | _ \<Rightarrow> [])"

section \<open>Measurements over earlier ones\<close>

definition derived_fit :: "point_context \<Rightarrow> string \<Rightarrow> string \<Rightarrow> plan_measurement \<Rightarrow> issue list" where
  "derived_fit cx path unit parent =
     (let expected = Option.bind (point_curve_axis_unit parent (cx_analysis cx)) (divide_units (me_unit parent))
      in add_if (expected \<noteq> Some unit) ''unit.mismatch'' (path @ ''/unit'')
           (''linear-fit slope unit must be '' @
            (case expected of None \<Rightarrow> ''None'' | Some u \<Rightarrow> repr_text u)))"

definition derived_crossing ::
  "point_context \<Rightarrow> string \<Rightarrow> string \<Rightarrow> plan_measurement \<Rightarrow> threshold \<Rightarrow> issue list" where
  "derived_crossing cx path unit parent t =
     (case threshold_unit t (cx_supplies cx) of
        None \<Rightarrow> add ''measurement.supply_unknown'' (path @ ''/threshold/supply_id'')
          ''supply-scaled threshold names an unknown supply''
      | Some u \<Rightarrow> add_if (u \<noteq> me_unit parent) ''unit.mismatch'' (path @ ''/threshold/unit'')
          ''crossing threshold must match input curve unit'')
     @ (case point_curve_axis_unit parent (cx_analysis cx) of
          None \<Rightarrow> []
        | Some u \<Rightarrow> add_if (unit \<noteq> u) ''unit.mismatch'' (path @ ''/unit'')
            (''crossing output must use curve axis unit '' @ repr_text u))"

definition derived_margin ::
  "point_context \<Rightarrow> string \<Rightarrow> string \<Rightarrow> plan_measurement \<Rightarrow> plan_measurement \<Rightarrow> issue list" where
  "derived_margin cx path unit loop unity =
     (let same_loop = (case me_doc unity of UnityFrequency m \<Rightarrow> m = me_id loop | _ \<Rightarrow> False);
          negative = (case me_doc loop of
            LoopTransfer pid \<Rightarrow>
              (case find_id pr_id (cx_probes cx) pid of
                 Some p \<Rightarrow> (case pr_doc p of LoopGain s r feedback c \<Rightarrow> feedback = ''negative'' | _ \<Rightarrow> False)
               | None \<Rightarrow> False)
          | _ \<Rightarrow> False)
      in add_if (\<not> (same_loop \<and> negative \<and> unit = ''deg'')) ''measurement.parent_incompatible'' path
           ''phase margin requires the matching negative-feedback loop transfer and unity frequency'')"

definition compliance_issues ::
  "point_context \<Rightarrow> string \<Rightarrow> string \<Rightarrow> plan_measurement option \<Rightarrow> quantity \<Rightarrow> quantity \<Rightarrow> issue list" where
  "compliance_issues cx path unit parent lower upper =
     (case parent of
        None \<Rightarrow> []
      | Some m \<Rightarrow>
          add_if (q_unit lower \<noteq> me_unit m \<or> q_unit upper \<noteq> me_unit m) ''unit.mismatch'' path
            ''compliance bounds must match the input curve value unit''
          @ (case point_curve_axis_unit m (cx_analysis cx) of
               None \<Rightarrow> []
             | Some u \<Rightarrow> add_if (unit \<noteq> u) ''unit.mismatch'' (path @ ''/unit'')
                 (''compliance interval must use curve axis unit '' @ repr_text u)))
     @ add_if (fle (py_float (q_value upper)) (py_float (q_value lower))) ''measurement.range_invalid'' path
         ''compliance upper bound must exceed lower bound''"

definition derived_issues ::
  "point_context \<Rightarrow> string \<Rightarrow> plan_measurement list \<Rightarrow> plan_measurement \<Rightarrow> issue list" where
  "derived_issues cx path out m =
     (let by_id = find_id me_id out; unit = me_unit m
      in case me_doc m of
           LinearFit p a b \<Rightarrow> (case by_id p of None \<Rightarrow> [] | Some parent \<Rightarrow> derived_fit cx path unit parent)
         | MaxAbs p \<Rightarrow>
             (case by_id p of
                None \<Rightarrow> []
              | Some parent \<Rightarrow> add_if (unit \<noteq> me_unit parent) ''unit.mismatch'' (path @ ''/unit'')
                  (''derived unit must equal parent unit '' @ repr_text (me_unit parent)))
         | Crossing p t dir n \<Rightarrow> (case by_id p of None \<Rightarrow> [] | Some parent \<Rightarrow> derived_crossing cx path unit parent t)
         | Sign p z \<Rightarrow>
             (case by_id p of
                None \<Rightarrow> []
              | Some parent \<Rightarrow> add_if (q_unit z \<noteq> me_unit parent) ''unit.mismatch'' (path @ ''/zero_tolerance/unit'')
                  ''sign tolerance must match input unit'')
         | UnityFrequency p \<Rightarrow>
             (case by_id p of
                None \<Rightarrow> []
              | Some parent \<Rightarrow>
                  add_if (measurement_kind (me_doc parent) \<noteq> ''loop_transfer'' \<or> unit \<noteq> ''Hz'')
                    ''measurement.parent_incompatible'' path
                    ''unity_frequency requires a loop_transfer parent and emits Hz'')
         | PhaseMargin p u \<Rightarrow>
             (case (by_id p, by_id u) of
                (Some loop, Some unity) \<Rightarrow> derived_margin cx path unit loop unity
              | _ \<Rightarrow> [])
         | Mismatch a r fl \<Rightarrow>
             (case (by_id a, by_id r) of
                (Some actual, Some reference) \<Rightarrow>
                  add_if (me_unit actual \<noteq> me_unit reference \<or> q_unit fl \<noteq> me_unit actual) ''unit.mismatch'' path
                    ''mismatch operands and floor must use one exact unit''
              | _ \<Rightarrow> [])
         | Compliance p lower upper \<Rightarrow> compliance_issues cx path unit (by_id p) lower upper
         | _ \<Rightarrow> [])"

definition parent_issues :: "string \<Rightarrow> plan_measurement list \<Rightarrow> plan_measurement \<Rightarrow> issue list" where
  "parent_issues path out m =
     concat (map (\<lambda>(field, p).
       add_if (p \<notin> me_id ` set out) ''measurement.parent_unknown'' (path @ ''/'' @ field)
         (''parent '' @ repr_text p @ '' must be an earlier measurement in this point''))
       (measurement_parents (me_doc m)))"

definition measurement_body ::
  "point_context \<Rightarrow> string \<Rightarrow> plan_measurement list \<Rightarrow> plan_measurement \<Rightarrow> issue list pyres" where
  "measurement_body cx path out m =
     pbind (probe_issues cx path m) (\<lambda>probe.
     Inr (parent_issues path out m @ probe @ measurement_window_issues cx path (me_doc m)
          @ normalization_issues cx path (me_doc m) @ derived_issues cx path out m))"

text \<open>The dictionary loop with a body that may raise.\<close>

fun register_res :: "('a \<Rightarrow> string) \<Rightarrow> string \<Rightarrow> string \<Rightarrow> (string \<Rightarrow> 'a list \<Rightarrow> 'a \<Rightarrow> issue list pyres) \<Rightarrow>
    nat \<Rightarrow> 'a list \<Rightarrow> 'a list \<Rightarrow> (issue list \<times> 'a list) pyres" where
  "register_res ident base label body i out [] = Inr ([], out)"
| "register_res ident base label body i out (raw # raws) =
     (if ident raw \<in> ident ` set out
      then pbind (register_res ident base label body (Suc i) out raws) (\<lambda>(iss, out').
        Inr (add ''id.duplicate'' (at_index base i @ ''/id'') (''duplicate '' @ label) @ iss, out'))
      else pbind (body (at_index base i) out raw) (\<lambda>here.
        pbind (register_res ident base label body (Suc i) (out @ [raw]) raws) (\<lambda>(iss, out').
        Inr (here @ iss, out'))))"

definition measurement_graph :: "plan_measurement list \<Rightarrow> graph" where
  "measurement_graph ms = map (\<lambda>m. (me_id m, map snd (measurement_parents (me_doc m)))) ms"

definition validate_measurements ::
  "point_context \<Rightarrow> string \<Rightarrow> plan_measurement list \<Rightarrow> (issue list \<times> plan_measurement list) pyres" where
  "validate_measurements cx point_path ms =
     (let path = point_path @ ''/measurements''
      in pbind (register_res me_id path ''measurement id'' (measurement_body cx) 0 [] ms) (\<lambda>(iss, out).
         Inr (iss @ check_dag (measurement_graph out) path, out)))"

section \<open>Validity rules\<close>

text \<open>The identities a rule names: one, or a list of them.\<close>

primrec rule_single :: "rule_doc \<Rightarrow> string option" where
  "rule_single (R2Rule m mn) = Some m"
| "rule_single (SettlingRule ms q) = None"
| "rule_single (MonotonicityRule m q) = Some m"
| "rule_single (SignChangeRule m q) = Some m"
| "rule_single (FiniteRule ms) = None"
| "rule_single (ThresholdRule m t rel) = Some m"
| "rule_single (CrossingsRule m t a b) = Some m"
| "rule_single (PulseCountRule s a b) = None"
| "rule_single (UnityRule m a b) = Some m"

primrec rule_list :: "rule_doc \<Rightarrow> string list option" where
  "rule_list (R2Rule m mn) = None"
| "rule_list (SettlingRule ms q) = Some ms"
| "rule_list (MonotonicityRule m q) = None"
| "rule_list (SignChangeRule m q) = None"
| "rule_list (FiniteRule ms) = Some ms"
| "rule_list (ThresholdRule m t rel) = None"
| "rule_list (CrossingsRule m t a b) = None"
| "rule_list (PulseCountRule s a b) = None"
| "rule_list (UnityRule m a b) = None"

text \<open>The quantity a rule compares with, with its property name and the unit it carries.\<close>

definition rule_quantity :: "supply_doc list \<Rightarrow> rule_doc \<Rightarrow> (string \<times> string option) option" where
  "rule_quantity supplies d =
     (case d of
        SettlingRule ms q \<Rightarrow> Some (''maximum'', Some (q_unit q))
      | MonotonicityRule m q \<Rightarrow> Some (''tolerance'', Some (q_unit q))
      | SignChangeRule m q \<Rightarrow> Some (''zero_tolerance'', Some (q_unit q))
      | ThresholdRule m t rel \<Rightarrow> Some (''value'', threshold_unit t supplies)
      | CrossingsRule m t a b \<Rightarrow> Some (''threshold'', threshold_unit t supplies)
      | _ \<Rightarrow> None)"

text \<open>The measurement kind a rule needs, with the message that refuses any other.\<close>

definition rule_requires :: "rule_doc \<Rightarrow> (string \<times> string) option" where
  "rule_requires d =
     (case d of
        R2Rule m mn \<Rightarrow> Some (''linear_fit'', ''R-squared validity requires a linear_fit measurement'')
      | MonotonicityRule m q \<Rightarrow> Some (''curve'', ''monotonicity validity requires a curve measurement'')
      | SignChangeRule m q \<Rightarrow> Some (''curve'', ''single_sign_change validity requires a curve measurement'')
      | CrossingsRule m t a b \<Rightarrow> Some (''curve'', ''crossings validity requires a curve measurement'')
      | UnityRule m a b \<Rightarrow>
          Some (''loop_transfer'', ''unity-crossing validity requires a loop_transfer measurement'')
      | _ \<Rightarrow> None)"

definition rule_counts :: "rule_doc \<Rightarrow> (nat \<times> nat) option" where
  "rule_counts d =
     (case d of CrossingsRule m t a b \<Rightarrow> Some (a, b) | PulseCountRule s a b \<Rightarrow> Some (a, b)
      | UnityRule m a b \<Rightarrow> Some (a, b) | _ \<Rightarrow> None)"

definition rule_selection ::
  "string \<Rightarrow> plan_measurement list \<Rightarrow> rule_doc \<Rightarrow> issue list \<times> plan_measurement list" where
  "rule_selection path ms d =
     (let unknown = (\<lambda>p k. add_if (k \<notin> me_id ` set ms) ''validity.measurement_unknown'' p
            (''unknown measurement '' @ repr_text k))
      in ((case rule_single d of None \<Rightarrow> [] | Some k \<Rightarrow> unknown (path @ ''/measurement_id'') k)
          @ (case rule_list d of None \<Rightarrow> []
             | Some ks \<Rightarrow> each (\<lambda>j k. unknown (at_index (path @ ''/measurement_ids'') j) k) ks),
          List.map_filter (find_id me_id ms)
            ((case rule_single d of None \<Rightarrow> [] | Some k \<Rightarrow> [k])
             @ (case rule_list d of None \<Rightarrow> [] | Some ks \<Rightarrow> ks))))"

definition rule_body ::
  "stimulus list \<Rightarrow> supply_doc list \<Rightarrow> plan_measurement list \<Rightarrow> string \<Rightarrow> validity_rule list \<Rightarrow>
   validity_rule \<Rightarrow> issue list" where
  "rule_body stimuli supplies ms path out rule =
     (let d = vr_doc rule; (unknown, selected) = rule_selection path ms d
      in unknown
       @ (case (rule_requires d, selected) of
            (Some (kind, msg), m # rest) \<Rightarrow>
              add_if (measurement_kind (me_doc m) \<noteq> kind) ''validity.measurement_incompatible''
                (path @ ''/measurement_id'') msg
          | _ \<Rightarrow> [])
       @ (case (rule_quantity supplies d, selected) of
            (Some (field, unit), m # rest) \<Rightarrow>
              add_if (unit \<noteq> Some (me_unit m)) ''unit.mismatch'' (path @ ''/'' @ field @ ''/unit'')
                (''validity threshold must use measurement unit '' @ repr_text (me_unit m))
          | _ \<Rightarrow> [])
       @ (case rule_counts d of
            None \<Rightarrow> []
          | Some (a, b) \<Rightarrow> add_if (b < a) ''validity.range_invalid'' path
              ''maximum_count must be at least minimum_count'')
       @ (case d of
            PulseCountRule sid a b \<Rightarrow>
              add_if (Option.bind (find_id st_id stimuli sid) (\<lambda>st. stimulus_shape (st_doc st)) = None)
                ''validity.stimulus_unknown'' (path @ ''/stimulus_id'')
                ''pulse_count requires a declared pulsed stimulus''
          | SettlingRule ks q \<Rightarrow>
              add_if (length selected = 2 \<and> me_unit (selected ! 0) \<noteq> me_unit (selected ! 1)) ''unit.mismatch''
                (path @ ''/measurement_ids'')
                ''settling comparison measurements must use one exact unit''
          | _ \<Rightarrow> []))"

definition validate_validity ::
  "stimulus list \<Rightarrow> supply_doc list \<Rightarrow> plan_measurement list \<Rightarrow> string \<Rightarrow> validity_rule list \<Rightarrow>
   issue list \<times> validity_rule list" where
  "validate_validity stimuli supplies ms point_path rules =
     register vr_id (point_path @ ''/validity_rules'') ''validity-rule id''
       (rule_body stimuli supplies ms) 0 [] rules"

end
