(* ===== verification/PlanReduce.thy ===== *)
theory PlanReduce
  imports PlanPoints
begin

text \<open>
  The stage-level reductions of \<open>testbench_plan.py\<close> and the validity rules over them.  A reduction
  that reads a property its parent's kind does not have raises \<open>KeyError\<close>, as the subscript does.
\<close>

section \<open>Components\<close>

definition component_unit :: "reduction list \<Rightarrow> reduction \<Rightarrow> string \<Rightarrow> string option" where
  "component_unit reductions r component =
     (if component \<in> {''lower'', ''upper'', ''span''}
      then (case re_doc r of Intersection p n a b \<Rightarrow> Some (re_unit r) | _ \<Rightarrow> None)
      else if component \<in> {''value'', ''slope'', ''crossing''}
      then (let allowed = (case re_doc r of
                  ReduceFit p a b \<Rightarrow> [''value'', ''slope'', ''intercept'', ''r2'']
                | ReduceCrossing p t \<Rightarrow> [''value'', ''crossing'']
                | _ \<Rightarrow> [''value''])
            in if component \<in> set allowed then Some (re_unit r) else None)
      else if component = ''r2''
      then (case re_doc r of ReduceFit p a b \<Rightarrow> Some ''1'' | _ \<Rightarrow> None)
      else if component = ''intercept''
      then (case re_doc r of
              ReduceFit p a b \<Rightarrow> map_option re_unit (find_id re_id reductions p)
            | _ \<Rightarrow> None)
      else None)"

definition reduction_shape :: "reduction \<Rightarrow> string \<Rightarrow> string" where
  "reduction_shape r component =
     (if component \<noteq> ''value'' then ''scalar''
      else (case re_doc r of
              CollectArray items \<Rightarrow> ''array'' | CollectCurve u samples \<Rightarrow> ''curve''
            | ReduceFit p a b \<Rightarrow> ''fit'' | Intersection p n a b \<Rightarrow> ''interval'' | _ \<Rightarrow> ''scalar''))"

section \<open>Collections\<close>

text \<open>
  The measurements by stage, point and identifier, the last entry of a key counting; a stage only
  looks under its own name.
\<close>

type_synonym measurement_index = "((string \<times> string \<times> string) \<times> plan_measurement) list"

definition lookup_last :: "('k \<times> 'v) list \<Rightarrow> 'k \<Rightarrow> 'v option" where
  "lookup_last xs k = map_of (rev xs) k"

lemma lookup_last_mem: "lookup_last xs k = Some v \<Longrightarrow> (k, v) \<in> set xs"
  by (auto simp: lookup_last_def dest: map_of_SomeD)

record stage_context =
  sc_stage :: string
  sc_points :: "plan_point list"
  sc_measurements :: measurement_index
  sc_supplies :: "supply_doc list"

definition source_issues :: "stage_context \<Rightarrow> string \<Rightarrow> string \<times> string \<Rightarrow> issue list" where
  "source_issues cx path source =
     (case lookup_last (sc_measurements cx) (sc_stage cx, source) of
        None \<Rightarrow> add ''reduction.source_unknown'' path
          ''reduction source measurement does not exist in this stage''
      | Some m \<Rightarrow>
          add_if (measurement_kind (me_doc m) \<in> {''curve'', ''linear_fit'', ''compliance_interval''})
            ''reduction.source_incompatible'' path
            ''collection sources must be scalar point measurements'')"

definition source_unit_issues :: "stage_context \<Rightarrow> string \<Rightarrow> string \<Rightarrow> string \<Rightarrow> string \<times> string \<Rightarrow> issue list"
where
  "source_unit_issues cx path unit msg source =
     (case lookup_last (sc_measurements cx) (sc_stage cx, source) of
        None \<Rightarrow> []
      | Some m \<Rightarrow> add_if (me_unit m \<noteq> unit) ''unit.mismatch'' (path @ ''/unit'') msg)"

fun array_issues :: "stage_context \<Rightarrow> string \<Rightarrow> string \<Rightarrow> nat \<Rightarrow> (string \<times> string) list \<Rightarrow>
    ((string \<times> string) \<times> (string \<times> quantity) list) list \<Rightarrow> issue list" where
  "array_issues cx path unit i seen [] = []"
| "array_issues cx path unit i seen ((source, conditions) # rest) =
     (let here = at_index (path @ ''/items'') i @ ''/source''
      in add_if (source \<in> set seen) ''reduction.source_duplicate'' here
           ''ordered array sources must be unique''
       @ source_issues cx here source
       @ source_unit_issues cx path unit ''array item and reduction units must match exactly'' source
       @ array_issues cx path unit (Suc i) (source # seen) rest)"

primrec axis_unit_of :: "sample_axis \<Rightarrow> string" where
  "axis_unit_of (AxisValue q) = q_unit q"
| "axis_unit_of (AxisParameter name unit) = unit"

definition axis_parameter_issues :: "stage_context \<Rightarrow> string \<Rightarrow> string \<Rightarrow> sample_axis \<Rightarrow> issue list" where
  "axis_parameter_issues cx here point axis =
     (case axis of
        AxisValue q \<Rightarrow> []
      | AxisParameter name unit \<Rightarrow>
          (case Option.bind (find_id pt_id (rev (sc_points cx)) point)
                  (\<lambda>p. map_of (pt_parameters p) name) of
             None \<Rightarrow> add ''reduction.axis_unknown'' (here @ ''/x/name'')
               ''sample point does not declare this condition parameter''
           | Some v \<Rightarrow> add_if (vs_unit v \<noteq> unit) ''unit.mismatch'' (here @ ''/x/unit'')
               ''condition parameter and sample axis units differ''))"

fun curve_issues :: "stage_context \<Rightarrow> string \<Rightarrow> string \<Rightarrow> string \<Rightarrow> nat \<Rightarrow> (string \<times> string) list \<Rightarrow>
    (sample_axis \<times> (string \<times> string)) list \<Rightarrow> issue list" where
  "curve_issues cx path unit axis_unit i seen [] = []"
| "curve_issues cx path unit axis_unit i seen ((axis, source) # rest) =
     (let here = at_index (path @ ''/samples'') i
      in add_if (source \<in> set seen) ''reduction.source_duplicate'' (here @ ''/source'')
           ''curve sample sources must be unique''
       @ source_issues cx (here @ ''/source'') source
       @ source_unit_issues cx path unit ''curve sample and reduction units must match exactly'' source
       @ add_if (axis_unit_of axis \<noteq> axis_unit) ''unit.mismatch'' (here @ ''/x/unit'')
           ''curve sample axis must match axis_unit''
       @ axis_parameter_issues cx here (fst source) axis
       @ curve_issues cx path unit axis_unit (Suc i) (source # seen) rest)"

section \<open>Reductions of earlier reductions\<close>

text \<open>\<open>parent.document["axis_unit"]\<close> and \<open>parent.document["items"]\<close>.\<close>

definition document_axis_unit :: "reduction \<Rightarrow> string pyres" where
  "document_axis_unit r =
     (case re_doc r of CollectCurve u samples \<Rightarrow> Inr u | _ \<Rightarrow> Inl (KeyError (repr_text ''axis_unit'')))"

definition document_items ::
  "reduction \<Rightarrow> ((string \<times> string) \<times> (string \<times> quantity) list) list pyres" where
  "document_items r =
     (case re_doc r of CollectArray items \<Rightarrow> Inr items | _ \<Rightarrow> Inl (KeyError (repr_text ''items'')))"

definition parent_kind_issues :: "string \<Rightarrow> reduction_doc \<Rightarrow> reduction option \<Rightarrow> issue list" where
  "parent_kind_issues path d parent =
     (case parent of
        None \<Rightarrow> add ''reduction.parent_unknown'' (path @ ''/input_reduction_id'')
          ''reduction parent must be declared earlier in this stage''
      | Some p \<Rightarrow>
          (if reduction_kind d = ''select''
           then add_if (reduction_kind (re_doc p) \<noteq> ''collect_array'') ''reduction.parent_incompatible''
             (path @ ''/input_reduction_id'') ''select requires a collect_array parent''
           else add_if (reduction_kind (re_doc p) \<noteq> ''collect_curve'') ''reduction.parent_incompatible''
             (path @ ''/input_reduction_id'') (reduction_kind d @ '' requires a collect_curve parent'')))"

definition fit_issues :: "string \<Rightarrow> string \<Rightarrow> reduction \<Rightarrow> quantity \<Rightarrow> quantity \<Rightarrow> issue list pyres" where
  "fit_issues path unit parent start stop =
     pbind (document_axis_unit parent) (\<lambda>axis.
     Inr (add_if (divide_units (re_unit parent) axis \<noteq> Some unit) ''unit.mismatch'' (path @ ''/unit'')
            ''linear-fit unit is not the closed y/axis unit''
          @ concat (map (\<lambda>(endpoint, q). add_if (q_unit q \<noteq> axis) ''unit.mismatch''
              (path @ ''/window/'' @ endpoint @ ''/unit'') ''fit window must use the curve axis unit'')
              [(''start'', start), (''stop'', stop)])))"

definition crossing_issues ::
  "stage_context \<Rightarrow> string \<Rightarrow> string \<Rightarrow> reduction \<Rightarrow> threshold \<Rightarrow> issue list pyres" where
  "crossing_issues cx path unit parent t =
     (let mismatch = add ''unit.mismatch'' path
            ''crossing threshold must match y and output must match axis''
      in if threshold_unit t (sc_supplies cx) \<noteq> Some (re_unit parent) then Inr mismatch
         else pbind (document_axis_unit parent) (\<lambda>axis. Inr (if unit \<noteq> axis then mismatch else [])))"

definition select_issues :: "string \<Rightarrow> string \<Rightarrow> reduction \<Rightarrow> selector \<Rightarrow> issue list pyres" where
  "select_issues path unit parent sel =
     pbind (document_items parent) (\<lambda>items.
     Inr (add_if (unit \<noteq> re_unit parent) ''unit.mismatch'' (path @ ''/unit'')
            ''selected item must retain the collected-array unit''
          @ (case sel of
               SelectIndex i \<Rightarrow>
                 add_if (length items \<le> i) ''reduction.selector_unknown'' (path @ ''/selector/index'')
                   ''array index is outside the explicit ordered item list''
             | SelectCondition name q \<Rightarrow>
                 add_if (length (filter (\<lambda>(source, conditions). (name, q) \<in> set conditions) items) \<noteq> 1)
                   ''reduction.selector_ambiguous'' (path @ ''/selector'')
                   ''condition selector must match exactly one explicit array item'')))"

subsection \<open>Arithmetic\<close>

definition operand_unit :: "reduction list \<Rightarrow> operand \<Rightarrow> string option" where
  "operand_unit out x =
     (case x of
        OperandValue q \<Rightarrow> Some (q_unit q)
      | OperandReduction r component unit \<Rightarrow>
          Option.bind (find_id re_id out r) (\<lambda>p. component_unit out p component))"

definition operand_issues :: "reduction list \<Rightarrow> string \<Rightarrow> nat \<Rightarrow> operand \<Rightarrow> issue list" where
  "operand_issues out path i x =
     (case x of
        OperandValue q \<Rightarrow> []
      | OperandReduction r component unit \<Rightarrow>
          (case operand_unit out x of
             None \<Rightarrow> add ''reduction.operand_unknown'' (at_index (path @ ''/operands'') i)
               ''arithmetic operand must name an earlier compatible reduction component''
           | Some u \<Rightarrow> add_if (u \<noteq> unit) ''unit.mismatch'' (at_index (path @ ''/operands'') i @ ''/unit'')
               ''operand declaration does not match component unit''))"

definition combine_units :: "string \<Rightarrow> string option \<Rightarrow> string option \<Rightarrow> string option" where
  "combine_units operator next_unit result =
     (case (result, next_unit) of
        (Some r, Some n) \<Rightarrow>
          (if operator = ''add'' \<or> operator = ''subtract'' then (if r = n then Some r else None)
           else if operator = ''multiply'' then multiply_units r n
           else if operator = ''divide'' then divide_units r n
           else Some r)
      | _ \<Rightarrow> None)"

definition arithmetic_unit :: "string \<Rightarrow> string option list \<Rightarrow> string option" where
  "arithmetic_unit operator units =
     (case units of [] \<Rightarrow> None | u # us \<Rightarrow> fold (combine_units operator) us u)"

definition max_abs_operand :: "reduction list \<Rightarrow> operand list \<Rightarrow> bool" where
  "max_abs_operand out xs =
     (case xs of
        OperandReduction r component unit # rest \<Rightarrow>
          (case find_id re_id out r of
             Some p \<Rightarrow> reduction_kind (re_doc p) = ''collect_array'' \<and> component = ''value''
           | None \<Rightarrow> False)
      | _ \<Rightarrow> False)"

definition arithmetic_issues ::
  "reduction list \<Rightarrow> string \<Rightarrow> string \<Rightarrow> string \<Rightarrow> operand list \<Rightarrow> issue list" where
  "arithmetic_issues out path unit operator xs =
     each (operand_issues out path) xs
     @ add_if (operator \<in> {''subtract'', ''divide''} \<and> length xs \<noteq> 2) ''reduction.arity_invalid''
         (path @ ''/operands'') (operator @ '' requires exactly two operands'')
     @ add_if (operator \<in> {''absolute'', ''max_abs''} \<and> length xs \<noteq> 1) ''reduction.arity_invalid''
         (path @ ''/operands'') (operator @ '' requires exactly one operand'')
     @ add_if (operator = ''max_abs'' \<and> xs \<noteq> [] \<and> \<not> max_abs_operand out xs)
         ''reduction.operand_incompatible'' (path @ ''/operands/0'')
         ''max_abs requires the value component of a collected array''
     @ add_if (arithmetic_unit operator (map (operand_unit out) xs) \<noteq> Some unit) ''unit.unsupported_algebra''
         (path @ ''/unit'') ''declared arithmetic unit is not produced by the closed unit table''"

subsection \<open>Compliance intersections\<close>

definition operand_declared_unit :: "operand \<Rightarrow> string" where
  "operand_declared_unit x =
     (case x of OperandValue q \<Rightarrow> q_unit q | OperandReduction r component unit \<Rightarrow> unit)"

definition reference_issues :: "reduction list \<Rightarrow> string \<Rightarrow> reduction \<Rightarrow> string \<times> operand \<Rightarrow> issue list" where
  "reference_issues out path positive ref =
     (case ref of (field, x) \<Rightarrow>
        (case x of
           OperandValue q \<Rightarrow> []
         | OperandReduction r component unit \<Rightarrow>
             (case operand_unit out x of
                None \<Rightarrow> add ''reduction.operand_unknown'' (path @ ''/'' @ field)
                  ''compliance reference must name an earlier scalar component''
              | Some u \<Rightarrow> add_if (u \<noteq> unit) ''unit.mismatch'' (path @ ''/'' @ field @ ''/unit'')
                  ''compliance reference component unit mismatch''))
        @ add_if (operand_declared_unit x \<noteq> re_unit positive) ''unit.mismatch'' (path @ ''/'' @ field @ ''/unit'')
            ''each compliance reference must match its curve y unit'')"

definition curve_axis :: "reduction \<Rightarrow> string option" where
  "curve_axis r = (case re_doc r of CollectCurve u samples \<Rightarrow> Some u | _ \<Rightarrow> None)"

definition intersection_issues ::
  "reduction list \<Rightarrow> string \<Rightarrow> string \<Rightarrow> string \<Rightarrow> string \<Rightarrow> operand \<Rightarrow> operand \<Rightarrow> issue list" where
  "intersection_issues out path unit p n pos_ref neg_ref =
     (let positive = find_id re_id out p; negative = find_id re_id out n
      in (case (Option.bind positive curve_axis, Option.bind negative curve_axis) of
            (Some u, Some v) \<Rightarrow>
              add_if (map_option re_unit positive \<noteq> map_option re_unit negative \<or> u \<noteq> v \<or> unit \<noteq> u)
                ''unit.mismatch'' path
                ''compliance curves must share y/axis units and emit an axis interval''
          | _ \<Rightarrow> add ''reduction.parent_incompatible'' path
              ''compliance intersection requires two earlier collected curves'')
       @ (case positive of
            None \<Rightarrow> []
          | Some r \<Rightarrow> concat (map (reference_issues out path r)
              [(''positive_reference'', pos_ref), (''negative_reference'', neg_ref)])))"

section \<open>The reduction loop\<close>

definition reduction_body :: "stage_context \<Rightarrow> string \<Rightarrow> reduction list \<Rightarrow> reduction \<Rightarrow> issue list pyres" where
  "reduction_body cx path out r =
     (let unit = re_unit r;
          over = (\<lambda>p f. let parent = find_id re_id out p
            in pbind (case parent of None \<Rightarrow> Inr [] | Some q \<Rightarrow> f q) (\<lambda>iss.
               Inr (parent_kind_issues path (re_doc r) parent @ iss)))
      in case re_doc r of
           CollectArray items \<Rightarrow> Inr (array_issues cx path unit 0 [] items)
         | CollectCurve axis samples \<Rightarrow> Inr (curve_issues cx path unit axis 0 [] samples)
         | ReduceFit p start stop \<Rightarrow> over p (\<lambda>q. fit_issues path unit q start stop)
         | ReduceCrossing p t \<Rightarrow> over p (\<lambda>q. crossing_issues cx path unit q t)
         | Select p sel \<Rightarrow> over p (\<lambda>q. select_issues path unit q sel)
         | Arithmetic operator xs \<Rightarrow> Inr (arithmetic_issues out path unit operator xs)
         | Intersection p n a b \<Rightarrow> Inr (intersection_issues out path unit p n a b))"

definition validate_reductions ::
  "stage_context \<Rightarrow> string \<Rightarrow> reduction list \<Rightarrow> (issue list \<times> reduction list) pyres" where
  "validate_reductions cx stage_path rs =
     register_res re_id (stage_path @ ''/reductions'') ''reduction id'' (reduction_body cx) 0 [] rs"

section \<open>Stage validity rules\<close>

definition stage_rule_requires :: "rule_doc \<Rightarrow> (string \<times> string) option" where
  "stage_rule_requires d =
     (case d of
        R2Rule m mn \<Rightarrow> Some (''linear_fit'', ''R-squared validity requires a linear_fit reduction'')
      | MonotonicityRule m q \<Rightarrow> Some (''collect_curve'', ''monotonicity requires a collect_curve reduction'')
      | SignChangeRule m q \<Rightarrow> Some (''collect_curve'', ''single_sign_change requires a collect_curve reduction'')
      | CrossingsRule m t a b \<Rightarrow> Some (''collect_curve'', ''crossings requires a collect_curve reduction'')
      | _ \<Rightarrow> None)"

definition rule_ids :: "rule_doc \<Rightarrow> string list" where
  "rule_ids d =
     (case rule_list d of Some ks \<Rightarrow> ks
      | None \<Rightarrow> (case rule_single d of Some k \<Rightarrow> [k] | None \<Rightarrow> []))"

definition stage_rule_body ::
  "supply_doc list \<Rightarrow> reduction list \<Rightarrow> string \<Rightarrow> validity_rule list \<Rightarrow> validity_rule \<Rightarrow> issue list" where
  "stage_rule_body supplies rs path out rule =
     (let d = vr_doc rule
      in case those (map (find_id re_id rs) (rule_ids d)) of
           Some (r # rest) \<Rightarrow>
             (case stage_rule_requires d of
                None \<Rightarrow> []
              | Some (kind, msg) \<Rightarrow> add_if (reduction_kind (re_doc r) \<noteq> kind) ''validity.reduction_incompatible''
                  path msg)
             @ (case rule_quantity supplies d of
                  None \<Rightarrow> []
                | Some (field, unit) \<Rightarrow> add_if (unit \<noteq> Some (re_unit r)) ''unit.mismatch'' (path @ ''/'' @ field)
                    ''stage validity threshold must match reduction unit'')
             @ (case d of
                  SettlingRule ks q \<Rightarrow>
                    add_if (rest \<noteq> [] \<and> re_unit r \<noteq> re_unit (hd rest)) ''unit.mismatch'' (path @ ''/reduction_ids'')
                      ''settling comparison reductions must use one exact unit''
                | CrossingsRule k t a b \<Rightarrow>
                    add_if (b < a) ''validity.range_invalid'' path
                      ''maximum_count must be at least minimum_count''
                | _ \<Rightarrow> [])
         | _ \<Rightarrow> add ''validity.reduction_unknown'' path ''stage validity names an unknown reduction'')"

definition validate_stage_validity ::
  "supply_doc list \<Rightarrow> reduction list \<Rightarrow> string \<Rightarrow> validity_rule list \<Rightarrow> issue list \<times> validity_rule list" where
  "validate_stage_validity supplies rs stage_path rules =
     register vr_id (stage_path @ ''/validity_rules'') ''stage validity id''
       (stage_rule_body supplies rs) 0 [] rules"

end
