(* ===== verification/PlanValidate.thy ===== *)
theory PlanValidate
  imports PlanReduce "HOL-Library.Product_Lexorder" "HOL-Library.AList"
begin

text \<open>
  The stages, bindings and observables of a testbench plan, the identity checks across the whole
  document, and \<open>_PlanValidator.validate\<close> itself: a prepared plan when nothing was recorded, the
  recorded issues otherwise.
\<close>

section \<open>Condition points\<close>

fun parameter_issues :: "string \<Rightarrow> (string \<times> string) list \<Rightarrow> string \<Rightarrow> nat \<Rightarrow> string list \<Rightarrow>
    (string \<times> value_source) list \<Rightarrow> issue list" where
  "parameter_issues stage inputs path i seen [] = []"
| "parameter_issues stage inputs path i seen ((name, v) # rest) =
     (let here = at_index (path @ ''/condition/parameters'') i
      in add_if (name \<in> set seen) ''condition.parameter_duplicate'' (here @ ''/name'')
           (''duplicate condition parameter '' @ repr_text name)
       @ check_value_source stage inputs (here @ ''/value'') None v
       @ parameter_issues stage inputs path (Suc i) (name # seen) rest)"

definition corner_issues :: "corner_binding list \<Rightarrow> string \<Rightarrow> plan_point \<Rightarrow> issue list" where
  "corner_issues corners path pt =
     (case find_id cb_id corners (pt_corner pt) of
        None \<Rightarrow> add ''condition.corner_unknown'' (path @ ''/condition/corner'')
          (''unknown corner binding '' @ repr_text (pt_corner pt))
      | Some cb \<Rightarrow> add_if (pt_temperature pt \<noteq> cb_temperature cb) ''condition.temperature_mismatch''
          (path @ ''/condition/temperature'')
          ''condition temperature must equal its sealed corner binding'')"

text \<open>The sealed identities every point is checked against.\<close>

record plan_context =
  pc_dut :: dut_binding
  pc_corners :: "corner_binding list"
  pc_supplies :: "supply_doc list"
  pc_stimuli :: "stimulus list"
  pc_probes :: "probe list"

definition point_context_of :: "plan_context \<Rightarrow> plan_stage \<Rightarrow> plan_point \<Rightarrow> point_context" where
  "point_context_of pc sg pt =
     \<lparr>cx_stage = sg_id sg, cx_inputs = sg_inputs sg, cx_probes = pc_probes pc,
      cx_stimuli = pc_stimuli pc, cx_supplies = pc_supplies pc, cx_analysis = pt_analysis pt\<rparr>"

text \<open>The checks of one point, with its measurements and rules as accepted.\<close>

definition validate_point ::
  "plan_context \<Rightarrow> plan_stage \<Rightarrow> string \<Rightarrow> plan_point \<Rightarrow> (issue list \<times> plan_point) pyres" where
  "validate_point pc sg path pt =
     (let stage = sg_id sg; inputs = sg_inputs sg;
          before = corner_issues (pc_corners pc) path pt
            @ parameter_issues stage inputs path 0 [] (pt_parameters pt)
            @ validate_state_policy (pc_dut pc) path (pt_state pt)
            @ validate_settle_policy (pc_probes pc) path (pt_analysis pt) (pt_settle pt)
            @ validate_analysis (pc_stimuli pc) stage inputs path (pt_analysis pt)
            @ validate_active_stimuli (pc_stimuli pc) (pc_supplies pc) stage inputs path
                (pt_analysis pt) (pt_active pt)
      in pbind (validate_measurements (point_context_of pc sg pt) path (pt_measurements pt)) (\<lambda>(iss, ms).
         case validate_validity (pc_stimuli pc) (pc_supplies pc) ms path (pt_rules pt) of
           (iss', rules) \<Rightarrow>
             Inr (before @ iss @ iss', pt\<lparr>pt_measurements := ms, pt_rules := rules\<rparr>)))"

fun validate_points :: "plan_context \<Rightarrow> plan_stage \<Rightarrow> string \<Rightarrow> nat \<Rightarrow> string list \<Rightarrow> plan_point list \<Rightarrow>
    (issue list \<times> plan_point list) pyres" where
  "validate_points pc sg stage_path i seen [] = Inr ([], [])"
| "validate_points pc sg stage_path i seen (pt # pts) =
     (let path = at_index (stage_path @ ''/points'') i
      in pbind (validate_point pc sg path pt) (\<lambda>(iss, pt').
         pbind (validate_points pc sg stage_path (Suc i) (pt_id pt # seen) pts) (\<lambda>(iss', pts').
         Inr (add_if (pt_id pt \<in> set seen) ''id.duplicate'' (path @ ''/id'') ''duplicate point id within stage''
              @ iss @ iss', pt' # pts'))))"

section \<open>Stages\<close>

text \<open>\<open>stage_raw\<close> and \<open>stage_positions\<close>: the first stage of each identifier with its position.\<close>

fun first_stages :: "nat \<Rightarrow> (nat \<times> plan_stage) list \<Rightarrow> plan_stage list \<Rightarrow>
    issue list \<times> (nat \<times> plan_stage) list" where
  "first_stages i out [] = ([], out)"
| "first_stages i out (sg # sgs) =
     (if sg_id sg \<in> (sg_id \<circ> snd) ` set out
      then (case first_stages (Suc i) out sgs of
              (iss, out') \<Rightarrow> (add ''id.duplicate'' (at_index ''/stages'' i @ ''/id'') ''duplicate stage id'' @ iss, out'))
      else first_stages (Suc i) (out @ [(i, sg)]) sgs)"

definition depends_issues :: "string list \<Rightarrow> nat \<times> plan_stage \<Rightarrow> issue list" where
  "depends_issues stage_ids entry =
     (case entry of (pos, sg) \<Rightarrow>
        each (\<lambda>j dep.
          add_if (dep \<notin> set stage_ids) ''stage.dependency_unknown''
            (at_index (at_index ''/stages'' pos @ ''/depends_on'') j) (''unknown stage '' @ repr_text dep)
          @ add_if (dep = sg_id sg) ''graph.cycle''
              (at_index (at_index ''/stages'' pos @ ''/depends_on'') j) ''stage cannot depend on itself'')
          (sg_depends sg))"

definition stage_graph :: "plan_stage list \<Rightarrow> graph" where
  "stage_graph sgs = map (\<lambda>sg. (sg_id sg, sg_depends sg)) sgs"

fun input_issues :: "string \<Rightarrow> nat \<Rightarrow> string list \<Rightarrow> (string \<times> string) list \<Rightarrow> issue list" where
  "input_issues stage_path i seen [] = []"
| "input_issues stage_path i seen ((k, u) # rest) =
     add_if (k \<in> set seen) ''id.duplicate'' (at_index (stage_path @ ''/inputs'') i @ ''/id'')
       ''duplicate stage input id''
     @ input_issues stage_path (Suc i) (k # seen) rest"

definition stage_measurements :: "string \<Rightarrow> plan_point list \<Rightarrow> measurement_index" where
  "stage_measurements stage pts =
     concat (map (\<lambda>pt. map (\<lambda>m. ((stage, pt_id pt, me_id m), m)) (pt_measurements pt)) pts)"

definition validate_stage ::
  "plan_context \<Rightarrow> nat \<times> plan_stage \<Rightarrow> (issue list \<times> plan_stage) pyres" where
  "validate_stage pc entry =
     (case entry of (pos, sg) \<Rightarrow>
        let path = at_index ''/stages'' pos
        in pbind (validate_points pc sg path 0 [] (sg_points sg)) (\<lambda>(iss, pts).
           pbind (validate_reductions
                    \<lparr>sc_stage = sg_id sg, sc_points = sg_points sg,
                     sc_measurements = stage_measurements (sg_id sg) pts, sc_supplies = pc_supplies pc\<rparr>
                    path (sg_reductions sg)) (\<lambda>(iss', rs).
           case validate_stage_validity (pc_supplies pc) rs path (sg_rules sg) of
             (iss'', rules) \<Rightarrow>
               Inr (input_issues path 0 [] (sg_inputs sg) @ iss @ iss' @ iss'',
                    sg\<lparr>sg_points := pts, sg_reductions := rs, sg_rules := rules\<rparr>))))"

text \<open>\<open>point_documents\<close> and \<open>point_indices\<close>: the last point stored under each key, with its index.\<close>

type_synonym point_table = "((string \<times> string) \<times> nat \<times> plan_point) list"

fun index_points :: "string \<Rightarrow> nat \<Rightarrow> plan_point list \<Rightarrow> point_table \<Rightarrow> point_table" where
  "index_points stage i [] table = table"
| "index_points stage i (pt # pts) table =
     index_points stage (Suc i) pts (AList.update (stage, pt_id pt) (i, pt) table)"

definition point_table :: "plan_stage list \<Rightarrow> point_table" where
  "point_table sgs = fold (\<lambda>sg. index_points (sg_id sg) 0 (sg_points sg)) sgs []"

definition carryover_issues ::
  "(nat \<times> plan_stage) list \<Rightarrow> point_table \<Rightarrow> (string \<times> string) \<times> nat \<times> plan_point \<Rightarrow> issue list" where
  "carryover_issues entries table item =
     (case item of ((stage, point), j, pt) \<Rightarrow>
        (case pt_state pt of
           Fresh initial \<Rightarrow> []
         | Carryover from_stage from_point \<Rightarrow>
             (case find (\<lambda>e. sg_id (snd e) = stage) entries of
                None \<Rightarrow> []
              | Some (pos, sg) \<Rightarrow>
                  (let path = at_index (at_index ''/stages'' pos @ ''/points'') j @ ''/state_policy/from''
                   in case map_of table (from_stage, from_point) of
                        None \<Rightarrow> add ''state.source_unknown'' path ''carryover source point does not exist''
                      | Some (i, src) \<Rightarrow>
                          (if from_stage = stage
                           then add_if (j \<le> i) ''graph.cycle'' path ''same-stage carryover must name an earlier point''
                           else add_if (from_stage \<notin> set (sg_depends sg)) ''state.dependency_missing'' path
                             ''cross-stage carryover requires an explicit stage dependency'')))))"

definition validate_stages ::
  "plan_context \<Rightarrow> plan_stage list \<Rightarrow> (issue list \<times> plan_stage list) pyres" where
  "validate_stages pc sgs =
     (case first_stages 0 [] sgs of
        (duplicates, entries) \<Rightarrow>
          let raw = map snd entries; ids = map sg_id raw; table = point_table raw
          in pbind (map_res (validate_stage pc) entries) (\<lambda>results.
             Inr (duplicates @ concat (map (depends_issues ids) entries)
                  @ check_dag (stage_graph raw) ''/stages''
                  @ concat (map fst results)
                  @ concat (map (carryover_issues entries table) table),
                  map snd results)))"

section \<open>Bindings\<close>

text \<open>The dictionaries over the accepted stages.\<close>

definition measurement_index :: "plan_stage list \<Rightarrow> measurement_index" where
  "measurement_index sgs = concat (map (\<lambda>sg. stage_measurements (sg_id sg) (sg_points sg)) sgs)"

definition stage_inputs :: "plan_stage list \<Rightarrow> ((string \<times> string) \<times> string) list" where
  "stage_inputs sgs = concat (map (\<lambda>sg. map (\<lambda>(k, u). ((sg_id sg, k), u)) (sg_inputs sg)) sgs)"

definition stage_reductions :: "plan_stage list \<Rightarrow> string \<Rightarrow> reduction list" where
  "stage_reductions sgs stage =
     (case find_id sg_id sgs stage of None \<Rightarrow> [] | Some sg \<Rightarrow> sg_reductions sg)"

definition measurement_component_unit :: "plan_measurement \<Rightarrow> string \<Rightarrow> string" where
  "measurement_component_unit m component =
     (let linear = (measurement_kind (me_doc m) = ''linear_fit'')
      in if component = ''slope'' then (if linear then me_unit m else fit_unit (me_unit m))
         else if component = ''intercept'' then (if linear then fit_intercept_unit (me_unit m) else me_unit m)
         else me_unit m)"

definition measurement_components :: "plan_measurement \<Rightarrow> string list" where
  "measurement_components m =
     (case me_doc m of LinearFit p a b \<Rightarrow> [''slope'', ''intercept''] | Crossing p t dir n \<Rightarrow> [''crossing'', ''value'']
      | _ \<Rightarrow> [''value''])"

primrec source_stage :: "binding_source \<Rightarrow> string" where
  "source_stage (FromMeasurement stage point m component) = stage"
| "source_stage (FromReduction stage r component) = stage"

text \<open>The unit a binding source emits, when the source exists and has the component.\<close>

definition source_unit :: "plan_stage list \<Rightarrow> binding_source \<Rightarrow> string option" where
  "source_unit sgs src =
     (case src of
        FromMeasurement stage point m component \<Rightarrow>
          map_option (\<lambda>x. measurement_component_unit x component)
            (lookup_last (measurement_index sgs) (stage, point, m))
      | FromReduction stage r component \<Rightarrow>
          (let rs = stage_reductions sgs stage
           in Option.bind (find_id re_id rs r) (\<lambda>x. component_unit rs x component)))"

definition source_existence_issues :: "plan_stage list \<Rightarrow> string \<Rightarrow> binding_source \<Rightarrow> issue list" where
  "source_existence_issues sgs path src =
     (case src of
        FromMeasurement stage point m component \<Rightarrow>
          add_if (lookup_last (measurement_index sgs) (stage, point, m) = None) ''binding.source_unknown''
            (path @ ''/from'') ''binding source measurement does not exist''
      | FromReduction stage r component \<Rightarrow>
          add_if (find_id re_id (stage_reductions sgs stage) r = None) ''binding.source_unknown''
            (path @ ''/from'') ''binding source reduction does not exist'')"

definition source_component_issues :: "plan_stage list \<Rightarrow> string \<Rightarrow> binding_source \<Rightarrow> issue list" where
  "source_component_issues sgs path src =
     (case src of
        FromMeasurement stage point m component \<Rightarrow>
          (case lookup_last (measurement_index sgs) (stage, point, m) of
             None \<Rightarrow> []
           | Some x \<Rightarrow> add_if (component \<notin> set (measurement_components x)) ''binding.component_incompatible''
               (path @ ''/from/component'')
               (''component '' @ repr_text component @ '' is not emitted by ''
                @ repr_text (measurement_kind (me_doc x))))
      | FromReduction stage r component \<Rightarrow>
          (case find_id re_id (stage_reductions sgs stage) r of
             None \<Rightarrow> []
           | Some x \<Rightarrow> add_if (source_unit sgs src = None) ''binding.component_incompatible''
               (path @ ''/from/component'')
               (''component '' @ repr_text component @ '' is not emitted by ''
                @ repr_text (reduction_kind (re_doc x)))))"

definition binding_body ::
  "plan_stage list \<Rightarrow> string \<Rightarrow> string list \<Rightarrow> (string \<times> string) list \<Rightarrow> plan_binding \<Rightarrow> issue list" where
  "binding_body sgs path ids targets b =
     (let target = bi_to b; target_unit = lookup_last (stage_inputs sgs) target;
          source = source_stage (bi_from b);
          depends = (case find_id sg_id sgs (fst target) of None \<Rightarrow> [] | Some sg \<Rightarrow> sg_depends sg)
      in add_if (bi_id b \<in> set ids) ''id.duplicate'' (path @ ''/id'') ''duplicate binding id''
       @ source_existence_issues sgs path (bi_from b)
       @ add_if (target_unit = None) ''binding.target_unknown'' (path @ ''/to'')
           ''binding target input does not exist''
       @ add_if (target \<in> set targets) ''binding.target_duplicate'' (path @ ''/to'')
           ''a stage input must have exactly one binding authority''
       @ add_if (source = fst target \<or> source \<notin> set depends) ''binding.dependency_missing'' path
           ''binding must flow from an explicitly depended-on earlier stage''
       @ source_component_issues sgs path (bi_from b)
       @ add_if (\<exists>u \<in> set [source_unit sgs (bi_from b), target_unit]. u \<noteq> None \<and> u \<noteq> Some (bi_unit b))
           ''unit.mismatch'' (path @ ''/unit'')
           ''binding source, declared unit, and target input must match exactly'')"

fun bindings_from :: "plan_stage list \<Rightarrow> nat \<Rightarrow> string list \<Rightarrow> (string \<times> string) list \<Rightarrow>
    plan_binding list \<Rightarrow> issue list" where
  "bindings_from sgs i ids targets [] = []"
| "bindings_from sgs i ids targets (b # bs) =
     binding_body sgs (at_index ''/bindings'' i) ids targets b
     @ bindings_from sgs (Suc i) (bi_id b # ids) (bi_to b # targets) bs"

definition validate_bindings :: "plan_stage list \<Rightarrow> plan_binding list \<Rightarrow> issue list" where
  "validate_bindings sgs bs =
     bindings_from sgs 0 [] [] bs
     @ concat (map (\<lambda>t. add ''binding.input_unbound'' (''/stages/'' @ fst t @ ''/inputs/'' @ snd t)
         ''every declared stage input requires exactly one binding'')
         (sort (remdups (filter (\<lambda>t. t \<notin> set (map bi_to bs)) (map fst (stage_inputs sgs))))))"

section \<open>Observables\<close>

definition measurement_shape :: "measurement_doc \<Rightarrow> string" where
  "measurement_shape d =
     (case d of Curve p \<Rightarrow> ''curve'' | LoopTransfer p \<Rightarrow> ''curve'' | LinearFit m a b \<Rightarrow> ''fit''
      | Compliance m l u \<Rightarrow> ''interval'' | _ \<Rightarrow> ''scalar'')"

definition verdict_issues :: "bool \<Rightarrow> string \<Rightarrow> string \<Rightarrow> string \<Rightarrow> string \<Rightarrow> string \<Rightarrow> issue list" where
  "verdict_issues known path unit shape unknown_msg msg =
     add_if (\<not> known) ''observable.source_unknown'' (path @ ''/source'') unknown_msg
     @ add_if (unit \<noteq> ''1'' \<or> shape \<noteq> ''verdict'') ''observable.shape_mismatch'' path msg"

definition point_rules :: "plan_stage list \<Rightarrow> (string \<times> string \<times> string) list" where
  "point_rules sgs =
     concat (map (\<lambda>sg. concat (map (\<lambda>pt. map (\<lambda>r. (sg_id sg, pt_id pt, vr_id r)) (pt_rules pt))
       (sg_points sg))) sgs)"

definition stage_rule_keys :: "plan_stage list \<Rightarrow> (string \<times> string) list" where
  "stage_rule_keys sgs = concat (map (\<lambda>sg. map (\<lambda>r. (sg_id sg, vr_id r)) (sg_rules sg)) sgs)"

definition observable_source_issues :: "plan_stage list \<Rightarrow> string \<Rightarrow> plan_observable \<Rightarrow> issue list" where
  "observable_source_issues sgs path ob =
     (case ob_source ob of
        ObMeasurement stage point m \<Rightarrow>
          (case lookup_last (measurement_index sgs) (stage, point, m) of
             None \<Rightarrow> add ''observable.source_unknown'' (path @ ''/source'')
               ''observable source measurement does not exist''
           | Some x \<Rightarrow>
               add_if (ob_unit ob \<noteq> me_unit x) ''unit.mismatch'' (path @ ''/unit'')
                 (''observable unit must equal measurement unit '' @ repr_text (me_unit x))
               @ add_if (ob_shape ob \<noteq> measurement_shape (me_doc x)) ''observable.shape_mismatch''
                   (path @ ''/shape'')
                   (repr_text (measurement_kind (me_doc x)) @ '' emits shape ''
                    @ repr_text (measurement_shape (me_doc x))))
      | ObValidity stage point rule \<Rightarrow>
          verdict_issues ((stage, point, rule) \<in> set (point_rules sgs)) path (ob_unit ob) (ob_shape ob)
            ''observable source validity rule does not exist''
            ''validity observables must be dimensionless verdicts''
      | ObStageValidity stage rule \<Rightarrow>
          verdict_issues ((stage, rule) \<in> set (stage_rule_keys sgs)) path (ob_unit ob) (ob_shape ob)
            ''observable source stage validity rule does not exist''
            ''stage-validity observables must be dimensionless verdicts''
      | ObReduction stage r component \<Rightarrow>
          (let rs = stage_reductions sgs stage
           in case find_id re_id rs r of
                None \<Rightarrow> add ''observable.source_unknown'' (path @ ''/source'')
                  ''observable source reduction does not exist''
              | Some x \<Rightarrow>
                  (case component_unit rs x component of
                     None \<Rightarrow> add ''observable.component_incompatible'' (path @ ''/source/component'')
                       (''component '' @ repr_text component @ '' is not emitted by ''
                        @ repr_text (reduction_kind (re_doc x)))
                   | Some u \<Rightarrow> add_if (ob_unit ob \<noteq> u) ''unit.mismatch'' (path @ ''/unit'')
                       (''observable component unit must be '' @ repr_text u))
                  @ add_if (ob_shape ob \<noteq> reduction_shape x component) ''observable.shape_mismatch''
                      (path @ ''/shape'')
                      (''reduction component emits shape '' @ repr_text (reduction_shape x component))))"

fun observables_from :: "plan_stage list \<Rightarrow> nat \<Rightarrow> string list \<Rightarrow> observable_source list \<Rightarrow>
    plan_observable list \<Rightarrow> issue list" where
  "observables_from sgs i ids sources [] = []"
| "observables_from sgs i ids sources (ob # obs) =
     (let path = at_index ''/observables'' i
      in add_if (ob_id ob \<in> set ids) ''id.duplicate'' (path @ ''/id'') ''duplicate observable id''
       @ add_if (ob_source ob \<in> set sources) ''observable.source_duplicate'' (path @ ''/source'')
           ''two observables may not alias the same result identity''
       @ observable_source_issues sgs path ob
       @ observables_from sgs (Suc i) (ob_id ob # ids) (ob_source ob # sources) obs)"

definition validate_observables :: "plan_stage list \<Rightarrow> plan_observable list \<Rightarrow> issue list" where
  "validate_observables sgs obs = observables_from sgs 0 [] [] obs"

section \<open>The whole plan\<close>

definition namespaces :: "plan_document \<Rightarrow> plan_context \<Rightarrow> plan_stage list \<Rightarrow> (string \<times> string list) list" where
  "namespaces pl pc sgs =
     [(''plan'', [pl_id pl]),
      (''supply/stimulus/probe'',
       map su_id (pc_supplies pc) @ map st_id (pc_stimuli pc) @ map pr_id (pc_probes pc)),
      (''stage'', map sg_id sgs), (''binding'', map bi_id (pl_bindings pl)),
      (''observable'', map ob_id (pl_observables pl))]"

definition generated_names :: "plan_context \<Rightarrow> string list" where
  "generated_names pc =
     (''X_'' @ dut_namespace (pc_dut pc) @ ''_'' @ dut_top (pc_dut pc))
     # map (\<lambda>s. ''V_'' @ su_id s) (pc_supplies pc) @ map (\<lambda>s. ''V_'' @ st_id s) (pc_stimuli pc)
     @ map (\<lambda>p. ''P_'' @ pr_id p) (pc_probes pc)"

definition global_identity_check :: "plan_document \<Rightarrow> plan_context \<Rightarrow> plan_stage list \<Rightarrow> issue list" where
  "global_identity_check pl pc sgs =
     concat (map (\<lambda>(label, names). concat (map (\<lambda>f. add ''id.case_collision'' []
         (label @ '' identifiers collide case-insensitively at '' @ repr_text f)) (folded_duplicates names)))
       (namespaces pl pc sgs))
     @ concat (map (\<lambda>f. add ''namespace.collision'' [] (''closed compiler names collide at '' @ repr_text f))
         (folded_duplicates (generated_names pc)))"

text \<open>
  A runtime override of the DUT may change only the locator and the digest; equality of canonical
  JSON is equality of the values, with the connections in any order.
\<close>

definition dut_document :: "plan_document \<Rightarrow> dut_binding option \<Rightarrow> issue list \<times> dut_binding option" where
  "dut_document pl override =
     (case override of
        None \<Rightarrow> ([], Some (pl_dut pl))
      | Some captured \<Rightarrow>
          (let sealed = pl_dut pl;
               changed = (\<lambda>b field. add_if b ''dut.abi_mismatch'' (''/dut_override/'' @ field)
                 (''runtime DUT override changes sealed field '' @ repr_text field));
               iss = changed (dut_namespace captured \<noteq> dut_namespace sealed) ''namespace''
                 @ changed (dut_top captured \<noteq> dut_top sealed) ''top''
                 @ changed (dut_ports captured \<noteq> dut_ports sealed) ''ports''
                 @ changed (set (dut_connections captured) \<noteq> set (dut_connections sealed)) ''connections''
           in (iss, if iss = [] then Some captured else None)))"

record prepared_plan =
  pp_id :: string
  pp_context :: plan_context
  pp_stages :: "plan_stage list"
  pp_bindings :: "plan_binding list"
  pp_observables :: "plan_observable list"

definition validate_parts :: "plan_document \<Rightarrow> dut_binding \<Rightarrow> issue list \<times> plan_context" where
  "validate_parts pl dut =
     (case validate_corners (pl_corners pl) of (i1, corners) \<Rightarrow>
      case validate_supplies dut corners (pl_supplies pl) of (i2, supplies) \<Rightarrow>
      case validate_stimuli dut supplies (pl_stimuli pl) of (i3, stimuli) \<Rightarrow>
      case validate_probes dut stimuli (pl_probes pl) of (i4, probes) \<Rightarrow>
        (validate_dut dut @ i1 @ i2 @ i3 @ i4,
         \<lparr>pc_dut = dut, pc_corners = corners, pc_supplies = supplies, pc_stimuli = stimuli,
          pc_probes = probes\<rparr>))"

definition validate_plan ::
  "plan_document \<Rightarrow> dut_binding option \<Rightarrow> (prepared_plan option \<times> issue list) pyres" where
  "validate_plan pl override =
     (case dut_document pl override of
        (iss, None) \<Rightarrow> Inr (None, iss)
      | (iss, Some dut) \<Rightarrow>
          (case validate_parts pl dut of (parts, pc) \<Rightarrow>
             pbind (validate_stages pc (pl_stages pl)) (\<lambda>(stage_issues, sgs).
             let issues = iss @ parts @ stage_issues
                   @ validate_bindings sgs (pl_bindings pl)
                   @ validate_observables sgs (pl_observables pl)
                   @ global_identity_check pl pc sgs
             in Inr (if issues = []
                     then Some \<lparr>pp_id = pl_id pl, pp_context = pc, pp_stages = sgs,
                                pp_bindings = pl_bindings pl, pp_observables = pl_observables pl\<rparr>
                     else None, issues))))"

end
