(* ===== verification/RunModel.thy ===== *)
theory RunModel
  imports PlanValidate PyJson
begin

text \<open>
  The records of \<open>openada/operations/testbench_plan_runner.py\<close> and the parts of it that touch one
  compiled condition: admission of a simulator execution, extraction of its waveform, and the receipt
  of the attempt.  The compiler, the simulator, the raw-file extractor and the square of libm are
  parameters of the run; every theorem holds for all of them.  Text and bytes are strings of 7-bit
  characters, on which UTF-8 encoding and decoding are the identity.
\<close>

section \<open>What a run is given\<close>

text \<open>
  A probe the compiler declares for a condition; \<open>native_vectors\<close> is always a list of texts and the
  polarity is absent or 1 or -1.
\<close>

record expected_probe =
  ep_id :: string
  ep_vectors :: "string list"
  ep_polarity :: int

text \<open>
  \<open>CompiledCondition\<close>; \<open>cc_condition\<close> is \<open>receipt.get("condition", {})\<close> and \<open>cc_sample\<close> the sample
  index and value of \<open>receipt["analysis"]\<close>, whose value is a decimal numeral.
\<close>

record compiled =
  cc_stage :: string
  cc_point :: string
  cc_id :: string
  cc_sha256 :: string
  cc_deck :: string
  cc_deck_sha256 :: string
  cc_probes :: "expected_probe list"
  cc_condition :: pyval
  cc_sample :: "(int \<times> rat) option"

record compilation =
  cp_dut_bytes :: string
  cp_dut_sha256 :: string
  cp_conditions :: "compiled list"
  cp_receipt :: pyval

record binding_value =
  bv_binding :: string
  bv_value :: pyfloat
  bv_unit :: string
  bv_receipt :: string

record execution =
  ex_returncode :: int
  ex_stdout :: string
  ex_stderr :: string
  ex_waveform :: string
  ex_identity :: string

text \<open>
  What the injected executor may answer: something that is no \<open>SimulatorExecution\<close>, one with a field
  of the wrong type, or a record of well-typed fields.
\<close>

datatype candidate = NotExecution | MistypedFields | Candidate execution

record raw_signal =
  rs_name :: string
  rs_real :: "pyfloat list"
  rs_imaginary :: "pyfloat list option"

record raw_extraction =
  rx_valid :: bool
  rx_reason :: string
  rx_axis_name :: string
  rx_axis :: "pyfloat list"
  rx_signals :: "raw_signal list"

record run_env =
  rn_env :: py_env
  rn_plan_sha256 :: string
  rn_compile :: "string \<Rightarrow> binding_value list \<Rightarrow> compilation pyres"
  rn_execute :: "compiled \<Rightarrow> candidate pyres"
  rn_extract :: "string \<Rightarrow> string list \<Rightarrow> string \<Rightarrow> raw_extraction pyres"
  rn_square :: "pyfloat \<Rightarrow> pyfloat pyres"
  rn_runtime :: pyfloat

section \<open>What a run records\<close>

record attempt =
  at_condition :: string
  at_stage :: string
  at_point :: string
  at_condition_sha256 :: string
  at_deck_sha256 :: string
  at_waveform_sha256 :: string
  at_identity :: string
  at_invoked :: bool
  at_returncode :: "int option"
  at_status :: string
  at_reason :: string
  at_observables :: "string list"
  at_stdout_sha256 :: string
  at_stderr_sha256 :: string

definition attempt_record :: "attempt \<Rightarrow> pyval" where
  "attempt_record a =
     obj [(''condition_id'', VStr (at_condition a)), (''stage_id'', VStr (at_stage a)),
          (''point_id'', VStr (at_point a)), (''condition_sha256'', VStr (at_condition_sha256 a)),
          (''compiled_deck_sha256'', VStr (at_deck_sha256 a)), (''waveform_sha256'', VStr (at_waveform_sha256 a)),
          (''simulator_identity'', VStr (at_identity a)), (''simulator_invoked'', VBool (at_invoked a)),
          (''returncode'', opt_val VInt (at_returncode a)), (''status'', VStr (at_status a)),
          (''reason'', VStr (at_reason a)), (''emitted_observables'', VList (map VStr (at_observables a))),
          (''stdout_sha256'', VStr (at_stdout_sha256 a)), (''stderr_sha256'', VStr (at_stderr_sha256 a))]"

record run_refusal =
  rf_code :: string
  rf_condition :: "string option"
  rf_message :: string

definition run_refusal_record :: "run_refusal \<Rightarrow> pyval" where
  "run_refusal_record r =
     obj [(''code'', VStr (rf_code r)), (''condition_id'', opt_val VStr (rf_condition r)),
          (''message'', VStr (take 4000 (rf_message r)))]"

definition runner_refusal :: "string \<Rightarrow> string \<Rightarrow> run_refusal" where
  "runner_refusal code msg =
     \<lparr>rf_code = ''testbench_plan.runner.'' @ code, rf_condition = None, rf_message = msg\<rparr>"

record waveform =
  wf_axis_name :: string
  wf_axis :: "pyfloat list"
  wf_signals :: "(string \<times> pyfloat list) list"

definition MAX_PROCESS_CAPTURE_BYTES :: nat where "MAX_PROCESS_CAPTURE_BYTES = 4 * 1024 * 1024"
definition MAX_WAVEFORM_BYTES :: nat where "MAX_WAVEFORM_BYTES = 256 * 1024 * 1024"
definition MAX_ENVELOPE_CONDITIONS :: nat where "MAX_ENVELOPE_CONDITIONS = 10000"

section \<open>Exceptions as text\<close>

text \<open>
  \<open>str(exc)\<close> and \<open>type(exc).__name__\<close>.  The only overflow the runner itself can raise is that of
  \<open>float ** 2\<close>, the only division by zero that of floats.
\<close>

primrec exc_text :: "pyexc \<Rightarrow> string" where
  "exc_text (InvalidRequest code m) = m"
| "exc_text (ValueError m) = m"
| "exc_text (TypeError m) = m"
| "exc_text (KeyError m) = m"
| "exc_text (AttributeError m) = m"
| "exc_text OverflowError = ''(34, '' @ repr_text ''Numerical result out of range'' @ '')''"
| "exc_text ZeroDivisionError = ''float division by zero''"
| "exc_text (AssertionError m) = m"
| "exc_text (FileRecordLimitError m a b) = m"
| "exc_text (FileRecordUnavailableError m) = m"
| "exc_text (FileRecordChangedError m) = m"
| "exc_text (CompileError code path m) = m"
| "exc_text (OtherError c m) = m"

primrec exc_class :: "pyexc \<Rightarrow> string" where
  "exc_class (InvalidRequest code m) = ''InvalidRequest''"
| "exc_class (ValueError m) = ''ValueError''"
| "exc_class (TypeError m) = ''TypeError''"
| "exc_class (KeyError m) = ''KeyError''"
| "exc_class (AttributeError m) = ''AttributeError''"
| "exc_class OverflowError = ''OverflowError''"
| "exc_class ZeroDivisionError = ''ZeroDivisionError''"
| "exc_class (AssertionError m) = ''AssertionError''"
| "exc_class (FileRecordLimitError m a b) = ''FileRecordLimitError''"
| "exc_class (FileRecordUnavailableError m) = ''FileRecordUnavailableError''"
| "exc_class (FileRecordChangedError m) = ''FileRecordChangedError''"
| "exc_class (CompileError code path m) = ''TestbenchPlanCompileError''"
| "exc_class (OtherError c m) = c"

definition bounded_reason :: "pyexc \<Rightarrow> string" where
  "bounded_reason e = (let m = take 1024 (exc_text e) in if m = [] then exc_class e else m)"

definition unknown_verdict :: "string \<Rightarrow> string" where
  "unknown_verdict reason =
     (let prefix = ''UNKNOWN(runner: ''; suffix = '')'';
          message = filter (\<lambda>c. c \<noteq> CHR 0x00) reason
      in prefix @ take (1024 - length prefix - length suffix) message @ suffix)"

section \<open>The compiled inventory\<close>

definition registered_dut_sha256 :: "run_env \<Rightarrow> compilation \<Rightarrow> string pyres" where
  "registered_dut_sha256 env cp =
     (let digest = cp_dut_sha256 cp; captured = sha256 (rn_env env) (cp_dut_bytes cp)
      in if \<not> sha256_text digest then Inl (ValueError ''compiler emitted an invalid sealed DUT digest'')
         else if digest \<noteq> captured then Inl (ValueError ''sealed DUT bytes do not match the compiler digest'')
         else Inr captured)"

definition condition_capacity :: "compilation \<Rightarrow> string set \<Rightarrow> unit pyres" where
  "condition_capacity cp existing =
     (let ids = map cc_id (cp_conditions cp)
      in if MAX_ENVELOPE_CONDITIONS < card existing + length ids
         then Inl (ValueError (''compiled condition inventory exceeds the 10000-condition ''
           @ ''testbench-observables/v1 boundary''))
         else if \<not> distinct ids \<or> existing \<inter> set ids \<noteq> {}
         then Inl (ValueError ''compiler emitted duplicate condition identifiers'')
         else Inr ())"

section \<open>Waveforms\<close>

text \<open>
  The vectors requested of the raw file, and the alias of each: \<open>v(x,0)\<close> is asked for as \<open>v(x)\<close>.
  The test for a repeated vector compares the native name with the folded names so far.
\<close>

definition grounded_voltage :: "string \<Rightarrow> bool" where
  "grounded_voltage folded \<longleftrightarrow> take 2 folded = ''v('' \<and> 3 \<le> length folded \<and> drop (length folded - 3) folded = '',0)''"

definition drop_ground :: "string \<Rightarrow> string" where
  "drop_ground v = take (length v - 3) v @ '')''"

fun request_vectors :: "string list \<Rightarrow> string list \<Rightarrow> (string \<times> string) list \<Rightarrow>
    string list \<times> (string \<times> string) list" where
  "request_vectors [] names aliases = (names, aliases)"
| "request_vectors (native # natives) names aliases =
     (if native \<noteq> [] \<and> native \<notin> set names
      then (let selected = (if grounded_voltage (casefold native) then drop_ground native else native)
            in request_vectors natives (names @ [casefold selected])
                 (AList.update (casefold selected) (casefold native) aliases))
      else request_vectors natives names aliases)"

definition alias_of :: "(string \<times> string) list \<Rightarrow> string \<Rightarrow> string" where
  "alias_of aliases k = (case map_of aliases k of Some a \<Rightarrow> a | None \<Rightarrow> k)"

fun collect_signals :: "(string \<times> string) list \<Rightarrow> (string \<times> pyfloat list) list \<Rightarrow> raw_signal list \<Rightarrow>
    (string \<times> pyfloat list) list pyres" where
  "collect_signals aliases out [] = Inr out"
| "collect_signals aliases out (s # ss) =
     (case rs_imaginary s of
        Some im \<Rightarrow> Inl (ValueError (''complex probe '' @ repr_text (rs_name s) @ '' is unsupported''))
      | None \<Rightarrow> collect_signals aliases (AList.update (alias_of aliases (casefold (rs_name s))) (rs_real s) out) ss)"

definition raw_analysis :: "compiled \<Rightarrow> plan_point \<Rightarrow> string" where
  "raw_analysis cc pt =
     (if analysis_kind (pt_analysis pt) = ''dc_sweep''
      then (if cc_sample cc \<noteq> None then ''op'' else ''dc'') else ''tran'')"

definition extract_waveform :: "run_env \<Rightarrow> compiled \<Rightarrow> plan_point \<Rightarrow> string \<Rightarrow> waveform pyres" where
  "extract_waveform env cc pt body =
     (case request_vectors (concat (map ep_vectors (cc_probes cc))) [] [] of (names, aliases) \<Rightarrow>
        if names = [] then Inl (ValueError ''compiler condition declares no native probe vectors'')
        else pbind (rn_extract env (raw_analysis cc pt) names body) (\<lambda>rx.
          if \<not> rx_valid rx then Inl (ValueError (''waveform extraction refused: '' @ rx_reason rx))
          else pbind (collect_signals aliases [] (rx_signals rx)) (\<lambda>signals.
            Inr \<lparr>wf_axis_name = (if rx_axis_name rx = [] then ''axis'' else rx_axis_name rx),
                 wf_axis = rx_axis rx, wf_signals = signals\<rparr>)))"

section \<open>One condition\<close>

text \<open>The guards before the simulator is invoked, in the order of the code.\<close>

definition preflight :: "run_env \<Rightarrow> plan_point option \<Rightarrow> compiled \<Rightarrow> plan_point pyres" where
  "preflight env point cc =
     (case point of
        None \<Rightarrow> Inl (ValueError ''compiled condition has no plan point'')
      | Some pt \<Rightarrow>
          if sha256 (rn_env env) (cc_deck cc) \<noteq> cc_deck_sha256 cc
          then Inl (ValueError ''compiled deck bytes do not match compiler digest'')
          else pbind (canonical_sha256 (rn_env env) (cc_condition cc)) (\<lambda>digest.
            if digest \<noteq> cc_sha256 cc
            then Inl (ValueError ''compiled condition semantics do not match condition digest'')
            else (case (pt_state pt, pt_settle pt) of
                (Carryover s p, settle) \<Rightarrow>
                  Inl (ValueError ''carryover execution is not supported without a state receipt'')
              | (Fresh initial, UntilDelta pid tol hold mx) \<Rightarrow>
                  Inl (ValueError ''until_delta settle enforcement is not implemented'')
              | (Fresh initial, OperatingPoint) \<Rightarrow>
                  (if analysis_kind (pt_analysis pt) \<noteq> ''dc_sweep''
                   then Inl (ValueError ''operating_point settling is incompatible with transient execution'')
                   else Inr pt)
              | (Fresh initial, FixedTime duration) \<Rightarrow>
                  (if analysis_kind (pt_analysis pt) = ''dc_sweep''
                   then Inl (ValueError ''DC execution requires explicit operating_point settling'')
                   else if \<not> feq (py_float duration) (PFin 0)
                   then Inl (ValueError ''nonzero transient fixed_time settling is not implemented'')
                   else Inr pt))))"

definition admit :: "candidate \<Rightarrow> execution pyres" where
  "admit c =
     (case c of
        NotExecution \<Rightarrow> Inl (ValueError ''executor returned an invalid execution record'')
      | MistypedFields \<Rightarrow> Inl (ValueError ''executor returned malformed bounded fields'')
      | Candidate ex \<Rightarrow>
          if \<not> (1 \<le> length (ex_identity ex) \<and> length (ex_identity ex) \<le> 512)
          then Inl (ValueError ''executor returned malformed bounded fields'')
          else if MAX_WAVEFORM_BYTES < length (ex_waveform ex)
          then Inl (ValueError ''executor waveform exceeds runner limit'')
          else if MAX_PROCESS_CAPTURE_BYTES < length (ex_stdout ex) \<or> MAX_PROCESS_CAPTURE_BYTES < length (ex_stderr ex)
          then Inl (ValueError ''executor process capture exceeds runner limit'')
          else Inr ex)"

definition accept_execution :: "run_env \<Rightarrow> compiled \<Rightarrow> plan_point \<Rightarrow> execution \<Rightarrow> waveform pyres" where
  "accept_execution env cc pt ex =
     (if ex_returncode ex \<noteq> 0
      then Inl (ValueError (''simulator exit '' @ dec_int (ex_returncode ex) @ '': ''
        @ take 512 (take MAX_PROCESS_CAPTURE_BYTES (ex_stderr ex))))
      else if ex_waveform ex = [] then Inl (ValueError ''simulator emitted no waveform bytes'')
      else extract_waveform env cc pt (ex_waveform ex))"

text \<open>What the \<open>try\<close> block has reached: the invocation flag, the admitted execution and the outcome.\<close>

definition try_condition ::
  "run_env \<Rightarrow> plan_point option \<Rightarrow> compiled \<Rightarrow> bool \<times> execution option \<times> waveform pyres" where
  "try_condition env point cc =
     (case preflight env point cc of
        Inl e \<Rightarrow> (False, None, Inl e)
      | Inr pt \<Rightarrow>
          (case pbind (rn_execute env cc) admit of
             Inl e \<Rightarrow> (True, None, Inl e)
           | Inr ex \<Rightarrow> (True, Some ex, accept_execution env cc pt ex)))"

definition condition_attempt ::
  "run_env \<Rightarrow> compiled \<Rightarrow> bool \<Rightarrow> execution option \<Rightarrow> waveform pyres \<Rightarrow> attempt" where
  "condition_attempt env cc invoked ex outcome =
     (let sha = sha256 (rn_env env);
          digest = (\<lambda>sel. sha (case ex of None \<Rightarrow> [] | Some x \<Rightarrow> sel x))
      in \<lparr>at_condition = cc_id cc, at_stage = cc_stage cc, at_point = cc_point cc,
          at_condition_sha256 = cc_sha256 cc, at_deck_sha256 = sha (cc_deck cc),
          at_waveform_sha256 = digest ex_waveform,
          at_identity = (case ex of None \<Rightarrow> ''not-executed'' | Some x \<Rightarrow> ex_identity x),
          at_invoked = invoked, at_returncode = map_option ex_returncode ex,
          at_status = (case outcome of Inl e \<Rightarrow> ''invalid'' | Inr w \<Rightarrow> ''completed''),
          at_reason = (case outcome of Inl e \<Rightarrow> bounded_reason e | Inr w \<Rightarrow> ''ok''),
          at_observables = [], at_stdout_sha256 = digest ex_stdout, at_stderr_sha256 = digest ex_stderr\<rparr>)"

definition condition_refusals :: "compiled \<Rightarrow> waveform pyres \<Rightarrow> run_refusal list" where
  "condition_refusals cc outcome =
     (case outcome of
        Inr w \<Rightarrow> []
      | Inl e \<Rightarrow> [\<lparr>rf_code = ''testbench_plan.runner.condition_invalid'', rf_condition = Some (cc_id cc),
                  rf_message = bounded_reason e\<rparr>])"

section \<open>The conditions of a compilation\<close>

text \<open>
  The waveforms of completed conditions, by point, in the order of execution; the point documents
  by stage and point, the last of a key counting.
\<close>

type_synonym point_key = "string \<times> string"
type_synonym point_waveforms = "(point_key \<times> (compiled \<times> waveform) list) list"

definition add_waveform :: "point_key \<Rightarrow> compiled \<times> waveform \<Rightarrow> point_waveforms \<Rightarrow> point_waveforms" where
  "add_waveform k entry ws = AList.update k ((case map_of ws k of None \<Rightarrow> [] | Some es \<Rightarrow> es) @ [entry]) ws"

record condition_run =
  cr_attempts :: "attempt list"
  cr_refusals :: "run_refusal list"
  cr_waveforms :: point_waveforms
  cr_identities :: "string list"

definition execute_condition ::
  "run_env \<Rightarrow> (point_key \<times> plan_point) list \<Rightarrow> compiled \<Rightarrow> condition_run \<Rightarrow> condition_run" where
  "execute_condition env points cc cr =
     (case try_condition env (lookup_last points (cc_stage cc, cc_point cc)) cc of
        (invoked, ex, outcome) \<Rightarrow>
          cr\<lparr>cr_attempts := cr_attempts cr @ [condition_attempt env cc invoked ex outcome],
             cr_refusals := cr_refusals cr @ condition_refusals cc outcome,
             cr_waveforms := (case outcome of Inl e \<Rightarrow> cr_waveforms cr
               | Inr w \<Rightarrow> add_waveform (cc_stage cc, cc_point cc) (cc, w) (cr_waveforms cr)),
             cr_identities := (case ex of None \<Rightarrow> cr_identities cr
               | Some x \<Rightarrow> cr_identities cr @ [ex_identity x])\<rparr>)"

definition execute_conditions ::
  "run_env \<Rightarrow> (point_key \<times> plan_point) list \<Rightarrow> compiled list \<Rightarrow> condition_run" where
  "execute_conditions env points ccs =
     fold (execute_condition env points) ccs
       \<lparr>cr_attempts = [], cr_refusals = [], cr_waveforms = [], cr_identities = []\<rparr>"

end
