(* ===== verification/RunEvaluate.thy ===== *)
theory RunEvaluate
  imports RunModel
begin

text \<open>
  The measurements the plan runner computes on the waveforms of a completed point, and the verdicts of
  the point's validity rules.  A measured value is the Python value the code builds: a float, a list of
  signs, or a dictionary of a curve, a fit or an interval; reading a value of the wrong form raises what
  Python raises.  \<open>sum\<close> adds from the left, as Python 3.10 and 3.11 do.
\<close>

section \<open>Python values\<close>

definition subscript :: "pyval \<Rightarrow> string \<Rightarrow> pyval pyres" where
  "subscript v k =
     (case v of
        VDict d \<Rightarrow> (if dhas d k then Inr (dget d k) else Inl (KeyError (repr_text k)))
      | VList xs \<Rightarrow> Inl (TypeError ''list indices must be integers or slices, not str'')
      | _ \<Rightarrow> Inl (TypeError (repr_text (type_name v) @ '' object is not subscriptable'')))"

text \<open>\<open>float(v)\<close>, and the arithmetic on an element of a list, whose elements are floats or small ints.\<close>

definition as_float :: "pyval \<Rightarrow> pyfloat pyres" where
  "as_float v =
     (case v of VFloat x \<Rightarrow> Inr x | VInt i \<Rightarrow> float_of_int i
      | _ \<Rightarrow> Inl (TypeError (''float() argument must be a string or a real number, not '' @ repr_text (type_name v))))"

definition as_operand :: "pyval \<Rightarrow> pyfloat pyres" where
  "as_operand v =
     (case v of VFloat x \<Rightarrow> Inr x | VInt i \<Rightarrow> float_of_int i
      | _ \<Rightarrow> Inl (TypeError (''bad operand type for abs(): '' @ repr_text (type_name v))))"

definition elements :: "pyval \<Rightarrow> pyval list" where
  "elements v = (case as_sequence v of Some xs \<Rightarrow> xs | None \<Rightarrow> [])"

definition list_nth :: "'a list \<Rightarrow> nat \<Rightarrow> 'a pyres" where
  "list_nth xs i = (if i < length xs then Inr (xs ! i) else Inl (OtherError ''IndexError'' ''list index out of range''))"

text \<open>The samples \<open>curve[k]\<close> of a curve.\<close>

definition curve_samples :: "pyval \<Rightarrow> string \<Rightarrow> pyfloat list pyres" where
  "curve_samples v k = pbind (subscript v k) (\<lambda>xs. map_res as_operand (elements xs))"

fun finite_json :: "pyval \<Rightarrow> bool" where
  "finite_json (VFloat x) = is_finite x"
| "finite_json (VInt i) = is_finite (round64 (of_int i))"
| "finite_json (VDict d) = list_all (\<lambda>kv. finite_json (snd kv)) d"
| "finite_json (VList xs) = list_all finite_json xs"
| "finite_json (VTuple xs) = list_all finite_json xs"
| "finite_json (VOther t) = False"
| "finite_json v = True"

definition py_sum :: "pyfloat list \<Rightarrow> pyfloat" where
  "py_sum xs = foldl fadd (PFin 0) xs"

section \<open>Numerical kernels\<close>

definition literal :: "string \<Rightarrow> value_source \<Rightarrow> pyfloat pyres" where
  "literal label v =
     (case vs_literal v of
        None \<Rightarrow> Inl (ValueError (label @ '' requires a compiler-resolved literal''))
      | Some q \<Rightarrow> (if is_finite (py_float q) then Inr (py_float q) else Inl (ValueError (label @ '' is non-finite''))))"

definition window_indices :: "pyfloat list \<Rightarrow> value_source \<Rightarrow> value_source \<Rightarrow> nat list pyres" where
  "window_indices axis a b =
     pbind (literal ''window.start'' a) (\<lambda>start. pbind (literal ''window.stop'' b) (\<lambda>stop.
     let selected = filter (\<lambda>i. fle start (axis ! i) \<and> fle (axis ! i) stop) [0..<length axis]
     in if length selected < 2
        then Inl (ValueError ''measurement window has fewer than two waveform samples'')
        else Inr selected))"

fun interpolate_from :: "pyfloat \<Rightarrow> (pyfloat \<times> pyfloat) option \<Rightarrow> (pyfloat \<times> pyfloat) list \<Rightarrow> pyfloat pyres" where
  "interpolate_from target prev [] = Inl (ValueError ''integration boundary is outside the waveform axis'')"
| "interpolate_from target prev ((x, y) # rest) =
     (if feq x target then Inr y
      else (case prev of
          Some (x0, y0) \<Rightarrow>
            (if flt x0 target \<and> flt target x
             then pbind (fdiv (fsub target x0) (fsub x x0)) (\<lambda>ratio. Inr (fadd y0 (fmul ratio (fsub y y0))))
             else interpolate_from target (Some (x, y)) rest)
        | None \<Rightarrow> interpolate_from target (Some (x, y)) rest))"

definition interpolate_at :: "pyfloat list \<Rightarrow> pyfloat list \<Rightarrow> pyfloat \<Rightarrow> pyfloat pyres" where
  "interpolate_at axis values target = interpolate_from target None (zip axis values)"

definition trapezoid :: "(pyfloat \<times> pyfloat) \<times> pyfloat \<times> pyfloat \<Rightarrow> pyfloat pyres" where
  "trapezoid seg = (case seg of ((x0, y0), x1, y1) \<Rightarrow> fdiv (fmul (fsub x1 x0) (fadd y0 y1)) (PFin 2))"

definition segments :: "'a list \<Rightarrow> ('a \<times> 'a) list" where
  "segments xs = zip xs (tl xs)"

definition integrate_window ::
  "pyfloat list \<Rightarrow> pyfloat list \<Rightarrow> value_source \<Rightarrow> value_source \<Rightarrow> pyfloat pyres" where
  "integrate_window axis values a b =
     (if length axis \<noteq> length values \<or> length axis < 2
      then Inl (ValueError ''integration requires at least two paired waveform samples'')
      else if list_ex (\<lambda>(before, after). fle after before) (segments axis)
      then Inl (ValueError ''integration axis must be strictly increasing'')
      else pbind (literal ''window.start'' a) (\<lambda>start. pbind (literal ''window.stop'' b) (\<lambda>stop.
        if fle stop start \<or> flt start (hd axis) \<or> flt (last axis) stop
        then Inl (ValueError ''integration window is outside the waveform axis'')
        else pbind (interpolate_at axis values start) (\<lambda>first_value.
        pbind (interpolate_at axis values stop) (\<lambda>last_value.
        let inside = filter (\<lambda>(x, y). flt start x \<and> flt x stop) (zip axis values);
            path = (start, first_value) # inside @ [(stop, last_value)]
        in pbind (map_res trapezoid (segments path)) (\<lambda>terms.
           if is_finite (py_sum terms) then Inr (py_sum terms)
           else Inl (ValueError ''integrated result is non-finite'')))))))"

definition crosses_at :: "string \<Rightarrow> pyfloat \<Rightarrow> pyfloat \<Rightarrow> pyfloat \<Rightarrow> bool" where
  "crosses_at direction threshold before after =
     (let rising = flt before threshold \<and> fle threshold after;
          falling = flt threshold before \<and> fle after threshold
      in if direction = ''rising'' then rising else if direction = ''falling'' then falling else rising \<or> falling)"

fun crossing_from :: "pyfloat list \<Rightarrow> pyfloat \<Rightarrow> string \<Rightarrow> nat \<Rightarrow> nat \<Rightarrow> nat \<Rightarrow> (pyfloat \<times> pyfloat) list \<Rightarrow>
    pyfloat pyres" where
  "crossing_from axis threshold direction occurrence i seen [] =
     Inl (ValueError ''declared crossing occurrence was not observed'')"
| "crossing_from axis threshold direction occurrence i seen ((before, after) # rest) =
     (if \<not> crosses_at direction threshold before after
      then crossing_from axis threshold direction occurrence (Suc i) seen rest
      else if Suc seen \<noteq> occurrence
      then crossing_from axis threshold direction occurrence (Suc i) (Suc seen) rest
      else if feq after before then list_nth axis (Suc i)
      else pbind (fdiv (fsub threshold before) (fsub after before)) (\<lambda>ratio.
           pbind (list_nth axis i) (\<lambda>x0. pbind (list_nth axis (Suc i)) (\<lambda>x1.
           Inr (fadd x0 (fmul ratio (fsub x1 x0)))))))"

definition locate_crossing ::
  "pyfloat list \<Rightarrow> pyfloat list \<Rightarrow> pyfloat \<Rightarrow> string \<Rightarrow> nat \<Rightarrow> pyfloat pyres" where
  "locate_crossing axis values threshold direction occurrence =
     crossing_from axis threshold direction occurrence 0 0 (segments values)"

definition float_of_nat :: "nat \<Rightarrow> pyfloat" where
  "float_of_nat n = round64 (of_nat n)"

definition sum_squares :: "run_env \<Rightarrow> pyfloat list \<Rightarrow> pyfloat pyres" where
  "sum_squares env xs = pbind (map_res (rn_square env) xs) (\<lambda>sq. Inr (py_sum sq))"

definition fit_line :: "run_env \<Rightarrow> pyfloat list \<Rightarrow> pyfloat list \<Rightarrow> pyval pyres" where
  "fit_line env xs ys =
     (if length xs \<noteq> length ys \<or> length xs < 2
      then Inl (ValueError ''linear fit needs at least two paired samples'')
      else pbind (fdiv (py_sum xs) (float_of_nat (length xs))) (\<lambda>xmean.
      pbind (fdiv (py_sum ys) (float_of_nat (length ys))) (\<lambda>ymean.
      pbind (sum_squares env (map (\<lambda>x. fsub x xmean) xs)) (\<lambda>denominator.
      if feq denominator (PFin 0) then Inl (ValueError ''linear fit axis has zero variance'')
      else pbind (fdiv (py_sum (map2 (\<lambda>x y. fmul (fsub x xmean) (fsub y ymean)) xs ys)) denominator) (\<lambda>slope.
      let intercept = fsub ymean (fmul slope xmean)
      in pbind (sum_squares env (map2 (\<lambda>x y. fsub y (fadd (fmul slope x) intercept)) xs ys)) (\<lambda>residual.
      pbind (sum_squares env (map (\<lambda>y. fsub y ymean) ys)) (\<lambda>spread.
      pbind (if feq spread (PFin 0) then Inr (if feq residual (PFin 0) then PFin 1 else PFin 0)
             else pbind (fdiv residual spread) (\<lambda>q. Inr (fsub (PFin 1) q))) (\<lambda>r2.
      Inr (obj [(''slope'', VFloat slope), (''intercept'', VFloat intercept), (''r2'', VFloat r2)])))))))))"

section \<open>Measured values\<close>

text \<open>\<open>_ConditionValue\<close>, and the dictionary of a point's values.\<close>

record condition_value =
  cv_value :: pyval
  cv_conditions :: "string set"

type_synonym point_values = "(string \<times> condition_value) list"

text \<open>The probes a condition emits through exactly one vector, with their polarity.\<close>

definition probe_vectors :: "compiled \<Rightarrow> (string \<times> string \<times> pyfloat) list" where
  "probe_vectors cc =
     fold (\<lambda>p out. case ep_vectors p of
        [v] \<Rightarrow> AList.update (ep_id p) (casefold v, round64 (of_int (ep_polarity p))) out | _ \<Rightarrow> out) (cc_probes cc) []"

definition signal_values :: "waveform \<Rightarrow> string \<Rightarrow> pyfloat list option" where
  "signal_values w vector =
     (let folded = casefold vector
      in case map_of (wf_signals w) folded of
           Some ys \<Rightarrow> Some ys
         | None \<Rightarrow> (if grounded_voltage folded then map_of (wf_signals w) (drop_ground folded) else None))"

definition scaled_threshold :: "prepared_plan \<Rightarrow> string \<Rightarrow> threshold \<Rightarrow> pyfloat pyres" where
  "scaled_threshold pp corner t =
     (case t of
        ThresholdQuantity q \<Rightarrow> literal ''threshold'' (LiteralValue q)
      | SupplyScaled s fraction \<Rightarrow>
          (case find_id su_id (pc_supplies (pp_context pp)) s of
             None \<Rightarrow> Inl (ValueError (''threshold supply '' @ repr_text s @ '' is unavailable''))
           | Some su \<Rightarrow>
               (case find_id cb_id (pc_corners (pp_context pp)) corner of
                  None \<Rightarrow> Inl (ValueError (''threshold supply value '' @ repr_text (su_value_id su) @ '' is unavailable''))
                | Some cb \<Rightarrow>
                    (case map_of (cb_values cb) (su_value_id su) of
                       None \<Rightarrow> Inl (OtherError ''StopIteration'' [])
                     | Some q \<Rightarrow> Inr (fmul (py_float (q_value q)) (py_float fraction))))))"

text \<open>The signal of a measurement's probe, with its polarity applied.\<close>

definition probe_samples ::
  "(string \<times> string \<times> pyfloat) list \<Rightarrow> waveform \<Rightarrow> string \<Rightarrow> string \<Rightarrow> pyfloat list pyres" where
  "probe_samples probes w ident pid =
     (case map_of probes pid of
        None \<Rightarrow> Inl (ValueError (''measurement '' @ repr_text ident @ '' probe vector is absent''))
      | Some (vector, polarity) \<Rightarrow>
          (case signal_values w vector of
             None \<Rightarrow> Inl (ValueError (''measurement '' @ repr_text ident @ '' probe vector is absent''))
           | Some ys \<Rightarrow> Inr (map (\<lambda>y. fmul y polarity) ys)))"

definition sign_of :: "pyfloat \<Rightarrow> pyfloat \<Rightarrow> pyval" where
  "sign_of tolerance x = VInt (if fle (fabs x) tolerance then 0 else if flt (PFin 0) x then 1 else - 1)"

definition mapping_samples :: "pyval \<Rightarrow> pyval list option pyres" where
  "mapping_samples v = (case v of VDict d \<Rightarrow> pbind (subscript v ''y'') (\<lambda>ys. Inr (Some (elements ys))) | _ \<Rightarrow> Inr None)"

definition max_abs_of :: "pyval \<Rightarrow> pyfloat pyres" where
  "max_abs_of v =
     pbind (mapping_samples v) (\<lambda>samples.
     case (case samples of Some ys \<Rightarrow> Some ys | None \<Rightarrow> as_sequence v) of
       None \<Rightarrow> pbind (as_float v) (\<lambda>x. Inr (fabs x))
     | Some ys \<Rightarrow> pbind (map_res as_float ys) (\<lambda>fs.
         case map fabs fs of
           [] \<Rightarrow> Inl (ValueError ''max() arg is an empty sequence'')
         | m # ms \<Rightarrow> Inr (foldl fmax m ms)))"

definition compliance_of :: "pyfloat list \<Rightarrow> pyfloat list \<Rightarrow> pyfloat \<Rightarrow> pyfloat \<Rightarrow> pyval pyres" where
  "compliance_of xs ys lower upper =
     (let accepted = filter (\<lambda>i. fle lower (ys ! i) \<and> fle (ys ! i) upper) [0..<length ys]
      in case accepted of
           [] \<Rightarrow> Inl (ValueError ''compliance interval has no accepted samples'')
         | i # is \<Rightarrow>
             (if list_ex (\<lambda>(l, r). r \<noteq> Suc l) (segments accepted)
              then Inl (ValueError ''compliance interval is disjoint'')
              else pbind (list_nth xs i) (\<lambda>lo. pbind (list_nth xs (last accepted)) (\<lambda>hi.
                Inr (obj [(''lower'', VFloat lo), (''upper'', VFloat hi)])))))"

definition derived_value ::
  "run_env \<Rightarrow> prepared_plan \<Rightarrow> string \<Rightarrow> measurement_doc \<Rightarrow> pyval \<Rightarrow> pyval pyres" where
  "derived_value env pp corner d curve =
     (case d of
        LinearFit p a b \<Rightarrow>
          pbind (curve_samples curve ''x'') (\<lambda>xs. pbind (window_indices xs a b) (\<lambda>sel.
          pbind (map_res (list_nth xs) sel) (\<lambda>wx. pbind (curve_samples curve ''y'') (\<lambda>ys.
          pbind (map_res (list_nth ys) sel) (\<lambda>wy. fit_line env wx wy)))))
      | Crossing p t direction occurrence \<Rightarrow>
          pbind (scaled_threshold pp corner t) (\<lambda>threshold.
          pbind (curve_samples curve ''x'') (\<lambda>xs. pbind (curve_samples curve ''y'') (\<lambda>ys.
          pbind (locate_crossing xs ys threshold direction occurrence) (\<lambda>x. Inr (VFloat x)))))
      | Sign p z \<Rightarrow>
          pbind (literal ''zero_tolerance'' (LiteralValue z)) (\<lambda>tolerance.
          pbind (mapping_samples curve) (\<lambda>samples.
          pbind (map_res as_operand (case samples of Some ys \<Rightarrow> ys | None \<Rightarrow> [curve])) (\<lambda>xs.
          Inr (VList (map (sign_of tolerance) xs)))))
      | MaxAbs p \<Rightarrow> pbind (max_abs_of curve) (\<lambda>x. Inr (VFloat x))
      | Compliance p lo hi \<Rightarrow>
          pbind (literal ''compliance.lower'' (LiteralValue lo)) (\<lambda>lower.
          pbind (literal ''compliance.upper'' (LiteralValue hi)) (\<lambda>upper.
          pbind (curve_samples curve ''y'') (\<lambda>ys. pbind (curve_samples curve ''x'') (\<lambda>xs.
          compliance_of xs ys lower upper))))
      | _ \<Rightarrow> Inl (ValueError (''measurement kind '' @ repr_text (measurement_kind d) @ '' is unsupported'')))"

definition evaluate_measurement ::
  "run_env \<Rightarrow> prepared_plan \<Rightarrow> string \<Rightarrow> waveform \<Rightarrow> (string \<times> string \<times> pyfloat) list \<Rightarrow> string set \<Rightarrow>
   point_values \<Rightarrow> plan_measurement \<Rightarrow> condition_value pyres" where
  "evaluate_measurement env pp corner w probes base values m =
     (let ident = me_id m;
          unavailable = Inl (ValueError (''measurement '' @ repr_text ident @ '' parent is unavailable''));
          unsupported = Inl (ValueError (''measurement kind '' @ repr_text (measurement_kind (me_doc m)) @ '' is unsupported''))
      in case me_doc m of
           Curve pid \<Rightarrow>
             pbind (probe_samples probes w ident pid) (\<lambda>ys.
             Inr \<lparr>cv_value = obj [(''x'', VList (map VFloat (wf_axis w))), (''y'', VList (map VFloat ys))],
                  cv_conditions = base\<rparr>)
         | Integrate q pid a b normalization \<Rightarrow>
             pbind (probe_samples probes w ident pid) (\<lambda>ys.
             pbind (integrate_window (wf_axis w) ys a b) (\<lambda>total.
             pbind (case normalization of None \<Rightarrow> Inr total
                    | Some (sid, count) \<Rightarrow> fdiv total (float_of_nat count)) (\<lambda>x.
             Inr \<lparr>cv_value = VFloat x, cv_conditions = base\<rparr>)))
         | Mismatch a r fl \<Rightarrow>
             (case (map_of values a, map_of values r) of
                (Some actual, Some reference) \<Rightarrow>
                  pbind (literal ''mismatch.floor'' (LiteralValue fl)) (\<lambda>floor.
                  pbind (as_float (cv_value actual)) (\<lambda>x. pbind (as_float (cv_value reference)) (\<lambda>y.
                  pbind (fdiv (fabs (fsub x y)) (fmax (fmax (fabs x) (fabs y)) floor)) (\<lambda>f.
                  Inr \<lparr>cv_value = VFloat f, cv_conditions = cv_conditions actual \<union> cv_conditions reference\<rparr>))))
              | _ \<Rightarrow> unavailable)
         | d \<Rightarrow>
             (case measurement_parents d of
                [(field, p)] \<Rightarrow>
                  (if measurement_kind d \<in> {''linear_fit'', ''crossing'', ''sign'', ''max_abs'', ''compliance_interval''}
                   then (case map_of values p of
                       None \<Rightarrow> unavailable
                     | Some parent \<Rightarrow> pbind (derived_value env pp corner d (cv_value parent)) (\<lambda>v.
                         Inr \<lparr>cv_value = v, cv_conditions = cv_conditions parent\<rparr>))
                   else unsupported)
              | _ \<Rightarrow> unsupported))"

text \<open>The measurements of a point in the order of the plan; every value must be finite data.\<close>

definition nonfinite_measurement :: "string \<Rightarrow> pyexc" where
  "nonfinite_measurement ident = ValueError (''measurement '' @ repr_text ident @ '' produced non-finite data'')"

fun evaluate_measurements ::
  "run_env \<Rightarrow> prepared_plan \<Rightarrow> string \<Rightarrow> waveform \<Rightarrow> (string \<times> string \<times> pyfloat) list \<Rightarrow> string set \<Rightarrow>
   point_values \<Rightarrow> plan_measurement list \<Rightarrow> point_values pyres" where
  "evaluate_measurements env pp corner w probes base values [] = Inr values"
| "evaluate_measurements env pp corner w probes base values (m # ms) =
     pbind (evaluate_measurement env pp corner w probes base values m) (\<lambda>cv.
       if finite_json (cv_value cv)
       then evaluate_measurements env pp corner w probes base (AList.update (me_id m) cv values) ms
       else Inl (nonfinite_measurement (me_id m)))"

section \<open>One point\<close>

text \<open>
  A DC sweep compiled into one operating point per sample: the samples in order of their index make
  up one curve per probe.
\<close>

definition dc_sample :: "compiled \<times> waveform \<Rightarrow> (string \<times> pyfloat) list pyres" where
  "dc_sample entry =
     map_res (\<lambda>(pid, vector, polarity).
       case signal_values (snd entry) vector of
         Some [y] \<Rightarrow> Inr (pid, fmul y polarity)
       | _ \<Rightarrow> Inl (ValueError (''fresh DC sample '' @ repr_text (cc_id (fst entry)) @ '' does not contain one ''
                @ repr_text pid @ '' value''))) (probe_vectors (fst entry))"

definition dc_row ::
  "(string \<times> string \<times> pyfloat) list \<Rightarrow> compiled \<times> waveform \<Rightarrow> (string \<times> pyfloat) list pyres" where
  "dc_row first_map entry =
     (if set (probe_vectors (fst entry)) \<noteq> set first_map
      then Inl (ValueError ''fresh DC sample probe identities differ'')
      else dc_sample entry)"

definition sample_index :: "compiled \<Rightarrow> int" where
  "sample_index cc = (case cc_sample cc of Some (i, x) \<Rightarrow> i | None \<Rightarrow> 0)"

definition sample_value :: "compiled \<Rightarrow> pyfloat" where
  "sample_value cc = (case cc_sample cc of Some (i, x) \<Rightarrow> py_float x | None \<Rightarrow> PNaN)"

definition column :: "(string \<times> pyfloat) list list \<Rightarrow> string \<Rightarrow> pyfloat list" where
  "column rows pid = concat (map (\<lambda>row. case map_of row pid of Some y \<Rightarrow> [y] | None \<Rightarrow> []) rows)"

definition dc_waveform :: "(compiled \<times> waveform) list \<Rightarrow> string list \<Rightarrow> (string \<times> pyfloat) list list \<Rightarrow> waveform" where
  "dc_waveform ordered names rows =
     \<lparr>wf_axis_name = ''dc_source'', wf_axis = map (sample_value \<circ> fst) ordered,
      wf_signals = map (\<lambda>pid. (pid, column rows pid)) names\<rparr>"

definition fresh_samples :: "plan_point \<Rightarrow> (compiled \<times> waveform) list \<Rightarrow> bool" where
  "fresh_samples pt entries \<longleftrightarrow>
     analysis_kind (pt_analysis pt) = ''dc_sweep'' \<and> list_all (\<lambda>(cc, w). cc_sample cc \<noteq> None) entries"

definition evaluate_point_group ::
  "run_env \<Rightarrow> prepared_plan \<Rightarrow> string \<Rightarrow> plan_point \<Rightarrow> (compiled \<times> waveform) list \<Rightarrow> string set \<Rightarrow>
   point_values pyres" where
  "evaluate_point_group env pp corner pt entries upstream =
     (if fresh_samples pt entries
      then (let ordered = sort_key (\<lambda>(cc, w). sample_index cc) entries
            in case ordered of
                 [] \<Rightarrow> Inl (OtherError ''IndexError'' ''list index out of range'')
               | head # rest \<Rightarrow>
                   (let first_map = probe_vectors (fst head); names = map fst first_map
                    in pbind (map_res (dc_row first_map) ordered) (\<lambda>rows.
                       evaluate_measurements env pp corner (dc_waveform ordered names rows)
                         (map (\<lambda>pid. (pid, pid, PFin 1)) names)
                         (set (map (\<lambda>(cc, w). cc_id cc) ordered) \<union> upstream) [] (pt_measurements pt))))
      else (case entries of
              [(cc, w)] \<Rightarrow>
                evaluate_measurements env pp corner w (probe_vectors cc) ({cc_id cc} \<union> upstream) []
                  (pt_measurements pt)
            | _ \<Rightarrow> Inl (ValueError ''non-DC point compiled into an ambiguous condition set'')))"

section \<open>Validity rules\<close>

text \<open>
  The measurements a rule reads.  A rule with neither property reads \<open>str(None)\<close>, which is no
  identifier.
\<close>

definition rule_inputs :: "rule_doc \<Rightarrow> string list" where
  "rule_inputs d =
     (case rule_list d of Some ms \<Rightarrow> ms | None \<Rightarrow> (case rule_single d of Some m \<Rightarrow> [m] | None \<Rightarrow> [''None'']))"

primrec rule_kind :: "rule_doc \<Rightarrow> string" where
  "rule_kind (R2Rule m mn) = ''r2''"
| "rule_kind (SettlingRule ms q) = ''settling_delta''"
| "rule_kind (MonotonicityRule m q) = ''monotonicity''"
| "rule_kind (SignChangeRule m q) = ''single_sign_change''"
| "rule_kind (FiniteRule ms) = ''finite''"
| "rule_kind (ThresholdRule m t rel) = ''threshold''"
| "rule_kind (CrossingsRule m t a b) = ''crossings''"
| "rule_kind (PulseCountRule s a b) = ''pulse_count''"
| "rule_kind (UnityRule m a b) = ''unity_crossing''"

definition unsupported_validity :: "string \<Rightarrow> pyexc" where
  "unsupported_validity m = OtherError ''_UnsupportedValidityError'' m"

definition compare_threshold :: "string \<Rightarrow> pyfloat \<Rightarrow> pyfloat \<Rightarrow> bool pyres" where
  "compare_threshold rel actual limit =
     (if rel = ''lt'' then Inr (flt actual limit)
      else if rel = ''lte'' then Inr (fle actual limit)
      else if rel = ''gt'' then Inr (flt limit actual)
      else if rel = ''gte'' then Inr (fle limit actual)
      else if rel = ''abs_lte'' then Inr (fle (fabs actual) limit)
      else Inl (KeyError (repr_text rel)))"

definition rule_passes :: "prepared_plan \<Rightarrow> string \<Rightarrow> rule_doc \<Rightarrow> pyval list \<Rightarrow> bool pyres" where
  "rule_passes pp corner d vs =
     (case d of
        FiniteRule ms \<Rightarrow> Inr (list_all finite_json vs)
      | R2Rule m minimum \<Rightarrow>
          pbind (list_nth vs 0) (\<lambda>v. pbind (subscript v ''r2'') (\<lambda>r. pbind (as_float r) (\<lambda>x.
          Inr (fle (py_float minimum) x))))
      | ThresholdRule m t rel \<Rightarrow>
          pbind (list_nth vs 0) (\<lambda>v. pbind (as_float v) (\<lambda>actual.
          pbind (scaled_threshold pp corner t) (\<lambda>limit. compare_threshold rel actual limit)))
      | SettlingRule ms maximum \<Rightarrow>
          pbind (list_nth vs 0) (\<lambda>v. pbind (as_float v) (\<lambda>x.
          pbind (list_nth vs 1) (\<lambda>u. pbind (as_float u) (\<lambda>y.
          pbind (literal ''settling.maximum'' (LiteralValue maximum)) (\<lambda>limit.
          Inr (fle (fabs (fsub x y)) limit))))))
      | _ \<Rightarrow> Inl (unsupported_validity (''validity kind '' @ repr_text (rule_kind d) @ '' is unsupported'')))"

definition evaluate_validity_rule ::
  "prepared_plan \<Rightarrow> string \<Rightarrow> point_values \<Rightarrow> validity_rule \<Rightarrow> string pyres" where
  "evaluate_validity_rule pp corner values r =
     (case vr_doc r of
        PulseCountRule m lo hi \<Rightarrow> Inl (unsupported_validity ''observed pulse-count extraction is unsupported'')
      | d \<Rightarrow>
          (let selected = map (map_of values) (rule_inputs d)
           in if None \<in> set selected then Inl (ValueError ''validity input is unavailable'')
              else pbind (rule_passes pp corner d (map (cv_value \<circ> the) selected)) (\<lambda>passed.
                Inr (if passed then ''VALID'' else ''INVALID('' @ vr_reason r @ '')''))))"

end
