(* ===== verification/RunStages.thy ===== *)
theory RunStages
  imports RunEvaluate
begin

text \<open>
  What the plan runner does around the conditions of one stage: the order of the stages, the receipts
  of a stage the compiler refuses, the execution record of the host simulator, and the values that
  bindings carry to later stages.
\<close>

section \<open>The order of the stages\<close>

text \<open>The dictionary of the stages: the last stage of an identifier, at the place of the first.\<close>

definition stage_dict :: "plan_stage list \<Rightarrow> (string \<times> plan_stage) list" where
  "stage_dict sgs = fold (\<lambda>sg d. AList.update (sg_id sg) sg d) sgs []"

definition ready_stages :: "(string \<times> plan_stage) list \<Rightarrow> string list \<Rightarrow> string list" where
  "ready_stages d remaining =
     map fst (filter (\<lambda>(k, sg). k \<in> set remaining \<and> set (sg_depends sg) \<inter> set remaining = {}) d)"

lemma ready_stages_remaining: "k \<in> set (ready_stages d remaining) \<Longrightarrow> k \<in> set remaining"
  by (auto simp: ready_stages_def)

function topological_rounds :: "(string \<times> plan_stage) list \<Rightarrow> string list \<Rightarrow> string list \<Rightarrow> string list pyres" where
  "topological_rounds d remaining out =
     (if remaining = [] then Inr out
      else let ready = ready_stages d remaining
           in if ready = [] then Inl (ValueError ''validated stage graph unexpectedly contains a cycle'')
              else topological_rounds d (filter (\<lambda>k. k \<notin> set ready) remaining) (out @ ready))"
  by pat_completeness auto

termination topological_rounds
proof (relation "measure (\<lambda>(d, remaining, out). length remaining)")
  fix d remaining out ready
  assume "remaining \<noteq> []" and ready: "ready = ready_stages d remaining" and some: "ready \<noteq> []"
  obtain k where "k \<in> set ready" "k \<in> set remaining"
    using some ready_stages_remaining [of "hd ready" d remaining] ready by (metis hd_in_set)
  then show "((d, filter (\<lambda>k. k \<notin> set ready) remaining, out @ ready), (d, remaining, out)) \<in>
      measure (\<lambda>(d, remaining, out). length remaining)"
    by (auto intro: length_filter_less)
qed simp

declare topological_rounds.simps [simp del]

definition topological_stages :: "plan_stage list \<Rightarrow> string list pyres" where
  "topological_stages sgs =
     (let d = stage_dict sgs in topological_rounds d (map fst d) [])"

section \<open>A stage the compiler refuses\<close>

text \<open>
  \<open>Decimal(str(x))\<close>: the shortest decimal of a float; of a JSON number, an integer as it is written
  and any other number as the float it is loaded as; and the default context of the \<open>decimal\<close> module,
  which rounds a result to 28 digits.
\<close>

definition decimal_float :: "rat \<Rightarrow> rat" where
  "decimal_float q =
     (if q = 0 then 0
      else (case shortest_from 17 1 \<bar>q\<bar> of
              Some (m, k) \<Rightarrow> (if q < 0 then - 1 else 1) * of_int m * pow10 k | None \<Rightarrow> q))"

definition decimal_of :: "rat \<Rightarrow> rat" where
  "decimal_of x =
     (if x = of_int \<lfloor>x\<rfloor> then x
      else (case round64 x of PFin q \<Rightarrow> decimal_float q | _ \<Rightarrow> x))"

definition decimal_round :: "rat \<Rightarrow> rat" where
  "decimal_round x =
     (if x = 0 then 0
      else (let k = flog10 \<bar>x\<bar> - 27 in (if x < 0 then - 1 else 1) * of_int (rhe (\<bar>x\<bar> / pow10 k)) * pow10 k))"

text \<open>The number of samples of a DC grid of literals, when there is one within the limit.\<close>

definition dc_grid_count :: "value_source \<Rightarrow> value_source \<Rightarrow> value_source \<Rightarrow> nat option" where
  "dc_grid_count a b c =
     (case (vs_literal a, vs_literal b, vs_literal c) of
        (Some start, Some stop, Some step) \<Rightarrow>
          (let start = decimal_of start; stop = decimal_of stop; step = decimal_of step
           in if step \<le> 0 \<or> stop < start then None
              else let quotient = decimal_round (decimal_round (stop - start) / step)
                   in if quotient \<noteq> of_int \<lfloor>quotient\<rfloor> then None
                      else let count = \<lfloor>quotient\<rfloor> + 1
                           in if 1 \<le> count \<and> count \<le> int MAX_ENVELOPE_CONDITIONS then Some (nat count) else None)
      | _ \<Rightarrow> None)"

definition pad6 :: "nat \<Rightarrow> string" where
  "pad6 n = (let ds = dec_nat n in replicate (6 - length ds) (CHR ''0'') @ ds)"

text \<open>The identifiers of a point that is not executed; \<open>None\<close> when its grid is unknown.\<close>

definition grid_suffixes :: "plan_point \<Rightarrow> string list option" where
  "grid_suffixes pt =
     (case pt_analysis pt of
        DcSweep s a b c \<Rightarrow>
          (case dc_grid_count a b c of
             Some n \<Rightarrow> Some (map (\<lambda>i. ''not_executed.dc_'' @ pad6 i) [0..<n]) | None \<Rightarrow> None)
      | _ \<Rightarrow> Some [''not_executed''])"

definition uncompiled_attempt ::
  "run_env \<Rightarrow> string \<Rightarrow> string \<Rightarrow> bool \<Rightarrow> plan_stage \<Rightarrow> plan_point \<Rightarrow> string \<Rightarrow> attempt pyres" where
  "uncompiled_attempt env corner reason complete_inventory sg pt suffix =
     pbind (canonical_sha256 (rn_env env)
       (obj [(''stage_id'', VStr (sg_id sg)), (''point_id'', VStr (pt_id pt)), (''corner'', VStr corner),
             (''status'', VStr ''not_executed''), (''reason'', VStr reason),
             (''inventory_complete'', VBool complete_inventory)])) (\<lambda>semantics.
     let empty = sha256 (rn_env env) []
     in Inr \<lparr>at_condition = sg_id sg @ ''.'' @ pt_id pt @ ''.'' @ suffix, at_stage = sg_id sg,
             at_point = pt_id pt, at_condition_sha256 = semantics, at_deck_sha256 = empty,
             at_waveform_sha256 = empty, at_identity = ''not-executed'', at_invoked = False,
             at_returncode = None, at_status = ''invalid'', at_reason = reason, at_observables = [],
             at_stdout_sha256 = empty, at_stderr_sha256 = empty\<rparr>)"

text \<open>The inventory stays incomplete for the points after one whose grid is unknown.\<close>

fun uncompiled_from :: "run_env \<Rightarrow> string \<Rightarrow> string \<Rightarrow> plan_stage \<Rightarrow> bool \<Rightarrow> plan_point list \<Rightarrow>
    (attempt list \<times> bool) pyres" where
  "uncompiled_from env corner reason sg known [] = Inr ([], known)"
| "uncompiled_from env corner reason sg known (pt # pts) =
     (if pt_corner pt \<noteq> corner then uncompiled_from env corner reason sg known pts
      else (let suffixes = grid_suffixes pt; known' = (known \<and> suffixes \<noteq> None)
            in pbind (map_res (uncompiled_attempt env corner reason known' sg pt)
                       (case suffixes of Some ss \<Rightarrow> ss | None \<Rightarrow> [''not_executed''])) (\<lambda>now.
               pbind (uncompiled_from env corner reason sg known' pts) (\<lambda>(later, final).
               Inr (now @ later, final)))))"

definition uncompiled_attempts ::
  "run_env \<Rightarrow> string \<Rightarrow> string \<Rightarrow> plan_stage \<Rightarrow> (attempt list \<times> bool) pyres" where
  "uncompiled_attempts env corner reason sg = uncompiled_from env corner reason sg True (sg_points sg)"

section \<open>The host simulator\<close>

text \<open>
  What the child process left behind: its output files in full, and how it ended.  A capture reads
  at most the limit; the notes of the executor are appended to the capture.
\<close>

datatype process_end = ProcessExit int | ProcessTimeout

definition host_execution :: "string \<Rightarrow> process_end \<Rightarrow> string \<Rightarrow> string \<Rightarrow> string \<Rightarrow> execution" where
  "host_execution identity how stdout stderr body =
     (let out = take MAX_PROCESS_CAPTURE_BYTES stdout; err = take MAX_PROCESS_CAPTURE_BYTES stderr
      in case how of
           ProcessTimeout \<Rightarrow>
             \<lparr>ex_returncode = - 1, ex_stdout = out, ex_stderr = err @ CHR 0x0A # ''runner timeout'',
              ex_waveform = [], ex_identity = identity\<rparr>
         | ProcessExit code \<Rightarrow>
             (if MAX_WAVEFORM_BYTES < length body
              then \<lparr>ex_returncode = - 1, ex_stdout = out,
                    ex_stderr = err @ CHR 0x0A # ''waveform exceeds runner limit'',
                    ex_waveform = [], ex_identity = identity\<rparr>
              else \<lparr>ex_returncode = code, ex_stdout = out, ex_stderr = err, ex_waveform = body,
                    ex_identity = identity\<rparr>))"

section \<open>Bindings\<close>

definition binding_component :: "condition_value \<Rightarrow> string \<Rightarrow> pyfloat pyres" where
  "binding_component item component =
     pbind (if component \<in> {''value'', ''crossing''} then Inr (cv_value item)
            else (case cv_value item of
                VDict d \<Rightarrow> (if component \<in> {''slope'', ''intercept'', ''r2''} then Inr (dget d component)
                  else Inl (ValueError (''unsupported binding component '' @ repr_text component)))
              | _ \<Rightarrow> Inl (ValueError (''unsupported binding component '' @ repr_text component)))) (\<lambda>selected.
     case as_number selected of
       None \<Rightarrow> Inl (ValueError (''binding component '' @ repr_text component @ '' is not a scalar''))
     | Some number \<Rightarrow> pbind number (\<lambda>x.
         if is_finite x then Inr x else Inl (ValueError ''binding component is non-finite'')))"

text \<open>A resolved binding, the stage it feeds and the conditions its receipt lists.\<close>

record resolved_binding =
  rb_value :: binding_value
  rb_receipt :: pyval
  rb_conditions :: "string list"

definition find_point :: "plan_stage list \<Rightarrow> string \<Rightarrow> string \<Rightarrow> plan_point option" where
  "find_point sgs stage pid =
     find (\<lambda>pt. pt_id pt = pid) (concat (map sg_points (filter (\<lambda>sg. sg_id sg = stage) sgs)))"

definition rule_valid :: "prepared_plan \<Rightarrow> string \<Rightarrow> point_values \<Rightarrow> validity_rule \<Rightarrow> bool" where
  "rule_valid pp corner values r \<longleftrightarrow> evaluate_validity_rule pp corner values r = Inr ''VALID''"

definition point_attempts :: "point_key \<Rightarrow> attempt list \<Rightarrow> attempt list" where
  "point_attempts k ats = filter (\<lambda>a. (at_stage a, at_point a) = k) ats"

definition completed :: "attempt \<Rightarrow> bool" where
  "completed a \<longleftrightarrow> at_status a = ''completed''"

definition source_valid ::
  "prepared_plan \<Rightarrow> string \<Rightarrow> point_values \<Rightarrow> point_key \<Rightarrow> attempt list \<Rightarrow> bool" where
  "source_valid pp corner values k ats \<longleftrightarrow>
     point_attempts k ats \<noteq> [] \<and> list_all completed (point_attempts k ats) \<and>
     (case find_point (pp_stages pp) (fst k) (snd k) of
        None \<Rightarrow> True | Some pt \<Rightarrow> list_all (rule_valid pp corner values) (pt_rules pt))"

type_synonym run_values = "(point_key \<times> point_values) list"

definition point_value :: "run_values \<Rightarrow> point_key \<Rightarrow> string \<Rightarrow> condition_value option" where
  "point_value vals k m = (case map_of vals k of None \<Rightarrow> None | Some ms \<Rightarrow> map_of ms m)"

definition values_of :: "run_values \<Rightarrow> point_key \<Rightarrow> point_values" where
  "values_of vals k = (case map_of vals k of None \<Rightarrow> [] | Some ms \<Rightarrow> ms)"

definition find_attempt :: "attempt list \<Rightarrow> string \<Rightarrow> attempt option" where
  "find_attempt ats ident = lookup_last (map (\<lambda>a. (at_condition a, a)) ats) ident"

definition binding_source_receipt ::
  "run_env \<Rightarrow> plan_binding \<Rightarrow> (string \<times> string \<times> string \<times> string) \<Rightarrow> pyfloat \<Rightarrow> attempt list \<Rightarrow> pyval" where
  "binding_source_receipt env b source x contributing =
     (case source of (stage, point, m, component) \<Rightarrow>
        obj [(''plan_sha256'', VStr (rn_plan_sha256 env)), (''binding_id'', VStr (bi_id b)),
             (''source'', obj [(''stage_id'', VStr stage), (''point_id'', VStr point),
                (''measurement_id'', VStr m), (''component'', VStr component)]),
             (''source_value'', VFloat x), (''unit'', VStr (bi_unit b)),
             (''conditions'', VList (map attempt_record contributing))])"

definition resolve_binding ::
  "run_env \<Rightarrow> prepared_plan \<Rightarrow> string \<Rightarrow> run_values \<Rightarrow> attempt list \<Rightarrow> plan_binding \<Rightarrow>
   (run_refusal + resolved_binding) pyres" where
  "resolve_binding env pp corner vals ats b =
     (let refuse = (\<lambda>code msg. Inr (Inl (runner_refusal code (''binding '' @ repr_text (bi_id b) @ msg))))
      in case bi_from b of
           FromReduction s r c \<Rightarrow> refuse ''binding_unsupported'' '' requires an unsupported reduction source''
         | FromMeasurement s p m component \<Rightarrow>
             (case point_value vals (s, p) m of
                None \<Rightarrow> refuse ''binding_unavailable'' '' source measurement is unavailable''
              | Some item \<Rightarrow>
                  if \<not> source_valid pp corner (values_of vals (s, p)) (s, p) ats
                  then refuse ''binding_source_invalid'' '' source point is not VALID''
                  else (case binding_component item component of
                      Inl (ValueError msg) \<Rightarrow> refuse ''binding_invalid'' ('': '' @ msg)
                    | Inl e \<Rightarrow> Inl e
                    | Inr x \<Rightarrow>
                        (let contributing = List.map_filter (find_attempt ats) (sorted_list_of_set (cv_conditions item))
                         in if length contributing \<noteq> card (cv_conditions item)
                            then refuse ''binding_lineage_missing'' '' lacks a contributing condition receipt''
                            else (let receipt = binding_source_receipt env b (s, p, m, component) x contributing
                                  in pbind (canonical_sha256 (rn_env env) receipt) (\<lambda>digest.
                                     Inr (Inr \<lparr>rb_value = \<lparr>bv_binding = bi_id b, bv_value = x, bv_unit = bi_unit b,
                                                bv_receipt = digest\<rparr>,
                                          rb_receipt = obj [(''sha256'', VStr digest), (''receipt'', receipt)],
                                          rb_conditions = map at_condition contributing\<rparr>)))))))"

definition resolved_stage_bindings ::
  "run_env \<Rightarrow> prepared_plan \<Rightarrow> string \<Rightarrow> string \<Rightarrow> run_values \<Rightarrow> attempt list \<Rightarrow>
   (run_refusal + resolved_binding) list pyres" where
  "resolved_stage_bindings env pp corner stage vals ats =
     map_res (resolve_binding env pp corner vals ats)
       (filter (\<lambda>b. source_stage (bi_from b) = stage) (pp_bindings pp))"

end
