(* ===== verification/RunOutputs.thy ===== *)
theory RunOutputs
  imports RunStages
begin

text \<open>
  From the measured values of a run to its outputs: the verdict of every validity rule, the declared
  observables with the conditions each rests on, and the verdict names.
\<close>

section \<open>Validity verdicts\<close>

text \<open>The tuples the code identifies rules by.\<close>

datatype rule_identity = PointRule string string string | StageRule string string

primrec identity_rule :: "rule_identity \<Rightarrow> string" where
  "identity_rule (PointRule s p r) = r"
| "identity_rule (StageRule s r) = r"

record verdicts =
  vd_verdicts :: "(rule_identity \<times> string) list"
  vd_lineage :: "(rule_identity \<times> string set) list"
  vd_refusals :: "run_refusal list"

definition values_lineage :: "point_values \<Rightarrow> string set" where
  "values_lineage values = \<Union> (set (map (cv_conditions \<circ> snd) values))"

definition is_unsupported :: "pyexc \<Rightarrow> bool" where
  "is_unsupported e \<longleftrightarrow> (case e of OtherError c m \<Rightarrow> c = ''_UnsupportedValidityError'' | _ \<Rightarrow> False)"

text \<open>The lineage of the rules of a point: that of its values, or else its attempts.\<close>

definition rule_lineage :: "point_key \<Rightarrow> point_values \<Rightarrow> attempt list \<Rightarrow> string set" where
  "rule_lineage k values ats =
     (if values_lineage values = {} then set (map at_condition (point_attempts k ats)) else values_lineage values)"

definition point_rule ::
  "prepared_plan \<Rightarrow> string \<Rightarrow> point_values \<Rightarrow> attempt list \<Rightarrow> point_key \<Rightarrow> validity_rule \<Rightarrow>
   string \<times> run_refusal list" where
  "point_rule pp corner values ats k r =
     (case filter (\<lambda>a. \<not> completed a) (point_attempts k ats) of
        a # rest \<Rightarrow> (unknown_verdict (at_reason a), [])
      | [] \<Rightarrow>
          (case evaluate_validity_rule pp corner values r of
             Inr verdict \<Rightarrow> (verdict, [])
           | Inl e \<Rightarrow> (unknown_verdict (''validity evaluation failed: '' @ take 512 (exc_text e)),
               [runner_refusal (if is_unsupported e then ''validity_unsupported'' else ''validity_invalid'')
                 (fst k @ ''.'' @ snd k @ ''.'' @ vr_id r @ '': '' @ take 1024 (exc_text e))])))"

definition store_verdict :: "rule_identity \<Rightarrow> string set \<Rightarrow> string \<times> run_refusal list \<Rightarrow> verdicts \<Rightarrow> verdicts" where
  "store_verdict ident lineage result v =
     v\<lparr>vd_verdicts := AList.update ident (fst result) (vd_verdicts v),
       vd_lineage := AList.update ident lineage (vd_lineage v),
       vd_refusals := vd_refusals v @ snd result\<rparr>"

definition point_verdicts ::
  "prepared_plan \<Rightarrow> string \<Rightarrow> run_values \<Rightarrow> attempt list \<Rightarrow> plan_stage \<Rightarrow> plan_point \<Rightarrow> verdicts \<Rightarrow> verdicts" where
  "point_verdicts pp corner vals ats sg pt v =
     (if pt_corner pt \<noteq> corner then v
      else (let k = (sg_id sg, pt_id pt); values = values_of vals k
            in fold (\<lambda>r. store_verdict (PointRule (sg_id sg) (pt_id pt) (vr_id r)) (rule_lineage k values ats)
                        (point_rule pp corner values ats k r)) (pt_rules pt) v))"

text \<open>The rules over the reductions of a stage, none of which is evaluated.\<close>

definition stage_conditions :: "run_values \<Rightarrow> attempt list \<Rightarrow> string \<Rightarrow> string set" where
  "stage_conditions vals ats stage =
     set (map at_condition (filter (\<lambda>a. at_stage a = stage) ats))
     \<union> \<Union> (set (map (values_lineage \<circ> snd) (filter (\<lambda>kv. fst (fst kv) = stage) vals)))"

definition stage_verdicts ::
  "prepared_plan \<Rightarrow> string \<Rightarrow> run_values \<Rightarrow> attempt list \<Rightarrow> plan_stage \<Rightarrow> verdicts \<Rightarrow> verdicts" where
  "stage_verdicts pp corner vals ats sg v =
     (let points = fold (point_verdicts pp corner vals ats sg) (sg_points sg) v
      in if sg_reductions sg = [] \<or> \<not> list_ex (\<lambda>a. at_stage a = sg_id sg) ats then points
         else fold (\<lambda>r. store_verdict (StageRule (sg_id sg) (vr_id r)) (stage_conditions vals ats (sg_id sg))
                (unknown_verdict ''stage reductions unsupported'',
                 [runner_refusal ''validity_unsupported''
                   (sg_id sg @ ''.'' @ vr_id r @ '': stage reduction validity is unsupported'')])) (sg_rules sg) points)"

definition all_verdicts :: "prepared_plan \<Rightarrow> string \<Rightarrow> run_values \<Rightarrow> attempt list \<Rightarrow> verdicts" where
  "all_verdicts pp corner vals ats =
     fold (stage_verdicts pp corner vals ats) (pp_stages pp)
       \<lparr>vd_verdicts = [], vd_lineage = [], vd_refusals = []\<rparr>"

section \<open>Verdict names\<close>

text \<open>A rule identifier that occurs once names its verdict; otherwise the whole path does.\<close>

definition verdict_name :: "rule_identity list \<Rightarrow> rule_identity \<Rightarrow> string" where
  "verdict_name idents ident =
     (if count_list (map identity_rule idents) (identity_rule ident) = 1 then identity_rule ident
      else (case ident of
          PointRule s p r \<Rightarrow> s @ ''.'' @ p @ ''.'' @ r
        | StageRule s r \<Rightarrow> s @ ''.'' @ r))"

definition named_validity :: "(rule_identity \<times> string) list \<Rightarrow> (string \<times> string) list" where
  "named_validity vs =
     fold (\<lambda>(ident, verdict). AList.update (verdict_name (map fst vs) ident) verdict) vs []"

section \<open>Observables\<close>

record outputs =
  op_observables :: "(string \<times> pyval) list"
  op_lineage :: "(string \<times> string list) list"
  op_refusals :: "run_refusal list"

definition emit :: "string \<Rightarrow> pyval \<Rightarrow> string set \<Rightarrow> outputs \<Rightarrow> outputs" where
  "emit name v conditions out =
     out\<lparr>op_observables := AList.update name v (op_observables out),
         op_lineage := AList.update name (sorted_list_of_set conditions) (op_lineage out)\<rparr>"

definition refuse_output :: "string \<Rightarrow> string \<Rightarrow> outputs \<Rightarrow> outputs" where
  "refuse_output code msg out = out\<lparr>op_refusals := op_refusals out @ [runner_refusal code msg]\<rparr>"

definition emit_verdict :: "verdicts \<Rightarrow> string \<Rightarrow> string \<Rightarrow> rule_identity \<Rightarrow> outputs \<Rightarrow> outputs" where
  "emit_verdict v form name ident out =
     (case map_of (named_validity (vd_verdicts v)) (verdict_name (map fst (vd_verdicts v)) ident) of
        None \<Rightarrow> out
      | Some verdict \<Rightarrow>
          (case map_of (vd_lineage v) ident of
             Some linked \<Rightarrow>
               (if linked \<noteq> {} then emit name (VStr verdict) linked out
                else refuse_output ''observable_lineage_missing''
                  (form @ '' observable '' @ repr_text name @ '' has no condition receipt'') out)
           | None \<Rightarrow> refuse_output ''observable_lineage_missing''
               (form @ '' observable '' @ repr_text name @ '' has no condition receipt'') out))"

definition emit_observable :: "run_values \<Rightarrow> verdicts \<Rightarrow> plan_observable \<Rightarrow> outputs \<Rightarrow> outputs" where
  "emit_observable vals v ob out =
     (let name = ob_id ob; known = fst ` set (vd_verdicts v);
          unsupported = refuse_output ''observable_unsupported''
            (''observable '' @ repr_text name @ '' requires unsupported stage reduction evaluation'') out
      in case ob_source ob of
           ObMeasurement s p m \<Rightarrow>
             (case point_value vals (s, p) m of
                None \<Rightarrow> refuse_output ''observable_unavailable''
                  (''observable '' @ repr_text name @ '' measurement is unavailable'') out
              | Some item \<Rightarrow> emit name (cv_value item) (cv_conditions item) out)
         | ObValidity s p r \<Rightarrow>
             (if PointRule s p r \<in> known then emit_verdict v ''validity'' name (PointRule s p r) out else out)
         | ObStageValidity s r \<Rightarrow>
             (if StageRule s r \<in> known then emit_verdict v ''stage-validity'' name (StageRule s r) out
              else unsupported)
         | ObReduction s r c \<Rightarrow> unsupported)"

definition evaluate_plan_outputs ::
  "prepared_plan \<Rightarrow> string \<Rightarrow> run_values \<Rightarrow> attempt list \<Rightarrow> outputs \<times> (string \<times> string) list" where
  "evaluate_plan_outputs pp corner vals ats =
     (let v = all_verdicts pp corner vals ats
      in (fold (emit_observable vals v) (pp_observables pp)
            \<lparr>op_observables = [], op_lineage = [], op_refusals = vd_refusals v\<rparr>,
          named_validity (vd_verdicts v)))"

section \<open>Closed lineage\<close>

text \<open>An observable whose lineage is empty or names an unknown condition is withdrawn.\<close>

definition close_lineage :: "string set \<Rightarrow> string \<times> string list \<Rightarrow> outputs \<Rightarrow> outputs" where
  "close_lineage known entry out =
     (case entry of (name, ids) \<Rightarrow>
        if ids \<noteq> [] \<and> set ids \<subseteq> known then out
        else refuse_output ''observable_lineage_invalid''
          (''observable '' @ repr_text name @ '' does not have closed condition lineage'')
          (out\<lparr>op_observables := AList.delete name (op_observables out),
               op_lineage := AList.delete name (op_lineage out)\<rparr>))"

definition closed_outputs :: "string set \<Rightarrow> outputs \<Rightarrow> outputs" where
  "closed_outputs known out = fold (close_lineage known) (op_lineage out) out"

definition emitted_by :: "(string \<times> string list) list \<Rightarrow> attempt \<Rightarrow> attempt" where
  "emitted_by lineage a =
     a\<lparr>at_observables := sorted_texts (map fst (filter (\<lambda>(name, ids). at_condition a \<in> set ids) lineage))\<rparr>"

end
