(* ===== verification/RunExecute.thy ===== *)
theory RunExecute
  imports RunOutputs
begin

text \<open>
  \<open>execute_testbench_plan_ngspice\<close>: the stages in dependency order, compiled, executed, evaluated and
  bound one after the other, and the envelope and receipt of the run.  The internal test seam that
  starts from a prepared compilation and the publication of the two files are not modelled.
\<close>

section \<open>The state of a run\<close>

record run_state =
  rt_attempts :: "attempt list"
  rt_refusals :: "run_refusal list"
  rt_dut :: "string option"
  rt_compilations :: "compilation list"
  rt_values :: run_values
  rt_identities :: "string list"
  rt_inventory :: bool
  rt_bindings :: "binding_value list"
  rt_receipts :: "pyval list"
  rt_upstream :: "(string \<times> string list) list"

definition initial_run :: run_state where
  "initial_run =
     \<lparr>rt_attempts = [], rt_refusals = [], rt_dut = None, rt_compilations = [], rt_values = [],
      rt_identities = [], rt_inventory = True, rt_bindings = [], rt_receipts = [], rt_upstream = []\<rparr>"

definition point_documents :: "prepared_plan \<Rightarrow> (point_key \<times> plan_point) list" where
  "point_documents pp =
     concat (map (\<lambda>sg. map (\<lambda>pt. ((sg_id sg, pt_id pt), pt)) (sg_points sg)) (pp_stages pp))"

section \<open>One stage\<close>

definition upstream_of :: "run_state \<Rightarrow> string \<Rightarrow> string set" where
  "upstream_of st stage = (case map_of (rt_upstream st) stage of None \<Rightarrow> {} | Some ids \<Rightarrow> set ids)"

definition stage_uncompiled ::
  "run_env \<Rightarrow> string \<Rightarrow> plan_stage \<Rightarrow> pyexc \<Rightarrow> run_state \<Rightarrow> run_state pyres" where
  "stage_uncompiled env corner sg e st =
     (let reason = ''stage compilation refused: '' @ take 768 (exc_text e)
      in pbind (uncompiled_attempts env corner reason sg) (\<lambda>(missing, known).
         Inr (st\<lparr>rt_attempts := rt_attempts st @ missing, rt_inventory := rt_inventory st \<and> known,
                 rt_refusals := rt_refusals st @ [runner_refusal ''stage_uncompiled'' reason]\<rparr>)))"

definition same_dut :: "string option \<Rightarrow> string \<Rightarrow> string option pyres" where
  "same_dut actual sha =
     (if actual = None \<or> actual = Some sha then Inr (Some sha)
      else Inl (ValueError ''stage compilations captured different DUT artifacts''))"

text \<open>A point is evaluated when every one of its conditions completed.\<close>

definition group_complete :: "attempt list \<Rightarrow> point_key \<times> (compiled \<times> waveform) list \<Rightarrow> bool" where
  "group_complete ats entry =
     (length (snd entry) = length (point_attempts (fst entry) ats)
      \<and> list_all completed (point_attempts (fst entry) ats))"

definition evaluate_group ::
  "run_env \<Rightarrow> prepared_plan \<Rightarrow> string \<Rightarrow> string set \<Rightarrow> attempt list \<Rightarrow>
   point_key \<times> (compiled \<times> waveform) list \<Rightarrow> run_values \<times> run_refusal list \<Rightarrow> run_values \<times> run_refusal list" where
  "evaluate_group env pp corner upstream ats entry vr =
     (if \<not> group_complete ats entry then vr
      else (case fst entry of (s, p) \<Rightarrow>
        case (case lookup_last (point_documents pp) (s, p) of
                None \<Rightarrow> Inl (KeyError (''('' @ repr_text s @ '', '' @ repr_text p @ '')''))
              | Some pt \<Rightarrow> evaluate_point_group env pp corner pt (snd entry) upstream) of
          Inr values \<Rightarrow> (AList.update (s, p) values (fst vr), snd vr)
        | Inl e \<Rightarrow> (fst vr, snd vr @ [runner_refusal ''measurement_invalid''
            (s @ ''.'' @ p @ '': '' @ take 1024 (exc_text e))])))"

definition binding_target :: "prepared_plan \<Rightarrow> string \<Rightarrow> string" where
  "binding_target pp b =
     (case lookup_last (map (\<lambda>b. (bi_id b, b)) (pp_bindings pp)) b of Some bi \<Rightarrow> fst (bi_to bi) | None \<Rightarrow> [])"

definition extend_upstream ::
  "prepared_plan \<Rightarrow> resolved_binding \<Rightarrow> (string \<times> string list) list \<Rightarrow> (string \<times> string list) list" where
  "extend_upstream pp rb ups =
     (let target = binding_target pp (bv_binding (rb_value rb))
      in AList.update target ((case map_of ups target of None \<Rightarrow> [] | Some ids \<Rightarrow> ids) @ rb_conditions rb) ups)"

definition lefts :: "('a + 'b) list \<Rightarrow> 'a list" where
  "lefts xs = List.map_filter (\<lambda>x. case x of Inl a \<Rightarrow> Some a | Inr b \<Rightarrow> None) xs"

definition rights :: "('a + 'b) list \<Rightarrow> 'b list" where
  "rights xs = List.map_filter (\<lambda>x. case x of Inl a \<Rightarrow> None | Inr b \<Rightarrow> Some b) xs"

definition bind_stage ::
  "run_env \<Rightarrow> prepared_plan \<Rightarrow> string \<Rightarrow> string \<Rightarrow> run_state \<Rightarrow> run_state pyres" where
  "bind_stage env pp corner stage st =
     pbind (resolved_stage_bindings env pp corner stage (rt_values st) (rt_attempts st)) (\<lambda>results.
     Inr (st\<lparr>rt_bindings := rt_bindings st @ map rb_value (rights results),
             rt_refusals := rt_refusals st @ lefts results,
             rt_receipts := rt_receipts st @ map rb_receipt (rights results),
             rt_upstream := fold (extend_upstream pp) (rights results) (rt_upstream st)\<rparr>))"

definition execute_stage ::
  "run_env \<Rightarrow> prepared_plan \<Rightarrow> string \<Rightarrow> string \<Rightarrow> compilation \<Rightarrow> run_state \<Rightarrow> run_state pyres" where
  "execute_stage env pp corner stage cp st =
     pbind (condition_capacity cp (set (map at_condition (rt_attempts st)))) (\<lambda>unit.
     pbind (registered_dut_sha256 env cp) (\<lambda>sha.
     pbind (same_dut (rt_dut st) sha) (\<lambda>dut.
     let cr = execute_conditions env (point_documents pp) (cp_conditions cp);
         evaluated = fold (evaluate_group env pp corner (upstream_of st stage) (cr_attempts cr))
           (cr_waveforms cr) (rt_values st, rt_refusals st @ cr_refusals cr)
     in bind_stage env pp corner stage
          (st\<lparr>rt_dut := dut, rt_compilations := rt_compilations st @ [cp],
              rt_attempts := rt_attempts st @ cr_attempts cr, rt_values := fst evaluated,
              rt_refusals := snd evaluated, rt_identities := rt_identities st @ cr_identities cr\<rparr>))))"

definition run_stage ::
  "run_env \<Rightarrow> prepared_plan \<Rightarrow> string \<Rightarrow> string \<Rightarrow> run_state \<Rightarrow> run_state pyres" where
  "run_stage env pp corner stage st =
     (case map_of (stage_dict (pp_stages pp)) stage of
        None \<Rightarrow> Inl (KeyError (repr_text stage))
      | Some sg \<Rightarrow>
          if \<not> list_ex (\<lambda>pt. pt_corner pt = corner) (sg_points sg) then Inr st
          else (case rn_compile env stage (rt_bindings st) of
              Inl e \<Rightarrow> stage_uncompiled env corner sg e st
            | Inr cp \<Rightarrow> execute_stage env pp corner stage cp st))"

section \<open>The run\<close>

record run_result =
  rr_envelope :: pyval
  rr_attempts :: "attempt list"
  rr_refusals :: "run_refusal list"
  rr_receipt :: pyval

definition timeout_ok :: "pyval \<Rightarrow> unit pyres" where
  "timeout_ok timeout =
     (let refusal = Inl (ValueError ''timeout_s must be finite and within (0, 3600]'')
      in case as_number timeout of
           None \<Rightarrow> refusal
         | Some number \<Rightarrow> pbind number (\<lambda>x.
             if is_finite x \<and> flt (PFin 0) x \<and> fle x (PFin 3600) then Inr () else refusal))"

definition envelope_digest :: "prepared_plan \<Rightarrow> string option \<Rightarrow> run_state \<Rightarrow> string pyres" where
  "envelope_digest pp expected st =
     (let digest = (case rt_dut st of
            Some sha \<Rightarrow> sha
          | None \<Rightarrow> (case expected of
                None \<Rightarrow> dut_sha256 (pc_dut (pp_context pp))
              | Some sha \<Rightarrow> (if sha = [] then dut_sha256 (pc_dut (pp_context pp)) else sha)))
      in if sha256_text digest then Inr digest
         else Inl (ValueError ''runner DUT digest is not a lowercase SHA-256''))"

definition check_inventory :: "attempt list \<Rightarrow> unit pyres" where
  "check_inventory ats =
     (if \<not> distinct (map at_condition ats)
      then Inl (ValueError ''execution produced duplicate condition identifiers'')
      else if MAX_ENVELOPE_CONDITIONS < length ats
      then Inl (ValueError (''execution condition inventory exceeds the ''
        @ ''testbench-observables/v1 boundary''))
      else Inr ())"

definition condition_entry :: "attempt \<Rightarrow> pyval" where
  "condition_entry a =
     obj [(''id'', VStr (at_condition a)), (''observables'', VList (map VStr (at_observables a))),
          (''receipt'', obj [(''compiled_deck_sha256'', VStr (at_deck_sha256 a)),
                           (''waveform_sha256'', VStr (at_waveform_sha256 a))])]"

definition lineage_entry :: "string \<times> string list \<Rightarrow> pyval" where
  "lineage_entry entry =
     obj [(''observable'', VStr (fst entry)), (''condition_ids'', VList (map VStr (snd entry)))]"

definition run_envelope ::
  "run_env \<Rightarrow> string \<Rightarrow> string \<Rightarrow> outputs \<Rightarrow> (string \<times> string) list \<Rightarrow> attempt list \<Rightarrow> pyval" where
  "run_envelope env digest corner out validity ats =
     obj [(''schema'', VStr ''simra.testbench-observables/v1''), (''plan_sha256'', VStr (rn_plan_sha256 env)),
          (''dut_sha256'', VStr digest), (''corner'', VStr corner),
          (''validity'', obj (map (\<lambda>(name, verdict). (name, VStr verdict)) validity)),
          (''observables'', obj (op_observables out)),
          (''metadata'', obj [(''grading_runtime_s'', VFloat (fmax (PFin 0) (rn_runtime env))),
             (''conditions'', VList (map condition_entry ats)),
             (''lineage'', VList (map lineage_entry (sort_key fst (op_lineage out)))),
             (''extensions'', obj [])]),
          (''extensions'', obj [])]"

definition count_attempts :: "(attempt \<Rightarrow> bool) \<Rightarrow> attempt list \<Rightarrow> pyval" where
  "count_attempts P ats = VInt (int (length (filter P ats)))"

definition run_receipt ::
  "run_env \<Rightarrow> string \<Rightarrow> string \<Rightarrow> run_state \<Rightarrow> run_refusal list \<Rightarrow> attempt list \<Rightarrow> pyval \<Rightarrow> pyval pyres" where
  "run_receipt env digest corner st refusals ats envelope =
     (let receipts = VList (map cp_receipt (rt_compilations st))
      in pbind (canonical_sha256 (rn_env env) receipts) (\<lambda>compilers.
         pbind (canonical_sha256 (rn_env env) envelope) (\<lambda>observed.
         Inr (obj [(''schema'', VStr ''simra.testbench-plan-run/v1''),
           (''runner_id'', VStr ''openada.testbench-plan.runner.ngspice/v1''),
           (''compiler_receipt_sha256'', VStr compilers), (''compiler_receipts'', receipts),
           (''binding_receipts'', VList (rt_receipts st)), (''plan_sha256'', VStr (rn_plan_sha256 env)),
           (''dut_sha256'', VStr digest), (''corner'', VStr corner),
           (''condition_inventory_complete'', VBool (rt_inventory st)),
           (''expected_condition_count'', VInt (int (length ats))),
           (''attempted_condition_count'', VInt (int (length ats))),
           (''simulator_invocation_count'', count_attempts at_invoked ats),
           (''completed_condition_count'', count_attempts completed ats),
           (''not_executed_condition_count'', count_attempts (\<lambda>a. at_returncode a = None) ats),
           (''simulator_identities'', VList (map VStr (sorted_list_of_set (set (rt_identities st))))),
           (''environment'', obj [(''LANG'', VStr ''C''), (''LC_ALL'', VStr ''C''),
              (''SPICE_ASCIIRAWFILE'', VStr ''1''), (''ambient_inherited'', VBool False)]),
           (''settle_semantics'', obj [(''fresh_dc'', VStr ''independent_operating_point_per_sample''),
              (''operating_point_dc'', VStr ''dc_operating_point_solver''),
              (''fixed_time_dc'', VStr ''refused_as_semantically_incompatible''),
              (''transient_fixed_time'', VStr ''only_zero_duration_supported''),
              (''until_delta'', VStr ''unsupported_fail_closed''),
              (''carryover'', VStr ''unsupported_fail_closed'')]),
           (''attempts'', VList (map attempt_record ats)),
           (''refusals'', VList (map run_refusal_record refusals)),
           (''observable_envelope_sha256'', VStr observed)]))))"

definition finish_run ::
  "run_env \<Rightarrow> prepared_plan \<Rightarrow> string \<Rightarrow> string option \<Rightarrow> run_state \<Rightarrow> run_result pyres" where
  "finish_run env pp corner expected st =
     pbind (envelope_digest pp expected st) (\<lambda>digest.
     pbind (check_inventory (rt_attempts st)) (\<lambda>unit.
     case evaluate_plan_outputs pp corner (rt_values st) (rt_attempts st) of (raw, validity) \<Rightarrow>
       let out = closed_outputs (set (map at_condition (rt_attempts st)))
                   (raw\<lparr>op_refusals := rt_refusals st @ op_refusals raw\<rparr>);
           ats = map (emitted_by (op_lineage out)) (rt_attempts st);
           envelope = run_envelope env digest corner out validity ats
       in pbind (run_receipt env digest corner st (op_refusals out) ats envelope) (\<lambda>receipt.
          Inr \<lparr>rr_envelope = envelope, rr_attempts = ats, rr_refusals = op_refusals out,
               rr_receipt = receipt\<rparr>)))"

definition run_stages ::
  "run_env \<Rightarrow> prepared_plan \<Rightarrow> string \<Rightarrow> run_state pyres" where
  "run_stages env pp corner =
     pbind (topological_stages (pp_stages pp)) (\<lambda>order.
     fold_res (run_stage env pp corner) order initial_run)"

definition execute_testbench_plan ::
  "run_env \<Rightarrow> prepared_plan \<Rightarrow> string \<Rightarrow> string option \<Rightarrow> pyval \<Rightarrow> run_result pyres" where
  "execute_testbench_plan env pp corner expected timeout =
     pbind (timeout_ok timeout) (\<lambda>unit.
     if corner \<notin> cb_id ` set (pc_corners (pp_context pp))
     then Inl (ValueError (''corner '' @ repr_text corner @ '' is not declared by the plan''))
     else pbind (run_stages env pp corner) (finish_run env pp corner expected))"

end
