(* ===== verification/PlanAccept.thy ===== *)
theory PlanAccept
  imports PlanValidate
begin

text \<open>
  What silence of the testbench-plan validator gives.  Every dictionary the validator builds, and
  every list of points and stages it walks, promises the same: when nothing is recorded, the result
  is the document unchanged, its identifiers are distinct and each entry passed its body.  That
  contract is the locale \<open>identity_loop\<close>, interpreted on each of the validators.
\<close>

section \<open>The contract\<close>

locale identity_loop =
  fixes run :: "'a list \<Rightarrow> pyexc + issue list \<times> 'a list"
    and ident :: "'a \<Rightarrow> string"
    and ok :: "'a list \<Rightarrow> 'a \<Rightarrow> bool"
  assumes silent: "run raws = Inr ([], out) \<Longrightarrow>
    out = raws \<and> distinct (map ident raws) \<and> (\<forall>k < length raws. ok (take k raws) (raws ! k))"
begin

lemma unchanged: "run raws = Inr ([], out) \<Longrightarrow> out = raws"
  using silent by blast

lemma distinct_ids: "run raws = Inr ([], out) \<Longrightarrow> distinct (map ident raws)"
  using silent by blast

lemma nth_ok: "run raws = Inr ([], out) \<Longrightarrow> k < length raws \<Longrightarrow> ok (take k raws) (raws ! k)"
  using silent by blast

lemma mem_ok:
  assumes "run raws = Inr ([], out)" and "x \<in> set raws"
  shows "\<exists>before. ok before x \<and> set before \<subseteq> set raws"
proof -
  obtain k where "k < length raws" "x = raws ! k" using assms(2) by (auto simp: in_set_conv_nth)
  then show ?thesis using nth_ok [OF assms(1)] set_take_subset by metis
qed

end

lemma find_id_mem: "distinct (map ident xs) \<Longrightarrow> x \<in> set xs \<Longrightarrow> find_id ident xs (ident x) = Some x"
  unfolding find_id_def by (induction xs) auto

section \<open>The dictionary loops\<close>

lemma register_res_silent:
  "register_res ident base label body i out raws = Inr ([], out') \<Longrightarrow> distinct (map ident out) \<Longrightarrow>
   out' = out @ raws \<and> distinct (map ident out') \<and>
   (\<forall>k < length raws. body (at_index base (i + k)) (out @ take k raws) (raws ! k) = Inr [])"
proof (induction ident base label body i out raws arbitrary: out' rule: register_res.induct)
  case (2 ident base label body i out raw raws)
  then have new: "ident raw \<notin> ident ` set out" by (auto split: if_split_asm prod.split_asm)
  have r: "body (at_index base i) out raw = Inr []"
      "register_res ident base label body (Suc i) (out @ [raw]) raws = Inr ([], out')"
    using "2.prems"(1) new by (auto split: prod.splits)
  have d: "distinct (map ident (out @ [raw]))" using "2.prems"(2) new by auto
  note ih = "2.IH"(2) [OF new r(1) r(2) d]
  have "body (at_index base (i + k)) (out @ take k (raw # raws)) ((raw # raws) ! k) = Inr []"
    if "k < length (raw # raws)" for k
    using ih r(1) that by (cases k) auto
  moreover have "distinct (map ident out')" using ih by blast
  moreover have "out' = out @ raw # raws" using ih by simp
  ultimately show ?case by blast
qed simp

interpretation keyed: identity_loop "register_res ident base label body 0 []" ident
    "\<lambda>before x. \<exists>path. body path before x = Inr []"
  for ident :: "'a \<Rightarrow> string" and base label body
  using register_res_silent [where out = "[]"] by unfold_locales fastforce

lemma register_pure:
  "register_res ident base label (\<lambda>path out x. Inr (body path out x)) i out raws =
     Inr (register ident base label body i out raws)"
  by (induction ident base label body i out raws rule: register.induct) (auto split: prod.splits)

interpretation pure: identity_loop "\<lambda>raws. Inr (register ident base label body 0 [] raws)" ident
    "\<lambda>before x. \<exists>path. body path before x = []"
  for ident :: "'a \<Rightarrow> string" and base label body
  using keyed.silent [of ident base label "\<lambda>path out x. Inr (body path out x)"]
  by unfold_locales (simp add: register_pure)

interpretation corners: identity_loop "\<lambda>cbs. Inr (validate_corners cbs)" cb_id
    "\<lambda>before x. \<exists>path. corner_body path before x = []"
  using pure.silent by unfold_locales (simp add: validate_corners_def)

interpretation supplies: identity_loop "\<lambda>sus. Inr (validate_supplies dut corners sus)" su_id
    "\<lambda>before x. \<exists>path. supply_body dut corners path before x = []" for dut corners
  using pure.silent by unfold_locales (simp add: validate_supplies_def)

interpretation stimuli: identity_loop "\<lambda>sts. Inr (validate_stimuli dut sups sts)" st_id
    "\<lambda>before x. \<exists>path. stimulus_body dut sups path before x = []" for dut sups
  using pure.silent by unfold_locales (simp add: validate_stimuli_def)

interpretation probes: identity_loop "\<lambda>prs. Inr (validate_probes dut sts prs)" pr_id
    "\<lambda>before x. \<exists>path. probe_body dut sts path before x = []" for dut sts
  using pure.silent by unfold_locales (simp add: validate_probes_def)

lemma validate_measurements_silent:
  assumes "validate_measurements cx path ms = Inr ([], out)"
  shows "register_res me_id (path @ ''/measurements'') ''measurement id'' (measurement_body cx) 0 [] ms = Inr ([], out)"
    and "check_dag (measurement_graph out) (path @ ''/measurements'') = []"
  using assms by (auto simp: validate_measurements_def Let_def split: prod.splits)

interpretation measurements: identity_loop "validate_measurements cx path" me_id
    "\<lambda>before x. \<exists>here. measurement_body cx here before x = Inr []" for cx path
  using keyed.silent [OF validate_measurements_silent(1)] by unfold_locales

interpretation rules: identity_loop "\<lambda>rs. Inr (validate_validity sts sups ms path rs)" vr_id
    "\<lambda>before x. \<exists>here. rule_body sts sups ms here before x = []" for sts sups ms path
  using pure.silent by unfold_locales (simp add: validate_validity_def)

interpretation reductions: identity_loop "validate_reductions cx path" re_id
    "\<lambda>before x. \<exists>here. reduction_body cx here before x = Inr []" for cx path
  using keyed.silent by unfold_locales (simp add: validate_reductions_def)

interpretation stage_rules: identity_loop "\<lambda>rs. Inr (validate_stage_validity sups reds path rs)" vr_id
    "\<lambda>before x. \<exists>here. stage_rule_body sups reds here before x = []" for sups reds path
  using pure.silent by unfold_locales (simp add: validate_stage_validity_def)

section \<open>Points and stages\<close>

lemma list_all2_mem_left:
  assumes "list_all2 P xs ys" and "x \<in> set xs"
  shows "\<exists>y \<in> set ys. P x y"
  using assms by (induction rule: list_all2_induct) auto

lemma validate_point_silent:
  assumes "validate_point pc sg path pt = Inr ([], pt')"
  shows "pt' = pt"
    and "validate_measurements (point_context_of pc sg pt) path (pt_measurements pt) = Inr ([], pt_measurements pt)"
proof -
  obtain iss ms where
      m: "validate_measurements (point_context_of pc sg pt) path (pt_measurements pt) = Inr (iss, ms)"
    using assms by (auto simp: validate_point_def Let_def)
  obtain iss' rules where
      v: "validate_validity (pc_stimuli pc) (pc_supplies pc) ms path (pt_rules pt) = (iss', rules)"
    by (cases "validate_validity (pc_stimuli pc) (pc_supplies pc) ms path (pt_rules pt)")
  have e: "iss = []" "iss' = []" "pt' = pt\<lparr>pt_measurements := ms, pt_rules := rules\<rparr>"
    using assms by (simp_all add: validate_point_def Let_def m v)
  have ms: "ms = pt_measurements pt" using measurements.unchanged m e(1) by blast
  moreover have "rules = pt_rules pt" using rules.unchanged v e(2) by blast
  ultimately show "pt' = pt" using e(3) by simp
  show "validate_measurements (point_context_of pc sg pt) path (pt_measurements pt) = Inr ([], pt_measurements pt)"
    using m e(1) ms by simp
qed

lemma validate_points_silent:
  "validate_points pc sg stage_path i seen pts = Inr ([], pts') \<Longrightarrow>
   pts' = pts \<and> distinct (map pt_id pts) \<and> set (map pt_id pts) \<inter> set seen = {} \<and>
   (\<forall>pt \<in> set pts. \<exists>path. validate_point pc sg path pt = Inr ([], pt))"
proof (induction pc sg stage_path i seen pts arbitrary: pts' rule: validate_points.induct)
  case (2 pc sg stage_path i seen pt pts)
  define path where "path = at_index (stage_path @ ''/points'') i"
  obtain pt1 pts1 where p: "validate_point pc sg path pt = Inr ([], pt1)"
      "validate_points pc sg stage_path (Suc i) (pt_id pt # seen) pts = Inr ([], pts1)"
      "pts' = pt1 # pts1" "pt_id pt \<notin> set seen"
    using "2.prems" by (auto simp: path_def Let_def split: prod.splits)
  from validate_point_silent(1) [OF p(1)] have "pt1 = pt" .
  moreover have "pts1 = pts \<and> distinct (map pt_id pts) \<and> set (map pt_id pts) \<inter> set (pt_id pt # seen) = {} \<and>
      (\<forall>pt \<in> set pts. \<exists>path. validate_point pc sg path pt = Inr ([], pt))"
    using "2.IH" [OF path_def p(1) refl p(2)] .
  ultimately show ?case using p by auto
qed simp

interpretation points: identity_loop "validate_points pc sg path 0 []" pt_id
    "\<lambda>before pt. \<exists>here. validate_point pc sg here pt = Inr ([], pt)" for pc sg path
  using validate_points_silent by unfold_locales (meson nth_mem)


lemma first_stages_silent:
  "first_stages i out sgs = ([], out') \<Longrightarrow> distinct (map (sg_id \<circ> snd) out) \<Longrightarrow>
   map snd out' = map snd out @ sgs \<and> distinct (map (sg_id \<circ> snd) out')"
  by (induction i out sgs rule: first_stages.induct) (auto split: if_split_asm prod.split_asm)

lemma validate_stage_silent:
  assumes "validate_stage pc (pos, sg) = Inr ([], sg')"
  shows "sg' = sg"
    and "\<exists>path. validate_points pc sg path 0 [] (sg_points sg) = Inr ([], sg_points sg)"
    and "distinct (map fst (sg_inputs sg))"
proof -
  define path where "path = at_index ''/stages'' pos"
  obtain iss pts where p: "validate_points pc sg path 0 [] (sg_points sg) = Inr (iss, pts)"
    using assms by (auto simp: validate_stage_def path_def Let_def)
  define cx where "cx = \<lparr>sc_stage = sg_id sg, sc_points = sg_points sg,
      sc_measurements = stage_measurements (sg_id sg) pts, sc_supplies = pc_supplies pc\<rparr>"
  obtain iss' rs where r: "validate_reductions cx path (sg_reductions sg) = Inr (iss', rs)"
    using assms p by (auto simp: validate_stage_def path_def Let_def cx_def)
  obtain iss'' rules where
      v: "validate_stage_validity (pc_supplies pc) rs path (sg_rules sg) = (iss'', rules)"
    by (cases "validate_stage_validity (pc_supplies pc) rs path (sg_rules sg)")
  have e: "iss = []" "iss' = []" "iss'' = []" "input_issues path 0 [] (sg_inputs sg) = []"
      "sg' = sg\<lparr>sg_points := pts, sg_reductions := rs, sg_rules := rules\<rparr>"
    using assms p r v by (simp_all add: validate_stage_def Let_def flip: path_def cx_def)
  have "pts = sg_points sg" using points.unchanged p e(1) by blast
  moreover have "rs = sg_reductions sg" using reductions.unchanged r e(2) by blast
  moreover have "rules = sg_rules sg" using stage_rules.unchanged v e(3) by blast
  ultimately show "sg' = sg" using e(5) by simp
  show "\<exists>path. validate_points pc sg path 0 [] (sg_points sg) = Inr ([], sg_points sg)"
    using p e(1) points.unchanged [of pc sg path "sg_points sg" pts] by blast
  have "input_issues path i seen xs = [] \<Longrightarrow> distinct (map fst xs) \<and> set (map fst xs) \<inter> set seen = {}"
    for i seen xs
    by (induction path i seen xs rule: input_issues.induct) auto
  from this [OF e(4)] show "distinct (map fst (sg_inputs sg))" by blast
qed

text \<open>The facts of a silent stage walk, as the properties use them.\<close>

lemma validate_stages_silent:
  assumes "validate_stages pc sgs = Inr ([], out)"
  shows "out = sgs" and "distinct (map sg_id sgs)" and "acyclic (edges (stage_graph sgs))"
    and "sg \<in> set sgs \<Longrightarrow> \<exists>path. validate_points pc sg path 0 [] (sg_points sg) = Inr ([], sg_points sg)"
    and "sg \<in> set sgs \<Longrightarrow> distinct (map fst (sg_inputs sg))"
    and "sg \<in> set sgs \<Longrightarrow> d \<in> set (sg_depends sg) \<Longrightarrow> d \<in> sg_id ` set sgs \<and> d \<noteq> sg_id sg"
    and "\<exists>entries. map snd entries = sgs \<and> (\<forall>item \<in> set (point_table sgs).
           carryover_issues entries (point_table sgs) item = [])"
proof -
  obtain duplicates entries where f: "first_stages 0 [] sgs = (duplicates, entries)"
    by (cases "first_stages 0 [] sgs")
  define raw where "raw = map snd entries"
  obtain results where r: "map_res (validate_stage pc) entries = Inr results"
    and e: "duplicates = []" "concat (map (depends_issues (map sg_id raw)) entries) = []"
      "check_dag (stage_graph raw) ''/stages'' = []" "concat (map fst results) = []"
      "concat (map (carryover_issues entries (point_table raw)) (point_table raw)) = []"
      "out = map snd results"
    using assms by (auto simp: validate_stages_def f raw_def Let_def)
  from first_stages_silent [OF f [unfolded e(1)]]
  have raw: "raw = sgs" and dist: "distinct (map sg_id sgs)"
    by (auto simp: raw_def simp flip: map_map)
  have each: "\<exists>pos sg'. (pos, sg) \<in> set entries \<and> validate_stage pc (pos, sg) = Inr ([], sg')"
    if "sg \<in> set sgs" for sg
  proof -
    have "sg \<in> snd ` set entries" using that raw unfolding raw_def by (metis set_map)
    then obtain pos where pos: "(pos, sg) \<in> set entries" by force
    then obtain y where y: "y \<in> set results" "validate_stage pc (pos, sg) = Inr y"
      using list_all2_mem_left [OF r [unfolded map_res_eq_Inr] pos] by blast
    then have "fst y = []" using e(4) by auto
    then show ?thesis using pos y(2) by (cases y) auto
  qed
  have "map snd results = map snd entries"
  proof (rule nth_equalityI)
    show len: "length (map snd results) = length (map snd entries)" using map_res_length [OF r] by simp
    fix k assume k: "k < length (map snd results)"
    then have v: "validate_stage pc (entries ! k) = Inr (results ! k)"
      using r by (auto simp: map_res_eq_Inr list_all2_conv_all_nth)
    have "fst (results ! k) = []" using e(4) k by (auto dest: nth_mem)
    then show "map snd results ! k = map snd entries ! k"
      using validate_stage_silent(1) [of pc "fst (entries ! k)" "snd (entries ! k)" "snd (results ! k)"] v k len
      by (cases "results ! k") auto
  qed
  then show "out = sgs" using e(6) raw by (simp add: raw_def)
  show "distinct (map sg_id sgs)" by (rule dist)
  show "acyclic (edges (stage_graph sgs))" using e(3) raw check_dag_exact by simp
  show "sg \<in> set sgs \<Longrightarrow> \<exists>path. validate_points pc sg path 0 [] (sg_points sg) = Inr ([], sg_points sg)"
    using each validate_stage_silent(2) by blast
  show "sg \<in> set sgs \<Longrightarrow> distinct (map fst (sg_inputs sg))"
    using each validate_stage_silent(3) by blast
  show "d \<in> sg_id ` set sgs \<and> d \<noteq> sg_id sg" if sg: "sg \<in> set sgs" and d: "d \<in> set (sg_depends sg)"
  proof -
    obtain pos where "(pos, sg) \<in> set entries" using each [OF sg] by blast
    then have "depends_issues (map sg_id sgs) (pos, sg) = []" using e(2) raw by auto
    from each_Nil_mem [OF this [unfolded depends_issues_def prod.case] d] show ?thesis by auto
  qed
  show "\<exists>entries. map snd entries = sgs \<and> (\<forall>item \<in> set (point_table sgs).
           carryover_issues entries (point_table sgs) item = [])"
    using e(5) raw by (intro exI [of _ entries]) (auto simp: raw_def)
qed

section \<open>Execution order\<close>

text \<open>An acyclic graph has a rank that falls along every edge: the position in the completion order.\<close>

lemma topo_rank:
  "topo g order \<Longrightarrow> (n, p) \<in> edges g \<Longrightarrow> n \<in> set order \<Longrightarrow>
   length (dropWhile (\<lambda>x. x \<noteq> p) order) < length (dropWhile (\<lambda>x. x \<noteq> n) order)"
proof (induction order)
  case (Cons m rest)
  show ?case
  proof (cases "n = m")
    case True
    then have "p \<in> set rest" "p \<noteq> m" using Cons.prems by (auto simp: edges_def)
    then show ?thesis using True length_dropWhile_le [of "\<lambda>x. x \<noteq> p" rest] by (simp add: le_imp_less_Suc)
  next
    case False
    then have n: "n \<in> set rest" using Cons.prems(3) by simp
    then have "p \<noteq> m" using topo_closed [of g rest n p] Cons.prems by auto
    then show ?thesis using Cons.IH n False Cons.prems by simp
  qed
qed simp

lemma acyclic_rank:
  assumes "acyclic (edges g)"
  shows "\<exists>rank :: string \<Rightarrow> nat. \<forall>(n, p) \<in> edges g. rank p < rank n"
proof -
  obtain order where o: "topo g order" "set (map fst g) \<subseteq> set order"
    using assms dag_nodes_silent [of g "[]" "map fst g" "[]"] check_dag_exact [of g "[]"]
    by (auto simp: check_dag_def)
  have "n \<in> set order" if "(n, p) \<in> edges g" for n p
    using that graph_parents_node [of p g n] o(2) by (auto simp: edges_def)
  then show ?thesis using topo_rank [OF o(1)] by (intro exI) auto
qed

lemma stage_edge:
  assumes "distinct (map sg_id sgs)" and "sg \<in> set sgs" and "d \<in> set (sg_depends sg)" and "d \<in> sg_id ` set sgs"
  shows "(sg_id sg, d) \<in> edges (stage_graph sgs)"
proof -
  have "map_of (stage_graph sgs) (sg_id sg) = Some (sg_depends sg)"
    using assms(1,2) by (intro map_of_is_SomeI) (auto simp: stage_graph_def comp_def)
  then show ?thesis using assms(3,4) by (auto simp: edges_def graph_parents_def stage_graph_def comp_def)
qed

section \<open>The table of points\<close>

lemma index_points_other:
  "s \<noteq> stage \<or> p \<notin> pt_id ` set pts \<Longrightarrow> map_of (index_points stage i pts table) (s, p) = map_of table (s, p)"
  by (induction stage i pts table rule: index_points.induct) (auto simp: update_conv')

lemma index_points_nth:
  "distinct (map pt_id pts) \<Longrightarrow> k < length pts \<Longrightarrow>
   map_of (index_points stage i pts table) (stage, pt_id (pts ! k)) = Some (i + k, pts ! k)"
proof (induction stage i pts table arbitrary: k rule: index_points.induct)
  case (2 stage i pt pts table)
  then show ?case by (cases k) (auto simp: index_points_other update_conv')
qed simp

lemma index_points_Some:
  "map_of (index_points stage i pts table) (s, p) = Some (j, src) \<Longrightarrow>
   map_of table (s, p) = Some (j, src) \<or>
   s = stage \<and> (\<exists>k < length pts. j = i + k \<and> src = pts ! k \<and> pt_id src = p)"
proof (induction stage i pts table rule: index_points.induct)
  case (2 stage i pt pts table)
  then consider "map_of (AList.update (stage, pt_id pt) (i, pt) table) (s, p) = Some (j, src)"
    | "s = stage" "\<exists>k < length pts. j = Suc i + k \<and> src = pts ! k \<and> pt_id src = p" by auto
  then show ?case
  proof cases
    case 1
    then show ?thesis by (auto simp: update_conv' split: if_split_asm)
  next
    case 2
    then obtain k where "k < length pts" "j = Suc i + k" "src = pts ! k" "pt_id src = p" by blast
    then show ?thesis using 2(1) by (intro disjI2 conjI exI [of _ "Suc k"]) auto
  qed
qed simp

abbreviation store_points :: "plan_stage list \<Rightarrow> point_table \<Rightarrow> point_table" where
  "store_points \<equiv> fold (\<lambda>sg. index_points (sg_id sg) 0 (sg_points sg))"

lemma store_points_other:
  "s \<notin> sg_id ` set sgs \<Longrightarrow> map_of (store_points sgs table) (s, p) = map_of table (s, p)"
  by (induction sgs arbitrary: table) (auto simp: index_points_other)

lemma store_points_nth:
  "distinct (map sg_id sgs) \<Longrightarrow> sg \<in> set sgs \<Longrightarrow> distinct (map pt_id (sg_points sg)) \<Longrightarrow>
   k < length (sg_points sg) \<Longrightarrow>
   map_of (store_points sgs table) (sg_id sg, pt_id (sg_points sg ! k)) = Some (k, sg_points sg ! k)"
  by (induction sgs arbitrary: table) (auto simp: store_points_other index_points_nth)

lemma store_points_Some:
  "map_of (store_points sgs table) (s, p) = Some (j, src) \<Longrightarrow>
   map_of table (s, p) = Some (j, src) \<or>
   (\<exists>sg \<in> set sgs. sg_id sg = s \<and> j < length (sg_points sg) \<and> sg_points sg ! j = src \<and> pt_id src = p)"
proof (induction sgs arbitrary: table)
  case (Cons sg sgs)
  from Cons.IH [of "index_points (sg_id sg) 0 (sg_points sg) table"] Cons.prems
  show ?case using index_points_Some [of "sg_id sg" 0 "sg_points sg" table s p j src] by auto
qed simp

end
