(* ===== verification/PlanExample.thy ===== *)
theory PlanExample
  imports PlanValidate
begin

text \<open>
  A small testbench plan: a DC sweep of a buffer, whose switching point bounds the sweep of a
  second stage.  It is the concrete input at which the properties of the plan validator are applied.
\<close>

definition buffer_dut :: dut_binding where
  "buffer_dut =
     \<lparr>dut_artifact = ''/dut/buf.spice'', dut_sha256 = ''0'', dut_namespace = ''bench'', dut_top = ''buf'',
      dut_ports = [\<lparr>port_name = ''in'', port_direction = ''inout'', port_internals = []\<rparr>,
                   \<lparr>port_name = ''out'', port_direction = ''output'', port_internals = []\<rparr>],
      dut_connections = [(''in'', ''a''), (''out'', ''y'')]\<rparr>"

definition volts :: "rat \<Rightarrow> quantity" where
  "volts x = \<lparr>q_value = x, q_unit = ''V''\<rparr>"

definition sweep :: "value_source \<Rightarrow> analysis" where
  "sweep stop = DcSweep ''drive'' (LiteralValue (volts 0)) stop (LiteralValue (volts 1))"

definition buffer_point :: "string \<Rightarrow> state_policy \<Rightarrow> value_source \<Rightarrow> plan_point" where
  "buffer_point k state stop =
     \<lparr>pt_id = k, pt_corner = ''tt'', pt_temperature = 25, pt_parameters = [], pt_state = state,
      pt_settle = OperatingPoint, pt_active = [''drive''], pt_analysis = sweep stop,
      pt_measurements =
        [\<lparr>me_id = ''vtc'', me_unit = ''V'', me_doc = Curve ''vout''\<rparr>,
         \<lparr>me_id = ''vm'', me_unit = ''V'', me_doc = Crossing ''vtc'' (SupplyScaled ''vdd'' (1 / 2)) ''falling'' 1\<rparr>],
      pt_rules = [\<lparr>vr_id = ''mono'', vr_doc = MonotonicityRule ''vtc'' (volts 0), vr_reason = ''non_monotone''\<rparr>]\<rparr>"

definition collected :: reduction where
  "collected = \<lparr>re_id = ''vms'', re_unit = ''V'', re_doc = CollectArray [((''p'', ''vm''), [])]\<rparr>"

definition buffer_stage :: "reduction list \<Rightarrow> plan_stage" where
  "buffer_stage rs =
     \<lparr>sg_id = ''coarse'', sg_depends = [], sg_inputs = [],
      sg_points = [buffer_point ''p'' (Fresh [(True, ''out'', 0)]) (LiteralValue (volts 2))],
      sg_reductions = collected # rs,
      sg_rules = []\<rparr>"

definition fine_stage :: plan_stage where
  "fine_stage =
     \<lparr>sg_id = ''fine'', sg_depends = [''coarse''], sg_inputs = [(''limit'', ''V'')],
      sg_points = [buffer_point ''q'' (Carryover ''coarse'' ''p'') (InputValue ''limit'' ''V'')],
      sg_reductions = [], sg_rules = []\<rparr>"

definition buffer_plan :: "reduction list \<Rightarrow> plan_document" where
  "buffer_plan rs =
     \<lparr>pl_id = ''buffer'', pl_dut = buffer_dut,
      pl_supplies = [\<lparr>su_id = ''vdd'', su_positive = ''a'', su_negative = ''0'', su_value_id = ''vdd''\<rparr>],
      pl_corners = [\<lparr>cb_id = ''tt'', cb_temperature = 25, cb_values = [(''vdd'', volts 2)]\<rparr>],
      pl_stimuli = [\<lparr>st_id = ''drive'', st_doc = DcState ''vdd'' ''in'' ''bias'' \<lparr>lv_supply = ''vdd'', lv_fraction = 1\<rparr>\<rparr>],
      pl_probes = [\<lparr>pr_id = ''vout'', pr_unit = ''V'', pr_doc = PortVoltage ''out'' ''in''\<rparr>],
      pl_stages = [buffer_stage rs, fine_stage],
      pl_bindings = [\<lparr>bi_id = ''b'', bi_from = FromReduction ''coarse'' ''pick'' ''value'',
                      bi_to = (''fine'', ''limit''), bi_unit = ''V'', bi_transform = None\<rparr>],
      pl_observables =
        [\<lparr>ob_id = ''vm'', ob_source = ObMeasurement ''fine'' ''q'' ''vm'', ob_unit = ''V'', ob_shape = ''scalar''\<rparr>,
         \<lparr>ob_id = ''mono'', ob_source = ObValidity ''coarse'' ''p'' ''mono'', ob_unit = ''1'', ob_shape = ''verdict''\<rparr>,
         \<lparr>ob_id = ''pick'', ob_source = ObReduction ''coarse'' ''pick'' ''value'', ob_unit = ''V'', ob_shape = ''scalar''\<rparr>]\<rparr>"

definition picked :: "reduction list" where
  "picked = [\<lparr>re_id = ''pick'', re_unit = ''V'', re_doc = Select ''vms'' (SelectIndex 0)\<rparr>]"

definition good_plan :: plan_document where
  "good_plan = buffer_plan picked"

text \<open>The same plan with a straight line fitted to the collected array, which has no axis.\<close>

definition misfit_plan :: plan_document where
  "misfit_plan = buffer_plan [\<lparr>re_id = ''pick'', re_unit = ''V'', re_doc = ReduceFit ''vms'' (volts 0) (volts 1)\<rparr>]"

definition good_prepared :: prepared_plan where
  "good_prepared =
     \<lparr>pp_id = ''buffer'',
      pp_context = \<lparr>pc_dut = buffer_dut, pc_corners = pl_corners good_plan, pc_supplies = pl_supplies good_plan,
                    pc_stimuli = pl_stimuli good_plan, pc_probes = pl_probes good_plan\<rparr>,
      pp_stages = pl_stages good_plan, pp_bindings = pl_bindings good_plan,
      pp_observables = pl_observables good_plan\<rparr>"

section \<open>Its evaluation\<close>

lemma py_float_small:
  "py_float 0 = PFin 0" "py_float 1 = PFin 1" "py_float 2 = PFin 2"
  using round64_of_int [of 1] round64_of_int [of 2] by (simp_all add: py_float_def)

lemma find_id_Cons [simp]:
  "find_id ident [] k = None"
  "find_id ident (x # xs) k = (if ident x = k then Some x else find_id ident xs k)"
  by (simp_all add: find_id_def)

lemmas document_simps = buffer_plan_def buffer_dut_def collected_def buffer_stage_def fine_stage_def buffer_point_def
  volts_def sweep_def

lemma folded_example [simp]: "casefold [] = []" "casefold (c # cs) = fold_char c # casefold cs"
  by (simp_all add: casefold_def)

lemma buffer_parts:
  "validate_parts (buffer_plan rs) buffer_dut =
     ([], \<lparr>pc_dut = buffer_dut, pc_corners = pl_corners (buffer_plan rs), pc_supplies = pl_supplies (buffer_plan rs),
           pc_stimuli = pl_stimuli (buffer_plan rs), pc_probes = pl_probes (buffer_plan rs)\<rparr>)"
  by (simp add: validate_parts_def document_simps validate_corners_def corner_body_def
      validate_supplies_def supply_body_def supply_at_corner_def corner_value_def
      validate_stimuli_def stimulus_body_def stimulus_port_issues_def find_port_def allowed_directions_def
      level_issues_def stimulus_levels_def dc_level_issues_def
      validate_probes_def probe_body_def probe_port_issues_def port_names_def
      validate_dut_def exposed_nodes_def canonical_locator_def folded_duplicates_Nil fold_char_def ord_def
      sorted_texts_def Let_def)

abbreviation buffer_context :: "reduction list \<Rightarrow> plan_context" where
  "buffer_context rs \<equiv>
     \<lparr>pc_dut = buffer_dut, pc_corners = pl_corners (buffer_plan rs), pc_supplies = pl_supplies (buffer_plan rs),
      pc_stimuli = pl_stimuli (buffer_plan rs), pc_probes = pl_probes (buffer_plan rs)\<rparr>"

lemma sweep_issues:
  "validate_analysis (pl_stimuli (buffer_plan rs)) ''coarse'' [] path (sweep (LiteralValue (volts 2))) = []"
  "validate_analysis (pl_stimuli (buffer_plan rs)) ''fine'' [(''limit'', ''V'')] path
     (sweep (InputValue ''limit'' ''V'')) = []"
  by (simp_all add: validate_analysis_def range_issues_def document_simps expected_stimulus_kind_def
      check_value_source_def input_unit_def py_float_small Let_def)

lemma buffer_measurements:
  "validate_measurements
     \<lparr>cx_stage = stage, cx_inputs = inputs, cx_probes = pl_probes (buffer_plan rs), cx_stimuli = stimuli,
      cx_supplies = pl_supplies (buffer_plan rs), cx_analysis = sweep stop\<rparr> path
     (pt_measurements (buffer_point k state stop)) = Inr ([], pt_measurements (buffer_point k state stop))"
  by (simp add: validate_measurements_def document_simps measurement_body_def probe_issues_def
      measurement_probe_def parent_issues_def measurement_window_issues_def normalization_issues_def
      derived_issues_def derived_crossing_def threshold_unit_def point_curve_axis_unit_def
      check_dag_def measurement_graph_def dag_visit.simps graph_parents_def Let_def)

lemma buffer_point_valid:
  assumes "stage = ''coarse'' \<and> inputs = [] \<and> stop = LiteralValue (volts 2) \<or>
           stage = ''fine'' \<and> inputs = [(''limit'', ''V'')] \<and> stop = InputValue ''limit'' ''V''"
    and "sg_id sg = stage" "sg_inputs sg = inputs"
    and "state = Fresh [(True, ''out'', 0)] \<or> state = Carryover ''coarse'' ''p''"
  shows "validate_point (buffer_context rs) sg path (buffer_point k state stop) =
    Inr ([], buffer_point k state stop)"
proof -
  have a: "validate_analysis (pl_stimuli (buffer_plan rs)) stage inputs path (sweep stop) = []"
    using assms(1) sweep_issues by auto
  have s: "validate_state_policy buffer_dut path state = []"
    using assms(4) by (auto simp: validate_state_policy_def buffer_dut_def port_names_def Let_def)
  have m: "validate_measurements (point_context_of (buffer_context rs) sg (buffer_point k state stop)) path
      (pt_measurements (buffer_point k state stop)) = Inr ([], pt_measurements (buffer_point k state stop))"
    using buffer_measurements by (simp add: point_context_of_def buffer_point_def)
  have v: "validate_validity (pl_stimuli (buffer_plan rs)) (pl_supplies (buffer_plan rs))
      (pt_measurements (buffer_point k state stop)) path (pt_rules (buffer_point k state stop)) =
      ([], pt_rules (buffer_point k state stop))"
    by (simp add: validate_validity_def document_simps rule_body_def rule_selection_def rule_requires_def
        rule_quantity_def rule_counts_def List.map_filter_def Let_def)
  have rest: "corner_issues (pl_corners (buffer_plan rs)) path (buffer_point k state stop) = []"
    "validate_settle_policy (pl_probes (buffer_plan rs)) path (sweep stop) OperatingPoint = []"
    "validate_active_stimuli (pl_stimuli (buffer_plan rs)) (pl_supplies (buffer_plan rs)) stage inputs path
       (sweep stop) [''drive''] = []"
    by (simp_all add: corner_issues_def validate_settle_policy_def validate_active_stimuli_def
        active_value_issues_def stimulus_levels_def document_simps Let_def)
  have sel: "pt_parameters (buffer_point k state stop) = []" "pt_state (buffer_point k state stop) = state"
    "pt_settle (buffer_point k state stop) = OperatingPoint" "pt_analysis (buffer_point k state stop) = sweep stop"
    "pt_active (buffer_point k state stop) = [''drive'']"
    by (simp_all add: buffer_point_def)
  have same: "buffer_point k state stop\<lparr>pt_measurements := pt_measurements (buffer_point k state stop),
      pt_rules := pt_rules (buffer_point k state stop)\<rparr> = buffer_point k state stop" by simp
  show ?thesis
    by (simp add: validate_point_def m v a s rest sel assms(2,3) same Let_def)
qed

lemma buffer_points:
  "validate_points (buffer_context rs) (buffer_stage rs) path 0 [] (sg_points (buffer_stage rs)) =
     Inr ([], sg_points (buffer_stage rs))"
  "validate_points (buffer_context rs) fine_stage path 0 [] (sg_points fine_stage) = Inr ([], sg_points fine_stage)"
  by (simp_all add: buffer_stage_def fine_stage_def buffer_point_valid Let_def)

definition stage_context_of :: "plan_document \<Rightarrow> plan_stage \<Rightarrow> stage_context" where
  "stage_context_of pl sg =
     \<lparr>sc_stage = sg_id sg, sc_points = sg_points sg,
      sc_measurements = stage_measurements (sg_id sg) (sg_points sg), sc_supplies = pl_supplies pl\<rparr>"

lemma buffer_collect:
  "reduction_body (stage_context_of pl (buffer_stage rs)) path out collected = Inr []"
  by (simp add: reduction_body_def stage_context_of_def source_issues_def source_unit_issues_def
      stage_measurements_def lookup_last_def document_simps Let_def)

lemma buffer_select:
  "reduction_body cx path [collected] \<lparr>re_id = k, re_unit = ''V'', re_doc = Select ''vms'' (SelectIndex 0)\<rparr> = Inr []"
  by (simp add: reduction_body_def parent_kind_issues_def select_issues_def document_items_def collected_def Let_def)

lemma buffer_misfit:
  "reduction_body cx path [collected] \<lparr>re_id = k, re_unit = u, re_doc = ReduceFit ''vms'' a b\<rparr> =
     Inl (KeyError (repr_text ''axis_unit''))"
  by (simp add: reduction_body_def fit_issues_def document_axis_unit_def collected_def Let_def)

lemma buffer_stage_reductions [simp]: "sg_reductions (buffer_stage rs) = collected # rs" "re_id collected = ''vms''"
  by (simp_all add: buffer_stage_def collected_def)

lemma buffer_reductions:
  "validate_reductions (stage_context_of pl (buffer_stage picked)) path (collected # picked) =
     Inr ([], collected # picked)"
  by (simp add: validate_reductions_def buffer_collect buffer_select picked_def)

lemma misfit_reductions:
  "validate_reductions (stage_context_of pl (buffer_stage rs)) path
     [collected, \<lparr>re_id = ''pick'', re_unit = u, re_doc = ReduceFit ''vms'' a b\<rparr>] =
     Inl (KeyError (repr_text ''axis_unit''))"
  by (simp add: validate_reductions_def buffer_collect buffer_misfit)

lemma buffer_stage_selectors [simp]:
  "sg_id (buffer_stage rs) = ''coarse''" "sg_inputs (buffer_stage rs) = []" "sg_rules (buffer_stage rs) = []"
  "sg_depends (buffer_stage rs) = []"
  "sg_id fine_stage = ''fine''" "sg_inputs fine_stage = [(''limit'', ''V'')]" "sg_rules fine_stage = []"
  "sg_depends fine_stage = [''coarse'']" "sg_reductions fine_stage = []"
  by (simp_all add: buffer_stage_def fine_stage_def)

lemma buffer_stages_valid:
  "validate_stage (buffer_context picked) (0, buffer_stage picked) = Inr ([], buffer_stage picked)"
  "validate_stage (buffer_context rs) (1, fine_stage) = Inr ([], fine_stage)"
proof -
  have same: "sg\<lparr>sg_points := sg_points sg, sg_reductions := sg_reductions sg, sg_rules := sg_rules sg\<rparr> = sg"
    for sg :: plan_stage by simp
  show "validate_stage (buffer_context picked) (0, buffer_stage picked) = Inr ([], buffer_stage picked)"
    using buffer_reductions [of "buffer_plan picked"] same [of "buffer_stage picked"]
    by (simp add: validate_stage_def buffer_points stage_context_of_def validate_stage_validity_def Let_def)
  show "validate_stage (buffer_context rs) (1, fine_stage) = Inr ([], fine_stage)"
    using same [of fine_stage]
    by (simp add: validate_stage_def buffer_points validate_stage_validity_def validate_reductions_def Let_def)
qed

lemma buffer_carryover:
  "item \<in> set (point_table [buffer_stage rs, fine_stage]) \<Longrightarrow>
   carryover_issues [(0, buffer_stage rs), (1, fine_stage)] (point_table [buffer_stage rs, fine_stage]) item = []"
  by (auto simp: point_table_def carryover_issues_def buffer_stage_def fine_stage_def buffer_point_def Let_def)

lemma buffer_stages:
  "validate_stages (buffer_context picked) [buffer_stage picked, fine_stage] =
     Inr ([], [buffer_stage picked, fine_stage])"
  by (simp add: validate_stages_def depends_issues_def check_dag_def stage_graph_def dag_visit.simps
      graph_parents_def buffer_stages_valid [simplified] buffer_carryover [simplified] concat_eq_Nil_conv Let_def)

lemma buffer_bindings:
  "validate_bindings [buffer_stage picked, fine_stage] (pl_bindings (buffer_plan picked)) = []"
  by (simp add: validate_bindings_def buffer_plan_def binding_body_def stage_inputs_def source_existence_issues_def
      source_component_issues_def source_unit_def stage_reductions_def picked_def component_unit_def
      lookup_last_def Let_def)

lemma buffer_observables:
  "validate_observables [buffer_stage picked, fine_stage] (pl_observables (buffer_plan picked)) = []"
  by (simp add: validate_observables_def buffer_plan_def observable_source_issues_def measurement_index_def
      stage_measurements_def lookup_last_def measurement_shape_def verdict_issues_def point_rules_def
      stage_reductions_def picked_def component_unit_def reduction_shape_def buffer_stage_def fine_stage_def
      buffer_point_def collected_def Let_def)

lemma buffer_identities:
  "global_identity_check (buffer_plan rs) (buffer_context rs) [buffer_stage rs, fine_stage] = []"
  by (simp add: global_identity_check_def namespaces_def generated_names_def folded_duplicates_Nil buffer_plan_def
      buffer_dut_def fold_char_def ord_def)

lemma buffer_plan_dut: "dut_document (buffer_plan rs) None = ([], Some buffer_dut)"
  by (simp add: dut_document_def buffer_plan_def)

lemma buffer_plan_stages: "pl_stages (buffer_plan rs) = [buffer_stage rs, fine_stage]"
  by (simp add: buffer_plan_def)

lemma good_plan_accepted: "validate_plan good_plan None = Inr (Some good_prepared, [])"
  by (simp add: validate_plan_def good_plan_def good_prepared_def buffer_plan_dut buffer_parts buffer_plan_stages
      buffer_stages buffer_bindings buffer_observables buffer_identities)
    (simp add: buffer_plan_def)

lemma misfit_plan_raises: "validate_plan misfit_plan None = Inl (KeyError (repr_text ''axis_unit''))"
  using misfit_reductions [of misfit_plan]
  by (simp add: validate_plan_def misfit_plan_def buffer_plan_dut buffer_parts buffer_plan_stages validate_stages_def
      validate_stage_def buffer_points stage_context_of_def Let_def)

end
