(* ===== verification/PlanVerdict.thy ===== *)
theory PlanVerdict
  imports PlanAccept PlanExample
begin

text \<open>
  What an accepted testbench plan guarantees: it can be executed stage by stage, every stage input
  has exactly one source of its unit, every observable reads an existing result of its unit and
  shape, and the generated circuit has positive supplies and unambiguous names; and when the
  validator raises instead of reporting.
\<close>

section \<open>The parts of an accepted plan\<close>

lemma dut_document_silent:
  assumes "dut_document pl override = ([], Some dut)"
  shows "dut_namespace dut = dut_namespace (pl_dut pl)" and "dut_top dut = dut_top (pl_dut pl)"
    and "dut_ports dut = dut_ports (pl_dut pl)"
    and "set (dut_connections dut) = set (dut_connections (pl_dut pl))"
  using assms by (auto simp: dut_document_def Let_def split: option.splits if_splits)

lemma accepted_parts:
  assumes "validate_plan pl override = Inr (Some pp, iss)"
  obtains dut where "dut_document pl override = ([], Some dut)"
    and "pp_context pp = \<lparr>pc_dut = dut, pc_corners = pl_corners pl, pc_supplies = pl_supplies pl,
           pc_stimuli = pl_stimuli pl, pc_probes = pl_probes pl\<rparr>"
    and "validate_dut dut = []"
    and "validate_corners (pl_corners pl) = ([], pl_corners pl)"
    and "validate_supplies dut (pl_corners pl) (pl_supplies pl) = ([], pl_supplies pl)"
    and "validate_stimuli dut (pl_supplies pl) (pl_stimuli pl) = ([], pl_stimuli pl)"
    and "validate_probes dut (pl_stimuli pl) (pl_probes pl) = ([], pl_probes pl)"
    and "validate_stages (pp_context pp) (pl_stages pl) = Inr ([], pl_stages pl)"
    and "pp_stages pp = pl_stages pl" and "pp_bindings pp = pl_bindings pl"
    and "pp_observables pp = pl_observables pl"
    and "validate_bindings (pl_stages pl) (pl_bindings pl) = []"
    and "validate_observables (pl_stages pl) (pl_observables pl) = []"
    and "global_identity_check pl (pp_context pp) (pl_stages pl) = []"
proof -
  obtain iss0 dut where d: "dut_document pl override = (iss0, Some dut)"
    using assms by (cases "dut_document pl override"; cases "snd (dut_document pl override)")
      (auto simp: validate_plan_def)
  obtain i1 corners where c: "validate_corners (pl_corners pl) = (i1, corners)"
    by (cases "validate_corners (pl_corners pl)")
  obtain i2 supplies where s: "validate_supplies dut corners (pl_supplies pl) = (i2, supplies)"
    by (cases "validate_supplies dut corners (pl_supplies pl)")
  obtain i3 stimuli where t: "validate_stimuli dut supplies (pl_stimuli pl) = (i3, stimuli)"
    by (cases "validate_stimuli dut supplies (pl_stimuli pl)")
  obtain i4 probes where p: "validate_probes dut stimuli (pl_probes pl) = (i4, probes)"
    by (cases "validate_probes dut stimuli (pl_probes pl)")
  define pc where "pc = \<lparr>pc_dut = dut, pc_corners = corners, pc_supplies = supplies,
    pc_stimuli = stimuli, pc_probes = probes\<rparr>"
  have parts: "validate_parts pl dut = (validate_dut dut @ i1 @ i2 @ i3 @ i4, pc)"
    by (simp add: validate_parts_def c s t p pc_def)
  obtain si sgs where g: "validate_stages pc (pl_stages pl) = Inr (si, sgs)"
    using assms by (auto simp: validate_plan_def d parts)
  have e: "iss0 = []" "validate_dut dut = []" "i1 = []" "i2 = []" "i3 = []" "i4 = []" "si = []"
    "validate_bindings sgs (pl_bindings pl) = []" "validate_observables sgs (pl_observables pl) = []"
    "global_identity_check pl pc sgs = []"
    "pp = \<lparr>pp_id = pl_id pl, pp_context = pc, pp_stages = sgs, pp_bindings = pl_bindings pl,
           pp_observables = pl_observables pl\<rparr>"
    using assms by (auto simp: validate_plan_def d parts g Let_def split: if_split_asm)
  have corners: "corners = pl_corners pl" using corners.unchanged c e(3) by blast
  have supplies: "supplies = pl_supplies pl" using supplies.unchanged s e(4) by blast
  have stimuli: "stimuli = pl_stimuli pl" using stimuli.unchanged t e(5) by blast
  have probes: "probes = pl_probes pl" using probes.unchanged p e(6) by blast
  have sgs: "sgs = pl_stages pl" using validate_stages_silent(1) g e(7) by blast
  show thesis
    using that d c s t p g e
    unfolding corners supplies stimuli probes sgs pc_def by simp
qed

section \<open>Execution order\<close>

text \<open>
  A rank of the stages under which every stage comes after the stages it depends on, and the
  condition under which a point's initial state is available when the point runs: its source point
  exists and either runs earlier in the same stage or belongs to a stage of smaller rank.
\<close>

definition scheduled :: "plan_stage list \<Rightarrow> (string \<Rightarrow> nat) \<Rightarrow> bool" where
  "scheduled sgs rank \<longleftrightarrow>
     (\<forall>sg \<in> set sgs. \<forall>d \<in> set (sg_depends sg). d \<in> sg_id ` set sgs \<and> rank d < rank (sg_id sg))"

definition state_ready :: "plan_stage list \<Rightarrow> (string \<Rightarrow> nat) \<Rightarrow> plan_stage \<Rightarrow> nat \<Rightarrow> state_policy \<Rightarrow> bool" where
  "state_ready sgs rank sg j st =
     (case st of
        Fresh initial \<Rightarrow> True
      | Carryover s p \<Rightarrow>
          (\<exists>src \<in> set sgs. \<exists>i < length (sg_points src). sg_id src = s \<and> pt_id (sg_points src ! i) = p \<and>
             (if s = sg_id sg then i < j else rank s < rank (sg_id sg))))"

lemma scheduled_exists:
  assumes "validate_stages pc sgs = Inr ([], sgs)"
  shows "\<exists>rank. scheduled sgs rank"
proof -
  note ok = validate_stages_silent [OF assms]
  obtain rank :: "string \<Rightarrow> nat" where "\<forall>(n, p) \<in> edges (stage_graph sgs). rank p < rank n"
    using acyclic_rank [OF ok(3)] by blast
  then show ?thesis
    using ok(6) stage_edge [OF ok(2)] unfolding scheduled_def by (intro exI [of _ rank]) blast
qed

lemma carryover_ready:
  assumes ok: "validate_stages pc sgs = Inr ([], sgs)" and rank: "scheduled sgs rank"
    and sg: "sg \<in> set sgs" and j: "j < length (sg_points sg)"
  shows "state_ready sgs rank sg j (pt_state (sg_points sg ! j))"
proof (cases "pt_state (sg_points sg ! j)")
  case (Carryover s p)
  note silent = validate_stages_silent [OF ok]
  define table where "table = point_table sgs"
  obtain entries where ent: "map snd entries = sgs"
      "\<forall>item \<in> set table. carryover_issues entries table item = []"
    using silent(7) unfolding table_def by blast
  have "distinct (map pt_id (sg_points sg))" using silent(4) [OF sg] points.distinct_ids by blast
  from store_points_nth [OF silent(2) sg this j, of "[]"]
  have "((sg_id sg, pt_id (sg_points sg ! j)), j, sg_points sg ! j) \<in> set table"
    by (auto simp: table_def point_table_def dest: map_of_SomeD)
  with ent(2) have quiet:
    "carryover_issues entries table ((sg_id sg, pt_id (sg_points sg ! j)), j, sg_points sg ! j) = []" by blast
  obtain e where e: "find (\<lambda>e. sg_id (snd e) = sg_id sg) entries = Some e"
    using sg ent(1) by (cases "find (\<lambda>e. sg_id (snd e) = sg_id sg) entries") (fastforce simp: find_None_iff)+
  then have "snd e \<in> set sgs" "sg_id (snd e) = sg_id sg" using ent(1) by (auto simp: find_Some_iff)
  then have stage: "snd e = sg" using silent(2) sg by (auto simp: distinct_map dest: inj_onD)
  obtain i src where src: "map_of table (s, p) = Some (i, src)"
    using quiet e stage Carryover by (cases e) (auto simp: carryover_issues_def Let_def split: option.splits)
  then obtain sg' where sg': "sg' \<in> set sgs" "sg_id sg' = s" "i < length (sg_points sg')"
      "pt_id (sg_points sg' ! i) = p"
    using store_points_Some [of sgs "[]" s p i src] unfolding table_def point_table_def by auto
  have "if s = sg_id sg then i < j else s \<in> set (sg_depends sg)"
    using quiet e stage Carryover src
    by (cases e) (auto simp: carryover_issues_def Let_def split: if_split_asm)
  then have "if s = sg_id sg then i < j else rank s < rank (sg_id sg)"
    using rank sg by (auto simp: scheduled_def)
  then show ?thesis
    unfolding state_ready_def Carryover state_policy.case
    by (intro bexI [of _ sg'] exI [of _ i] conjI sg')
qed (simp add: state_ready_def)

section \<open>Bindings\<close>

lemma binding_body_silent:
  assumes "binding_body sgs path ids targets b = []"
  shows "\<exists>sg \<in> set sgs. sg_id sg = fst (bi_to b) \<and> source_stage (bi_from b) \<in> set (sg_depends sg)"
    and "lookup_last (stage_inputs sgs) (bi_to b) = Some (bi_unit b)"
    and "source_unit sgs (bi_from b) = Some (bi_unit b)"
    and "bi_id b \<notin> set ids" and "bi_to b \<notin> set targets"
proof -
  note silent = assms [unfolded binding_body_def Let_def]
  show "\<exists>sg \<in> set sgs. sg_id sg = fst (bi_to b) \<and> source_stage (bi_from b) \<in> set (sg_depends sg)"
    using silent by (cases "find_id sg_id sgs (fst (bi_to b))") (auto dest: find_id_Some)
  have known: "source_unit sgs (bi_from b) \<noteq> None"
    using silent
    by (cases "bi_from b")
      (auto simp: source_existence_issues_def source_component_issues_def source_unit_def Let_def
        split: option.split_asm)
  then show "source_unit sgs (bi_from b) = Some (bi_unit b)" using silent by auto
  show "lookup_last (stage_inputs sgs) (bi_to b) = Some (bi_unit b)" using silent by auto
  show "bi_id b \<notin> set ids" "bi_to b \<notin> set targets" using silent by auto
qed

lemma bindings_from_silent:
  "bindings_from sgs i ids targets bs = [] \<Longrightarrow>
   distinct (map bi_id bs) \<and> bi_id ` set bs \<inter> set ids = {} \<and>
   distinct (map bi_to bs) \<and> bi_to ` set bs \<inter> set targets = {} \<and>
   (\<forall>b \<in> set bs. \<exists>path ids targets. binding_body sgs path ids targets b = [])"
proof (induction sgs i ids targets bs rule: bindings_from.induct)
  case (2 sgs i ids targets b bs)
  then have b: "binding_body sgs (at_index ''/bindings'' i) ids targets b = []"
    and rest: "bindings_from sgs (Suc i) (bi_id b # ids) (bi_to b # targets) bs = []" by auto
  from "2.IH" [OF rest] binding_body_silent(4,5) [OF b] b show ?case by auto
qed simp

lemma validate_bindings_silent:
  assumes "validate_bindings sgs bs = []"
  shows "distinct (map bi_to bs)" and "bi_to ` set bs = fst ` set (stage_inputs sgs)"
    and "b \<in> set bs \<Longrightarrow> \<exists>path ids targets. binding_body sgs path ids targets b = []"
proof -
  have f: "bindings_from sgs 0 [] [] bs = []" using assms by (simp add: validate_bindings_def)
  note silent = bindings_from_silent [OF f]
  show "distinct (map bi_to bs)" using silent by blast
  show body: "\<exists>path ids targets. binding_body sgs path ids targets b = []" if "b \<in> set bs" for b
    using silent that by blast
  have "sort (remdups (filter (\<lambda>t. t \<notin> set (map bi_to bs)) (map fst (stage_inputs sgs)))) = []"
    using assms by (auto simp: validate_bindings_def concat_eq_Nil_conv)
  then have "\<forall>t \<in> fst ` set (stage_inputs sgs). t \<in> bi_to ` set bs"
    by (metis (no_types, lifting) filter_empty_conv image_set list.set_map remdups_eq_nil_iff sort_key_simps(1) set_sort set_empty)
  moreover have "bi_to b \<in> fst ` set (stage_inputs sgs)" if "b \<in> set bs" for b
    using body [OF that] binding_body_silent(2) lookup_last_mem by (metis fst_conv image_eqI)
  ultimately show "bi_to ` set bs = fst ` set (stage_inputs sgs)" by blast
qed

section \<open>Observables\<close>

text \<open>What a source emits: the unit and the shape of the result it names, when it exists.\<close>

definition emitted :: "plan_stage list \<Rightarrow> observable_source \<Rightarrow> (string \<times> string) option" where
  "emitted sgs src =
     (case src of
        ObMeasurement stage point m \<Rightarrow>
          map_option (\<lambda>x. (me_unit x, measurement_shape (me_doc x)))
            (lookup_last (measurement_index sgs) (stage, point, m))
      | ObValidity stage point rule \<Rightarrow>
          (if (stage, point, rule) \<in> set (point_rules sgs) then Some (''1'', ''verdict'') else None)
      | ObStageValidity stage rule \<Rightarrow>
          (if (stage, rule) \<in> set (stage_rule_keys sgs) then Some (''1'', ''verdict'') else None)
      | ObReduction stage r component \<Rightarrow>
          (case find_id re_id (stage_reductions sgs stage) r of
             None \<Rightarrow> None
           | Some x \<Rightarrow> map_option (\<lambda>u. (u, reduction_shape x component))
               (component_unit (stage_reductions sgs stage) x component)))"

lemma observable_emitted:
  "observable_source_issues sgs path ob = [] \<longleftrightarrow> emitted sgs (ob_source ob) = Some (ob_unit ob, ob_shape ob)"
  by (cases "ob_source ob")
    (auto simp: observable_source_issues_def emitted_def verdict_issues_def Let_def split: option.splits)

lemma observables_from_silent:
  "observables_from sgs i ids sources obs = [] \<longleftrightarrow>
   distinct (map ob_id obs) \<and> ob_id ` set obs \<inter> set ids = {} \<and>
   distinct (map ob_source obs) \<and> ob_source ` set obs \<inter> set sources = {} \<and>
   (\<forall>ob \<in> set obs. emitted sgs (ob_source ob) = Some (ob_unit ob, ob_shape ob))"
proof (induction sgs i ids sources obs rule: observables_from.induct)
  case (2 sgs i ids sources ob obs)
  then show ?case by (simp add: Let_def observable_emitted) blast
qed simp

section \<open>The circuit\<close>

lemma supply_body_silent:
  assumes "supply_body dut corners path out su = []" and "cb \<in> set corners"
  shows "\<exists>q. corner_value cb (su_value_id su) = Some q \<and> q_unit q = ''V'' \<and> 0 < q_value q"
proof -
  have "supply_at_corner path su cb = []" using assms by (auto simp: supply_body_def Let_def)
  then show ?thesis by (auto simp: supply_at_corner_def split: option.split_asm)
qed

lemma claim_targets_silent:
  "claim_targets path k owners ts = ([], owners') \<Longrightarrow>
   distinct ts \<and> set ts \<inter> fst ` set owners = {} \<and> fst ` set owners' = fst ` set owners \<union> set ts"
proof (induction path k owners ts arbitrary: owners' rule: claim_targets.induct)
  case (2 path k owners t ts)
  show ?case
  proof (cases "map_of owners t")
    case None
    then have "t \<notin> fst ` set owners" by (simp add: map_of_eq_None_iff)
    then show ?thesis using 2 None by auto
  qed (use "2.prems" in \<open>auto split: prod.split_asm\<close>)
qed auto

text \<open>The ports the active stimuli of a point drive, one entry per driver.\<close>

definition driven_ports :: "stimulus list \<Rightarrow> string list \<Rightarrow> string list" where
  "driven_ports sts ks =
     concat (map (\<lambda>k. case find_id st_id sts k of None \<Rightarrow> [] | Some st \<Rightarrow> stimulus_targets (st_doc st)) ks)"

lemma active_from_silent:
  "active_from sts sups stage inputs path i owners ks = [] \<Longrightarrow>
   set ks \<subseteq> st_id ` set sts \<and> distinct (driven_ports sts ks) \<and>
   set (driven_ports sts ks) \<inter> fst ` set owners = {}"
proof (induction sts sups stage inputs path i owners ks rule: active_from.induct)
  case (2 sts sups stage inputs path i owners k ks)
  obtain st where st: "find_id st_id sts k = Some st"
    using "2.prems" by (cases "find_id st_id sts k") auto
  obtain owners' where c: "claim_targets (at_index path i) k owners (stimulus_targets (st_doc st)) = ([], owners')"
    and rest: "active_from sts sups stage inputs path (Suc i) owners' ks = []"
    using "2.prems" st by (auto split: prod.split_asm)
  have "driven_ports sts (k # ks) = stimulus_targets (st_doc st) @ driven_ports sts ks"
    using st by (simp add: driven_ports_def)
  moreover have "k \<in> st_id ` set sts" using find_id_Some [OF st] by blast
  ultimately show ?case
    using claim_targets_silent [OF c] "2.IH"(2) [OF st c [symmetric] rest] by auto
qed (simp add: driven_ports_def)

lemma point_drive_silent:
  assumes "validate_point pc sg path pt = Inr ([], pt')"
  shows "set (pt_active pt) \<subseteq> st_id ` set (pc_stimuli pc)" and "distinct (driven_ports (pc_stimuli pc) (pt_active pt))"
    and "\<exists>st \<in> set (pc_stimuli pc). st_id st = analysis_stimulus (pt_analysis pt) \<and> st_id st \<in> set (pt_active pt) \<and>
      stimulus_kind (st_doc st) = expected_stimulus_kind (pt_analysis pt)"
proof -
  have quiet: "validate_active_stimuli (pc_stimuli pc) (pc_supplies pc) (sg_id sg) (sg_inputs sg) path
        (pt_analysis pt) (pt_active pt) = []"
      "validate_analysis (pc_stimuli pc) (sg_id sg) (sg_inputs sg) path (pt_analysis pt) = []"
    using assms by (auto simp: validate_point_def Let_def case_prod_beta)
  from quiet(1) have active: "analysis_stimulus (pt_analysis pt) \<in> set (pt_active pt)"
    and from_silent: "active_from (pc_stimuli pc) (pc_supplies pc) (sg_id sg) (sg_inputs sg)
        (path @ ''/active_stimulus_ids'') 0 [] (pt_active pt) = []"
    by (auto simp: validate_active_stimuli_def Let_def)
  show "set (pt_active pt) \<subseteq> st_id ` set (pc_stimuli pc)" "distinct (driven_ports (pc_stimuli pc) (pt_active pt))"
    using active_from_silent [OF from_silent] by auto
  show "\<exists>st \<in> set (pc_stimuli pc). st_id st = analysis_stimulus (pt_analysis pt) \<and> st_id st \<in> set (pt_active pt) \<and>
      stimulus_kind (st_doc st) = expected_stimulus_kind (pt_analysis pt)"
  proof -
    obtain st where st: "find_id st_id (pc_stimuli pc) (analysis_stimulus (pt_analysis pt)) = Some st"
        "stimulus_kind (st_doc st) = expected_stimulus_kind (pt_analysis pt)"
      using quiet(2) by (auto simp: validate_analysis_def Let_def split: option.split_asm)
    then show ?thesis using find_id_Some [OF st(1)] active by (intro bexI [of _ st]) auto
  qed
qed

section \<open>Exceptions\<close>

text \<open>
  The two subscripts that can miss: a loop transfer over a loop-gain probe under a DC sweep reads
  \<open>analysis["stimulus_id"]\<close>, and a reduction of a parent of the wrong kind reads the parent's
  \<open>axis_unit\<close> or \<open>items\<close>.
\<close>

definition loop_in_sweep :: "plan_point \<Rightarrow> pyexc \<Rightarrow> bool" where
  "loop_in_sweep pt e \<longleftrightarrow>
     (\<exists>m \<in> set (pt_measurements pt). measurement_kind (me_doc m) = ''loop_transfer'') \<and>
     analysis_kind (pt_analysis pt) = ''dc_sweep'' \<and> e = KeyError (repr_text ''stimulus_id'')"

definition misread_parent :: "reduction \<Rightarrow> reduction \<Rightarrow> pyexc \<Rightarrow> bool" where
  "misread_parent r q e =
     (case re_doc r of
        ReduceFit p a b \<Rightarrow> re_id q = p \<and> reduction_kind (re_doc q) \<noteq> ''collect_curve'' \<and> e = KeyError (repr_text ''axis_unit'')
      | ReduceCrossing p t \<Rightarrow> re_id q = p \<and> reduction_kind (re_doc q) \<noteq> ''collect_curve'' \<and> e = KeyError (repr_text ''axis_unit'')
      | Select p s \<Rightarrow> re_id q = p \<and> reduction_kind (re_doc q) \<noteq> ''collect_array'' \<and> e = KeyError (repr_text ''items'')
      | _ \<Rightarrow> False)"

definition plan_hazard :: "plan_stage list \<Rightarrow> pyexc \<Rightarrow> bool" where
  "plan_hazard sgs e \<longleftrightarrow>
     (\<exists>sg \<in> set sgs. (\<exists>pt \<in> set (sg_points sg). loop_in_sweep pt e) \<or>
        (\<exists>r \<in> set (sg_reductions sg). \<exists>q \<in> set (sg_reductions sg). misread_parent r q e))"

lemma errs_in_register_res:
  "(\<And>path before x. x \<in> set raws \<Longrightarrow> set before \<subseteq> set out \<union> set raws \<Longrightarrow> errs_in P (body path before x)) \<Longrightarrow>
   errs_in P (register_res ident base label body i out raws)"
proof (induction ident base label body i out raws rule: register_res.induct)
  case (2 ident base label body i out raw raws)
  show ?case
  proof (cases "ident raw \<in> ident ` set out")
    case True
    have "errs_in P (register_res ident base label body (Suc i) out raws)"
      by (rule "2.IH"(1) [OF True]) (rule "2.prems", auto)
    then show ?thesis using True by (auto intro!: errs_in_pbind)
  next
    case False
    have here: "errs_in P (body (at_index base i) out raw)" by (rule "2.prems") auto
    have "errs_in P (register_res ident base label body (Suc i) (out @ [raw]) raws)"
      if "body (at_index base i) out raw = Inr iss" for iss
      by (rule "2.IH"(2) [OF False that]) (rule "2.prems", auto)
    then show ?thesis using False here by (auto intro!: errs_in_pbind)
  qed
qed simp

lemma measurement_raises:
  assumes "m \<in> set (pt_measurements pt)" and "cx_analysis cx = pt_analysis pt"
  shows "errs_in (loop_in_sweep pt) (measurement_body cx path before m)"
  using assms
  by (cases "me_doc m")
    (auto simp: measurement_body_def probe_issues_def measurement_probe_def loop_transfer_issues_def
      loop_in_sweep_def Let_def intro!: errs_in_pbind bexI [of _ m] split: option.splits probe_doc.splits analysis.splits)

lemma reduction_raises:
  assumes "r \<in> set rs" and "set before \<subseteq> set rs"
  shows "errs_in (\<lambda>e. \<exists>r \<in> set rs. \<exists>q \<in> set rs. misread_parent r q e) (reduction_body cx path before r)"
proof -
  have parent: "q \<in> set rs \<and> re_id q = p" if "find_id re_id before p = Some q" for p q
    using find_id_Some [OF that] assms(2) by blast
  have axis: "errs_in (\<lambda>e. reduction_kind (re_doc q) \<noteq> ''collect_curve'' \<and> e = KeyError (repr_text ''axis_unit''))
      (document_axis_unit q)" for q
    by (cases "re_doc q") (simp_all add: document_axis_unit_def)
  have items: "errs_in (\<lambda>e. reduction_kind (re_doc q) \<noteq> ''collect_array'' \<and> e = KeyError (repr_text ''items''))
      (document_items q)" for q
    by (cases "re_doc q") (simp_all add: document_items_def)
  have fit: "errs_in (\<lambda>e. reduction_kind (re_doc q) \<noteq> ''collect_curve'' \<and> e = KeyError (repr_text ''axis_unit''))
      (fit_issues path u q a b)" for u q a b
    unfolding fit_issues_def by (intro errs_in_pbind axis) simp
  have cross: "errs_in (\<lambda>e. reduction_kind (re_doc q) \<noteq> ''collect_curve'' \<and> e = KeyError (repr_text ''axis_unit''))
      (crossing_issues cx path u q t)" for u q t
    unfolding crossing_issues_def by (intro errs_in_Let errs_in_if errs_in_pbind axis) simp_all
  have sel: "errs_in (\<lambda>e. reduction_kind (re_doc q) \<noteq> ''collect_array'' \<and> e = KeyError (repr_text ''items''))
      (select_issues path u q s)" for u q s
    unfolding select_issues_def by (intro errs_in_pbind items) simp
  note parts = errs_in_mono [OF fit] errs_in_mono [OF cross] errs_in_mono [OF sel]
  have "errs_in (\<lambda>e. \<exists>q \<in> set rs. misread_parent r q e) (reduction_body cx path before r)"
    by (cases "re_doc r")
      (auto simp: reduction_body_def Let_def misread_parent_def dest!: parent
        intro!: errs_in_pbind errs_in_option parts)
  then show ?thesis by (rule errs_in_mono) (use assms(1) in blast)
qed

lemma validate_point_raises:
  "errs_in (loop_in_sweep pt) (validate_point pc sg path pt)"
  unfolding validate_point_def validate_measurements_def
  by (auto simp: Let_def point_context_of_def split: prod.splits
      intro!: errs_in_pbind errs_in_register_res measurement_raises)

lemma validate_points_raises:
  "errs_in (\<lambda>e. \<exists>pt \<in> set pts. loop_in_sweep pt e) (validate_points pc sg path i seen pts)"
proof (induction pts arbitrary: i seen)
  case (Cons pt pts)
  have "errs_in (\<lambda>e. \<exists>pt \<in> set (pt # pts). loop_in_sweep pt e) (validate_point pc sg here pt)" for here
    by (rule errs_in_mono [OF validate_point_raises]) simp
  moreover have "errs_in (\<lambda>e. \<exists>pt \<in> set (pt # pts). loop_in_sweep pt e)
      (validate_points pc sg path i' seen' pts)" for i' seen'
    by (rule errs_in_mono [OF Cons.IH]) auto
  ultimately show ?case by (auto simp: Let_def simp del: bex_simps intro!: errs_in_pbind)
qed simp

lemma validate_stage_raises: "errs_in (plan_hazard [sg]) (validate_stage pc (pos, sg))"
proof -
  have points: "errs_in (plan_hazard [sg]) (validate_points pc sg path 0 [] (sg_points sg))" for path
    by (rule errs_in_mono [OF validate_points_raises]) (auto simp: plan_hazard_def)
  have reductions: "errs_in (plan_hazard [sg]) (validate_reductions cx path (sg_reductions sg))" for cx path
    unfolding validate_reductions_def
    by (intro errs_in_register_res errs_in_mono [OF reduction_raises [of _ "sg_reductions sg"]])
      (auto simp: plan_hazard_def)
  show ?thesis
    by (auto simp: validate_stage_def Let_def split: prod.splits intro!: errs_in_pbind points reductions)
qed

lemma first_stages_subset: "snd ` set (snd (first_stages i out sgs)) \<subseteq> snd ` set out \<union> set sgs"
proof (induction i out sgs rule: first_stages.induct)
  case (2 i out sg sgs)
  show ?case
  proof (cases "sg_id sg \<in> (sg_id \<circ> snd) ` set out")
    case True
    then show ?thesis using "2.IH"(1) by (auto simp: case_prod_beta)
  next
    case False
    then show ?thesis using "2.IH"(2) by (auto simp: case_prod_beta)
  qed
qed simp

lemma validate_stages_raises: "errs_in (plan_hazard sgs) (validate_stages pc sgs)"
proof -
  obtain iss entries where f: "first_stages 0 [] sgs = (iss, entries)" by (cases "first_stages 0 [] sgs")
  have "errs_in (plan_hazard sgs) (validate_stage pc entry)" if "entry \<in> set entries" for entry
  proof (rule errs_in_mono)
    show "errs_in (plan_hazard [snd entry]) (validate_stage pc entry)"
      using validate_stage_raises [of "snd entry" pc "fst entry"] by simp
    show "plan_hazard sgs e" if "plan_hazard [snd entry] e" for e
      using that first_stages_subset [of 0 "[]" sgs] f \<open>entry \<in> set entries\<close> by (auto simp: plan_hazard_def)
  qed
  then show ?thesis
    by (auto simp: validate_stages_def f Let_def intro!: errs_in_pbind errs_in_map_res)
qed

section \<open>Properties\<close>

text \<open>C7: An accepted plan can be executed stage by stage: it is prepared unchanged, some rank of the
  stages puts every stage after the existing stages it depends on, every carried-over initial state
  comes from a point that has run by then (earlier in the same stage, or in a stage of smaller rank),
  and every binding flows from a stage of smaller rank.\<close>

theorem accepted_plan_schedulable:
  assumes "validate_plan pl override = Inr (Some pp, iss)"
  shows "pp_stages pp = pl_stages pl \<and> pp_bindings pp = pl_bindings pl \<and>
    (\<exists>rank. scheduled (pp_stages pp) rank \<and>
       (\<forall>sg \<in> set (pp_stages pp). \<forall>j < length (sg_points sg).
          state_ready (pp_stages pp) rank sg j (pt_state (sg_points sg ! j))) \<and>
       (\<forall>b \<in> set (pp_bindings pp). rank (source_stage (bi_from b)) < rank (fst (bi_to b))))"
proof (rule accepted_parts [OF assms])
  fix dut
  assume ok: "validate_stages (pp_context pp) (pl_stages pl) = Inr ([], pl_stages pl)"
    and same: "pp_stages pp = pl_stages pl" "pp_bindings pp = pl_bindings pl"
    and bindings: "validate_bindings (pl_stages pl) (pl_bindings pl) = []"
  obtain rank where rank: "scheduled (pl_stages pl) rank" using scheduled_exists [OF ok] by blast
  have "rank (source_stage (bi_from b)) < rank (fst (bi_to b))" if "b \<in> set (pl_bindings pl)" for b
    using validate_bindings_silent(3) [OF bindings that] binding_body_silent(1) rank
    unfolding scheduled_def by metis
  then show ?thesis
    using same rank carryover_ready [OF ok rank] by (intro conjI exI [of _ rank]) auto
qed

theorem accepted_plan_schedulable_witness:
  "pp_stages good_prepared = pl_stages good_plan \<and>
   (\<exists>rank. scheduled (pp_stages good_prepared) rank \<and> rank ''coarse'' < rank ''fine'')"
proof -
  from accepted_plan_schedulable [OF good_plan_accepted]
  have same: "pp_stages good_prepared = pl_stages good_plan"
    and ex: "\<exists>rank. scheduled (pp_stages good_prepared) rank" by auto
  from ex obtain rank where "scheduled (pp_stages good_prepared) rank" ..
  moreover from this have "rank ''coarse'' < rank ''fine''"
    unfolding same by (simp add: scheduled_def good_plan_def buffer_plan_stages)
  ultimately show ?thesis using same by blast
qed

text \<open>C8: In an accepted plan the bindings and the stage inputs correspond one to one: the targets of
  the bindings are distinct and are exactly the declared inputs, each binding flows from a stage its
  target stage depends on, and the unit of its source, its declared unit and the unit of the input
  are the same.\<close>

theorem accepted_bindings_exact:
  assumes "validate_plan pl override = Inr (Some pp, iss)"
  shows "distinct (map bi_to (pl_bindings pl)) \<and>
    bi_to ` set (pl_bindings pl) = fst ` set (stage_inputs (pl_stages pl)) \<and>
    (\<forall>b \<in> set (pl_bindings pl).
       (\<exists>sg \<in> set (pl_stages pl). sg_id sg = fst (bi_to b) \<and> source_stage (bi_from b) \<in> set (sg_depends sg)) \<and>
       source_unit (pl_stages pl) (bi_from b) = Some (bi_unit b) \<and>
       (bi_to b, bi_unit b) \<in> set (stage_inputs (pl_stages pl)))"
proof (rule accepted_parts [OF assms])
  assume bindings: "validate_bindings (pl_stages pl) (pl_bindings pl) = []"
  note ok = validate_bindings_silent [OF bindings]
  show ?thesis
  proof (intro conjI ballI)
    fix b assume "b \<in> set (pl_bindings pl)"
    then obtain path ids targets where b: "binding_body (pl_stages pl) path ids targets b = []"
      using ok(3) by blast
    show "\<exists>sg \<in> set (pl_stages pl). sg_id sg = fst (bi_to b) \<and> source_stage (bi_from b) \<in> set (sg_depends sg)"
      by (rule binding_body_silent(1) [OF b])
    show "source_unit (pl_stages pl) (bi_from b) = Some (bi_unit b)" by (rule binding_body_silent(3) [OF b])
    show "(bi_to b, bi_unit b) \<in> set (stage_inputs (pl_stages pl))"
      by (rule lookup_last_mem [OF binding_body_silent(2) [OF b]])
  qed (rule ok(1), rule ok(2))
qed

theorem accepted_bindings_exact_witness:
  "bi_to ` set (pl_bindings good_plan) = fst ` set (stage_inputs (pl_stages good_plan)) \<and>
   (''fine'', ''limit'') \<in> bi_to ` set (pl_bindings good_plan)"
proof -
  from accepted_bindings_exact [OF good_plan_accepted]
  have "bi_to ` set (pl_bindings good_plan) = fst ` set (stage_inputs (pl_stages good_plan))" by blast
  moreover have "(''fine'', ''limit'') \<in> bi_to ` set (pl_bindings good_plan)"
    by (simp add: good_plan_def buffer_plan_def)
  ultimately show ?thesis by blast
qed

text \<open>C28: Every observable of an accepted plan reads an existing measurement, validity rule or reduction
  component and declares exactly the unit and the shape it emits, and no two observables read the
  same one.\<close>

theorem accepted_observables_typed:
  assumes "validate_plan pl override = Inr (Some pp, iss)"
  shows "pp_observables pp = pl_observables pl \<and> distinct (map ob_source (pl_observables pl)) \<and>
    (\<forall>ob \<in> set (pl_observables pl). emitted (pl_stages pl) (ob_source ob) = Some (ob_unit ob, ob_shape ob))"
proof (rule accepted_parts [OF assms])
  assume "validate_observables (pl_stages pl) (pl_observables pl) = []" "pp_observables pp = pl_observables pl"
  then show ?thesis using observables_from_silent [of "pl_stages pl" 0 "[]" "[]"]
    by (simp add: validate_observables_def)
qed

theorem accepted_observables_typed_witness:
  "pp_observables good_prepared = pl_observables good_plan \<and>
   emitted (pl_stages good_plan) (ObReduction ''coarse'' ''pick'' ''value'') = Some (''V'', ''scalar'')"
proof -
  from accepted_observables_typed [OF good_plan_accepted]
  have "pp_observables good_prepared = pl_observables good_plan"
    and "\<forall>ob \<in> set (pl_observables good_plan). emitted (pl_stages good_plan) (ob_source ob) = Some (ob_unit ob, ob_shape ob)"
    by auto
  then show ?thesis by (simp add: good_plan_def buffer_plan_def)
qed



text \<open>C30: The validator raises only on two kinds of plan, and then a \<open>KeyError\<close>: a point with a DC sweep
  that measures a loop transfer, or a reduction whose parent has the wrong kind.  On every other
  plan the schema admits it returns a prepared plan or the recorded issues.\<close>

theorem validate_plan_raises:
  assumes "validate_plan pl override = Inl e"
  shows "\<exists>sg \<in> set (pl_stages pl).
    (\<exists>pt \<in> set (sg_points sg). (\<exists>m \<in> set (pt_measurements pt). measurement_kind (me_doc m) = ''loop_transfer'') \<and>
       analysis_kind (pt_analysis pt) = ''dc_sweep'' \<and> e = KeyError (repr_text ''stimulus_id'')) \<or>
    (\<exists>r \<in> set (sg_reductions sg). \<exists>q \<in> set (sg_reductions sg). misread_parent r q e)"
proof -
  obtain iss dut where d: "dut_document pl override = (iss, Some dut)"
    using assms by (cases "dut_document pl override"; cases "snd (dut_document pl override)")
      (auto simp: validate_plan_def)
  obtain parts pc where p: "validate_parts pl dut = (parts, pc)" by (cases "validate_parts pl dut")
  have "validate_stages pc (pl_stages pl) = Inl e"
    using assms by (auto simp: validate_plan_def d p pbind_eq_Inl Let_def split: prod.split_asm)
  then have "plan_hazard (pl_stages pl) e"
    using validate_stages_raises [of "pl_stages pl" pc] by (simp add: errs_in_iff)
  then show ?thesis by (simp add: plan_hazard_def loop_in_sweep_def)
qed

theorem validate_plan_raises_witness:
  "validate_plan misfit_plan None = Inl (KeyError (repr_text ''axis_unit'')) \<and>
   (\<exists>sg \<in> set (pl_stages misfit_plan). \<exists>r \<in> set (sg_reductions sg). \<exists>q \<in> set (sg_reductions sg).
      misread_parent r q (KeyError (repr_text ''axis_unit'')))"
proof -
  have "KeyError (repr_text ''axis_unit'') \<noteq> KeyError (repr_text ''stimulus_id'')"
    by (simp add: repr_text_def repr_char_def ord_def Let_def)
  then show ?thesis
    using validate_plan_raises [OF misfit_plan_raises] misfit_plan_raises by blast
qed

end
