(* ===== verification/RunOrder.thy ===== *)
theory RunOrder
  imports RunStages PlanVerdict
begin

text \<open>
  The stage order of the runner on an accepted plan: the rounds always make progress, so they end
  with every stage once, each after the stages it depends on.
\<close>

definition dependency_order :: "plan_stage list \<Rightarrow> string list \<Rightarrow> bool" where
  "dependency_order sgs order \<longleftrightarrow>
     (\<forall>i < length order. \<forall>sg \<in> set sgs. sg_id sg = order ! i \<longrightarrow> set (sg_depends sg) \<subseteq> set (take i order))"

lemma dependency_order_append:
  assumes "dependency_order sgs out"
    and "\<And>sg. sg \<in> set sgs \<Longrightarrow> sg_id sg \<in> set ready \<Longrightarrow> set (sg_depends sg) \<subseteq> set out"
  shows "dependency_order sgs (out @ ready)"
  unfolding dependency_order_def
proof (intro allI impI ballI)
  fix i sg assume i: "i < length (out @ ready)" and sg: "sg \<in> set sgs" "sg_id sg = (out @ ready) ! i"
  show "set (sg_depends sg) \<subseteq> set (take i (out @ ready))"
  proof (cases "i < length out")
    case True
    then show ?thesis using assms(1) sg by (auto simp: dependency_order_def nth_append)
  next
    case False
    with i sg(2) have "sg_id sg \<in> set ready" by (auto simp: nth_append)
    with assms(2) sg(1) False show ?thesis by auto
  qed
qed

lemma update_append_new: "k \<notin> fst ` set d \<Longrightarrow> AList.update k v d = d @ [(k, v)]"
  by (induction d) auto

lemma stage_dict_fold:
  "distinct (map fst d @ map sg_id sgs) \<Longrightarrow>
     fold (\<lambda>sg d. AList.update (sg_id sg) sg d) sgs d = d @ map (\<lambda>sg. (sg_id sg, sg)) sgs"
proof (induction sgs arbitrary: d)
  case (Cons sg sgs)
  have "AList.update (sg_id sg) sg d = d @ [(sg_id sg, sg)]"
    using Cons.prems by (intro update_append_new) simp
  with Cons.IH [of "d @ [(sg_id sg, sg)]"] Cons.prems show ?case by simp
qed simp

lemma stage_dict_distinct:
  "distinct (map sg_id sgs) \<Longrightarrow> stage_dict sgs = map (\<lambda>sg. (sg_id sg, sg)) sgs"
  unfolding stage_dict_def using stage_dict_fold [of "[]" sgs] by simp

lemma topological_rounds_complete:
  assumes "scheduled sgs rank" "distinct (map sg_id sgs)" "d = map (\<lambda>sg. (sg_id sg, sg)) sgs"
    and "distinct (out @ remaining)" "set out \<union> set remaining = sg_id ` set sgs" "dependency_order sgs out"
  shows "\<exists>order. topological_rounds d remaining out = Inr order \<and> distinct order
     \<and> set order = sg_id ` set sgs \<and> dependency_order sgs order"
  using assms
proof (induction d remaining out rule: topological_rounds.induct)
  case (1 d remaining out)
  show ?case
  proof (cases "remaining = []")
    case True
    with "1.prems" show ?thesis by (auto simp: topological_rounds.simps)
  next
    case False
    define ready where "ready = ready_stages d remaining"
    have in_ready: "k \<in> set ready \<longleftrightarrow>
        (\<exists>sg \<in> set sgs. k = sg_id sg \<and> k \<in> set remaining \<and> set (sg_depends sg) \<inter> set remaining = {})" for k
      by (force simp: ready_def ready_stages_def "1.prems"(3) image_iff)
    obtain k where k: "k \<in> set remaining" "\<forall>j \<in> set remaining. rank k \<le> rank j"
      using False ex_min_if_finite [of "rank ` set remaining"] by (auto simp: not_less)
    have "k \<in> sg_id ` set sgs" using k(1) "1.prems"(5) by blast
    then obtain sg where sg: "sg \<in> set sgs" "sg_id sg = k" by auto
    then have "set (sg_depends sg) \<inter> set remaining = {}"
      using k(2) "1.prems"(1) by (auto simp: scheduled_def) (metis leD)
    with sg k(1) have "k \<in> set ready" by (auto simp: in_ready)
    then have some: "ready \<noteq> []" by auto
    have dep: "set (sg_depends s) \<subseteq> set out" if "s \<in> set sgs" "sg_id s \<in> set ready" for s
    proof -
      from that(2) obtain s' where "s' \<in> set sgs" "sg_id s' = sg_id s" "set (sg_depends s') \<inter> set remaining = {}"
        by (auto simp: in_ready)
      moreover from this have "s' = s" using that(1) "1.prems"(2) by (auto simp: distinct_map dest: inj_onD)
      ultimately show ?thesis using "1.prems"(1,5) that(1) by (auto simp: scheduled_def)
    qed
    have "map fst d = map sg_id sgs" using "1.prems"(3) by simp
    then have dr: "distinct ready"
      using "1.prems"(2) unfolding ready_def ready_stages_def by (metis distinct_map_filter)
    have sub: "set ready \<subseteq> set remaining" by (auto simp: in_ready)
    have "\<exists>order. topological_rounds d (filter (\<lambda>k. k \<notin> set ready) remaining) (out @ ready) = Inr order
        \<and> distinct order \<and> set order = sg_id ` set sgs \<and> dependency_order sgs order"
    proof (rule "1.IH" [OF False ready_def some])
      show "distinct ((out @ ready) @ filter (\<lambda>k. k \<notin> set ready) remaining)"
        using "1.prems"(4) dr sub by auto
      show "set (out @ ready) \<union> set (filter (\<lambda>k. k \<notin> set ready) remaining) = sg_id ` set sgs"
        using "1.prems"(5) sub by auto
    qed (use "1.prems" dependency_order_append dep in blast)+
    then show ?thesis using False some by (simp add: topological_rounds.simps [of d remaining] ready_def Let_def)
  qed
qed

text \<open>C17: The runner can order the stages of every plan the validator accepts: the rounds of ready
  stages never stall, and their order has every stage exactly once, after all it depends on.\<close>

theorem accepted_stages_ordered:
  assumes "validate_plan pl override = Inr (Some pp, iss)"
  shows "\<exists>order. topological_stages (pp_stages pp) = Inr order \<and> distinct order
     \<and> set order = sg_id ` set (pp_stages pp) \<and> dependency_order (pp_stages pp) order"
proof -
  from accepted_parts [OF assms] obtain
    ok: "validate_stages (pp_context pp) (pl_stages pl) = Inr ([], pl_stages pl)" and pp: "pp_stages pp = pl_stages pl" .
  obtain rank where rank: "scheduled (pl_stages pl) rank" using scheduled_exists [OF ok] ..
  have ids: "distinct (map sg_id (pl_stages pl))" using validate_stages_silent(2) [OF ok] .
  show ?thesis
    using topological_rounds_complete [OF rank ids stage_dict_distinct [OF ids],
        of "[]" "map fst (stage_dict (pl_stages pl))"] ids
    unfolding topological_stages_def pp Let_def
    by (simp add: stage_dict_distinct dependency_order_def o_def)
qed

theorem accepted_stages_ordered_witness:
  "topological_stages (pp_stages good_prepared) = Inr [''coarse'', ''fine'']"
proof -
  obtain order where o: "topological_stages (pp_stages good_prepared) = Inr order" "distinct order"
      "set order = sg_id ` set (pp_stages good_prepared)" "dependency_order (pp_stages good_prepared) order"
    using accepted_stages_ordered [OF good_plan_accepted] by blast
  have stages: "pp_stages good_prepared = [buffer_stage picked, fine_stage]"
    by (simp add: good_prepared_def good_plan_def buffer_plan_stages)
  have ids: "sg_id (buffer_stage picked) = ''coarse''" "sg_id fine_stage = ''fine''" "sg_depends fine_stage = [''coarse'']"
    by (simp_all add: buffer_stage_def fine_stage_def)
  have "length order = 2" using o(2,3) distinct_card [of order] by (simp add: stages ids)
  then obtain x y where xy: "order = [x, y]" by (auto simp: length_Suc_conv numeral_2_eq_2)
  have "order ! 0 \<noteq> ''fine''" using o(4) xy by (fastforce simp: dependency_order_def stages ids)
  with o(2,3) xy have "order = [''coarse'', ''fine'']" by (auto simp: stages ids doubleton_eq_iff)
  with o(1) show ?thesis by simp
qed

end
