(* ===== verification/RunLineage.thy ===== *)
theory RunLineage
  imports RunExecute RunOrder
begin

text \<open>
  What a run's values rest on.  A completed attempt is a genuine execution: the simulator was invoked
  on the compiled deck and left a nonempty waveform with exit status zero.  Every value the runner
  holds rests on a nonempty set of completed attempts, and so does everything a binding passes on.
\<close>

section \<open>Genuine attempts\<close>

definition genuine :: "run_env \<Rightarrow> attempt \<Rightarrow> bool" where
  "genuine env a \<longleftrightarrow>
     (\<exists>cc ex. rn_execute env cc = Inr (Candidate ex) \<and> cc_id cc = at_condition a
        \<and> (cc_stage cc, cc_point cc) = (at_stage a, at_point a)
        \<and> at_invoked a \<and> ex_returncode ex = 0 \<and> at_returncode a = Some 0
        \<and> ex_waveform ex \<noteq> [] \<and> at_waveform_sha256 a = sha256 (rn_env env) (ex_waveform ex)
        \<and> at_deck_sha256 a = sha256 (rn_env env) (cc_deck cc) \<and> at_deck_sha256 a = cc_deck_sha256 cc
        \<and> at_identity a = ex_identity ex)"

definition attempt_of :: "run_env \<Rightarrow> (point_key \<times> plan_point) list \<Rightarrow> compiled \<Rightarrow> attempt" where
  "attempt_of env points cc =
     (case try_condition env (lookup_last points (cc_stage cc, cc_point cc)) cc of
        (invoked, ex, outcome) \<Rightarrow> condition_attempt env cc invoked ex outcome)"

lemma attempt_of_key [simp]:
  "at_condition (attempt_of env points cc) = cc_id cc" "at_stage (attempt_of env points cc) = cc_stage cc"
  "at_point (attempt_of env points cc) = cc_point cc"
  by (auto simp: attempt_of_def condition_attempt_def Let_def split: prod.split)

lemma preflight_deck: "preflight env point cc = Inr pt \<Longrightarrow> sha256 (rn_env env) (cc_deck cc) = cc_deck_sha256 cc"
  by (auto simp: preflight_def split: option.splits if_splits)

lemma admit_Inr: "admit c = Inr ex \<Longrightarrow> c = Candidate ex"
  by (auto simp: admit_def split: candidate.splits if_splits)

lemma accept_execution_Inr:
  "accept_execution env cc pt ex = Inr w \<Longrightarrow> ex_returncode ex = 0 \<and> ex_waveform ex \<noteq> []"
  by (auto simp: accept_execution_def split: if_splits)

lemma try_condition_completed:
  assumes "try_condition env point cc = (invoked, ex, Inr w)"
  obtains pt x where "preflight env point cc = Inr pt" "rn_execute env cc = Inr (Candidate x)"
    "invoked" "ex = Some x" "accept_execution env cc pt x = Inr w"
proof -
  obtain pt where pt: "preflight env point cc = Inr pt"
    using assms by (cases "preflight env point cc") (auto simp: try_condition_def)
  obtain c where c: "rn_execute env cc = Inr c"
    using assms pt by (cases "rn_execute env cc") (auto simp: try_condition_def)
  obtain x where x: "admit c = Inr x"
    using assms pt c by (cases "admit c") (auto simp: try_condition_def)
  then show thesis
    using that assms pt c admit_Inr [OF x] by (auto simp: try_condition_def)
qed

lemma attempt_completed:
  assumes "completed (attempt_of env points cc)"
  shows "genuine env (attempt_of env points cc)"
proof -
  obtain invoked ex outcome
    where t: "try_condition env (lookup_last points (cc_stage cc, cc_point cc)) cc = (invoked, ex, outcome)"
    by (rule prod_cases3)
  with assms obtain w where w: "outcome = Inr w"
    by (cases outcome) (auto simp: attempt_of_def completed_def condition_attempt_def Let_def)
  from try_condition_completed [OF t [unfolded w]] obtain pt x where
    p: "preflight env (lookup_last points (cc_stage cc, cc_point cc)) cc = Inr pt"
      "rn_execute env cc = Inr (Candidate x)" "invoked" "ex = Some x" "accept_execution env cc pt x = Inr w" .
  show ?thesis
    unfolding genuine_def
    using t p accept_execution_Inr [OF p(5)] preflight_deck [OF p(1)]
    by (intro exI [of _ cc] exI [of _ x]) (simp add: attempt_of_def condition_attempt_def Let_def)
qed

section \<open>The conditions of a compilation\<close>

definition entries_ok ::
  "run_env \<Rightarrow> (point_key \<times> plan_point) list \<Rightarrow> compiled list \<Rightarrow> point_key \<times> (compiled \<times> waveform) list \<Rightarrow> bool" where
  "entries_ok env points ccs group_entry \<longleftrightarrow>
     snd group_entry \<noteq> [] \<and> (\<forall>(cc, w) \<in> set (snd group_entry). cc \<in> set ccs \<and>
        fst group_entry = (cc_stage cc, cc_point cc) \<and> completed (attempt_of env points cc))"

definition waveforms_ok ::
  "run_env \<Rightarrow> (point_key \<times> plan_point) list \<Rightarrow> compiled list \<Rightarrow> point_waveforms \<Rightarrow> bool" where
  "waveforms_ok env points ccs ws \<longleftrightarrow> (\<forall>g \<in> set ws. entries_ok env points ccs g)"

lemma set_update_subset: "set (AList.update k v xs) \<subseteq> insert (k, v) (set xs)"
  by (induction xs) auto

lemma waveforms_ok_add:
  assumes "waveforms_ok env points ccs ws" "cc \<in> set ccs" "completed (attempt_of env points cc)"
  shows "waveforms_ok env points ccs (add_waveform (cc_stage cc, cc_point cc) (cc, w) ws)"
proof -
  define old where
    "old = (case map_of ws (cc_stage cc, cc_point cc) of None \<Rightarrow> [] | Some es \<Rightarrow> es)"
  have "old = [] \<or> entries_ok env points ccs ((cc_stage cc, cc_point cc), old)"
    using assms(1)
    by (cases "map_of ws (cc_stage cc, cc_point cc)")
      (auto simp: old_def waveforms_ok_def dest!: map_of_SomeD)
  then have "entries_ok env points ccs ((cc_stage cc, cc_point cc), old @ [(cc, w)])"
    using assms(2,3) by (auto simp: entries_ok_def)
  then show ?thesis
    using assms(1) set_update_subset [of "(cc_stage cc, cc_point cc)" "old @ [(cc, w)]" ws]
    unfolding waveforms_ok_def add_waveform_def old_def [symmetric] by blast
qed

lemma execute_condition_step:
  assumes "waveforms_ok env points ccs (cr_waveforms cr)" "cc \<in> set ccs"
  shows "cr_attempts (execute_condition env points cc cr) = cr_attempts cr @ [attempt_of env points cc]"
    and "waveforms_ok env points ccs (cr_waveforms (execute_condition env points cc cr))"
proof -
  obtain invoked ex outcome
    where t: "try_condition env (lookup_last points (cc_stage cc, cc_point cc)) cc = (invoked, ex, outcome)"
    by (rule prod_cases3)
  then have a: "attempt_of env points cc = condition_attempt env cc invoked ex outcome"
    by (simp add: attempt_of_def)
  show "cr_attempts (execute_condition env points cc cr) = cr_attempts cr @ [attempt_of env points cc]"
    by (simp add: execute_condition_def t a)
  show "waveforms_ok env points ccs (cr_waveforms (execute_condition env points cc cr))"
  proof (cases outcome)
    case (Inr w)
    then have "completed (attempt_of env points cc)"
      by (simp add: a completed_def condition_attempt_def Let_def)
    with Inr show ?thesis using waveforms_ok_add [OF assms] by (simp add: execute_condition_def t)
  qed (use assms t in \<open>simp add: execute_condition_def\<close>)
qed

lemma execute_conditions_fold:
  assumes "waveforms_ok env points all (cr_waveforms cr)" "set ccs \<subseteq> set all"
  shows "cr_attempts (fold (execute_condition env points) ccs cr) = cr_attempts cr @ map (attempt_of env points) ccs
     \<and> waveforms_ok env points all (cr_waveforms (fold (execute_condition env points) ccs cr))"
  using assms
proof (induction ccs arbitrary: cr)
  case (Cons cc ccs)
  from Cons.prems have cc: "cc \<in> set all" "set ccs \<subseteq> set all" by auto
  note step = execute_condition_step [OF Cons.prems(1) cc(1)]
  from Cons.IH [OF step(2) cc(2)] show ?case by (simp add: step(1))
qed simp

lemma execute_conditions_attempts:
  "cr_attempts (execute_conditions env points ccs) = map (attempt_of env points) ccs"
  "waveforms_ok env points ccs (cr_waveforms (execute_conditions env points ccs))"
  using execute_conditions_fold [of env points ccs
      "\<lparr>cr_attempts = [], cr_refusals = [], cr_waveforms = [], cr_identities = []\<rparr>" ccs]
  by (auto simp: execute_conditions_def waveforms_ok_def)

section \<open>The values of a point\<close>

text \<open>
  The forms of measured data: a float, a list of signs, or a dictionary of floats and curves.
\<close>

definition measured_field :: "pyval \<Rightarrow> bool" where
  "measured_field v \<longleftrightarrow> (case v of VFloat x \<Rightarrow> True | VList vs \<Rightarrow> list_all (\<lambda>u. \<exists>x. u = VFloat x) vs | _ \<Rightarrow> False)"

definition measured_data :: "pyval \<Rightarrow> bool" where
  "measured_data v \<longleftrightarrow>
     (case v of
        VFloat x \<Rightarrow> True
      | VList vs \<Rightarrow> list_all (\<lambda>u. \<exists>i. u = VInt i) vs
      | VDict d \<Rightarrow> list_all (\<lambda>(k, u). is_str k \<and> measured_field u) d
      | _ \<Rightarrow> False)"

lemma measured_json:
  assumes "measured_data v" "finite_json v"
  shows "json_value v"
proof (cases v)
  case (VDict d)
  have "json_value u" if "(k, u) \<in> set d" for k u
    using that assms VDict
    by (cases u) (fastforce simp: measured_data_def measured_field_def list_all_iff)+
  moreover have "is_str k" if "(k, u) \<in> set d" for k u
    using that assms(1) VDict by (fastforce simp: measured_data_def list_all_iff)
  ultimately show ?thesis by (auto simp: VDict list_all_iff)
qed (use assms in \<open>fastforce simp: measured_data_def list_all_iff\<close>)+

lemma derived_value_data: "derived_value env pp corner d curve = Inr v \<Longrightarrow> measured_data v"
proof (cases d)
  case (LinearFit p a b)
  assume "derived_value env pp corner d curve = Inr v"
  then obtain xs ys where "fit_line env xs ys = Inr v" by (auto simp: derived_value_def LinearFit)
  then show ?thesis
    by (auto simp: fit_line_def Let_def measured_data_def measured_field_def obj_def split: if_split_asm)
next
  case (Compliance p lo hi)
  assume "derived_value env pp corner d curve = Inr v"
  then obtain xs ys l u where "compliance_of xs ys l u = Inr v" by (auto simp: derived_value_def Compliance)
  then show ?thesis
    by (auto simp: compliance_of_def Let_def measured_data_def measured_field_def obj_def split: if_split_asm list.splits)
next
  case (Sign p z)
  assume "derived_value env pp corner d curve = Inr v"
  then show ?thesis by (auto simp: derived_value_def Sign measured_data_def list_all_iff sign_of_def)
next
  case (Crossing p t direction n)
  assume "derived_value env pp corner d curve = Inr v"
  then show ?thesis by (auto simp: derived_value_def Crossing measured_data_def)
next
  case (MaxAbs p)
  assume "derived_value env pp corner d curve = Inr v"
  then show ?thesis by (auto simp: derived_value_def MaxAbs measured_data_def)
qed (simp_all add: derived_value_def)

lemma evaluate_measurement_data:
  assumes "evaluate_measurement env pp corner w probes base vs m = Inr cv"
  shows "measured_data (cv_value cv)"
proof (cases "me_doc m")
  case (Integrate q pid a b n)
  then show ?thesis using assms by (auto simp: evaluate_measurement_def Let_def measured_data_def)
next
  case (Curve pid)
  then show ?thesis
    using assms by (auto simp: evaluate_measurement_def Let_def measured_data_def measured_field_def obj_def list_all_iff)
next
  case (Mismatch a r fl)
  then show ?thesis
    using assms by (auto simp: evaluate_measurement_def Let_def measured_data_def split: option.splits)
qed (use assms derived_value_data in \<open>auto simp: evaluate_measurement_def Let_def split: option.splits\<close>)

text \<open>Values whose lineage is a nonempty part of \<open>B\<close> and whose data is finite.\<close>

definition rests_on :: "string set \<Rightarrow> condition_value \<Rightarrow> bool" where
  "rests_on B cv \<longleftrightarrow> cv_conditions cv \<noteq> {} \<and> cv_conditions cv \<subseteq> B"

definition values_in :: "string set \<Rightarrow> point_values \<Rightarrow> bool" where
  "values_in B values \<longleftrightarrow> (\<forall>(m, cv) \<in> set values. rests_on B cv \<and> measured_data (cv_value cv) \<and> finite_json (cv_value cv))"

lemma values_in_lookup:
  "values_in B vs \<Longrightarrow> map_of vs m = Some cv \<Longrightarrow> rests_on B cv \<and> measured_data (cv_value cv) \<and> finite_json (cv_value cv)"
  by (auto simp: values_in_def dest!: map_of_SomeD)

lemma values_in_mono: "values_in B values \<Longrightarrow> B \<subseteq> C \<Longrightarrow> values_in C values"
  by (fastforce simp: values_in_def rests_on_def)

lemma rests_on_union: "rests_on B a \<Longrightarrow> rests_on B b \<Longrightarrow> cv_conditions c = cv_conditions a \<union> cv_conditions b \<Longrightarrow> rests_on B c"
  by (auto simp: rests_on_def)

lemma parent_lineage:
  assumes "values_in B vs" "cv_conditions cv = cv_conditions q" "map_of vs p = Some q"
  shows "rests_on B cv"
  using values_in_lookup [OF assms(1,3)] assms(2) by (simp add: rests_on_def)

lemma evaluate_measurement_lineage:
  assumes "evaluate_measurement env pp corner w probes base values m = Inr cv"
    and "values_in B values" "base \<noteq> {}" "base \<subseteq> B"
  shows "rests_on B cv"
proof -
  note parent = values_in_lookup [OF assms(2)]
  have base: "rests_on B \<lparr>cv_value = v, cv_conditions = base\<rparr>" for v
    using assms(3,4) by (simp add: rests_on_def)
  show ?thesis
  proof (cases "me_doc m")
    case (Integrate q pid a b n)
    then show ?thesis using assms(1) base by (auto simp: evaluate_measurement_def Let_def)
  next
    case (Curve pid)
    then show ?thesis using assms(1) base by (auto simp: evaluate_measurement_def Let_def)
  next
    case (Mismatch a r fl)
    then obtain x y where xy: "map_of values a = Some x" "map_of values r = Some y"
      using assms(1) by (auto simp: evaluate_measurement_def Let_def split: option.splits)
    then have "cv_conditions cv = cv_conditions x \<union> cv_conditions y"
      using assms(1) Mismatch by (auto simp: evaluate_measurement_def Let_def)
    with parent xy show ?thesis by (blast intro: rests_on_union)
  qed (use assms(1) in \<open>auto simp: evaluate_measurement_def Let_def split: option.splits
      intro: parent_lineage [OF assms(2)]\<close>)
qed

lemma evaluate_measurements_lineage:
  assumes "evaluate_measurements env pp corner w probes base vs ms = Inr out"
    and "values_in B vs" "base \<noteq> {}" "base \<subseteq> B"
  shows "values_in B out"
  using assms
proof (induction ms arbitrary: vs)
  case (Cons m ms)
  from Cons.prems(1) obtain cv where cv: "evaluate_measurement env pp corner w probes base vs m = Inr cv"
      "finite_json (cv_value cv)"
      "evaluate_measurements env pp corner w probes base (AList.update (me_id m) cv vs) ms = Inr out"
    by (auto split: if_split_asm)
  have "rests_on B cv" using evaluate_measurement_lineage [OF cv(1) Cons.prems(2-4)] .
  then have "values_in B (AList.update (me_id m) cv vs)"
    using Cons.prems(2) cv(2) evaluate_measurement_data [OF cv(1)] set_update_subset [of "me_id m" cv vs]
    unfolding values_in_def by blast
  from Cons.IH [OF cv(3) this Cons.prems(3,4)] show ?case .
qed simp

lemma evaluate_point_group_lineage:
  assumes "evaluate_point_group env pp corner pt entries upstream = Inr out"
  shows "values_in (cc_id ` fst ` set entries \<union> upstream) out"
proof (cases "fresh_samples pt entries")
  case True
  define ordered where "ordered = sort_key (\<lambda>(cc, w). sample_index cc) entries"
  have set_ordered: "set ordered = set entries" by (simp add: ordered_def)
  have some: "ordered \<noteq> []"
    using assms True by (auto simp: evaluate_point_group_def ordered_def [symmetric])
  then obtain head rest where cons: "ordered = head # rest" by (cases ordered) auto
  have ids: "set (map (\<lambda>(cc, w). cc_id cc) ordered) = cc_id ` fst ` set entries"
    by (simp add: set_ordered image_image case_prod_beta)
  obtain w probes where "evaluate_measurements env pp corner w probes
      (set (map (\<lambda>(cc, w). cc_id cc) ordered) \<union> upstream) [] (pt_measurements pt) = Inr out"
    using assms True
    by (auto simp: evaluate_point_group_def ordered_def [symmetric] cons Let_def simp del: set_map split: prod.splits)
  then have ev: "evaluate_measurements env pp corner w probes (cc_id ` fst ` set entries \<union> upstream) []
      (pt_measurements pt) = Inr out" unfolding ids .
  have "cc_id ` fst ` set entries \<noteq> {}" using some set_ordered by auto
  then show ?thesis using evaluate_measurements_lineage [OF ev] by (simp add: values_in_def)
next
  case False
  then obtain cc w where e: "entries = [(cc, w)]"
    using assms by (auto simp: evaluate_point_group_def split: list.splits)
  have "evaluate_measurements env pp corner w (probe_vectors cc) ({cc_id cc} \<union> upstream) []
      (pt_measurements pt) = Inr out"
    using assms False by (simp add: evaluate_point_group_def e)
  from evaluate_measurements_lineage [OF this, of "{cc_id cc} \<union> upstream"] show ?thesis
    by (simp add: values_in_def e)
qed

end
