(* ===== verification/RunInvariant.thy ===== *)
theory RunInvariant
  imports RunLineage
begin

text \<open>
  The run as a state machine: the compiler refuses a stage, a compiled stage is executed and
  evaluated, or the bindings of a stage are resolved.  The invariants of the reachable states: only
  genuine attempts complete, every value and every upstream condition rests on completed attempts,
  every binding passed to the compiler comes from a valid source, and there is one device under test.
\<close>

section \<open>Steps\<close>

definition executed_stage ::
  "run_env \<Rightarrow> prepared_plan \<Rightarrow> string \<Rightarrow> string \<Rightarrow> compilation \<Rightarrow> string option \<Rightarrow> run_state \<Rightarrow> run_state" where
  "executed_stage env pp corner stage cp dut st =
     (let cr = execute_conditions env (point_documents pp) (cp_conditions cp);
          evaluated = fold (evaluate_group env pp corner (upstream_of st stage) (cr_attempts cr))
            (cr_waveforms cr) (rt_values st, rt_refusals st @ cr_refusals cr)
      in st\<lparr>rt_dut := dut, rt_compilations := rt_compilations st @ [cp],
            rt_attempts := rt_attempts st @ cr_attempts cr, rt_values := fst evaluated,
            rt_refusals := snd evaluated, rt_identities := rt_identities st @ cr_identities cr\<rparr>)"

inductive stage_step :: "run_env \<Rightarrow> prepared_plan \<Rightarrow> string \<Rightarrow> run_state \<Rightarrow> run_state \<Rightarrow> bool"
  for env :: run_env and pp :: prepared_plan and corner :: string where
  refused: "\<lbrakk>sg \<in> set (pp_stages pp); rn_compile env (sg_id sg) (rt_bindings st) = Inl e;
      stage_uncompiled env corner sg e st = Inr st'\<rbrakk> \<Longrightarrow> stage_step env pp corner st st'"
| executed: "\<lbrakk>rn_compile env stage (rt_bindings st) = Inr cp;
      condition_capacity cp (set (map at_condition (rt_attempts st))) = Inr ();
      registered_dut_sha256 env cp = Inr sha; same_dut (rt_dut st) sha = Inr dut\<rbrakk> \<Longrightarrow>
      stage_step env pp corner st (executed_stage env pp corner stage cp dut st)"
| bound: "bind_stage env pp corner stage st = Inr st' \<Longrightarrow> stage_step env pp corner st st'"

inductive_cases stage_stepE: "stage_step env pp corner st st'"

abbreviation reachable_run :: "run_env \<Rightarrow> prepared_plan \<Rightarrow> string \<Rightarrow> run_state \<Rightarrow> bool" where
  "reachable_run env pp corner \<equiv> (stage_step env pp corner)\<^sup>*\<^sup>* initial_run"

lemma execute_stage_executed:
  "execute_stage env pp corner stage cp st =
     pbind (condition_capacity cp (set (map at_condition (rt_attempts st)))) (\<lambda>unit.
     pbind (registered_dut_sha256 env cp) (\<lambda>sha.
     pbind (same_dut (rt_dut st) sha) (\<lambda>dut.
       bind_stage env pp corner stage (executed_stage env pp corner stage cp dut st))))"
  by (simp add: execute_stage_def executed_stage_def Let_def)

lemma stage_dict_member: "map_of (stage_dict sgs) k = Some sg \<Longrightarrow> sg \<in> set sgs \<and> sg_id sg = k"
proof -
  have "map_of (fold (\<lambda>sg d. AList.update (sg_id sg) sg d) sgs d) k = Some sg \<Longrightarrow>
      map_of d k = Some sg \<or> sg \<in> set sgs \<and> sg_id sg = k" for d
  proof (induction sgs arbitrary: d)
    case (Cons s sgs)
    from Cons.IH [of "AList.update (sg_id s) s d"] Cons.prems show ?case
      by (auto simp: update_conv split: if_split_asm)
  qed simp
  from this [of "[]"] show "map_of (stage_dict sgs) k = Some sg \<Longrightarrow> sg \<in> set sgs \<and> sg_id sg = k"
    by (auto simp: stage_dict_def)
qed

lemma run_stage_steps:
  assumes "run_stage env pp corner stage st = Inr st'"
  shows "(stage_step env pp corner)\<^sup>*\<^sup>* st st'"
proof -
  obtain sg where sg: "map_of (stage_dict (pp_stages pp)) stage = Some sg"
    using assms by (cases "map_of (stage_dict (pp_stages pp)) stage") (auto simp: run_stage_def)
  note member = stage_dict_member [OF sg]
  show ?thesis
  proof (cases "list_ex (\<lambda>pt. pt_corner pt = corner) (sg_points sg)")
    case False
    then show ?thesis using assms sg by (simp add: run_stage_def)
  next
    case True
    show ?thesis
    proof (cases "rn_compile env stage (rt_bindings st)")
      case (Inl e)
      then show ?thesis
        using assms sg True member by (auto simp: run_stage_def intro: stage_step.refused)
    next
      case (Inr cp)
      then have "execute_stage env pp corner stage cp st = Inr st'"
        using assms sg True by (simp add: run_stage_def)
      then obtain sha dut where ok: "condition_capacity cp (set (map at_condition (rt_attempts st))) = Inr ()"
          "registered_dut_sha256 env cp = Inr sha" "same_dut (rt_dut st) sha = Inr dut"
          "bind_stage env pp corner stage (executed_stage env pp corner stage cp dut st) = Inr st'"
        by (auto simp: execute_stage_executed)
      from stage_step.executed [OF Inr ok(1-3)] stage_step.bound [OF ok(4)] show ?thesis
        by (rule converse_rtranclp_into_rtranclp [OF _ r_into_rtranclp])
    qed
  qed
qed

lemma run_stages_reachable:
  assumes "run_stages env pp corner = Inr st"
  shows "reachable_run env pp corner st"
proof -
  obtain order where "fold_res (run_stage env pp corner) order initial_run = Inr st"
    using assms by (auto simp: run_stages_def)
  then show ?thesis
    by (rule fold_res_invariant [where P = "reachable_run env pp corner"])
      (auto dest: run_stage_steps intro: rtranclp_trans)
qed

section \<open>Growth\<close>

lemma uncompiled_from_invalid:
  "uncompiled_from env corner reason sg known pts = Inr (ats, final) \<Longrightarrow> a \<in> set ats \<Longrightarrow>
     \<not> completed a \<and> \<not> at_invoked a \<and> at_returncode a = None \<and> at_reason a = reason \<and> at_stage a = sg_id sg
       \<and> at_status a = ''invalid''"
proof (induction env corner reason sg known pts arbitrary: ats final rule: uncompiled_from.induct)
  case (2 env corner reason sg known pt pts)
  show ?case
  proof (cases "pt_corner pt = corner")
    case True
    from "2.prems"(1) True obtain now later where
      now: "map_res (uncompiled_attempt env corner reason (known \<and> grid_suffixes pt \<noteq> None) sg pt)
          (case grid_suffixes pt of Some ss \<Rightarrow> ss | None \<Rightarrow> [''not_executed'']) = Inr now"
      and later: "uncompiled_from env corner reason sg (known \<and> grid_suffixes pt \<noteq> None) pts = Inr (later, final)"
      and ats: "ats = now @ later"
      by (auto simp: Let_def)
    from "2.prems"(2) ats consider "a \<in> set now" | "a \<in> set later" by auto
    then show ?thesis
    proof cases
      case 1
      with now obtain suffix where
        "uncompiled_attempt env corner reason (known \<and> grid_suffixes pt \<noteq> None) sg pt suffix = Inr a"
        by (auto simp: map_res_eq_Inr list_all2_conv_all_nth in_set_conv_nth)
      then show ?thesis by (auto simp: uncompiled_attempt_def Let_def completed_def)
    next
      case 2
      then show ?thesis using "2.IH"(2) [OF _ refl refl _ later] True now "2.prems" by blast
    qed
  qed (use 2 in simp)
qed simp

section \<open>The invariants\<close>

definition completed_ids :: "attempt list \<Rightarrow> string set" where
  "completed_ids ats = at_condition ` set (filter completed ats)"

lemma completed_ids_append [simp]: "completed_ids (xs @ ys) = completed_ids xs \<union> completed_ids ys"
  by (simp add: completed_ids_def image_Un)

text \<open>Where a binding's value comes from.\<close>

definition binding_ok :: "prepared_plan \<Rightarrow> string \<Rightarrow> attempt list \<Rightarrow> binding_value \<Rightarrow> bool" where
  "binding_ok pp corner ats bv \<longleftrightarrow>
     (\<exists>b s p m component vs item earlier.
        b \<in> set (pp_bindings pp) \<and> bi_id b = bv_binding bv \<and> bi_unit b = bv_unit bv
        \<and> bi_from b = FromMeasurement s p m component \<and> set earlier \<subseteq> set ats
        \<and> source_valid pp corner vs (s, p) earlier \<and> values_in (completed_ids ats) vs
        \<and> map_of vs m = Some item \<and> binding_component item component = Inr (bv_value bv))"

definition run_inv :: "run_env \<Rightarrow> prepared_plan \<Rightarrow> string \<Rightarrow> run_state \<Rightarrow> bool" where
  "run_inv env pp corner st \<longleftrightarrow>
     (\<forall>a \<in> set (rt_attempts st). completed a \<longrightarrow> genuine env a)
     \<and> (\<forall>(k, vs) \<in> set (rt_values st). values_in (completed_ids (rt_attempts st)) vs)
     \<and> (\<forall>(s, ids) \<in> set (rt_upstream st). set ids \<subseteq> completed_ids (rt_attempts st))
     \<and> (\<forall>bv \<in> set (rt_bindings st). binding_ok pp corner (rt_attempts st) bv)"

lemma run_invI:
  assumes "\<And>a. a \<in> set (rt_attempts st) \<Longrightarrow> completed a \<Longrightarrow> genuine env a"
    and "\<And>k vs. (k, vs) \<in> set (rt_values st) \<Longrightarrow> values_in (completed_ids (rt_attempts st)) vs"
    and "\<And>s ids. (s, ids) \<in> set (rt_upstream st) \<Longrightarrow> set ids \<subseteq> completed_ids (rt_attempts st)"
    and "\<And>bv. bv \<in> set (rt_bindings st) \<Longrightarrow> binding_ok pp corner (rt_attempts st) bv"
  shows "run_inv env pp corner st"
  unfolding run_inv_def using assms by fast

lemma run_invD:
  assumes "run_inv env pp corner st"
  shows "a \<in> set (rt_attempts st) \<Longrightarrow> completed a \<Longrightarrow> genuine env a"
    and "(k, vs) \<in> set (rt_values st) \<Longrightarrow> values_in (completed_ids (rt_attempts st)) vs"
    and "(s, ids) \<in> set (rt_upstream st) \<Longrightarrow> set ids \<subseteq> completed_ids (rt_attempts st)"
    and "bv \<in> set (rt_bindings st) \<Longrightarrow> binding_ok pp corner (rt_attempts st) bv"
  using assms unfolding run_inv_def by fast+

lemma binding_ok_append: "binding_ok pp corner ats bv \<Longrightarrow> binding_ok pp corner (ats @ later) bv"
  unfolding binding_ok_def
  by (elim exE conjE, intro exI conjI, assumption+) (auto intro: values_in_mono)

lemma upstream_subset:
  assumes "run_inv env pp corner st"
  shows "upstream_of st stage \<subseteq> completed_ids (rt_attempts st)"
  using run_invD(3) [OF assms] by (auto simp: upstream_of_def split: option.splits dest!: map_of_SomeD)

text \<open>The evaluation of the points of a stage.\<close>

lemma evaluate_group_in:
  assumes "\<forall>(k, vs) \<in> set (fst vr). values_in B vs"
    and "cc_id ` fst ` set (snd g) \<union> upstream \<subseteq> B"
  shows "\<forall>(k, vs) \<in> set (fst (evaluate_group env pp corner upstream ats g vr)). values_in B vs"
proof (cases "group_complete ats g")
  case True
  obtain s p where k: "fst g = (s, p)" by (cases "fst g")
  show ?thesis
  proof (cases "case lookup_last (point_documents pp) (s, p) of
        None \<Rightarrow> Inl (KeyError (''('' @ repr_text s @ '', '' @ repr_text p @ '')''))
      | Some pt \<Rightarrow> evaluate_point_group env pp corner pt (snd g) upstream")
    case (Inr vs)
    then obtain pt where "evaluate_point_group env pp corner pt (snd g) upstream = Inr vs"
      by (auto split: option.splits)
    from values_in_mono [OF evaluate_point_group_lineage [OF this] assms(2)]
    show ?thesis
      using assms(1) Inr True k set_update_subset [of "(s, p)" vs "fst vr"]
      by (auto simp: evaluate_group_def)
  qed (use assms(1) True k in \<open>simp add: evaluate_group_def\<close>)
qed (use assms(1) in \<open>simp add: evaluate_group_def\<close>)

lemma evaluate_groups_in:
  assumes "\<forall>(k, vs) \<in> set (fst vr). values_in B vs" "upstream \<subseteq> B"
    and "\<forall>g \<in> set gs. cc_id ` fst ` set (snd g) \<subseteq> B"
  shows "\<forall>(k, vs) \<in> set (fst (fold (evaluate_group env pp corner upstream ats) gs vr)). values_in B vs"
  using assms
proof (induction gs arbitrary: vr)
  case (Cons g gs)
  have "\<forall>(k, vs) \<in> set (fst (evaluate_group env pp corner upstream ats g vr)). values_in B vs"
    using Cons.prems by (intro evaluate_group_in) auto
  from Cons.IH [OF this] Cons.prems show ?case by simp
qed simp

lemma executed_inv:
  assumes inv: "run_inv env pp corner st"
  shows "run_inv env pp corner (executed_stage env pp corner stage cp dut st)"
proof -
  define cr where "cr = execute_conditions env (point_documents pp) (cp_conditions cp)"
  have cr: "cr_attempts cr = map (attempt_of env (point_documents pp)) (cp_conditions cp)"
      "waveforms_ok env (point_documents pp) (cp_conditions cp) (cr_waveforms cr)"
    unfolding cr_def by (rule execute_conditions_attempts)+
  define evaluated where "evaluated = fold (evaluate_group env pp corner (upstream_of st stage) (cr_attempts cr))
    (cr_waveforms cr) (rt_values st, rt_refusals st @ cr_refusals cr)"
  let ?ats = "rt_attempts st @ cr_attempts cr"
  have fields: "rt_attempts (executed_stage env pp corner stage cp dut st) = ?ats"
      "rt_values (executed_stage env pp corner stage cp dut st) = fst evaluated"
      "rt_upstream (executed_stage env pp corner stage cp dut st) = rt_upstream st"
      "rt_bindings (executed_stage env pp corner stage cp dut st) = rt_bindings st"
    by (simp_all add: executed_stage_def Let_def cr_def evaluated_def)
  have "cc_id ` fst ` set (snd g) \<subseteq> completed_ids ?ats" if "g \<in> set (cr_waveforms cr)" for g
  proof -
    have "cc_id cc \<in> completed_ids (cr_attempts cr)" if "(cc, w) \<in> set (snd g)" for cc w
    proof -
      have "cc \<in> set (cp_conditions cp)" "completed (attempt_of env (point_documents pp) cc)"
        using cr(2) \<open>g \<in> set (cr_waveforms cr)\<close> that by (auto simp: waveforms_ok_def entries_ok_def)
      then show ?thesis by (force simp: completed_ids_def cr(1))
    qed
    then show ?thesis by auto
  qed
  moreover have "\<forall>(k, vs) \<in> set (rt_values st). values_in (completed_ids ?ats) vs"
    using run_invD(2) [OF inv] by (auto intro: values_in_mono)
  ultimately have vals: "\<forall>(k, vs) \<in> set (fst evaluated). values_in (completed_ids ?ats) vs"
    unfolding evaluated_def using upstream_subset [OF inv, of stage] by (intro evaluate_groups_in) auto
  show ?thesis
  proof (rule run_invI, unfold fields)
    fix a assume "a \<in> set ?ats" "completed a"
    then show "genuine env a" using run_invD(1) [OF inv] attempt_completed by (auto simp: cr(1))
  next
    fix bv assume "bv \<in> set (rt_bindings st)"
    then show "binding_ok pp corner ?ats bv" using run_invD(4) [OF inv] binding_ok_append by blast
  qed (use vals run_invD(3) [OF inv] in fastforce)+
qed

lemma refused_inv:
  assumes inv: "run_inv env pp corner st" and step: "stage_uncompiled env corner sg e st = Inr st'"
  shows "run_inv env pp corner st'"
proof -
  obtain reason missing known where
    m: "uncompiled_attempts env corner reason sg = Inr (missing, known)"
    and st': "st' = st\<lparr>rt_attempts := rt_attempts st @ missing, rt_inventory := rt_inventory st \<and> known,
                 rt_refusals := rt_refusals st @ [runner_refusal ''stage_uncompiled'' reason]\<rparr>"
    using step by (auto simp: stage_uncompiled_def Let_def)
  have bad: "\<not> completed a" if "a \<in> set missing" for a
    using uncompiled_from_invalid [OF m [unfolded uncompiled_attempts_def] that] by simp
  show ?thesis
  proof (rule run_invI)
    fix a assume "a \<in> set (rt_attempts st')" "completed a"
    then show "genuine env a" using run_invD(1) [OF inv] bad by (auto simp: st')
  next
    fix bv assume "bv \<in> set (rt_bindings st')"
    then show "binding_ok pp corner (rt_attempts st') bv"
      using run_invD(4) [OF inv] binding_ok_append by (simp add: st')
  next
    fix k vs assume "(k, vs) \<in> set (rt_values st')"
    then show "values_in (completed_ids (rt_attempts st')) vs"
      using run_invD(2) [OF inv, of k vs] by (auto simp: st' intro: values_in_mono)
  next
    fix s ids assume "(s, ids) \<in> set (rt_upstream st')"
    then show "set ids \<subseteq> completed_ids (rt_attempts st')"
      using run_invD(3) [OF inv] by (fastforce simp: st')
  qed
qed

lemma find_attempt_condition: "find_attempt ats c = Some a \<Longrightarrow> a \<in> set ats \<and> at_condition a = c"
  by (auto simp: find_attempt_def lookup_last_def dest!: map_of_SomeD)

lemma resolve_binding_ok:
  assumes "resolve_binding env pp corner vals ats b = Inr (Inr rb)" and b: "b \<in> set (pp_bindings pp)"
    and vals: "\<forall>(k, vs) \<in> set vals. values_in (completed_ids ats) vs"
  shows "binding_ok pp corner ats (rb_value rb) \<and> set (rb_conditions rb) \<subseteq> completed_ids ats"
proof -
  obtain s p m component where src: "bi_from b = FromMeasurement s p m component"
    using assms(1) by (cases "bi_from b") (auto simp: resolve_binding_def)
  obtain item where item: "point_value vals (s, p) m = Some item"
    using assms(1) src by (cases "point_value vals (s, p) m") (auto simp: resolve_binding_def)
  have valid: "source_valid pp corner (values_of vals (s, p)) (s, p) ats"
    using assms(1) src item by (auto simp: resolve_binding_def split: if_split_asm)
  obtain x where x: "binding_component item component = Inr x"
    using assms(1) src item valid
    by (cases "binding_component item component") (auto simp: resolve_binding_def split: pyexc.splits)
  define contributing where
    "contributing = List.map_filter (find_attempt ats) (sorted_list_of_set (cv_conditions item))"
  have rb: "bv_binding (rb_value rb) = bi_id b" "bv_unit (rb_value rb) = bi_unit b" "bv_value (rb_value rb) = x"
      "rb_conditions rb = map at_condition contributing"
    using assms(1) src item valid x
    by (auto simp: resolve_binding_def contributing_def [symmetric] Let_def split: if_split_asm)
  obtain vs where vs: "map_of vals (s, p) = Some vs" "map_of vs m = Some item"
    using item by (auto simp: point_value_def split: option.splits)
  have vin: "values_in (completed_ids ats) vs" using vals vs(1) by (auto dest!: map_of_SomeD)
  then have cond: "cv_conditions item \<subseteq> completed_ids ats"
    using values_in_lookup [OF vin vs(2)] by (simp add: rests_on_def)
  have "finite (cv_conditions item)"
    using cond by (rule finite_subset) (simp add: completed_ids_def)
  then have "at_condition a \<in> cv_conditions item" if "a \<in> set contributing" for a
    using that by (auto simp: contributing_def List.map_filter_def dest: find_attempt_condition)
  then have "set (rb_conditions rb) \<subseteq> completed_ids ats" using cond by (auto simp: rb)
  moreover have "source_valid pp corner vs (s, p) ats" using valid vs(1) by (simp add: values_of_def)
  ultimately show ?thesis
    unfolding binding_ok_def rb(1-3)
    using b src vs(2) vin x by (intro conjI exI [of _ b] exI [of _ s] exI [of _ p] exI [of _ m]
        exI [of _ component] exI [of _ vs] exI [of _ item] exI [of _ ats]) simp_all
qed

lemma bound_inv:
  assumes inv: "run_inv env pp corner st" and step: "bind_stage env pp corner stage st = Inr st'"
  shows "run_inv env pp corner st'"
proof -
  obtain results where r: "resolved_stage_bindings env pp corner stage (rt_values st) (rt_attempts st) = Inr results"
    and st': "st' = st\<lparr>rt_bindings := rt_bindings st @ map rb_value (rights results),
             rt_refusals := rt_refusals st @ lefts results,
             rt_receipts := rt_receipts st @ map rb_receipt (rights results),
             rt_upstream := fold (extend_upstream pp) (rights results) (rt_upstream st)\<rparr>"
    using step by (auto simp: bind_stage_def)
  have good: "binding_ok pp corner (rt_attempts st) (rb_value rb)
      \<and> set (rb_conditions rb) \<subseteq> completed_ids (rt_attempts st)" if "rb \<in> set (rights results)" for rb
  proof -
    from that have "Inr rb \<in> set results" by (auto simp: rights_def List.map_filter_def split: sum.splits)
    from list_all2_mem_right [OF r [unfolded resolved_stage_bindings_def map_res_eq_Inr] this]
    obtain b where "b \<in> set (pp_bindings pp)"
        "resolve_binding env pp corner (rt_values st) (rt_attempts st) b = Inr (Inr rb)"
      by auto
    then show ?thesis using run_invD(2) [OF inv] by (intro resolve_binding_ok) auto
  qed
  have ups: "set ids \<subseteq> completed_ids (rt_attempts st)"
    if "(s, ids) \<in> set (fold (extend_upstream pp) rbs (rt_upstream st))" "set rbs \<subseteq> set (rights results)"
    for s ids rbs
  proof -
    let ?ok = "\<lambda>ups :: (string \<times> string list) list. \<forall>(s, ids) \<in> set ups. set ids \<subseteq> completed_ids (rt_attempts st)"
    have "?ok (fold (extend_upstream pp) rbs (rt_upstream st))"
    proof (rule fold_invariant [where Q = "\<lambda>rb. rb \<in> set (rights results)"])
      show "?ok (rt_upstream st)" using run_invD(3) [OF inv] by blast
    next
      fix rb ups assume rb: "rb \<in> set (rights results)" and ok: "?ok ups"
      let ?t = "binding_target pp (bv_binding (rb_value rb))"
      let ?old = "case map_of ups ?t of None \<Rightarrow> [] | Some ids \<Rightarrow> ids"
      have "set ?old \<subseteq> completed_ids (rt_attempts st)"
        using ok by (cases "map_of ups ?t") (auto dest!: map_of_SomeD)
      then have "\<forall>(s, ids) \<in> insert (?t, ?old @ rb_conditions rb) (set ups). set ids \<subseteq> completed_ids (rt_attempts st)"
        using ok good [OF rb] by simp
      then show "?ok (extend_upstream pp rb ups)"
        using set_update_subset [of ?t "?old @ rb_conditions rb" ups]
        unfolding extend_upstream_def Let_def by blast
    qed (use that(2) in blast)
    with that(1) show ?thesis by blast
  qed
  show ?thesis
  proof (rule run_invI)
    fix bv assume "bv \<in> set (rt_bindings st')"
    then show "binding_ok pp corner (rt_attempts st') bv"
      using run_invD(4) [OF inv] good by (auto simp: st')
  qed (use run_invD(1,2) [OF inv] ups [OF _ order_refl] in \<open>auto simp: st'\<close>)
qed

lemma initial_inv: "run_inv env pp corner initial_run"
  by (simp add: run_inv_def initial_run_def)

lemma reachable_inv:
  assumes "reachable_run env pp corner st"
  shows "run_inv env pp corner st"
  using assms
proof (induction rule: rtranclp_induct)
  case (step st st')
  from step.hyps(2) show ?case
    using step.IH by (cases rule: stage_step.cases) (auto intro: refused_inv executed_inv bound_inv)
qed (rule initial_inv)

end
