(* ===== verification/RunVerdict.thy ===== *)
theory RunVerdict
  imports RunInvariant
begin

text \<open>
  What the envelope of a run says.  Every observable has closed lineage; a measured one rests on
  genuine executions only; a verdict of a rule is never confused with that of another rule; and the
  verdict VALID is emitted only for a point all of whose conditions completed and whose rule holds.
\<close>

section \<open>Verdicts by identity\<close>

text \<open>The verdict the code stores under an identity: that of some rule of the plan.\<close>

definition verdict_of ::
  "prepared_plan \<Rightarrow> string \<Rightarrow> run_values \<Rightarrow> attempt list \<Rightarrow> rule_identity \<Rightarrow> string \<Rightarrow> bool" where
  "verdict_of pp corner vals ats ident verdict \<longleftrightarrow>
     (case ident of
        PointRule s p r \<Rightarrow>
          (\<exists>sg \<in> set (pp_stages pp). \<exists>pt \<in> set (sg_points sg). \<exists>rule \<in> set (pt_rules pt).
             sg_id sg = s \<and> pt_id pt = p \<and> vr_id rule = r \<and> pt_corner pt = corner
             \<and> verdict = fst (point_rule pp corner (values_of vals (s, p)) ats (s, p) rule))
      | StageRule s r \<Rightarrow>
          (\<exists>sg \<in> set (pp_stages pp). \<exists>rule \<in> set (sg_rules sg). sg_id sg = s \<and> vr_id rule = r)
          \<and> verdict = unknown_verdict ''stage reductions unsupported'')"

definition verdicts_ok :: "prepared_plan \<Rightarrow> string \<Rightarrow> run_values \<Rightarrow> attempt list \<Rightarrow> verdicts \<Rightarrow> bool" where
  "verdicts_ok pp corner vals ats v \<longleftrightarrow>
     distinct (map fst (vd_verdicts v)) \<and>
     (\<forall>(ident, verdict) \<in> set (vd_verdicts v). verdict_of pp corner vals ats ident verdict)"

lemma verdicts_ok_store:
  "verdicts_ok pp corner vals ats v \<Longrightarrow> verdict_of pp corner vals ats ident (fst result) \<Longrightarrow>
     verdicts_ok pp corner vals ats (store_verdict ident lineage result v)"
  using set_update_subset [of ident "fst result" "vd_verdicts v"]
  by (auto simp: verdicts_ok_def store_verdict_def distinct_update)

lemma verdict_of_point:
  "sg \<in> set (pp_stages pp) \<Longrightarrow> pt \<in> set (sg_points sg) \<Longrightarrow> pt_corner pt = corner \<Longrightarrow> r \<in> set (pt_rules pt) \<Longrightarrow>
     verdict_of pp corner vals ats (PointRule (sg_id sg) (pt_id pt) (vr_id r))
       (fst (point_rule pp corner (values_of vals (sg_id sg, pt_id pt)) ats (sg_id sg, pt_id pt) r))"
  unfolding verdict_of_def rule_identity.case by blast

lemma point_verdicts_ok:
  assumes "verdicts_ok pp corner vals ats v" "sg \<in> set (pp_stages pp)" "pt \<in> set (sg_points sg)"
  shows "verdicts_ok pp corner vals ats (point_verdicts pp corner vals ats sg pt v)"
proof (cases "pt_corner pt = corner")
  case True
  let ?P = "verdicts_ok pp corner vals ats"
  have "?P (fold (\<lambda>r. store_verdict (PointRule (sg_id sg) (pt_id pt) (vr_id r)) (lin r)
      (point_rule pp corner (values_of vals (sg_id sg, pt_id pt)) ats (sg_id sg, pt_id pt) r)) (pt_rules pt) v)" for lin
    using assms True
    by (intro fold_invariant [where Q = "\<lambda>r. r \<in> set (pt_rules pt)" and P = ?P])
      (auto intro!: verdicts_ok_store verdict_of_point)
  then show ?thesis using True by (simp add: point_verdicts_def Let_def)
qed (use assms(1) in \<open>simp add: point_verdicts_def\<close>)

lemma verdict_of_stage:
  "sg \<in> set (pp_stages pp) \<Longrightarrow> r \<in> set (sg_rules sg) \<Longrightarrow>
     verdict_of pp corner vals ats (StageRule (sg_id sg) (vr_id r)) (unknown_verdict ''stage reductions unsupported'')"
  unfolding verdict_of_def rule_identity.case by blast

lemma stage_verdicts_ok:
  assumes "verdicts_ok pp corner vals ats v" "sg \<in> set (pp_stages pp)"
  shows "verdicts_ok pp corner vals ats (stage_verdicts pp corner vals ats sg v)"
proof -
  let ?P = "verdicts_ok pp corner vals ats"
  have points: "?P (fold (point_verdicts pp corner vals ats sg) (sg_points sg) v)"
    using assms point_verdicts_ok
    by (intro fold_invariant [where Q = "\<lambda>pt. pt \<in> set (sg_points sg)" and P = ?P]) auto
  have "?P (fold (\<lambda>r. store_verdict (StageRule (sg_id sg) (vr_id r)) lin
      (unknown_verdict ''stage reductions unsupported'', refs r)) (sg_rules sg)
      (fold (point_verdicts pp corner vals ats sg) (sg_points sg) v))" for lin refs
    using points assms(2)
    by (intro fold_invariant [where Q = "\<lambda>r. r \<in> set (sg_rules sg)" and P = ?P])
      (auto intro!: verdicts_ok_store verdict_of_stage)
  with points show ?thesis by (simp add: stage_verdicts_def Let_def)
qed

lemma all_verdicts_ok: "verdicts_ok pp corner vals ats (all_verdicts pp corner vals ats)"
  unfolding all_verdicts_def
  by (rule fold_invariant [where Q = "\<lambda>sg. sg \<in> set (pp_stages pp)"])
    (simp_all add: stage_verdicts_ok, simp add: verdicts_ok_def)

section \<open>Verdict names\<close>

text \<open>Identifiers without a dot, as the schema of a plan has them.\<close>

definition dot_free :: "string \<Rightarrow> bool" where
  "dot_free s \<longleftrightarrow> CHR ''.'' \<notin> set s"

primrec plain_identity :: "rule_identity \<Rightarrow> bool" where
  "plain_identity (PointRule s p r) \<longleftrightarrow> dot_free s \<and> dot_free p \<and> dot_free r"
| "plain_identity (StageRule s r) \<longleftrightarrow> dot_free s \<and> dot_free r"

definition plain_plan :: "prepared_plan \<Rightarrow> bool" where
  "plain_plan pp \<longleftrightarrow>
     (\<forall>sg \<in> set (pp_stages pp). dot_free (sg_id sg)
        \<and> (\<forall>pt \<in> set (sg_points sg). dot_free (pt_id pt) \<and> (\<forall>r \<in> set (pt_rules pt). dot_free (vr_id r)))
        \<and> (\<forall>r \<in> set (sg_rules sg). dot_free (vr_id r)))"

lemma dot_split: "dot_free a \<Longrightarrow> dot_free c \<Longrightarrow> a @ ''.'' @ b = c @ ''.'' @ d \<longleftrightarrow> a = c \<and> b = d"
proof (induction a arbitrary: c)
  case Nil
  then show ?case by (cases c) (auto simp: dot_free_def)
next
  case (Cons x a)
  then show ?case by (cases c) (auto simp: dot_free_def)
qed

lemma dot_free_path: "dot_free r \<Longrightarrow> r \<noteq> a @ ''.'' @ b"
  by (auto simp: dot_free_def)

lemma verdict_name_dot:
  "plain_identity i \<Longrightarrow>
     dot_free (verdict_name idents i) \<longleftrightarrow> count_list (map identity_rule idents) (identity_rule i) = 1"
  by (cases i) (auto simp: verdict_name_def dot_free_def)

lemma verdict_name_inj:
  assumes "i \<in> set idents" "j \<in> set idents" "plain_identity i" "plain_identity j"
    and same: "verdict_name idents i = verdict_name idents j"
  shows "i = j"
proof -
  let ?unique = "\<lambda>i. count_list (map identity_rule idents) (identity_rule i) = 1"
  consider "?unique i" "?unique j" | "?unique i \<noteq> ?unique j" | "\<not> ?unique i" "\<not> ?unique j" by blast
  then show ?thesis
  proof cases
    case 1
    then have rules: "identity_rule i = identity_rule j" using same by (simp add: verdict_name_def)
    have "length (filter (\<lambda>x. identity_rule i = identity_rule x) idents) = 1"
      using 1(1) by (simp add: count_list_eq_length_filter filter_map o_def)
    then obtain x where "filter (\<lambda>x. identity_rule i = identity_rule x) idents = [x]"
      by (auto simp: length_Suc_conv)
    then have one: "set (filter (\<lambda>x. identity_rule i = identity_rule x) idents) = {x}" by simp
    have "i \<in> set (filter (\<lambda>x. identity_rule i = identity_rule x) idents)"
      "j \<in> set (filter (\<lambda>x. identity_rule i = identity_rule x) idents)" using assms(1,2) rules by auto
    then show ?thesis unfolding one by simp
  next
    case 2
    then show ?thesis
      using same verdict_name_dot [OF assms(3), of idents] verdict_name_dot [OF assms(4), of idents] by simp
  next
    case 3
    show ?thesis
    proof (cases i)
      case i: (PointRule s p r)
      show ?thesis
      proof (cases j)
        case (PointRule s' p' r')
        then have "s @ ''.'' @ (p @ ''.'' @ r) = s' @ ''.'' @ (p' @ ''.'' @ r')"
          using 3 same by (simp add: verdict_name_def i)
        then have "s = s'" "p @ ''.'' @ r = p' @ ''.'' @ r'"
          using dot_split [of s s'] assms(3,4) i PointRule by auto
        then show ?thesis using dot_split [of p p'] assms(3,4) i PointRule by auto
      next
        case (StageRule s' r')
        then have "s @ ''.'' @ (p @ ''.'' @ r) = s' @ ''.'' @ r'"
          using 3 same by (simp add: verdict_name_def i)
        then show ?thesis using dot_split [of s s'] dot_free_path [of r'] assms(3,4) i StageRule by auto
      qed
    next
      case i: (StageRule s r)
      show ?thesis
      proof (cases j)
        case (PointRule s' p' r')
        then have "s @ ''.'' @ r = s' @ ''.'' @ (p' @ ''.'' @ r')"
          using 3 same by (simp add: verdict_name_def i)
        then show ?thesis using dot_split [of s s'] dot_free_path [of r] assms(3,4) i PointRule by auto
      next
        case (StageRule s' r')
        then have "s @ ''.'' @ r = s' @ ''.'' @ r'" using 3 same by (simp add: verdict_name_def i)
        then show ?thesis using dot_split [of s s'] assms(3,4) i StageRule by auto
      qed
    qed
  qed
qed

lemma named_validity_lookup:
  assumes "ident \<in> fst ` set vs" "distinct (map fst vs)" "\<forall>i \<in> fst ` set vs. plain_identity i"
  shows "map_of (named_validity vs) (verdict_name (map fst vs) ident) = map_of vs ident"
proof -
  define f where "f = verdict_name (map fst vs)"
  have inj: "inj_on f (fst ` set vs)"
    unfolding f_def using assms(3) by (intro inj_onI verdict_name_inj) auto
  have "map_of (fold (\<lambda>(i, verdict). AList.update (f i) verdict) ws d) (f ident) =
      (case map_of ws ident of None \<Rightarrow> map_of d (f ident) | Some verdict \<Rightarrow> Some verdict)"
    if "set ws \<subseteq> set vs" "distinct (map fst ws)" for ws d
    using that
  proof (induction ws arbitrary: d)
    case (Cons w ws)
    obtain i verdict where w: "w = (i, verdict)" by (cases w)
    have "i \<in> fst ` set vs" using Cons.prems(1) w by force
    then have "f i = f ident \<longleftrightarrow> i = ident" using inj_on_eq_iff [OF inj, of i ident] assms(1) by simp
    moreover have "map_of ws i = None" using Cons.prems(2) w by (auto simp: map_of_eq_None_iff)
    ultimately show ?case
      using Cons.IH [of "AList.update (f i) verdict d"] Cons.prems w
      by (auto simp: update_conv split: option.splits)
  qed simp
  from this [of vs "[]"] assms(2) show ?thesis
    by (auto simp: named_validity_def f_def split: option.splits)
qed

end
