(* ===== verification/RunObserve.thy ===== *)
theory RunObserve
  imports RunVerdict
begin

text \<open>
  The observables of a run: what each emitted value is, and what the final withdrawal of open
  lineages leaves.
\<close>

section \<open>Emitted observables\<close>

definition emitted_as ::
  "run_values \<Rightarrow> verdicts \<Rightarrow> observable_source \<Rightarrow> pyval \<Rightarrow> string list \<Rightarrow> bool" where
  "emitted_as vals v source value ids \<longleftrightarrow>
     (let verdict = (\<lambda>ident. ident \<in> fst ` set (vd_verdicts v) \<and> (\<exists>verdict linked.
            map_of (named_validity (vd_verdicts v)) (verdict_name (map fst (vd_verdicts v)) ident) = Some verdict
            \<and> value = VStr verdict \<and> map_of (vd_lineage v) ident = Some linked \<and> ids = sorted_list_of_set linked))
      in case source of
           ObMeasurement s p m \<Rightarrow> (\<exists>item. point_value vals (s, p) m = Some item \<and> value = cv_value item
             \<and> ids = sorted_list_of_set (cv_conditions item))
         | ObValidity s p r \<Rightarrow> verdict (PointRule s p r)
         | ObStageValidity s r \<Rightarrow> verdict (StageRule s r)
         | ObReduction s r c \<Rightarrow> False)"

definition outputs_ok :: "plan_observable list \<Rightarrow> run_values \<Rightarrow> verdicts \<Rightarrow> outputs \<Rightarrow> bool" where
  "outputs_ok obs vals v out \<longleftrightarrow>
     map fst (op_lineage out) = map fst (op_observables out) \<and> distinct (map fst (op_observables out))
     \<and> (\<forall>name value. map_of (op_observables out) name = Some value \<longrightarrow>
          (\<exists>ob \<in> set obs. ob_id ob = name \<and>
             (\<exists>ids. map_of (op_lineage out) name = Some ids \<and> emitted_as vals v (ob_source ob) value ids)))"

lemma update_keys_same: "map fst xs = map fst ys \<Longrightarrow> map fst (AList.update k a xs) = map fst (AList.update k b ys)"
  by (simp add: update_keys)

lemma outputs_ok_emit:
  assumes "outputs_ok obs vals v out" "ob \<in> set obs"
    and "emitted_as vals v (ob_source ob) value (sorted_list_of_set conditions)"
  shows "outputs_ok obs vals v (emit (ob_id ob) value conditions out)"
  unfolding outputs_ok_def emit_def
proof (intro conjI allI impI)
  fix name value'
  assume "map_of (op_observables (out\<lparr>op_observables := AList.update (ob_id ob) value (op_observables out),
         op_lineage := AList.update (ob_id ob) (sorted_list_of_set conditions) (op_lineage out)\<rparr>)) name = Some value'"
  then show "\<exists>ob' \<in> set obs. ob_id ob' = name \<and> (\<exists>ids. map_of (op_lineage (out\<lparr>op_observables :=
         AList.update (ob_id ob) value (op_observables out), op_lineage :=
         AList.update (ob_id ob) (sorted_list_of_set conditions) (op_lineage out)\<rparr>)) name = Some ids
         \<and> emitted_as vals v (ob_source ob') value' ids)"
    using assms by (cases "name = ob_id ob") (auto simp: update_conv outputs_ok_def)
qed (use assms(1) in \<open>simp_all add: outputs_ok_def update_keys_same distinct_update\<close>)

lemma outputs_ok_refuse [simp]: "outputs_ok obs vals v (refuse_output code msg out) = outputs_ok obs vals v out"
  by (simp add: outputs_ok_def refuse_output_def)

lemma outputs_ok_verdict:
  assumes "outputs_ok obs vals v out" "ob \<in> set obs" "ident \<in> fst ` set (vd_verdicts v)"
    and source: "ob_source ob = (case ident of PointRule s p r \<Rightarrow> ObValidity s p r | StageRule s r \<Rightarrow> ObStageValidity s r)"
  shows "outputs_ok obs vals v (emit_verdict v form (ob_id ob) ident out)"
proof (cases "map_of (named_validity (vd_verdicts v)) (verdict_name (map fst (vd_verdicts v)) ident)")
  case (Some verdict)
  show ?thesis
  proof (cases "map_of (vd_lineage v) ident")
    case linked: (Some linked)
    have "emitted_as vals v (ob_source ob) (VStr verdict) (sorted_list_of_set linked)"
      using assms(3) source Some linked by (cases ident) (simp_all add: emitted_as_def)
    from outputs_ok_emit [OF assms(1,2) this] show ?thesis using assms(1) Some linked by (simp add: emit_verdict_def)
  qed (use assms(1) Some in \<open>simp add: emit_verdict_def\<close>)
qed (use assms(1) in \<open>simp add: emit_verdict_def\<close>)

lemma outputs_ok_observable:
  assumes "outputs_ok obs vals v out" "ob \<in> set obs"
  shows "outputs_ok obs vals v (emit_observable vals v ob out)"
proof (cases "ob_source ob")
  case (ObMeasurement s p m)
  show ?thesis
  proof (cases "point_value vals (s, p) m")
    case (Some item)
    then have "emitted_as vals v (ob_source ob) (cv_value item) (sorted_list_of_set (cv_conditions item))"
      by (simp add: emitted_as_def ObMeasurement)
    from outputs_ok_emit [OF assms this] show ?thesis by (simp add: emit_observable_def Let_def ObMeasurement Some)
  qed (use assms(1) in \<open>simp add: emit_observable_def Let_def ObMeasurement\<close>)
next
  case (ObValidity s p r)
  then show ?thesis
    using assms outputs_ok_verdict [OF assms, of "PointRule s p r"] by (simp add: emit_observable_def Let_def)
next
  case (ObStageValidity s r)
  then show ?thesis
    using assms outputs_ok_verdict [OF assms, of "StageRule s r"] by (simp add: emit_observable_def Let_def)
qed (use assms(1) in \<open>simp add: emit_observable_def Let_def\<close>)

lemma evaluate_plan_outputs_ok:
  assumes "evaluate_plan_outputs pp corner vals ats = (out, validity)"
  shows "outputs_ok (pp_observables pp) vals (all_verdicts pp corner vals ats) out"
    and "validity = named_validity (vd_verdicts (all_verdicts pp corner vals ats))"
proof -
  let ?v = "all_verdicts pp corner vals ats"
  have "outputs_ok (pp_observables pp) vals ?v (fold (emit_observable vals ?v) (pp_observables pp)
      \<lparr>op_observables = [], op_lineage = [], op_refusals = vd_refusals ?v\<rparr>)"
    by (rule fold_invariant [where Q = "\<lambda>ob. ob \<in> set (pp_observables pp)"])
      (simp_all add: outputs_ok_observable, simp add: outputs_ok_def)
  with assms show "outputs_ok (pp_observables pp) vals ?v out"
    and "validity = named_validity (vd_verdicts (all_verdicts pp corner vals ats))"
    by (auto simp: evaluate_plan_outputs_def Let_def)
qed

section \<open>Closed lineage\<close>

definition open_lineage :: "string set \<Rightarrow> string \<times> string list \<Rightarrow> bool" where
  "open_lineage known entry \<longleftrightarrow> snd entry = [] \<or> \<not> set (snd entry) \<subseteq> known"

definition withdrawn :: "string set \<Rightarrow> (string \<times> string list) list \<Rightarrow> string set" where
  "withdrawn known es = fst ` set (filter (open_lineage known) es)"

lemma close_lineage_fields:
  "op_observables (close_lineage known e out) = filter (\<lambda>x. fst x \<notin> withdrawn known [e]) (op_observables out)"
  "op_lineage (close_lineage known e out) = filter (\<lambda>x. fst x \<notin> withdrawn known [e]) (op_lineage out)"
proof -
  obtain name ids where e: "e = (name, ids)" by (cases e)
  have delete: "AList.delete name xs = filter (\<lambda>x. fst x \<noteq> name) xs" for xs :: "(string \<times> 'a) list"
    by (induction xs) auto
  have "withdrawn known [e] = (if ids \<noteq> [] \<and> set ids \<subseteq> known then {} else {name})"
    by (auto simp: withdrawn_def open_lineage_def e)
  then show "op_observables (close_lineage known e out) = filter (\<lambda>x. fst x \<notin> withdrawn known [e]) (op_observables out)"
    and "op_lineage (close_lineage known e out) = filter (\<lambda>x. fst x \<notin> withdrawn known [e]) (op_lineage out)"
    by (auto simp: close_lineage_def refuse_output_def delete e)
qed

lemma close_lineage_fold:
  "op_observables (fold (close_lineage known) es out) = filter (\<lambda>x. fst x \<notin> withdrawn known es) (op_observables out)
   \<and> op_lineage (fold (close_lineage known) es out) = filter (\<lambda>x. fst x \<notin> withdrawn known es) (op_lineage out)"
proof (induction es arbitrary: out)
  case Nil
  then show ?case by (simp add: withdrawn_def)
next
  case (Cons e es)
  have "withdrawn known (e # es) = withdrawn known [e] \<union> withdrawn known es" by (auto simp: withdrawn_def)
  then show ?case using Cons.IH [of "close_lineage known e out"] by (simp add: close_lineage_fields conj_commute)
qed

lemma map_of_filter_keys: "map_of (filter (\<lambda>x. fst x \<notin> S) xs) k = (if k \<in> S then None else map_of xs k)"
  by (induction xs) auto

lemma map_filter_fst: "map fst (filter (\<lambda>x. fst x \<notin> S) xs) = filter (\<lambda>k. k \<notin> S) (map fst xs)"
  by (simp add: filter_map o_def)

lemma closed_outputs_ok:
  assumes "outputs_ok obs vals v out"
  shows "outputs_ok obs vals v (closed_outputs known out)"
    and "\<And>name ids. map_of (op_lineage (closed_outputs known out)) name = Some ids \<Longrightarrow> ids \<noteq> [] \<and> set ids \<subseteq> known"
proof -
  note fields = close_lineage_fold [of known "op_lineage out" out, folded closed_outputs_def]
  show "outputs_ok obs vals v (closed_outputs known out)"
    unfolding outputs_ok_def
  proof (intro conjI allI impI)
    fix name x assume "map_of (op_observables (closed_outputs known out)) name = Some x"
    then have "name \<notin> withdrawn known (op_lineage out)" "map_of (op_observables out) name = Some x"
      by (auto simp only: fields map_of_filter_keys split: if_split_asm)
    then show "\<exists>ob \<in> set obs. ob_id ob = name \<and> (\<exists>ids. map_of (op_lineage (closed_outputs known out)) name = Some ids
        \<and> emitted_as vals v (ob_source ob) x ids)"
      using assms by (simp only: outputs_ok_def fields map_of_filter_keys if_False)
  qed (use assms in \<open>simp_all add: outputs_ok_def fields map_filter_fst\<close>)
  fix name ids assume "map_of (op_lineage (closed_outputs known out)) name = Some ids"
  then have "name \<notin> withdrawn known (op_lineage out)" "(name, ids) \<in> set (op_lineage out)"
    by (auto simp: fields map_of_filter_keys split: if_split_asm dest: map_of_SomeD)
  then show "ids \<noteq> [] \<and> set ids \<subseteq> known" by (force simp: withdrawn_def open_lineage_def)
qed

end
