(* ===== verification/RunExample.thy ===== *)
theory RunExample
  imports RunObserve
begin

text \<open>
  A run with one stage of one operating point, executed by a simulator that reports one volt: the
  instance the properties of the runner are applied to.
\<close>

definition sample_point :: plan_point where
  "sample_point =
     \<lparr>pt_id = ''p'', pt_corner = ''tt'', pt_temperature = 25, pt_parameters = [], pt_state = Fresh [],
      pt_settle = OperatingPoint, pt_active = [], pt_analysis = sweep (LiteralValue (volts 1)),
      pt_measurements = [\<lparr>me_id = ''vtc'', me_unit = ''V'', me_doc = Curve ''vout''\<rparr>,
                         \<lparr>me_id = ''vm'', me_unit = ''V'', me_doc = MaxAbs ''vtc''\<rparr>],
      pt_rules = [\<lparr>vr_id = ''ok'', vr_doc = FiniteRule [''vm''], vr_reason = ''non_finite''\<rparr>]\<rparr>"

definition sample_stage :: plan_stage where
  "sample_stage =
     \<lparr>sg_id = ''s'', sg_depends = [], sg_inputs = [], sg_points = [sample_point], sg_reductions = [], sg_rules = []\<rparr>"

definition sample_binding :: plan_binding where
  "sample_binding =
     \<lparr>bi_id = ''b'', bi_from = FromMeasurement ''s'' ''p'' ''vm'' ''value'', bi_to = (''t'', ''x''), bi_unit = ''V'', bi_transform = None\<rparr>"

definition sample_prepared :: prepared_plan where
  "sample_prepared = good_prepared
     \<lparr>pp_stages := [sample_stage], pp_bindings := [sample_binding],
      pp_observables :=
        [\<lparr>ob_id = ''vm'', ob_source = ObMeasurement ''s'' ''p'' ''vm'', ob_unit = ''V'', ob_shape = ''scalar''\<rparr>,
         \<lparr>ob_id = ''ok'', ob_source = ObValidity ''s'' ''p'' ''ok'', ob_unit = ''1'', ob_shape = ''verdict''\<rparr>]\<rparr>"

definition sample_digest :: string where
  "sample_digest = replicate 64 (CHR ''a'')"

definition sample_condition :: compiled where
  "sample_condition =
     \<lparr>cc_stage = ''s'', cc_point = ''p'', cc_id = ''s.p.dc_000000'', cc_sha256 = sample_digest, cc_deck = ''*'',
      cc_deck_sha256 = sample_digest, cc_probes = [\<lparr>ep_id = ''vout'', ep_vectors = [''v(out)''], ep_polarity = 1\<rparr>],
      cc_condition = VNone, cc_sample = Some (0, 1)\<rparr>"

definition sample_compilation :: compilation where
  "sample_compilation =
     \<lparr>cp_dut_bytes = [], cp_dut_sha256 = sample_digest, cp_conditions = [sample_condition], cp_receipt = VNone\<rparr>"

definition sample_execution :: execution where
  "sample_execution =
     \<lparr>ex_returncode = 0, ex_stdout = [], ex_stderr = [], ex_waveform = ''raw'', ex_identity = ''ngspice''\<rparr>"

definition sample_extraction :: raw_extraction where
  "sample_extraction =
     \<lparr>rx_valid = True, rx_reason = [], rx_axis_name = [], rx_axis = [PFin 0],
      rx_signals = [\<lparr>rs_name = ''v(out)'', rs_real = [PFin 1], rs_imaginary = None\<rparr>]\<rparr>"

definition sample_env :: run_env where
  "sample_env =
     \<lparr>rn_env = \<lparr>sha256 = (\<lambda>t. sample_digest), new_uuid = [], created_at = [], host_system = [], host_machine = [],
                host_python = []\<rparr>,
      rn_plan_sha256 = sample_digest, rn_compile = (\<lambda>stage bindings. Inr sample_compilation),
      rn_execute = (\<lambda>cc. Inr (Candidate sample_execution)),
      rn_extract = (\<lambda>analysis names body. Inr sample_extraction),
      rn_square = (\<lambda>x. Inr (fmul x x)), rn_runtime = PFin 1\<rparr>"

lemma sample_stages: "topological_stages (pp_stages sample_prepared) = Inr [''s'']"
  by code_simp

lemmas sample_simps = sample_env_def sample_condition_def sample_compilation_def sample_execution_def
  sample_extraction_def sample_point_def sample_stage_def

lemma sample_preflight: "preflight sample_env (Some sample_point) sample_condition = Inr sample_point"
  by (simp add: preflight_def sample_simps canonical_sha256_def sweep_def)

lemma sample_admit: "admit (Candidate sample_execution) = Inr sample_execution"
  by (simp add: admit_def sample_simps MAX_WAVEFORM_BYTES_def MAX_PROCESS_CAPTURE_BYTES_def)

definition sample_waveform :: waveform where
  "sample_waveform =
     \<lparr>wf_axis_name = ''axis'', wf_axis = [PFin 0], wf_signals = [(''v(out)'', [PFin 1])]\<rparr>"

lemma sample_extract: "extract_waveform sample_env sample_condition sample_point ''raw'' = Inr sample_waveform"
  by code_simp

lemma sample_attempt:
  "try_condition sample_env (Some sample_point) sample_condition = (True, Some sample_execution, Inr sample_waveform)"
proof -
  have "rn_execute sample_env sample_condition = Inr (Candidate sample_execution)"
    and "ex_returncode sample_execution = 0" and "ex_waveform sample_execution = ''raw''"
    by (simp_all add: sample_env_def sample_execution_def)
  then show ?thesis
    by (simp add: try_condition_def sample_preflight sample_admit accept_execution_def sample_extract)
qed

lemma sample_probes: "probe_vectors sample_condition = [(''vout'', ''v(out)'', PFin 1)]"
  using round64_of_int [of 1] by (simp add: probe_vectors_def sample_condition_def fold_char_def ord_def)

lemma sample_samples: "signal_values sample_waveform ''v(out)'' = Some [PFin 1]"
  by (simp add: signal_values_def sample_waveform_def fold_char_def ord_def)

lemma unit_product: "fmul (PFin 1) (PFin 1) = PFin 1"
  using round64_of_int [of 1] by simp

definition sample_measured :: point_values where
  "sample_measured =
     [(''vtc'', \<lparr>cv_value = obj [(''x'', VList [VFloat (PFin 1)]), (''y'', VList [VFloat (PFin 1)])],
               cv_conditions = {''s.p.dc_000000''}\<rparr>),
      (''vm'', \<lparr>cv_value = VFloat (PFin 1), cv_conditions = {''s.p.dc_000000''}\<rparr>)]"

lemma sample_row:
  "dc_row [(''vout'', ''v(out)'', PFin 1)] (sample_condition, sample_waveform) = Inr [(''vout'', PFin 1)]"
  by (simp add: dc_row_def dc_sample_def sample_probes sample_samples unit_product del: fmul.simps)

lemma sample_group:
  "evaluate_point_group sample_env sample_prepared ''tt'' sample_point [(sample_condition, sample_waveform)] {} =
     Inr sample_measured"
proof -
  have fresh: "fresh_samples sample_point [(sample_condition, sample_waveform)]"
    by (simp add: fresh_samples_def sample_point_def sweep_def sample_condition_def)
  have "sample_value sample_condition = PFin 1" "cc_id sample_condition = ''s.p.dc_000000''"
    by (simp_all add: sample_value_def sample_condition_def py_float_small)
  then show ?thesis
    by (simp add: evaluate_point_group_def fresh sample_probes sample_row Let_def)
      (simp add: sample_point_def dc_waveform_def column_def evaluate_measurement_def probe_samples_def
        signal_values_def fold_char_def ord_def unit_product derived_value_def max_abs_of_def mapping_samples_def
        subscript_def obj_def elements_def as_float_def sample_measured_def del: fmul.simps)
qed

definition sample_done :: attempt where
  "sample_done =
     \<lparr>at_condition = ''s.p.dc_000000'', at_stage = ''s'', at_point = ''p'', at_condition_sha256 = sample_digest,
      at_deck_sha256 = sample_digest, at_waveform_sha256 = sample_digest, at_identity = ''ngspice'',
      at_invoked = True, at_returncode = Some 0, at_status = ''completed'', at_reason = ''ok'',
      at_observables = [], at_stdout_sha256 = sample_digest, at_stderr_sha256 = sample_digest\<rparr>"

lemma sample_points: "point_documents sample_prepared = [((''s'', ''p''), sample_point)]"
  by (simp add: point_documents_def sample_prepared_def sample_stage_def sample_point_def)

lemma sample_conditions:
  "execute_conditions sample_env (point_documents sample_prepared) [sample_condition] =
     \<lparr>cr_attempts = [sample_done], cr_refusals = [],
      cr_waveforms = [((''s'', ''p''), [(sample_condition, sample_waveform)])], cr_identities = [''ngspice'']\<rparr>"
proof -
  have key: "cc_stage sample_condition = ''s''" "cc_point sample_condition = ''p''"
    by (simp_all add: sample_condition_def)
  have "condition_attempt sample_env sample_condition True (Some sample_execution) (Inr sample_waveform) = sample_done"
    by (simp add: condition_attempt_def sample_env_def sample_condition_def sample_execution_def sample_done_def)
  then show ?thesis
    by (simp add: execute_conditions_def execute_condition_def key sample_points lookup_last_def sample_attempt
        condition_refusals_def add_waveform_def) (simp add: sample_execution_def)
qed

definition sample_middle :: run_state where
  "sample_middle =
     \<lparr>rt_attempts = [sample_done], rt_refusals = [], rt_dut = Some sample_digest,
      rt_compilations = [sample_compilation], rt_values = [((''s'', ''p''), sample_measured)],
      rt_identities = [''ngspice''], rt_inventory = True, rt_bindings = [], rt_receipts = [], rt_upstream = []\<rparr>"

lemma sample_executed:
  "executed_stage sample_env sample_prepared ''tt'' ''s'' sample_compilation (Some sample_digest) initial_run = sample_middle"
proof -
  have conditions: "cp_conditions sample_compilation = [sample_condition]" by (simp add: sample_compilation_def)
  have up: "upstream_of initial_run ''s'' = {}" by (simp add: upstream_of_def initial_run_def)
  have ready: "group_complete [sample_done] ((''s'', ''p''), [(sample_condition, sample_waveform)])"
    by (simp add: group_complete_def point_attempts_def sample_done_def completed_def)
  show ?thesis
    unfolding executed_stage_def conditions sample_conditions up Let_def
    by (simp add: evaluate_group_def ready sample_points lookup_last_def sample_group)
      (simp add: initial_run_def sample_middle_def)
qed

definition sample_bound :: binding_value where
  "sample_bound = \<lparr>bv_binding = ''b'', bv_value = PFin 1, bv_unit = ''V'', bv_receipt = sample_digest\<rparr>"

definition sample_receipt :: pyval where
  "sample_receipt = binding_source_receipt sample_env sample_binding (''s'', ''p'', ''vm'', ''value'') (PFin 1) [sample_done]"

definition sample_final :: run_state where
  "sample_final = sample_middle\<lparr>rt_bindings := [sample_bound],
     rt_receipts := [obj [(''sha256'', VStr sample_digest), (''receipt'', sample_receipt)]],
     rt_upstream := [(''t'', [''s.p.dc_000000''])]\<rparr>"

lemma sample_rule_valid:
  "evaluate_validity_rule sample_prepared ''tt'' sample_measured
     \<lparr>vr_id = ''ok'', vr_doc = FiniteRule [''vm''], vr_reason = ''non_finite''\<rparr> = Inr ''VALID''"
  by (simp add: evaluate_validity_rule_def rule_inputs_def rule_passes_def sample_measured_def Let_def)

lemma sample_value_found:
  "point_value [((''s'', ''p''), sample_measured)] (''s'', ''p'') ''vm'' =
      Some \<lparr>cv_value = VFloat (PFin 1), cv_conditions = {''s.p.dc_000000''}\<rparr>"
  by (simp add: point_value_def sample_measured_def)

lemma sample_resolved:
  "resolve_binding sample_env sample_prepared ''tt'' [((''s'', ''p''), sample_measured)] [sample_done] sample_binding =
     Inr (Inr \<lparr>rb_value = sample_bound,
               rb_receipt = obj [(''sha256'', VStr sample_digest), (''receipt'', sample_receipt)],
               rb_conditions = [''s.p.dc_000000'']\<rparr>)"
proof -
  have "find_point (pp_stages sample_prepared) ''s'' ''p'' = Some sample_point"
    by (simp add: find_point_def sample_prepared_def sample_stage_def sample_point_def)
  then have valid: "source_valid sample_prepared ''tt'' sample_measured (''s'', ''p'') [sample_done]"
    by (simp add: source_valid_def point_attempts_def sample_done_def completed_def)
      (simp add: sample_point_def rule_valid_def sample_rule_valid)
  have component: "binding_component \<lparr>cv_value = VFloat (PFin 1), cv_conditions = {''s.p.dc_000000''}\<rparr> ''value'' = Inr (PFin 1)"
    by (simp add: binding_component_def as_number_def)
  have found: "find_attempt [sample_done] ''s.p.dc_000000'' = Some sample_done"
    by (simp add: find_attempt_def lookup_last_def sample_done_def)
  have "json_value sample_receipt"
    by (simp add: sample_receipt_def binding_source_receipt_def attempt_record_def sample_done_def obj_simps list_all_iff)
  then obtain t where "canonical_json sample_receipt = Inr t" using canonical_json_total by blast
  then have digest: "canonical_sha256 (rn_env sample_env) sample_receipt = Inr sample_digest"
    by (simp add: canonical_sha256_def) (simp add: sample_env_def)
  have binding: "bi_from sample_binding = FromMeasurement ''s'' ''p'' ''vm'' ''value''" "bi_id sample_binding = ''b''"
      "bi_unit sample_binding = ''V''" by (simp_all add: sample_binding_def)
  have attempt: "at_condition sample_done = ''s.p.dc_000000''" by (simp add: sample_done_def)
  show ?thesis
    by (simp add: resolve_binding_def binding sample_value_found values_of_def valid component found
        sample_receipt_def [symmetric] digest sample_bound_def attempt Let_def)
qed

lemma sample_digest_text: "sha256_text sample_digest"
  by code_simp

lemma sample_stage_run: "run_stage sample_env sample_prepared ''tt'' ''s'' initial_run = Inr sample_final"
proof -
  have dict: "stage_dict (pp_stages sample_prepared) = [(''s'', sample_stage)]"
    by (simp add: stage_dict_def sample_prepared_def sample_stage_def)
  have here: "list_ex (\<lambda>pt. pt_corner pt = ''tt'') (sg_points sample_stage)"
    by (simp add: sample_stage_def sample_point_def)
  have compiled: "rn_compile sample_env ''s'' bs = Inr sample_compilation" for bs by (simp add: sample_env_def)
  have capacity: "condition_capacity sample_compilation (at_condition ` set (rt_attempts initial_run)) = Inr ()"
    by (simp add: condition_capacity_def sample_compilation_def initial_run_def MAX_ENVELOPE_CONDITIONS_def)
  have digest: "registered_dut_sha256 sample_env sample_compilation = Inr sample_digest"
    using sample_digest_text by (simp add: registered_dut_sha256_def sample_compilation_def sample_env_def)
  have dut: "same_dut (rt_dut initial_run) sample_digest = Inr (Some sample_digest)"
    by (simp add: same_dut_def initial_run_def)
  have state: "rt_values sample_middle = [((''s'', ''p''), sample_measured)]" "rt_attempts sample_middle = [sample_done]"
    "rt_bindings sample_middle = []" "rt_refusals sample_middle = []" "rt_receipts sample_middle = []"
    "rt_upstream sample_middle = []" by (simp_all add: sample_middle_def)
  have bindings: "pp_bindings sample_prepared = [sample_binding]" by (simp add: sample_prepared_def)
  have source: "source_stage (bi_from sample_binding) = ''s''" "bi_id sample_binding = ''b''"
    "bi_to sample_binding = (''t'', ''x'')" by (simp_all add: sample_binding_def)
  have bind: "bind_stage sample_env sample_prepared ''tt'' ''s'' sample_middle = Inr sample_final"
    by (simp add: bind_stage_def resolved_stage_bindings_def bindings source state sample_resolved rights_def lefts_def
        List.map_filter_def extend_upstream_def binding_target_def lookup_last_def sample_bound_def)
      (simp add: sample_final_def sample_middle_def sample_bound_def)
  show ?thesis
    by (simp add: run_stage_def dict here compiled execute_stage_executed capacity digest dut sample_executed bind)
qed

lemma sample_run: "run_stages sample_env sample_prepared ''tt'' = Inr sample_final"
  by (simp add: run_stages_def sample_stages sample_stage_run)

section \<open>Its outputs\<close>

definition sample_outputs :: outputs where
  "sample_outputs =
     \<lparr>op_observables = [(''vm'', VFloat (PFin 1)), (''ok'', VStr ''VALID'')],
      op_lineage = [(''vm'', [''s.p.dc_000000'']), (''ok'', [''s.p.dc_000000''])], op_refusals = []\<rparr>"

lemma sample_final_fields:
  "rt_values sample_final = [((''s'', ''p''), sample_measured)]" "rt_attempts sample_final = [sample_done]"
  "rt_refusals sample_final = []" "rt_compilations sample_final = [sample_compilation]"
  by (simp_all add: sample_final_def sample_middle_def)

lemma sample_rule:
  "point_rule sample_prepared ''tt'' sample_measured [sample_done] (''s'', ''p'')
     \<lparr>vr_id = ''ok'', vr_doc = FiniteRule [''vm''], vr_reason = ''non_finite''\<rparr> = (''VALID'', [])"
  by (simp add: point_rule_def point_attempts_def sample_done_def completed_def sample_rule_valid)

lemma sample_verdicts:
  "all_verdicts sample_prepared ''tt'' [((''s'', ''p''), sample_measured)] [sample_done] =
     \<lparr>vd_verdicts = [(PointRule ''s'' ''p'' ''ok'', ''VALID'')],
      vd_lineage = [(PointRule ''s'' ''p'' ''ok'', {''s.p.dc_000000''})], vd_refusals = []\<rparr>"
proof -
  have stages: "pp_stages sample_prepared = [sample_stage]" by (simp add: sample_prepared_def)
  have stage: "sg_points sample_stage = [sample_point]" "sg_reductions sample_stage = []" "sg_id sample_stage = ''s''"
    by (simp_all add: sample_stage_def)
  have point: "pt_corner sample_point = ''tt''" "pt_id sample_point = ''p''"
    "pt_rules sample_point = [\<lparr>vr_id = ''ok'', vr_doc = FiniteRule [''vm''], vr_reason = ''non_finite''\<rparr>]"
    by (simp_all add: sample_point_def)
  have "values_lineage sample_measured = {''s.p.dc_000000''}"
    by (simp add: values_lineage_def sample_measured_def)
  then show ?thesis
    by (simp add: all_verdicts_def stages stage_verdicts_def stage point_verdicts_def point values_of_def sample_rule
        rule_lineage_def store_verdict_def Let_def)
qed

lemma sample_evaluated:
  "evaluate_plan_outputs sample_prepared ''tt'' (rt_values sample_final) (rt_attempts sample_final) =
     (sample_outputs, [(''ok'', ''VALID'')])"
proof -
  have obs: "pp_observables sample_prepared =
      [\<lparr>ob_id = ''vm'', ob_source = ObMeasurement ''s'' ''p'' ''vm'', ob_unit = ''V'', ob_shape = ''scalar''\<rparr>,
       \<lparr>ob_id = ''ok'', ob_source = ObValidity ''s'' ''p'' ''ok'', ob_unit = ''1'', ob_shape = ''verdict''\<rparr>]"
    by (simp add: sample_prepared_def)
  show ?thesis
    by (simp add: evaluate_plan_outputs_def sample_final_fields sample_verdicts obs emit_observable_def sample_value_found emit_def
        emit_verdict_def named_validity_def verdict_name_def sample_outputs_def Let_def)
qed

lemma sample_closed: "closed_outputs (at_condition ` set (rt_attempts sample_final)) sample_outputs = sample_outputs"
  by (simp add: closed_outputs_def sample_outputs_def close_lineage_def sample_final_fields sample_done_def)

definition sample_attempt_result :: attempt where
  "sample_attempt_result = sample_done\<lparr>at_observables := [''ok'', ''vm'']\<rparr>"

definition sample_envelope :: pyval where
  "sample_envelope =
     run_envelope sample_env sample_digest ''tt'' sample_outputs [(''ok'', ''VALID'')] [sample_attempt_result]"

lemma sample_emitted: "map (emitted_by (op_lineage sample_outputs)) (rt_attempts sample_final) = [sample_attempt_result]"
  by (simp add: emitted_by_def sample_outputs_def sample_final_fields sample_attempt_result_def sample_done_def)
    code_simp

lemma sample_finished:
  "\<exists>receipt. execute_testbench_plan sample_env sample_prepared ''tt'' None (VInt 60) =
     Inr \<lparr>rr_envelope = sample_envelope, rr_attempts = [sample_attempt_result], rr_refusals = [], rr_receipt = receipt\<rparr>"
proof -
  have "json_value sample_envelope"
    by (simp add: sample_envelope_def run_envelope_def sample_outputs_def condition_entry_def lineage_entry_def
        sample_env_def obj_simps list_all_iff fmax_def)
  then obtain h where h: "canonical_sha256 (rn_env sample_env) sample_envelope = Inr h"
    using canonical_sha256_total by blast
  have "json_value (VList (map cp_receipt (rt_compilations sample_final)))"
    by (simp add: sample_final_fields sample_compilation_def)
  then obtain c where c: "canonical_sha256 (rn_env sample_env) (VList (map cp_receipt (rt_compilations sample_final))) = Inr c"
    using canonical_sha256_total by blast
  have timeout: "timeout_ok (VInt 60) = Inr ()"
    using round64_of_int [of 60] by (simp add: timeout_ok_def as_number_def float_of_int_def)
  have corner: "''tt'' \<in> cb_id ` set (pc_corners (pp_context sample_prepared))"
    by (simp add: sample_prepared_def good_prepared_def good_plan_def buffer_plan_def)
  have digest: "envelope_digest sample_prepared None sample_final = Inr sample_digest"
    using sample_digest_text by (simp add: envelope_digest_def sample_final_def sample_middle_def)
  have inventory: "check_inventory (rt_attempts sample_final) = Inr ()"
    by (simp add: check_inventory_def sample_final_fields MAX_ENVELOPE_CONDITIONS_def)
  have outs: "sample_outputs\<lparr>op_refusals := rt_refusals sample_final @ op_refusals sample_outputs\<rparr> = sample_outputs"
    by (simp add: sample_final_fields sample_outputs_def)
  obtain receipt where "finish_run sample_env sample_prepared ''tt'' None sample_final =
      Inr \<lparr>rr_envelope = sample_envelope, rr_attempts = [sample_attempt_result],
           rr_refusals = op_refusals sample_outputs, rr_receipt = receipt\<rparr>"
    by (simp add: finish_run_def digest inventory sample_evaluated outs sample_closed sample_emitted
        sample_envelope_def [symmetric] run_receipt_def h c Let_def)
  then show ?thesis
    by (simp add: execute_testbench_plan_def timeout corner sample_run) (simp add: sample_outputs_def)
qed

lemma sample_envelope_observables:
  assumes "sample_envelope = run_envelope sample_env digest ''tt'' out validity ats"
  shows "op_observables out = [(''vm'', VFloat (PFin 1)), (''ok'', VStr ''VALID'')]"
proof -
  have "op_observables sample_outputs = op_observables out"
    using assms by (simp add: sample_envelope_def run_envelope_def)
  then show ?thesis by (simp add: sample_outputs_def)
qed

lemma sample_plain: "plain_plan sample_prepared"
  by (simp add: plain_plan_def dot_free_def sample_prepared_def sample_stage_def sample_point_def)

lemma sample_observable:
  "ob \<in> set (pp_observables sample_prepared) \<Longrightarrow>
     ob_id ob = ''vm'' \<and> ob_source ob = ObMeasurement ''s'' ''p'' ''vm''
     \<or> ob_id ob = ''ok'' \<and> ob_source ob = ObValidity ''s'' ''p'' ''ok''"
  by (auto simp: sample_prepared_def)

end
