(* ===== verification/RunResult.thy ===== *)
theory RunResult
  imports RunExample
begin

text \<open>The guarantees of a finished run, for every compiler, simulator and extractor.\<close>

section \<open>The parts of a result\<close>

lemma outputs_ok_lookup:
  "outputs_ok obs vals v out \<Longrightarrow> map_of (op_observables out) name = Some x \<Longrightarrow>
     \<exists>ob \<in> set obs. \<exists>ids. ob_id ob = name \<and> map_of (op_lineage out) name = Some ids
        \<and> emitted_as vals v (ob_source ob) x ids"
  unfolding outputs_ok_def by blast

lemma outputs_ok_refusals [simp]:
  "outputs_ok obs vals v (out\<lparr>op_refusals := refusals\<rparr>) = outputs_ok obs vals v out"
  by (simp add: outputs_ok_def)

lemma emitted_by_fields [simp]:
  "at_condition (emitted_by l a) = at_condition a" "at_stage (emitted_by l a) = at_stage a"
  "at_point (emitted_by l a) = at_point a" "at_status (emitted_by l a) = at_status a"
  "at_invoked (emitted_by l a) = at_invoked a" "completed (emitted_by l a) = completed a"
  "genuine env (emitted_by l a) = genuine env a"
  by (simp_all add: emitted_by_def completed_def genuine_def)

lemma run_parts:
  assumes "execute_testbench_plan env pp corner expected timeout = Inr r"
  obtains st digest out where "run_stages env pp corner = Inr st" "envelope_digest pp expected st = Inr digest"
    "check_inventory (rt_attempts st) = Inr ()"
    "outputs_ok (pp_observables pp) (rt_values st) (all_verdicts pp corner (rt_values st) (rt_attempts st)) out"
    "\<forall>name ids. map_of (op_lineage out) name = Some ids \<longrightarrow>
       ids \<noteq> [] \<and> set ids \<subseteq> at_condition ` set (rt_attempts st)"
    "rr_attempts r = map (emitted_by (op_lineage out)) (rt_attempts st)"
    "rr_envelope r = run_envelope env digest corner out
       (named_validity (vd_verdicts (all_verdicts pp corner (rt_values st) (rt_attempts st)))) (rr_attempts r)"
proof -
  obtain st where st: "run_stages env pp corner = Inr st" "finish_run env pp corner expected st = Inr r"
    using assms by (auto simp: execute_testbench_plan_def split: if_split_asm)
  define v where "v = all_verdicts pp corner (rt_values st) (rt_attempts st)"
  obtain raw validity where ev: "evaluate_plan_outputs pp corner (rt_values st) (rt_attempts st) = (raw, validity)"
    by fastforce
  note raw = evaluate_plan_outputs_ok [OF ev, folded v_def]
  define out where "out = closed_outputs (set (map at_condition (rt_attempts st)))
    (raw\<lparr>op_refusals := rt_refusals st @ op_refusals raw\<rparr>)"
  have "outputs_ok (pp_observables pp) (rt_values st) v (raw\<lparr>op_refusals := rt_refusals st @ op_refusals raw\<rparr>)"
    using raw(1) by simp
  note closed = closed_outputs_ok [OF this, of "set (map at_condition (rt_attempts st))", folded out_def]
  obtain digest where digest: "envelope_digest pp expected st = Inr digest" "check_inventory (rt_attempts st) = Inr ()"
    using st(2) by (auto simp: finish_run_def)
  have "rr_attempts r = map (emitted_by (op_lineage out)) (rt_attempts st)"
      "rr_envelope r = run_envelope env digest corner out validity (rr_attempts r)"
    using st(2) by (auto simp: finish_run_def digest ev out_def Let_def)
  with st(1) digest closed raw(2) show thesis
    by (intro that [of st digest out]) (simp_all add: v_def)
qed

lemma attempts_done:
  assumes "run_inv env pp corner st" "c \<in> completed_ids (rt_attempts st)"
  shows "\<exists>a \<in> set (map (emitted_by l) (rt_attempts st)). at_condition a = c \<and> completed a \<and> genuine env a"
proof -
  from assms(2) obtain a where "a \<in> set (rt_attempts st)" "completed a" "at_condition a = c"
    by (auto simp: completed_ids_def)
  with run_invD(1) [OF assms(1)] show ?thesis by (intro bexI [of _ "emitted_by l a"]) auto
qed

section \<open>Observables\<close>

definition measured :: "plan_observable \<Rightarrow> bool" where
  "measured ob \<longleftrightarrow> (case ob_source ob of ObMeasurement s p m \<Rightarrow> True | _ \<Rightarrow> False)"

text \<open>C4: Every observable of a run is one the plan declares and rests on at least one attempted
  condition of the run; the data of a measured observable is finite and each of the conditions it
  rests on was executed: the simulator was invoked on the compiled deck, exited with status zero and
  left the nonempty waveform the attempt's digest names.\<close>

theorem run_observables_grounded:
  assumes "execute_testbench_plan env pp corner expected timeout = Inr r"
  shows "\<exists>digest out validity. rr_envelope r = run_envelope env digest corner out validity (rr_attempts r) \<and>
     (\<forall>name x. map_of (op_observables out) name = Some x \<longrightarrow>
        (\<exists>ob \<in> set (pp_observables pp). \<exists>ids. ob_id ob = name \<and> map_of (op_lineage out) name = Some ids \<and> ids \<noteq> []
           \<and> set ids \<subseteq> at_condition ` set (rr_attempts r)
           \<and> (measured ob \<longrightarrow> finite_json x
               \<and> (\<forall>c \<in> set ids. \<exists>a \<in> set (rr_attempts r). at_condition a = c \<and> completed a \<and> genuine env a))))"
proof -
  from run_parts [OF assms] obtain st digest out where
    st: "run_stages env pp corner = Inr st" and "envelope_digest pp expected st = Inr digest"
    and "check_inventory (rt_attempts st) = Inr ()" and ok: "outputs_ok (pp_observables pp) (rt_values st) (all_verdicts pp corner (rt_values st) (rt_attempts st)) out"
    and closed: "\<forall>name ids. map_of (op_lineage out) name = Some ids \<longrightarrow>
       ids \<noteq> [] \<and> set ids \<subseteq> at_condition ` set (rt_attempts st)"
    and ats: "rr_attempts r = map (emitted_by (op_lineage out)) (rt_attempts st)"
    and envelope: "rr_envelope r = run_envelope env digest corner out
       (named_validity (vd_verdicts (all_verdicts pp corner (rt_values st) (rt_attempts st)))) (rr_attempts r)" by blast
  note inv = reachable_inv [OF run_stages_reachable [OF st]]
  have conditions: "at_condition ` set (rr_attempts r) = at_condition ` set (rt_attempts st)"
    by (simp add: ats image_image)
  have "\<exists>ob \<in> set (pp_observables pp). \<exists>ids. ob_id ob = name \<and> map_of (op_lineage out) name = Some ids \<and> ids \<noteq> []
      \<and> set ids \<subseteq> at_condition ` set (rr_attempts r)
      \<and> (measured ob \<longrightarrow> finite_json x
          \<and> (\<forall>c \<in> set ids. \<exists>a \<in> set (rr_attempts r). at_condition a = c \<and> completed a \<and> genuine env a))"
    if x: "map_of (op_observables out) name = Some x" for name x
  proof -
    from outputs_ok_lookup [OF ok x] obtain ob ids where ob: "ob \<in> set (pp_observables pp)" "ob_id ob = name"
        "map_of (op_lineage out) name = Some ids"
        "emitted_as (rt_values st) (all_verdicts pp corner (rt_values st) (rt_attempts st)) (ob_source ob) x ids"
      by blast
    have "finite_json x \<and> set ids \<subseteq> completed_ids (rt_attempts st)" if "measured ob"
    proof -
      from that obtain s p m where "ob_source ob = ObMeasurement s p m"
        by (auto simp: measured_def split: observable_source.splits)
      with ob(4) obtain item where item: "point_value (rt_values st) (s, p) m = Some item"
          "x = cv_value item" "ids = sorted_list_of_set (cv_conditions item)"
        by (auto simp: emitted_as_def)
      then obtain vs where vs: "map_of (rt_values st) (s, p) = Some vs" "map_of vs m = Some item"
        by (auto simp: point_value_def split: option.splits)
      note rests = values_in_lookup [OF run_invD(2) [OF inv map_of_SomeD [OF vs(1)]] vs(2)]
      then have "finite (cv_conditions item)"
        unfolding rests_on_def by (auto intro: finite_subset simp: completed_ids_def)
      with rests item show ?thesis by (auto simp: rests_on_def)
    qed
    then show ?thesis
      using ob closed attempts_done [OF inv] conditions unfolding ats by blast
  qed
  then show ?thesis using envelope by blast
qed

theorem run_observables_grounded_witness:
  "\<exists>r. execute_testbench_plan sample_env sample_prepared ''tt'' None (VInt 60) = Inr r
     \<and> (\<exists>a \<in> set (rr_attempts r). completed a \<and> genuine sample_env a)"
proof -
  obtain r where r: "execute_testbench_plan sample_env sample_prepared ''tt'' None (VInt 60) = Inr r"
      "rr_envelope r = sample_envelope" using sample_finished by force
  from run_observables_grounded [OF r(1)] obtain digest out validity where
    out: "rr_envelope r = run_envelope sample_env digest ''tt'' out validity (rr_attempts r)"
    and all: "\<forall>name x. map_of (op_observables out) name = Some x \<longrightarrow>
        (\<exists>ob \<in> set (pp_observables sample_prepared). \<exists>ids. ob_id ob = name \<and> map_of (op_lineage out) name = Some ids \<and> ids \<noteq> []
           \<and> set ids \<subseteq> at_condition ` set (rr_attempts r)
           \<and> (measured ob \<longrightarrow> finite_json x \<and> (\<forall>c \<in> set ids. \<exists>a \<in> set (rr_attempts r).
                at_condition a = c \<and> completed a \<and> genuine sample_env a)))" by blast
  from sample_envelope_observables [OF out [unfolded r(2)]]
  have "map_of (op_observables out) ''vm'' = Some (VFloat (PFin 1))" by simp
  with all obtain ob ids where ob: "ob \<in> set (pp_observables sample_prepared)" "ob_id ob = ''vm''" "ids \<noteq> []"
      "measured ob \<longrightarrow> (\<forall>c \<in> set ids. \<exists>a \<in> set (rr_attempts r). at_condition a = c \<and> completed a \<and> genuine sample_env a)"
    by blast
  have "measured ob" using sample_observable [OF ob(1)] ob(2) by (auto simp: measured_def)
  with ob(3,4) r(1) show ?thesis using hd_in_set by blast
qed

section \<open>Verdicts\<close>

lemma unknown_not_valid: "unknown_verdict reason \<noteq> ''VALID''"
  by (simp add: unknown_verdict_def Let_def)

lemma point_rule_valid:
  assumes "fst (point_rule pp corner vs ats k rule) = ''VALID''"
  shows "list_all completed (point_attempts k ats)" and "evaluate_validity_rule pp corner vs rule = Inr ''VALID''"
proof -
  show all_completed: "list_all completed (point_attempts k ats)"
  proof (rule ccontr)
    assume "\<not> list_all completed (point_attempts k ats)"
    then have "filter (\<lambda>a. \<not> completed a) (point_attempts k ats) \<noteq> []"
      by (auto simp: filter_empty_conv list_all_iff)
    then show False using assms unknown_not_valid by (auto simp: point_rule_def split: list.splits)
  qed
  then have "filter (\<lambda>a. \<not> completed a) (point_attempts k ats) = []" by (auto simp: list_all_iff)
  then show "evaluate_validity_rule pp corner vs rule = Inr ''VALID''"
    using assms unknown_not_valid
    by (cases "evaluate_validity_rule pp corner vs rule") (auto simp: point_rule_def)
qed

lemma verdict_of_plain: "plain_plan pp \<Longrightarrow> verdict_of pp corner vals ats ident verdict \<Longrightarrow> plain_identity ident"
  by (cases ident) (auto simp: verdict_of_def plain_plan_def)

text \<open>The verdict an emitted identity carries.\<close>

lemma emitted_verdict:
  assumes "plain_plan pp" "verdicts_ok pp corner vals ats v" "ident \<in> fst ` set (vd_verdicts v)"
    and "map_of (named_validity (vd_verdicts v)) (verdict_name (map fst (vd_verdicts v)) ident) = Some verdict"
  shows "verdict_of pp corner vals ats ident verdict"
proof -
  have plain: "\<forall>i \<in> fst ` set (vd_verdicts v). plain_identity i"
    using assms(1,2) verdict_of_plain by (fastforce simp: verdicts_ok_def)
  have "map_of (vd_verdicts v) ident = Some verdict"
    using named_validity_lookup [OF assms(3) _ plain] assms(2,4) by (simp add: verdicts_ok_def)
  then show ?thesis using assms(2) by (auto simp: verdicts_ok_def dest!: map_of_SomeD)
qed

definition earned_verdict ::
  "run_env \<Rightarrow> prepared_plan \<Rightarrow> string \<Rightarrow> attempt list \<Rightarrow> string \<Rightarrow> string \<Rightarrow> string \<Rightarrow> bool" where
  "earned_verdict env pp corner ats s p r \<longleftrightarrow>
     (\<exists>sg \<in> set (pp_stages pp). \<exists>pt \<in> set (sg_points sg). \<exists>rule \<in> set (pt_rules pt). \<exists>vs.
        sg_id sg = s \<and> pt_id pt = p \<and> vr_id rule = r \<and> pt_corner pt = corner
        \<and> (\<forall>a \<in> set ats. at_stage a = s \<longrightarrow> at_point a = p \<longrightarrow> completed a \<and> genuine env a)
        \<and> values_in (completed_ids ats) vs \<and> evaluate_validity_rule pp corner vs rule = Inr ''VALID'')"

lemma completed_ids_emitted: "completed_ids (map (emitted_by l) ats) = completed_ids ats"
  by (induction ats) (auto simp: completed_ids_def)

lemma earned:
  assumes inv: "run_inv env pp corner st"
    and v: "verdict_of pp corner (rt_values st) (rt_attempts st) (PointRule s p r) ''VALID''"
  shows "earned_verdict env pp corner (map (emitted_by l) (rt_attempts st)) s p r"
proof -
  define vs where "vs = values_of (rt_values st) (s, p)"
  obtain sg pt rule where *: "sg \<in> set (pp_stages pp)" "pt \<in> set (sg_points sg)" "rule \<in> set (pt_rules pt)"
      "sg_id sg = s" "pt_id pt = p" "vr_id rule = r" "pt_corner pt = corner"
      "fst (point_rule pp corner vs (rt_attempts st) (s, p) rule) = ''VALID''"
    using v by (auto simp: verdict_of_def vs_def)
  have "\<forall>a \<in> set (rt_attempts st). at_stage a = s \<longrightarrow> at_point a = p \<longrightarrow> completed a"
    using point_rule_valid(1) [OF *(8)] by (auto simp: list_all_iff point_attempts_def)
  then have "\<forall>a \<in> set (map (emitted_by l) (rt_attempts st)).
      at_stage a = s \<longrightarrow> at_point a = p \<longrightarrow> completed a \<and> genuine env a"
    using run_invD(1) [OF inv] by simp
  moreover have "values_in (completed_ids (rt_attempts st)) vs"
  proof (cases "map_of (rt_values st) (s, p)")
    case (Some us)
    with run_invD(2) [OF inv map_of_SomeD [OF Some]] show ?thesis by (simp add: vs_def values_of_def)
  qed (simp add: vs_def values_of_def values_in_def)
  ultimately show ?thesis
    using * point_rule_valid(2) [OF *(8)] unfolding earned_verdict_def completed_ids_emitted by blast
qed



end
