(* ===== verification/RunTotal.thy ===== *)
theory RunTotal
  imports RunResult
begin

text \<open>
  When a run raises: every failure of a condition, a measurement or a binding is a refusal of the
  result, so only a \<open>ValueError\<close> about the run as a whole escapes; the receipts always serialise.
\<close>

section \<open>Serialisation\<close>

lemma attempt_record_json [simp]: "json_value (attempt_record a)"
  by (cases "at_returncode a") (simp_all add: attempt_record_def list_all_iff)

lemma uncompiled_attempt_total: "\<exists>a. uncompiled_attempt env corner reason known sg pt suffix = Inr a"
proof -
  have "\<exists>h. canonical_sha256 (rn_env env)
      (obj [(''stage_id'', VStr (sg_id sg)), (''point_id'', VStr (pt_id pt)), (''corner'', VStr corner),
             (''status'', VStr ''not_executed''), (''reason'', VStr reason),
             (''inventory_complete'', VBool known)]) = Inr h"
    by (rule canonical_sha256_total) simp
  then show ?thesis by (auto simp: uncompiled_attempt_def Let_def)
qed

lemma uncompiled_from_total: "\<exists>ats final. uncompiled_from env corner reason sg known pts = Inr (ats, final)"
proof (induction env corner reason sg known pts rule: uncompiled_from.induct)
  case (2 env corner reason sg known pt pts)
  show ?case
  proof (cases "pt_corner pt = corner")
    case True
    let ?known = "known \<and> grid_suffixes pt \<noteq> None"
    have "\<exists>now. map_res (uncompiled_attempt env corner reason ?known sg pt)
        (case grid_suffixes pt of Some ss \<Rightarrow> ss | None \<Rightarrow> [''not_executed'']) = Inr now"
      by (rule map_res_total) (rule uncompiled_attempt_total)
    then obtain now where now: "map_res (uncompiled_attempt env corner reason ?known sg pt)
        (case grid_suffixes pt of Some ss \<Rightarrow> ss | None \<Rightarrow> [''not_executed'']) = Inr now" ..
    with "2.IH"(2) [OF _ refl refl] True obtain later final where
      "uncompiled_from env corner reason sg ?known pts = Inr (later, final)" by blast
    with True now show ?thesis by (simp add: Let_def)
  qed (use 2 in simp)
qed simp

definition value_error :: "pyexc \<Rightarrow> bool" where
  "value_error e \<longleftrightarrow> (case e of ValueError m \<Rightarrow> True | _ \<Rightarrow> False)"

lemma value_error_simps [simp]: "value_error (ValueError m)"
  by (simp add: value_error_def)

text \<open>Reading a number out of measured data never overflows: it holds no integer but a sign.\<close>

definition safe_number :: "pyval \<Rightarrow> bool" where
  "safe_number v \<longleftrightarrow> (case as_number v of None \<Rightarrow> True | Some (Inl e) \<Rightarrow> False | Some (Inr x) \<Rightarrow> True)"

lemma measured_number: "measured_data v \<Longrightarrow> safe_number v"
  by (cases v) (simp_all add: measured_data_def safe_number_def as_number_def)

lemma measured_dget:
  assumes "measured_data (VDict d)"
  shows "safe_number (dget d k)"
proof (cases "map_of d (VStr k)")
  case (Some u)
  have "list_all (\<lambda>(k, u). is_str k \<and> measured_field u) d" using assms by (simp add: measured_data_def)
  with map_of_SomeD [OF Some] have "measured_field u" by (auto simp: list_all_iff)
  moreover have "dget d k = u" using Some by (simp add: dget_def)
  ultimately show ?thesis by (cases u) (simp_all add: measured_field_def safe_number_def as_number_def)
qed (simp add: dget_def safe_number_def as_number_def)

lemma binding_component_errors:
  assumes "measured_data (cv_value item)"
  shows "errs_in value_error (binding_component item component)"
  unfolding binding_component_def
proof (intro errs_in_pbind)
  show "errs_in value_error (if component \<in> {''value'', ''crossing''} then Inr (cv_value item)
      else case cv_value item of
          VDict d \<Rightarrow> if component \<in> {''slope'', ''intercept'', ''r2''} then Inr (dget d component)
            else Inl (ValueError (''unsupported binding component '' @ repr_text component))
        | _ \<Rightarrow> Inl (ValueError (''unsupported binding component '' @ repr_text component)))"
    by (simp split: pyval.split)
next
  fix selected
  assume "(if component \<in> {''value'', ''crossing''} then Inr (cv_value item)
      else case cv_value item of
          VDict d \<Rightarrow> if component \<in> {''slope'', ''intercept'', ''r2''} then Inr (dget d component)
            else Inl (ValueError (''unsupported binding component '' @ repr_text component))
        | _ \<Rightarrow> Inl (ValueError (''unsupported binding component '' @ repr_text component))) = Inr selected"
  then have "selected = cv_value item \<or> (\<exists>d. cv_value item = VDict d \<and> selected = dget d component)"
    by (cases "cv_value item") (auto split: if_split_asm)
  then have "safe_number selected" using assms measured_number measured_dget by auto
  then show "errs_in value_error (case as_number selected of
        None \<Rightarrow> Inl (ValueError (''binding component '' @ repr_text component @ '' is not a scalar''))
      | Some number \<Rightarrow> pbind number (\<lambda>x.
          if is_finite x then Inr x else Inl (ValueError ''binding component is non-finite'')))"
    by (cases "as_number selected") (auto simp: safe_number_def split: sum.splits)
qed

lemma resolve_binding_total:
  assumes "\<forall>(k, vs) \<in> set vals. values_in B vs"
  shows "\<exists>res. resolve_binding env pp corner vals ats b = Inr res"
proof (cases "bi_from b")
  case src: (FromMeasurement s p m component)
  show ?thesis
  proof (cases "point_value vals (s, p) m")
    case (Some item)
    show ?thesis
    proof (cases "source_valid pp corner (values_of vals (s, p)) (s, p) ats")
      case True
      obtain vs where vs: "map_of vals (s, p) = Some vs" "map_of vs m = Some item"
        using Some by (auto simp: point_value_def split: option.splits)
      have "values_in B vs" using assms vs(1) by (auto dest!: map_of_SomeD)
      from values_in_lookup [OF this vs(2)] have data: "measured_data (cv_value item)" by simp
      show ?thesis
      proof (cases "binding_component item component")
        case (Inl e)
        then obtain msg where "e = ValueError msg"
          using binding_component_errors [OF data, of component] by (auto simp: value_error_def split: pyexc.splits)
        then show ?thesis using src Some True Inl by (simp add: resolve_binding_def)
      next
        case (Inr x)
        define contributing where
          "contributing = List.map_filter (find_attempt ats) (sorted_list_of_set (cv_conditions item))"
        have "is_finite x" using Inr by (auto simp: binding_component_def split: option.splits if_split_asm)
        then have "json_value (binding_source_receipt env b (s, p, m, component) x contributing)"
          by (simp add: binding_source_receipt_def list_all_iff)
        then obtain h where "canonical_sha256 (rn_env env)
            (binding_source_receipt env b (s, p, m, component) x contributing) = Inr h"
          using canonical_sha256_total by blast
        then show ?thesis
          using src Some True Inr by (simp add: resolve_binding_def contributing_def [symmetric] Let_def)
      qed
    qed (use src Some in \<open>simp add: resolve_binding_def\<close>)
  qed (use src in \<open>simp add: resolve_binding_def\<close>)
qed (simp add: resolve_binding_def)

lemma bind_stage_total:
  assumes "run_inv env pp corner st"
  shows "\<exists>st'. bind_stage env pp corner stage st = Inr st'"
proof -
  have "\<exists>results. resolved_stage_bindings env pp corner stage (rt_values st) (rt_attempts st) = Inr results"
    unfolding resolved_stage_bindings_def
    using run_invD(2) [OF assms] by (intro map_res_total resolve_binding_total) auto
  then show ?thesis by (auto simp: bind_stage_def)
qed

section \<open>Stages\<close>

lemma run_stage_errors:
  assumes "run_inv env pp corner st" "stage \<in> fst ` set (stage_dict (pp_stages pp))"
  shows "errs_in value_error (run_stage env pp corner stage st)"
proof -
  obtain sg where sg: "map_of (stage_dict (pp_stages pp)) stage = Some sg"
    using assms(2) by (cases "map_of (stage_dict (pp_stages pp)) stage") (auto simp: map_of_eq_None_iff)
  have refused: "errs_in value_error (stage_uncompiled env corner sg e st)" for e
    using uncompiled_from_total by (intro errs_in_total) (force simp: stage_uncompiled_def uncompiled_attempts_def Let_def)
  have bound: "errs_in value_error (bind_stage env pp corner stage (executed_stage env pp corner stage cp dut st))" for cp dut
    using bind_stage_total [OF executed_inv [OF assms(1)]] by (rule errs_in_total)
  have "errs_in value_error (execute_stage env pp corner stage cp st)" for cp
    unfolding execute_stage_executed
    by (intro errs_in_pbind bound)
      (simp_all add: condition_capacity_def registered_dut_sha256_def same_dut_def Let_def)
  then show ?thesis using refused by (auto simp: run_stage_def sg split: sum.splits)
qed

lemma topological_rounds_errors: "errs_in value_error (topological_rounds d remaining out)"
proof (induction d remaining out rule: topological_rounds.induct)
  case (1 d remaining out)
  then show ?case by (subst topological_rounds.simps) (simp add: Let_def)
qed

lemma topological_rounds_all:
  "topological_rounds d remaining out = Inr order \<Longrightarrow> set order = set out \<union> set remaining"
proof (induction d remaining out rule: topological_rounds.induct)
  case (1 d remaining out)
  show ?case
  proof (cases "remaining = []")
    case False
    let ?ready = "ready_stages d remaining"
    have some: "?ready \<noteq> []"
      and rest: "topological_rounds d (filter (\<lambda>k. k \<notin> set ?ready) remaining) (out @ ?ready) = Inr order"
      using False "1.prems" by (auto simp: topological_rounds.simps [of d remaining] Let_def split: if_split_asm)
    have "set ?ready \<subseteq> set remaining" using ready_stages_remaining by blast
    then show ?thesis using "1.IH" [OF False refl some rest] by auto
  qed (use "1.prems" in \<open>simp add: topological_rounds.simps\<close>)
qed

lemma fold_stages_errors:
  assumes "reachable_run env pp corner st" "set order \<subseteq> fst ` set (stage_dict (pp_stages pp))"
  shows "errs_in value_error (fold_res (run_stage env pp corner) order st)"
  using assms
proof (induction order arbitrary: st)
  case (Cons k ks)
  have "reachable_run env pp corner t" if "run_stage env pp corner k st = Inr t" for t
    using Cons.prems(1) run_stage_steps [OF that] by (rule rtranclp_trans)
  then show ?case
    using Cons run_stage_errors [OF reachable_inv [OF Cons.prems(1)]] by (auto intro!: errs_in_pbind)
qed simp

lemma run_stages_errors: "errs_in value_error (run_stages env pp corner)"
  unfolding run_stages_def topological_stages_def Let_def
  using topological_rounds_all
  by (intro errs_in_pbind topological_rounds_errors fold_stages_errors) fastforce+

section \<open>The result\<close>

lemma envelope_json:
  assumes inv: "run_inv env pp corner st" and runtime: "is_finite (rn_runtime env)"
    and ok: "outputs_ok obs (rt_values st) v out"
  shows "json_value (run_envelope env digest corner out validity ats)"
proof -
  have "json_value x" if "(name, x) \<in> set (op_observables out)" for name x
  proof -
    have "map_of (op_observables out) name = Some x" using ok that by (simp add: outputs_ok_def)
    from outputs_ok_lookup [OF ok this] obtain ob :: plan_observable and ids
      where "emitted_as (rt_values st) v (ob_source ob) x ids" by blast
    then consider verdict where "x = VStr verdict" | s p m item where
        "point_value (rt_values st) (s, p) m = Some item" "x = cv_value item"
      by (auto simp: emitted_as_def Let_def split: observable_source.splits)
    then show ?thesis
    proof cases
      case (2 s p m item)
      then obtain vs where vs: "map_of (rt_values st) (s, p) = Some vs" "map_of vs m = Some item"
        by (auto simp: point_value_def split: option.splits)
      from values_in_lookup [OF run_invD(2) [OF inv map_of_SomeD [OF vs(1)]] vs(2)] 2 measured_json
      show ?thesis by simp
    qed simp
  qed
  moreover have "is_finite (fmax (PFin 0) (rn_runtime env))" using runtime by (simp add: fmax_def)
  ultimately show ?thesis
    by (auto simp: run_envelope_def list_all_iff condition_entry_def lineage_entry_def)
qed

lemma finish_run_errors:
  assumes inv: "run_inv env pp corner st" and runtime: "is_finite (rn_runtime env)"
    and receipts: "\<forall>cp \<in> set (rt_compilations st). json_value (cp_receipt cp)"
  shows "errs_in value_error (finish_run env pp corner expected st)"
    and "envelope_digest pp expected st = Inr digest \<Longrightarrow> check_inventory (rt_attempts st) = Inr () \<Longrightarrow>
      \<exists>r. finish_run env pp corner expected st = Inr r"
proof -
  obtain raw validity where ev: "evaluate_plan_outputs pp corner (rt_values st) (rt_attempts st) = (raw, validity)"
    by fastforce
  define out where "out = closed_outputs (set (map at_condition (rt_attempts st)))
    (raw\<lparr>op_refusals := rt_refusals st @ op_refusals raw\<rparr>)"
  have "outputs_ok (pp_observables pp) (rt_values st) (all_verdicts pp corner (rt_values st) (rt_attempts st)) out"
    unfolding out_def using evaluate_plan_outputs_ok(1) [OF ev] by (intro closed_outputs_ok(1)) simp
  note json = envelope_json [OF inv runtime this]
  have "\<exists>h. canonical_sha256 (rn_env env) (VList (map cp_receipt (rt_compilations st))) = Inr h"
    using receipts by (intro canonical_sha256_total) (simp add: list_all_iff)
  moreover have "\<exists>h. canonical_sha256 (rn_env env) (run_envelope env d corner out validity ats) = Inr h" for d ats
    by (rule canonical_sha256_total [OF json])
  ultimately have receipt: "\<exists>rc. run_receipt env d corner st refusals ats
      (run_envelope env d corner out validity ats) = Inr rc" for d refusals ats
    by (fastforce simp: run_receipt_def Let_def)
  have finish: "finish_run env pp corner expected st =
      pbind (envelope_digest pp expected st) (\<lambda>digest. pbind (check_inventory (rt_attempts st)) (\<lambda>unit.
      let ats = map (emitted_by (op_lineage out)) (rt_attempts st);
          envelope = run_envelope env digest corner out validity ats
      in pbind (run_receipt env digest corner st (op_refusals out) ats envelope) (\<lambda>receipt.
         Inr \<lparr>rr_envelope = envelope, rr_attempts = ats, rr_refusals = op_refusals out, rr_receipt = receipt\<rparr>)))"
    by (simp add: finish_run_def ev out_def Let_def)
  show "errs_in value_error (finish_run env pp corner expected st)"
    unfolding finish Let_def
    by (intro errs_in_pbind errs_in_total [OF receipt])
      (simp_all add: envelope_digest_def check_inventory_def Let_def)
  assume "envelope_digest pp expected st = Inr digest" "check_inventory (rt_attempts st) = Inr ()"
  then show "\<exists>r. finish_run env pp corner expected st = Inr r"
    using receipt [of digest "op_refusals out" "map (emitted_by (op_lineage out)) (rt_attempts st)"]
    by (auto simp: finish Let_def)
qed

lemma reachable_receipts:
  assumes "reachable_run env pp corner st"
    and "\<And>stage bs cp. rn_compile env stage bs = Inr cp \<Longrightarrow> json_value (cp_receipt cp)"
  shows "\<forall>cp \<in> set (rt_compilations st). json_value (cp_receipt cp)"
  using assms(1)
proof (induction rule: rtranclp_induct)
  case base
  show ?case by (simp add: initial_run_def)
next
  case (step st st')
  from step.hyps(2) show ?case
    using step.IH assms(2)
    by (cases rule: stage_step.cases)
      (auto simp: executed_stage_def stage_uncompiled_def bind_stage_def Let_def)
qed

lemma run_failures:
  assumes "\<And>e. as_number timeout \<noteq> Some (Inl e)" and "is_finite (rn_runtime env)"
    and "\<And>stage bs cp. rn_compile env stage bs = Inr cp \<Longrightarrow> json_value (cp_receipt cp)"
  shows "errs_in value_error (execute_testbench_plan env pp corner expected timeout)"
proof -
  have "errs_in value_error (timeout_ok timeout)"
    using assms(1) by (cases "as_number timeout") (auto simp: timeout_ok_def errs_in_iff pbind_eq_Inl split: if_split_asm)
  moreover have "errs_in value_error (finish_run env pp corner expected st)"
    if "run_stages env pp corner = Inr st" for st
    using finish_run_errors(1) [OF reachable_inv assms(2) reachable_receipts] run_stages_reachable [OF that] assms(3)
    by blast
  ultimately show ?thesis
    unfolding execute_testbench_plan_def by (auto intro!: errs_in_pbind run_stages_errors)
qed

text \<open>C18: A run returns a result or raises a \<open>ValueError\<close>, and nothing else, whatever the compiler, the
  simulator and the extractor do or raise: when the time limit converts to a float, the clock is
  finite and compiler receipts are JSON, no exception of a condition, a measurement, a binding, a
  validity rule or the serialisation of the result escapes.\<close>

theorem run_errors:
  assumes "\<And>e. as_number timeout \<noteq> Some (Inl e)" and "is_finite (rn_runtime env)"
    and "\<And>stage bs cp. rn_compile env stage bs = Inr cp \<Longrightarrow> json_value (cp_receipt cp)"
  shows "errs_in value_error (execute_testbench_plan env pp corner expected timeout)"
  using assms by (rule run_failures)

theorem run_errors_witness:
  "\<exists>m. execute_testbench_plan sample_env sample_prepared ''ff'' None (VInt 60) = Inl (ValueError m)"
proof -
  have "errs_in value_error (execute_testbench_plan sample_env sample_prepared ''ff'' None (VInt 60))"
    using round64_of_int [of 60] by (intro run_errors)
      (auto simp: as_number_def float_of_int_def sample_env_def sample_compilation_def split: if_split_asm)
  moreover have "\<exists>e. execute_testbench_plan sample_env sample_prepared ''ff'' None (VInt 60) = Inl e"
    by (cases "timeout_ok (VInt 60)")
      (simp_all add: execute_testbench_plan_def sample_prepared_def good_prepared_def good_plan_def buffer_plan_def)
  ultimately show ?thesis by (auto simp: value_error_def split: pyexc.splits)
qed

end
