(* ===== verification/RunInventory.thy ===== *)
theory RunInventory
  imports RunTotal
begin

text \<open>
  The inventory of a run: every compiled condition is attempted exactly once, all stages are compiled
  from the one device under test the envelope names, a refused stage is reported point by point, and
  a binding carries a finite value from a valid source.
\<close>

section \<open>Growth\<close>

lemma step_grows:
  assumes "stage_step env pp corner st st'"
  shows "\<exists>later. rt_attempts st' = rt_attempts st @ later" and "\<exists>later. rt_compilations st' = rt_compilations st @ later"
  using assms
  by (cases rule: stage_step.cases;
      force simp: stage_uncompiled_def Let_def executed_stage_def bind_stage_def)+

lemma steps_grow:
  assumes "(stage_step env pp corner)\<^sup>*\<^sup>* st st'"
  shows "set (rt_attempts st) \<subseteq> set (rt_attempts st')"
  using assms
proof (induction rule: rtranclp_induct)
  case (step y z)
  with step_grows(1) [OF step.hyps(2)] show ?case by auto
qed simp

section \<open>One device, every condition\<close>

definition inventory_inv :: "run_env \<Rightarrow> prepared_plan \<Rightarrow> run_state \<Rightarrow> bool" where
  "inventory_inv env pp st \<longleftrightarrow>
     (rt_dut st = None \<longrightarrow> rt_compilations st = []) \<and>
     (\<forall>cp \<in> set (rt_compilations st).
        rt_dut st = Some (cp_dut_sha256 cp) \<and> sha256 (rn_env env) (cp_dut_bytes cp) = cp_dut_sha256 cp
        \<and> (\<forall>cc \<in> set (cp_conditions cp). attempt_of env (point_documents pp) cc \<in> set (rt_attempts st)))"

lemma executed_inventory:
  assumes inv: "inventory_inv env pp st" and sha: "registered_dut_sha256 env cp = Inr sha"
    and dut: "same_dut (rt_dut st) sha = Inr dut"
  shows "inventory_inv env pp (executed_stage env pp corner stage cp dut st)"
proof -
  have digest: "cp_dut_sha256 cp = sha" "sha256 (rn_env env) (cp_dut_bytes cp) = sha"
    using sha by (auto simp: registered_dut_sha256_def Let_def split: if_split_asm)
  have same: "dut = Some sha" "rt_dut st = None \<or> rt_dut st = Some sha"
    using dut by (auto simp: same_dut_def split: if_split_asm)
  have fields: "rt_dut (executed_stage env pp corner stage cp dut st) = dut"
      "rt_compilations (executed_stage env pp corner stage cp dut st) = rt_compilations st @ [cp]"
      "rt_attempts (executed_stage env pp corner stage cp dut st) =
         rt_attempts st @ map (attempt_of env (point_documents pp)) (cp_conditions cp)"
    by (simp_all add: executed_stage_def Let_def execute_conditions_attempts(1))
  show ?thesis
    unfolding inventory_inv_def fields using inv same digest unfolding inventory_inv_def by auto
qed

lemma reachable_inventory:
  assumes "reachable_run env pp corner st"
  shows "inventory_inv env pp st"
  using assms
proof (induction rule: rtranclp_induct)
  case base
  show ?case by (simp add: inventory_inv_def initial_run_def)
next
  case (step st st')
  from step.hyps(2) show ?case
  proof (cases rule: stage_step.cases)
    case (executed stage cp sha dut)
    then show ?thesis using executed_inventory [OF step.IH] by simp
  qed (use step.IH in \<open>auto simp: inventory_inv_def stage_uncompiled_def bind_stage_def Let_def\<close>)
qed

text \<open>C23: The inventory of a finished run is exact: the compilations of all its stages were sealed from
  one device under test, whose captured bytes have the digest the envelope names; every condition the
  compiler emitted for them was attempted, and the attempts have distinct condition identifiers, at
  most ten thousand of them.\<close>

theorem run_inventory_exact:
  assumes "execute_testbench_plan env pp corner expected timeout = Inr r"
  shows "\<exists>st digest out validity. run_stages env pp corner = Inr st
     \<and> rr_envelope r = run_envelope env digest corner out validity (rr_attempts r) \<and> sha256_text digest
     \<and> distinct (map at_condition (rr_attempts r)) \<and> length (rr_attempts r) \<le> 10000
     \<and> (\<forall>cp \<in> set (rt_compilations st). cp_dut_sha256 cp = digest \<and> sha256 (rn_env env) (cp_dut_bytes cp) = digest
          \<and> (\<forall>cc \<in> set (cp_conditions cp). \<exists>a \<in> set (rr_attempts r).
               at_condition a = cc_id cc \<and> at_stage a = cc_stage cc \<and> at_point a = cc_point cc))"
proof -
  obtain st digest out where
    st: "run_stages env pp corner = Inr st" and digest: "envelope_digest pp expected st = Inr digest"
    and inventory: "check_inventory (rt_attempts st) = Inr ()"
    and ats: "rr_attempts r = map (emitted_by (op_lineage out)) (rt_attempts st)"
    and envelope: "rr_envelope r = run_envelope env digest corner out
       (named_validity (vd_verdicts (all_verdicts pp corner (rt_values st) (rt_attempts st)))) (rr_attempts r)"
    by (rule run_parts [OF assms], rule that, assumption+)
  note inv = reachable_inventory [OF run_stages_reachable [OF st]]
  have "sha256_text digest" using digest by (auto simp: envelope_digest_def Let_def split: if_split_asm)
  moreover have "distinct (map at_condition (rr_attempts r))" "length (rr_attempts r) \<le> 10000"
    using inventory by (auto simp: check_inventory_def ats o_def MAX_ENVELOPE_CONDITIONS_def split: if_split_asm)
  moreover have "cp_dut_sha256 cp = digest \<and> sha256 (rn_env env) (cp_dut_bytes cp) = digest"
    if "cp \<in> set (rt_compilations st)" for cp
    using inv that digest by (auto simp: inventory_inv_def envelope_digest_def Let_def split: if_split_asm)
  moreover have "\<exists>a \<in> set (rr_attempts r). at_condition a = cc_id cc \<and> at_stage a = cc_stage cc \<and> at_point a = cc_point cc"
    if "cp \<in> set (rt_compilations st)" "cc \<in> set (cp_conditions cp)" for cp cc
  proof (rule bexI [of _ "emitted_by (op_lineage out) (attempt_of env (point_documents pp) cc)"])
    show "emitted_by (op_lineage out) (attempt_of env (point_documents pp) cc) \<in> set (rr_attempts r)"
      using inv that by (auto simp: inventory_inv_def ats)
  qed simp
  ultimately show ?thesis using st envelope by blast
qed

theorem run_inventory_exact_witness:
  "\<exists>r. execute_testbench_plan sample_env sample_prepared ''tt'' None (VInt 60) = Inr r
     \<and> (\<exists>a \<in> set (rr_attempts r). at_condition a = cc_id sample_condition) \<and> distinct (map at_condition (rr_attempts r))"
proof -
  obtain r where r: "execute_testbench_plan sample_env sample_prepared ''tt'' None (VInt 60) = Inr r"
    using sample_finished by force
  from run_inventory_exact [OF r] obtain st where st: "run_stages sample_env sample_prepared ''tt'' = Inr st"
      "distinct (map at_condition (rr_attempts r))"
      "\<forall>cp \<in> set (rt_compilations st). \<forall>cc \<in> set (cp_conditions cp). \<exists>a \<in> set (rr_attempts r). at_condition a = cc_id cc"
    by blast
  have "sample_compilation \<in> set (rt_compilations st)" "sample_condition \<in> set (cp_conditions sample_compilation)"
    using st(1) by (auto simp: sample_run sample_final_fields sample_compilation_def)
  with r st(2,3) show ?thesis by blast
qed

section \<open>Bindings\<close>



section \<open>Refused stages\<close>

lemma grid_suffixes_some: "grid_suffixes pt = Some ss \<Longrightarrow> ss \<noteq> []"
proof (cases "pt_analysis pt")
  case (DcSweep s a b c)
  assume "grid_suffixes pt = Some ss"
  moreover have "n \<noteq> 0" if "dc_grid_count a b c = Some n" for n
    using that by (auto simp: dc_grid_count_def Let_def split: option.splits if_split_asm)
  ultimately show ?thesis by (auto simp: grid_suffixes_def DcSweep split: option.splits)
qed (auto simp: grid_suffixes_def)

lemma uncompiled_from_covers:
  "uncompiled_from env corner reason sg known pts = Inr (ats, final) \<Longrightarrow> pt \<in> set pts \<Longrightarrow> pt_corner pt = corner \<Longrightarrow>
     \<exists>a \<in> set ats. at_point a = pt_id pt"
proof (induction env corner reason sg known pts arbitrary: ats final rule: uncompiled_from.induct)
  case (2 env corner reason sg known p pts)
  show ?case
  proof (cases "pt_corner p = corner")
    case True
    define ss where "ss = (case grid_suffixes p of Some ss \<Rightarrow> ss | None \<Rightarrow> [''not_executed''])"
    from "2.prems"(1) True obtain now later where
      now: "map_res (uncompiled_attempt env corner reason (known \<and> grid_suffixes p \<noteq> None) sg p) ss = Inr now"
      and later: "uncompiled_from env corner reason sg (known \<and> grid_suffixes p \<noteq> None) pts = Inr (later, final)"
      and ats: "ats = now @ later"
      by (auto simp: Let_def ss_def)
    show ?thesis
    proof (cases "pt = p")
      case True
      have "ss \<noteq> []" using grid_suffixes_some by (auto simp: ss_def split: option.splits)
      then have "now \<noteq> []" using map_res_length [OF now] by auto
      then obtain a where a: "a \<in> set now" by (cases now) auto
      from list_all2_mem_right [OF now [unfolded map_res_eq_Inr] a] obtain suffix where
        "uncompiled_attempt env corner reason (known \<and> grid_suffixes p \<noteq> None) sg p suffix = Inr a" by blast
      then have "at_point a = pt_id p" by (auto simp: uncompiled_attempt_def Let_def)
      with a show ?thesis by (auto simp: ats True)
    next
      case False
      with "2.prems"(2) have "pt \<in> set pts" by simp
      from "2.IH"(2) [OF _ refl refl _ later this "2.prems"(3)] True now show ?thesis
        by (auto simp: ats ss_def)
    qed
  next
    case False
    then show ?thesis using 2 by auto
  qed
qed simp

text \<open>Every stage of the plan is run in some state, and what it attempts stays in the result.\<close>

lemma run_stage_reached:
  assumes "run_stages env pp corner = Inr st" and "distinct (map sg_id (pp_stages pp))" and "sg \<in> set (pp_stages pp)"
  obtains s1 s2 where "run_stage env pp corner (sg_id sg) s1 = Inr s2" and "set (rt_attempts s2) \<subseteq> set (rt_attempts st)"
    and "map_of (stage_dict (pp_stages pp)) (sg_id sg) = Some sg"
proof -
  obtain order where order: "topological_stages (pp_stages pp) = Inr order"
      "fold_res (run_stage env pp corner) order initial_run = Inr st"
    using assms(1) by (auto simp: run_stages_def)
  have dict: "stage_dict (pp_stages pp) = map (\<lambda>sg. (sg_id sg, sg)) (pp_stages pp)"
    using stage_dict_distinct [OF assms(2)] .
  have "sg_id sg \<in> set order"
    using topological_rounds_all [of "stage_dict (pp_stages pp)"] order(1) assms(3)
    by (auto simp: topological_stages_def Let_def dict)
  then obtain before after where split: "order = before @ sg_id sg # after" by (auto simp: in_set_conv_decomp)
  obtain s1 s2 where s: "run_stage env pp corner (sg_id sg) s1 = Inr s2"
      "fold_res (run_stage env pp corner) after s2 = Inr st"
    using order(2) by (auto simp: split fold_res_append)
  have "set (rt_attempts s2) \<subseteq> set (rt_attempts st)"
  proof (rule fold_res_invariant [OF s(2), where P = "\<lambda>t. set (rt_attempts s2) \<subseteq> set (rt_attempts t)"])
    fix x t u assume "set (rt_attempts s2) \<subseteq> set (rt_attempts t)" "run_stage env pp corner x t = Inr u"
    then show "set (rt_attempts s2) \<subseteq> set (rt_attempts u)" using steps_grow [OF run_stage_steps] by blast
  qed simp
  moreover have "map_of (stage_dict (pp_stages pp)) (sg_id sg) = Some sg"
    using assms(2,3) by (simp add: dict o_def)
  ultimately show ?thesis using that s(1) by blast
qed


text \<open>A compiler that refuses every stage.\<close>

definition refusing_env :: run_env where
  "refusing_env = sample_env\<lparr>rn_compile := (\<lambda>stage bindings. Inl (ValueError ''no DUT''))\<rparr>"

lemma dec_small: "dec_nat 0 = ''0''" "dec_nat (Suc 0) = ''1''"
  by code_simp+

lemma sample_grid: "dc_grid_count (LiteralValue (volts 0)) (LiteralValue (volts 1)) (LiteralValue (volts 1)) = Some 2"
proof -
  have small: "flog10 1 = 0" "decimal_of 0 = 0" "decimal_of 1 = 1" "pow10 (- 27) = 1 / 10 ^ 27"
    by (simp_all add: flog10_def dec_small decimal_of_def pow10_def)
  have "rhe (of_int (10 ^ 27)) = 10 ^ 27" by (simp only: rhe_def floor_of_int) simp
  then have "decimal_round 1 = 1" by (simp add: decimal_round_def small)
  then show ?thesis
    by (simp add: dc_grid_count_def volts_def MAX_ENVELOPE_CONDITIONS_def small Let_def)
qed

lemma refused_run:
  "\<exists>r. execute_testbench_plan refusing_env sample_prepared ''tt'' (Some sample_digest) (VInt 60) = Inr r"
proof -
  define reason where "reason = ''stage compilation refused: '' @ take 768 (exc_text (ValueError ''no DUT''))"
  have grid: "grid_suffixes sample_point = Some [''not_executed.dc_000000'', ''not_executed.dc_000001'']"
    by (simp add: grid_suffixes_def sample_point_def sweep_def sample_grid pad6_def upt_rec dec_small Let_def
        numeral_eq_Suc)
  obtain a b where ab: "uncompiled_attempt refusing_env ''tt'' reason True sample_stage sample_point ''not_executed.dc_000000'' = Inr a"
      "uncompiled_attempt refusing_env ''tt'' reason True sample_stage sample_point ''not_executed.dc_000001'' = Inr b"
    using uncompiled_attempt_total by metis
  have corner: "pt_corner sample_point = ''tt''" by (simp add: sample_point_def)
  have points: "sg_points sample_stage = [sample_point]" by (simp add: sample_stage_def)
  have missing: "uncompiled_attempts refusing_env ''tt'' reason sample_stage = Inr ([a, b], True)"
    by (simp add: uncompiled_attempts_def points corner grid ab)
  have ids: "at_condition a \<noteq> at_condition b" using ab by (auto simp: uncompiled_attempt_def Let_def)
  define st where "st = initial_run\<lparr>rt_attempts := [a, b],
    rt_refusals := [runner_refusal ''stage_uncompiled'' reason]\<rparr>"
  have "stage_uncompiled refusing_env ''tt'' sample_stage (ValueError ''no DUT'') initial_run = Inr st"
    by (simp only: stage_uncompiled_def Let_def reason_def [symmetric] missing pbind_simps prod.case)
      (simp add: st_def initial_run_def)
  moreover have "stage_dict (pp_stages sample_prepared) = [(''s'', sample_stage)]"
    by (simp add: stage_dict_def sample_prepared_def sample_stage_def)
  moreover have "rn_compile refusing_env k bs = Inl (ValueError ''no DUT'')" for k bs by (simp add: refusing_env_def)
  ultimately have "run_stage refusing_env sample_prepared ''tt'' ''s'' initial_run = Inr st"
    by (simp add: run_stage_def points corner)
  then have run: "run_stages refusing_env sample_prepared ''tt'' = Inr st"
    by (simp add: run_stages_def sample_stages)
  have "envelope_digest sample_prepared (Some sample_digest) st = Inr sample_digest"
    using sample_digest_text by (simp add: envelope_digest_def st_def initial_run_def) (simp add: sample_digest_def)
  moreover have "check_inventory (rt_attempts st) = Inr ()"
    using ids by (simp add: check_inventory_def st_def MAX_ENVELOPE_CONDITIONS_def)
  moreover have "is_finite (rn_runtime refusing_env)" by (simp add: refusing_env_def sample_env_def)
  moreover have "rt_compilations st = []" by (simp add: st_def initial_run_def)
  ultimately obtain r where r: "finish_run refusing_env sample_prepared ''tt'' (Some sample_digest) st = Inr r"
    using finish_run_errors(2) [OF reachable_inv [OF run_stages_reachable [OF run]]] by fastforce
  have "timeout_ok (VInt 60) = Inr ()"
    using round64_of_int [of 60] by (simp add: timeout_ok_def as_number_def float_of_int_def)
  moreover have "''tt'' \<in> cb_id ` set (pc_corners (pp_context sample_prepared))"
    by (simp add: sample_prepared_def good_prepared_def good_plan_def buffer_plan_def)
  ultimately show ?thesis using run r by (simp add: execute_testbench_plan_def)
qed


end
