(* ===== verification/OracleInput.thy ===== *)
theory OracleInput
  imports PyJson
begin

text \<open>
  The inputs of the testbench comparator, \<open>openada/operations/testbench_oracle.py\<close>: the guard
  that keeps non-JSON and oversized values out, the closed tolerance document with one row per
  metric, and the two documents compared.  Every refusal is a \<open>ValueError\<close> carrying its message.
  A value of \<open>pyval\<close> is a finite tree, so the identity bookkeeping by which \<open>_strict_json\<close>
  refuses cyclic objects has nothing to refuse here and is left out.
\<close>

section \<open>Constants\<close>

definition tolerance_schema :: string where
  "tolerance_schema = ''simra.testbench-oracle-tolerances/v1''"

definition comparison_schema :: string where
  "comparison_schema = ''simra.testbench-oracle-comparison/v1''"

definition max_metrics :: nat where "max_metrics = 128"
definition max_sequence_items :: nat where "max_sequence_items = 1000000"
definition max_json_depth :: nat where "max_json_depth = 64"
definition max_json_nodes :: nat where "max_json_nodes = 2000000"

definition common_row_fields :: "string list" where
  "common_row_fields = [''name'', ''kind'', ''required'', ''limit'']"

definition row_field_table :: "(string \<times> string list) list" where
  "row_field_table =
     [(''scalar'', common_row_fields @ [''observed'', ''oracle'', ''error'']),
      (''curve'', common_row_fields @ [''observed'', ''oracle'', ''x'', ''y'', ''error'']),
      (''mismatch_curve'', common_row_fields @
        [''observed_source'', ''observed_sink'', ''oracle_source'', ''oracle_sink'', ''denominator_floor'']),
      (''compliance_endpoints'', common_row_fields @ [''observed'', ''oracle'']),
      (''signed_response_coverage'', common_row_fields @
        [''observed'', ''oracle'', ''x'', ''y'', ''zero_epsilon'']),
      (''invalid_detection_recall'', common_row_fields @ [''denominator'']),
      (''false_valid_rate'', common_row_fields @ [''denominator'']),
      (''completeness'', common_row_fields @ [''observables'', ''conditions'']),
      (''grading_runtime'', common_row_fields),
      (''lineage_presence'', common_row_fields @ [''observables'', ''conditions''])]"

section \<open>Numbers and the JSON guard\<close>

text \<open>\<open>_finite_number\<close> together with the \<open>float\<close> conversion its callers make next.\<close>

definition finite_number :: "pyval \<Rightarrow> pyfloat option" where
  "finite_number v =
     (case as_number v of
        Some (Inr x) \<Rightarrow> (if is_finite x then Some x else None)
      | _ \<Rightarrow> None)"

text \<open>
  The recursive visit, threading the node count.  \<open>visit_fields\<close> and \<open>visit_items\<close> are the loops
  over an object's members and over an array's elements.
\<close>

function visit :: "string \<Rightarrow> string \<Rightarrow> nat \<Rightarrow> pyval \<Rightarrow> nat \<Rightarrow> nat pyres"
  and visit_fields :: "string \<Rightarrow> string \<Rightarrow> nat \<Rightarrow> (pyval \<times> pyval) list \<Rightarrow> nat \<Rightarrow> nat pyres"
  and visit_items :: "string \<Rightarrow> string \<Rightarrow> nat \<Rightarrow> nat \<Rightarrow> pyval list \<Rightarrow> nat \<Rightarrow> nat pyres" where
  "visit label path depth item n =
     (if max_json_nodes < n + 1
      then Inl (ValueError (label @ path @ '': JSON node limit exceeded''))
      else if max_json_depth < depth
      then Inl (ValueError (label @ path @ '': JSON nesting exceeds '' @ dec_nat max_json_depth))
      else case item of
        VNone \<Rightarrow> Inr (n + 1)
      | VBool b \<Rightarrow> Inr (n + 1)
      | VInt i \<Rightarrow> Inr (n + 1)
      | VStr s \<Rightarrow> Inr (n + 1)
      | VFloat x \<Rightarrow>
          (if is_finite x then Inr (n + 1)
           else Inl (ValueError (label @ path @ '': JSON numbers must be finite'')))
      | VDict d \<Rightarrow> visit_fields label path depth d (n + 1)
      | VList xs \<Rightarrow>
          (if max_sequence_items < length xs
           then Inl (ValueError (label @ path @ '': JSON array is over the item limit''))
           else visit_items label path depth 0 xs (n + 1))
      | VTuple xs \<Rightarrow>
          (if max_sequence_items < length xs
           then Inl (ValueError (label @ path @ '': JSON array is over the item limit''))
           else visit_items label path depth 0 xs (n + 1))
      | VOther t \<Rightarrow>
          Inl (ValueError (label @ path @ '': value of type '' @ t @ '' is not JSON'')))"
| "visit_fields label path depth [] n = Inr n"
| "visit_fields label path depth ((k, v) # kvs) n =
     (case as_str k of
        None \<Rightarrow> Inl (ValueError (label @ path @ '': JSON object keys must be strings''))
      | Some key \<Rightarrow>
          pbind (visit label (path @ ''/'' @ key) (depth + 1) v n)
            (\<lambda>m. visit_fields label path depth kvs m))"
| "visit_items label path depth i [] n = Inr n"
| "visit_items label path depth i (v # vs) n =
     pbind (visit label (path @ ''/'' @ dec_nat i) (depth + 1) v n)
       (\<lambda>m. visit_items label path depth (Suc i) vs m)"
  by pat_completeness auto

termination
  by (relation "measure (\<lambda>x. case x of
        Inl (label, path, depth, item, n) \<Rightarrow> 2 * size item + 1
      | Inr (Inl (label, path, depth, d, n)) \<Rightarrow>
          2 * size_list (size_prod size size) d
      | Inr (Inr (label, path, depth, i, xs, n)) \<Rightarrow> 2 * size_list size xs)")
    auto

declare visit.simps [simp del]

definition strict_json :: "pyval \<Rightarrow> string \<Rightarrow> unit pyres" where
  "strict_json value label = pbind (visit label [] 0 value 0) (\<lambda>n. Inr ())"

text \<open>What the guard measures: the number of nodes, the nesting, and the longest array.\<close>

fun node_count :: "pyval \<Rightarrow> nat" where
  "node_count (VList xs) = 1 + sum_list (map node_count xs)"
| "node_count (VTuple xs) = 1 + sum_list (map node_count xs)"
| "node_count (VDict d) = 1 + sum_list (map (\<lambda>kv. node_count (snd kv)) d)"
| "node_count v = 1"

fun nests_within :: "nat \<Rightarrow> nat \<Rightarrow> pyval \<Rightarrow> bool" where
  "nests_within limit depth (VList xs) =
     (depth \<le> limit \<and> list_all (nests_within limit (Suc depth)) xs)"
| "nests_within limit depth (VTuple xs) =
     (depth \<le> limit \<and> list_all (nests_within limit (Suc depth)) xs)"
| "nests_within limit depth (VDict d) =
     (depth \<le> limit \<and> list_all (\<lambda>kv. nests_within limit (Suc depth) (snd kv)) d)"
| "nests_within limit depth v = (depth \<le> limit)"

fun arrays_within :: "nat \<Rightarrow> pyval \<Rightarrow> bool" where
  "arrays_within limit (VList xs) = (length xs \<le> limit \<and> list_all (arrays_within limit) xs)"
| "arrays_within limit (VTuple xs) = (length xs \<le> limit \<and> list_all (arrays_within limit) xs)"
| "arrays_within limit (VDict d) = list_all (\<lambda>kv. arrays_within limit (snd kv)) d"
| "arrays_within limit v = True"

lemma visit_accepts:
  "visit label path depth v n = Inr m \<longleftrightarrow>
     json_value v \<and> nests_within max_json_depth depth v \<and> arrays_within max_sequence_items v \<and>
     n + node_count v \<le> max_json_nodes \<and> m = n + node_count v"
  "n \<le> max_json_nodes \<Longrightarrow> visit_fields label path depth d n = Inr m \<longleftrightarrow>
     list_all (\<lambda>kv. is_str (fst kv) \<and> json_value (snd kv)) d \<and>
     list_all (\<lambda>kv. nests_within max_json_depth (Suc depth) (snd kv)) d \<and>
     list_all (\<lambda>kv. arrays_within max_sequence_items (snd kv)) d \<and>
     n + sum_list (map (\<lambda>kv. node_count (snd kv)) d) \<le> max_json_nodes \<and>
     m = n + sum_list (map (\<lambda>kv. node_count (snd kv)) d)"
  "n \<le> max_json_nodes \<Longrightarrow> visit_items label path depth i xs n = Inr m \<longleftrightarrow>
     list_all json_value xs \<and> list_all (nests_within max_json_depth (Suc depth)) xs \<and>
     list_all (arrays_within max_sequence_items) xs \<and>
     n + sum_list (map node_count xs) \<le> max_json_nodes \<and>
     m = n + sum_list (map node_count xs)"
proof (induction label path depth v n and label path depth d n and label path depth i xs n
    arbitrary: m and m and m rule: visit_visit_fields_visit_items.induct)
  case (1 label path depth item n)
  then show ?case by (cases item) (auto simp: visit.simps)
next
  case (3 label path depth k v kvs n)
  then show ?case by (cases k) (auto simp: as_str_def add.assoc)
qed (auto simp: add.assoc)

lemma visit_refuses:
  "errs_in (\<lambda>e. \<exists>msg. e = ValueError msg) (visit label path depth v n)"
  "errs_in (\<lambda>e. \<exists>msg. e = ValueError msg) (visit_fields label path depth d n)"
  "errs_in (\<lambda>e. \<exists>msg. e = ValueError msg) (visit_items label path depth i xs n)"
proof (induction label path depth v n and label path depth d n and label path depth i xs n
    rule: visit_visit_fields_visit_items.induct)
  case (1 label path depth item n)
  then show ?case by (cases item) (auto simp: visit.simps)
next
  case (3 label path depth k v kvs n)
  then show ?case by (cases k) (auto simp: as_str_def intro: errs_in_pbind)
qed (auto intro: errs_in_pbind)

lemma strict_json_errors [err_intros]: "errs_in (\<lambda>e. \<exists>msg. e = ValueError msg) (strict_json v label)"
  unfolding strict_json_def by (intro errs_in_pbind visit_refuses) simp

text \<open>C40: The recursive guard \<open>_strict_json\<close> accepts exactly the JSON values (finite numbers, text
  keys, no foreign types) of at most 2,000,000 nodes, nested at most 64 deep, with no array over
  1,000,000 items: the running node counter and the depth argument decide the declarative limits.\<close>

theorem strict_json_exact:
  "strict_json v label = Inr () \<longleftrightarrow>
     json_value v \<and> node_count v \<le> max_json_nodes \<and> nests_within max_json_depth 0 v \<and>
     arrays_within max_sequence_items v"
  by (auto simp: strict_json_def visit_accepts)

end
