(* ===== verification/OracleModel.thy ===== *)
theory OracleModel
  imports OracleInput
begin

text \<open>
  The normalised tolerance rows and documents of \<open>testbench_oracle.py\<close> and the validators that
  build them.  The guard of \<open>OracleInput\<close> runs first, so every object the validators meet has
  text keys.  A row keeps its text fields as an association list, read by \<open>row_field\<close> which
  raises \<open>KeyError\<close> for an absent one, as the subscript does.
\<close>

section \<open>Closed objects and leaf validators\<close>

definition o_refuse :: "string \<Rightarrow> 'a pyres" where
  "o_refuse msg = Inl (ValueError msg)"

text \<open>\<open>item[key]\<close> of an object that passed \<open>_closed\<close> is \<open>dget\<close>.\<close>

definition o_closed :: "pyval \<Rightarrow> string \<Rightarrow> string list \<Rightarrow> string list \<Rightarrow> pydict pyres" where
  "o_closed v label required optional =
     (case as_dict v of
        None \<Rightarrow> o_refuse (label @ '' must be an object'')
      | Some d \<Rightarrow>
          (let missing = sorted_texts (filter (\<lambda>k. k \<notin> set (str_keys d)) required);
               unknown = sorted_texts
                 (filter (\<lambda>k. k \<notin> set required \<and> k \<notin> set optional) (str_keys d))
           in if missing \<noteq> []
              then o_refuse (label @ '' is missing field(s): '' @ join '', '' missing)
              else if unknown \<noteq> []
              then o_refuse (label @ '' has unknown field(s): '' @ join '', '' unknown)
              else Inr d))"

text \<open>
  \<open>islower\<close> of the first character is read as \<open>ascii_lower\<close>: the alphabet check that follows
  admits no other lower-case letter.
\<close>

definition identifier_char :: "char \<Rightarrow> bool" where
  "identifier_char c = (c \<in> set ''abcdefghijklmnopqrstuvwxyz0123456789_'')"

definition identifier_text :: "string \<Rightarrow> bool" where
  "identifier_text s =
     (1 \<le> length s \<and> length s \<le> 120 \<and> ascii_lower (hd s) \<and> list_all identifier_char s)"

definition o_identifier :: "pyval \<Rightarrow> string \<Rightarrow> string pyres" where
  "o_identifier v label =
     (case v of VStr s \<Rightarrow>
        (if identifier_text s then Inr s
         else o_refuse (label @ '' must match ^[a-z][a-z0-9_]{0,119}$''))
      | _ \<Rightarrow> o_refuse (label @ '' must match ^[a-z][a-z0-9_]{0,119}$''))"

definition printable_char :: "char \<Rightarrow> bool" where
  "printable_char c = (\<not> (ord c < 33 \<or> ord c = 127))"

definition field_text :: "string \<Rightarrow> bool" where
  "field_text s = (1 \<le> length s \<and> length s \<le> 256 \<and> list_all printable_char s)"

definition o_field_name :: "pyval \<Rightarrow> string \<Rightarrow> string pyres" where
  "o_field_name v label =
     (case v of VStr s \<Rightarrow>
        (if field_text s then Inr s
         else o_refuse (label @ '' must be a bounded nonempty field name''))
      | _ \<Rightarrow> o_refuse (label @ '' must be a bounded nonempty field name''))"

definition o_string_array :: "pyval \<Rightarrow> string \<Rightarrow> nat \<Rightarrow> nat \<Rightarrow> string list pyres" where
  "o_string_array v label maximum minimum =
     (let refuse = o_refuse (label @ '' must be '' @
            (if minimum = 0 then ''a unique string array'' else ''a nonempty unique string array''))
      in case as_list v of
           None \<Rightarrow> refuse
         | Some items \<Rightarrow>
             (if \<not> (minimum \<le> length items \<and> length items \<le> maximum) then refuse
              else (case map_res (\<lambda>x. case x of VStr s \<Rightarrow> (if field_text s then Inr s else Inl ())
                                  | _ \<Rightarrow> Inl ()) items of
                      Inl u \<Rightarrow> refuse
                    | Inr texts \<Rightarrow> (if distinct texts then Inr texts else refuse))))"

text \<open>\<open>x in {...}\<close> for a set of text: an unhashable \<open>x\<close> raises.\<close>

definition in_text_set :: "pyval \<Rightarrow> string list \<Rightarrow> bool pyres" where
  "in_text_set v ts =
     (if \<not> hashable v then Inl (TypeError (''unhashable type: '' @ repr_text (type_name v)))
      else Inr (case v of VStr s \<Rightarrow> s \<in> set ts | _ \<Rightarrow> False))"

section \<open>Tolerance rows\<close>

record tolerance_limit =
  lim_op :: string
  lim_value :: pyfloat
  lim_unit :: string

datatype row_error =
    AbsoluteError
  | FractionAbsoluteError
  | RelativeError (denominator_floor: pyfloat)
  | GuardedRelativeError (absolute_guard: pyfloat)

record tolerance_row =
  row_name :: string
  row_kind :: string
  row_required :: bool
  row_limit :: tolerance_limit
  row_fields :: "(string \<times> string) list"
  row_error_mode :: "row_error option"
  row_floor :: "pyfloat option"
  row_epsilon :: "pyfloat option"
  row_denominator :: "string option"
  row_observable_names :: "string list option"
  row_condition_names :: "string list option"

record tolerances =
  tol_metrics :: "tolerance_row list"
  tol_lineage_required :: bool

definition row_field :: "tolerance_row \<Rightarrow> string \<Rightarrow> string pyres" where
  "row_field row f =
     (case map_of (row_fields row) f of Some s \<Rightarrow> Inr s | None \<Rightarrow> Inl (KeyError (repr_text f)))"

definition row_key :: "'a option \<Rightarrow> string \<Rightarrow> 'a pyres" where
  "row_key x f = (case x of Some a \<Rightarrow> Inr a | None \<Rightarrow> Inl (KeyError (repr_text f)))"

definition o_limit :: "pyval \<Rightarrow> string \<Rightarrow> tolerance_limit pyres" where
  "o_limit v label =
     pbind (o_closed v label [''op'', ''value'', ''unit''] []) (\<lambda>item.
     pbind (in_text_set (dget item ''op'') [''<='', ''>='']) (\<lambda>known.
       if \<not> known then o_refuse (label @ ''.op must be '' @ repr_text ''<='' @ '' or '' @ repr_text ''>='')
       else case finite_number (dget item ''value'') of
         None \<Rightarrow> o_refuse (label @ ''.value must be finite'')
       | Some x \<Rightarrow>
           (case (as_str (dget item ''op''), as_str (dget item ''unit'')) of
              (Some op, Some unit) \<Rightarrow>
                (if 1 \<le> length unit \<and> length unit \<le> 64
                 then Inr \<lparr>lim_op = op, lim_value = x, lim_unit = unit\<rparr>
                 else o_refuse (label @ ''.unit must be a bounded nonempty string''))
            | _ \<Rightarrow> o_refuse (label @ ''.unit must be a bounded nonempty string''))))"

definition o_error :: "pyval \<Rightarrow> string \<Rightarrow> bool \<Rightarrow> row_error pyres" where
  "o_error v label curve =
     pbind (o_closed v label [''kind''] [''denominator_floor'', ''absolute_guard'']) (\<lambda>item.
     let allowed = [''absolute'', ''relative''] @
           (if curve then [''guarded_relative''] else [''fraction_absolute'']);
         kind = dget item ''kind''
     in pbind (in_text_set kind allowed) (\<lambda>known.
       if \<not> known
       then o_refuse (label @ ''.kind must be one of '' @ join '', '' (sorted_texts allowed))
       else if kind = VStr ''relative''
       then (case finite_number (dget item ''denominator_floor'') of
               Some x \<Rightarrow>
                 (if fle x (PFin 0)
                  then o_refuse (label @ ''.denominator_floor must be explicit and greater than zero'')
                  else if dhas item ''absolute_guard''
                  then o_refuse (label @ ''.absolute_guard is not valid for relative error'')
                  else Inr (RelativeError x))
             | None \<Rightarrow> o_refuse (label @ ''.denominator_floor must be explicit and greater than zero''))
       else if kind = VStr ''guarded_relative''
       then (case finite_number (dget item ''absolute_guard'') of
               Some x \<Rightarrow>
                 (if fle x (PFin 0)
                  then o_refuse (label @ ''.absolute_guard must be explicit and greater than zero'')
                  else if dhas item ''denominator_floor''
                  then o_refuse (label @ ''.denominator_floor is not valid for guarded_relative error'')
                  else Inr (GuardedRelativeError x))
             | None \<Rightarrow> o_refuse (label @ ''.absolute_guard must be explicit and greater than zero''))
       else if \<not> set (str_keys item) \<subseteq> {''kind''}
       then o_refuse (label @ '' declares a guard not used by absolute error'')
       else Inr (if kind = VStr ''absolute'' then AbsoluteError else FractionAbsoluteError)))"

text \<open>One iteration of the loop over the metric rows, with the names already used.\<close>

definition positive_number :: "pyval \<Rightarrow> string \<Rightarrow> pyfloat pyres" where
  "positive_number v msg =
     (case finite_number v of
        Some x \<Rightarrow> (if fle x (PFin 0) then o_refuse msg else Inr x)
      | None \<Rightarrow> o_refuse msg)"

definition nonneg_number :: "pyval \<Rightarrow> string \<Rightarrow> pyfloat pyres" where
  "nonneg_number v msg =
     (case finite_number v of
        Some x \<Rightarrow> (if flt x (PFin 0) then o_refuse msg else Inr x)
      | None \<Rightarrow> o_refuse msg)"

text \<open>\<open>if key in item: row[key] = f(item[key])\<close>.\<close>

definition when_present :: "pydict \<Rightarrow> string \<Rightarrow> (pyval \<Rightarrow> 'a pyres) \<Rightarrow> 'a option pyres" where
  "when_present item key f =
     (if dhas item key then pbind (f (dget item key)) (\<lambda>x. Inr (Some x)) else Inr None)"

definition text_row_fields :: "string list" where
  "text_row_fields =
     [''observed'', ''oracle'', ''observed_source'', ''observed_sink'', ''oracle_source'',
      ''oracle_sink'', ''x'', ''y'']"

definition row_kind_fields :: "pyval \<Rightarrow> (string \<times> string list) option" where
  "row_kind_fields kind =
     (case kind of VStr k \<Rightarrow> map_option (\<lambda>fields. (k, fields)) (map_of row_field_table k) | _ \<Rightarrow> None)"

definition o_denominator :: "string \<Rightarrow> pydict \<Rightarrow> string \<Rightarrow> string option pyres" where
  "o_denominator kind item label =
     (if kind = ''invalid_detection_recall'' \<or> kind = ''false_valid_rate''
      then (let expected = (if kind = ''invalid_detection_recall'' then ''oracle_invalid''
                            else ''submitted_valid'')
            in if dget item ''denominator'' \<noteq> VStr expected
               then o_refuse (label @ ''.denominator must be '' @ repr_text expected)
               else Inr (Some expected))
      else Inr None)"

definition o_row :: "string \<Rightarrow> string list \<Rightarrow> pyval \<Rightarrow> tolerance_row pyres" where
  "o_row label names raw =
     (case as_dict raw of
        None \<Rightarrow> o_refuse (label @ '' must be an object'')
      | Some rd \<Rightarrow>
        (case row_kind_fields (dget rd ''kind'') of
           None \<Rightarrow> o_refuse (label @ ''.kind is unsupported'')
         | Some (kind, flds) \<Rightarrow>
           pbind (o_closed raw label flds []) (\<lambda>item.
           pbind (o_identifier (dget item ''name'') (label @ ''.name'')) (\<lambda>name.
           if name \<in> set names then o_refuse (label @ ''.name duplicates '' @ repr_text name)
           else (case dget item ''required'' of
             VBool required \<Rightarrow>
               pbind (o_limit (dget item ''limit'') (label @ ''.limit'')) (\<lambda>limit.
               pbind (map_res (\<lambda>f. pbind (o_field_name (dget item f) (label @ ''.'' @ f)) (\<lambda>s. Inr (f, s)))
                        (filter (dhas item) text_row_fields)) (\<lambda>texts.
               pbind (when_present item ''error''
                        (\<lambda>v. o_error v (label @ ''.error'') (kind = ''curve''))) (\<lambda>err.
               pbind (when_present item ''denominator_floor''
                        (\<lambda>v. positive_number v (label @ ''.denominator_floor must be greater than zero''))) (\<lambda>flr.
               pbind (when_present item ''zero_epsilon''
                        (\<lambda>v. nonneg_number v (label @ ''.zero_epsilon must be non-negative''))) (\<lambda>eps.
               pbind (o_denominator kind item label) (\<lambda>den.
               pbind (when_present item ''observables''
                        (\<lambda>v. o_string_array v (label @ ''.observables'') 256 1)) (\<lambda>obs.
               pbind (when_present item ''conditions''
                        (\<lambda>v. o_string_array v (label @ ''.conditions'') 256 1)) (\<lambda>conds.
               Inr \<lparr>row_name = name, row_kind = kind, row_required = required, row_limit = limit,
                    row_fields = texts, row_error_mode = err, row_floor = flr, row_epsilon = eps,
                    row_denominator = den, row_observable_names = obs,
                    row_condition_names = conds\<rparr>))))))))
           | _ \<Rightarrow> o_refuse (label @ ''.required must be boolean''))))))"

fun o_rows :: "nat \<Rightarrow> string list \<Rightarrow> pyval list \<Rightarrow> tolerance_row list pyres" where
  "o_rows i names [] = Inr []"
| "o_rows i names (raw # raws) =
     pbind (o_row (''tolerances.metrics['' @ dec_nat i @ '']'') names raw) (\<lambda>row.
     pbind (o_rows (Suc i) (row_name row # names) raws) (\<lambda>rows. Inr (row # rows)))"

definition normalize_tolerances :: "pyval \<Rightarrow> tolerances pyres" where
  "normalize_tolerances v =
     pbind (o_closed v ''tolerances'' [''schema'', ''metrics'', ''lineage_required'', ''extensions''] [])
       (\<lambda>root.
       if dget root ''schema'' \<noteq> VStr tolerance_schema
       then o_refuse (''tolerances.schema must be '' @ repr_text tolerance_schema)
       else if dget root ''extensions'' \<noteq> VDict []
       then o_refuse ''tolerances.extensions must be empty in v1''
       else (case dget root ''lineage_required'' of
         VBool lineage \<Rightarrow>
           (case dget root ''metrics'' of
              VList rows \<Rightarrow>
                (if 1 \<le> length rows \<and> length rows \<le> max_metrics
                 then pbind (o_rows 0 [] rows) (\<lambda>metrics.
                   Inr \<lparr>tol_metrics = metrics, tol_lineage_required = lineage\<rparr>)
                 else o_refuse (''tolerances.metrics must contain 1..'' @ dec_nat max_metrics @ '' rows''))
            | _ \<Rightarrow> o_refuse (''tolerances.metrics must contain 1..'' @ dec_nat max_metrics @ '' rows''))
       | _ \<Rightarrow> o_refuse ''tolerances.lineage_required must be boolean''))"

section \<open>Documents\<close>

record run_metadata =
  md_runtime :: pyval
  md_conditions :: "(string \<times> string list) list"
  md_lineage :: "(string \<times> string list) list"

record document =
  doc_corner :: string
  doc_validity :: pydict
  doc_observables :: pydict
  doc_metadata :: "run_metadata option"

definition is_digest :: "pyval \<Rightarrow> bool" where
  "is_digest v = (case v of VStr s \<Rightarrow> sha256_text s | _ \<Rightarrow> False)"

definition bounded_value :: "nat \<Rightarrow> pyval \<Rightarrow> bool" where
  "bounded_value n v = (case v of VStr s \<Rightarrow> 1 \<le> length s \<and> length s \<le> n | _ \<Rightarrow> False)"

definition first_bad_digest :: "pydict \<Rightarrow> string list \<Rightarrow> string option" where
  "first_bad_digest d flds = find (\<lambda>f. \<not> is_digest (dget d f)) flds"

text \<open>The loops over the conditions and the lineage entries, with the ids seen so far.\<close>

fun o_conditions :: "string \<Rightarrow> nat \<Rightarrow> string list \<Rightarrow> pyval list \<Rightarrow> (string \<times> string list) list pyres"
where
  "o_conditions role i ids [] = Inr []"
| "o_conditions role i ids (c # cs) =
     (let label = role @ ''.metadata.conditions['' @ dec_nat i @ '']''
      in pbind (o_closed c label [''id'', ''observables'', ''receipt''] []) (\<lambda>item.
         pbind (o_field_name (dget item ''id'') (label @ ''.id'')) (\<lambda>ident.
         if ident \<in> set ids
         then o_refuse (role @ ''.metadata condition id '' @ repr_text ident @ '' repeats'')
         else
           pbind (o_string_array (dget item ''observables'') (label @ ''.observables'') 10000 0) (\<lambda>obs.
           pbind (o_closed (dget item ''receipt'') (label @ ''.receipt'')
                    [''compiled_deck_sha256'', ''waveform_sha256''] []) (\<lambda>receipt.
           case first_bad_digest receipt [''compiled_deck_sha256'', ''waveform_sha256''] of
             Some f \<Rightarrow> o_refuse (label @ ''.receipt.'' @ f @ '' must be a lowercase SHA-256'')
           | None \<Rightarrow>
               pbind (o_conditions role (Suc i) (ident # ids) cs) (\<lambda>rest.
                 Inr ((ident, obs) # rest)))))))"

fun o_lineage :: "string \<Rightarrow> string list \<Rightarrow> nat \<Rightarrow> string list \<Rightarrow> pyval list \<Rightarrow>
    (string \<times> string list) list pyres" where
  "o_lineage role condition_ids i names [] = Inr []"
| "o_lineage role condition_ids i names (e # es) =
     (let label = role @ ''.metadata.lineage['' @ dec_nat i @ '']''
      in pbind (o_closed e label [''observable'', ''condition_ids''] []) (\<lambda>item.
         pbind (o_field_name (dget item ''observable'') (label @ ''.observable'')) (\<lambda>name.
         if name \<in> set names
         then o_refuse (role @ ''.metadata lineage for '' @ repr_text name @ '' repeats'')
         else
           pbind (o_string_array (dget item ''condition_ids'') (label @ ''.condition_ids'') 10000 1) (\<lambda>ids.
           let unknown = sorted_texts (filter (\<lambda>c. c \<notin> set condition_ids) ids)
           in if unknown \<noteq> []
              then o_refuse (role @ ''.metadata lineage names unknown condition(s): '' @ join '', '' unknown)
              else
                pbind (o_lineage role condition_ids (Suc i) (name # names) es) (\<lambda>rest.
                  Inr ((name, ids) # rest))))))"

definition o_metadata :: "pyval \<Rightarrow> string \<Rightarrow> run_metadata pyres" where
  "o_metadata v role =
     pbind (o_closed v (role @ ''.metadata'')
              [''grading_runtime_s'', ''conditions'', ''lineage'', ''extensions''] []) (\<lambda>root.
     if dget root ''extensions'' \<noteq> VDict []
     then o_refuse (role @ ''.metadata.extensions must be empty'')
     else
       pbind (nonneg_number (dget root ''grading_runtime_s'')
                (role @ ''.metadata.grading_runtime_s must be non-negative'')) (\<lambda>runtime.
       case dget root ''conditions'' of
         VList cs \<Rightarrow>
           (if 10000 < length cs then o_refuse (role @ ''.metadata.conditions must be a bounded array'')
            else
              pbind (o_conditions role 0 [] cs) (\<lambda>conditions.
              case dget root ''lineage'' of
                VList es \<Rightarrow>
                  (if 10000 < length es then o_refuse (role @ ''.metadata.lineage must be a bounded array'')
                   else
                     pbind (o_lineage role (map fst conditions) 0 [] es) (\<lambda>lineage.
                     Inr \<lparr>md_runtime = dget root ''grading_runtime_s'', md_conditions = conditions,
                          md_lineage = lineage\<rparr>))
              | _ \<Rightarrow> o_refuse (role @ ''.metadata.lineage must be a bounded array'')))
       | _ \<Rightarrow> o_refuse (role @ ''.metadata.conditions must be a bounded array'')))"

definition o_sizing :: "pyval \<Rightarrow> string \<Rightarrow> unit pyres" where
  "o_sizing v role =
     pbind (o_closed v (role @ ''.sizing'') [''topology'', ''parameters''] []) (\<lambda>sizing.
     if \<not> bounded_value 256 (dget sizing ''topology'')
     then o_refuse (role @ ''.sizing.topology must be bounded nonempty text'')
     else (case dget sizing ''parameters'' of
             VDict ps \<Rightarrow>
               (if list_all (\<lambda>(k, p). (case k of VStr s \<Rightarrow> s \<noteq> [] | _ \<Rightarrow> False) \<and> finite_number p \<noteq> None) ps
                then Inr ()
                else o_refuse (role @ ''.sizing.parameters must map nonempty names to finite numbers''))
           | _ \<Rightarrow> o_refuse (role @ ''.sizing.parameters must map nonempty names to finite numbers'')))"

fun o_validity :: "string \<Rightarrow> pydict \<Rightarrow> unit pyres" where
  "o_validity role [] = Inr ()"
| "o_validity role ((k, v) # kvs) =
     (case k of
        VStr key \<Rightarrow>
          (if \<not> bounded_value 256 k
           then o_refuse (role @ ''.validity keys must be bounded nonempty strings'')
           else if \<not> bounded_value 1024 v
           then o_refuse (role @ ''.validity.'' @ key @ '' must be bounded nonempty text'')
           else o_validity role kvs)
      | _ \<Rightarrow> o_refuse (role @ ''.validity keys must be bounded nonempty strings''))"

definition plan_document_fields :: "string list" where
  "plan_document_fields =
     [''schema'', ''plan_sha256'', ''dut_sha256'', ''corner'', ''validity'', ''observables'',
      ''metadata'', ''extensions'']"

text \<open>The two accepted shapes of a document.\<close>

definition o_document_root :: "pyval \<Rightarrow> string \<Rightarrow> pydict pyres" where
  "o_document_root v role =
     pbind (vget v ''schema'') (\<lambda>schema.
     if schema = VStr ''simra.testbench-observables/v1''
     then
       pbind (o_closed v role plan_document_fields []) (\<lambda>root.
       case first_bad_digest root [''plan_sha256'', ''dut_sha256''] of
         Some f \<Rightarrow> o_refuse (role @ ''.'' @ f @ '' must be a lowercase SHA-256'')
       | None \<Rightarrow>
           (if dget root ''extensions'' \<noteq> VDict []
            then o_refuse (role @ ''.extensions must be empty in v1'') else Inr root))
     else
       pbind (o_closed v role [''sizing'', ''corner'', ''validity'', ''observables''] [''metadata'']) (\<lambda>root.
       pbind (o_sizing (dget root ''sizing'') role) (\<lambda>u. Inr root)))"

definition o_document :: "pyval \<Rightarrow> string \<Rightarrow> document pyres" where
  "o_document v role =
     pbind (o_document_root v role) (\<lambda>root.
     case dget root ''corner'' of
       VStr corner \<Rightarrow>
         (if \<not> bounded_value 256 (VStr corner)
          then o_refuse (role @ ''.corner must be bounded nonempty text'')
          else (case dget root ''validity'' of
            VDict validity \<Rightarrow>
              (case dget root ''observables'' of
                 VDict observables \<Rightarrow>
                   pbind (o_validity role validity) (\<lambda>u.
                   let metadata = dget root ''metadata''
                   in pbind (if metadata = VNone then Inr None
                             else pbind (o_metadata metadata role) (\<lambda>m. Inr (Some m))) (\<lambda>md.
                   Inr \<lparr>doc_corner = corner, doc_validity = validity, doc_observables = observables,
                        doc_metadata = md\<rparr>))
               | _ \<Rightarrow> o_refuse (role @ ''.observables must be an object''))
          | _ \<Rightarrow> o_refuse (role @ ''.validity must be an object'')))
     | _ \<Rightarrow> o_refuse (role @ ''.corner must be bounded nonempty text''))"

end
