(* ===== verification/OracleRows.thy ===== *)
theory OracleRows
  imports OracleModel
begin

text \<open>
  The row evaluators of \<open>testbench_oracle.py\<close>: each turns one normalised tolerance row and the two
  documents into a three-valued verdict.  Evidence that is absent or malformed is \<open>Unknown\<close>, never
  an exception; the subscripts and divisions that could raise are kept as such and shown not to.
\<close>

section \<open>Verdicts\<close>

text \<open>The order puts the worse verdict first, so that the verdict of a conjunction is a minimum.\<close>

datatype status = Fail | Unknown | Pass

primrec status_rank :: "status \<Rightarrow> nat" where
  "status_rank Fail = 0"
| "status_rank Unknown = 1"
| "status_rank Pass = 2"

lemma status_rank_inj [simp]: "status_rank a = status_rank b \<longleftrightarrow> a = b"
  by (cases a; cases b) simp_all

instantiation status :: linorder
begin

definition less_eq_status :: "status \<Rightarrow> status \<Rightarrow> bool" where
  "less_eq_status a b = (status_rank a \<le> status_rank b)"

definition less_status :: "status \<Rightarrow> status \<Rightarrow> bool" where
  "less_status a b = (status_rank a < status_rank b)"

instance
  by standard (auto simp: less_eq_status_def less_status_def dest: le_antisym)

end

lemma status_least: "Fail \<le> s" and status_greatest: "s \<le> Pass"
  by (cases s; simp add: less_eq_status_def)+

lemma Unknown_le: "Unknown \<le> s \<longleftrightarrow> s \<noteq> Fail"
  by (cases s) (simp_all add: less_eq_status_def)

record row_result =
  res_name :: string
  res_kind :: string
  res_required :: bool
  res_status :: status
  res_value :: "pyfloat option"
  res_unit :: string
  res_limit :: tolerance_limit
  res_reason :: string
  res_details :: "(string \<times> pyval) list"

definition o_verdict :: "pyfloat \<Rightarrow> tolerance_limit \<Rightarrow> status" where
  "o_verdict err limit =
     (if lim_op limit = ''<='' then (if fle err (lim_value limit) then Pass else Fail)
      else (if fle (lim_value limit) err then Pass else Fail))"

definition o_unknown :: "tolerance_row \<Rightarrow> string \<Rightarrow> row_result" where
  "o_unknown row reason =
     \<lparr>res_name = row_name row, res_kind = row_kind row, res_required = row_required row,
      res_status = Unknown, res_value = None, res_unit = lim_unit (row_limit row),
      res_limit = row_limit row, res_reason = reason, res_details = []\<rparr>"

definition o_measured :: "tolerance_row \<Rightarrow> pyfloat \<Rightarrow> string \<Rightarrow> (string \<times> pyval) list \<Rightarrow> row_result"
where
  "o_measured row x reason details =
     (if \<not> is_finite x
      then o_unknown row ''metric arithmetic overflowed the finite JSON result domain''
      else \<lparr>res_name = row_name row, res_kind = row_kind row, res_required = row_required row,
            res_status = o_verdict x (row_limit row), res_value = Some x,
            res_unit = lim_unit (row_limit row), res_limit = row_limit row, res_reason = reason,
            res_details = details\<rparr>)"

section \<open>Reading the documents\<close>

definition o_numbers :: "pyval \<Rightarrow> pyfloat list option" where
  "o_numbers v =
     (case v of VList xs \<Rightarrow> (if xs = [] then None else those (map finite_number xs)) | _ \<Rightarrow> None)"

definition o_curve :: "pyval \<Rightarrow> string \<Rightarrow> string \<Rightarrow> (pyfloat list \<times> pyfloat list) option" where
  "o_curve v x_name y_name =
     (case v of
        VDict d \<Rightarrow>
          (if set (map fst d) \<noteq> {VStr x_name, VStr y_name} then None
           else (case (o_numbers (dget d x_name), o_numbers (dget d y_name)) of
                   (Some x, Some y) \<Rightarrow> (if length x = length y then Some (x, y) else None)
                 | _ \<Rightarrow> None))
      | _ \<Rightarrow> None)"

definition observable :: "document \<Rightarrow> string \<Rightarrow> pyval" where
  "observable doc name = dget (doc_observables doc) name"

text \<open>The canonical \<open>{x, y}\<close> shape first, then the labels the row declares.\<close>

definition observed_curve :: "pyval \<Rightarrow> string \<Rightarrow> string \<Rightarrow> (pyfloat list \<times> pyfloat list) option" where
  "observed_curve v x_name y_name =
     (case o_curve v ''x'' ''y'' of Some c \<Rightarrow> Some c | None \<Rightarrow> o_curve v x_name y_name)"

text \<open>\<open>m / n\<close> of two counts.\<close>

definition ratio :: "nat \<Rightarrow> nat \<Rightarrow> pyfloat pyres" where
  "ratio m n = (if n = 0 then Inl ZeroDivisionError else Inr (round64 (of_nat m / of_nat n)))"

section \<open>Lineage and inventory\<close>

definition linked_ids :: "run_metadata \<Rightarrow> string \<Rightarrow> string list" where
  "linked_ids md name = (case map_of (md_lineage md) name of Some ids \<Rightarrow> ids | None \<Rightarrow> [])"

definition declared_ids :: "run_metadata \<Rightarrow> string \<Rightarrow> string list" where
  "declared_ids md name = map fst (filter (\<lambda>(c, obs). name \<in> set obs) (md_conditions md))"

definition declared_observables :: "run_metadata \<Rightarrow> string \<Rightarrow> string list" where
  "declared_observables md c = (case map_of (md_conditions md) c of Some obs \<Rightarrow> obs | None \<Rightarrow> [])"

text \<open>
  A coverage is the number covered, the total, and the names of what is missing.  \<open>tally\<close> is the
  loop body that counts one item.
\<close>

type_synonym coverage = "nat \<times> nat \<times> string list"

definition tally :: "bool \<Rightarrow> string \<Rightarrow> coverage \<Rightarrow> coverage" where
  "tally covers name acc =
     (case acc of (covered, all, missing) \<Rightarrow>
        (if covers then (covered + 1, all + 1, missing)
         else (covered, all + 1, missing @ [name])))"

definition observable_linked :: "document \<Rightarrow> run_metadata \<Rightarrow> string \<Rightarrow> bool" where
  "observable_linked doc md name =
     (dhas (doc_observables doc) name \<and> linked_ids md name \<noteq> [] \<and>
      set (linked_ids md name) = set (declared_ids md name))"

definition pair_linked :: "document \<Rightarrow> run_metadata \<Rightarrow> string \<Rightarrow> string \<Rightarrow> bool" where
  "pair_linked doc md c name =
     (dhas (doc_observables doc) name \<and> name \<in> set (declared_observables md c) \<and>
      c \<in> set (linked_ids md name))"

definition lineage_coverage :: "document \<Rightarrow> string list \<Rightarrow> string list option \<Rightarrow> coverage option" where
  "lineage_coverage doc names conditions =
     (case doc_metadata doc of
        None \<Rightarrow> None
      | Some md \<Rightarrow>
          Some (case conditions of
                  None \<Rightarrow> fold (\<lambda>n. tally (observable_linked doc md n) n) names (0, 0, [])
                | Some cs \<Rightarrow>
                    fold (\<lambda>c. fold (\<lambda>n. tally (pair_linked doc md c n) (c @ '':'' @ n)) names) cs (0, 0, [])))"

definition pair_present :: "document \<Rightarrow> run_metadata \<Rightarrow> string \<Rightarrow> string \<Rightarrow> bool" where
  "pair_present doc md c name =
     (dhas (doc_observables doc) name \<and>
      (c = doc_corner doc \<or> name \<in> set (declared_observables md c)))"

definition condition_coverage :: "document \<Rightarrow> string list \<Rightarrow> string list \<Rightarrow> coverage option" where
  "condition_coverage doc names conditions =
     (case doc_metadata doc of
        None \<Rightarrow> None
      | Some md \<Rightarrow>
          Some (fold (\<lambda>c. fold (\<lambda>n. tally (pair_present doc md c n) (c @ '':'' @ n)) names)
                  conditions (0, 0, [])))"

text \<open>\<open>list(dict.fromkeys(...))\<close>: the first occurrences, in order.\<close>

fun first_occurrences :: "string list \<Rightarrow> string list" where
  "first_occurrences [] = []"
| "first_occurrences (x # xs) = x # first_occurrences (removeAll x xs)"

definition row_observables :: "tolerance_row \<Rightarrow> string list" where
  "row_observables row =
     first_occurrences (List.map_filter (map_of (row_fields row))
       [''observed'', ''observed_source'', ''observed_sink''])"

section \<open>The evaluators\<close>

primrec error_kind :: "row_error \<Rightarrow> string" where
  "error_kind AbsoluteError = ''absolute''"
| "error_kind FractionAbsoluteError = ''fraction_absolute''"
| "error_kind (RelativeError x) = ''relative''"
| "error_kind (GuardedRelativeError x) = ''guarded_relative''"

primrec guard_details :: "row_error \<Rightarrow> (string \<times> pyval) list" where
  "guard_details AbsoluteError = []"
| "guard_details FractionAbsoluteError = []"
| "guard_details (RelativeError x) = [(''denominator_floor'', VFloat x)]"
| "guard_details (GuardedRelativeError x) = [(''absolute_guard'', VFloat x)]"

definition in_unit_interval :: "pyfloat \<Rightarrow> bool" where
  "in_unit_interval x = (fle (PFin 0) x \<and> fle x (PFin 1))"

definition scalar_row :: "tolerance_row \<Rightarrow> document \<Rightarrow> document \<Rightarrow> row_result pyres" where
  "scalar_row row obs orc =
     pbind (row_field row ''observed'') (\<lambda>f.
     pbind (row_field row ''oracle'') (\<lambda>g.
     case (finite_number (observable obs f), finite_number (observable orc g)) of
       (Some a, Some b) \<Rightarrow>
         (let delta = fabs (fsub a b)
          in pbind (row_key (row_error_mode row) ''error'') (\<lambda>err.
             if err = FractionAbsoluteError \<and> \<not> (in_unit_interval a \<and> in_unit_interval b)
             then Inr (o_unknown row ''fraction_absolute requires observed and oracle values in [0,1]'')
             else
               pbind (case err of
                   RelativeError flr \<Rightarrow> fdiv delta (fmax (fabs b) flr)
                 | GuardedRelativeError g \<Rightarrow> Inl (KeyError (repr_text ''denominator_floor''))
                 | _ \<Rightarrow> Inr delta) (\<lambda>x.
               Inr (o_measured row x (error_kind err @ '' scalar error evaluated'')
                 ([(''observed'', VFloat a), (''oracle'', VFloat b), (''absolute_error'', VFloat delta)]
                  @ guard_details err)))))
     | _ \<Rightarrow> Inr (o_unknown row ''the observed or oracle scalar is missing or non-finite'')))"

text \<open>
  The error of one point of a curve; \<open>denominator\<close> is what divides the absolute error.
\<close>

definition point_error :: "row_error \<Rightarrow> pyfloat \<times> pyfloat \<Rightarrow> pyfloat pyres" where
  "point_error err p =
     (let absolute = fabs (fsub (fst p) (snd p))
      in case err of
           AbsoluteError \<Rightarrow> Inr absolute
         | RelativeError flr \<Rightarrow> fdiv absolute (fmax (fabs (snd p)) flr)
         | GuardedRelativeError guard \<Rightarrow> fdiv absolute (fmax (fabs (snd p)) guard)
         | FractionAbsoluteError \<Rightarrow> Inl (KeyError (repr_text ''absolute_guard'')))"

text \<open>\<open>max(range(len(errors)), key=errors.__getitem__)\<close>.\<close>

definition worst_index :: "pyfloat list \<Rightarrow> nat" where
  "worst_index errors = argmax flt errors"

definition curve_row :: "tolerance_row \<Rightarrow> document \<Rightarrow> document \<Rightarrow> row_result pyres" where
  "curve_row row obs orc =
     pbind (row_field row ''observed'') (\<lambda>f.
     pbind (row_field row ''x'') (\<lambda>xn.
     pbind (row_field row ''y'') (\<lambda>yn.
     pbind (row_field row ''oracle'') (\<lambda>g.
     case (observed_curve (observable obs f) xn yn, o_curve (observable orc g) xn yn) of
       (Some (ox, oy), Some (rx, ry)) \<Rightarrow>
         (if ox \<noteq> rx then Inr (o_unknown row ''curve domains differ; v1 performs no interpolation'')
          else
            pbind (row_key (row_error_mode row) ''error'') (\<lambda>err.
            pbind (map_res (point_error err) (zip oy ry)) (\<lambda>errors.
            let absolute_errors = map (\<lambda>(a, b). fabs (fsub a b)) (zip oy ry);
                worst = worst_index errors
            in Inr (o_measured row (errors ! worst)
                 (''worst-point '' @ error_kind err @ '' curve error evaluated'')
                 ([(''point_count'', VInt (int (length errors))), (''worst_index'', VInt (int worst)),
                   (''worst_x'', VFloat (rx ! worst)),
                   (''absolute_error'', VFloat (absolute_errors ! worst))] @ guard_details err)))))
     | _ \<Rightarrow> Inr (o_unknown row ''the observed or oracle curve is missing or malformed'')))))"

fun mismatch_loop :: "pyfloat \<Rightarrow> (pyfloat \<times> pyfloat) list \<Rightarrow> pyfloat list option pyres" where
  "mismatch_loop flr [] = Inr (Some [])"
| "mismatch_loop flr ((s, t) # ps) =
     (let denominator = fmax (fabs s) (fabs t)
      in if flt denominator flr then Inr None
         else
           pbind (fdiv (fabs (fsub (fabs s) (fabs t))) denominator) (\<lambda>x.
           pbind (mismatch_loop flr ps) (\<lambda>rest. Inr (map_option (\<lambda>xs. x # xs) rest))))"

definition mismatch_values :: "pyval \<Rightarrow> pyval \<Rightarrow> pyfloat \<Rightarrow> pyfloat list option pyres" where
  "mismatch_values source sink flr =
     (case (o_numbers source, o_numbers sink) of
        (Some ss, Some ts) \<Rightarrow>
          (if length ss = length ts then mismatch_loop flr (zip ss ts) else Inr None)
      | _ \<Rightarrow> Inr None)"

definition mismatch_row :: "tolerance_row \<Rightarrow> document \<Rightarrow> document \<Rightarrow> row_result pyres" where
  "mismatch_row row obs orc =
     pbind (row_key (row_floor row) ''denominator_floor'') (\<lambda>flr.
     pbind (row_field row ''observed_source'') (\<lambda>a.
     pbind (row_field row ''observed_sink'') (\<lambda>b.
     pbind (mismatch_values (observable obs a) (observable obs b) flr) (\<lambda>left.
     pbind (row_field row ''oracle_source'') (\<lambda>c.
     pbind (row_field row ''oracle_sink'') (\<lambda>d.
     pbind (mismatch_values (observable orc c) (observable orc d) flr) (\<lambda>right.
     let absent = o_unknown row
       ''source/sink arrays are missing, unaligned, or below the explicit denominator floor''
     in Inr (case (left, right) of
       (Some ls, Some rs) \<Rightarrow>
         (if length ls \<noteq> length rs then absent
          else
            (let errors = map (\<lambda>(l, r). fabs (fsub l r)) (zip ls rs);
                 worst = worst_index errors
             in o_measured row (errors ! worst) ''worst absolute mismatch-fraction error evaluated''
                  [(''point_count'', VInt (int (length errors))), (''worst_index'', VInt (int worst)),
                   (''observed_fraction'', VFloat (ls ! worst)),
                   (''oracle_fraction'', VFloat (rs ! worst)), (''denominator_floor'', VFloat flr)]))
     | _ \<Rightarrow> absent))))))))"

text \<open>The two endpoints of a compliance observable, under the names of either document.\<close>

definition endpoints :: "pyval \<Rightarrow> string \<Rightarrow> string \<Rightarrow> (pyval \<times> pyval) option" where
  "endpoints v lo hi =
     (case v of
        VDict d \<Rightarrow>
          (if set (map fst d) = {VStr lo, VStr hi} then Some (dget d lo, dget d hi) else None)
      | _ \<Rightarrow> None)"

definition compliance_row :: "tolerance_row \<Rightarrow> document \<Rightarrow> document \<Rightarrow> row_result pyres" where
  "compliance_row row obs orc =
     pbind (row_field row ''observed'') (\<lambda>f.
     pbind (row_field row ''oracle'') (\<lambda>g.
     let left = observable obs f;
         left_ends = (case endpoints left ''lower'' ''upper'' of Some e \<Rightarrow> Some e
                      | None \<Rightarrow> endpoints left ''lo_v'' ''hi_v'');
         absent = o_unknown row
           ''dense-sweep compliance endpoints {lo_v,hi_v} are not present in both documents''
     in Inr (case (left_ends, endpoints (observable orc g) ''lo_v'' ''hi_v'') of
          (Some (la, ha), Some (lb, hb)) \<Rightarrow>
            (case (finite_number la, finite_number ha, finite_number lb, finite_number hb) of
               (Some l, Some h, Some l', Some h') \<Rightarrow>
                 (let lo_error = fabs (fsub l l'); hi_error = fabs (fsub h h')
                  in o_measured row (fmax lo_error hi_error)
                       ''worst absolute compliance-endpoint error evaluated''
                       [(''lo_v'', VFloat lo_error), (''hi_v'', VFloat hi_error)])
             | _ \<Rightarrow> absent)
        | _ \<Rightarrow> absent)))"

text \<open>
  \<open>copysign\<close> is asked only for values outside the zero band, so the sign is that of the number.
\<close>

definition same_sign :: "pyfloat \<Rightarrow> pyfloat \<Rightarrow> bool" where
  "same_sign a b = (flt a (PFin 0) = flt b (PFin 0))"

definition signed_coverage_row :: "tolerance_row \<Rightarrow> document \<Rightarrow> document \<Rightarrow> row_result pyres" where
  "signed_coverage_row row obs orc =
     pbind (row_field row ''observed'') (\<lambda>f.
     pbind (row_field row ''x'') (\<lambda>xn.
     pbind (row_field row ''y'') (\<lambda>yn.
     pbind (row_field row ''oracle'') (\<lambda>g.
     case (observed_curve (observable obs f) xn yn, o_curve (observable orc g) xn yn) of
       (Some (ox, oy), Some (rx, ry)) \<Rightarrow>
         (if ox \<noteq> rx then Inr (o_unknown row ''signed-response domains differ; v1 does no interpolation'')
          else
            pbind (row_key (row_epsilon row) ''zero_epsilon'') (\<lambda>eps.
            let eligible = filter (\<lambda>i. flt eps (fabs (ry ! i))) [0..<length ry]
            in if eligible = []
               then Inr (o_unknown row ''oracle has no response outside the declared zero band'')
               else
                 (let matching = length (filter (\<lambda>i. flt eps (fabs (oy ! i)) \<and> same_sign (oy ! i) (ry ! i)) eligible)
                  in pbind (ratio matching (length eligible)) (\<lambda>x.
                     Inr (o_measured row x ''signed response coverage evaluated''
                       [(''eligible'', VInt (int (length eligible))),
                        (''matching_sign'', VInt (int matching)), (''zero_epsilon'', VFloat eps)])))))
     | _ \<Rightarrow> Inr (o_unknown row ''the signed response curve is absent or malformed'')))))"

subsection \<open>Declared validity\<close>

datatype validity_class = DeclaredValid | DeclaredInvalid | Undeclared

definition reason_in :: "string \<Rightarrow> string \<Rightarrow> bool" where
  "reason_in opening s = (length (opening @ '')'') < length s \<and> take (length opening) s = opening)"

definition classify_validity :: "pyval \<Rightarrow> validity_class" where
  "classify_validity v =
     (case v of
        VStr s \<Rightarrow>
          (if s = ''VALID'' then DeclaredValid
           else if s \<noteq> [] \<and> last s = CHR '')'' \<and> (reason_in ''INVALID('' s \<or> reason_in ''NEEDS_FINE_SWEEP('' s)
           then DeclaredInvalid else Undeclared)
      | _ \<Rightarrow> Undeclared)"

record validity_counts =
  oracle_invalid :: nat
  detected_invalid :: nat
  observed_valid :: nat
  false_valid :: nat
  missing_or_unknown :: nat

definition count_if :: "bool \<Rightarrow> nat \<Rightarrow> nat" where
  "count_if b n = (if b then n + 1 else n)"

definition count_validity ::
  "document \<Rightarrow> document \<Rightarrow> string \<Rightarrow> validity_counts \<Rightarrow> validity_counts" where
  "count_validity obs orc name c =
     (let expected = classify_validity (dget (doc_validity orc) name);
          submitted = classify_validity (dget (doc_validity obs) name);
          c = (if expected = DeclaredInvalid
               then c\<lparr>oracle_invalid := oracle_invalid c + 1,
                      detected_invalid := count_if (submitted = DeclaredInvalid) (detected_invalid c)\<rparr>
               else c);
          c = (if submitted = DeclaredValid \<and> expected \<noteq> Undeclared
               then c\<lparr>observed_valid := observed_valid c + 1,
                      false_valid := count_if (expected = DeclaredInvalid) (false_valid c)\<rparr>
               else c)
      in if expected = Undeclared \<or> submitted = Undeclared
         then c\<lparr>missing_or_unknown := missing_or_unknown c + 1\<rparr> else c)"

definition validity_names :: "document \<Rightarrow> document \<Rightarrow> string list" where
  "validity_names obs orc = sorted_texts (str_keys (doc_validity obs) @ str_keys (doc_validity orc))"

definition count_validities :: "document \<Rightarrow> document \<Rightarrow> validity_counts" where
  "count_validities obs orc =
     fold (count_validity obs orc) (validity_names obs orc)
       \<lparr>oracle_invalid = 0, detected_invalid = 0, observed_valid = 0, false_valid = 0,
        missing_or_unknown = 0\<rparr>"

definition counts_details :: "validity_counts \<Rightarrow> (string \<times> pyval) list" where
  "counts_details c =
     [(''oracle_invalid'', VInt (int (oracle_invalid c))),
      (''detected_invalid'', VInt (int (detected_invalid c))),
      (''observed_valid'', VInt (int (observed_valid c))),
      (''false_valid'', VInt (int (false_valid c))),
      (''missing_or_unknown'', VInt (int (missing_or_unknown c)))]"

definition validity_row :: "tolerance_row \<Rightarrow> document \<Rightarrow> document \<Rightarrow> row_result pyres" where
  "validity_row row obs orc =
     (let counts = count_validities obs orc;
          recall = (row_kind row = ''invalid_detection_recall'');
          denominator = (if recall then oracle_invalid counts else observed_valid counts);
          numerator = (if recall then detected_invalid counts else false_valid counts);
          name = (if recall then ''oracle-invalid declarations'' else ''submitted VALID declarations'')
      in if denominator = 0 then Inr (o_unknown row (''no '' @ name @ '' exist in this comparison''))
         else
           pbind (ratio numerator denominator) (\<lambda>x.
           Inr (o_measured row x
             (if recall then ''invalid recall uses oracle-invalid as its denominator''
              else ''false-valid rate uses submitted VALID as its denominator'')
             (counts_details counts))))"

subsection \<open>Inventory rows\<close>

definition coverage_row ::
  "tolerance_row \<Rightarrow> coverage option \<Rightarrow> string \<Rightarrow> string \<Rightarrow> string \<Rightarrow> string \<Rightarrow> row_result pyres" where
  "coverage_row row cov absent no_denominator reason count_name =
     (case cov of
        None \<Rightarrow> Inr (o_unknown row absent)
      | Some (present, all, missing) \<Rightarrow>
          (if all = 0 then Inr (o_unknown row no_denominator)
           else
             pbind (ratio present all) (\<lambda>x.
             Inr (o_measured row x reason
               [(count_name, VInt (int present)), (''required'', VInt (int all)),
                (''missing'', VList (map VStr (take 128 missing)))]))))"

definition completeness_row :: "tolerance_row \<Rightarrow> document \<Rightarrow> row_result pyres" where
  "completeness_row row obs =
     pbind (row_key (row_observable_names row) ''observables'') (\<lambda>names.
     pbind (row_key (row_condition_names row) ''conditions'') (\<lambda>conditions.
     coverage_row row (condition_coverage obs names conditions)
       ''condition inventory metadata is absent'' ''the completeness denominator is empty''
       ''declared condition-observable completeness evaluated'' ''present''))"

definition runtime_row :: "tolerance_row \<Rightarrow> document \<Rightarrow> row_result pyres" where
  "runtime_row row obs =
     (case doc_metadata obs of
        None \<Rightarrow> Inr (o_unknown row ''grading runtime metadata is absent'')
      | Some md \<Rightarrow>
          (case finite_number (md_runtime md) of
             None \<Rightarrow> Inr (o_unknown row ''grading runtime is missing or non-finite'')
           | Some x \<Rightarrow> Inr (o_measured row x ''reported runner wall-clock duration evaluated'' [])))"

definition lineage_row :: "tolerance_row \<Rightarrow> document \<Rightarrow> row_result pyres" where
  "lineage_row row obs =
     pbind (row_key (row_observable_names row) ''observables'') (\<lambda>names.
     coverage_row row (lineage_coverage obs names (row_condition_names row))
       ''receipt lineage metadata is absent'' ''the lineage denominator is empty''
       ''condition-observable receipt lineage evaluated'' ''covered'')"

definition evaluate_row :: "tolerance_row \<Rightarrow> document \<Rightarrow> document \<Rightarrow> row_result pyres" where
  "evaluate_row row obs orc =
     (let kind = row_kind row
      in if kind = ''scalar'' then scalar_row row obs orc
         else if kind = ''curve'' then curve_row row obs orc
         else if kind = ''mismatch_curve'' then mismatch_row row obs orc
         else if kind = ''compliance_endpoints'' then compliance_row row obs orc
         else if kind = ''signed_response_coverage'' then signed_coverage_row row obs orc
         else if kind \<in> {''invalid_detection_recall'', ''false_valid_rate''}
         then validity_row row obs orc
         else if kind = ''completeness'' then completeness_row row obs
         else if kind = ''grading_runtime'' then runtime_row row obs
         else if kind = ''lineage_presence'' then lineage_row row obs
         else Inl (AssertionError (''unhandled normalized metric kind '' @ repr_text kind)))"

end
