(* ===== verification/OracleCompare.thy ===== *)
theory OracleCompare
  imports OracleRows
begin

text \<open>
  The comparison itself, \<open>compare_testbench_observables\<close>: the guards and validators, one verdict
  per tolerance row, the lineage rule that turns numeric evidence without execution receipts into
  \<open>Unknown\<close>, and the overall verdict.
\<close>

section \<open>The comparison\<close>

record comparison =
  cmp_status :: status
  cmp_corner_match :: bool
  cmp_metrics :: "row_result list"
  cmp_validity :: validity_counts
  cmp_pass :: nat
  cmp_fail :: nat
  cmp_unknown :: nat
  cmp_required :: nat
  cmp_required_pass :: nat
  cmp_required_fail :: nat
  cmp_required_unknown :: nat

definition numeric_kinds :: "string list" where
  "numeric_kinds =
     [''scalar'', ''curve'', ''mismatch_curve'', ''compliance_endpoints'', ''signed_response_coverage'']"

definition oracle_dependent :: "string list" where
  "oracle_dependent = numeric_kinds @ [''invalid_detection_recall'', ''false_valid_rate'']"

definition corner_match :: "document \<Rightarrow> document \<Rightarrow> bool" where
  "corner_match obs orc = (doc_corner obs = doc_corner orc)"

definition require_lineage :: "document \<Rightarrow> tolerance_row \<Rightarrow> row_result \<Rightarrow> row_result" where
  "require_lineage obs row res =
     (case lineage_coverage obs (row_observables row) None of
        None \<Rightarrow> o_unknown row ''numeric evidence has no execution-receipt lineage''
      | Some (covered, all, missing) \<Rightarrow>
          (if covered \<noteq> all
           then o_unknown row (''numeric evidence lacks complete execution-receipt lineage: ''
                               @ join '', '' (take 8 missing))
           else res))"

definition compare_row :: "bool \<Rightarrow> document \<Rightarrow> document \<Rightarrow> tolerance_row \<Rightarrow> row_result pyres" where
  "compare_row lineage obs orc row =
     pbind (if \<not> corner_match obs orc \<and> row_kind row \<in> set oracle_dependent
            then Inr (o_unknown row ''observed and oracle corner identities differ'')
            else evaluate_row row obs orc) (\<lambda>res.
     Inr (if lineage \<and> row_kind row \<in> set numeric_kinds \<and> corner_match obs orc
          then require_lineage obs row res else res))"

definition count_status :: "status \<Rightarrow> row_result list \<Rightarrow> nat" where
  "count_status s rows = length (filter (\<lambda>r. res_status r = s) rows)"

definition summarize :: "bool \<Rightarrow> validity_counts \<Rightarrow> row_result list \<Rightarrow> comparison" where
  "summarize corners validity rows =
     (let required = filter res_required rows;
          required_fail = count_status Fail required;
          required_unknown = count_status Unknown required
      in \<lparr>cmp_status = (if required_fail \<noteq> 0 then Fail
                        else if required_unknown \<noteq> 0 \<or> \<not> corners then Unknown else Pass),
          cmp_corner_match = corners, cmp_metrics = rows, cmp_validity = validity,
          cmp_pass = count_status Pass rows, cmp_fail = count_status Fail rows,
          cmp_unknown = count_status Unknown rows, cmp_required = length required,
          cmp_required_pass = count_status Pass required, cmp_required_fail = required_fail,
          cmp_required_unknown = required_unknown\<rparr>)"

definition compare_documents :: "document \<Rightarrow> document \<Rightarrow> tolerances \<Rightarrow> comparison pyres" where
  "compare_documents obs orc tol =
     pbind (map_res (compare_row (tol_lineage_required tol) obs orc) (tol_metrics tol)) (\<lambda>rows.
     Inr (summarize (corner_match obs orc) (count_validities obs orc) rows))"

definition compare_testbench_observables :: "pyval \<Rightarrow> pyval \<Rightarrow> pyval \<Rightarrow> comparison pyres" where
  "compare_testbench_observables observed oracle tolerances =
     pbind (strict_json observed ''observed'') (\<lambda>u.
     pbind (strict_json oracle ''oracle'') (\<lambda>u.
     pbind (strict_json tolerances ''tolerances'') (\<lambda>u.
     pbind (o_document observed ''observed'') (\<lambda>obs.
     pbind (o_document oracle ''oracle'') (\<lambda>orc.
     pbind (normalize_tolerances tolerances) (\<lambda>tol.
     compare_documents obs orc tol))))))"

section \<open>Which rows normalisation accepts\<close>

definition error_ok :: "bool \<Rightarrow> row_error \<Rightarrow> bool" where
  "error_ok curve err =
     (case err of
        AbsoluteError \<Rightarrow> True
      | FractionAbsoluteError \<Rightarrow> \<not> curve
      | RelativeError x \<Rightarrow> is_finite x \<and> 0 < fval x
      | GuardedRelativeError x \<Rightarrow> curve \<and> is_finite x \<and> 0 < fval x)"

definition limit_ok :: "tolerance_limit \<Rightarrow> bool" where
  "limit_ok l = (lim_op l \<in> {''<='', ''>=''} \<and> is_finite (lim_value l) \<and> lim_unit l \<noteq> [])"

definition row_has :: "tolerance_row \<Rightarrow> string \<Rightarrow> bool" where
  "row_has row f = (\<exists>s. map_of (row_fields row) f = Some s)"

definition row_ok :: "tolerance_row \<Rightarrow> bool" where
  "row_ok row \<longleftrightarrow> limit_ok (row_limit row) \<and>
     (\<exists>flds. map_of row_field_table (row_kind row) = Some flds \<and>
        list_all (row_has row) (filter (\<lambda>f. f \<in> set text_row_fields) flds) \<and>
        (''error'' \<in> set flds \<longrightarrow>
           (\<exists>err. row_error_mode row = Some err \<and> error_ok (row_kind row = ''curve'') err)) \<and>
        (''denominator_floor'' \<in> set flds \<longrightarrow> (\<exists>q>0. row_floor row = Some (PFin q))) \<and>
        (''zero_epsilon'' \<in> set flds \<longrightarrow> (\<exists>q\<ge>0. row_epsilon row = Some (PFin q))) \<and>
        (''observables'' \<in> set flds \<longrightarrow> row_observable_names row \<noteq> None) \<and>
        (''conditions'' \<in> set flds \<longrightarrow> row_condition_names row \<noteq> None))"

lemma finite_number_finite: "finite_number v = Some x \<Longrightarrow> is_finite x"
  by (auto simp: finite_number_def split: option.splits sum.splits if_splits)

lemma o_closed_Inr:
  "o_closed v label req opt = Inr d \<Longrightarrow> v = VDict d \<and> set req \<subseteq> set (str_keys d)"
  by (auto simp: o_closed_def o_refuse_def Let_def as_view_iff filter_empty_conv
      split: option.splits if_splits)

lemma str_keys_dhas_text: "k \<in> set (str_keys d) \<Longrightarrow> k \<noteq> [] \<Longrightarrow> dhas d k"
  by (auto simp: str_keys_def dhas_def split: pyval.splits) (force split: pyval.splits)+

lemma o_limit_ok:
  assumes "o_limit v label = Inr l"
  shows "limit_ok l"
proof -
  obtain item where item: "o_closed v label [''op'', ''value'', ''unit''] [] = Inr item"
    using assms by (auto simp: o_limit_def)
  have "case dget item ''op'' of VStr s \<Rightarrow> s \<in> set [''<='', ''>=''] | _ \<Rightarrow> False"
    using assms item by (auto simp: o_limit_def o_refuse_def in_text_set_def split: if_splits)
  then obtain op where op: "dget item ''op'' = VStr op" "op \<in> {''<='', ''>=''}"
    by (cases "dget item ''op''") auto
  obtain x where x: "finite_number (dget item ''value'') = Some x"
    using assms item op by (cases "finite_number (dget item ''value'')")
      (auto simp: o_limit_def o_refuse_def in_text_set_def)
  obtain u where u: "dget item ''unit'' = VStr u" "1 \<le> length u" "l = \<lparr>lim_op = op, lim_value = x, lim_unit = u\<rparr>"
    using assms item op x by (cases "dget item ''unit''")
      (auto simp: o_limit_def o_refuse_def in_text_set_def as_str_def split: if_splits)
  show ?thesis using op u finite_number_finite [OF x] by (auto simp: limit_ok_def)
qed

lemma finite_positive: "is_finite x \<Longrightarrow> \<not> fle x (PFin 0) \<Longrightarrow> 0 < fval x"
  by (cases x) auto

lemma o_error_ok:
  assumes "o_error v label curve = Inr err"
  shows "error_ok curve err"
proof -
  obtain item where item: "o_closed v label [''kind''] [''denominator_floor'', ''absolute_guard''] = Inr item"
    using assms by (auto simp: o_error_def)
  let ?allowed = "[''absolute'', ''relative''] @ (if curve then [''guarded_relative''] else [''fraction_absolute''])"
  have "case dget item ''kind'' of VStr s \<Rightarrow> s \<in> set ?allowed | _ \<Rightarrow> False"
    using assms item
    by (auto simp: o_error_def o_refuse_def in_text_set_def Let_def simp del: append.simps split: if_splits)
  then obtain kind where kind: "dget item ''kind'' = VStr kind" "kind \<in> set ?allowed"
    by (cases "dget item ''kind''") auto
  show ?thesis
    using assms item kind
    by (cases "finite_number (dget item ''denominator_floor'')";
        cases "finite_number (dget item ''absolute_guard'')")
      (auto simp: o_error_def o_refuse_def error_ok_def in_text_set_def Let_def
        dest!: finite_number_finite intro: finite_positive split: if_splits)
qed

lemma positive_number_ok: "positive_number v msg = Inr x \<Longrightarrow> \<exists>q>0. x = PFin q"
  by (cases x)
    (auto simp: positive_number_def o_refuse_def dest!: finite_number_finite
      split: option.splits if_splits)

lemma nonneg_number_ok: "nonneg_number v msg = Inr x \<Longrightarrow> \<exists>q\<ge>0. x = PFin q"
  by (cases x)
    (auto simp: nonneg_number_def o_refuse_def dest!: finite_number_finite
      split: option.splits if_splits)

lemma when_present_Inr:
  "when_present item key f = Inr r \<Longrightarrow> dhas item key \<Longrightarrow> \<exists>x. r = Some x \<and> f (dget item key) = Inr x"
  by (auto simp: when_present_def)

lemma text_fields_present:
  assumes "map_res (\<lambda>f. pbind (g f) (\<lambda>s. Inr (f, s))) fs = Inr texts" and "f \<in> set fs"
  shows "\<exists>s. map_of texts f = Some s"
proof -
  have "map fst texts = fs"
    using assms(1) by (induction fs arbitrary: texts) auto
  then show ?thesis using assms(2) by (metis list.set_map map_of_eq_None_iff not_None_eq)
qed

text \<open>The pieces a normalised row is assembled from.\<close>

lemma o_row_parts:
  assumes "o_row label names raw = Inr row"
  obtains item flds where
    "map_of row_field_table (row_kind row) = Some flds" and "set flds \<subseteq> set (str_keys item)"
    and "identifier_text (row_name row)" and "row_name row \<notin> set names"
    and "limit_ok (row_limit row)"
    and "map_res (\<lambda>f. pbind (o_field_name (dget item f) (label @ ''.'' @ f)) (\<lambda>s. Inr (f, s)))
           (filter (dhas item) text_row_fields) = Inr (row_fields row)"
    and "when_present item ''error''
           (\<lambda>v. o_error v (label @ ''.error'') (row_kind row = ''curve'')) = Inr (row_error_mode row)"
    and "when_present item ''denominator_floor''
           (\<lambda>v. positive_number v (label @ ''.denominator_floor must be greater than zero''))
         = Inr (row_floor row)"
    and "when_present item ''zero_epsilon''
           (\<lambda>v. nonneg_number v (label @ ''.zero_epsilon must be non-negative'')) = Inr (row_epsilon row)"
    and "when_present item ''observables''
           (\<lambda>v. o_string_array v (label @ ''.observables'') 256 1) = Inr (row_observable_names row)"
    and "when_present item ''conditions''
           (\<lambda>v. o_string_array v (label @ ''.conditions'') 256 1) = Inr (row_condition_names row)"
proof -
  obtain rd where rd: "as_dict raw = Some rd"
    using assms by (cases "as_dict raw") (auto simp: o_row_def o_refuse_def)
  obtain kind flds where k: "row_kind_fields (dget rd ''kind'') = Some (kind, flds)"
    using assms rd by (cases "row_kind_fields (dget rd ''kind'')") (auto simp: o_row_def o_refuse_def)
  have tab: "map_of row_field_table kind = Some flds"
    using k by (auto simp: row_kind_fields_def split: pyval.splits)
  obtain item where item: "o_closed raw label flds [] = Inr item"
    using assms rd k by (auto simp: o_row_def)
  obtain name where name: "o_identifier (dget item ''name'') (label @ ''.name'') = Inr name" "name \<notin> set names"
    using assms rd k item by (auto simp: o_row_def o_refuse_def split: if_splits)
  have ident: "identifier_text name"
    using name(1) by (cases "dget item ''name''") (auto simp: o_identifier_def o_refuse_def split: if_splits)
  obtain req where req: "dget item ''required'' = VBool req"
    using assms rd k item name by (cases "dget item ''required''") (auto simp: o_row_def o_refuse_def)
  note parts = assms [unfolded o_row_def] rd k item name req
  show thesis
    by (rule that [of flds item]; (rule o_limit_ok)?)
      (use parts tab ident o_closed_Inr [OF item] in auto)
qed

lemma o_row_ok:
  assumes "o_row label names raw = Inr row"
  shows "row_ok row"
  using assms
proof (rule o_row_parts)
  fix item flds
  assume tab: "map_of row_field_table (row_kind row) = Some flds"
    and keys: "set flds \<subseteq> set (str_keys item)" and lim: "limit_ok (row_limit row)"
    and texts: "map_res (\<lambda>f. pbind (o_field_name (dget item f) (label @ ''.'' @ f)) (\<lambda>s. Inr (f, s)))
           (filter (dhas item) text_row_fields) = Inr (row_fields row)"
    and err: "when_present item ''error''
           (\<lambda>v. o_error v (label @ ''.error'') (row_kind row = ''curve'')) = Inr (row_error_mode row)"
    and flr: "when_present item ''denominator_floor''
           (\<lambda>v. positive_number v (label @ ''.denominator_floor must be greater than zero''))
         = Inr (row_floor row)"
    and eps: "when_present item ''zero_epsilon''
           (\<lambda>v. nonneg_number v (label @ ''.zero_epsilon must be non-negative'')) = Inr (row_epsilon row)"
    and obs: "when_present item ''observables''
           (\<lambda>v. o_string_array v (label @ ''.observables'') 256 1) = Inr (row_observable_names row)"
    and conds: "when_present item ''conditions''
           (\<lambda>v. o_string_array v (label @ ''.conditions'') 256 1) = Inr (row_condition_names row)"
  have present: "dhas item f" if "f \<in> set flds" "f \<noteq> []" for f
    using that keys by (auto intro: str_keys_dhas_text)
  have "row_has row f" if "f \<in> set flds" "f \<in> set text_row_fields" for f
  proof -
    have "f \<noteq> []" using that(2) by (auto simp: text_row_fields_def)
    then show ?thesis
      unfolding row_has_def using that present [OF that(1)] by (intro text_fields_present [OF texts]) simp
  qed
  then have "list_all (row_has row) (filter (\<lambda>f. f \<in> set text_row_fields) flds)"
    by (auto simp: list_all_iff)
  moreover have "\<exists>e. row_error_mode row = Some e \<and> error_ok (row_kind row = ''curve'') e"
    if "''error'' \<in> set flds"
    using when_present_Inr [OF err present [OF that]] by (auto dest: o_error_ok)
  moreover have "\<exists>q>0. row_floor row = Some (PFin q)" if "''denominator_floor'' \<in> set flds"
    using when_present_Inr [OF flr present [OF that]] by (auto dest: positive_number_ok)
  moreover have "\<exists>q\<ge>0. row_epsilon row = Some (PFin q)" if "''zero_epsilon'' \<in> set flds"
    using when_present_Inr [OF eps present [OF that]] by (auto dest: nonneg_number_ok)
  moreover have "row_observable_names row \<noteq> None" if "''observables'' \<in> set flds"
    using when_present_Inr [OF obs present [OF that]] by auto
  moreover have "row_condition_names row \<noteq> None" if "''conditions'' \<in> set flds"
    using when_present_Inr [OF conds present [OF that]] by auto
  ultimately show "row_ok row"
    unfolding row_ok_def using tab lim by blast
qed

lemma o_rows_ok:
  "o_rows i names raws = Inr rows \<Longrightarrow>
     list_all row_ok rows \<and> distinct (map row_name rows) \<and> set (map row_name rows) \<inter> set names = {} \<and>
     length rows = length raws"
proof (induction i names raws arbitrary: rows rule: o_rows.induct)
  case (2 i names raw raws)
  then obtain row rest where row: "o_row (''tolerances.metrics['' @ dec_nat i @ '']'') names raw = Inr row"
    and rest: "o_rows (Suc i) (row_name row # names) raws = Inr rest" "rows = row # rest"
    by auto
  from "2.IH" [OF row rest(1)] o_row_ok [OF row] o_row_parts [OF row] show ?case
    by (auto simp: rest(2))
qed simp

lemma normalize_tolerances_ok:
  assumes "normalize_tolerances v = Inr tol"
  shows "list_all row_ok (tol_metrics tol) \<and> distinct (map row_name (tol_metrics tol)) \<and>
    tol_metrics tol \<noteq> [] \<and> length (tol_metrics tol) \<le> max_metrics"
proof -
  obtain i raws where "o_rows i [] raws = Inr (tol_metrics tol)" "1 \<le> length raws" "length raws \<le> max_metrics"
    using assms
    by (auto simp: normalize_tolerances_def o_refuse_def split: if_splits pyval.splits)
  then show ?thesis using o_rows_ok by fastforce
qed

end
