(* ===== verification/OracleExample.thy ===== *)
theory OracleExample
  imports OracleCompare
begin

text \<open>
  A concrete comparison, evaluated step by step: a legacy-shaped document compared with itself
  under one scalar row, and a second document with a declared validity, run metadata and a curve.
\<close>

definition example_limit :: pyval where
  "example_limit = obj [(''op'', VStr ''<=''), (''value'', VInt 1), (''unit'', VStr ''dB'')]"

definition example_scalar_row :: pyval where
  "example_scalar_row = obj
     [(''name'', VStr ''gain''), (''kind'', VStr ''scalar''), (''required'', VBool True),
      (''limit'', example_limit), (''observed'', VStr ''gain''), (''oracle'', VStr ''gain''),
      (''error'', obj [(''kind'', VStr ''absolute'')])]"

definition example_tolerances :: "bool \<Rightarrow> pyval" where
  "example_tolerances lineage = obj
     [(''schema'', VStr tolerance_schema), (''metrics'', VList [example_scalar_row]),
      (''lineage_required'', VBool lineage), (''extensions'', VDict [])]"

definition example_digest :: string where
  "example_digest = replicate 64 (CHR ''a'')"

definition example_metadata :: pyval where
  "example_metadata = obj
     [(''grading_runtime_s'', VInt 2),
      (''conditions'', VList [obj
        [(''id'', VStr ''c1''), (''observables'', VList [VStr ''gain'']),
         (''receipt'', obj [(''compiled_deck_sha256'', VStr example_digest),
                            (''waveform_sha256'', VStr example_digest)])]]),
      (''lineage'', VList [obj [(''observable'', VStr ''gain''), (''condition_ids'', VList [VStr ''c1''])]]),
      (''extensions'', VDict [])]"

definition example_document :: "string \<Rightarrow> pyval" where
  "example_document corner = obj
     [(''sizing'', obj [(''topology'', VStr ''ota''), (''parameters'', VDict [])]),
      (''corner'', VStr corner), (''validity'', obj [(''swing'', VStr ''INVALID(range)'')]),
      (''observables'', obj [(''gain'', VInt 3)]), (''metadata'', example_metadata)]"

definition example_run :: run_metadata where
  "example_run =
     \<lparr>md_runtime = VInt 2, md_conditions = [(''c1'', [''gain''])], md_lineage = [(''gain'', [''c1''])]\<rparr>"

definition example_doc :: "string \<Rightarrow> document" where
  "example_doc corner =
     \<lparr>doc_corner = corner, doc_validity = [(VStr ''swing'', VStr ''INVALID(range)'')],
      doc_observables = [(VStr ''gain'', VInt 3)], doc_metadata = Some example_run\<rparr>"

definition example_row :: tolerance_row where
  "example_row =
     \<lparr>row_name = ''gain'', row_kind = ''scalar'', row_required = True,
      row_limit = \<lparr>lim_op = ''<='', lim_value = PFin 1, lim_unit = ''dB''\<rparr>,
      row_fields = [(''observed'', ''gain''), (''oracle'', ''gain'')],
      row_error_mode = Some AbsoluteError, row_floor = None, row_epsilon = None,
      row_denominator = None, row_observable_names = None, row_condition_names = None\<rparr>"

lemma float_of_int_small:
  "\<bar>i\<bar> \<le> 2 ^ 53 \<Longrightarrow> float_of_int i = Inr (PFin (of_int i))"
  using finite64_of_int [of i] by (simp add: float_of_int_def finite64_def)

lemma finite_number_small:
  "\<bar>i\<bar> \<le> 2 ^ 53 \<Longrightarrow> finite_number (VInt i) = Some (PFin (of_int i))"
  by (simp add: finite_number_def as_number_def float_of_int_small)

lemma example_digest_ok: "sha256_text example_digest"
  by (simp add: example_digest_def sha256_text_def lower_hex_def list_all_iff)

lemma example_tolerances_json: "strict_json (example_tolerances lineage) label = Inr ()"
  by (simp add: strict_json_def visit_accepts example_tolerances_def example_scalar_row_def
      example_limit_def obj_def max_json_nodes_def max_json_depth_def max_sequence_items_def)

lemma example_document_json: "strict_json (example_document corner) label = Inr ()"
  by (simp add: strict_json_def visit_accepts example_document_def example_metadata_def
      obj_def max_json_nodes_def max_json_depth_def max_sequence_items_def)

lemmas parse_simps = o_closed_def o_refuse_def str_keys_def sorted_texts_def obj_def
  in_text_set_def when_present_def dhas_def as_dict_def as_list_def as_str_def Let_def

lemma example_limit_parsed:
  "o_limit example_limit label = Inr \<lparr>lim_op = ''<='', lim_value = PFin 1, lim_unit = ''dB''\<rparr>"
  by (simp add: o_limit_def example_limit_def parse_simps finite_number_small)

lemma example_row_parsed: "o_row label [] example_scalar_row = Inr example_row"
  by (simp add: o_row_def example_scalar_row_def parse_simps row_kind_fields_def row_field_table_def
      common_row_fields_def text_row_fields_def o_identifier_def identifier_text_def identifier_char_def
      ascii_lower_def o_field_name_def field_text_def printable_char_def ord_def o_error_def
      o_denominator_def example_limit_parsed example_row_def)

lemma example_tolerances_parsed:
  "normalize_tolerances (example_tolerances lineage) =
     Inr \<lparr>tol_metrics = [example_row], tol_lineage_required = lineage\<rparr>"
  by (simp add: normalize_tolerances_def example_tolerances_def parse_simps max_metrics_def
      example_row_parsed)

lemma example_metadata_parsed: "o_metadata example_metadata role = Inr example_run"
  by (simp add: o_metadata_def example_metadata_def parse_simps nonneg_number_def finite_number_small
      o_field_name_def field_text_def printable_char_def ord_def o_string_array_def first_bad_digest_def
      is_digest_def example_digest_ok example_run_def)

lemma example_document_parsed:
  assumes "1 \<le> length corner" "length corner \<le> 256"
  shows "o_document (example_document corner) role = Inr (example_doc corner)"
proof -
  have "example_metadata \<noteq> VNone" by (simp add: example_metadata_def obj_def)
  then show ?thesis using assms
    by (simp add: o_document_def o_document_root_def example_document_def vget_def parse_simps o_sizing_def
        bounded_value_def example_metadata_parsed example_doc_def)
qed

lemma example_row_evaluated:
  "\<exists>res. compare_row lineage (example_doc corner) (example_doc corner) example_row = Inr res \<and>
     res_status res = Pass \<and> res_required res"
  by (simp add: compare_row_def evaluate_row_def example_row_def scalar_row_def row_field_def row_key_def
      observable_def example_doc_def example_run_def finite_number_small fsub_def o_measured_def o_verdict_def
      corner_match_def require_lineage_def lineage_coverage_def row_observables_def List.map_filter_def
      tally_def observable_linked_def linked_ids_def declared_ids_def dhas_def Let_def)

lemma example_compares:
  "\<exists>cmp. compare_testbench_observables (example_document ''tt'') (example_document ''tt'')
           (example_tolerances lineage) = Inr cmp \<and> cmp_status cmp = Pass"
proof -
  obtain res where "compare_row lineage (example_doc ''tt'') (example_doc ''tt'') example_row = Inr res"
      "res_status res = Pass" "res_required res"
    using example_row_evaluated by blast
  then show ?thesis
    by (simp add: compare_testbench_observables_def example_tolerances_json example_document_json
        example_tolerances_parsed example_document_parsed compare_documents_def summarize_def
        corner_match_def count_status_def Let_def)
qed

lemma example_mismatch:
  "\<exists>cmp. compare_testbench_observables (example_document ''ss'') (example_document ''tt'')
           (example_tolerances lineage) = Inr cmp"
  by (simp add: compare_testbench_observables_def example_tolerances_json example_document_json
      example_tolerances_parsed example_document_parsed compare_documents_def compare_row_def
      corner_match_def example_doc_def example_row_def oracle_dependent_def numeric_kinds_def)

end
