(* ===== verification/OracleVerdict.thy ===== *)
theory OracleVerdict
  imports OracleExample
begin

text \<open>
  What the comparison of \<open>testbench_oracle.py\<close> guarantees: every normalised row evaluates, the
  overall verdict is the worst required one, a pass carries its evidence, and the counts and
  coverages are what their names say.
\<close>

section \<open>Every normalised row evaluates\<close>

text \<open>
  A result belongs to a row when it repeats the row and is either \<open>Unknown\<close> without a value or the
  verdict of a finite value.
\<close>

definition result_of :: "tolerance_row \<Rightarrow> row_result \<Rightarrow> bool" where
  "result_of row res \<longleftrightarrow>
     res_name res = row_name row \<and> res_kind res = row_kind row \<and>
     res_required res = row_required row \<and> res_limit res = row_limit row \<and>
     (case res_value res of
        None \<Rightarrow> res_status res = Unknown
      | Some x \<Rightarrow> is_finite x \<and> res_status res = o_verdict x (row_limit row))"

definition evaluates :: "tolerance_row \<Rightarrow> row_result pyres \<Rightarrow> bool" where
  "evaluates row m \<longleftrightarrow> (\<exists>res. m = Inr res \<and> result_of row res)"

named_theorems row_evals \<open>which computations yield a result of their row\<close>

lemma result_of_unknown [row_evals]: "result_of row (o_unknown row reason)"
  by (simp add: result_of_def o_unknown_def)

lemma result_of_measured [row_evals]: "result_of row (o_measured row x reason details)"
  using result_of_unknown by (auto simp: o_measured_def result_of_def)

lemma evaluates_Inr [row_evals]: "result_of row res \<Longrightarrow> evaluates row (Inr res)"
  by (simp add: evaluates_def)

lemma evaluates_pbind [row_evals]:
  "\<exists>a. m = Inr a \<Longrightarrow> (\<And>a. m = Inr a \<Longrightarrow> evaluates row (f a)) \<Longrightarrow> evaluates row (pbind m f)"
  by auto

lemma evaluates_if [row_evals]:
  "(b \<Longrightarrow> evaluates row m) \<Longrightarrow> (\<not> b \<Longrightarrow> evaluates row n) \<Longrightarrow> evaluates row (if b then m else n)"
  by simp

lemma row_has_iff: "row_has row f \<longleftrightarrow> (\<exists>s. row_field row f = Inr s)"
  by (auto simp: row_has_def row_field_def split: option.splits)

lemma fdiv_nonzero: "q \<noteq> 0 \<Longrightarrow> \<exists>y. fdiv x (PFin q) = Inr y"
  by (cases x) simp_all

lemma row_key_Some [simp]: "row_key (Some x) f = Inr x"
  by (simp add: row_key_def)

lemma row_key_total: "x \<noteq> None \<Longrightarrow> \<exists>a. row_key x f = Inr a"
  by (auto simp: row_key_def)

lemma ratio_total: "n \<noteq> 0 \<Longrightarrow> \<exists>x. ratio m n = Inr x"
  by (simp add: ratio_def)

lemma fdiv_guarded:
  "is_finite g \<Longrightarrow> 0 < fval g \<Longrightarrow> is_finite b \<Longrightarrow> \<exists>x. fdiv a (fmax (fabs b) g) = Inr x"
  by (cases g; cases b; cases a) (auto simp: fmax_def)

lemma those_Some: "those xs = Some ys \<Longrightarrow> xs = map Some ys"
  by (induction xs arbitrary: ys) (auto split: option.splits)

lemma o_numbers_finite: "o_numbers v = Some xs \<Longrightarrow> list_all is_finite xs \<and> xs \<noteq> []"
proof -
  assume n: "o_numbers v = Some xs"
  then obtain vs where vs: "vs \<noteq> []" "those (map finite_number vs) = Some xs"
    by (auto simp: o_numbers_def split: pyval.splits if_splits)
  have m: "map finite_number vs = map Some xs" by (rule those_Some [OF vs(2)])
  have "is_finite x" if "x \<in> set xs" for x
  proof -
    have "Some x \<in> set (map finite_number vs)" using that m by simp
    then show ?thesis using finite_number_finite by auto
  qed
  then show ?thesis using m vs(1) by (auto simp: list_all_iff)
qed

lemma o_curve_Some:
  assumes "o_curve v a b = Some (x, y)"
  shows "list_all is_finite x \<and> list_all is_finite y \<and> length x = length y \<and> x \<noteq> []"
  using assms o_numbers_finite
  by (auto simp: o_curve_def split: pyval.splits if_splits option.splits)

lemma observed_curve_Some:
  assumes "observed_curve v a b = Some (x, y)"
  shows "list_all is_finite x \<and> list_all is_finite y \<and> length x = length y \<and> x \<noteq> []"
  using assms o_curve_Some by (auto simp: observed_curve_def split: option.splits)

text \<open>What each kind of row carries.\<close>

lemmas row_table = row_ok_def row_field_table_def common_row_fields_def text_row_fields_def

lemma row_ok_scalar:
  "row_ok row \<Longrightarrow> row_kind row = ''scalar'' \<Longrightarrow>
   row_has row ''observed'' \<and> row_has row ''oracle'' \<and>
   (\<exists>err. row_error_mode row = Some err \<and> error_ok False err)"
  by (simp add: row_table)

lemma row_ok_curve:
  "row_ok row \<Longrightarrow> row_kind row = ''curve'' \<Longrightarrow>
   row_has row ''observed'' \<and> row_has row ''oracle'' \<and> row_has row ''x'' \<and> row_has row ''y'' \<and>
   (\<exists>err. row_error_mode row = Some err \<and> error_ok True err)"
  by (simp add: row_table)

lemma row_ok_mismatch:
  "row_ok row \<Longrightarrow> row_kind row = ''mismatch_curve'' \<Longrightarrow>
   row_has row ''observed_source'' \<and> row_has row ''observed_sink'' \<and> row_has row ''oracle_source'' \<and>
   row_has row ''oracle_sink'' \<and> (\<exists>q>0. row_floor row = Some (PFin q))"
  by (simp add: row_table)

lemma row_ok_compliance:
  "row_ok row \<Longrightarrow> row_kind row = ''compliance_endpoints'' \<Longrightarrow>
   row_has row ''observed'' \<and> row_has row ''oracle''"
  by (simp add: row_table)

lemma row_ok_signed:
  "row_ok row \<Longrightarrow> row_kind row = ''signed_response_coverage'' \<Longrightarrow>
   row_has row ''observed'' \<and> row_has row ''oracle'' \<and> row_has row ''x'' \<and> row_has row ''y'' \<and>
   (\<exists>q\<ge>0. row_epsilon row = Some (PFin q))"
  by (simp add: row_table)

lemma row_ok_inventory:
  "row_ok row \<Longrightarrow> row_kind row = ''completeness'' \<or> row_kind row = ''lineage_presence'' \<Longrightarrow>
   row_observable_names row \<noteq> None \<and> row_condition_names row \<noteq> None"
  by (elim disjE) (simp_all add: row_table)

lemma row_ok_kind:
  "row_ok row \<Longrightarrow> row_kind row \<in> {''scalar'', ''curve'', ''mismatch_curve'', ''compliance_endpoints'',
     ''signed_response_coverage'', ''invalid_detection_recall'', ''false_valid_rate'',
     ''completeness'', ''grading_runtime'', ''lineage_presence''}"
  by (simp add: row_ok_def row_field_table_def split: if_splits)

lemma scalar_row_total [row_evals]:
  assumes "row_ok row" "row_kind row = ''scalar''"
  shows "evaluates row (scalar_row row obs orc)"
proof -
  obtain f g err where f: "row_field row ''observed'' = Inr f" "row_field row ''oracle'' = Inr g"
    and err: "row_error_mode row = Some err" "error_ok False err"
    using row_ok_scalar [OF assms] unfolding row_has_iff by blast
  show ?thesis
  proof (cases "finite_number (observable obs f)"; cases "finite_number (observable orc g)")
    fix a b assume ab: "finite_number (observable obs f) = Some a" "finite_number (observable orc g) = Some b"
    have fin: "is_finite b" by (rule finite_number_finite [OF ab(2)])
    have "\<exists>x. (case err of RelativeError flr \<Rightarrow> fdiv (fabs (fsub a b)) (fmax (fabs b) flr)
        | GuardedRelativeError g \<Rightarrow> Inl (KeyError (repr_text ''denominator_floor''))
        | _ \<Rightarrow> Inr (fabs (fsub a b))) = Inr x"
      using err(2) fdiv_guarded [OF _ _ fin] by (cases err) (auto simp: error_ok_def)
    then show ?thesis using f err ab
      by (auto simp: scalar_row_def Let_def intro!: row_evals)
  qed (use f in \<open>auto simp: scalar_row_def intro!: row_evals\<close>)
qed

lemma point_error_total:
  assumes "error_ok True err" "is_finite (snd p)"
  shows "\<exists>x. point_error err p = Inr x"
  using assms fdiv_guarded [OF _ _ assms(2)]
  by (cases err) (auto simp: error_ok_def point_error_def Let_def)

lemma curve_row_total [row_evals]:
  assumes "row_ok row" "row_kind row = ''curve''"
  shows "evaluates row (curve_row row obs orc)"
proof -
  obtain f g xn yn err where f: "row_field row ''observed'' = Inr f" "row_field row ''oracle'' = Inr g"
      "row_field row ''x'' = Inr xn" "row_field row ''y'' = Inr yn"
    and err: "row_error_mode row = Some err" "error_ok True err"
    using row_ok_curve [OF assms] unfolding row_has_iff by blast
  have total: "\<exists>es. map_res (point_error err) (zip oy ry) = Inr es"
    if "o_curve (observable orc g) xn yn = Some (rx, ry)" for rx ry oy
    using o_curve_Some [OF that]
    by (intro map_res_total point_error_total err(2)) (auto dest!: set_zip_rightD simp: list_all_iff)
  show ?thesis
  proof (cases "observed_curve (observable obs f) xn yn"; cases "o_curve (observable orc g) xn yn")
    fix c d assume cd: "observed_curve (observable obs f) xn yn = Some c" "o_curve (observable orc g) xn yn = Some d"
    obtain ox oy rx ry where p: "c = (ox, oy)" "d = (rx, ry)" by (cases c; cases d)
    obtain es where es: "map_res (point_error err) (zip oy ry) = Inr es"
      using total cd(2) p(2) by blast
    show ?thesis
      by (simp add: curve_row_def Let_def f err cd p es evaluates_def result_of_unknown result_of_measured)
  qed (use f in \<open>auto simp: curve_row_def intro!: row_evals\<close>)
qed

lemma mismatch_loop_total:
  "0 < q \<Longrightarrow> list_all (\<lambda>(s, t). is_finite s \<and> is_finite t) ps \<Longrightarrow> \<exists>r. mismatch_loop (PFin q) ps = Inr r"
proof (induction "PFin q" ps rule: mismatch_loop.induct)
  case (2 s t ps)
  then obtain a b where "s = PFin a" "t = PFin b" by (auto simp: is_finite_iff)
  then obtain e where e: "fmax (fabs s) (fabs t) = PFin e"
    by (cases "\<bar>a\<bar> < \<bar>b\<bar>") (simp_all add: fmax_def)
  show ?case
  proof (cases "e < q")
    case True
    then show ?thesis using e by (simp add: Let_def)
  next
    case False
    then have "e \<noteq> 0" using "2.prems"(1) by auto
    then obtain x where "fdiv (fabs (fsub (fabs s) (fabs t))) (PFin e) = Inr x"
      using fdiv_nonzero by blast
    then show ?thesis using 2 e False by (auto simp: Let_def)
  qed
qed simp

lemma mismatch_values_total:
  assumes "0 < q"
  shows "\<exists>r. mismatch_values a b (PFin q) = Inr r"
proof (cases "o_numbers a"; cases "o_numbers b")
  fix ss ts assume n: "o_numbers a = Some ss" "o_numbers b = Some ts"
  have "list_all (\<lambda>(s, t). is_finite s \<and> is_finite t) (zip ss ts)"
    using o_numbers_finite [OF n(1)] o_numbers_finite [OF n(2)]
    by (auto simp: list_all_iff dest: set_zip_leftD set_zip_rightD)
  then show ?thesis using n mismatch_loop_total [OF assms] by (simp add: mismatch_values_def)
qed (auto simp: mismatch_values_def)

lemma mismatch_row_total [row_evals]:
  assumes "row_ok row" "row_kind row = ''mismatch_curve''"
  shows "evaluates row (mismatch_row row obs orc)"
proof -
  obtain a b c d q where f: "row_field row ''observed_source'' = Inr a" "row_field row ''observed_sink'' = Inr b"
      "row_field row ''oracle_source'' = Inr c" "row_field row ''oracle_sink'' = Inr d"
    and q: "0 < q" "row_floor row = Some (PFin q)"
    using row_ok_mismatch [OF assms] unfolding row_has_iff by blast
  obtain l r where lr: "mismatch_values (observable obs a) (observable obs b) (PFin q) = Inr l"
      "mismatch_values (observable orc c) (observable orc d) (PFin q) = Inr r"
    using mismatch_values_total [OF q(1)] by blast
  show ?thesis using f q lr
    by (cases l; cases r) (auto simp: mismatch_row_def Let_def intro!: row_evals)
qed

lemma compliance_row_total [row_evals]:
  assumes "row_ok row" "row_kind row = ''compliance_endpoints''"
  shows "evaluates row (compliance_row row obs orc)"
proof -
  obtain f g where "row_field row ''observed'' = Inr f" "row_field row ''oracle'' = Inr g"
    using row_ok_compliance [OF assms] unfolding row_has_iff by blast
  then show ?thesis
    by (simp add: compliance_row_def Let_def evaluates_def result_of_unknown result_of_measured
        split: option.split prod.split)
qed

lemma signed_coverage_row_total [row_evals]:
  assumes "row_ok row" "row_kind row = ''signed_response_coverage''"
  shows "evaluates row (signed_coverage_row row obs orc)"
proof -
  obtain f g xn yn q where f: "row_field row ''observed'' = Inr f" "row_field row ''oracle'' = Inr g"
      "row_field row ''x'' = Inr xn" "row_field row ''y'' = Inr yn"
    and q: "row_epsilon row = Some (PFin q)"
    using row_ok_signed [OF assms] unfolding row_has_iff by blast
  show ?thesis
  proof (cases "observed_curve (observable obs f) xn yn"; cases "o_curve (observable orc g) xn yn")
    fix c d assume cd: "observed_curve (observable obs f) xn yn = Some c" "o_curve (observable orc g) xn yn = Some d"
    obtain ox oy rx ry where p: "c = (ox, oy)" "d = (rx, ry)" by (cases c; cases d)
    show ?thesis
      by (simp add: signed_coverage_row_def f q cd p Let_def evaluates_Inr result_of_unknown)
        (intro impI evaluates_pbind ratio_total row_evals; simp)
  qed (use f in \<open>auto simp: signed_coverage_row_def intro!: row_evals\<close>)
qed

lemma validity_row_total [row_evals]: "evaluates row (validity_row row obs orc)"
  by (auto simp: validity_row_def Let_def intro!: row_evals ratio_total)

lemma coverage_row_total [row_evals]: "evaluates row (coverage_row row cov a b c d)"
  by (auto simp: coverage_row_def intro!: row_evals ratio_total split: option.splits)

lemma runtime_row_total [row_evals]: "evaluates row (runtime_row row obs)"
  by (auto simp: runtime_row_def intro!: row_evals split: option.splits)

lemma completeness_row_total [row_evals]:
  assumes "row_ok row" "row_kind row = ''completeness''"
  shows "evaluates row (completeness_row row obs)"
  unfolding completeness_row_def
  using row_ok_inventory [OF assms(1)] assms(2) by (intro row_evals row_key_total) simp_all

lemma lineage_row_total [row_evals]:
  assumes "row_ok row" "row_kind row = ''lineage_presence''"
  shows "evaluates row (lineage_row row obs)"
  unfolding lineage_row_def
  using row_ok_inventory [OF assms(1)] assms(2) by (intro row_evals row_key_total) simp_all

lemma evaluate_row_total [row_evals]:
  assumes "row_ok row"
  shows "evaluates row (evaluate_row row obs orc)"
  using row_ok_kind [OF assms] assms
  by (auto simp: evaluate_row_def intro: row_evals)

lemma compare_row_total:
  assumes "row_ok row"
  shows "evaluates row (compare_row lineage obs orc row)"
proof -
  have lin: "result_of row (require_lineage obs row res)" if "result_of row res" for res
    using that by (auto simp: require_lineage_def intro: row_evals split: option.splits)
  obtain res where res: "evaluate_row row obs orc = Inr res" "result_of row res"
    using evaluate_row_total [OF assms, of obs orc] by (auto simp: evaluates_def)
  show ?thesis
    by (simp add: compare_row_def evaluates_def res lin result_of_unknown)
qed

lemma compare_row_result:
  "row_ok row \<Longrightarrow> compare_row lineage obs orc row = Inr res \<Longrightarrow> result_of row res"
  using compare_row_total [of row lineage obs orc] by (auto simp: evaluates_def)

section \<open>Which exceptions the validators raise\<close>

definition contract_error :: "pyexc \<Rightarrow> bool" where
  "contract_error e = (case e of ValueError m \<Rightarrow> True | TypeError m \<Rightarrow> True | _ \<Rightarrow> False)"

named_theorems oracle_errs \<open>which exceptions the validators of the comparator raise\<close>

lemma contract_error_simps [simp]: "contract_error (ValueError m)" "contract_error (TypeError m)"
  by (simp_all add: contract_error_def)

lemma o_refuse_errs [oracle_errs]: "errs_in contract_error (o_refuse m)"
  by (simp add: o_refuse_def)

lemma Inr_errs [oracle_errs]: "errs_in contract_error (Inr a)"
  by simp

lemma strict_json_errs [oracle_errs]: "errs_in contract_error (strict_json v label)"
  by (rule errs_in_mono [OF strict_json_errors]) auto

lemma o_closed_errs [oracle_errs]: "errs_in contract_error (o_closed v label req opt)"
  unfolding o_closed_def Let_def by (intro err_intros oracle_errs)

lemma pyval_case_errs:
  "(\<And>s. v = VStr s \<Longrightarrow> errs_in P (f s)) \<Longrightarrow> errs_in P m \<Longrightarrow> errs_in P (case v of VStr s \<Rightarrow> f s | _ \<Rightarrow> m)"
  "(\<And>b. v = VBool b \<Longrightarrow> errs_in P (g b)) \<Longrightarrow> errs_in P m \<Longrightarrow> errs_in P (case v of VBool b \<Rightarrow> g b | _ \<Rightarrow> m)"
  "(\<And>d. v = VDict d \<Longrightarrow> errs_in P (h d)) \<Longrightarrow> errs_in P m \<Longrightarrow> errs_in P (case v of VDict d \<Rightarrow> h d | _ \<Rightarrow> m)"
  "(\<And>xs. v = VList xs \<Longrightarrow> errs_in P (k xs)) \<Longrightarrow> errs_in P m \<Longrightarrow> errs_in P (case v of VList xs \<Rightarrow> k xs | _ \<Rightarrow> m)"
  by (cases v; simp)+

lemma o_identifier_errs [oracle_errs]: "errs_in contract_error (o_identifier v label)"
  unfolding o_identifier_def by (intro pyval_case_errs err_intros oracle_errs)

lemma o_field_name_errs [oracle_errs]: "errs_in contract_error (o_field_name v label)"
  unfolding o_field_name_def by (intro pyval_case_errs err_intros oracle_errs)

lemma o_string_array_errs [oracle_errs]: "errs_in contract_error (o_string_array v label m n)"
  by (auto simp: o_string_array_def o_refuse_def Let_def split: option.split sum.split)

lemma in_text_set_errs [oracle_errs]: "errs_in contract_error (in_text_set v ts)"
  by (simp add: in_text_set_def)

lemma number_errs [oracle_errs]:
  "errs_in contract_error (positive_number v m)" "errs_in contract_error (nonneg_number v m)"
  by (auto simp: positive_number_def nonneg_number_def o_refuse_def split: option.split)

lemma o_limit_errs [oracle_errs]: "errs_in contract_error (o_limit v label)"
  unfolding o_limit_def
  by (intro err_intros oracle_errs) (auto simp: o_refuse_def split: option.split)

lemma o_error_errs [oracle_errs]: "errs_in contract_error (o_error v label curve)"
  unfolding o_error_def Let_def by (intro err_intros oracle_errs)

lemma when_present_errs [oracle_errs]:
  "errs_in contract_error (f (dget item key)) \<Longrightarrow> errs_in contract_error (when_present item key f)"
  unfolding when_present_def by (intro err_intros oracle_errs)

lemma o_denominator_errs [oracle_errs]: "errs_in contract_error (o_denominator kind item label)"
  unfolding o_denominator_def Let_def by (intro err_intros oracle_errs)

lemma o_row_errs [oracle_errs]: "errs_in contract_error (o_row label names raw)"
  unfolding o_row_def case_prod_unfold by (intro err_intros pyval_case_errs oracle_errs)

lemma o_rows_errs [oracle_errs]: "errs_in contract_error (o_rows i names raws)"
  by (induction i names raws rule: o_rows.induct) (simp_all add: errs_in_pbind o_row_errs)

lemma normalize_tolerances_errs [oracle_errs]: "errs_in contract_error (normalize_tolerances v)"
  unfolding normalize_tolerances_def by (intro err_intros pyval_case_errs oracle_errs)

lemma o_conditions_errs [oracle_errs]: "errs_in contract_error (o_conditions role i ids cs)"
proof (induction role i ids cs rule: o_conditions.induct)
  case (2 role i ids c cs)
  show ?case
    unfolding o_conditions.simps Let_def
    by (intro err_intros oracle_errs "2.IH" [OF refl]) assumption+
qed simp

lemma o_lineage_errs [oracle_errs]: "errs_in contract_error (o_lineage role cids i names es)"
proof (induction role cids i names es rule: o_lineage.induct)
  case (2 role cids i names e es)
  show ?case
    unfolding o_lineage.simps Let_def
    by (intro err_intros oracle_errs "2.IH" [OF refl]) (assumption | rule refl)+
qed simp

lemma o_metadata_errs [oracle_errs]: "errs_in contract_error (o_metadata v role)"
  unfolding o_metadata_def by (intro err_intros pyval_case_errs oracle_errs)

lemma o_sizing_errs [oracle_errs]: "errs_in contract_error (o_sizing v role)"
  unfolding o_sizing_def by (intro err_intros pyval_case_errs oracle_errs)

lemma o_validity_errs [oracle_errs]: "errs_in contract_error (o_validity role d)"
  by (induction role d rule: o_validity.induct)
    (auto simp: o_refuse_def split: pyval.split)

lemma o_document_errs [oracle_errs]: "errs_in contract_error (o_document (VDict d) role)"
  unfolding o_document_def o_document_root_def vget_def pyval.case Let_def
  by (intro err_intros pyval_case_errs oracle_errs)

lemma compare_documents_total:
  assumes "list_all row_ok (tol_metrics tol)"
  shows "\<exists>cmp. compare_documents obs orc tol = Inr cmp"
proof -
  have "\<exists>res. compare_row (tol_lineage_required tol) obs orc row = Inr res"
    if "row \<in> set (tol_metrics tol)" for row
    using compare_row_total [of row "tol_lineage_required tol" obs orc] assms that
    by (auto simp: list_all_iff evaluates_def)
  from map_res_total [OF this]
  have "\<exists>rows. map_res (compare_row (tol_lineage_required tol) obs orc) (tol_metrics tol) = Inr rows" .
  then show ?thesis by (auto simp: compare_documents_def)
qed

text \<open>C32: Comparing two object documents under any tolerance value either returns a comparison or
  raises \<open>ValueError\<close> or, for an unhashable operator or error kind, \<open>TypeError\<close>: no row evaluation
  raises a \<open>KeyError\<close>, divides by zero or reaches the unhandled-kind assertion.\<close>

theorem comparison_total:
  "errs_in contract_error (compare_testbench_observables (VDict observed) (VDict oracle) tolerances)"
  unfolding compare_testbench_observables_def
  by (intro errs_in_pbind oracle_errs errs_in_total compare_documents_total)
    (simp add: normalize_tolerances_ok)

section \<open>The verdict\<close>

lemma count_status_0: "count_status s rows = 0 \<longleftrightarrow> (\<forall>r\<in>set rows. res_status r \<noteq> s)"
  by (simp add: count_status_def filter_empty_conv)

lemma count_status_pos: "0 < count_status s rows \<longleftrightarrow> (\<exists>r\<in>set rows. res_status r = s)"
  using count_status_0 [of s rows] by auto

lemma count_status_sum:
  "count_status Pass rows + count_status Fail rows + count_status Unknown rows = length rows"
proof (induction rows)
  case (Cons r rows)
  then show ?case by (cases "res_status r") (simp_all add: count_status_def)
qed (simp add: count_status_def)

lemma compare_parts:
  assumes "compare_testbench_observables observed oracle tolerances = Inr cmp"
  obtains obs orc tol where "o_document observed ''observed'' = Inr obs"
    and "o_document oracle ''oracle'' = Inr orc" and "normalize_tolerances tolerances = Inr tol"
    and "compare_documents obs orc tol = Inr cmp"
  using assms by (auto simp: compare_testbench_observables_def)

lemma compare_documents_parts:
  assumes "compare_documents obs orc tol = Inr cmp"
  shows "cmp = summarize (corner_match obs orc) (count_validities obs orc) (cmp_metrics cmp)"
    and "list_all2 (\<lambda>row res. compare_row (tol_lineage_required tol) obs orc row = Inr res)
      (tol_metrics tol) (cmp_metrics cmp)"
  using assms by (auto simp: compare_documents_def summarize_def Let_def res_simps)

text \<open>The overall verdict is the minimum of the required verdicts.\<close>

definition required_verdicts :: "comparison \<Rightarrow> status set" where
  "required_verdicts cmp = res_status ` {r \<in> set (cmp_metrics cmp). res_required r}"

lemma summarize_meet:
  assumes "cmp = summarize corners validity rows"
  shows "cmp_status cmp = Min (insert (if corners then Pass else Unknown) (required_verdicts cmp))"
    (is "_ = Min ?S")
proof -
  let ?req = "filter res_required rows"
  have fin: "finite ?S" by (simp add: required_verdicts_def)
  have mem: "s \<in> required_verdicts cmp \<longleftrightarrow> (\<exists>r\<in>set ?req. res_status r = s)" for s
    using assms by (auto simp: required_verdicts_def summarize_def Let_def)
  have st: "cmp_status cmp = (if Fail \<in> required_verdicts cmp then Fail
      else if Unknown \<in> required_verdicts cmp \<or> \<not> corners then Unknown else Pass)"
    unfolding mem using assms by (simp add: summarize_def Let_def count_status_0 count_status_pos) blast
  have in_S: "cmp_status cmp \<in> ?S"
  proof (cases "Fail \<in> required_verdicts cmp \<or> Unknown \<in> required_verdicts cmp \<or> \<not> corners")
    case False
    then show ?thesis by (simp add: st)
  qed (auto simp: st)
  have "cmp_status cmp \<le> s" if "s \<in> ?S" for s
    using that status_greatest [of "cmp_status cmp"]
    by (cases s) (auto simp: st status_least Unknown_le split: if_splits)
  then show ?thesis using fin in_S by (metis Min_eqI)
qed

lemma summarize_corner: "cmp_corner_match (summarize corners validity rows) = corners"
  by (simp add: summarize_def Let_def)

text \<open>C22: The overall verdict of a comparison is the worst verdict among the required rows, and no
  better than \<open>Unknown\<close> when the corner identities differ (rows that are not required never
  change it).\<close>

theorem comparison_verdict:
  assumes "compare_testbench_observables observed oracle tolerances = Inr cmp"
  shows "cmp_status cmp =
    Min (insert (if cmp_corner_match cmp then Pass else Unknown) (required_verdicts cmp))"
  using assms
proof (rule compare_parts)
  fix obs orc tol assume "compare_documents obs orc tol = Inr cmp"
  note p = compare_documents_parts(1) [OF this]
  have "cmp_corner_match cmp = corner_match obs orc" using p by (metis summarize_corner)
  then show ?thesis using summarize_meet [OF p] by simp
qed

lemma summarize_counts:
  "cmp = summarize corners validity rows \<Longrightarrow>
   cmp_pass cmp + cmp_fail cmp + cmp_unknown cmp = length (cmp_metrics cmp) \<and>
   cmp_required_pass cmp + cmp_required_fail cmp + cmp_required_unknown cmp = cmp_required cmp \<and>
   cmp_required cmp \<le> length (cmp_metrics cmp)"
  by (simp add: summarize_def Let_def count_status_sum)

theorem comparison_verdict_witness:
  "\<exists>(cmp :: comparison). cmp_status cmp = Pass \<and> cmp_status cmp =
     Min (insert (if cmp_corner_match cmp then Pass else Unknown) (required_verdicts cmp))"
  using example_compares [of True] comparison_verdict
    [of "example_document ''tt''" "example_document ''tt''" "example_tolerances True"] by blast

text \<open>The summary counts of a comparison partition its rows: pass, fail and unknown add up to
  the number of metrics, the required counts to the number of required metrics, and the results
  are the metrics of the tolerance document, in order, each once.\<close>

theorem comparison_counts:
  assumes "compare_testbench_observables observed oracle tolerances = Inr cmp"
  shows "cmp_pass cmp + cmp_fail cmp + cmp_unknown cmp = length (cmp_metrics cmp) \<and>
    cmp_required_pass cmp + cmp_required_fail cmp + cmp_required_unknown cmp = cmp_required cmp \<and>
    cmp_required cmp \<le> length (cmp_metrics cmp) \<and>
    (\<exists>tol. normalize_tolerances tolerances = Inr tol \<and>
       map res_name (cmp_metrics cmp) = map row_name (tol_metrics tol) \<and>
       distinct (map res_name (cmp_metrics cmp)))"
  using assms
proof (rule compare_parts)
  fix obs orc tol
  assume tol: "normalize_tolerances tolerances = Inr tol" and "compare_documents obs orc tol = Inr cmp"
  note p = compare_documents_parts [OF this(2)]
  note ok = normalize_tolerances_ok [OF tol]
  have "list_all2 (\<lambda>row res. res_name res = row_name row) (tol_metrics tol) (cmp_metrics cmp)"
  proof (rule list_all2_all_nthI)
    show "length (tol_metrics tol) = length (cmp_metrics cmp)" by (rule list_all2_lengthD [OF p(2)])
  next
    fix n assume n: "n < length (tol_metrics tol)"
    show "res_name (cmp_metrics cmp ! n) = row_name (tol_metrics tol ! n)"
      using compare_row_result [OF _ list_all2_nthD [OF p(2) n]] ok n
      by (simp add: list_all_length result_of_def)
  qed
  then have names: "map res_name (cmp_metrics cmp) = map row_name (tol_metrics tol)"
    by (induction rule: list_all2_induct) auto
  from summarize_counts [OF p(1)] show ?thesis using tol names ok by auto
qed

theorem comparison_counts_witness:
  "\<exists>(cmp :: comparison). cmp_status cmp = Pass \<and>
     cmp_pass cmp + cmp_fail cmp + cmp_unknown cmp = length (cmp_metrics cmp)"
  using example_compares [of True] comparison_counts
    [of "example_document ''tt''" "example_document ''tt''" "example_tolerances True"] by blast

section \<open>What a pass shows\<close>

definition meets_limit :: "tolerance_limit \<Rightarrow> rat \<Rightarrow> bool" where
  "meets_limit limit q \<longleftrightarrow>
     (if lim_op limit = ''<='' then q \<le> fval (lim_value limit) else fval (lim_value limit) \<le> q)"

lemma o_verdict_Pass:
  "limit_ok limit \<Longrightarrow> is_finite x \<Longrightarrow> o_verdict x limit = Pass \<longleftrightarrow> meets_limit limit (fval x)"
  by (cases x; cases "lim_value limit") (auto simp: o_verdict_def meets_limit_def limit_ok_def)

text \<open>
  The evidence of one passing row: a finite value within its limit and, when the tolerances require
  lineage and the row is numeric, an execution receipt for every observable it reads.
\<close>

definition receipts_complete :: "document \<Rightarrow> tolerance_row \<Rightarrow> bool" where
  "receipts_complete obs row \<longleftrightarrow>
     (\<exists>md. doc_metadata obs = Some md \<and>
        (\<forall>name \<in> set (row_observables row). observable_linked obs md name))"

definition passes :: "document \<Rightarrow> bool \<Rightarrow> tolerance_row \<Rightarrow> row_result \<Rightarrow> bool" where
  "passes obs lineage row res \<longleftrightarrow>
     res_status res = Pass \<and>
     (\<exists>q. res_value res = Some (PFin q) \<and> meets_limit (row_limit row) q) \<and>
     (lineage \<and> row_kind row \<in> set numeric_kinds \<longrightarrow> receipts_complete obs row)"

lemma fold_tally:
  "fold (\<lambda>n. tally (P n) (f n)) names (c, t, m) =
     (c + length (filter P names), t + length names, m @ map f (filter (\<lambda>n. \<not> P n) names))"
  by (induction names arbitrary: c t m) (simp_all add: tally_def)

lemma lineage_coverage_observables:
  "lineage_coverage obs names None = Some (c, t, m) \<Longrightarrow> c = t \<longleftrightarrow>
     (\<exists>md. doc_metadata obs = Some md \<and> (\<forall>name \<in> set names. observable_linked obs md name))"
proof -
  assume cov: "lineage_coverage obs names None = Some (c, t, m)"
  then obtain md where md: "doc_metadata obs = Some md"
      "c = length (filter (observable_linked obs md) names)" "t = length names"
    by (auto simp: lineage_coverage_def fold_tally split: option.splits)
  have "c = t \<longleftrightarrow> (\<forall>name \<in> set names. observable_linked obs md name)"
    unfolding md(2,3) by (metis filter_True length_filter_less less_irrefl)
  then show ?thesis using md(1) by simp
qed

lemma require_lineage_keeps:
  assumes "res_status (require_lineage obs row res) \<noteq> Unknown"
  shows "require_lineage obs row res = res \<and> receipts_complete obs row"
proof (cases "lineage_coverage obs (row_observables row) None")
  case (Some cov)
  obtain c t m where cov: "cov = (c, t, m)" by (cases cov)
  show ?thesis
    using assms lineage_coverage_observables [of obs "row_observables row" c t m] Some cov
    by (auto simp: require_lineage_def o_unknown_def receipts_complete_def split: if_splits)
qed (use assms in \<open>simp add: require_lineage_def o_unknown_def\<close>)

lemma compare_row_passes:
  assumes "row_ok row" "compare_row lineage obs orc row = Inr res" "res_status res = Pass"
    and "corner_match obs orc"
  shows "passes obs lineage row res"
proof -
  have lim: "limit_ok (row_limit row)" using assms(1) by (simp add: row_ok_def)
  note r = compare_row_result [OF assms(1,2)]
  then obtain q where q: "res_value res = Some (PFin q)" "res_status res = o_verdict (PFin q) (row_limit row)"
    using assms(3) by (auto simp: result_of_def is_finite_iff split: option.splits)
  have "receipts_complete obs row" if num: "lineage" "row_kind row \<in> set numeric_kinds"
  proof -
    obtain res0 where "res = require_lineage obs row res0"
      using assms(2,4) num by (auto simp: compare_row_def)
    then show ?thesis using require_lineage_keeps [of obs row res0] assms(3) by simp
  qed
  then show ?thesis
    using q assms(3) o_verdict_Pass [OF lim, of "PFin q"] by (auto simp: passes_def)
qed

lemma summarize_Pass_corner: "cmp_status (summarize corners validity rows) = Pass \<Longrightarrow> corners"
  by (simp add: summarize_def Let_def split: if_splits)

text \<open>C21: A comparison passes only on evidence: the two corners are the same, and every required
  metric of the tolerance document has a finite value on the right side of its limit, backed, when
  lineage is required and the metric is numeric, by a nonempty set of receipts for each observable
  that is exactly the set of conditions declaring it.\<close>

theorem comparison_pass:
  assumes "compare_testbench_observables observed oracle tolerances = Inr cmp"
    and "cmp_status cmp = Pass"
  shows "\<exists>obs orc tol. o_document observed ''observed'' = Inr obs \<and>
    o_document oracle ''oracle'' = Inr orc \<and> normalize_tolerances tolerances = Inr tol \<and>
    doc_corner obs = doc_corner orc \<and>
    list_all2 (\<lambda>row res. row_required row \<longrightarrow> passes obs (tol_lineage_required tol) row res)
      (tol_metrics tol) (cmp_metrics cmp)"
  using assms(1)
proof (rule compare_parts)
  fix obs orc tol
  assume docs: "o_document observed ''observed'' = Inr obs" "o_document oracle ''oracle'' = Inr orc"
      "normalize_tolerances tolerances = Inr tol" "compare_documents obs orc tol = Inr cmp"
  note p = compare_documents_parts [OF docs(4)]
  have corner: "corner_match obs orc"
    using p(1) assms(2) summarize_Pass_corner by metis
  have required: "res_status r = Pass" if "r \<in> set (cmp_metrics cmp)" "res_required r" for r
  proof -
    have "Min (insert (if corner_match obs orc then Pass else Unknown) (required_verdicts cmp)) \<le> res_status r"
      by (rule Min_le) (use that in \<open>auto simp: required_verdicts_def\<close>)
    then have "Pass \<le> res_status r" using summarize_meet [OF p(1)] assms(2) by simp
    then show ?thesis using status_greatest by (metis order_antisym)
  qed
  have "list_all2 (\<lambda>row res. row_required row \<longrightarrow> passes obs (tol_lineage_required tol) row res)
      (tol_metrics tol) (cmp_metrics cmp)"
  proof (rule list_all2_all_nthI)
    fix n assume n: "n < length (tol_metrics tol)"
    note c = list_all2_nthD [OF p(2) n]
    have ok: "row_ok (tol_metrics tol ! n)"
      using normalize_tolerances_ok [OF docs(3)] n by (auto simp: list_all_length)
    have mem: "cmp_metrics cmp ! n \<in> set (cmp_metrics cmp)"
      using n list_all2_lengthD [OF p(2)] by simp
    show "row_required (tol_metrics tol ! n) \<longrightarrow>
        passes obs (tol_lineage_required tol) (tol_metrics tol ! n) (cmp_metrics cmp ! n)"
    proof
      assume "row_required (tol_metrics tol ! n)"
      then have "res_required (cmp_metrics cmp ! n)"
        using compare_row_result [OF ok c] by (simp add: result_of_def)
      from compare_row_passes [OF ok c required [OF mem this] corner]
      show "passes obs (tol_lineage_required tol) (tol_metrics tol ! n) (cmp_metrics cmp ! n)" .
    qed
  qed (rule list_all2_lengthD [OF p(2)])
  then show ?thesis using docs corner by (auto simp: corner_match_def)
qed

theorem comparison_pass_witness:
  "\<exists>(cmp :: comparison) obs. cmp_status cmp = Pass \<and> o_document (example_document ''tt'') ''observed'' = Inr obs \<and>
     list_all2 (\<lambda>row res. row_required row \<longrightarrow> passes obs True row res) [example_row] (cmp_metrics cmp)"
  using example_compares [of True] comparison_pass
    [of "example_document ''tt''" "example_document ''tt''" "example_tolerances True"]
  by (fastforce simp: example_tolerances_parsed)

text \<open>When the corner identities differ the comparison never passes, and every metric that
  needs the oracle is \<open>Unknown\<close> with no value.\<close>

theorem comparison_corner_mismatch:
  assumes "compare_testbench_observables observed oracle tolerances = Inr cmp"
    and "o_document observed ''observed'' = Inr obs" and "o_document oracle ''oracle'' = Inr orc"
    and "doc_corner obs \<noteq> doc_corner orc"
  shows "cmp_status cmp \<noteq> Pass \<and> \<not> cmp_corner_match cmp \<and>
    (\<forall>r \<in> set (cmp_metrics cmp). res_kind r \<in> set oracle_dependent \<longrightarrow>
       res_status r = Unknown \<and> res_value r = None)"
  using assms(1)
proof (rule compare_parts)
  fix obs' orc' tol
  assume docs: "o_document observed ''observed'' = Inr obs'" "o_document oracle ''oracle'' = Inr orc'"
      "normalize_tolerances tolerances = Inr tol" "compare_documents obs' orc' tol = Inr cmp"
  then have c: "\<not> corner_match obs' orc'" using assms(2-4) by (auto simp: corner_match_def)
  note p = compare_documents_parts [OF docs(4)]
  have "res_status r = Unknown \<and> res_value r = None"
    if r: "r \<in> set (cmp_metrics cmp)" "res_kind r \<in> set oracle_dependent" for r
  proof -
    obtain n where n: "n < length (tol_metrics tol)" "r = cmp_metrics cmp ! n"
      using r(1) list_all2_lengthD [OF p(2)] by (auto simp: in_set_conv_nth)
    have ok: "row_ok (tol_metrics tol ! n)"
      using normalize_tolerances_ok [OF docs(3)] n by (auto simp: list_all_length)
    note cr = list_all2_nthD [OF p(2) n(1), folded n(2)]
    have "row_kind (tol_metrics tol ! n) \<in> set oracle_dependent"
      using compare_row_result [OF ok cr] r(2) by (simp add: result_of_def)
    then show ?thesis using cr c by (auto simp: compare_row_def o_unknown_def)
  qed
  moreover have "cmp_status cmp \<noteq> Pass \<and> \<not> cmp_corner_match cmp"
    using p(1) c summarize_Pass_corner summarize_corner by metis
  ultimately show ?thesis by blast
qed

theorem comparison_corner_mismatch_witness:
  "\<exists>(cmp :: comparison). cmp_status cmp \<noteq> Pass \<and> \<not> cmp_corner_match cmp"
proof -
  obtain cmp where "compare_testbench_observables (example_document ''ss'') (example_document ''tt'')
           (example_tolerances True) = Inr cmp"
    using example_mismatch by blast
  from comparison_corner_mismatch [OF this, of "example_doc ''ss''" "example_doc ''tt''"]
  show ?thesis by (intro exI [of _ cmp]) (simp add: example_document_parsed example_doc_def)
qed

end
