(* ===== verification/OracleEvidence.thy ===== *)
theory OracleEvidence
  imports OracleVerdict
begin

text \<open>
  What the single row evaluators of \<open>testbench_oracle.py\<close> compute: the counted ratios and their
  ranges, the coverages as counts of pairs, the worst point of a curve, and the tolerance test of a
  scalar against the exact difference.
\<close>

section \<open>Declared validity\<close>

lemma fold_count_validity:
  "fold (count_validity obs orc) names c =
     c\<lparr>oracle_invalid := oracle_invalid c +
         length (filter (\<lambda>n. classify_validity (dget (doc_validity orc) n) = DeclaredInvalid) names),
       detected_invalid := detected_invalid c +
         length (filter (\<lambda>n. classify_validity (dget (doc_validity orc) n) = DeclaredInvalid \<and>
                             classify_validity (dget (doc_validity obs) n) = DeclaredInvalid) names),
       observed_valid := observed_valid c +
         length (filter (\<lambda>n. classify_validity (dget (doc_validity obs) n) = DeclaredValid \<and>
                             classify_validity (dget (doc_validity orc) n) \<noteq> Undeclared) names),
       false_valid := false_valid c +
         length (filter (\<lambda>n. classify_validity (dget (doc_validity obs) n) = DeclaredValid \<and>
                             classify_validity (dget (doc_validity orc) n) = DeclaredInvalid) names),
       missing_or_unknown := missing_or_unknown c +
         length (filter (\<lambda>n. classify_validity (dget (doc_validity orc) n) = Undeclared \<or>
                             classify_validity (dget (doc_validity obs) n) = Undeclared) names)\<rparr>"
proof (induction names arbitrary: c)
  case (Cons n names)
  show ?case
    unfolding fold_simps Cons
    by (cases "classify_validity (dget (doc_validity orc) n)";
        cases "classify_validity (dget (doc_validity obs) n)";
        rule validity_counts.equality)
      (simp_all add: count_validity_def count_if_def)
qed simp

lemma length_filter_card: "distinct xs \<Longrightarrow> length (filter P xs) = card {x \<in> set xs. P x}"
  by (metis distinct_card distinct_filter set_filter)

lemma validity_names_distinct: "distinct (validity_names obs orc)"
  by (simp add: validity_names_def sorted_texts_def)

definition declared_class :: "document \<Rightarrow> string \<Rightarrow> validity_class" where
  "declared_class doc n = classify_validity (dget (doc_validity doc) n)"

definition declared_names :: "document \<Rightarrow> document \<Rightarrow> string set" where
  "declared_names obs orc = set (str_keys (doc_validity obs)) \<union> set (str_keys (doc_validity orc))"

lemma length_filter_names:
  "length (filter P (validity_names obs orc)) = card {n \<in> declared_names obs orc. P n}"
  using length_filter_card [OF validity_names_distinct, of P obs orc]
  by (simp add: declared_names_def validity_names_def)

text \<open>The validity counts of a comparison are cardinalities over the names either document
  declares: the oracle-invalid names and those of them the submission also calls invalid, and the
  names submitted as valid that the oracle decides and those of them the oracle calls invalid.\<close>

theorem validity_counts_exact:
  "count_validities obs orc =
     \<lparr>oracle_invalid = card {n \<in> declared_names obs orc. declared_class orc n = DeclaredInvalid},
      detected_invalid = card {n \<in> declared_names obs orc.
        declared_class orc n = DeclaredInvalid \<and> declared_class obs n = DeclaredInvalid},
      observed_valid = card {n \<in> declared_names obs orc.
        declared_class obs n = DeclaredValid \<and> declared_class orc n \<noteq> Undeclared},
      false_valid = card {n \<in> declared_names obs orc.
        declared_class obs n = DeclaredValid \<and> declared_class orc n = DeclaredInvalid},
      missing_or_unknown = card {n \<in> declared_names obs orc.
        declared_class orc n = Undeclared \<or> declared_class obs n = Undeclared}\<rparr>"
  by (simp add: count_validities_def fold_count_validity length_filter_names declared_class_def)

lemma validity_counts_le:
  "detected_invalid (count_validities obs orc) \<le> oracle_invalid (count_validities obs orc)"
  "false_valid (count_validities obs orc) \<le> observed_valid (count_validities obs orc)"
  by (auto simp: count_validities_def fold_count_validity intro!: length_filter_mono)

section \<open>Coverages\<close>

lemma fold_product:
  "fold (\<lambda>c. fold (\<lambda>n. h c n) names) cs acc = fold (\<lambda>(c, n). h c n) (List.product cs names) acc"
  by (induction cs arbitrary: acc) (simp_all add: fold_map comp_def)

lemma fold_tally_product:
  "fold (\<lambda>c. fold (\<lambda>n. tally (P c n) (f c n)) names) cs (0, 0, []) =
     (length (filter (\<lambda>(c, n). P c n) (List.product cs names)), length cs * length names,
      map (\<lambda>(c, n). f c n) (filter (\<lambda>(c, n). \<not> P c n) (List.product cs names)))"
  using fold_tally [of "\<lambda>(c, n). P c n" "\<lambda>(c, n). f c n" "List.product cs names" 0 0 "[]"]
  by (simp add: fold_product case_prod_unfold length_product)

text \<open>The facts shared by the two coverages: what is covered and what is missing make the whole.\<close>

definition coverage_counts :: "(string \<Rightarrow> string \<Rightarrow> bool) \<Rightarrow> string list \<Rightarrow> string list \<Rightarrow> coverage \<Rightarrow> bool"
where
  "coverage_counts covers cs names cov \<longleftrightarrow>
     (case cov of (covered, all, missing) \<Rightarrow>
        covered + length missing = all \<and> all = length cs * length names \<and>
        (covered = all \<longleftrightarrow> (\<forall>c \<in> set cs. \<forall>n \<in> set names. covers c n)) \<and>
        set missing = {c @ '':'' @ n | c n. c \<in> set cs \<and> n \<in> set names \<and> \<not> covers c n})"

lemma fold_tally_counts:
  "coverage_counts P cs names
     (fold (\<lambda>c. fold (\<lambda>n. tally (P c n) (c @ '':'' @ n)) names) cs (0, 0, []))"
proof -
  let ?ps = "List.product cs names"
  have "length (filter (\<lambda>(c, n). P c n) ?ps) + length (filter (\<lambda>p. \<not> (\<lambda>(c, n). P c n) p) ?ps) = length ?ps"
    by (rule sum_length_filter_compl)
  moreover have "(\<lambda>p. \<not> (\<lambda>(c, n). P c n) p) = (\<lambda>(c, n). \<not> P c n)" by auto
  ultimately have sum: "length (filter (\<lambda>(c, n). P c n) ?ps) + length (filter (\<lambda>(c, n). \<not> P c n) ?ps)
      = length cs * length names"
    by (simp add: length_product)
  have "length (filter (\<lambda>(c, n). \<not> P c n) ?ps) = 0 \<longleftrightarrow> (\<forall>c \<in> set cs. \<forall>n \<in> set names. P c n)"
    by (auto simp: filter_empty_conv)
  then have "length (filter (\<lambda>(c, n). P c n) ?ps) = length cs * length names \<longleftrightarrow>
      (\<forall>c \<in> set cs. \<forall>n \<in> set names. P c n)"
    using sum by linarith
  moreover have "set (map (\<lambda>(c, n). c @ '':'' @ n) (filter (\<lambda>(c, n). \<not> P c n) ?ps)) =
      {c @ '':'' @ n | c n. c \<in> set cs \<and> n \<in> set names \<and> \<not> P c n}"
    by force
  ultimately show ?thesis
    unfolding coverage_counts_def fold_tally_product prod.case length_map using sum by blast
qed

text \<open>The coverage of conditions and observables counts pairs: covered plus missing is the
  number of pairs, every pair is covered exactly when the two counts agree, and the missing names
  are the uncovered pairs.  This holds of the completeness inventory and of the receipt lineage.\<close>

theorem coverage_exact:
  assumes "doc_metadata obs = Some md"
  shows "\<exists>inventory lineage.
    condition_coverage obs names conditions = Some inventory \<and>
    coverage_counts (pair_present obs md) conditions names inventory \<and>
    lineage_coverage obs names (Some conditions) = Some lineage \<and>
    coverage_counts (pair_linked obs md) conditions names lineage"
  using assms fold_tally_counts
  by (simp add: condition_coverage_def lineage_coverage_def)

theorem coverage_exact_witness:
  "\<exists>inventory. condition_coverage (example_doc ''tt'') [''gain''] [''tt'', ''c9''] = Some inventory \<and>
     coverage_counts (pair_present (example_doc ''tt'') example_run) [''tt'', ''c9''] [''gain''] inventory"
  using coverage_exact [of "example_doc ''tt''" example_run "[''gain'']" "[''tt'', ''c9'']"]
  by (auto simp: example_doc_def)

section \<open>Ratios\<close>

definition ratio_kinds :: "string list" where
  "ratio_kinds =
     [''signed_response_coverage'', ''invalid_detection_recall'', ''false_valid_rate'',
      ''completeness'', ''lineage_presence'']"

definition unit_value :: "row_result \<Rightarrow> bool" where
  "unit_value res = (case res_value res of None \<Rightarrow> True | Some x \<Rightarrow> \<exists>q. x = PFin q \<and> 0 \<le> q \<and> q \<le> 1)"

lemma ratio_unit:
  assumes "m \<le> n" "ratio m n = Inr x"
  shows "\<exists>q. x = PFin q \<and> 0 \<le> q \<and> q \<le> 1"
proof -
  have x: "x = round64 (of_nat m / of_nat n)" and n: "0 < n"
    using assms(2) by (auto simp: ratio_def split: if_splits)
  have q: "0 \<le> (of_nat m / of_nat n :: rat)" "of_nat m / of_nat n \<le> (1 :: rat)"
    using n assms(1) by (simp_all add: divide_le_eq_1)
  show ?thesis using x round64_unit [OF q] f64.unit_interval [OF q] by auto
qed

lemma unit_unknown [simp]: "unit_value (o_unknown row reason)"
  by (simp add: unit_value_def o_unknown_def)

lemma unit_measured: "m \<le> n \<Longrightarrow> ratio m n = Inr x \<Longrightarrow> unit_value (o_measured row x reason details)"
  using ratio_unit by (fastforce simp: unit_value_def o_measured_def)

text \<open>The same of a computation, composed along its structure.\<close>

definition unit_result :: "row_result pyres \<Rightarrow> bool" where
  "unit_result m \<longleftrightarrow> (\<forall>res. m = Inr res \<longrightarrow> unit_value res)"

lemma unit_results:
  "unit_value res \<Longrightarrow> unit_result (Inr res)"
  "(\<And>a. k = Inr a \<Longrightarrow> unit_result (f a)) \<Longrightarrow> unit_result (pbind k f)"
  "(b \<Longrightarrow> unit_result m) \<Longrightarrow> (\<not> b \<Longrightarrow> unit_result n) \<Longrightarrow> unit_result (if b then m else n)"
  by (auto simp: unit_result_def)

lemma coverage_row_unit:
  assumes "coverage_row row cov a b c d = Inr res"
    and "\<And>covered all missing. cov = Some (covered, all, missing) \<Longrightarrow> covered \<le> all"
  shows "unit_value res"
  using assms by (auto simp: coverage_row_def intro: unit_measured split: option.splits if_splits)

lemma product_filter_le: "length (filter P (List.product xs ys)) \<le> length xs * length ys"
  by (metis length_filter_le length_product)

lemma coverage_le:
  "condition_coverage obs names cs = Some (c, t, m) \<Longrightarrow> c \<le> t"
  "lineage_coverage obs names ocs = Some (c, t, m) \<Longrightarrow> c \<le> t"
  by (auto simp: condition_coverage_def lineage_coverage_def fold_tally fold_tally_product
      intro: product_filter_le split: option.splits)

lemma validity_row_unit: "validity_row row obs orc = Inr res \<Longrightarrow> unit_value res"
  using validity_counts_le [of obs orc]
  by (auto simp: validity_row_def Let_def intro: unit_measured split: if_splits)

lemma signed_coverage_unit:
  assumes "signed_coverage_row row obs orc = Inr res"
  shows "unit_value res"
proof -
  obtain f xn yn g where f: "row_field row ''observed'' = Inr f" "row_field row ''x'' = Inr xn"
      "row_field row ''y'' = Inr yn" "row_field row ''oracle'' = Inr g"
    using assms by (auto simp: signed_coverage_row_def)
  show ?thesis
  proof (cases "observed_curve (observable obs f) xn yn"; cases "o_curve (observable orc g) xn yn")
    fix c d assume cd: "observed_curve (observable obs f) xn yn = Some c" "o_curve (observable orc g) xn yn = Some d"
    obtain ox oy rx ry where p: "c = (ox, oy)" "d = (rx, ry)" by (cases c; cases d)
    have "unit_result (signed_coverage_row row obs orc)"
      unfolding signed_coverage_row_def Let_def f cd p pbind_simps option.case prod.case
      by (intro unit_results unit_unknown) (erule unit_measured [OF length_filter_le])
    then show ?thesis using assms by (simp add: unit_result_def)
  qed (use assms f in \<open>auto simp: signed_coverage_row_def\<close>)
qed

lemma completeness_row_unit: "completeness_row row obs = Inr res \<Longrightarrow> unit_value res"
  by (auto simp: completeness_row_def dest: coverage_row_unit intro: coverage_le)

lemma lineage_row_unit: "lineage_row row obs = Inr res \<Longrightarrow> unit_value res"
  by (auto simp: lineage_row_def dest: coverage_row_unit intro: coverage_le)

text \<open>The counted metrics, that is signed-response coverage, invalid recall, false-valid rate,
  completeness and lineage presence, are fractions: a row of these kinds either has no value or a
  finite one between 0 and 1.\<close>

theorem ratio_rows_unit:
  assumes "evaluate_row row obs orc = Inr res" and "row_kind row \<in> set ratio_kinds"
  shows "unit_value res"
  using assms validity_row_unit signed_coverage_unit completeness_row_unit lineage_row_unit
  by (auto simp: ratio_kinds_def evaluate_row_def)

definition example_lineage_row :: tolerance_row where
  "example_lineage_row = example_row
     \<lparr>row_kind := ''lineage_presence'', row_observable_names := Some [''gain''],
      row_condition_names := Some [''c1'']\<rparr>"

lemma round64_1 [simp]: "round64 1 = PFin 1"
  using finite64_1 by (simp add: finite64_def del: finite64_1)

lemma example_lineage_evaluated:
  "\<exists>res. evaluate_row example_lineage_row (example_doc ''tt'') (example_doc ''tt'') = Inr res \<and>
     res_value res = Some (PFin 1)"
  by (simp add: evaluate_row_def example_lineage_row_def example_row_def lineage_row_def row_key_def
      lineage_coverage_def example_doc_def example_run_def tally_def pair_linked_def linked_ids_def
      declared_observables_def dhas_def coverage_row_def ratio_def o_measured_def)

theorem ratio_rows_unit_witness:
  "\<exists>(res :: row_result). res_value res = Some (PFin 1) \<and> unit_value res"
proof -
  obtain res where "evaluate_row example_lineage_row (example_doc ''tt'') (example_doc ''tt'') = Inr res"
      "res_value res = Some (PFin 1)"
    using example_lineage_evaluated by blast
  then show ?thesis
    using ratio_rows_unit [of example_lineage_row "example_doc ''tt''" "example_doc ''tt''" res]
    by (auto simp: example_lineage_row_def ratio_kinds_def)
qed

section \<open>The worst point\<close>

text \<open>Magnitudes: what absolute values and their guarded quotients are.\<close>

definition magnitude :: "pyfloat \<Rightarrow> bool" where
  "magnitude x = (case x of PFin q \<Rightarrow> 0 \<le> q | PInf n \<Rightarrow> \<not> n | PNaN \<Rightarrow> False)"

lemma magnitude_fabs_fsub: "is_finite a \<Longrightarrow> is_finite b \<Longrightarrow> magnitude (fabs (fsub a b))"
  by (auto simp: is_finite_iff fsub_def magnitude_def round64_def)

lemma magnitude_round64: "0 \<le> q \<Longrightarrow> magnitude (round64 q)"
  using rnd_nonneg [of q] by (auto simp: magnitude_def round64_def)

lemma magnitude_fdiv: "magnitude x \<Longrightarrow> 0 < q \<Longrightarrow> fdiv x (PFin q) = Inr y \<Longrightarrow> magnitude y"
  by (cases x) (auto simp: magnitude_def [of "PFin _"] magnitude_def [of "PInf _"]
      magnitude_def [of PNaN] intro: magnitude_round64)

lemma fmax_guard: "is_finite b \<Longrightarrow> is_finite g \<Longrightarrow> 0 < fval g \<Longrightarrow> \<exists>q>0. fmax (fabs b) g = PFin q"
  by (cases b; cases g) (auto simp: fmax_def)

lemma magnitude_point_error:
  assumes "error_ok True err" "is_finite (fst p)" "is_finite (snd p)" "point_error err p = Inr e"
  shows "magnitude e"
proof -
  note m = magnitude_fabs_fsub [OF assms(2,3)]
  show ?thesis
  proof (cases err)
    case (RelativeError g)
    then obtain q where "0 < q" "fmax (fabs (snd p)) g = PFin q"
      using fmax_guard [OF assms(3), of g] assms(1) by (auto simp: error_ok_def)
    then show ?thesis using assms(4) RelativeError magnitude_fdiv [OF m] by (simp add: point_error_def Let_def)
  next
    case (GuardedRelativeError g)
    then obtain q where "0 < q" "fmax (fabs (snd p)) g = PFin q"
      using fmax_guard [OF assms(3), of g] assms(1) by (auto simp: error_ok_def)
    then show ?thesis using assms(4) GuardedRelativeError magnitude_fdiv [OF m] by (simp add: point_error_def Let_def)
  qed (use assms m in \<open>auto simp: point_error_def Let_def\<close>)
qed

lemma argmax_from_worst:
  "list_all magnitude zs \<Longrightarrow> best < i \<Longrightarrow> i \<le> length zs \<Longrightarrow>
   (\<forall>k < i. \<not> flt (zs ! best) (zs ! k)) \<Longrightarrow>
   (\<forall>k < length zs. \<not> flt (zs ! argmax_from flt best (zs ! best) i (drop i zs)) (zs ! k))"
proof (induction "length zs - i" arbitrary: best i)
  case 0
  then show ?case by simp
next
  case (Suc n)
  then have i: "i < length zs" by simp
  have drop: "drop i zs = zs ! i # drop (Suc i) zs" by (rule Cons_nth_drop_Suc [OF i, symmetric])
  show ?case
  proof (cases "flt (zs ! best) (zs ! i)")
    case True
    have "\<not> flt (zs ! i) (zs ! k)" if "k < Suc i" for k
    proof (cases "k = i")
      case True
      then show ?thesis by (cases "zs ! i") auto
    next
      case False
      then have "k < i" using that by simp
      then have "\<not> flt (zs ! best) (zs ! k)" "magnitude (zs ! k)" "magnitude (zs ! best)" "magnitude (zs ! i)"
        using Suc.prems i by (auto simp: list_all_length)
      then show ?thesis using \<open>flt (zs ! best) (zs ! i)\<close>
        by (cases "zs ! k"; cases "zs ! best"; cases "zs ! i") (auto simp: magnitude_def)
    qed
    then show ?thesis using Suc.hyps(1) [of "Suc i" i] Suc.hyps(2) Suc.prems i True drop by simp
  next
    case False
    then have "\<forall>k < Suc i. \<not> flt (zs ! best) (zs ! k)" using Suc.prems by (auto simp: less_Suc_eq)
    then show ?thesis using Suc.hyps(1) [of "Suc i" best] Suc.hyps(2) Suc.prems i False drop by simp
  qed
qed

lemma worst_index_worst:
  assumes "list_all magnitude zs" "k < length zs"
  shows "\<not> flt (zs ! worst_index zs) (zs ! k)"
proof -
  obtain z ws where zs: "zs = z # ws" using assms(2) by (cases zs) auto
  have "\<not> flt z z" by (cases z) auto
  then show ?thesis
    using argmax_from_worst [OF assms(1), of 0 1] assms(2)
    by (simp add: worst_index_def argmax_def zs)
qed

lemma magnitude_le:
  "magnitude x \<Longrightarrow> \<not> flt (PFin q) x \<Longrightarrow> \<exists>r. x = PFin r \<and> r \<le> q"
  by (cases x) (auto simp: magnitude_def)

text \<open>
  A curve is within a tolerance point by point: the same abscissae, and at every one an error,
  under the row's error mode, no greater than the limit.
\<close>

definition curve_within :: "tolerance_row \<Rightarrow> document \<Rightarrow> document \<Rightarrow> bool" where
  "curve_within row obs orc \<longleftrightarrow>
     (\<exists>f g xn yn err xs oy ry.
        row_field row ''observed'' = Inr f \<and> row_field row ''oracle'' = Inr g \<and>
        row_field row ''x'' = Inr xn \<and> row_field row ''y'' = Inr yn \<and>
        row_error_mode row = Some err \<and>
        observed_curve (observable obs f) xn yn = Some (xs, oy) \<and>
        o_curve (observable orc g) xn yn = Some (xs, ry) \<and>
        (\<forall>k < length xs. \<exists>e. point_error err (oy ! k, ry ! k) = Inr (PFin e) \<and>
                             e \<le> fval (lim_value (row_limit row))))"

text \<open>C33: A curve metric with an upper limit passes exactly when the two curves share their abscissae
  and the error at every point is within the limit: taking the worst point hides none.\<close>

theorem curve_pass_pointwise:
  assumes "row_ok row" "row_kind row = ''curve''" "lim_op (row_limit row) = ''<=''"
    and "evaluate_row row obs orc = Inr res"
  shows "res_status res = Pass \<longleftrightarrow> curve_within row obs orc"
proof -
  obtain f g xn yn err where f: "row_field row ''observed'' = Inr f" "row_field row ''oracle'' = Inr g"
      "row_field row ''x'' = Inr xn" "row_field row ''y'' = Inr yn"
    and err: "row_error_mode row = Some err" "error_ok True err"
    using row_ok_curve [OF assms(1,2)] unfolding row_has_iff by blast
  have lim: "limit_ok (row_limit row)" using assms(1) by (simp add: row_ok_def)
  have ev: "curve_row row obs orc = Inr res" using assms(2,4) by (simp add: evaluate_row_def)
  show ?thesis
  proof (cases "observed_curve (observable obs f) xn yn"; cases "o_curve (observable orc g) xn yn")
    fix c d assume cd: "observed_curve (observable obs f) xn yn = Some c" "o_curve (observable orc g) xn yn = Some d"
    obtain ox oy rx ry where p: "c = (ox, oy)" "d = (rx, ry)" by (cases c; cases d)
    show ?thesis
    proof (cases "ox = rx")
      case False
      then show ?thesis using ev f cd p by (auto simp: curve_row_def curve_within_def o_unknown_def)
    next
      case True
      note fin = observed_curve_Some [OF cd(1) [unfolded p]] o_curve_Some [OF cd(2) [unfolded p]]
      obtain es where es: "map_res (point_error err) (zip oy ry) = Inr es"
        using ev f cd p True err(1) by (auto simp: curve_row_def)
      then have all: "list_all2 (\<lambda>p e. point_error err p = Inr e) (zip oy ry) es"
        by (simp add: map_res_eq_Inr)
      have l: "length oy = length ry" "length rx = length ry" "rx \<noteq> []" using fin True by auto
      have len: "length es = length ry" using list_all2_lengthD [OF all] l by simp
      have es_nth: "point_error err (oy ! k, ry ! k) = Inr (es ! k)" if "k < length ry" for k
        using list_all2_nthD [OF all, of k] that l by simp
      have "magnitude (es ! k)" if "k < length es" for k
        using that len l fin magnitude_point_error [OF err(2) _ _ es_nth, of k]
        by (simp add: list_all_length)
      then have mag: "list_all magnitude es" by (simp add: list_all_length)
      define w where "w = worst_index es"
      have w: "w < length es" using len l argmax_less [of es flt] by (cases es) (auto simp: w_def worst_index_def)
      obtain reason details where res: "res = o_measured row (es ! w) reason details"
        using ev f cd p True err(1) es by (auto simp: curve_row_def Let_def w_def)
      have "res_status res = Pass \<longleftrightarrow> (\<exists>q. es ! w = PFin q \<and> q \<le> fval (lim_value (row_limit row)))"
        using o_verdict_Pass [OF lim] assms(3)
        by (cases "es ! w") (auto simp: res o_measured_def o_unknown_def meets_limit_def)
      also have "\<dots> \<longleftrightarrow> (\<forall>k < length es. \<exists>e. es ! k = PFin e \<and> e \<le> fval (lim_value (row_limit row)))"
        (is "?one = ?all")
      proof
        assume ?one
        then obtain q where q: "es ! w = PFin q" "q \<le> fval (lim_value (row_limit row))" by blast
        show ?all
        proof (intro allI impI)
          fix k assume k: "k < length es"
          have "magnitude (es ! k)" "\<not> flt (PFin q) (es ! k)"
            using mag k worst_index_worst [OF mag k] q(1) by (simp_all add: list_all_length w_def)
          from magnitude_le [OF this] q(2)
          show "\<exists>e. es ! k = PFin e \<and> e \<le> fval (lim_value (row_limit row))" by fastforce
        qed
      qed (use w in blast)
      also have "?all \<longleftrightarrow> curve_within row obs orc"
        using f cd p err(1) es_nth len l True by (auto simp: curve_within_def)
      finally show ?thesis .
    qed
  qed (use ev f in \<open>auto simp: curve_row_def curve_within_def o_unknown_def\<close>)
qed

definition example_curve_row :: tolerance_row where
  "example_curve_row = example_row
     \<lparr>row_kind := ''curve'',
      row_fields := [(''observed'', ''h''), (''oracle'', ''h''), (''x'', ''f''), (''y'', ''g'')]\<rparr>"

definition example_curve_doc :: "string \<Rightarrow> string \<Rightarrow> int \<Rightarrow> document" where
  "example_curve_doc x y i = (example_doc ''tt'')
     \<lparr>doc_observables := [(VStr ''h'', obj [(x, VList [VInt 0, VInt 1]), (y, VList [VInt 2, VInt i])])]\<rparr>"

lemma example_curve_evaluated:
  "\<exists>res. evaluate_row example_curve_row (example_curve_doc ''x'' ''y'' 6) (example_curve_doc ''f'' ''g'' 5) = Inr res \<and>
     res_status res = Pass"
  by (simp add: evaluate_row_def example_curve_row_def example_row_def curve_row_def row_field_def row_key_def
      observable_def example_curve_doc_def example_doc_def observed_curve_def o_curve_def obj_def
      o_numbers_def finite_number_small point_error_def fsub_def worst_index_def argmax_def
      o_measured_def o_verdict_def Let_def insert_commute)

lemma example_curve_row_ok: "row_ok example_curve_row"
  by (simp add: row_table row_has_def example_curve_row_def example_row_def limit_ok_def error_ok_def)

theorem curve_pass_pointwise_witness:
  "curve_within example_curve_row (example_curve_doc ''x'' ''y'' 6) (example_curve_doc ''f'' ''g'' 5)"
proof -
  obtain res where "evaluate_row example_curve_row (example_curve_doc ''x'' ''y'' 6)
        (example_curve_doc ''f'' ''g'' 5) = Inr res" "res_status res = Pass"
    using example_curve_evaluated by blast
  then show ?thesis
    using curve_pass_pointwise [OF example_curve_row_ok, of "example_curve_doc ''x'' ''y'' 6"
        "example_curve_doc ''f'' ''g'' 5" res]
    by (simp add: example_curve_row_def example_row_def)
qed

section \<open>A scalar against its tolerance\<close>

lemma round64_within:
  "finite64 (PFin t) \<Longrightarrow> 0 \<le> d \<Longrightarrow> d \<le> t \<Longrightarrow> round64 d = PFin (rnd d) \<and> rnd d \<le> t"
proof -
  assume t: "finite64 (PFin t)" and d: "0 \<le> d" "d \<le> t"
  have "rnd d \<le> t" using rnd_mono [OF d(2)] t by (simp add: finite64_rnd)
  moreover have "0 \<le> rnd d" by (rule rnd_nonneg [OF d(1)])
  ultimately show ?thesis using t by (auto simp: round64_def finite64_rnd)
qed

lemma fabs_round64: "fabs (round64 q) = round64 \<bar>q\<bar>"
  by (cases "0 \<le> q") (auto simp: round64_def rnd_minus rnd_nonneg abs_of_nonneg abs_of_nonpos rnd_nonpos)

text \<open>A scalar metric with absolute error and an upper limit passes whenever the exact difference
  of the two numbers is within the limit, and when it passes the correctly rounded difference is:
  rounding never fails an agreement that holds.\<close>

theorem scalar_tolerance:
  assumes "row_ok row" "row_kind row = ''scalar''" "row_error_mode row = Some AbsoluteError"
    and "row_limit row = \<lparr>lim_op = ''<='', lim_value = PFin t, lim_unit = u\<rparr>" "finite64 (PFin t)"
    and "row_field row ''observed'' = Inr f" "row_field row ''oracle'' = Inr g"
    and "finite_number (observable obs f) = Some (PFin a)" "finite_number (observable orc g) = Some (PFin b)"
  shows "\<exists>res. evaluate_row row obs orc = Inr res \<and>
    (\<bar>a - b\<bar> \<le> t \<longrightarrow> res_status res = Pass) \<and>
    (res_status res = Pass \<longrightarrow> rnd \<bar>a - b\<bar> \<le> t)"
proof -
  have d: "fabs (fsub (PFin a) (PFin b)) = round64 \<bar>a - b\<bar>" by (simp add: fsub_def fabs_round64)
  obtain details where ev: "evaluate_row row obs orc =
      Inr (o_measured row (round64 \<bar>a - b\<bar>) ''absolute scalar error evaluated'' details)"
    using assms d by (auto simp: evaluate_row_def scalar_row_def row_key_def Let_def)
  have "res_status (o_measured row (round64 \<bar>a - b\<bar>) reason details) = Pass"
    if "\<bar>a - b\<bar> \<le> t" for reason
    using round64_within [OF assms(5) _ that] assms(4) by (simp add: o_measured_def o_verdict_def)
  moreover have "rnd \<bar>a - b\<bar> \<le> t"
    if "res_status (o_measured row (round64 \<bar>a - b\<bar>) reason details) = Pass" for reason
    using that assms(4)
    by (auto simp: o_measured_def o_verdict_def o_unknown_def round64_def split: if_splits)
  ultimately show ?thesis using ev by auto
qed

theorem scalar_tolerance_witness:
  "\<exists>res. evaluate_row example_row (example_doc ''tt'') (example_doc ''tt'') = Inr res \<and>
     res_status res = Pass"
proof -
  have "row_ok example_row"
    by (simp add: row_table row_has_def example_row_def limit_ok_def error_ok_def)
  from scalar_tolerance [OF this, of 1 "''dB''" "''gain''" "''gain''" "example_doc ''tt''" 3 "example_doc ''tt''" 3]
  show ?thesis
    by (auto simp: example_row_def row_field_def observable_def example_doc_def finite_number_small)
qed

section \<open>Run metadata\<close>

lemma o_string_array_Inr:
  "o_string_array v label maximum minimum = Inr ts \<Longrightarrow>
     distinct ts \<and> minimum \<le> length ts \<and> length ts \<le> maximum"
  by (auto simp: o_string_array_def o_refuse_def Let_def dest: map_res_length
      split: option.splits if_splits sum.splits)

lemma o_conditions_step:
  "o_conditions role i ids (c # cs) = Inr rs \<Longrightarrow>
     \<exists>ident obs rest. rs = (ident, obs) # rest \<and> ident \<notin> set ids \<and> distinct obs \<and>
       o_conditions role (Suc i) (ident # ids) cs = Inr rest"
  by (auto simp: Let_def o_refuse_def dest: o_string_array_Inr split: if_split_asm option.split_asm)

lemma o_conditions_distinct:
  "o_conditions role i ids cs = Inr rs \<Longrightarrow>
     distinct (map fst rs) \<and> set (map fst rs) \<inter> set ids = {} \<and> (\<forall>p \<in> set rs. distinct (snd p))"
proof (induction cs arbitrary: i ids rs)
  case (Cons c cs)
  from o_conditions_step [OF Cons.prems] obtain ident obs rest where
    r: "rs = (ident, obs) # rest" "ident \<notin> set ids" "distinct obs"
      "o_conditions role (Suc i) (ident # ids) cs = Inr rest"
    by blast
  from Cons.IH [OF r(4)] r show ?case by auto
qed simp

lemma o_lineage_step:
  "o_lineage role cids i names (e # es) = Inr rs \<Longrightarrow>
     \<exists>name ids rest. rs = (name, ids) # rest \<and> name \<notin> set names \<and> ids \<noteq> [] \<and> distinct ids \<and>
       set ids \<subseteq> set cids \<and> o_lineage role cids (Suc i) (name # names) es = Inr rest"
  by (auto simp: Let_def o_refuse_def filter_empty_conv dest!: o_string_array_Inr split: if_split_asm)

lemma o_lineage_closed:
  "o_lineage role cids i names es = Inr rs \<Longrightarrow>
     distinct (map fst rs) \<and> set (map fst rs) \<inter> set names = {} \<and>
     (\<forall>p \<in> set rs. snd p \<noteq> [] \<and> distinct (snd p) \<and> set (snd p) \<subseteq> set cids)"
proof (induction es arbitrary: i names rs)
  case (Cons e es)
  from o_lineage_step [OF Cons.prems] obtain name ids rest where
    r: "rs = (name, ids) # rest" "name \<notin> set names" "ids \<noteq> []" "distinct ids" "set ids \<subseteq> set cids"
      "o_lineage role cids (Suc i) (name # names) es = Inr rest"
    by blast
  from Cons.IH [OF r(6)] r show ?case by auto
qed simp

definition metadata_ok :: "run_metadata \<Rightarrow> bool" where
  "metadata_ok md \<longleftrightarrow>
     distinct (map fst (md_conditions md)) \<and> distinct (map fst (md_lineage md)) \<and>
     (\<forall>p \<in> set (md_conditions md). distinct (snd p)) \<and>
     (\<forall>p \<in> set (md_lineage md).
        snd p \<noteq> [] \<and> distinct (snd p) \<and> set (snd p) \<subseteq> set (map fst (md_conditions md))) \<and>
     (\<exists>q\<ge>0. finite_number (md_runtime md) = Some (PFin q))"

lemma nonneg_number_finite:
  "nonneg_number v msg = Inr x \<Longrightarrow> \<exists>q\<ge>0. finite_number v = Some (PFin q)"
  using nonneg_number_ok [of v msg x]
  by (auto simp: nonneg_number_def o_refuse_def split: option.splits if_splits)

lemma o_metadata_ok:
  assumes "o_metadata v role = Inr md"
  shows "metadata_ok md"
proof -
  obtain root x where r: "o_closed v (role @ ''.metadata'')
        [''grading_runtime_s'', ''conditions'', ''lineage'', ''extensions''] [] = Inr root"
      "dget root ''extensions'' = VDict []"
      "nonneg_number (dget root ''grading_runtime_s'')
        (role @ ''.metadata.grading_runtime_s must be non-negative'') = Inr x"
    using assms by (auto simp: o_metadata_def o_refuse_def split: if_split_asm)
  obtain cs where cs: "dget root ''conditions'' = VList cs" "\<not> 10000 < length cs"
    using assms r by (cases "dget root ''conditions''")
      (auto simp: o_metadata_def o_refuse_def split: if_split_asm)
  obtain es where es: "dget root ''lineage'' = VList es" "\<not> 10000 < length es"
    using assms r cs by (cases "dget root ''lineage''")
      (auto simp: o_metadata_def o_refuse_def split: if_split_asm)
  have "o_conditions role 0 [] cs = Inr (md_conditions md) \<and>
      o_lineage role (map fst (md_conditions md)) 0 [] es = Inr (md_lineage md) \<and>
      md_runtime md = dget root ''grading_runtime_s''"
    using assms r cs es by (auto simp: o_metadata_def)
  then show ?thesis
    unfolding metadata_ok_def using o_conditions_distinct o_lineage_closed nonneg_number_finite [OF r(3)]
    by (metis (no_types, lifting))
qed

text \<open>The run metadata of an accepted document is closed: condition ids and lineage names are
  unique, every lineage entry names at least one condition, only declared ones, each once, and the
  runtime is a finite non-negative number, so the coverage rows read it without a dangling id.\<close>

theorem document_metadata_closed:
  assumes "o_document v role = Inr doc" and "doc_metadata doc = Some md"
  shows "metadata_ok md"
proof -
  obtain root where root: "o_document_root v role = Inr root"
    using assms(1) by (auto simp: o_document_def)
  obtain corner where corner: "dget root ''corner'' = VStr corner" "bounded_value 256 (VStr corner)"
    using assms(1) root by (cases "dget root ''corner''")
      (auto simp: o_document_def o_refuse_def split: if_split_asm)
  obtain val where val: "dget root ''validity'' = VDict val"
    using assms(1) root corner by (cases "dget root ''validity''") (auto simp: o_document_def o_refuse_def)
  obtain obs where "dget root ''observables'' = VDict obs"
    using assms(1) root corner val
    by (cases "dget root ''observables''") (auto simp: o_document_def o_refuse_def)
  then have "o_metadata (dget root ''metadata'') role = Inr md"
    using assms root corner val by (auto simp: o_document_def Let_def split: if_split_asm)
  then show ?thesis by (rule o_metadata_ok)
qed

theorem document_metadata_closed_witness:
  "metadata_ok example_run \<and> md_lineage example_run = [(''gain'', [''c1''])]"
  using document_metadata_closed [OF example_document_parsed [of "''tt''" "''observed''"], of example_run]
  by (simp add: example_doc_def example_run_def)

end
