(* ===== verification/RunOracle.thy ===== *)
theory RunOracle
  imports RunInventory OracleEvidence
begin

text \<open>
  The runner and the oracle comparator together: the envelope of every finished run passes the
  document validator of the comparator, which reads back the attempts and the lineage of the run.
\<close>

section \<open>Names\<close>

definition short_name :: "string \<Rightarrow> bool" where
  "short_name s \<longleftrightarrow> 1 \<le> length s \<and> length s \<le> 64 \<and> list_all printable_char s"

text \<open>The bounds the plan schema puts on identifiers and reasons, and on the number of observables.\<close>

definition publishable_plan :: "prepared_plan \<Rightarrow> bool" where
  "publishable_plan pp \<longleftrightarrow>
     (\<forall>sg \<in> set (pp_stages pp). short_name (sg_id sg)
        \<and> (\<forall>pt \<in> set (sg_points sg). short_name (pt_id pt)
             \<and> (\<forall>r \<in> set (pt_rules pt). short_name (vr_id r) \<and> length (vr_reason r) \<le> 64))
        \<and> (\<forall>r \<in> set (sg_rules sg). short_name (vr_id r)))
     \<and> (\<forall>ob \<in> set (pp_observables pp). short_name (ob_id ob)) \<and> length (pp_observables pp) \<le> 10000"

definition publishable_compiler :: "run_env \<Rightarrow> bool" where
  "publishable_compiler env \<longleftrightarrow>
     (\<forall>stage bs cp. rn_compile env stage bs = Inr cp \<longrightarrow> (\<forall>cc \<in> set (cp_conditions cp). field_text (cc_id cc)))"

definition digest_function :: "run_env \<Rightarrow> bool" where
  "digest_function env \<longleftrightarrow> (\<forall>t. sha256_text (sha256 (rn_env env) t))"

lemma short_field: "short_name s \<Longrightarrow> field_text s"
  by (auto simp: short_name_def field_text_def)

lemma dec_nat_printable: "list_all printable_char (dec_nat n)"
proof (induction n rule: dec_nat.induct)
  case (1 n)
  have "printable_char (digit_char k)" if "k < 10" for k
    using that by (auto simp: digit_char_def printable_char_def ord_def less_Suc_eq numeral_eq_Suc)
  with 1 show ?case by (subst dec_nat.simps) auto
qed

lemma pad6_ok: "i < 10000 \<Longrightarrow> length (pad6 i) \<le> 6 \<and> list_all printable_char (pad6 i)"
  using dec_nat_length [of i 3] dec_nat_printable [of i]
  by (auto simp: pad6_def Let_def list_all_iff printable_char_def ord_def)

lemma grid_suffix_ok:
  assumes "grid_suffixes pt = Some ss" "s \<in> set ss"
  shows "length s \<le> 64 \<and> list_all printable_char s"
proof (cases "pt_analysis pt")
  case (DcSweep src a b c)
  with assms obtain n i where n: "dc_grid_count a b c = Some n" "i < n" "s = ''not_executed.dc_'' @ pad6 i"
    by (auto simp: grid_suffixes_def split: option.splits)
  have "n \<le> 10000"
    using n(1) by (auto simp: dc_grid_count_def Let_def MAX_ENVELOPE_CONDITIONS_def split: option.splits if_split_asm)
  with n(2) have "i < 10000" by simp
  from pad6_ok [OF this] show ?thesis by (simp add: n(3) printable_char_def ord_def)
qed (use assms in \<open>auto simp: grid_suffixes_def printable_char_def ord_def\<close>)

section \<open>Attempts\<close>

definition attempt_ok :: "attempt \<Rightarrow> bool" where
  "attempt_ok a \<longleftrightarrow>
     field_text (at_condition a) \<and> sha256_text (at_deck_sha256 a) \<and> sha256_text (at_waveform_sha256 a)"

lemma uncompiled_from_ok:
  assumes "digest_function env" "short_name (sg_id sg)"
  shows "uncompiled_from env corner reason sg known pts = Inr (ats, final) \<Longrightarrow>
     \<forall>pt \<in> set pts. short_name (pt_id pt) \<Longrightarrow> \<forall>a \<in> set ats. attempt_ok a"
proof (induction pts arbitrary: known ats)
  case (Cons pt pts)
  show ?case
  proof (cases "pt_corner pt = corner")
    case True
    define ss where "ss = (case grid_suffixes pt of Some ss \<Rightarrow> ss | None \<Rightarrow> [''not_executed''])"
    from Cons.prems(1) True obtain now later where
      now: "map_res (uncompiled_attempt env corner reason (known \<and> grid_suffixes pt \<noteq> None) sg pt) ss = Inr now"
      and later: "uncompiled_from env corner reason sg (known \<and> grid_suffixes pt \<noteq> None) pts = Inr (later, final)"
      and ats: "ats = now @ later"
      by (auto simp: Let_def ss_def)
    have "attempt_ok a" if "a \<in> set now" for a
    proof -
      from list_all2_mem_right [OF now [unfolded map_res_eq_Inr] that] obtain s where
        s: "s \<in> set ss" "uncompiled_attempt env corner reason (known \<and> grid_suffixes pt \<noteq> None) sg pt s = Inr a" by blast
      have "length s \<le> 64 \<and> list_all printable_char s"
      proof (cases "grid_suffixes pt")
        case None
        then show ?thesis using s(1) by (simp add: ss_def printable_char_def ord_def)
      next
        case (Some us)
        then show ?thesis using s(1) grid_suffix_ok by (simp add: ss_def)
      qed
      moreover have "at_condition a = sg_id sg @ ''.'' @ pt_id pt @ ''.'' @ s"
        "at_deck_sha256 a = sha256 (rn_env env) []" "at_waveform_sha256 a = sha256 (rn_env env) []"
        using s(2) by (auto simp: uncompiled_attempt_def Let_def)
      moreover have "short_name (pt_id pt)" using Cons.prems(2) by simp
      ultimately show ?thesis
        using assms by (auto simp: attempt_ok_def field_text_def short_name_def digest_function_def printable_char_def ord_def)
    qed
    then show ?thesis using Cons.IH [OF later] Cons.prems(2) by (auto simp: ats)
  qed (use Cons in simp)
qed simp

lemma reachable_attempts_ok:
  assumes "digest_function env" "publishable_plan pp" "publishable_compiler env" "reachable_run env pp corner st"
  shows "\<forall>a \<in> set (rt_attempts st). attempt_ok a"
  using assms(4)
proof (induction rule: rtranclp_induct)
  case base
  show ?case by (simp add: initial_run_def)
next
  case (step st st')
  from step.hyps(2) show ?case
  proof (cases rule: stage_step.cases)
    case (refused sg e)
    obtain reason missing known where m: "uncompiled_from env corner reason sg True (sg_points sg) = Inr (missing, known)"
        "rt_attempts st' = rt_attempts st @ missing"
      using refused(3) by (auto simp: stage_uncompiled_def uncompiled_attempts_def Let_def)
    have "short_name (sg_id sg)" "\<forall>pt \<in> set (sg_points sg). short_name (pt_id pt)"
      using assms(2) refused(1) by (auto simp: publishable_plan_def)
    from uncompiled_from_ok [OF assms(1) this(1) m(1) this(2)] step.IH show ?thesis by (auto simp: m(2))
  next
    case (executed stage cp sha dut)
    have "attempt_ok (attempt_of env (point_documents pp) cc)" if "cc \<in> set (cp_conditions cp)" for cc
      using that executed(2) assms(1,3)
      by (auto simp: attempt_ok_def publishable_compiler_def digest_function_def attempt_of_def condition_attempt_def Let_def
          split: prod.split)
    then show ?thesis
      using step.IH by (auto simp: executed(1) executed_stage_def execute_conditions_attempts(1) Let_def)
  next
    case bound
    then show ?thesis using step.IH by (auto simp: bind_stage_def)
  qed
qed

section \<open>Verdicts\<close>

lemma unknown_verdict_length: "1 \<le> length (unknown_verdict reason) \<and> length (unknown_verdict reason) \<le> 1024"
  by (simp add: unknown_verdict_def Let_def)

lemma verdict_length:
  assumes "publishable_plan pp" "verdict_of pp corner vals ats ident verdict"
  shows "1 \<le> length verdict \<and> length verdict \<le> 1024"
proof (cases ident)
  case (PointRule s p r)
  then obtain sg pt rule where *: "sg \<in> set (pp_stages pp)" "pt \<in> set (sg_points sg)" "rule \<in> set (pt_rules pt)"
      "verdict = fst (point_rule pp corner (values_of vals (s, p)) ats (s, p) rule)"
    using assms(2) by (auto simp: verdict_of_def)
  have reason: "length (vr_reason rule) \<le> 64" using assms(1) *(1-3) by (auto simp: publishable_plan_def)
  have rule: "1 \<le> length w \<and> length w \<le> 1024"
    if "evaluate_validity_rule pp corner vs rule = Inr w" for vs w
    using that reason by (auto simp: evaluate_validity_rule_def Let_def split: rule_doc.splits if_split_asm)
  show ?thesis
    using *(4) rule unknown_verdict_length by (auto simp: point_rule_def split: list.splits sum.splits)
qed (use assms(2) unknown_verdict_length in \<open>simp add: verdict_of_def\<close>)

lemma verdict_parts_length:
  assumes "publishable_plan pp" "verdict_of pp corner vals ats ident verdict"
  shows "case ident of
      PointRule s p r \<Rightarrow> length s \<le> 64 \<and> length p \<le> 64 \<and> 1 \<le> length r \<and> length r \<le> 64
    | StageRule s r \<Rightarrow> length s \<le> 64 \<and> 1 \<le> length r \<and> length r \<le> 64"
proof -
  have parts: "short_name (sg_id sg)" "\<And>pt. pt \<in> set (sg_points sg) \<Longrightarrow> short_name (pt_id pt)"
      "\<And>pt r. pt \<in> set (sg_points sg) \<Longrightarrow> r \<in> set (pt_rules pt) \<Longrightarrow> short_name (vr_id r)"
      "\<And>r. r \<in> set (sg_rules sg) \<Longrightarrow> short_name (vr_id r)" if "sg \<in> set (pp_stages pp)" for sg
    using that assms(1) by (auto simp: publishable_plan_def)
  show ?thesis
    using assms(2) parts by (cases ident) (auto simp: verdict_of_def short_name_def)
qed

lemma verdict_name_length:
  assumes "publishable_plan pp" "verdict_of pp corner vals ats ident verdict"
  shows "1 \<le> length (verdict_name idents ident) \<and> length (verdict_name idents ident) \<le> 256"
  using verdict_parts_length [OF assms] by (cases ident) (auto simp: verdict_name_def Let_def)

lemma named_validity_set: "set (named_validity vs) \<subseteq> (\<lambda>(i, w). (verdict_name (map fst vs) i, w)) ` set vs"
proof -
  define f where "f = verdict_name (map fst vs)"
  have "set (fold (\<lambda>(i, w). AList.update (f i) w) ws d) \<subseteq> set d \<union> (\<lambda>(i, w). (f i, w)) ` set ws" for ws d
  proof (induction ws arbitrary: d)
    case (Cons w ws)
    obtain i x where w: "w = (i, x)" by (cases w)
    from Cons.IH [of "AList.update (f i) x d"] set_update_subset [of "f i" x d] show ?case by (auto simp: w)
  qed simp
  from this [of vs "[]"] show ?thesis by (simp add: named_validity_def f_def)
qed

lemma o_validity_ok:
  "(\<And>name w. (name, w) \<in> set validity \<Longrightarrow> 1 \<le> length name \<and> length name \<le> 256 \<and> 1 \<le> length w \<and> length w \<le> 1024) \<Longrightarrow>
     o_validity role (map (\<lambda>(k, v). (VStr k, v)) (map (\<lambda>(name, w). (name, VStr w)) validity)) = Inr ()"
proof (induction validity)
  case (Cons kv validity)
  obtain name w where kv: "kv = (name, w)" by (cases kv)
  have "o_validity role (map (\<lambda>(k, v). (VStr k, v)) (map (\<lambda>(name, w). (name, VStr w)) validity)) = Inr ()"
    by (rule Cons.IH) (use Cons.prems in auto)
  with Cons.prems [of name w] show ?case by (simp add: kv bounded_value_def)
qed simp

section \<open>Metadata\<close>

lemma o_closed_obj:
  assumes "set req \<subseteq> fst ` set fs" and "fst ` set fs \<subseteq> set req \<union> set opt"
  shows "o_closed (obj fs) label req opt = Inr (map (\<lambda>(k, v). (VStr k, v)) fs)"
proof -
  have unknown: "filter (\<lambda>k. k \<notin> set req \<and> k \<notin> set opt) (map fst fs) = []"
    using assms(2) by (auto simp: filter_empty_conv)
  have missing: "filter (\<lambda>k. k \<notin> fst ` set fs) req = []"
    using assms(1) by (auto simp: filter_empty_conv)
  show ?thesis using assms by (auto simp: o_closed_def Let_def filter_empty_conv image_subset_iff)
qed

lemma dget_fields: "dget (map (\<lambda>(k, v). (VStr k, v)) fs) k = (case map_of fs k of Some v \<Rightarrow> v | None \<Rightarrow> VNone)"
  by (induction fs) auto

lemma o_string_array_ok:
  assumes "list_all field_text ts" "distinct ts" "minimum \<le> length ts" "length ts \<le> maximum"
  shows "o_string_array (VList (map VStr ts)) label maximum minimum = Inr ts"
proof -
  have "map_res (\<lambda>x. case x of VStr s \<Rightarrow> (if field_text s then Inr s else Inl ()) | _ \<Rightarrow> Inl ()) (map VStr ts) = Inr ts"
    using assms(1) by (induction ts) auto
  then show ?thesis using assms(2-4) by (simp add: o_string_array_def as_list_def Let_def)
qed

lemma conditions_read:
  assumes "\<forall>a \<in> set ats. attempt_ok a \<and> list_all field_text (at_observables a) \<and> distinct (at_observables a)
      \<and> length (at_observables a) \<le> 10000"
    and "distinct (map at_condition ats)" "set (map at_condition ats) \<inter> set seen = {}"
  shows "o_conditions role i seen (map condition_entry ats) = Inr (map (\<lambda>a. (at_condition a, at_observables a)) ats)"
  using assms
proof (induction ats arbitrary: i seen)
  case (Cons a ats)
  have a: "attempt_ok a" "list_all field_text (at_observables a)" "distinct (at_observables a)"
      "length (at_observables a) \<le> 10000" "at_condition a \<notin> set seen" using Cons.prems by auto
  have rest: "o_conditions role (Suc i) (at_condition a # seen) (map condition_entry ats) =
      Inr (map (\<lambda>a. (at_condition a, at_observables a)) ats)"
    using Cons.prems by (intro Cons.IH) auto
  have digests: "first_bad_digest (map (\<lambda>(k, v). (VStr k, v)) [(''compiled_deck_sha256'', VStr (at_deck_sha256 a)),
      (''waveform_sha256'', VStr (at_waveform_sha256 a))]) [''compiled_deck_sha256'', ''waveform_sha256''] = None"
    using a(1) by (simp add: first_bad_digest_def attempt_ok_def is_digest_def)
  show ?case
    using a rest digests
    by (simp add: condition_entry_def [of a] o_closed_obj dget_fields o_string_array_ok o_field_name_def attempt_ok_def Let_def)
qed simp

lemma lineage_read:
  assumes "\<forall>(name, ids) \<in> set es. field_text name \<and> ids \<noteq> [] \<and> list_all field_text ids \<and> distinct ids
      \<and> length ids \<le> 10000 \<and> set ids \<subseteq> set cids"
    and "distinct (map fst es)" "set (map fst es) \<inter> set seen = {}"
  shows "o_lineage role cids i seen (map lineage_entry es) = Inr es"
  using assms
proof (induction es arbitrary: i seen)
  case (Cons e es)
  obtain name ids where e: "e = (name, ids)" by (cases e)
  have ok: "field_text name" "ids \<noteq> []" "list_all field_text ids" "distinct ids" "length ids \<le> 10000"
      "set ids \<subseteq> set cids" "name \<notin> set seen" using Cons.prems e by auto
  have rest: "o_lineage role cids (Suc i) (name # seen) (map lineage_entry es) = Inr es"
    using Cons.prems e by (intro Cons.IH) auto
  have known: "sorted_texts (filter (\<lambda>c. c \<notin> set cids) ids) = []" using ok(6) by (auto simp: filter_empty_conv)
  have "1 \<le> length ids" using ok(2) by (cases ids) auto
  then show ?case
    using ok rest known
    by (simp add: e lineage_entry_def [of "(name, ids)"] o_closed_obj dget_fields o_string_array_ok o_field_name_def Let_def)
qed simp

lemma metadata_read:
  assumes "nonneg_number runtime (role @ ''.metadata.grading_runtime_s must be non-negative'') = Inr x"
    and "length cs \<le> 10000" "o_conditions role 0 [] cs = Inr conditions"
    and "length es \<le> 10000" "o_lineage role (map fst conditions) 0 [] es = Inr lineage"
  shows "o_metadata (obj [(''grading_runtime_s'', runtime), (''conditions'', VList cs), (''lineage'', VList es),
      (''extensions'', VDict [])]) role = Inr \<lparr>md_runtime = runtime, md_conditions = conditions, md_lineage = lineage\<rparr>"
  using assms by (simp add: o_metadata_def o_closed_obj)

lemma document_read:
  assumes "sha256_text plan" "sha256_text dut" "bounded_value 256 (VStr corner)" "o_validity role validity = Inr ()"
    and "metadata \<noteq> VNone" "o_metadata metadata role = Inr md"
  shows "o_document (obj [(''schema'', VStr ''simra.testbench-observables/v1''), (''plan_sha256'', VStr plan),
      (''dut_sha256'', VStr dut), (''corner'', VStr corner), (''validity'', VDict validity),
      (''observables'', VDict observables), (''metadata'', metadata), (''extensions'', VDict [])]) role =
    Inr \<lparr>doc_corner = corner, doc_validity = validity, doc_observables = observables, doc_metadata = Some md\<rparr>"
proof -
  define fs where "fs = [(''schema'', VStr ''simra.testbench-observables/v1''), (''plan_sha256'', VStr plan),
      (''dut_sha256'', VStr dut), (''corner'', VStr corner), (''validity'', VDict validity),
      (''observables'', VDict observables), (''metadata'', metadata), (''extensions'', VDict [])]"
  have schema: "vget (obj fs) ''schema'' = Inr (VStr ''simra.testbench-observables/v1'')"
    by (simp add: fs_def vget_def obj_def)
  have closed: "o_closed (obj fs) role plan_document_fields [] = Inr (map (\<lambda>(k, v). (VStr k, v)) fs)"
    by (rule o_closed_obj) (simp_all add: fs_def plan_document_fields_def)
  have "o_document_root (obj fs) role = Inr (map (\<lambda>(k, v). (VStr k, v)) fs)"
    using assms(1,2) unfolding o_document_root_def schema
    by (simp add: closed) (simp add: fs_def first_bad_digest_def is_digest_def)
  then show ?thesis
    using assms unfolding fs_def [symmetric] o_document_def by (simp add: fs_def)
qed

section \<open>The envelope\<close>

lemma outputs_names:
  assumes "outputs_ok obs vals v out" "\<forall>ob \<in> set obs. short_name (ob_id ob)" "length obs \<le> 10000"
  shows "\<forall>name \<in> set (map fst (op_lineage out)). field_text name" and "distinct (map fst (op_lineage out))"
    and "length (op_lineage out) \<le> 10000"
proof -
  have keys: "set (map fst (op_lineage out)) \<subseteq> ob_id ` set obs"
  proof
    fix name assume "name \<in> set (map fst (op_lineage out))"
    then have "name \<in> fst ` set (op_observables out)" using assms(1) by (metis outputs_ok_def set_map)
    then obtain x where "map_of (op_observables out) name = Some x"
      by (cases "map_of (op_observables out) name") (auto simp: map_of_eq_None_iff)
    from outputs_ok_lookup [OF assms(1) this] show "name \<in> ob_id ` set obs" by blast
  qed
  then show "\<forall>name \<in> set (map fst (op_lineage out)). field_text name" using assms(2) short_field by auto
  show distinct: "distinct (map fst (op_lineage out))" using assms(1) by (simp add: outputs_ok_def)
  have "length (op_lineage out) = card (set (map fst (op_lineage out)))" using distinct_card [OF distinct] by simp
  also have "\<dots> \<le> card (ob_id ` set obs)" using keys by (intro card_mono) auto
  also have "\<dots> \<le> length obs" using card_image_le [of "set obs" ob_id] card_length [of obs] by simp
  finally show "length (op_lineage out) \<le> 10000" using assms(3) by simp
qed

lemma emitted_sorted:
  assumes "outputs_ok obs vals v out" "(name, ids) \<in> set (op_lineage out)"
  shows "distinct ids"
proof -
  have lookup: "map_of (op_lineage out) name = Some ids" using assms by (simp add: outputs_ok_def)
  have "name \<in> fst ` set (op_lineage out)" using assms(2) by force
  then have "name \<in> fst ` set (op_observables out)" using assms(1) by (metis outputs_ok_def set_map)
  then obtain x where "map_of (op_observables out) name = Some x"
    by (cases "map_of (op_observables out) name") (auto simp: map_of_eq_None_iff)
  from outputs_ok_lookup [OF assms(1) this] lookup obtain ob :: plan_observable where
    "emitted_as vals v (ob_source ob) x ids" by auto
  then show ?thesis by (auto simp: emitted_as_def Let_def split: observable_source.splits)
qed

definition run_document :: "string \<Rightarrow> outputs \<Rightarrow> (string \<times> string) list \<Rightarrow> run_env \<Rightarrow> attempt list \<Rightarrow> document" where
  "run_document corner out validity env ats =
     \<lparr>doc_corner = corner, doc_validity = map (\<lambda>(k, v). (VStr k, v)) (map (\<lambda>(name, w). (name, VStr w)) validity),
      doc_observables = map (\<lambda>(k, v). (VStr k, v)) (op_observables out),
      doc_metadata = Some \<lparr>md_runtime = VFloat (fmax (PFin 0) (rn_runtime env)),
        md_conditions = map (\<lambda>a. (at_condition a, at_observables a)) ats,
        md_lineage = sort_key fst (op_lineage out)\<rparr>\<rparr>"

text \<open>C26: The comparator accepts what the runner publishes: for an environment with SHA-256 digests and
  a finite clock, names within the bounds of the plan schema and condition identifiers the comparator
  can read, the envelope of every finished run passes the document validator of the comparison in
  either role, and the validator reads back the attempted conditions with their observables, and the
  lineage, of the run.\<close>

theorem run_envelope_accepted:
  assumes run: "execute_testbench_plan env pp corner expected timeout = Inr r"
    and env: "digest_function env" "sha256_text (rn_plan_sha256 env)" "is_finite (rn_runtime env)"
    and names: "publishable_plan pp" "publishable_compiler env" "1 \<le> length corner" "length corner \<le> 256"
  shows "\<exists>digest out validity. rr_envelope r = run_envelope env digest corner out validity (rr_attempts r)
     \<and> o_document (rr_envelope r) role = Inr (run_document corner out validity env (rr_attempts r))"
proof -
  from run_parts [OF run] obtain st digest out where
    st: "run_stages env pp corner = Inr st" and digest: "envelope_digest pp expected st = Inr digest"
    and inventory: "check_inventory (rt_attempts st) = Inr ()"
    and ok: "outputs_ok (pp_observables pp) (rt_values st) (all_verdicts pp corner (rt_values st) (rt_attempts st)) out"
    and closed: "\<forall>name ids. map_of (op_lineage out) name = Some ids \<longrightarrow>
       ids \<noteq> [] \<and> set ids \<subseteq> at_condition ` set (rt_attempts st)"
    and ats: "rr_attempts r = map (emitted_by (op_lineage out)) (rt_attempts st)"
    and envelope: "rr_envelope r = run_envelope env digest corner out
       (named_validity (vd_verdicts (all_verdicts pp corner (rt_values st) (rt_attempts st)))) (rr_attempts r)" by blast
  define vd where "vd = vd_verdicts (all_verdicts pp corner (rt_values st) (rt_attempts st))"
  note attempts = reachable_attempts_ok [OF env(1) names(1,2) run_stages_reachable [OF st]]
  have obs: "\<forall>ob \<in> set (pp_observables pp). short_name (ob_id ob)" "length (pp_observables pp) \<le> 10000"
    using names(1) by (auto simp: publishable_plan_def)
  note lineage = outputs_names [OF ok obs]
  have count: "distinct (map at_condition (rr_attempts r))" "length (rr_attempts r) \<le> 10000"
    using inventory by (auto simp: check_inventory_def ats o_def MAX_ENVELOPE_CONDITIONS_def split: if_split_asm)
  have entry: "attempt_ok (emitted_by l a) \<and> list_all field_text (at_observables (emitted_by l a))
      \<and> distinct (at_observables (emitted_by l a)) \<and> length (at_observables (emitted_by l a)) \<le> 10000"
    if "a \<in> set (rt_attempts st)" and l: "l = op_lineage out" for a l
  proof -
    have sub: "set (at_observables (emitted_by l a)) \<subseteq> set (map fst l)" by (auto simp: emitted_by_def)
    have dist: "distinct (at_observables (emitted_by l a))" by (simp add: emitted_by_def sorted_texts_def)
    have "length (at_observables (emitted_by l a)) \<le> length l"
      using card_mono [OF _ sub] distinct_card [OF dist] card_length [of "map fst l"] by simp
    moreover have "attempt_ok (emitted_by l a)"
      using attempts that(1) by (simp add: attempt_ok_def emitted_by_def)
    ultimately show ?thesis using sub dist lineage l by (auto simp: list_all_iff)
  qed
  have conditions: "o_conditions role 0 [] (map condition_entry (rr_attempts r)) =
      Inr (map (\<lambda>a. (at_condition a, at_observables a)) (rr_attempts r))"
    using entry count by (intro conditions_read) (auto simp: ats)
  have ids_ok: "field_text name \<and> ids \<noteq> [] \<and> list_all field_text ids \<and> distinct ids \<and> length ids \<le> 10000
      \<and> set ids \<subseteq> set (map at_condition (rr_attempts r))"
    if "(name, ids) \<in> set (op_lineage out)" for name ids
  proof -
    have "map_of (op_lineage out) name = Some ids" using lineage(2) that by simp
    with closed have sub: "ids \<noteq> []" "set ids \<subseteq> at_condition ` set (rt_attempts st)" by auto
    have dist: "distinct ids" using emitted_sorted [OF ok that] .
    have "length ids \<le> length (rt_attempts st)"
      using card_mono [OF _ sub(2)] distinct_card [OF dist] card_image_le [of "set (rt_attempts st)" at_condition]
        card_length [of "rt_attempts st"] by simp
    moreover have "length (rt_attempts st) \<le> 10000" using count(2) by (simp add: ats)
    moreover have "list_all field_text ids" using sub(2) attempts by (auto simp: list_all_iff attempt_ok_def)
    moreover have "field_text name" using lineage(1) that by force
    ultimately show ?thesis using sub dist by (simp add: ats image_image)
  qed
  have lineages: "o_lineage role (map at_condition (rr_attempts r)) 0 [] (map lineage_entry (sort_key fst (op_lineage out))) =
      Inr (sort_key fst (op_lineage out))"
    using ids_ok lineage(2) by (intro lineage_read) (auto simp: distinct_map)
  have validity: "o_validity role (map (\<lambda>(k, v). (VStr k, v)) (map (\<lambda>(name, w). (name, VStr w)) (named_validity vd))) = Inr ()"
  proof (rule o_validity_ok)
    fix name w assume "(name, w) \<in> set (named_validity vd)"
    then obtain ident where ident: "(ident, w) \<in> set vd" "name = verdict_name (map fst vd) ident"
      using named_validity_set [of vd] by auto
    then have "verdict_of pp corner (rt_values st) (rt_attempts st) ident w"
      using all_verdicts_ok [of pp corner "rt_values st" "rt_attempts st"] by (auto simp: verdicts_ok_def vd_def)
    from verdict_length [OF names(1) this] verdict_name_length [OF names(1) this] ident(2)
    show "1 \<le> length name \<and> length name \<le> 256 \<and> 1 \<le> length w \<and> length w \<le> 1024" by simp
  qed
  have runtime: "nonneg_number (VFloat (fmax (PFin 0) (rn_runtime env))) msg = Inr (fmax (PFin 0) (rn_runtime env))" for msg
    using env(3) by (cases "rn_runtime env") (auto simp: nonneg_number_def finite_number_def as_number_def fmax_def)
  have metadata: "o_metadata (obj [(''grading_runtime_s'', VFloat (fmax (PFin 0) (rn_runtime env))),
      (''conditions'', VList (map condition_entry (rr_attempts r))),
      (''lineage'', VList (map lineage_entry (sort_key fst (op_lineage out)))), (''extensions'', VDict [])]) role =
      Inr (the (doc_metadata (run_document corner out (named_validity vd) env (rr_attempts r))))"
    using metadata_read [OF runtime _ conditions _, of "map lineage_entry (sort_key fst (op_lineage out))"]
      count(2) lineage(3) lineages
    by (simp add: o_def run_document_def)
  have "sha256_text digest" using digest by (auto simp: envelope_digest_def Let_def split: if_split_asm)
  from document_read [OF env(2) this _ validity _ metadata, of corner "map (\<lambda>(k, v). (VStr k, v)) (op_observables out)"]
  have "o_document (rr_envelope r) role = Inr (run_document corner out (named_validity vd) env (rr_attempts r))"
    using names(3,4)
    by (simp add: envelope run_envelope_def vd_def [symmetric] bounded_value_def obj_def run_document_def)
  with envelope show ?thesis unfolding vd_def by blast
qed

theorem run_envelope_accepted_witness:
  "\<exists>r. execute_testbench_plan sample_env sample_prepared ''tt'' None (VInt 60) = Inr r
     \<and> (\<exists>doc. o_document (rr_envelope r) ''submission'' = Inr doc \<and> doc_corner doc = ''tt'')"
proof -
  obtain r where r: "execute_testbench_plan sample_env sample_prepared ''tt'' None (VInt 60) = Inr r"
    using sample_finished by force
  have "digest_function sample_env" "sha256_text (rn_plan_sha256 sample_env)" "is_finite (rn_runtime sample_env)"
    using sample_digest_text by (simp_all add: digest_function_def sample_env_def)
  moreover have "publishable_compiler sample_env"
    by (simp add: publishable_compiler_def sample_env_def sample_compilation_def sample_condition_def field_text_def
        printable_char_def ord_def)
  moreover have "publishable_plan sample_prepared"
    by (simp add: publishable_plan_def sample_prepared_def sample_stage_def sample_point_def short_name_def
        printable_char_def ord_def)
  ultimately obtain digest out validity where
    "o_document (rr_envelope r) ''submission'' = Inr (run_document ''tt'' out validity sample_env (rr_attempts r))"
    using run_envelope_accepted [OF r, of "''submission''"] by auto
  with r show ?thesis by (auto simp: run_document_def)
qed

end
