(* ===== verification/RunHost.thy ===== *)
theory RunHost
  imports RunStages
begin

text \<open>
  The records the host executor hands to the runner, and which of them the runner admits: a note
  appended to a full capture makes it longer than the limit the runner enforces.
\<close>

definition host_note :: "process_end \<Rightarrow> string \<Rightarrow> string" where
  "host_note how body =
     (case how of
        ProcessTimeout \<Rightarrow> CHR 0x0A # ''runner timeout''
      | ProcessExit code \<Rightarrow>
          (if MAX_WAVEFORM_BYTES < length body then CHR 0x0A # ''waveform exceeds runner limit'' else []))"

lemma host_stderr:
  "ex_stderr (host_execution identity how out err body) = take MAX_PROCESS_CAPTURE_BYTES err @ host_note how body"
  by (simp add: host_execution_def host_note_def Let_def split: process_end.split)

lemma host_fields:
  "ex_stdout (host_execution identity how out err body) = take MAX_PROCESS_CAPTURE_BYTES out"
  "ex_identity (host_execution identity how out err body) = identity"
  "length (ex_waveform (host_execution identity how out err body)) \<le> MAX_WAVEFORM_BYTES"
  by (auto simp: host_execution_def Let_def split: process_end.split)

text \<open>C27: The runner admits what its own executor returns exactly when the note of a timeout or of an
  oversized waveform fits behind the captured standard error; otherwise the execution that took place
  is refused as malformed, and the attempt is recorded as never executed.\<close>

theorem host_execution_admitted:
  assumes "1 \<le> length identity" "length identity \<le> 512"
  shows "admit (Candidate (host_execution identity how out err body)) =
     (if MAX_PROCESS_CAPTURE_BYTES < min MAX_PROCESS_CAPTURE_BYTES (length err) + length (host_note how body)
      then Inl (ValueError ''executor process capture exceeds runner limit'')
      else Inr (host_execution identity how out err body))"
proof -
  let ?x = "host_execution identity how out err body"
  have "length (ex_stderr ?x) = min MAX_PROCESS_CAPTURE_BYTES (length err) + length (host_note how body)"
    by (simp add: host_stderr min.commute)
  moreover have "\<not> MAX_WAVEFORM_BYTES < length (ex_waveform ?x)" using host_fields(3) by (simp add: not_less)
  moreover have "\<not> MAX_PROCESS_CAPTURE_BYTES < length (ex_stdout ?x)" by (simp add: host_fields(1))
  ultimately show ?thesis using assms by (simp add: admit_def host_fields(2))
qed

theorem host_execution_admitted_witness:
  "admit (Candidate (host_execution ''ngspice'' ProcessTimeout [] (replicate MAX_PROCESS_CAPTURE_BYTES (CHR ''x'')) [])) =
     Inl (ValueError ''executor process capture exceeds runner limit'')"
  using host_execution_admitted [of "''ngspice''" ProcessTimeout "[]" "replicate MAX_PROCESS_CAPTURE_BYTES (CHR ''x'')" "[]"]
  by (simp add: host_note_def)

end
