(* ===== verification/DeckDecimal.thy ===== *)
theory DeckDecimal
  imports RunStages
begin

text \<open>
  Numbers in \<open>openada/operations/testbench_plan_ngspice.py\<close>: decimals of the default context of the
  \<open>decimal\<close> module as rationals, with its rounding to 28 digits written out, the number tokens of a
  deck, and the grid of a DC sweep.  A token reads back as the decimal it was made from.
\<close>

section \<open>Decimal arithmetic\<close>

definition compile_error :: "string \<Rightarrow> string \<Rightarrow> string \<Rightarrow> pyexc" where
  "compile_error code path msg = CompileError (''testbench_plan.compiler.'' @ code) path msg"

definition decimal_limit :: rat where "decimal_limit = 10 ^ 300"

text \<open>\<open>abs(x) > Decimal("1e300")\<close>, where \<open>abs\<close> rounds as every operation does.\<close>

definition decimal_over :: "rat \<Rightarrow> bool" where
  "decimal_over x \<longleftrightarrow> decimal_limit < decimal_round \<bar>x\<bar>"

definition decimal_arg :: "string \<Rightarrow> rat \<Rightarrow> rat pyres" where
  "decimal_arg path x =
     (let result = decimal_of x
      in if decimal_over result
         then Inl (compile_error ''number_invalid'' path ''value must be finite and bounded by 1e300'')
         else Inr result)"

definition dec_add :: "rat \<Rightarrow> rat \<Rightarrow> rat" where "dec_add x y = decimal_round (x + y)"
definition dec_sub :: "rat \<Rightarrow> rat \<Rightarrow> rat" where "dec_sub x y = decimal_round (x - y)"
definition dec_mul :: "rat \<Rightarrow> rat \<Rightarrow> rat" where "dec_mul x y = decimal_round (x * y)"
definition dec_div :: "rat \<Rightarrow> rat \<Rightarrow> rat" where "dec_div x y = decimal_round (x / y)"

text \<open>
  \<open>x % y\<close> has the sign of \<open>x\<close>; it is an invalid operation for a zero divisor and for an integer
  quotient of more than 28 digits.
\<close>

definition dec_mod :: "rat \<Rightarrow> rat \<Rightarrow> rat pyres" where
  "dec_mod x y =
     (let invalid = (\<lambda>c. Inl (OtherError ''InvalidOperation''
            (''[<class '' @ repr_text (''decimal.'' @ c) @ ''>]'')))
      in if y = 0 then invalid (if x = 0 then ''DivisionUndefined'' else ''InvalidOperation'')
         else let quotient = \<lfloor>\<bar>x\<bar> / \<bar>y\<bar>\<rfloor>
              in if 10 ^ 28 \<le> quotient then invalid ''DivisionImpossible''
                 else Inr (decimal_round ((if x < 0 then - 1 else 1) * (\<bar>x\<bar> - of_int quotient * \<bar>y\<bar>))))"

section \<open>Number tokens\<close>

text \<open>The digits and exponent of \<open>value.normalize()\<close>.\<close>

function strip_zeros :: "nat \<Rightarrow> int \<Rightarrow> nat \<times> int" where
  "strip_zeros m e = (if m \<noteq> 0 \<and> 10 dvd m then strip_zeros (m div 10) (e + 1) else (m, e))"
  by pat_completeness auto
termination strip_zeros
  by (relation "measure fst") (auto elim!: dvdE)

declare strip_zeros.simps [simp del]

definition normalized :: "rat \<Rightarrow> nat \<times> int" where
  "normalized x = (let k = flog10 \<bar>x\<bar> - 27 in strip_zeros (nat (rhe (\<bar>x\<bar> / pow10 k))) k)"

definition plain_notation :: "string \<Rightarrow> int \<Rightarrow> string" where
  "plain_notation ds e =
     (if 0 \<le> e then ds @ replicate (nat e) (CHR ''0'')
      else let places = nat (- e); padded = replicate (Suc places - length ds) (CHR ''0'') @ ds
           in take (length padded - places) padded @ ''.'' @ drop (length padded - places) padded)"

definition number_token :: "rat \<Rightarrow> string" where
  "number_token x =
     (if x = 0 then ''0''
      else (case normalized x of (m, e) \<Rightarrow>
        let ds = dec_nat m; adjusted = e + int (length ds) - 1; sgn = (if x < 0 then ''-'' else [])
        in if - 3 \<le> adjusted \<and> adjusted \<le> 6 then sgn @ plain_notation ds e
           else sgn @ take 1 ds @ (if length ds = 1 then [] else ''.'' @ drop 1 ds) @ ''e'' @ dec_int adjusted))"

text \<open>\<open>Decimal(text)\<close> of a decimal numeral: a sign, digits, a fraction and an exponent.\<close>

definition digit_of :: "char \<Rightarrow> nat" where
  "digit_of c = ord c - 48"

definition digits_value :: "string \<Rightarrow> nat" where
  "digits_value ds = foldl (\<lambda>acc c. 10 * acc + digit_of c) 0 ds"

definition is_digits :: "string \<Rightarrow> bool" where
  "is_digits ds \<longleftrightarrow> ds \<noteq> [] \<and> list_all ascii_digit ds"

definition signed_text :: "string \<Rightarrow> bool \<times> string" where
  "signed_text s = (case s of [] \<Rightarrow> (False, []) | c # cs \<Rightarrow> (if c = CHR ''-'' then (True, cs) else (False, s)))"

definition exponent_of :: "string \<Rightarrow> int option" where
  "exponent_of t =
     (case t of
        [] \<Rightarrow> Some 0
      | c # cs \<Rightarrow> (case signed_text cs of (neg, ds) \<Rightarrow>
          if is_digits ds then Some ((if neg then - 1 else 1) * int (digits_value ds)) else None))"

definition decimal_text :: "string \<Rightarrow> rat option" where
  "decimal_text s =
     (case signed_text s of (neg, body) \<Rightarrow>
        let mantissa = takeWhile (\<lambda>c. c \<noteq> CHR ''e'') body;
            whole = takeWhile (\<lambda>c. c \<noteq> CHR ''.'') mantissa;
            fraction = drop (Suc (length whole)) mantissa
        in (case exponent_of (drop (length mantissa) body) of
              None \<Rightarrow> None
            | Some e \<Rightarrow>
                if is_digits (whole @ fraction)
                then Some ((if neg then - 1 else 1) * of_nat (digits_value (whole @ fraction))
                           * pow10 (e - int (length fraction)))
                else None))"

section \<open>The grid of a DC sweep\<close>

definition MAX_DC_SAMPLES :: int where "MAX_DC_SAMPLES = 1000000"

definition dc_grid :: "rat \<Rightarrow> rat \<Rightarrow> rat \<Rightarrow> rat list pyres" where
  "dc_grid start stop step =
     (if step \<le> 0 \<or> stop < start
      then Inl (compile_error ''dc_range_invalid'' ''/analysis''
        ''DC range requires stop >= start and a positive step'')
      else let count = \<lfloor>dec_div (dec_sub stop start) step\<rfloor> + 1
           in if \<not> (1 \<le> count \<and> count \<le> MAX_DC_SAMPLES)
              then Inl (compile_error ''dc_range_over_limit'' ''/analysis''
                ''DC range expands outside 1..1000000 samples'')
              else let grid = map (\<lambda>i. dec_add start (dec_mul step (of_nat i))) [0..<nat count]
                   in if last grid \<noteq> stop
                      then Inl (compile_error ''dc_range_not_integral'' ''/analysis''
                        ''DC range must land exactly on stop'')
                      else Inr grid)"

end
