(* ===== verification/DeckSeal.thy ===== *)
theory DeckSeal
  imports DeckDecimal
begin

text \<open>
  \<open>seal_structural_dut\<close> of \<open>openada/operations/testbench_plan_ngspice.py\<close>: the digest check of a
  device-under-test artifact, its closed line grammar and its renaming into the namespace of the
  compiler.  The artifact is text of 7-bit characters, on which UTF-8 decoding is the identity.
\<close>

section \<open>Text\<close>

text \<open>\<open>text.split(sep)\<close> for one character, \<open>line.strip()\<close> and \<open>line.split()\<close>.\<close>

fun split_on :: "char \<Rightarrow> string \<Rightarrow> string list" where
  "split_on sep [] = [[]]"
| "split_on sep (c # cs) =
     (if c = sep then [] # split_on sep cs
      else (case split_on sep cs of w # ws \<Rightarrow> (c # w) # ws | [] \<Rightarrow> [[c]]))"

definition strip :: "string \<Rightarrow> string" where
  "strip s = strip_by py_space s"

function words :: "string \<Rightarrow> string list" where
  "words s =
     (case dropWhile py_space s of
        [] \<Rightarrow> []
      | c # cs \<Rightarrow>
          takeWhile (\<lambda>c. \<not> py_space c) (c # cs) # words (dropWhile (\<lambda>c. \<not> py_space c) (c # cs)))"
  by pat_completeness auto

lemma words_shorter:
  "dropWhile py_space s = c # cs \<Longrightarrow> length (dropWhile (\<lambda>c. \<not> py_space c) (c # cs)) < length s"
proof -
  assume s: "dropWhile py_space s = c # cs"
  then have "\<not> py_space c" by (metis hd_dropWhile list.distinct(1) list.sel(1))
  then have "length (dropWhile (\<lambda>c. \<not> py_space c) (c # cs)) \<le> length cs"
    using length_dropWhile_le [of "\<lambda>c. \<not> py_space c" cs] by simp
  also have "length cs < length s"
    using length_dropWhile_le [of py_space s] by (simp add: s)
  finally show ?thesis .
qed

termination words
  by (relation "measure length") (use words_shorter in auto)

declare words.simps [simp del]

definition alpha :: "char \<Rightarrow> bool" where
  "alpha c \<longleftrightarrow> 65 \<le> ord c \<and> ord c \<le> 90 \<or> 97 \<le> ord c \<and> ord c \<le> 122"

definition name_char :: "char \<Rightarrow> bool" where
  "name_char c \<longleftrightarrow> alpha c \<or> 48 \<le> ord c \<and> ord c \<le> 57 \<or> c = CHR ''_''"

text \<open>\<open>^[A-Za-z][A-Za-z0-9_]{0,127}$\<close>.\<close>

definition spice_name :: "string \<Rightarrow> bool" where
  "spice_name s \<longleftrightarrow>
     (case s of [] \<Rightarrow> False | c # cs \<Rightarrow> alpha c \<and> length cs \<le> 127 \<and> list_all name_char cs)"

section \<open>The seal\<close>

definition MAX_DUT_BYTES :: nat where "MAX_DUT_BYTES = 4 * 1024 * 1024"

definition allowed_device :: "char \<Rightarrow> bool" where
  "allowed_device c \<longleftrightarrow> fold_char c \<in> set ''cdjlmqr''"

definition forbidden_char :: "char \<Rightarrow> bool" where
  "forbidden_char c \<longleftrightarrow> c \<in> {CHR 0x3B, CHR 0x24, CHR 0x5C, CHR 0x7B, CHR 0x7D, CHR 0x22, CHR 0x27}"

record sealed_dut =
  sd_raw :: string
  sd_raw_sha256 :: string
  sd_canonical :: string
  sd_canonical_sha256 :: string
  sd_original_top :: string
  sd_top :: string

definition compiler_top :: "string \<Rightarrow> string \<Rightarrow> string pyres" where
  "compiler_top namespace top_name =
     (let name = ''OPENADA_'' @ namespace @ ''_'' @ top_name
      in if spice_name name then Inr name
         else Inl (compile_error ''namespace_invalid'' ''/dut/namespace''
           ''the sealed namespace and top exceed the ngspice identifier boundary''))"

record seal_state =
  ss_output :: "string list"
  ss_inside :: bool
  ss_subckt :: bool
  ss_ends :: bool
  ss_instances :: "string list"

definition seal_start :: seal_state where
  "seal_start = \<lparr>ss_output = [], ss_inside = False, ss_subckt = False, ss_ends = False, ss_instances = []\<rparr>"

text \<open>\<open>repr\<close> of a tuple of texts.\<close>

definition repr_tuple :: "string list \<Rightarrow> string" where
  "repr_tuple ts =
     (case ts of [t] \<Rightarrow> ''('' @ repr_text t @ '',)'' | _ \<Rightarrow> ''('' @ join '', '' (map repr_text ts) @ '')'')"

definition seal_subckt ::
  "string \<Rightarrow> string list \<Rightarrow> string \<Rightarrow> string \<Rightarrow> string list \<Rightarrow> seal_state \<Rightarrow> seal_state pyres" where
  "seal_subckt top_name ports sealed_top pointer tokens ss =
     (if ss_inside ss \<or> ss_subckt ss \<or> ss_ends ss
      then Inl (compile_error ''dut_shadowing'' pointer
        ''the sealed DUT must contain exactly one non-nested subcircuit'')
      else if length tokens < 3 \<or> casefold (tokens ! 1) \<noteq> casefold top_name
      then Inl (compile_error ''dut_top_mismatch'' pointer
        (''expected exactly one .SUBCKT named '' @ repr_text top_name))
      else if drop 2 tokens \<noteq> ports
      then Inl (compile_error ''dut_ports_mismatch'' pointer
        (''subcircuit ports '' @ repr_tuple (drop 2 tokens) @ '' do not match sealed ABI '' @ repr_tuple ports))
      else Inr (ss\<lparr>ss_inside := True, ss_subckt := True,
                   ss_output := ss_output ss @ [''.SUBCKT '' @ join '' '' (sealed_top # ports)]\<rparr>))"

definition seal_ends ::
  "string \<Rightarrow> string \<Rightarrow> string \<Rightarrow> string list \<Rightarrow> seal_state \<Rightarrow> seal_state pyres" where
  "seal_ends top_name sealed_top pointer tokens ss =
     (if \<not> ss_inside ss \<or> ss_ends ss \<or> length tokens \<notin> {1, 2}
      then Inl (compile_error ''dut_boundary_invalid'' pointer ''unexpected or malformed .ENDS'')
      else if length tokens = 2 \<and> casefold (tokens ! 1) \<noteq> casefold top_name
      then Inl (compile_error ''dut_top_mismatch'' pointer ''.ENDS name does not match the sealed top'')
      else Inr (ss\<lparr>ss_output := ss_output ss @ [''.ENDS '' @ sealed_top], ss_inside := False, ss_ends := True\<rparr>))"

definition seal_device :: "string \<Rightarrow> string list \<Rightarrow> seal_state \<Rightarrow> seal_state pyres" where
  "seal_device pointer tokens ss =
     (let head = hd tokens
      in if \<not> ss_inside ss
         then Inl (compile_error ''dut_top_level_card'' pointer
           ''device cards outside the sealed subcircuit are forbidden'')
         else if \<not> spice_name head
         then Inl (compile_error ''dut_instance_invalid'' pointer (''invalid instance identifier '' @ repr_text head))
         else if \<not> allowed_device (hd head)
         then Inl (compile_error ''dut_element_forbidden'' pointer
           (''element '' @ repr_text head @ '' is outside the structural allowlist''))
         else if casefold head \<in> set (ss_instances ss)
         then Inl (compile_error ''dut_instance_collision'' pointer
           (''instance '' @ repr_text head @ '' collides case-insensitively''))
         else Inr (ss\<lparr>ss_instances := casefold head # ss_instances ss,
                      ss_output := ss_output ss @ [join '' '' tokens]\<rparr>))"

definition seal_line ::
  "string \<Rightarrow> string list \<Rightarrow> string \<Rightarrow> nat \<Rightarrow> string \<Rightarrow> seal_state \<Rightarrow> seal_state pyres" where
  "seal_line top_name ports sealed_top number source_line ss =
     (let line = strip source_line; pointer = ''/dut/artifact/line/'' @ dec_nat number;
          tokens = words line; head = hd tokens; folded = casefold head
      in if line = [] then Inr ss
         else if hd line = CHR ''*'' then Inr (ss\<lparr>ss_output := ss_output ss @ [line]\<rparr>)
         else if hd line = CHR ''+''
         then Inl (compile_error ''dut_continuation_forbidden'' pointer
           ''continuation lines are outside the closed DUT grammar'')
         else if list_ex forbidden_char line
         then Inl (compile_error ''dut_token_forbidden'' pointer
           ''inline comments, escaping, and expression tokens are forbidden'')
         else if folded = ''.subckt'' then seal_subckt top_name ports sealed_top pointer tokens ss
         else if folded = ''.ends'' then seal_ends top_name sealed_top pointer tokens ss
         else if hd head = CHR ''.''
         then Inl (compile_error ''dut_directive_forbidden'' pointer
           (''directive '' @ repr_text head @ '' is outside the structural DUT allowlist''))
         else seal_device pointer tokens ss)"

fun seal_lines ::
  "string \<Rightarrow> string list \<Rightarrow> string \<Rightarrow> nat \<Rightarrow> string list \<Rightarrow> seal_state \<Rightarrow> seal_state pyres" where
  "seal_lines top_name ports sealed_top n [] ss = Inr ss"
| "seal_lines top_name ports sealed_top n (l # ls) ss =
     pbind (seal_line top_name ports sealed_top n l ss) (seal_lines top_name ports sealed_top (Suc n) ls)"

definition check_ports :: "string list \<Rightarrow> unit pyres" where
  "check_ports ports =
     (if ports = [] \<or> \<not> list_all spice_name ports
      then Inl (compile_error ''dut_ports_invalid'' ''/dut/ports''
        ''DUT ports must be non-empty ngspice identifiers'')
      else if card (set (map casefold ports)) \<noteq> length ports
      then Inl (compile_error ''dut_ports_invalid'' ''/dut/ports'' ''DUT ports collide case-insensitively'')
      else Inr ())"

definition check_dut_bytes :: "py_env \<Rightarrow> string \<Rightarrow> string \<Rightarrow> unit pyres" where
  "check_dut_bytes env raw expected =
     (if \<not> sha256_text expected
      then Inl (compile_error ''dut_digest_invalid'' ''/dut/sha256'' ''expected DUT digest must be lowercase SHA-256'')
      else if \<not> (1 \<le> length raw \<and> length raw \<le> MAX_DUT_BYTES)
      then Inl (compile_error ''dut_size_invalid'' ''/dut/artifact'' ''DUT size must be within 1..4194304 bytes'')
      else if sha256 env raw \<noteq> expected
      then Inl (compile_error ''dut_digest_mismatch'' ''/dut/sha256''
        (''DUT SHA-256 is '' @ sha256 env raw @ '', expected '' @ expected))
      else if CHR 0x00 \<in> set raw \<or> CHR 0x0D \<in> set raw
      then Inl (compile_error ''dut_text_invalid'' ''/dut/artifact'' ''DUT must use NUL-free LF-delimited UTF-8 text'')
      else Inr ())"

definition seal_structural_dut ::
  "py_env \<Rightarrow> string \<Rightarrow> string \<Rightarrow> string \<Rightarrow> string \<Rightarrow> string list \<Rightarrow> sealed_dut pyres" where
  "seal_structural_dut env raw expected namespace top_name ports =
     pbind (check_dut_bytes env raw expected) (\<lambda>u.
     pbind (check_ports ports) (\<lambda>u.
     pbind (compiler_top namespace top_name) (\<lambda>sealed_top.
     pbind (seal_lines top_name ports sealed_top 1 (split_on (CHR 0x0A) raw) seal_start) (\<lambda>ss.
     if ss_inside ss \<or> \<not> ss_subckt ss \<or> \<not> ss_ends ss
     then Inl (compile_error ''dut_boundary_invalid'' ''/dut/artifact''
       ''the sealed DUT requires exactly one complete .SUBCKT/.ENDS pair'')
     else let canonical = join [CHR 0x0A] (ss_output ss) @ [CHR 0x0A]
          in Inr \<lparr>sd_raw = raw, sd_raw_sha256 = sha256 env raw, sd_canonical = canonical,
                  sd_canonical_sha256 = sha256 env canonical, sd_original_top = top_name,
                  sd_top = sealed_top\<rparr>))))"

end
