(* ===== verification/DeckClosed.thy ===== *)
theory DeckClosed
  imports DeckSeal
begin

text \<open>
  The closed grammar of a device-under-test artifact as a declarative specification, and the proof
  that the line scanner of \<open>seal_structural_dut\<close> accepts exactly its texts and renders them with the
  subcircuit renamed.
\<close>

section \<open>The grammar\<close>

datatype dut_line = Blank | Comment string | Subcircuit | Ending | Device "string list" | Foreign

definition dut_line_of :: "string \<Rightarrow> string list \<Rightarrow> string \<Rightarrow> dut_line" where
  "dut_line_of top_name ports source_line =
     (let line = strip source_line; tokens = words line; head = hd tokens
      in if line = [] then Blank
         else if hd line = CHR ''*'' then Comment line
         else if hd line = CHR ''+'' \<or> list_ex forbidden_char line then Foreign
         else if casefold head = ''.subckt''
         then (if 3 \<le> length tokens \<and> casefold (tokens ! 1) = casefold top_name \<and> drop 2 tokens = ports
               then Subcircuit else Foreign)
         else if casefold head = ''.ends''
         then (if length tokens = 1 \<or> length tokens = 2 \<and> casefold (tokens ! 1) = casefold top_name
               then Ending else Foreign)
         else if hd head \<noteq> CHR ''.'' \<and> spice_name head \<and> allowed_device (hd head) then Device tokens
         else Foreign)"

fun quiet :: "dut_line \<Rightarrow> bool" where
  "quiet Blank = True"
| "quiet (Comment t) = True"
| "quiet l = False"

fun inner :: "dut_line \<Rightarrow> bool" where
  "inner Blank = True"
| "inner (Comment t) = True"
| "inner (Device ts) = True"
| "inner l = False"

definition device_names :: "dut_line list \<Rightarrow> string list" where
  "device_names ls = List.map_filter (\<lambda>l. case l of Device ts \<Rightarrow> Some (casefold (hd ts)) | _ \<Rightarrow> None) ls"

text \<open>
  Comments and blank lines, one subcircuit of the declared name and ports, within it only device
  cards whose names differ, and comments and blank lines.
\<close>

definition closed_dut :: "dut_line list \<Rightarrow> bool" where
  "closed_dut ls \<longleftrightarrow> (\<exists>before body after. ls = before @ Subcircuit # body @ Ending # after
     \<and> list_all quiet before \<and> list_all inner body \<and> list_all quiet after \<and> distinct (device_names body))"

fun rendered :: "string \<Rightarrow> string list \<Rightarrow> dut_line \<Rightarrow> string list" where
  "rendered sealed_top ports (Comment t) = [t]"
| "rendered sealed_top ports Subcircuit = [''.SUBCKT '' @ join '' '' (sealed_top # ports)]"
| "rendered sealed_top ports Ending = [''.ENDS '' @ sealed_top]"
| "rendered sealed_top ports (Device ts) = [join '' '' ts]"
| "rendered sealed_top ports l = []"

definition rendering :: "string \<Rightarrow> string list \<Rightarrow> dut_line list \<Rightarrow> string list" where
  "rendering sealed_top ports ls = concat (map (rendered sealed_top ports) ls)"

lemma rendering_simps [simp]:
  "rendering sealed_top ports [] = []"
  "rendering sealed_top ports (l # ls) = rendered sealed_top ports l @ rendering sealed_top ports ls"
  "rendering sealed_top ports (ls @ ls') = rendering sealed_top ports ls @ rendering sealed_top ports ls'"
  by (simp_all add: rendering_def)

lemma device_names_simps [simp]:
  "device_names [] = []"
  "device_names (l # ls) = (case l of Device ts \<Rightarrow> casefold (hd ts) # device_names ls | _ \<Rightarrow> device_names ls)"
  by (simp_all add: device_names_def map_filter_simps split: dut_line.split)

section \<open>One line\<close>

definition seal_step :: "string \<Rightarrow> string list \<Rightarrow> dut_line \<Rightarrow> seal_state \<Rightarrow> seal_state option" where
  "seal_step sealed_top ports l ss =
     (let grown = ss\<lparr>ss_output := ss_output ss @ rendered sealed_top ports l\<rparr>
      in case l of
        Blank \<Rightarrow> Some grown
      | Comment t \<Rightarrow> Some grown
      | Subcircuit \<Rightarrow> (if ss_inside ss \<or> ss_subckt ss \<or> ss_ends ss then None
          else Some (grown\<lparr>ss_inside := True, ss_subckt := True\<rparr>))
      | Ending \<Rightarrow> (if \<not> ss_inside ss \<or> ss_ends ss then None
          else Some (grown\<lparr>ss_inside := False, ss_ends := True\<rparr>))
      | Device ts \<Rightarrow> (if \<not> ss_inside ss \<or> casefold (hd ts) \<in> set (ss_instances ss) then None
          else Some (grown\<lparr>ss_instances := casefold (hd ts) # ss_instances ss\<rparr>))
      | Foreign \<Rightarrow> None)"

lemma words_strip_Nil: "line \<noteq> [] \<Longrightarrow> \<not> py_space (hd line) \<Longrightarrow> words line \<noteq> [] \<and> hd (words line) \<noteq> []"
  by (cases line) (simp_all add: words.simps)

lemma strip_head: "strip s \<noteq> [] \<Longrightarrow> \<not> py_space (hd (strip s))"
proof -
  assume nonempty: "strip s \<noteq> []"
  define t where "t = dropWhile py_space s"
  have strip: "strip s = rev (dropWhile py_space (rev t))" by (simp add: strip_def strip_by_def t_def)
  with nonempty have t: "t \<noteq> []" by auto
  then have "\<not> py_space (hd t)" unfolding t_def by (rule hd_dropWhile)
  obtain u where u: "t = strip s @ u"
    using takeWhile_dropWhile_id [of py_space "rev t"] strip by (metis rev_append rev_rev_ident)
  then have "hd t = hd (strip s)" using nonempty by simp
  with \<open>\<not> py_space (hd t)\<close> show ?thesis by simp
qed

lemma seal_card_steps:
  "seal_subckt top_name ports sealed_top pointer tokens ss = Inr ss' \<longleftrightarrow>
     3 \<le> length tokens \<and> casefold (tokens ! 1) = casefold top_name \<and> drop 2 tokens = ports \<and>
     seal_step sealed_top ports Subcircuit ss = Some ss'"
  "tokens \<noteq> [] \<Longrightarrow> seal_ends top_name sealed_top pointer tokens ss = Inr ss' \<longleftrightarrow>
     (length tokens = 1 \<or> length tokens = 2 \<and> casefold (tokens ! 1) = casefold top_name) \<and>
     seal_step sealed_top ports Ending ss = Some ss'"
  "seal_device pointer tokens ss = Inr ss' \<longleftrightarrow>
     spice_name (hd tokens) \<and> allowed_device (hd (hd tokens)) \<and>
     seal_step sealed_top ports (Device tokens) ss = Some ss'"
    apply (cases "length tokens < 3")
     apply (auto simp: seal_subckt_def seal_step_def) [2]
   apply (cases "length tokens = 1"; cases "length tokens = 2")
      apply (auto simp: seal_ends_def seal_step_def) [4]
  apply (auto simp: seal_device_def seal_step_def Let_def)
  done

lemma seal_line_step:
  "seal_line top_name ports sealed_top n l ss = Inr ss' \<longleftrightarrow>
     seal_step sealed_top ports (dut_line_of top_name ports l) ss = Some ss'"
proof -
  define line where "line = strip l"
  define tokens where "tokens = words line"
  define folded where "folded = casefold (hd tokens)"
  have tokens: "line \<noteq> [] \<Longrightarrow> tokens \<noteq> []" using words_strip_Nil [of line] strip_head [of l]
    by (simp add: line_def tokens_def)
  note sides = seal_line_def [of top_name ports sealed_top n l ss] dut_line_of_def [of top_name ports l]
    line_def [symmetric] tokens_def [symmetric] folded_def [symmetric] Let_def
  consider "line = []" | "line \<noteq> []" "hd line = CHR ''*''"
    | "line \<noteq> []" "hd line \<noteq> CHR ''*''" "hd line = CHR ''+'' \<or> list_ex forbidden_char line"
    | "line \<noteq> []" "hd line \<noteq> CHR ''*''" "hd line \<noteq> CHR ''+''" "\<not> list_ex forbidden_char line" by blast
  then show ?thesis
  proof cases
    case 1
    then show ?thesis by (auto simp: sides seal_step_def)
  next
    case 2
    then show ?thesis by (auto simp: sides seal_step_def)
  next
    case 3
    then show ?thesis by (auto simp: sides seal_step_def)
  next
    case 4
    note here = sides 4 if_False simp_thms
    consider "folded = ''.subckt''" | "folded = ''.ends''"
      | "folded \<noteq> ''.subckt''" "folded \<noteq> ''.ends''" by blast
    then show ?thesis
    proof cases
      case 1
      have "seal_step sealed_top ports Foreign ss = None" by (simp add: seal_step_def)
      with 1 show ?thesis by (auto simp: here seal_card_steps(1))
    next
      case 2
      have "seal_step sealed_top ports Foreign ss = None" by (simp add: seal_step_def)
      with 2 show ?thesis using tokens 4 by (auto simp: here seal_card_steps(2) [where ports = ports])
    next
      case 3
      have "seal_step sealed_top ports Foreign ss = None" by (simp add: seal_step_def)
      with 3 show ?thesis by (auto simp: here seal_card_steps(3) [where ports = ports and sealed_top = sealed_top])
    qed
  qed
qed

section \<open>The whole text\<close>

fun seal_run :: "string \<Rightarrow> string list \<Rightarrow> dut_line list \<Rightarrow> seal_state \<Rightarrow> seal_state option" where
  "seal_run sealed_top ports [] ss = Some ss"
| "seal_run sealed_top ports (l # ls) ss =
     (case seal_step sealed_top ports l ss of None \<Rightarrow> None | Some ss' \<Rightarrow> seal_run sealed_top ports ls ss')"

lemma seal_lines_run:
  "seal_lines top_name ports sealed_top n ls ss = Inr ss' \<longleftrightarrow>
     seal_run sealed_top ports (map (dut_line_of top_name ports) ls) ss = Some ss'"
proof (induction ls arbitrary: n ss)
  case (Cons l ls)
  show ?case
  proof (cases "seal_step sealed_top ports (dut_line_of top_name ports l) ss")
    case None
    then have "\<nexists>s. seal_line top_name ports sealed_top n l ss = Inr s" by (simp add: seal_line_step)
    then show ?thesis by (auto simp: None)
  next
    case (Some s)
    then have "seal_line top_name ports sealed_top n l ss = Inr s" by (simp add: seal_line_step)
    then show ?thesis by (simp add: Some Cons.IH)
  qed
qed simp

definition in_phase :: "bool \<Rightarrow> bool \<Rightarrow> bool \<Rightarrow> string list \<Rightarrow> string list \<Rightarrow> seal_state" where
  "in_phase i s e names out = \<lparr>ss_output = out, ss_inside = i, ss_subckt = s, ss_ends = e, ss_instances = names\<rparr>"

definition sealed_end :: "seal_state option \<Rightarrow> string list \<Rightarrow> bool" where
  "sealed_end r out \<longleftrightarrow> (case r of None \<Rightarrow> False
     | Some ss \<Rightarrow> \<not> ss_inside ss \<and> ss_subckt ss \<and> ss_ends ss \<and> ss_output ss = out)"

lemma sealed_end_None [simp]: "\<not> sealed_end None out"
  by (simp add: sealed_end_def)

lemma sealed_end_phase [simp]: "sealed_end (Some (in_phase i s e names out)) res \<longleftrightarrow> \<not> i \<and> s \<and> e \<and> out = res"
  by (simp add: sealed_end_def in_phase_def)

lemma seal_step_phase:
  "seal_step sealed_top ports l (in_phase i s e names out) =
     (let grown = out @ rendered sealed_top ports l
      in case l of
        Blank \<Rightarrow> Some (in_phase i s e names grown)
      | Comment t \<Rightarrow> Some (in_phase i s e names grown)
      | Subcircuit \<Rightarrow> (if i \<or> s \<or> e then None else Some (in_phase True True e names grown))
      | Ending \<Rightarrow> (if \<not> i \<or> e then None else Some (in_phase False s True names grown))
      | Device ts \<Rightarrow> (if \<not> i \<or> casefold (hd ts) \<in> set names then None
          else Some (in_phase i s e (casefold (hd ts) # names) grown))
      | Foreign \<Rightarrow> None)"
  by (cases l) (simp_all add: seal_step_def in_phase_def)

lemma sealed_after:
  "sealed_end (seal_run sealed_top ports ls (in_phase False True True names out)) res \<longleftrightarrow>
     list_all quiet ls \<and> res = out @ rendering sealed_top ports ls"
proof (induction ls arbitrary: out)
  case (Cons l ls)
  then show ?case by (cases l) (simp_all add: seal_step_phase)
qed auto

definition closed_body :: "string list \<Rightarrow> dut_line list \<Rightarrow> bool" where
  "closed_body names ls \<longleftrightarrow> (\<exists>body after. ls = body @ Ending # after \<and> list_all inner body \<and> list_all quiet after
     \<and> distinct (device_names body) \<and> set (device_names body) \<inter> set names = {})"

lemma ex_split_Cons:
  "(\<exists>b a. l # ls = b @ x # a \<and> P b a) \<longleftrightarrow> l = x \<and> P [] ls \<or> (\<exists>b a. ls = b @ x # a \<and> P (l # b) a)"
    (is "?lhs \<longleftrightarrow> ?rhs")
proof
  assume ?lhs
  then obtain b a where split: "l # ls = b @ x # a" "P b a" by blast
  show ?rhs
  proof (cases b)
    case Nil
    then show ?thesis using split by simp
  next
    case (Cons c b')
    then have "ls = b' @ x # a" "P (l # b') a" using split by simp_all
    then show ?thesis by blast
  qed
next
  assume ?rhs
  then show ?lhs by (metis append_Cons append_Nil)
qed

lemma closed_body_Cons:
  "closed_body names (l # ls) \<longleftrightarrow>
     (case l of
        Blank \<Rightarrow> closed_body names ls
      | Comment t \<Rightarrow> closed_body names ls
      | Ending \<Rightarrow> list_all quiet ls
      | Device ts \<Rightarrow> casefold (hd ts) \<notin> set names \<and> closed_body (casefold (hd ts) # names) ls
      | _ \<Rightarrow> False)"
  unfolding closed_body_def ex_split_Cons by (cases l) auto

lemma closed_body_Nil: "\<not> closed_body names []"
  by (simp add: closed_body_def)

lemma sealed_inside:
  "sealed_end (seal_run sealed_top ports ls (in_phase True True False names out)) res \<longleftrightarrow>
     closed_body names ls \<and> res = out @ rendering sealed_top ports ls"
proof (induction ls arbitrary: names out)
  case (Cons l ls)
  then show ?case by (cases l) (simp_all add: seal_step_phase closed_body_Cons sealed_after)
qed (simp add: closed_body_Nil)

lemma closed_dut_body: "closed_dut ls \<longleftrightarrow> (\<exists>b a. ls = b @ Subcircuit # a \<and> list_all quiet b \<and> closed_body [] a)"
  unfolding closed_dut_def closed_body_def by (auto; blast)

lemma closed_dut_Cons:
  "closed_dut (l # ls) \<longleftrightarrow> l = Subcircuit \<and> closed_body [] ls \<or> quiet l \<and> closed_dut ls"
  unfolding closed_dut_body ex_split_Cons by auto

lemma sealed_before:
  "sealed_end (seal_run sealed_top ports ls (in_phase False False False [] out)) res \<longleftrightarrow>
     closed_dut ls \<and> res = out @ rendering sealed_top ports ls"
proof (induction ls arbitrary: out)
  case (Cons l ls)
  then show ?case by (cases l) (simp_all add: seal_step_phase closed_dut_Cons sealed_inside)
qed (simp add: closed_dut_def)

section \<open>The seal\<close>

definition dut_lines :: "string \<Rightarrow> string list \<Rightarrow> string \<Rightarrow> dut_line list" where
  "dut_lines top_name ports raw = map (dut_line_of top_name ports) (split_on (CHR 0x0A) raw)"

text \<open>C13: The seal accepts exactly the closed grammar: a device-under-test artifact is sealed if and
  only if its bytes carry the expected digest, are text within the limit, the ports and the name in the
  compiler namespace are identifiers, and its lines are comments around one subcircuit of the declared
  name and ports that holds nothing but device cards of the allowed kinds with distinct names; and the
  sealed text is then the same lines, one per card, with the subcircuit renamed.\<close>

theorem seal_exact:
  "seal_structural_dut env raw expected namespace top_name ports = Inr sd \<longleftrightarrow>
     check_dut_bytes env raw expected = Inr () \<and> check_ports ports = Inr ()
     \<and> spice_name (''OPENADA_'' @ namespace @ ''_'' @ top_name)
     \<and> closed_dut (dut_lines top_name ports raw)
     \<and> (let sealed_top = ''OPENADA_'' @ namespace @ ''_'' @ top_name;
            canonical = join [CHR 0x0A] (rendering sealed_top ports (dut_lines top_name ports raw)) @ [CHR 0x0A]
        in sd = \<lparr>sd_raw = raw, sd_raw_sha256 = sha256 env raw, sd_canonical = canonical,
              sd_canonical_sha256 = sha256 env canonical, sd_original_top = top_name, sd_top = sealed_top\<rparr>)"
proof -
  define top' where "top' = ''OPENADA_'' @ namespace @ ''_'' @ top_name"
  define lines where "lines = split_on (CHR 0x0A) raw"
  define sealed where "sealed out = \<lparr>sd_raw = raw, sd_raw_sha256 = sha256 env raw,
     sd_canonical = join [CHR 0x0A] out @ [CHR 0x0A], sd_canonical_sha256 = sha256 env (join [CHR 0x0A] out @ [CHR 0x0A]),
     sd_original_top = top_name, sd_top = top'\<rparr>" for out
  have start: "seal_start = in_phase False False False [] []" by (simp add: seal_start_def in_phase_def)
  have "(\<exists>ss. seal_lines top_name ports top' 1 lines seal_start = Inr ss
          \<and> \<not> ss_inside ss \<and> ss_subckt ss \<and> ss_ends ss \<and> sd = sealed (ss_output ss)) \<longleftrightarrow>
        (\<exists>out. sealed_end (seal_run top' ports (dut_lines top_name ports raw) seal_start) out \<and> sd = sealed out)"
    unfolding seal_lines_run sealed_end_def dut_lines_def lines_def by (auto split: option.splits)
  also have "\<dots> \<longleftrightarrow> closed_dut (dut_lines top_name ports raw)
       \<and> sd = sealed (rendering top' ports (dut_lines top_name ports raw))"
    unfolding start sealed_before by auto
  finally show ?thesis
    unfolding seal_structural_dut_def compiler_top_def Let_def top'_def [symmetric] lines_def [symmetric] sealed_def
    by (cases "check_dut_bytes env raw expected"; cases "check_ports ports") auto
qed

end
