(* ===== verification/DeckValues.thy ===== *)
theory DeckValues
  imports DeckSeal
begin

text \<open>
  The values a deck of \<open>openada/operations/testbench_plan_ngspice.py\<close> is made from: the captured
  DUT, the selected corner, the values of bindings and stage inputs, supplies and scaled levels.
\<close>

section \<open>What a compilation is given\<close>

text \<open>
  \<open>dk_file\<close> opens a path as one stable regular file and gives its size and the bytes read, at most
  one more than the limit, or the text of the refusal; the digests are those of the prepared plan.
\<close>

record deck_env =
  dk_env :: py_env
  dk_file :: "string \<Rightarrow> string + nat \<times> string"
  dk_artifact :: "string option"
  dk_dut_sha256 :: "string option"
  dk_plan_raw_sha256 :: string
  dk_plan_sha256 :: string
  dk_binding_sha256 :: string

text \<open>A JSON number as the value it is loaded as.\<close>

definition number_value :: "rat \<Rightarrow> pyval" where
  "number_value x = (if x = of_int \<lfloor>x\<rfloor> then VInt \<lfloor>x\<rfloor> else VFloat (round64 x))"

definition quantity_document :: "quantity \<Rightarrow> pyval" where
  "quantity_document q = obj [(''value'', number_value (q_value q)), (''unit'', VStr (q_unit q))]"

definition or_else :: "string option \<Rightarrow> string \<Rightarrow> string" where
  "or_else v d = (case v of None \<Rightarrow> d | Some s \<Rightarrow> (if s = [] then d else s))"

definition capture_dut :: "deck_env \<Rightarrow> prepared_plan \<Rightarrow> sealed_dut pyres" where
  "capture_dut dk pp =
     (let dut = pc_dut (pp_context pp);
          unavailable = (\<lambda>msg. Inl (compile_error ''dut_unavailable'' ''/dut/artifact'' msg))
      in case dk_file dk (or_else (dk_artifact dk) (dut_artifact dut)) of
           Inl msg \<Rightarrow> unavailable msg
         | Inr (len, raw) \<Rightarrow>
             if \<not> (1 \<le> len \<and> len \<le> MAX_DUT_BYTES)
             then unavailable ''DUT size must be within 1..4194304 bytes''
             else if length raw \<noteq> len then unavailable ''DUT changed while it was read''
             else seal_structural_dut (dk_env dk) raw (or_else (dk_dut_sha256 dk) (dut_sha256 dut))
                    (dut_namespace dut) (dut_top dut) (map port_name (dut_ports dut)))"

definition select_corner :: "prepared_plan \<Rightarrow> string \<Rightarrow> corner_binding pyres" where
  "select_corner pp ident =
     (if ident = []
      then Inl (compile_error ''corner_invalid'' ''/corner'' ''corner must be one declared corner identifier'')
      else (case filter (\<lambda>c. cb_id c = ident) (pc_corners (pp_context pp)) of
          [c] \<Rightarrow> Inr c
        | _ \<Rightarrow> Inl (compile_error ''corner_unknown'' ''/corner'' (''unknown corner '' @ repr_text ident))))"

section \<open>Bindings\<close>

record resolved_value =
  rv_binding :: string
  rv_source :: string
  rv_value :: string
  rv_unit :: string
  rv_receipt :: string
  rv_transform :: "rat option"

definition transform_document :: "rat option \<Rightarrow> pyval" where
  "transform_document t =
     (case t of None \<Rightarrow> obj [(''kind'', VStr ''identity'')]
      | Some k \<Rightarrow> obj [(''kind'', VStr ''scale''), (''factor'', number_value k)])"

definition resolved_document :: "resolved_value \<Rightarrow> pyval" where
  "resolved_document rv =
     obj [(''binding_id'', VStr (rv_binding rv)), (''source_value'', VStr (rv_source rv)),
          (''resolved_value'', VStr (rv_value rv)), (''unit'', VStr (rv_unit rv)),
          (''source_receipt_sha256'', VStr (rv_receipt rv)), (''transform'', transform_document (rv_transform rv))]"

definition measured_decimal :: "string \<Rightarrow> pyfloat \<Rightarrow> rat pyres" where
  "measured_decimal path x =
     (case x of
        PFin q \<Rightarrow> (if decimal_over (decimal_float q)
                  then Inl (compile_error ''number_invalid'' path ''value must be finite and bounded by 1e300'')
                  else Inr (decimal_float q))
      | _ \<Rightarrow> Inl (compile_error ''number_invalid'' path ''value must be finite and bounded by 1e300''))"

definition resolve_binding_value ::
  "(string \<times> plan_binding) list \<Rightarrow> nat \<Rightarrow> binding_value \<Rightarrow> (string \<times> resolved_value) list \<Rightarrow>
   (string \<times> resolved_value) list pyres" where
  "resolve_binding_value declared index item out =
     (let path = ''/binding_values/'' @ dec_nat index
      in case lookup_last declared (bv_binding item) of
        None \<Rightarrow> Inl (compile_error ''binding_unknown'' (path @ ''/binding_id'')
          (''unknown binding '' @ repr_text (bv_binding item)))
      | Some b \<Rightarrow>
          if bv_binding item \<in> fst ` set out
          then Inl (compile_error ''binding_duplicate'' (path @ ''/binding_id'')
            (''duplicate binding '' @ repr_text (bv_binding item)))
          else if bv_unit item \<noteq> bi_unit b
          then Inl (compile_error ''binding_unit_mismatch'' (path @ ''/unit'')
            (''binding requires unit '' @ repr_text (bi_unit b)))
          else if \<not> sha256_text (bv_receipt item)
          then Inl (compile_error ''binding_receipt_invalid'' (path @ ''/source_receipt_sha256'')
            ''source receipt digest must be lowercase SHA-256'')
          else pbind (measured_decimal (path @ ''/value'') (bv_value item)) (\<lambda>source.
               pbind (case bi_transform b of
                   None \<Rightarrow> Inr source
                 | Some k \<Rightarrow> pbind (decimal_arg (''/bindings/'' @ bv_binding item @ ''/transform/factor'') k)
                     (\<lambda>factor. Inr (dec_mul source factor))) (\<lambda>resolved.
               if decimal_over resolved
               then Inl (compile_error ''number_invalid'' (path @ ''/value'')
                 ''resolved binding value must be finite and bounded by 1e300'')
               else Inr (out @ [(bv_binding item,
                 \<lparr>rv_binding = bv_binding item, rv_source = number_token source, rv_value = number_token resolved,
                  rv_unit = bv_unit item, rv_receipt = bv_receipt item, rv_transform = bi_transform b\<rparr>)]))))"

fun resolve_binding_from ::
  "(string \<times> plan_binding) list \<Rightarrow> nat \<Rightarrow> binding_value list \<Rightarrow> (string \<times> resolved_value) list \<Rightarrow>
   (string \<times> resolved_value) list pyres" where
  "resolve_binding_from declared index [] out = Inr out"
| "resolve_binding_from declared index (item # items) out =
     pbind (resolve_binding_value declared index item out) (resolve_binding_from declared (Suc index) items)"

definition resolve_binding_values ::
  "prepared_plan \<Rightarrow> binding_value list \<Rightarrow> (string \<times> resolved_value) list pyres" where
  "resolve_binding_values pp items =
     resolve_binding_from (map (\<lambda>b. (bi_id b, b)) (pp_bindings pp)) 0 items []"

text \<open>The inputs of a stage, from its bindings that have a value.\<close>

definition stage_input_values ::
  "prepared_plan \<Rightarrow> plan_stage \<Rightarrow> (string \<times> resolved_value) list \<Rightarrow> (string \<times> resolved_value) list pyres" where
  "stage_input_values pp sg resolved =
     (let by_target = fold (\<lambda>b d. if fst (bi_to b) \<noteq> sg_id sg then d
              else (case map_of resolved (bi_id b) of None \<Rightarrow> d | Some rv \<Rightarrow> AList.update (snd (bi_to b)) rv d))
            (pp_bindings pp) []
      in case find (\<lambda>i. fst i \<notin> fst ` set by_target) (sg_inputs sg) of
           Some i \<Rightarrow> Inl (compile_error ''binding_unresolved'' (''/stages/'' @ sg_id sg @ ''/inputs/'' @ fst i)
             (''stage input '' @ repr_text (fst i) @ '' requires a receipt-backed binding value''))
         | None \<Rightarrow> Inr by_target)"

section \<open>Value sources\<close>

definition bound_decimal ::
  "(string \<times> resolved_value) list \<Rightarrow> string \<Rightarrow> string \<Rightarrow> string \<Rightarrow> rat pyres" where
  "bound_decimal inputs path input_id u =
     (case map_of inputs input_id of
        None \<Rightarrow> Inl (compile_error ''binding_unresolved'' path
          (''stage input '' @ repr_text input_id @ '' has no receipt-backed binding value''))
      | Some rv \<Rightarrow>
          if rv_unit rv \<noteq> u
          then Inl (compile_error ''binding_unit_mismatch'' path
            (''input '' @ repr_text input_id @ '' has unit '' @ repr_text (rv_unit rv) @ '', expected '' @ repr_text u))
          else (case decimal_text (rv_value rv) of
              Some x \<Rightarrow> Inr x
            | None \<Rightarrow> Inl (OtherError ''InvalidOperation''
                (''[<class '' @ repr_text ''decimal.ConversionSyntax'' @ ''>]''))))"

definition bounded_decimal :: "string \<Rightarrow> rat \<Rightarrow> rat pyres" where
  "bounded_decimal path result =
     (if decimal_over result
      then Inl (compile_error ''number_invalid'' path ''resolved affine value must be finite and bounded by 1e300'')
      else Inr result)"

primrec resolve_decimal ::
  "(string \<times> resolved_value) list \<Rightarrow> string \<Rightarrow> value_source \<Rightarrow> rat pyres" where
  "resolve_decimal inputs path (LiteralValue q) = decimal_arg (path @ ''/value'') (q_value q)"
| "resolve_decimal inputs path (InputValue input_id u) =
     pbind (bound_decimal inputs path input_id u) (bounded_decimal path)"
| "resolve_decimal inputs path (AffineValue input_id k offset u) =
     pbind (bound_decimal inputs path input_id u) (\<lambda>x.
     pbind (decimal_arg (path @ ''/factor'') k) (\<lambda>factor.
     if q_unit offset \<noteq> u
     then Inl (compile_error ''binding_unit_mismatch'' (path @ ''/offset/unit'')
       ''affine offset unit must match the resolved value unit'')
     else pbind (decimal_arg (path @ ''/offset/value'') (q_value offset)) (\<lambda>d.
          bounded_decimal path (dec_add (dec_mul x factor) d))))"

definition resolved_quantity ::
  "(string \<times> resolved_value) list \<Rightarrow> string \<Rightarrow> value_source \<Rightarrow> pyval pyres" where
  "resolved_quantity inputs path v =
     pbind (resolve_decimal inputs path v) (\<lambda>x.
     Inr (obj [(''value'', VStr (number_token x)), (''unit'', VStr (vs_unit v))]))"

section \<open>Supplies and levels\<close>

definition supply_value :: "corner_binding \<Rightarrow> supply_doc \<Rightarrow> (string \<times> rat) pyres" where
  "supply_value corner su =
     (let unresolved = Inl (compile_error ''corner_value_unresolved''
            (''/corner_bindings/'' @ cb_id corner @ ''/values'')
            (''supply '' @ repr_text (su_id su) @ '' has no voltage binding''))
      in case lookup_last (cb_values corner) (su_value_id su) of
           None \<Rightarrow> unresolved
         | Some q \<Rightarrow>
             if q_unit q \<noteq> ''V'' then unresolved
             else pbind (decimal_arg (''/corner_bindings/'' @ cb_id corner @ ''/'' @ su_value_id su) (q_value q))
                    (\<lambda>x. Inr (su_id su, x)))"

definition supply_values :: "prepared_plan \<Rightarrow> corner_binding \<Rightarrow> (string \<times> rat) list pyres" where
  "supply_values pp corner = map_res (supply_value corner) (pc_supplies (pp_context pp))"

definition scaled_level_value :: "(string \<times> rat) list \<Rightarrow> string \<Rightarrow> scaled_level \<Rightarrow> rat pyres" where
  "scaled_level_value supplies path l =
     (case lookup_last supplies (lv_supply l) of
        None \<Rightarrow> Inl (compile_error ''supply_unresolved'' path (''unknown supply '' @ repr_text (lv_supply l)))
      | Some x \<Rightarrow> pbind (decimal_arg (path @ ''/fraction'') (lv_fraction l)) (\<lambda>f. Inr (dec_mul x f)))"

definition pulse_levels :: "(string \<times> rat) list \<Rightarrow> pulse_shape \<Rightarrow> string \<Rightarrow> (rat \<times> rat) pyres" where
  "pulse_levels supplies p polarity =
     pbind (scaled_level_value supplies ''/stimulus/low_level'' (pu_low p)) (\<lambda>low.
     pbind (scaled_level_value supplies ''/stimulus/high_level'' (pu_high p)) (\<lambda>high.
     Inr (if polarity = ''active_high'' then (low, high) else (high, low))))"

end
