(* ===== verification/DeckCompile.thy ===== *)
theory DeckCompile
  imports DeckValues
begin

text \<open>
  The deck serializer and the compiler of \<open>openada/operations/testbench_plan_ngspice.py\<close>: sources,
  probes, the lines of one deck, the conditions of the selected stages and the compile receipt.  The
  prepared plan is the typed plan of the validator, so the checks that a caller has not changed the
  mirrored documents, and the publication of the files, are not modelled.
\<close>

section \<open>Sources\<close>

definition key_error :: "string \<Rightarrow> pyexc" where
  "key_error k = KeyError (repr_text k)"

definition connection :: "dut_binding \<Rightarrow> string \<Rightarrow> string pyres" where
  "connection dut port = (case lookup_last (dut_connections dut) port of Some net \<Rightarrow> Inr net | None \<Rightarrow> Inl (key_error port))"

definition source_names :: "stimulus \<Rightarrow> string list" where
  "source_names st =
     (let base = ''V_STIM_'' @ st_id st
      in case st_doc st of PhasePair s r off rp op p v \<Rightarrow> [base @ ''_REF'', base @ ''_OFFSET''] | _ \<Rightarrow> [base])"

definition pulse_line ::
  "dut_binding \<Rightarrow> (string \<times> rat) list \<Rightarrow> string \<Rightarrow> pulse_shape \<Rightarrow> string list \<Rightarrow>
   string \<Rightarrow> string \<Rightarrow> string \<Rightarrow> rat \<Rightarrow> string pyres" where
  "pulse_line dut levels negative p timing name port polarity source_delay =
     pbind (pulse_levels levels p polarity) (\<lambda>(initial, pulsed).
     pbind (connection dut port) (\<lambda>target.
     Inr (join '' '' [name, target, negative,
       ''PULSE('' @ join '' '' ([number_token initial, number_token pulsed, number_token source_delay] @ timing)
       @ '')''])))"

definition time_token :: "string \<Rightarrow> rat \<Rightarrow> string pyres" where
  "time_token path x = pbind (decimal_arg path x) (\<lambda>d. Inr (number_token d))"

definition pulse_timing :: "pulse_shape \<Rightarrow> string list pyres" where
  "pulse_timing p =
     pbind (time_token ''/stimulus/rise_time'' (pu_rise p)) (\<lambda>rise.
     pbind (time_token ''/stimulus/fall_time'' (pu_fall p)) (\<lambda>fall.
     pbind (time_token ''/stimulus/pulse_width'' (pu_width p)) (\<lambda>width.
     pbind (time_token ''/stimulus/period'' (pu_period p)) (\<lambda>period.
     Inr [rise, fall, width, period, dec_nat (pu_count p)]))))"

text \<open>\<open>((delay + phase) % period + period) % period\<close>.\<close>

definition wrapped_delay :: "rat \<Rightarrow> rat \<Rightarrow> rat \<Rightarrow> rat pyres" where
  "wrapped_delay delay phase period =
     pbind (dec_mod (dec_add delay phase) period) (\<lambda>r. dec_mod (dec_add r period) period)"

definition serialize_stimulus ::
  "prepared_plan \<Rightarrow> (string \<times> rat) list \<Rightarrow> (string \<times> resolved_value) list \<Rightarrow> rat option \<Rightarrow> stimulus \<Rightarrow>
   string list pyres" where
  "serialize_stimulus pp levels inputs dc_value st =
     (let dut = pc_dut (pp_context pp); base = ''V_STIM_'' @ st_id st
      in case stimulus_supply (st_doc st) of
        None \<Rightarrow> Inl (key_error ''supply_id'')
      | Some s \<Rightarrow> (case lookup_last (map (\<lambda>su. (su_id su, su)) (pc_supplies (pp_context pp))) s of
          None \<Rightarrow> Inl (key_error s)
        | Some su \<Rightarrow>
            (case st_doc st of
               SmallSignal t r \<Rightarrow> Inl (key_error ''delay'')
             | DcState s' target state level \<Rightarrow>
                 pbind (case dc_value of Some x \<Rightarrow> Inr x
                    | None \<Rightarrow> scaled_level_value levels (''/stimuli/'' @ st_id st @ ''/level'') level) (\<lambda>x.
                 pbind (connection dut target) (\<lambda>net.
                 Inr [join '' '' [base, net, su_negative su, ''DC'', number_token x]]))
             | PulseTrain s' target polarity p \<Rightarrow>
                 pbind (decimal_arg (''/stimuli/'' @ st_id st @ ''/delay'') (pu_delay p)) (\<lambda>delay.
                 pbind (pulse_timing p) (\<lambda>timing.
                 pbind (pulse_line dut levels (su_negative su) p timing base target polarity delay) (\<lambda>line.
                 Inr [line])))
             | PhasePair s' reference offset reference_polarity offset_polarity p v \<Rightarrow>
                 pbind (decimal_arg (''/stimuli/'' @ st_id st @ ''/delay'') (pu_delay p)) (\<lambda>delay.
                 pbind (pulse_timing p) (\<lambda>timing.
                 pbind (decimal_arg ''/stimulus/period'' (pu_period p)) (\<lambda>period.
                 pbind (resolve_decimal inputs (''/stimuli/'' @ st_id st @ ''/phase_offset'') v) (\<lambda>phase.
                 pbind (wrapped_delay delay phase period) (\<lambda>offset_delay.
                 pbind (pulse_line dut levels (su_negative su) p timing (base @ ''_REF'') reference
                          reference_polarity delay) (\<lambda>l1.
                 pbind (pulse_line dut levels (su_negative su) p timing (base @ ''_OFFSET'') offset
                          offset_polarity offset_delay) (\<lambda>l2.
                 Inr [l1, l2]))))))))))"

section \<open>Probes\<close>

datatype probe_polarity = Unsigned | AsDeclared | Multiplier int

record deck_probe =
  dp_id :: string
  dp_kind :: string
  dp_unit :: string
  dp_available :: bool
  dp_identity :: pyval
  dp_polarity :: probe_polarity
  dp_vectors :: "string list"

definition deck_probe_document :: "deck_probe \<Rightarrow> pyval" where
  "deck_probe_document dp =
     obj ([(''id'', VStr (dp_id dp)), (''kind'', VStr (dp_kind dp)), (''unit'', VStr (dp_unit dp)),
           (''available'', VBool (dp_available dp)), (''identity'', dp_identity dp)]
       @ (case dp_polarity dp of Unsigned \<Rightarrow> [] | AsDeclared \<Rightarrow> [(''polarity'', VStr ''as_declared'')]
          | Multiplier m \<Rightarrow> [(''polarity_multiplier'', VInt m)])
       @ [(''native_vectors'', VList (map VStr (dp_vectors dp)))])"

definition expected_probe_of :: "deck_probe \<Rightarrow> expected_probe" where
  "expected_probe_of dp =
     \<lparr>ep_id = dp_id dp, ep_vectors = dp_vectors dp,
      ep_polarity = (case dp_polarity dp of Multiplier m \<Rightarrow> m | _ \<Rightarrow> 1)\<rparr>"

definition instance_name :: string where "instance_name = ''X_OPENADA_DUT''"

definition terminal :: "(string \<times> string) list \<Rightarrow> string \<Rightarrow> string pyres" where
  "terminal terminals port = (case lookup_last terminals port of Some net \<Rightarrow> Inr net | None \<Rightarrow> Inl (key_error port))"

definition selected_branch :: "string \<Rightarrow> string list \<Rightarrow> string list" where
  "selected_branch branch names =
     (if branch = ''single'' then (if length names = 1 then take 1 names else [])
      else if branch = ''reference'' then (if length names = 2 then take 1 names else [])
      else (if length names = 2 then take 1 (drop 1 names) else []))"

definition deck_probe_of ::
  "(string \<times> string) list \<Rightarrow> (string \<times> string list) list \<Rightarrow> probe \<Rightarrow> deck_probe pyres" where
  "deck_probe_of terminals emitted pr =
     (let make = (\<lambda>available identity polarity native. \<lparr>dp_id = pr_id pr, dp_kind = probe_kind (pr_doc pr),
            dp_unit = pr_unit pr, dp_available = available, dp_identity = obj identity, dp_polarity = polarity,
            dp_vectors = native\<rparr>)
      in case pr_doc pr of
        PortVoltage port reference \<Rightarrow>
          pbind (terminal terminals port) (\<lambda>a. pbind (terminal terminals reference) (\<lambda>b.
          Inr (make True [(''port'', VStr port), (''reference_port'', VStr reference)] AsDeclared
                 [''v('' @ a @ '','' @ b @ '')''])))
      | PortCurrent port direction \<Rightarrow>
          Inr (make True [(''port'', VStr port), (''branch'', VStr (''V_PROBE_PORT_'' @ port))]
                 (Multiplier (if direction = ''into_dut'' then 1 else - 1)) [''i(V_PROBE_PORT_'' @ port @ '')''])
      | InternalNode node reference \<Rightarrow>
          pbind (terminal terminals reference) (\<lambda>b.
          Inr (make True [(''instance'', VStr instance_name), (''node'', VStr node), (''reference_port'', VStr reference)]
                 AsDeclared [''v('' @ instance_name @ ''.'' @ node @ '','' @ b @ '')'']))
      | BranchCurrent sid branch direction \<Rightarrow>
          let selected = selected_branch branch (case lookup_last emitted sid of Some ns \<Rightarrow> ns | None \<Rightarrow> []);
              native = map (\<lambda>n. ''i('' @ n @ '')'') selected
          in Inr (make (native \<noteq> []) [(''stimulus_id'', VStr sid), (''branch'', VStr branch),
                    (''source'', case selected of [] \<Rightarrow> VNone | n # ns \<Rightarrow> VStr n)]
                    (Multiplier (if direction = ''delivered_by_stimulus'' then - 1 else 1)) native)
      | LoopGain injection response feedback construction \<Rightarrow>
          Inr (make False [(''injection_stimulus_id'', VStr injection), (''response_probe_id'', VStr response),
                 (''feedback'', VStr feedback)] Unsigned []))"

definition unavailable_measurement :: "deck_probe list \<Rightarrow> plan_measurement \<Rightarrow> bool" where
  "unavailable_measurement dps m =
     (case measurement_probe (me_doc m) of
        None \<Rightarrow> False
      | Some p \<Rightarrow> lookup_last (map (\<lambda>dp. (dp_id dp, dp_available dp)) dps) p \<noteq> Some True)"

definition require_measurement_probes :: "plan_point \<Rightarrow> deck_probe list \<Rightarrow> unit pyres" where
  "require_measurement_probes pt dps =
     (case find (unavailable_measurement dps) (pt_measurements pt) of
        None \<Rightarrow> Inr ()
      | Some m \<Rightarrow> Inl (compile_error ''measurement_probe_unavailable'' (''/measurements/'' @ me_id m @ ''/probe_id'')
          (''probe '' @ repr_text (case measurement_probe (me_doc m) of Some p \<Rightarrow> p | None \<Rightarrow> [])
           @ '' is not emitted in this condition'')))"

section \<open>The deck\<close>

definition current_ports :: "prepared_plan \<Rightarrow> string list" where
  "current_ports pp =
     remdups (List.map_filter (\<lambda>pr. case pr_doc pr of PortCurrent port direction \<Rightarrow> Some port | _ \<Rightarrow> None)
       (pc_probes (pp_context pp)))"

definition dut_terminals :: "prepared_plan \<Rightarrow> (string \<times> string) list pyres" where
  "dut_terminals pp =
     (let dut = pc_dut (pp_context pp)
      in map_res (\<lambda>port. if port_name port \<in> set (current_ports pp)
                    then Inr (port_name port, ''N_OPENADA_DUT_'' @ port_name port)
                    else pbind (connection dut (port_name port)) (\<lambda>net. Inr (port_name port, net)))
           (dut_ports dut))"

definition header_lines ::
  "deck_env \<Rightarrow> sealed_dut \<Rightarrow> string \<Rightarrow> string \<Rightarrow> string \<Rightarrow> string list" where
  "header_lines dk sd condition_id condition_sha temperature =
     [''OpenADA closed testbench-plan condition'',
      ''* compiler_id: openada.testbench-plan.ngspice/v1'',
      ''* plan_sha256: '' @ dk_plan_sha256 dk,
      ''* dut_sha256: '' @ sd_raw_sha256 sd,
      ''* condition_id: '' @ condition_id,
      ''* condition_sha256: '' @ condition_sha,
      ''.TEMP '' @ temperature,
      []]"

text \<open>\<open>text.rstrip("\n").split("\n")\<close>.\<close>

definition sealed_lines :: "sealed_dut \<Rightarrow> string list" where
  "sealed_lines sd = split_on (CHR 0x0A) (rev (dropWhile (\<lambda>c. c = CHR 0x0A) (rev (sd_canonical sd))))"

definition supply_line :: "(string \<times> rat) list \<Rightarrow> supply_doc \<Rightarrow> string pyres" where
  "supply_line levels su =
     (case lookup_last levels (su_id su) of
        None \<Rightarrow> Inl (key_error (su_id su))
      | Some x \<Rightarrow> Inr (join '' '' [''V_SUPPLY_'' @ su_id su, su_positive su, su_negative su, ''DC'', number_token x]))"

definition probe_line :: "dut_binding \<Rightarrow> (string \<times> string) list \<Rightarrow> string \<Rightarrow> string pyres" where
  "probe_line dut terminals port =
     pbind (connection dut port) (\<lambda>external.
     pbind (terminal terminals port) (\<lambda>internal.
     Inr (join '' '' [''V_PROBE_PORT_'' @ port, external, internal, ''DC'', ''0''])))"

definition initial_value :: "(string \<times> string) list \<Rightarrow> bool \<times> string \<times> rat \<Rightarrow> string pyres" where
  "initial_value terminals entry =
     (case entry of (is_port, name, v) \<Rightarrow>
        pbind (decimal_arg ''/state_policy/initial_node_voltages/value'' v) (\<lambda>x.
        pbind (if is_port then terminal terminals name else Inr (instance_name @ ''.'' @ name)) (\<lambda>node.
        Inr (''V('' @ node @ '')='' @ number_token x))))"

definition initial_values :: "(string \<times> string) list \<Rightarrow> plan_point \<Rightarrow> string list pyres" where
  "initial_values terminals pt =
     (case pt_state pt of Fresh initial \<Rightarrow> map_res (initial_value terminals) initial | Carryover s p \<Rightarrow> Inr [])"

definition analysis_line ::
  "(string \<times> resolved_value) list \<Rightarrow> bool \<Rightarrow> bool \<Rightarrow> analysis \<Rightarrow> string pyres" where
  "analysis_line inputs initialised sampled a =
     (let token = (\<lambda>field v. pbind (resolve_decimal inputs (''/analysis/'' @ field) v) (\<lambda>x. Inr (number_token x)));
          tran = (\<lambda>step stop. pbind (token ''step'' step) (\<lambda>step. pbind (token ''stop'' stop) (\<lambda>stop.
            Inr (''.TRAN '' @ step @ '' '' @ stop @ (if initialised then '' UIC'' else [])))))
      in case a of
        DcSweep sid start stop step \<Rightarrow>
          if sampled then Inr ''.OP''
          else pbind (token ''start'' start) (\<lambda>start. pbind (token ''stop'' stop) (\<lambda>stop. pbind (token ''step'' step) (\<lambda>step.
               Inr (join '' '' [''.DC'', ''V_STIM_'' @ sid, start, stop, step]))))
      | PulseTransient sid step stop \<Rightarrow> tran step stop
      | PhaseTransient sid step stop \<Rightarrow> tran step stop
      | LinearAc sid start stop \<Rightarrow> Inl (compile_error ''analysis_unsupported'' ''/analysis/kind''
          (''unsupported analysis kind '' @ repr_text ''linear_ac'')))"

definition active_stimuli :: "prepared_plan \<Rightarrow> plan_point \<Rightarrow> stimulus list pyres" where
  "active_stimuli pp pt =
     map_res (\<lambda>k. case lookup_last (map (\<lambda>st. (st_id st, st)) (pc_stimuli (pp_context pp))) k of
                Some st \<Rightarrow> Inr st | None \<Rightarrow> Inl (key_error k)) (pt_active pt)"

definition sample_of :: "plan_point \<Rightarrow> rat option \<Rightarrow> stimulus \<Rightarrow> rat option" where
  "sample_of pt sample st =
     (if st_id st = analysis_stimulus (pt_analysis pt) \<and> stimulus_kind (st_doc st) = ''dc_state'' then sample else None)"

text \<open>Ports by \<open>str.casefold\<close>; the code sorts a set, so ports that fold alike come in no fixed order.\<close>

definition sorted_ports :: "prepared_plan \<Rightarrow> string list" where
  "sorted_ports pp = sort_key casefold (current_ports pp)"

record deck =
  dd_lines :: "string list"
  dd_probes :: "deck_probe list"

definition serialize_deck ::
  "deck_env \<Rightarrow> prepared_plan \<Rightarrow> sealed_dut \<Rightarrow> corner_binding \<Rightarrow> plan_point \<Rightarrow> (string \<times> resolved_value) list \<Rightarrow>
   string \<Rightarrow> string \<Rightarrow> rat option \<Rightarrow> deck pyres" where
  "serialize_deck dk pp sd corner pt inputs condition_id condition_sha sample =
     (let dut = pc_dut (pp_context pp)
      in pbind (supply_values pp corner) (\<lambda>levels.
         pbind (active_stimuli pp pt) (\<lambda>active.
         pbind (dut_terminals pp) (\<lambda>terminals.
         pbind (decimal_arg ''/corner/temperature/value'' (cb_temperature corner)) (\<lambda>temperature.
         pbind (map_res (supply_line levels) (pc_supplies (pp_context pp))) (\<lambda>supplies.
         pbind (map_res (\<lambda>st. serialize_stimulus pp levels inputs (sample_of pt sample st) st) active) (\<lambda>sources.
         pbind (map_res (probe_line dut terminals) (sorted_ports pp)) (\<lambda>branches.
         pbind (initial_values terminals pt) (\<lambda>initial.
         pbind (map_res (deck_probe_of terminals (map (\<lambda>st. (st_id st, source_names st)) active))
                  (pc_probes (pp_context pp))) (\<lambda>probes.
         pbind (require_measurement_probes pt probes) (\<lambda>u.
         pbind (analysis_line inputs (initial \<noteq> []) (sample \<noteq> None) (pt_analysis pt)) (\<lambda>analysis.
         let vectors = rev (remdups (rev (concat (map dp_vectors probes))));
             dut_line = join '' '' ([instance_name] @ map snd terminals @ [sd_top sd])
         in Inr \<lparr>dd_lines = header_lines dk sd condition_id condition_sha (number_token temperature)
                @ sealed_lines sd @ [[]] @ supplies @ concat sources @ branches @ [dut_line]
                @ (if initial = [] then [] else [''.IC '' @ join '' '' initial])
                @ (if vectors = [] then [] else [''.SAVE '' @ join '' '' vectors])
                @ [analysis, ''.END''],
              dd_probes = probes\<rparr>))))))))))))"

definition deck_text :: "deck \<Rightarrow> string" where
  "deck_text d = join [CHR 0x0A] (dd_lines d) @ [CHR 0x0A]"

section \<open>One condition\<close>

definition state_document :: "state_policy \<Rightarrow> pyval" where
  "state_document st =
     (case st of
        Fresh initial \<Rightarrow> obj [(''kind'', VStr ''fresh''), (''initial_node_voltages'', VList (map
          (\<lambda>(is_port, name, v). obj [(''kind'', VStr (if is_port then ''port'' else ''internal_node'')),
             (if is_port then ''port'' else ''node'', VStr name),
             (''value'', quantity_document \<lparr>q_value = v, q_unit = ''V''\<rparr>)]) initial))]
      | Carryover s p \<Rightarrow> obj [(''kind'', VStr ''carryover''),
          (''from'', obj [(''stage_id'', VStr s), (''point_id'', VStr p)])])"

definition seconds :: "rat \<Rightarrow> pyval" where
  "seconds x = quantity_document \<lparr>q_value = x, q_unit = ''s''\<rparr>"

definition settle_document :: "settle_policy \<Rightarrow> pyval" where
  "settle_document sp =
     (case sp of
        OperatingPoint \<Rightarrow> obj [(''kind'', VStr ''operating_point'')]
      | FixedTime x \<Rightarrow> obj [(''kind'', VStr ''fixed_time''), (''duration'', seconds x)]
      | UntilDelta p q hold mx \<Rightarrow> obj [(''kind'', VStr ''until_delta''), (''probe_id'', VStr p),
          (''tolerance'', quantity_document q), (''hold_for'', seconds hold), (''maximum'', seconds mx)])"

definition corner_document :: "corner_binding \<Rightarrow> pyval" where
  "corner_document c =
     obj [(''id'', VStr (cb_id c)),
          (''temperature'', quantity_document \<lparr>q_value = cb_temperature c, q_unit = ''degC''\<rparr>),
          (''values'', VList (map (\<lambda>(k, q). obj [(''id'', VStr k), (''value'', quantity_document q)]) (cb_values c)))]"

definition analysis_document ::
  "(string \<times> resolved_value) list \<Rightarrow> (nat \<times> rat) option \<Rightarrow> analysis \<Rightarrow> pyval pyres" where
  "analysis_document inputs sample a =
     (let quantity = (\<lambda>field v. pbind (resolved_quantity inputs (''/analysis/'' @ field) v) (\<lambda>q. Inr (field, q)));
          ident = (case a of DcSweep sid x y z \<Rightarrow> ''source_stimulus_id'' | _ \<Rightarrow> ''stimulus_id'');
          fields = (case a of
              DcSweep sid start stop step \<Rightarrow> [(''start'', start), (''stop'', stop), (''step'', step)]
            | PulseTransient sid step stop \<Rightarrow> [(''stop'', stop), (''step'', step)]
            | PhaseTransient sid step stop \<Rightarrow> [(''stop'', stop), (''step'', step)]
            | LinearAc sid start stop \<Rightarrow> [(''start'', start), (''stop'', stop)]);
          sample_unit = (case a of DcSweep sid start stop step \<Rightarrow> vs_unit start | _ \<Rightarrow> [])
      in pbind (map_res (\<lambda>(f, v). quantity f v) fields) (\<lambda>quantities.
         Inr (obj ([(''kind'', VStr (analysis_kind a)), (ident, VStr (analysis_stimulus a))] @ quantities
           @ (case sample of None \<Rightarrow> []
              | Some (i, x) \<Rightarrow> [(''sample_index'', VInt (int i)), (''sample_value'',
                  obj [(''value'', VStr (number_token x)), (''unit'', VStr sample_unit)])])))))"

definition stimulus_detail :: "(string \<times> resolved_value) list \<Rightarrow> stimulus \<Rightarrow> pyval pyres" where
  "stimulus_detail inputs st =
     (let head = [(''id'', VStr (st_id st)), (''kind'', VStr (stimulus_kind (st_doc st)))]
      in case st_doc st of
           PhasePair s r off rp op p v \<Rightarrow>
             pbind (resolved_quantity inputs (''/stimuli/'' @ st_id st @ ''/phase_offset'') v) (\<lambda>q.
             Inr (obj (head @ [(''resolved_phase_offset'', q)])))
         | _ \<Rightarrow> Inr (obj head))"

definition condition_semantics ::
  "prepared_plan \<Rightarrow> corner_binding \<Rightarrow> string \<Rightarrow> plan_point \<Rightarrow> (string \<times> resolved_value) list \<Rightarrow> pyval list \<Rightarrow>
   pyval \<Rightarrow> pyval pyres" where
  "condition_semantics pp corner stage pt inputs parameters analysis =
     pbind (active_stimuli pp pt) (\<lambda>active.
     pbind (map_res (stimulus_detail inputs) active) (\<lambda>details.
     Inr (obj [(''stage_id'', VStr stage), (''point_id'', VStr (pt_id pt)), (''corner'', corner_document corner),
       (''parameters'', VList parameters),
       (''resolved_bindings'', VList (map (\<lambda>(k, rv). resolved_document rv) (sort_key fst inputs))),
       (''state_policy'', state_document (pt_state pt)), (''settle_policy'', settle_document (pt_settle pt)),
       (''active_stimuli'', VList details), (''analysis'', analysis)])))"

definition condition_suffix :: "py_env \<Rightarrow> (nat \<times> rat) option \<Rightarrow> string" where
  "condition_suffix env sample =
     (case sample of None \<Rightarrow> []
      | Some (i, x) \<Rightarrow> ''dc_'' @ pad6 i @ ''_'' @ take 8 (sha256 env (number_token x)))"

definition condition_name :: "py_env \<Rightarrow> string \<Rightarrow> string \<Rightarrow> (nat \<times> rat) option \<Rightarrow> string" where
  "condition_name env stage point sample =
     stage @ ''.'' @ point @ (if sample = None then [] else ''.'' @ condition_suffix env sample)"

definition deck_path :: "py_env \<Rightarrow> string \<Rightarrow> string \<Rightarrow> (nat \<times> rat) option \<Rightarrow> string" where
  "deck_path env stage point sample =
     ''conditions/'' @ stage @ ''/'' @ point @ (if sample = None then [] else ''/'' @ condition_suffix env sample)
     @ ''.spice''"

definition condition_receipt ::
  "plan_point \<Rightarrow> string \<Rightarrow> string \<Rightarrow> string \<Rightarrow> pyval \<Rightarrow> pyval \<Rightarrow> string \<Rightarrow> string \<Rightarrow> deck_probe list \<Rightarrow> pyval" where
  "condition_receipt pt stage ident condition_sha semantics analysis path deck_sha probes =
     obj [(''condition_id'', VStr ident), (''condition_sha256'', VStr condition_sha), (''stage_id'', VStr stage),
          (''point_id'', VStr (pt_id pt)), (''condition'', semantics), (''analysis'', analysis),
          (''deck'', obj [(''path'', VStr path), (''raw_sha256'', VStr deck_sha)]),
          (''expected_probes'', VList (map deck_probe_document probes)),
          (''expected_measurements'', VList (map (\<lambda>m. obj [(''id'', VStr (me_id m)),
             (''kind'', VStr (measurement_kind (me_doc m))), (''unit'', VStr (me_unit m))]) (pt_measurements pt))),
          (''validity_rules'', VList (map (\<lambda>r. VStr (vr_id r)) (pt_rules pt)))]"

record deck_condition =
  dc_compiled :: compiled
  dc_path :: string
  dc_lines :: "string list"
  dc_receipt :: pyval

definition compile_one_condition ::
  "deck_env \<Rightarrow> prepared_plan \<Rightarrow> sealed_dut \<Rightarrow> corner_binding \<Rightarrow> string \<Rightarrow> plan_point \<Rightarrow>
   (string \<times> resolved_value) list \<Rightarrow> pyval list \<Rightarrow> (nat \<times> rat) option \<Rightarrow> deck_condition pyres" where
  "compile_one_condition dk pp sd corner stage pt inputs parameters sample =
     (let env = dk_env dk
      in pbind (analysis_document inputs sample (pt_analysis pt)) (\<lambda>analysis.
         pbind (condition_semantics pp corner stage pt inputs parameters analysis) (\<lambda>semantics.
         pbind (canonical_sha256 env semantics) (\<lambda>condition_sha.
         let ident = condition_name env stage (pt_id pt) sample; path = deck_path env stage (pt_id pt) sample
         in pbind (serialize_deck dk pp sd corner pt inputs ident condition_sha (map_option snd sample)) (\<lambda>d.
            let deck_sha = sha256 env (deck_text d)
            in Inr \<lparr>dc_compiled = \<lparr>cc_stage = stage, cc_point = pt_id pt, cc_id = ident, cc_sha256 = condition_sha,
                   cc_deck = deck_text d, cc_deck_sha256 = deck_sha,
                   cc_probes = map expected_probe_of (dd_probes d), cc_condition = semantics,
                   cc_sample = map_option (\<lambda>(i, x). (int i, decimal_round x)) sample\<rparr>,
                 dc_path = path, dc_lines = dd_lines d,
                 dc_receipt = condition_receipt pt stage ident condition_sha semantics analysis path deck_sha
                   (dd_probes d)\<rparr>)))))"

section \<open>The selected stages\<close>

definition compile_point ::
  "deck_env \<Rightarrow> prepared_plan \<Rightarrow> sealed_dut \<Rightarrow> corner_binding \<Rightarrow> string \<Rightarrow> (string \<times> resolved_value) list \<Rightarrow>
   plan_point \<Rightarrow> deck_condition list pyres" where
  "compile_point dk pp sd corner stage inputs pt =
     (let base = ''/stages/'' @ stage @ ''/points/'' @ pt_id pt
      in case pt_state pt of
        Carryover s p \<Rightarrow> Inl (compile_error ''state_unresolved'' (base @ ''/state_policy'')
          ''carryover compilation requires an upstream state receipt'')
      | Fresh initial \<Rightarrow>
          pbind (map_res (\<lambda>(name, v). pbind (resolved_quantity inputs (base @ ''/condition/parameters/'' @ name) v)
                   (\<lambda>q. Inr (obj [(''name'', VStr name), (''value'', q)]))) (pt_parameters pt)) (\<lambda>parameters.
          case pt_analysis pt of
            DcSweep sid start stop step \<Rightarrow>
              pbind (resolve_decimal inputs ''/analysis/start'' start) (\<lambda>a.
              pbind (resolve_decimal inputs ''/analysis/stop'' stop) (\<lambda>b.
              pbind (resolve_decimal inputs ''/analysis/step'' step) (\<lambda>c.
              pbind (dc_grid a b c) (\<lambda>grid.
              map_res (\<lambda>s. compile_one_condition dk pp sd corner stage pt inputs parameters (Some s))
                (enumerate 0 grid)))))
          | _ \<Rightarrow> pbind (compile_one_condition dk pp sd corner stage pt inputs parameters None) (\<lambda>c. Inr [c])))"

definition unsupported_point :: "plan_point \<Rightarrow> bool" where
  "unsupported_point pt \<longleftrightarrow>
     analysis_kind (pt_analysis pt) \<notin> {''dc_sweep'', ''pulse_train_transient'', ''phase_offset_pair_transient''}"

definition corner_points :: "plan_stage \<Rightarrow> string \<Rightarrow> plan_point list" where
  "corner_points sg corner = filter (\<lambda>pt. pt_corner pt = corner) (sg_points sg)"

definition compile_stage ::
  "deck_env \<Rightarrow> prepared_plan \<Rightarrow> sealed_dut \<Rightarrow> corner_binding \<Rightarrow> (string \<times> resolved_value) list \<Rightarrow> string \<Rightarrow>
   deck_condition list pyres" where
  "compile_stage dk pp sd corner resolved stage =
     (case map_of (stage_dict (pp_stages pp)) stage of
        None \<Rightarrow> Inl (key_error stage)
      | Some sg \<Rightarrow>
          (case find unsupported_point (corner_points sg (cb_id corner)) of
             Some pt \<Rightarrow> Inl (compile_error ''analysis_unsupported''
               (''/stages/'' @ stage @ ''/points/'' @ pt_id pt @ ''/analysis/kind'')
               (''unsupported analysis kind '' @ repr_text (analysis_kind (pt_analysis pt))))
           | None \<Rightarrow>
               pbind (stage_input_values pp sg resolved) (\<lambda>inputs.
               pbind (map_res (compile_point dk pp sd corner stage inputs) (corner_points sg (cb_id corner))) (\<lambda>ccs.
               Inr (concat ccs)))))"

definition selected_stages :: "prepared_plan \<Rightarrow> string list option \<Rightarrow> string list pyres" where
  "selected_stages pp stage_ids =
     (let known = set (map sg_id (pp_stages pp))
      in case stage_ids of
        None \<Rightarrow> Inr (map sg_id (pp_stages pp))
      | Some ids \<Rightarrow>
          if ids = [] \<or> \<not> distinct ids
          then Inl (compile_error ''stage_selector_invalid'' ''/stage_ids'' ''stage_ids must be non-empty and unique'')
          else let unknown = sorted_texts (filter (\<lambda>k. k \<notin> known) ids)
               in if unknown \<noteq> []
                  then Inl (compile_error ''stage_unknown'' ''/stage_ids'' (''unknown stages: '' @ join '', '' unknown))
                  else Inr ids)"

definition has_points :: "prepared_plan \<Rightarrow> string \<Rightarrow> string list \<Rightarrow> bool" where
  "has_points pp corner ids \<longleftrightarrow>
     list_ex (\<lambda>k. case map_of (stage_dict (pp_stages pp)) k of
         Some sg \<Rightarrow> corner_points sg corner \<noteq> [] | None \<Rightarrow> False) ids"

definition compile_conditions ::
  "deck_env \<Rightarrow> prepared_plan \<Rightarrow> sealed_dut \<Rightarrow> corner_binding \<Rightarrow> string list option \<Rightarrow>
   (string \<times> resolved_value) list \<Rightarrow> deck_condition list pyres" where
  "compile_conditions dk pp sd corner stage_ids resolved =
     pbind (selected_stages pp stage_ids) (\<lambda>ids.
     pbind (map_res (compile_stage dk pp sd corner resolved) ids) (\<lambda>ccs.
     if \<not> has_points pp (cb_id corner) ids
     then Inl (compile_error ''corner_has_no_points'' ''/corner''
       (''corner '' @ repr_text (cb_id corner) @ '' has no points in the selected stages''))
     else Inr (concat ccs)))"

definition compile_receipt ::
  "deck_env \<Rightarrow> prepared_plan \<Rightarrow> sealed_dut \<Rightarrow> corner_binding \<Rightarrow> deck_condition list \<Rightarrow> pyval pyres" where
  "compile_receipt dk pp sd corner ccs =
     (let dut = pc_dut (pp_context pp)
      in pbind (canonical_sha256 (dk_env dk) (corner_document corner)) (\<lambda>corner_sha.
         Inr (obj [(''schema'', VStr ''simra.testbench-plan-compile/v1''),
           (''compiler_id'', VStr ''openada.testbench-plan.ngspice/v1''),
           (''plan'', obj [(''id'', VStr (pp_id pp)), (''raw_sha256'', VStr (dk_plan_raw_sha256 dk)),
              (''canonical_sha256'', VStr (dk_plan_sha256 dk))]),
           (''dut'', obj [(''binding_canonical_sha256'', VStr (dk_binding_sha256 dk)),
              (''raw_sha256'', VStr (sd_raw_sha256 sd)), (''canonical_sha256'', VStr (sd_canonical_sha256 sd)),
              (''namespace'', VStr (dut_namespace dut)), (''top'', VStr (dut_top dut)),
              (''sealed_top'', VStr (sd_top sd))]),
           (''corner'', obj [(''id'', VStr (cb_id corner)), (''canonical_sha256'', VStr corner_sha)]),
           (''conditions'', VList (map dc_receipt ccs))])))"

text \<open>\<open>prepare_testbench_plan_ngspice\<close>, and what the runner reads of its result.\<close>

definition prepare_deck ::
  "deck_env \<Rightarrow> prepared_plan \<Rightarrow> string \<Rightarrow> string list option \<Rightarrow> binding_value list \<Rightarrow>
   (sealed_dut \<times> deck_condition list \<times> pyval) pyres" where
  "prepare_deck dk pp corner stage_ids bs =
     pbind (capture_dut dk pp) (\<lambda>sd.
     pbind (select_corner pp corner) (\<lambda>c.
     pbind (resolve_binding_values pp bs) (\<lambda>resolved.
     pbind (compile_conditions dk pp sd c stage_ids resolved) (\<lambda>ccs.
     pbind (compile_receipt dk pp sd c ccs) (\<lambda>receipt. Inr (sd, ccs, receipt))))))"

definition compile_for_run ::
  "deck_env \<Rightarrow> prepared_plan \<Rightarrow> string \<Rightarrow> string \<Rightarrow> binding_value list \<Rightarrow> compilation pyres" where
  "compile_for_run dk pp corner stage bs =
     pbind (prepare_deck dk pp corner (Some [stage]) bs) (\<lambda>(sd, ccs, receipt).
     Inr \<lparr>cp_dut_bytes = sd_raw sd, cp_dut_sha256 = sd_raw_sha256 sd, cp_conditions = map dc_compiled ccs,
          cp_receipt = receipt\<rparr>)"

end
