(* ===== verification/DeckNumber.thy ===== *)
theory DeckNumber
  imports DeckDecimal
begin

text \<open>
  Number tokens of a deck read back as the decimals they were made from, and the grid of a DC sweep
  over decimals of a common scale is the exact arithmetic progression from start to stop.
\<close>

section \<open>Powers of ten\<close>

lemma pow10_pos [simp]: "0 < pow10 e"
  by (simp add: pow10_def)

lemma pow10_neq0 [simp]: "pow10 e \<noteq> 0"
  by (simp add: pow10_def)

lemma pow10_powi: "pow10 e = 10 powi e"
  by (simp add: pow10_def power_int_def field_simps)

lemma pow10_add: "pow10 (a + b) = pow10 a * pow10 b"
  by (simp add: pow10_powi power_int_add)

lemma pow10_diff: "pow10 (a - b) = pow10 a / pow10 b"
  by (simp add: pow10_powi power_int_diff)

lemma pow10_nat: "pow10 (int n) = 10 ^ n"
  by (simp add: pow10_def)

section \<open>Digits\<close>

lemma digit_char_ok: "n < 10 \<Longrightarrow> ascii_digit (digit_char n) \<and> digit_of (digit_char n) = n"
  by (auto simp: digit_char_def ascii_digit_def digit_of_def ord_def less_Suc_eq numeral_eq_Suc)

lemma dec_nat_digits [simp]: "list_all ascii_digit (dec_nat n)"
proof (induction n rule: dec_nat.induct)
  case (1 n)
  then show ?case using digit_char_ok by (subst dec_nat.simps) simp
qed

lemma digits_value_append: "digits_value (a @ b) = digits_value a * 10 ^ length b + digits_value b"
proof -
  have "foldl (\<lambda>acc c. 10 * acc + digit_of c) k b = k * 10 ^ length b + foldl (\<lambda>acc c. 10 * acc + digit_of c) 0 b" for k
  proof (induction b arbitrary: k)
    case (Cons c cs)
    have "foldl (\<lambda>acc c. 10 * acc + digit_of c) k (c # cs) =
        (10 * k + digit_of c) * 10 ^ length cs + foldl (\<lambda>acc c. 10 * acc + digit_of c) 0 cs"
      using Cons [of "10 * k + digit_of c"] by simp
    moreover have "foldl (\<lambda>acc c. 10 * acc + digit_of c) 0 (c # cs) =
        digit_of c * 10 ^ length cs + foldl (\<lambda>acc c. 10 * acc + digit_of c) 0 cs"
      using Cons [of "digit_of c"] by simp
    ultimately show ?case by (simp add: algebra_simps)
  qed simp
  then show ?thesis unfolding digits_value_def foldl_append .
qed

lemma digits_value_dec_nat [simp]: "digits_value (dec_nat n) = n"
proof (induction n rule: dec_nat.induct)
  case (1 n)
  show ?case
  proof (cases "n < 10")
    case True
    then show ?thesis using digit_char_ok [of n] by (subst dec_nat.simps) (simp add: digits_value_def)
  next
    case False
    have "digits_value (dec_nat n) = digits_value (dec_nat (n div 10) @ [digit_char (n mod 10)])"
      using False by (simp add: dec_nat.simps [of n])
    also have "\<dots> = n div 10 * 10 + digits_value [digit_char (n mod 10)]"
      using 1 False by (simp add: digits_value_append)
    also have "\<dots> = n" using digit_char_ok [of "n mod 10"] by (simp add: digits_value_def)
    finally show ?thesis .
  qed
qed

lemma digits_value_zeros [simp]: "digits_value (replicate k (CHR ''0'')) = 0"
proof -
  have "foldl (\<lambda>acc c. 10 * acc + digit_of c) 0 (replicate k (CHR ''0'')) = 0"
    by (induction k) (simp_all add: digit_of_def ord_def)
  then show ?thesis by (simp add: digits_value_def)
qed

lemma zeros_digits [simp]: "list_all ascii_digit (replicate k (CHR ''0''))"
  by (simp add: list_all_iff ascii_digit_def)

lemma digit_not_mark:
  "ascii_digit c \<Longrightarrow> c \<noteq> CHR ''.'' \<and> c \<noteq> CHR ''e'' \<and> c \<noteq> CHR ''-''"
  by (auto simp: ascii_digit_def)

section \<open>Reading a numeral\<close>

definition numeral_text :: "bool \<Rightarrow> string \<Rightarrow> string \<Rightarrow> string \<Rightarrow> string" where
  "numeral_text neg w f t = (if neg then ''-'' else []) @ w @ (if f = [] then [] else CHR ''.'' # f) @ t"

lemma takeWhile_before:
  "list_all P a \<Longrightarrow> b = [] \<or> \<not> P (hd b) \<Longrightarrow> takeWhile P (a @ b) = a"
  by (induction a) (cases b; auto)+

lemma decimal_text_numeral:
  assumes w: "w \<noteq> []" "list_all ascii_digit w" and f: "list_all ascii_digit f"
    and t: "t = [] \<or> hd t = CHR ''e''" and e: "exponent_of t = Some e"
  shows "decimal_text (numeral_text neg w f t) =
     Some ((if neg then - 1 else 1) * of_nat (digits_value (w @ f)) * pow10 (e - int (length f)))"
proof -
  define body where "body = w @ (if f = [] then [] else CHR ''.'' # f) @ t"
  define mantissa where "mantissa = w @ (if f = [] then [] else CHR ''.'' # f)"
  obtain c cs where c: "w = c # cs" "ascii_digit c" using w by (cases w) auto
  have signed: "signed_text (numeral_text neg w f t) = (neg, body)"
    using c digit_not_mark [OF c(2)] by (simp add: signed_text_def numeral_text_def body_def)
  have marks: "list_all (\<lambda>c. c \<noteq> CHR ''.'') w" "list_all (\<lambda>c. c \<noteq> CHR ''e'') mantissa"
    using w f digit_not_mark by (auto simp: list_all_iff mantissa_def)
  have m: "takeWhile (\<lambda>c. c \<noteq> CHR ''e'') body = mantissa"
    using takeWhile_before [OF marks(2), of t] t by (simp add: body_def mantissa_def)
  have rest: "drop (length mantissa) body = t" by (simp add: body_def mantissa_def)
  have whole: "takeWhile (\<lambda>c. c \<noteq> CHR ''.'') mantissa = w"
    unfolding mantissa_def by (rule takeWhile_before [OF marks(1)]) simp
  have fraction: "drop (Suc (length w)) mantissa = f" by (simp add: mantissa_def)
  have "is_digits (w @ f)" using w f by (simp add: is_digits_def)
  then show ?thesis
    by (simp add: decimal_text_def signed m rest whole fraction e Let_def del: of_nat_mult)
qed

lemma exponent_of_dec_int: "exponent_of (CHR ''e'' # dec_int i) = Some i"
proof (cases "i < 0")
  case True
  then show ?thesis by (simp add: exponent_of_def dec_int_def signed_text_def is_digits_def)
next
  case False
  obtain c cs where c: "dec_nat (nat i) = c # cs" by (cases "dec_nat (nat i)") auto
  have "list_all ascii_digit (c # cs)" using dec_nat_digits [of "nat i"] by (simp only: c)
  then have "ascii_digit c" by simp
  then have "signed_text (dec_nat (nat i)) = (False, dec_nat (nat i))"
    using digit_not_mark by (simp add: signed_text_def c)
  then show ?thesis using False by (simp add: exponent_of_def dec_int_def is_digits_def)
qed

section \<open>Writing a number\<close>

lemma strip_zeros_value: "strip_zeros m e = (m', e') \<Longrightarrow> of_nat m' * pow10 e' = (of_nat m * pow10 e :: rat)"
proof (induction m e rule: strip_zeros.induct)
  case (1 m e)
  show ?case
  proof (cases "m \<noteq> 0 \<and> 10 dvd m")
    case True
    with 1 have "of_nat m' * pow10 e' = (of_nat (m div 10) * pow10 (e + 1) :: rat)"
      by (simp add: strip_zeros.simps [of m e])
    also have "\<dots> = of_nat (m div 10 * 10) * pow10 e"
      by (simp only: pow10_add of_nat_mult) (simp add: pow10_def)
    finally show ?thesis using True by simp
  next
    case False
    then have "strip_zeros m e = (m, e)" by (subst strip_zeros.simps) auto
    with "1.prems" show ?thesis by simp
  qed
qed

lemma normalized_value:
  assumes "x \<noteq> 0" "normalized x = (m, e)"
  shows "(if x < 0 then - 1 else 1) * of_nat m * pow10 e = decimal_round x"
proof -
  define k where "k = flog10 \<bar>x\<bar> - 27"
  have "0 \<le> \<bar>x\<bar> / pow10 k" using pow10_pos [of k] by (simp add: zero_le_divide_iff less_imp_le)
  then have "0 \<le> rhe (\<bar>x\<bar> / pow10 k)" by (intro rhe_ge_int) simp
  moreover have "strip_zeros (nat (rhe (\<bar>x\<bar> / pow10 k))) k = (m, e)"
    using assms(2) by (simp only: normalized_def Let_def k_def)
  then have "of_nat m * pow10 e = (of_nat (nat (rhe (\<bar>x\<bar> / pow10 k))) * pow10 k :: rat)"
    by (rule strip_zeros_value)
  ultimately show ?thesis using assms(1) by (simp add: decimal_round_def k_def [symmetric] Let_def)
qed

lemma decimal_text_plain:
  assumes "list_all ascii_digit ds" "ds \<noteq> []"
  shows "decimal_text ((if neg then ''-'' else []) @ plain_notation ds e) =
     Some ((if neg then - 1 else 1) * of_nat (digits_value ds) * pow10 e)"
proof (cases "0 \<le> e")
  case True
  have "decimal_text (numeral_text neg (ds @ replicate (nat e) (CHR ''0'')) [] []) =
      Some ((if neg then - 1 else 1) * of_nat (digits_value (ds @ replicate (nat e) (CHR ''0''))) * pow10 0)"
    using decimal_text_numeral [of "ds @ replicate (nat e) (CHR ''0'')" "[]" "[]" 0 neg] assms
    by (simp add: exponent_of_def)
  moreover have "of_nat (digits_value (ds @ replicate (nat e) (CHR ''0''))) = (of_nat (digits_value ds) * pow10 e :: rat)"
    using True by (simp add: digits_value_append pow10_def)
  ultimately show ?thesis using True by (simp add: numeral_text_def plain_notation_def pow10_def)
next
  case False
  define places where "places = nat (- e)"
  define padded where "padded = replicate (Suc places - length ds) (CHR ''0'') @ ds"
  have len: "places < length padded" "0 < places" using False by (auto simp: padded_def places_def)
  have digits: "list_all ascii_digit padded" using assms(1) by (simp add: padded_def)
  define w f where "w = take (length padded - places) padded" and "f = drop (length padded - places) padded"
  have wf: "w \<noteq> []" "list_all ascii_digit w" "list_all ascii_digit f" "length f = places" "w @ f = padded" "f \<noteq> []"
    using len digits by (auto simp: w_def f_def list_all_iff dest: in_set_takeD in_set_dropD)
  have "decimal_text (numeral_text neg w f []) =
      Some ((if neg then - 1 else 1) * of_nat (digits_value padded) * pow10 (0 - int places))"
    using decimal_text_numeral [of w f "[]" 0 neg] wf by (simp add: exponent_of_def)
  moreover have "digits_value padded = digits_value ds" by (simp add: padded_def digits_value_append)
  moreover have "plain_notation ds e = w @ ''.'' @ f"
    using False by (simp add: plain_notation_def Let_def w_def f_def padded_def places_def)
  moreover have "0 - int places = e" using False by (simp add: places_def)
  ultimately show ?thesis using wf(6) by (simp add: numeral_text_def)
qed

text \<open>C15: A number token of a deck is exact up to the context of the decimal module: for every
  rational, reading the token as a decimal numeral gives the rational rounded to 28 significant digits,
  so the value a deck or a resolved binding states is the decimal it was made from.\<close>

theorem number_token_exact: "decimal_text (number_token x) = Some (decimal_round x)"
proof (cases "x = 0")
  case True
  have "decimal_text (numeral_text False ''0'' [] []) = Some 0"
    using decimal_text_numeral [of "''0''" "[]" "[]" 0 False]
    by (simp add: exponent_of_def ascii_digit_def digits_value_def digit_of_def ord_def)
  with True show ?thesis by (simp add: number_token_def decimal_round_def numeral_text_def)
next
  case False
  obtain m e where n: "normalized x = (m, e)" by (cases "normalized x")
  note v = normalized_value [OF False n]
  define ds adjusted where "ds = dec_nat m" and "adjusted = e + int (length ds) - 1"
  show ?thesis
  proof (cases "- 3 \<le> adjusted \<and> adjusted \<le> 6")
    case True
    then have "number_token x = (if x < 0 then ''-'' else []) @ plain_notation ds e"
      using False n by (simp add: number_token_def ds_def adjusted_def Let_def)
    with decimal_text_plain [of ds "x < 0" e] v show ?thesis by (simp add: ds_def)
  next
    case 2: False
    obtain c cs where c: "ds = c # cs" by (cases ds) (auto simp: ds_def)
    have "list_all ascii_digit (c # cs)" using dec_nat_digits [of m] by (simp only: c [symmetric] ds_def)
    then have dig: "ascii_digit c" "list_all ascii_digit cs" by simp_all
    have "number_token x = numeral_text (x < 0) [c] cs (CHR ''e'' # dec_int adjusted)"
    proof -
      have "number_token x = (if x < 0 then ''-'' else []) @ take 1 ds @ (if length ds = 1 then [] else ''.'' @ drop 1 ds)
          @ ''e'' @ dec_int adjusted"
        using 2 False n by (simp only: number_token_def Let_def if_False if_True prod.case adjusted_def ds_def)
      then show ?thesis by (simp add: c numeral_text_def)
    qed
    moreover have "adjusted - int (length cs) = e" by (simp add: adjusted_def c)
    moreover have "digits_value ([c] @ cs) = m" using digits_value_dec_nat [of m] by (simp only: append_Cons append_Nil c [symmetric] ds_def)
    ultimately show ?thesis
      using decimal_text_numeral [of "[c]" cs "CHR ''e'' # dec_int adjusted" adjusted "x < 0"] dig v
      by (simp add: exponent_of_dec_int)
  qed
qed

section \<open>Rounding\<close>

lemma flog10_bounds: "0 < q \<Longrightarrow> pow10 (flog10 q) \<le> q \<and> q < pow10 (flog10 q + 1)"
proof (cases "1 \<le> q")
  case True
  define n where "n = nat \<lfloor>q\<rfloor>"
  have n: "0 < n" "of_nat n \<le> q" "q < of_nat n + 1" using True by (simp_all add: n_def) linarith
  define l where "l = length (dec_nat n)"
  have l: "0 < l" "n < 10 ^ l" "10 ^ (l - 1) \<le> n" using dec_nat_bounds [of n] n(1) by (simp_all add: l_def)
  have log: "flog10 q = int (l - 1)" using True l(1) by (simp add: flog10_def l_def [symmetric] n_def [symmetric] of_nat_diff)
  have "(10 :: rat) ^ (l - 1) \<le> of_nat n" using l(3) by (metis of_nat_le_iff of_nat_numeral of_nat_power)
  moreover have "of_nat n + 1 \<le> (10 :: rat) ^ l"
    using l(2) by (metis Suc_leI add.commute of_nat_Suc of_nat_le_iff of_nat_numeral of_nat_power)
  moreover have "pow10 (flog10 q + 1) = 10 ^ l"
    using l(1) pow10_nat [of l] by (simp add: log of_nat_diff)
  moreover have "pow10 (flog10 q) = 10 ^ (l - 1)" by (simp only: log pow10_nat)
  ultimately show ?thesis using n by linarith
next
  case False
  assume q: "0 < q"
  define n where "n = nat (\<lceil>1 / q\<rceil> - 1)"
  have big: "1 < 1 / q" using q False by (simp add: field_simps)
  then have "1 < \<lceil>1 / q\<rceil>" by linarith
  then have n: "0 < n" "of_nat n < 1 / q" "1 / q \<le> of_nat n + 1" by (simp_all add: n_def) linarith+
  define l where "l = length (dec_nat n)"
  have l: "0 < l" "n < 10 ^ l" "10 ^ (l - 1) \<le> n" using dec_nat_bounds [of n] n(1) by (simp_all add: l_def)
  have log: "flog10 q = - int l" using False n(1) by (simp add: flog10_def l_def n_def Let_def)
  have up: "of_nat n + 1 \<le> (10 :: rat) ^ l"
    using l(2) by (metis Suc_leI add.commute of_nat_Suc of_nat_le_iff of_nat_numeral of_nat_power)
  have low: "(10 :: rat) ^ (l - 1) \<le> of_nat n" using l(3) by (metis of_nat_le_iff of_nat_numeral of_nat_power)
  have "pow10 (flog10 q) = 1 / 10 ^ l" using l(1) by (simp add: log pow10_def)
  moreover have "pow10 (flog10 q + 1) = 1 / 10 ^ (l - 1)"
  proof -
    have "flog10 q + 1 = 0 - int (l - 1)" using l(1) by (simp add: log of_nat_diff)
    then show ?thesis by (simp only: pow10_diff pow10_nat) (simp add: pow10_def)
  qed
  moreover have "1 / 10 ^ l \<le> q"
  proof -
    have "1 \<le> q * (of_nat n + 1)" using n(3) q by (simp add: field_simps)
    also have "\<dots> \<le> q * 10 ^ l" using up q by (intro mult_left_mono) simp_all
    finally show ?thesis by (simp add: field_simps)
  qed
  moreover have "q < 1 / 10 ^ (l - 1)"
  proof -
    have "q * 10 ^ (l - 1) \<le> q * of_nat n" using low q by simp
    also have "\<dots> < 1" using n(2) q by (simp add: field_simps)
    finally show ?thesis by (simp add: field_simps)
  qed
  ultimately show ?thesis by simp
qed

lemma pow10_less_iff [simp]: "pow10 a < pow10 b \<longleftrightarrow> a < b"
proof -
  have le: "pow10 a \<le> pow10 b" if "a \<le> b" for a b
    using that by (simp add: pow10_powi power_int_increasing)
  have "pow10 a < pow10 b" if "a < b" for a b
    using that by (simp add: pow10_powi power_int_strict_increasing)
  then show ?thesis using le by (meson linorder_not_less)
qed

lemma flog10_less: "0 < q \<Longrightarrow> q < pow10 e \<Longrightarrow> flog10 q < e"
  using flog10_bounds [of q] by (metis le_less_trans pow10_less_iff)

lemma decimal_round_exact:
  assumes "\<bar>m\<bar> < 10 ^ 28"
  shows "decimal_round (of_int m * pow10 k) = of_int m * pow10 k"
proof (cases "m = 0")
  case False
  define q where "q = \<bar>of_int m * pow10 k :: rat\<bar>"
  have q: "q = of_int \<bar>m\<bar> * pow10 k" "0 < q" using False by (simp_all add: q_def abs_mult less_imp_le)
  have "of_int \<bar>m\<bar> < (10 :: rat) ^ 28" using assms by (metis of_int_less_iff of_int_numeral of_int_power)
  then have "q < pow10 (k + 28)" using pow10_add [of k 28] by (simp add: q(1) pow10_def [of 28])
  from flog10_less [OF q(2) this] have f: "0 \<le> k - (flog10 q - 27)" by simp
  define s where "s = nat (k - (flog10 q - 27))"
  have "q / pow10 (flog10 q - 27) = of_int \<bar>m\<bar> * pow10 (k - (flog10 q - 27))"
    by (subst q(1)) (simp add: pow10_diff)
  also have "pow10 (k - (flog10 q - 27)) = 10 ^ s" using f by (simp add: s_def pow10_def)
  finally have "q / pow10 (flog10 q - 27) = of_int (\<bar>m\<bar> * 10 ^ s)" by simp
  then have "of_int (rhe (q / pow10 (flog10 q - 27))) * pow10 (flog10 q - 27) = q"
    by (metis nonzero_eq_divide_eq pow10_neq0 rhe_of_int)
  moreover have "of_int m * pow10 k = (if of_int m * pow10 k < 0 then - 1 else 1) * q" by (simp add: q_def)
  ultimately show ?thesis using False by (simp add: decimal_round_def Let_def q_def [symmetric] mult.assoc)
qed (simp add: decimal_round_def)

lemma decimal_round_error: "0 < x \<Longrightarrow> \<bar>decimal_round x - x\<bar> \<le> x / (2 * 10 ^ 27)"
proof -
  assume x: "0 < x"
  define u where "u = pow10 (flog10 x - 27)"
  have u: "0 < u" "u * 10 ^ 27 \<le> x"
    using flog10_bounds [OF x] pow10_diff [of "flog10 x" 27] by (simp_all add: u_def pow10_def [of 27])
  have "\<bar>of_int (rhe (x / u)) - x / u\<bar> \<le> 1 / 2" using rhe_bounds [of "x / u"] by linarith
  then have "\<bar>of_int (rhe (x / u)) - x / u\<bar> * u \<le> 1 / 2 * u" using u(1) by (intro mult_right_mono) simp_all
  then have "\<bar>of_int (rhe (x / u)) * u - x\<bar> \<le> u / 2" using u(1) by (simp add: abs_mult_pos left_diff_distrib)
  also have "u / 2 \<le> x / (2 * 10 ^ 27)" using u(2) by simp
  finally show ?thesis using x by (simp add: decimal_round_def u_def Let_def)
qed

section \<open>The grid of a DC sweep\<close>

lemma grid_quotient:
  assumes n: "0 \<le> n" "n < 2 * 10 ^ 26" and c: "0 < c"
  shows "\<lfloor>decimal_round (of_int n / of_int c)\<rfloor> = n div c"
proof (cases "c dvd n")
  case True
  then obtain q where q: "n = c * q" by auto
  have "0 \<le> q" "q \<le> n" using n(1) c by (auto simp: q zero_le_mult_iff mult_le_cancel_right1)
  then have "decimal_round (of_int q * pow10 0) = of_int q * pow10 0" using n(2) by (intro decimal_round_exact) simp
  then show ?thesis using c by (simp add: q pow10_def)
next
  case False
  define x where "x = of_int n / (of_int c :: rat)"
  define q r where "q = n div c" and "r = n mod c"
  have nqr: "n = q * c + r" by (simp add: q_def r_def)
  have "r \<noteq> 0" using False by (simp add: r_def dvd_eq_mod_eq_0)
  then have r: "1 \<le> r" "r \<le> c - 1" using pos_mod_bound [OF c, of n] pos_mod_sign [OF c, of n] by (simp_all add: r_def)
  have n0: "0 < n" using False n(1) by (cases "n = 0") auto
  have x: "0 < x" "x * of_int c = of_int n" using c n0 by (simp_all add: x_def)
  define e where "e = decimal_round x - x"
  have "\<bar>e\<bar> * of_int c \<le> x / (2 * 10 ^ 27) * of_int c"
    using decimal_round_error [OF x(1)] c unfolding e_def by (intro mult_right_mono) simp_all
  also have "\<dots> = of_int n / (2 * 10 ^ 27)" using x(2) by simp
  also have "\<dots> < 1"
  proof -
    have "(of_int n :: rat) < of_int (2 * 10 ^ 26)" using n(2) by (simp only: of_int_less_iff)
    then show ?thesis by simp
  qed
  finally have small: "\<bar>e * of_int c\<bar> < 1" using c by (simp add: abs_mult)
  have y: "decimal_round x * of_int c = of_int q * of_int c + of_int r + e * of_int c"
    using x(2) nqr by (simp add: e_def algebra_simps)
  have "(1 :: rat) \<le> of_int r" "of_int r \<le> (of_int c - 1 :: rat)"
  proof -
    have "(of_int r :: rat) \<le> of_int (c - 1)" using r(2) by (simp only: of_int_le_iff)
    then show "of_int r \<le> (of_int c - 1 :: rat)" by simp
  qed (use r(1) in simp)
  with small y have "of_int q * of_int c \<le> decimal_round x * of_int c"
    "decimal_round x * of_int c < (of_int q + 1) * of_int c" by (auto simp: distrib_right abs_less_iff)
  then have "of_int q \<le> decimal_round x" "decimal_round x < of_int q + 1" using c by simp_all
  then show ?thesis unfolding x_def [symmetric] q_def [symmetric] by (simp add: floor_eq_iff)
qed

text \<open>C16: The grid of a DC sweep is exact: for a start, a stop and a step that are multiples of one
  power of ten with at most 26 digits, the compiler expands the sweep exactly when the step is positive,
  divides the range and gives at most a million samples, and then into the arithmetic progression from
  start to stop; every other such range is refused.\<close>

theorem dc_grid_exact:
  assumes "\<bar>a\<bar> < 10 ^ 26" "\<bar>b\<bar> < 10 ^ 26"
    and start: "start = of_int a * pow10 k" and stop: "stop = of_int b * pow10 k" and step: "step = of_int c * pow10 k"
  shows "dc_grid start stop step = Inr grid \<longleftrightarrow>
     0 < c \<and> a \<le> b \<and> c dvd b - a \<and> (b - a) div c < 1000000
     \<and> grid = map (\<lambda>i. start + of_nat i * step) [0..<Suc (nat ((b - a) div c))]"
proof (cases "0 < c \<and> a \<le> b")
  case False
  then have "step \<le> 0 \<or> stop < start" by (auto simp: start stop step mult_le_0_iff not_less less_imp_le)
  then show ?thesis using False by (auto simp: dc_grid_def)
next
  case True
  define n where "n = (b - a) div c"
  have n: "0 \<le> n" "c * n \<le> b - a" using True by (simp_all add: n_def pos_imp_zdiv_nonneg_iff minus_mod_eq_mult_div [symmetric])
  have pos: "\<not> (step \<le> 0 \<or> stop < start)" using True by (simp add: start stop step mult_le_0_iff not_less not_le less_imp_le)
  have "dec_sub stop start = of_int (b - a) * pow10 k"
    using decimal_round_exact [of "b - a" k] assms(1,2) True by (simp add: dec_sub_def start stop left_diff_distrib)
  then have "dec_div (dec_sub stop start) step = decimal_round (of_int (b - a) / of_int c)"
    using pow10_neq0 [of k] by (simp add: dec_div_def step)
  then have count: "\<lfloor>dec_div (dec_sub stop start) step\<rfloor> = n"
    using grid_quotient [of "b - a" c] assms(1,2) True by (simp add: n_def)
  have point: "dec_add start (dec_mul step (of_nat i)) = start + of_nat i * step" if "i \<le> nat n" for i
  proof -
    have "c * int i \<le> c * n" using that True n(1) by (intro mult_left_mono) auto
    from order_trans [OF this n(2)] have bound: "c * int i \<le> b - a" "0 \<le> c * int i" using True by simp_all
    then have "dec_mul step (of_nat i) = of_int (c * int i) * pow10 k"
      using decimal_round_exact [of "c * int i" k] assms(1,2) by (simp add: dec_mul_def step ac_simps)
    moreover have "decimal_round (of_int (a + c * int i) * pow10 k) = of_int (a + c * int i) * pow10 k"
      using bound assms(1,2) by (intro decimal_round_exact) simp
    ultimately show ?thesis by (simp add: dec_add_def start step algebra_simps)
  qed
  define points where "points = map (\<lambda>i. start + of_nat i * step) [0..<Suc (nat n)]"
  have grid: "map (\<lambda>i. dec_add start (dec_mul step (of_nat i))) [0..<nat (n + 1)] = points"
  proof -
    have "nat (n + 1) = Suc (nat n)" using n(1) by simp
    then show ?thesis unfolding points_def by (intro map_cong) (auto simp del: upt_Suc intro!: point)
  qed
  have "last points = start + of_nat (nat n) * step" by (simp add: points_def)
  also have "\<dots> = of_int (a + n * c) * pow10 k" using n(1) by (simp add: start step algebra_simps)
  finally have "last points = stop \<longleftrightarrow> a + n * c = b" by (simp add: stop del: of_int_add of_int_mult)
  also have "\<dots> \<longleftrightarrow> c dvd b - a" unfolding n_def by (metis add.commute diff_add_cancel dvd_div_mult_self dvd_triv_right add_diff_cancel)
  finally have landing: "last points = stop \<longleftrightarrow> c dvd b - a" .
  show ?thesis
    using True n(1) landing unfolding dc_grid_def Let_def count grid if_not_P [OF pos]
    by (auto simp: n_def [symmetric] points_def [symmetric] MAX_DC_SAMPLES_def simp del: upt_Suc)
qed

theorem dc_grid_exact_witness:
  "\<exists>grid. dc_grid (of_int 0 * pow10 (- 1)) (of_int 9 * pow10 (- 1)) (of_int 3 * pow10 (- 1)) = Inr grid \<and> length grid = 4"
  using dc_grid_exact [of 0 9 _ "- 1" _ _ 3] by (simp del: upt_Suc)

end
