(* ===== verification/DeckText.thy ===== *)
theory DeckText
  imports DeckClosed DeckCompile DeckNumber "HOL-Library.Sublist"
begin

text \<open>
  The text of a deck: for a plan whose names are those the schema admits, every deck the compiler
  emits consists of the lines it built and nothing else, and those lines are cards of a closed set
  around the sealed device under test.
\<close>

section \<open>Text without line ends\<close>

definition flat :: "string \<Rightarrow> bool" where
  "flat s \<longleftrightarrow> CHR 0x0A \<notin> set s"

lemma flat_simps [simp]:
  "flat []"
  "flat (c # s) \<longleftrightarrow> c \<noteq> CHR 0x0A \<and> flat s"
  "flat (s @ t) \<longleftrightarrow> flat s \<and> flat t"
  by (auto simp: flat_def)

lemma flat_join: "flat sep \<Longrightarrow> list_all flat ts \<Longrightarrow> flat (join sep ts)"
  by (induction sep ts rule: join.induct) simp_all

lemma join_Cons: "ts \<noteq> [] \<Longrightarrow> join sep (t # ts) = t @ sep @ join sep ts"
  by (cases ts) simp_all

lemma split_on_flat: "flat s \<Longrightarrow> split_on (CHR 0x0A) s = [s]"
  by (induction s) simp_all

lemma split_on_append: "flat s \<Longrightarrow> split_on (CHR 0x0A) (s @ CHR 0x0A # t) = s # split_on (CHR 0x0A) t"
  by (induction s) simp_all

lemma split_on_join:
  "ls \<noteq> [] \<Longrightarrow> list_all flat ls \<Longrightarrow> split_on (CHR 0x0A) (join [CHR 0x0A] ls) = ls"
proof (induction ls)
  case (Cons l ls)
  then show ?case by (cases "ls = []") (simp_all add: split_on_flat split_on_append join_Cons)
qed simp

lemma split_on_lines:
  "list_all flat ls \<Longrightarrow> split_on (CHR 0x0A) (join [CHR 0x0A] ls @ [CHR 0x0A]) = (if ls = [] then [[], []] else ls @ [[]])"
proof (induction ls)
  case (Cons l ls)
  then show ?case by (cases "ls = []") (simp_all add: split_on_append [of l "[]"] split_on_append join_Cons)
qed simp

lemma split_on_parts: "p \<in> set (split_on (CHR 0x0A) s) \<Longrightarrow> flat p"
proof (induction s arbitrary: p)
  case (Cons c s)
  have "split_on (CHR 0x0A) s \<noteq> []" by (cases s) (auto split: list.splits)
  then obtain w ws where "split_on (CHR 0x0A) s = w # ws" by (meson neq_Nil_conv)
  with Cons show ?case by (auto split: if_splits)
qed simp

lemma flat_sub: "flat s \<Longrightarrow> set t \<subseteq> set s \<Longrightarrow> flat t"
  by (auto simp: flat_def)

lemma flat_all: "list_all P s \<Longrightarrow> \<not> P (CHR 0x0A) \<Longrightarrow> flat s"
  by (auto simp: flat_def list_all_iff)

lemma flat_digits: "list_all ascii_digit s \<Longrightarrow> flat s"
  by (erule flat_all) (simp add: ascii_digit_def)

lemma dec_nat_flat [simp]: "flat (dec_nat n)"
  by (rule flat_digits) simp

lemma dec_int_flat [simp]: "flat (dec_int i)"
  by (simp add: dec_int_def)

lemma flat_take [simp]: "flat s \<Longrightarrow> flat (take n s)"
  by (erule flat_sub) (rule set_take_subset)

lemma flat_drop [simp]: "flat s \<Longrightarrow> flat (drop n s)"
  by (erule flat_sub) (rule set_drop_subset)

lemma flat_replicate [simp]: "c \<noteq> CHR 0x0A \<Longrightarrow> flat (replicate n c)"
  by (simp add: flat_def)

lemma plain_notation_flat: "flat ds \<Longrightarrow> flat (plain_notation ds e)"
  by (simp add: plain_notation_def Let_def)

lemma number_token_flat [simp]: "flat (number_token x)"
  by (simp add: number_token_def Let_def plain_notation_flat split: prod.split)

lemma pad6_flat [simp]: "flat (pad6 i)"
  by (simp add: pad6_def Let_def)

section \<open>Names\<close>

definition net_name :: "string \<Rightarrow> bool" where
  "net_name s \<longleftrightarrow> s = ''0'' \<or> spice_name s"

lemma name_char_plain: "name_char c \<Longrightarrow> c \<noteq> CHR 0x0A \<and> \<not> py_space c \<and> c \<noteq> CHR ''.''"
  by (auto simp: name_char_def alpha_def py_space_def ord_def)

lemma spice_name_chars: "spice_name s \<Longrightarrow> s \<noteq> [] \<and> list_all name_char s"
  by (cases s) (simp_all add: spice_name_def name_char_def)

lemma net_name_flat: "net_name s \<Longrightarrow> flat s"
  using spice_name_chars [of s] name_char_plain by (auto simp: net_name_def flat_def list_all_iff)

lemma sha256_flat: "sha256_text s \<Longrightarrow> flat s"
  by (rule flat_all [of lower_hex]) (simp_all add: sha256_text_def lower_hex_def)

text \<open>The names of a plan that reach a deck; the schema admits only identifiers and the net \<open>0\<close>.\<close>

definition probe_names :: "probe_doc \<Rightarrow> string list" where
  "probe_names d = (case d of PortCurrent port direction \<Rightarrow> [port] | InternalNode node reference \<Rightarrow> [node] | _ \<Rightarrow> [])"

definition initial_names :: "state_policy \<Rightarrow> string list" where
  "initial_names st = (case st of Fresh initial \<Rightarrow> map (\<lambda>(is_port, name, v). name) initial | Carryover s p \<Rightarrow> [])"

definition context_names :: "plan_context \<Rightarrow> string list" where
  "context_names pc =
     concat (map (\<lambda>su. [su_id su, su_positive su, su_negative su]) (pc_supplies pc))
     @ map st_id (pc_stimuli pc) @ concat (map (\<lambda>pr. probe_names (pr_doc pr)) (pc_probes pc))
     @ map port_name (dut_ports (pc_dut pc)) @ map snd (dut_connections (pc_dut pc))"

definition point_names :: "plan_point \<Rightarrow> string list" where
  "point_names pt = [pt_id pt, analysis_stimulus (pt_analysis pt)] @ initial_names (pt_state pt)"

definition plan_names :: "prepared_plan \<Rightarrow> string list" where
  "plan_names pp =
     context_names (pp_context pp)
     @ concat (map (\<lambda>sg. sg_id sg # concat (map point_names (sg_points sg))) (pp_stages pp))"

section \<open>The sealed device under test\<close>

lemma strip_flat: "flat s \<Longrightarrow> flat (strip s)"
proof (erule flat_sub)
  show "set (strip s) \<subseteq> set s"
    unfolding strip_def strip_by_def by (auto dest!: set_dropWhileD)
qed

lemma words_flat: "w \<in> set (words s) \<Longrightarrow> flat w"
proof (induction s rule: words.induct)
  case (1 s)
  show ?case
  proof (cases "dropWhile py_space s")
    case Nil
    with "1.prems" show ?thesis by (simp add: words.simps [of s])
  next
    case (Cons c cs)
    have "flat (takeWhile (\<lambda>c. \<not> py_space c) (c # cs))"
      by (auto simp: flat_def py_space_def ord_def dest!: set_takeWhileD)
    then show ?thesis using 1 Cons by (auto simp: words.simps [of s])
  qed
qed

lemma rendered_lines:
  assumes "l = dut_line_of top_name ports s" "flat s" "list_all spice_name ports" "spice_name sealed_top"
    and "t \<in> set (rendered sealed_top ports l)"
  shows "flat t \<and> t \<noteq> [] \<and> hd t \<noteq> CHR ''X''"
proof -
  define line tokens where "line = strip s" and "tokens = words line"
  have line: "flat line" using assms(2) by (simp add: line_def strip_flat)
  have tokens: "line \<noteq> [] \<Longrightarrow> tokens \<noteq> [] \<and> hd tokens \<noteq> []" using words_strip_Nil [of line] strip_head [of s]
    by (simp add: line_def tokens_def)
  have words: "list_all flat tokens" using words_flat by (auto simp: tokens_def list_all_iff)
  have names: "list_all flat ports" "flat sealed_top"
    using assms(3,4) net_name_flat by (auto simp: net_name_def list_all_iff)
  show ?thesis
  proof (cases l)
    case (Comment u)
    then have "u = line" "line \<noteq> []" "hd line = CHR ''*''"
      using assms(1) by (auto simp: dut_line_of_def line_def [symmetric] Let_def split: if_split_asm)
    then show ?thesis using line assms(5) Comment by simp
  next
    case (Device ts)
    then have dev: "ts = tokens" "line \<noteq> []" "allowed_device (hd (hd tokens))"
      using assms(1) by (auto simp: dut_line_of_def line_def [symmetric] tokens_def [symmetric] Let_def split: if_split_asm)
    obtain c cs ws where hd_token: "tokens = (c # cs) # ws" using tokens dev(2) by (metis list.collapse)
    have "hd (join '' '' tokens) = c" "join '' '' tokens \<noteq> []" by (cases ws; simp add: hd_token)+
    moreover have "c \<noteq> CHR ''X''" using dev(3) by (auto simp: hd_token allowed_device_def fold_char_def ord_def char_of_def)
    ultimately show ?thesis using assms(5) Device dev(1) flat_join [OF _ words] by simp
  next
    case Subcircuit
    then show ?thesis using assms(5) names flat_join [of "'' ''" "sealed_top # ports"] by simp
  next
    case Ending
    then show ?thesis using assms(5) names by simp
  qed (use assms(5) in simp_all)
qed

lemma closed_dut_rendering: "closed_dut ls \<Longrightarrow> rendering sealed_top ports ls \<noteq> []"
  by (auto simp: closed_dut_def)

lemma dropWhile_newlines:
  assumes "ls \<noteq> []" "\<forall>l \<in> set ls. flat l \<and> l \<noteq> []"
  shows "rev (dropWhile (\<lambda>c. c = CHR 0x0A) (rev (join [CHR 0x0A] ls @ [CHR 0x0A]))) = join [CHR 0x0A] ls"
proof -
  have "join [CHR 0x0A] ls \<noteq> [] \<and> last (join [CHR 0x0A] ls) \<noteq> CHR 0x0A"
    using assms
  proof (induction ls)
    case (Cons l ls)
    show ?case
    proof (cases "ls = []")
      case True
      have "last l \<in> set l" using Cons.prems by simp
      then have "last l \<noteq> CHR 0x0A" using Cons.prems by (auto simp only: flat_def list.set_intros)
      then show ?thesis using True Cons.prems by simp
    next
      case False
      then show ?thesis using Cons by (simp add: join_Cons)
    qed
  qed simp
  then have "dropWhile (\<lambda>c. c = CHR 0x0A) (rev (join [CHR 0x0A] ls)) = rev (join [CHR 0x0A] ls)"
    by (metis dropWhile_eq_self_iff hd_rev)
  then show ?thesis by simp
qed

lemma sealed_lines_exact:
  assumes "seal_structural_dut env raw expected namespace top_name ports = Inr sd"
  shows "sealed_lines sd = rendering (sd_top sd) ports (dut_lines top_name ports raw)"
    and "\<forall>t \<in> set (sealed_lines sd). flat t \<and> t \<noteq> [] \<and> hd t \<noteq> CHR ''X''" and "spice_name (sd_top sd)"
    and "closed_dut (dut_lines top_name ports raw)" and "sd_raw_sha256 sd = sha256 env raw"
proof -
  note sealed = assms [unfolded seal_exact Let_def]
  have ports: "list_all spice_name ports" using sealed by (auto simp: check_ports_def split: if_split_asm)
  define out where "out = rendering (sd_top sd) ports (dut_lines top_name ports raw)"
  show top: "spice_name (sd_top sd)" and closed: "closed_dut (dut_lines top_name ports raw)"
    and "sd_raw_sha256 sd = sha256 env raw" using sealed by simp_all
  have lines: "\<forall>t \<in> set out. flat t \<and> t \<noteq> [] \<and> hd t \<noteq> CHR ''X''"
    using rendered_lines [OF refl split_on_parts ports top] by (auto simp: out_def rendering_def dut_lines_def)
  have "out \<noteq> []" using closed_dut_rendering [OF closed] by (simp add: out_def)
  moreover have "sd_canonical sd = join [CHR 0x0A] out @ [CHR 0x0A]" using sealed by (simp add: out_def)
  ultimately have "sealed_lines sd = out"
    using lines dropWhile_newlines [of out] split_on_join [of out] by (simp add: sealed_lines_def list_all_iff)
  then show "sealed_lines sd = rendering (sd_top sd) ports (dut_lines top_name ports raw)"
    and "\<forall>t \<in> set (sealed_lines sd). flat t \<and> t \<noteq> [] \<and> hd t \<noteq> CHR ''X''" using lines by (simp_all add: out_def)
qed

end
