(* ===== verification/DeckCards.thy ===== *)
theory DeckCards
  imports DeckText
begin

text \<open>
  The lines of a deck, part by part: every part is free of line ends and starts with the mark of its
  kind, so that only the line of the device under test instantiates a subcircuit.
\<close>

section \<open>Cards\<close>

definition starts :: "string \<Rightarrow> string \<Rightarrow> bool" where
  "starts m l \<longleftrightarrow> take (length m) l = m"

lemma starts_append [simp]: "starts m (m @ s)"
  by (simp add: starts_def)

definition card_marks :: "string list" where
  "card_marks = [''V_SUPPLY_'', ''V_STIM_'', ''V_PROBE_PORT_'', ''.TEMP '', ''.IC '', ''.SAVE '', ''.DC '', ''.TRAN '']"

definition deck_card :: "sealed_dut \<Rightarrow> string \<Rightarrow> bool" where
  "deck_card sd l \<longleftrightarrow>
     l \<in> set (sealed_lines sd) \<or> l = [] \<or> starts ''* '' l \<or> starts ''X_OPENADA_DUT '' l
     \<or> list_ex (\<lambda>m. starts m l) card_marks \<or> l = ''.OP'' \<or> l = ''.END''"

definition instance_line :: "string \<Rightarrow> bool" where
  "instance_line l \<longleftrightarrow> (case l of [] \<Rightarrow> False | c # cs \<Rightarrow> c = CHR ''X'')"

text \<open>A line of a marked kind.\<close>

definition marked :: "string \<Rightarrow> bool" where
  "marked l \<longleftrightarrow> flat l \<and> list_ex (\<lambda>m. starts m l) card_marks"

lemma marked_card: "marked l \<Longrightarrow> deck_card sd l \<and> flat l \<and> \<not> instance_line l"
  by (cases l) (auto simp: marked_def deck_card_def card_marks_def starts_def instance_line_def)

lemma markedI: "m \<in> set card_marks \<Longrightarrow> flat (m @ s) \<Longrightarrow> marked (m @ s)"
  unfolding marked_def list_ex_iff by (blast intro: starts_append)

section \<open>Names of the plan\<close>

definition clean_context :: "plan_context \<Rightarrow> bool" where
  "clean_context pc \<longleftrightarrow> list_all net_name (context_names pc)"

lemma clean_names:
  assumes "clean_context pc"
  shows "su \<in> set (pc_supplies pc) \<Longrightarrow> flat (su_id su) \<and> flat (su_positive su) \<and> flat (su_negative su)"
    and "st \<in> set (pc_stimuli pc) \<Longrightarrow> flat (st_id st)"
    and "pr \<in> set (pc_probes pc) \<Longrightarrow> list_all flat (probe_names (pr_doc pr))"
    and "port \<in> set (dut_ports (pc_dut pc)) \<Longrightarrow> flat (port_name port)"
    and "connection (pc_dut pc) p = Inr net \<Longrightarrow> flat net"
proof -
  have name: "flat s" if "s \<in> set (context_names pc)" for s
    using assms that by (intro net_name_flat) (simp add: clean_context_def list_all_iff)
  show "su \<in> set (pc_supplies pc) \<Longrightarrow> flat (su_id su) \<and> flat (su_positive su) \<and> flat (su_negative su)"
    by (intro conjI; rule name; force simp: context_names_def)
  show "st \<in> set (pc_stimuli pc) \<Longrightarrow> flat (st_id st)"
    by (rule name) (force simp: context_names_def)
  show "pr \<in> set (pc_probes pc) \<Longrightarrow> list_all flat (probe_names (pr_doc pr))"
    unfolding list_all_iff by (intro ballI name) (force simp: context_names_def)
  show "port \<in> set (dut_ports (pc_dut pc)) \<Longrightarrow> flat (port_name port)"
    by (rule name) (force simp: context_names_def)
  show "flat net" if "connection (pc_dut pc) p = Inr net"
  proof -
    have "(p, net) \<in> set (dut_connections (pc_dut pc))"
      using that by (auto simp: connection_def split: option.splits dest: lookup_last_mem)
    then have "net \<in> set (context_names pc)" by (force simp: context_names_def)
    then show ?thesis by (rule name)
  qed
qed

section \<open>Sources\<close>

lemma pulse_line_marked:
  assumes "pulse_line (pc_dut pc) levels negative p timing (m @ ident) port polarity d = Inr l"
    and "clean_context pc" "flat negative" "list_all flat timing" "flat (m @ ident)" "m \<in> set card_marks"
  shows "marked l"
proof -
  obtain i u target where target: "connection (pc_dut pc) port = Inr target"
    and l: "l = join '' '' [m @ ident, target, negative, ''PULSE('' @ join '' ''
       ([number_token i, number_token u, number_token d] @ timing) @ '')'']"
    using assms(1) by (auto simp: pulse_line_def)
  have "flat (join '' '' ([number_token i, number_token u, number_token d] @ timing))"
    using assms(4) by (intro flat_join) simp_all
  then have "flat l" using assms(3,5) clean_names(5) [OF assms(2) target] by (simp add: l)
  then show ?thesis using markedI [OF assms(6), of "ident @ drop (length (m @ ident)) l"] by (simp add: l)
qed

lemma pulse_timing_flat: "pulse_timing p = Inr ts \<Longrightarrow> list_all flat ts"
  by (auto simp: pulse_timing_def time_token_def)

lemma serialize_stimulus_marked:
  assumes ser: "serialize_stimulus pp levels inputs dc st = Inr ls" and clean: "clean_context (pp_context pp)"
    and st: "st \<in> set (pc_stimuli (pp_context pp))" and l: "l \<in> set ls"
  shows "marked l"
proof -
  have ident: "flat (st_id st)" using clean_names(2) [OF clean st] .
  obtain s su where s: "stimulus_supply (st_doc st) = Some s"
    and su: "lookup_last (map (\<lambda>su. (su_id su, su)) (pc_supplies (pp_context pp))) s = Some su"
    using ser by (auto simp: serialize_stimulus_def Let_def split: option.splits)
  have "su \<in> set (pc_supplies (pp_context pp))" using lookup_last_mem [OF su] by auto
  then have negative: "flat (su_negative su)" using clean_names(1) [OF clean] by simp
  have base: "flat (''V_STIM_'' @ st_id st @ suffix)" if "flat suffix" for suffix using ident that by simp
  have mark: "''V_STIM_'' \<in> set card_marks" by (simp add: card_marks_def)
  note pulse = pulse_line_marked [OF _ clean negative _ _ mark]
  show ?thesis
  proof (cases "st_doc st")
    case (DcState s' target state level)
    then obtain x net where net: "connection (pc_dut (pp_context pp)) target = Inr net"
      and ls: "ls = [join '' '' [''V_STIM_'' @ st_id st, net, su_negative su, ''DC'', number_token x]]"
      using ser s su by (auto simp: serialize_stimulus_def Let_def)
    then have line: "l = ''V_STIM_'' @ st_id st @ '' '' @ net @ '' '' @ su_negative su @ '' DC '' @ number_token x"
      using l by simp
    show ?thesis unfolding line using ident negative clean_names(5) [OF clean net] by (intro markedI mark) simp
  next
    case (PulseTrain s' target polarity p)
    then obtain delay timing where "pulse_timing p = Inr timing"
      and "pulse_line (pc_dut (pp_context pp)) levels (su_negative su) p timing (''V_STIM_'' @ st_id st) target
         polarity delay = Inr l"
      using ser s su l by (auto simp: serialize_stimulus_def Let_def)
    then show ?thesis using pulse pulse_timing_flat ident by fastforce
  next
    case (PhasePair s' reference offset rp oq p v)
    then obtain delay timing od l1 l2 where timing: "pulse_timing p = Inr timing"
      and l1: "pulse_line (pc_dut (pp_context pp)) levels (su_negative su) p timing (''V_STIM_'' @ st_id st @ ''_REF'')
         reference rp delay = Inr l1"
      and l2: "pulse_line (pc_dut (pp_context pp)) levels (su_negative su) p timing (''V_STIM_'' @ st_id st @ ''_OFFSET'')
         offset oq od = Inr l2" and ls: "ls = [l1, l2]"
      using ser s su by (auto simp: serialize_stimulus_def Let_def)
    have "marked l1" "marked l2"
      using pulse [OF l1] pulse [OF l2] pulse_timing_flat [OF timing] ident by simp_all
    then show ?thesis using l ls by auto
  next
    case (SmallSignal t r)
    then show ?thesis using ser s su by (simp add: serialize_stimulus_def Let_def)
  qed
qed

lemma supply_line_marked:
  assumes "supply_line levels su = Inr l" "clean_context pc" "su \<in> set (pc_supplies pc)"
  shows "marked l"
proof -
  obtain x where l: "l = ''V_SUPPLY_'' @ su_id su @ '' '' @ su_positive su @ '' '' @ su_negative su @ '' DC '' @ number_token x"
    using assms(1) by (auto simp: supply_line_def split: option.splits)
  show ?thesis unfolding l using clean_names(1) [OF assms(2,3)] by (intro markedI) (simp_all add: card_marks_def)
qed

section \<open>Terminals and probes\<close>

lemma terminals_flat:
  assumes "dut_terminals pp = Inr terminals" "clean_context (pp_context pp)"
  shows "list_all (\<lambda>t. flat (snd t)) terminals" and "terminal terminals p = Inr net \<Longrightarrow> flat net"
proof -
  show all: "list_all (\<lambda>t. flat (snd t)) terminals"
    unfolding list_all_iff
  proof
    fix t assume t: "t \<in> set terminals"
    from map_res_mem [OF assms(1) [unfolded dut_terminals_def Let_def] t] obtain port where
      port: "port \<in> set (dut_ports (pc_dut (pp_context pp)))"
      "(if port_name port \<in> set (current_ports pp) then Inr (port_name port, ''N_OPENADA_DUT_'' @ port_name port)
        else pbind (connection (pc_dut (pp_context pp)) (port_name port)) (\<lambda>net. Inr (port_name port, net))) = Inr t" by blast
    then show "flat (snd t)"
      using clean_names(4) [OF assms(2)] clean_names(5) [OF assms(2)] by (auto split: if_split_asm)
  qed
  show "terminal terminals p = Inr net \<Longrightarrow> flat net"
    using all by (auto simp: terminal_def list_all_iff split: option.splits dest!: lookup_last_mem)
qed

lemma current_ports_flat: "clean_context (pp_context pp) \<Longrightarrow> p \<in> set (sorted_ports pp) \<Longrightarrow> flat p"
proof -
  assume clean: "clean_context (pp_context pp)" and p: "p \<in> set (sorted_ports pp)"
  then obtain pr where pr: "pr \<in> set (pc_probes (pp_context pp))" "p \<in> set (probe_names (pr_doc pr))"
    by (auto simp: sorted_ports_def current_ports_def List.map_filter_def probe_names_def split: probe_doc.splits)
  then show "flat p" using clean_names(3) [OF clean pr(1)] by (simp add: list_all_iff)
qed

lemma probe_line_marked:
  assumes "probe_line (pc_dut (pp_context pp)) terminals p = Inr l" "dut_terminals pp = Inr terminals"
    and "clean_context (pp_context pp)" "p \<in> set (sorted_ports pp)"
  shows "marked l"
proof -
  obtain a b where "connection (pc_dut (pp_context pp)) p = Inr a" "terminal terminals p = Inr b"
    and l: "l = ''V_PROBE_PORT_'' @ p @ '' '' @ a @ '' '' @ b @ '' DC 0''"
    using assms(1) by (auto simp: probe_line_def)
  then show ?thesis
    unfolding l using clean_names(5) [OF assms(3)] terminals_flat(2) [OF assms(2,3)] current_ports_flat [OF assms(3,4)]
    by (intro markedI) (simp_all add: card_marks_def)
qed

lemma deck_probe_vectors_flat:
  assumes "deck_probe_of terminals emitted pr = Inr dp" "pr \<in> set (pc_probes (pp_context pp))"
    and "clean_context (pp_context pp)" "dut_terminals pp = Inr terminals"
    and "\<forall>(k, ns) \<in> set emitted. list_all flat ns"
  shows "list_all flat (dp_vectors dp)"
proof -
  note names = clean_names(3) [OF assms(3,2)]
  note net = terminals_flat(2) [OF assms(4,3)]
  show ?thesis
  proof (cases "pr_doc pr")
    case (BranchCurrent sid branch direction)
    have "list_all flat (case lookup_last emitted sid of Some ns \<Rightarrow> ns | None \<Rightarrow> [])"
      using assms(5) by (auto split: option.splits dest!: lookup_last_mem)
    then have "list_all flat (selected_branch branch (case lookup_last emitted sid of Some ns \<Rightarrow> ns | None \<Rightarrow> []))"
      by (auto simp: selected_branch_def list_all_iff dest!: in_set_takeD in_set_dropD)
    then show ?thesis using assms(1) BranchCurrent by (auto simp: deck_probe_of_def Let_def list_all_iff)
  qed (use assms(1) names net in \<open>auto simp: deck_probe_of_def probe_names_def instance_name_def Let_def\<close>)
qed

end
