(* ===== verification/DeckEmit.thy ===== *)
theory DeckEmit
  imports DeckCards
begin

text \<open>
  Whole decks: the deck of a condition is exactly its lines, they are cards of the closed set, and one
  of them, with one terminal per port, instantiates the sealed device under test.
\<close>

section \<open>One deck\<close>

definition title_line :: string where "title_line = ''OpenADA closed testbench-plan condition''"

definition dut_instance :: "(string \<times> string) list \<Rightarrow> sealed_dut \<Rightarrow> string" where
  "dut_instance terminals sd = join '' '' ([instance_name] @ map snd terminals @ [sd_top sd])"

text \<open>What the theorem on decks says of the lines of a deck.\<close>

definition closed_deck :: "sealed_dut \<Rightarrow> string \<Rightarrow> string list \<Rightarrow> bool" where
  "closed_deck sd inst ls \<longleftrightarrow>
     list_all flat ls \<and> ls \<noteq> [] \<and> hd ls = title_line \<and> list_all (deck_card sd) (tl ls)
     \<and> last ls = ''.END'' \<and> filter instance_line ls = [inst]"

lemma active_known:
  "active_stimuli pp pt = Inr active \<Longrightarrow> st \<in> set active \<Longrightarrow> st \<in> set (pc_stimuli (pp_context pp))"
  by (auto simp: active_stimuli_def split: option.splits dest!: map_res_mem lookup_last_mem)

lemma initial_values_flat:
  assumes "initial_values terminals pt = Inr vs" "dut_terminals pp = Inr terminals" "clean_context (pp_context pp)"
    and "list_all net_name (point_names pt)"
  shows "list_all flat vs"
proof (cases "pt_state pt")
  case (Fresh initial)
  have "flat v" if v: "v \<in> set vs" for v
  proof -
    from assms(1) Fresh have "map_res (initial_value terminals) initial = Inr vs" by (simp add: initial_values_def)
    from map_res_mem [OF this v] obtain e where e: "e \<in> set initial" "initial_value terminals e = Inr v" by blast
    obtain is_port name q where eq: "e = (is_port, name, q)" by (cases e)
    have "name \<in> set (point_names pt)" using e(1) by (force simp: point_names_def initial_names_def Fresh eq)
    then have "flat name" using assms(4) by (simp add: list_all_iff net_name_flat)
    then show ?thesis using e(2) terminals_flat(2) [OF assms(2,3)]
      by (auto simp: initial_value_def eq instance_name_def split: if_split_asm)
  qed
  then show ?thesis by (simp add: list_all_iff)
qed (use assms(1) in \<open>simp add: initial_values_def\<close>)

lemma analysis_line_card:
  assumes "analysis_line inputs initialised sampled a = Inr l" "flat (analysis_stimulus a)"
  shows "deck_card sd l \<and> flat l \<and> \<not> instance_line l"
proof (cases "l = ''.OP''")
  case True
  then show ?thesis by (simp add: deck_card_def instance_line_def)
next
  case False
  have "marked l"
  proof (cases a)
    case (DcSweep sid x y z)
    then obtain t u v where l: "l = ''.DC '' @ ''V_STIM_'' @ sid @ '' '' @ number_token t @ '' '' @ number_token u @ '' '' @ number_token v"
      using assms(1) False by (auto simp: analysis_line_def Let_def split: if_split_asm)
    show ?thesis unfolding l using assms(2) DcSweep by (intro markedI) (simp_all add: card_marks_def)
  next
    case (PulseTransient sid x y)
    then obtain t u where l: "l = ''.TRAN '' @ number_token t @ '' '' @ number_token u @ (if initialised then '' UIC'' else [])"
      using assms(1) by (auto simp: analysis_line_def Let_def split: if_split_asm)
    show ?thesis unfolding l by (intro markedI) (simp_all add: card_marks_def)
  next
    case (PhaseTransient sid x y)
    then obtain t u where l: "l = ''.TRAN '' @ number_token t @ '' '' @ number_token u @ (if initialised then '' UIC'' else [])"
      using assms(1) by (auto simp: analysis_line_def Let_def split: if_split_asm)
    show ?thesis unfolding l by (intro markedI) (simp_all add: card_marks_def)
  qed (use assms(1) in \<open>simp add: analysis_line_def Let_def\<close>)
  then show ?thesis by (rule marked_card)
qed

text \<open>A block of lines that instantiates nothing.\<close>

definition plain_block :: "sealed_dut \<Rightarrow> string list \<Rightarrow> bool" where
  "plain_block sd ls \<longleftrightarrow> list_all (\<lambda>l. deck_card sd l \<and> flat l \<and> \<not> instance_line l) ls"

lemma plain_block_simps [simp]:
  "plain_block sd []"
  "plain_block sd (l # ls) \<longleftrightarrow> (deck_card sd l \<and> flat l \<and> \<not> instance_line l) \<and> plain_block sd ls"
  "plain_block sd (xs @ ys) \<longleftrightarrow> plain_block sd xs \<and> plain_block sd ys"
  by (simp_all add: plain_block_def)

lemma plain_block_marked: "(\<And>l. l \<in> set ls \<Longrightarrow> marked l) \<Longrightarrow> plain_block sd ls"
  by (auto simp: plain_block_def list_all_iff dest: marked_card)

lemma plain_block_facts:
  assumes "plain_block sd ls"
  shows "list_all flat ls" "list_all (deck_card sd) ls" "filter instance_line ls = []"
  using assms by (auto simp: plain_block_def list_all_iff filter_empty_conv)

lemma closed_deckI:
  assumes "plain_block sd front" "plain_block sd rear" "flat inst" "starts ''X_OPENADA_DUT '' inst"
  shows "closed_deck sd inst (title_line # front @ [inst] @ rear @ [''.END''])"
proof -
  have inst: "instance_line inst" using assms(4) by (cases inst) (simp_all add: starts_def instance_line_def)
  show ?thesis
    using assms inst plain_block_facts [OF assms(1)] plain_block_facts [OF assms(2)]
    by (auto simp: closed_deck_def title_line_def deck_card_def instance_line_def)
qed

lemma serialize_deck_closed:
  assumes ser: "serialize_deck dk pp sd corner pt inputs ident csha sample = Inr d"
    and clean: "clean_context (pp_context pp)" and point: "list_all net_name (point_names pt)"
    and sealed: "\<forall>t \<in> set (sealed_lines sd). flat t \<and> t \<noteq> [] \<and> hd t \<noteq> CHR ''X''" "spice_name (sd_top sd)"
    and flat: "flat ident" "flat csha" "flat (dk_plan_sha256 dk)" "flat (sd_raw_sha256 sd)"
  shows "\<exists>terminals. dut_terminals pp = Inr terminals \<and> closed_deck sd (dut_instance terminals sd) (dd_lines d)"
proof -
  obtain levels active terminals temperature supplies sources branches initial probes analysis where
    active: "active_stimuli pp pt = Inr active" and terminals: "dut_terminals pp = Inr terminals"
    and supplies: "map_res (supply_line levels) (pc_supplies (pp_context pp)) = Inr supplies"
    and sources: "map_res (\<lambda>st. serialize_stimulus pp levels inputs (sample_of pt sample st) st) active = Inr sources"
    and branches: "map_res (probe_line (pc_dut (pp_context pp)) terminals) (sorted_ports pp) = Inr branches"
    and initial: "initial_values terminals pt = Inr initial"
    and probes: "map_res (deck_probe_of terminals (map (\<lambda>st. (st_id st, source_names st)) active))
        (pc_probes (pp_context pp)) = Inr probes"
    and analysis: "analysis_line inputs (initial \<noteq> []) (sample \<noteq> None) (pt_analysis pt) = Inr analysis"
    and lines: "dd_lines d = header_lines dk sd ident csha (number_token temperature) @ sealed_lines sd @ [[]] @ supplies
        @ concat sources @ branches @ [dut_instance terminals sd]
        @ (if initial = [] then [] else [''.IC '' @ join '' '' initial])
        @ (let vectors = rev (remdups (rev (concat (map dp_vectors probes))))
           in if vectors = [] then [] else [''.SAVE '' @ join '' '' vectors])
        @ [analysis, ''.END'']"
    using ser unfolding serialize_deck_def Let_def dut_instance_def by auto
  have known: "st \<in> set (pc_stimuli (pp_context pp))" if "st \<in> set active" for st using active_known [OF active that] .
  have b1: "plain_block sd (tl (header_lines dk sd ident csha (number_token temperature)))"
  proof -
    have star: "deck_card sd l \<and> \<not> instance_line l" if "starts ''* '' l" for l
      using that by (cases l) (auto simp: deck_card_def instance_line_def starts_def)
    show ?thesis
      using flat by (simp add: header_lines_def star starts_def) (simp add: deck_card_def card_marks_def starts_def instance_line_def)
  qed
  have b2: "plain_block sd (sealed_lines sd @ [[]])"
    using sealed(1) by (auto simp: plain_block_def list_all_iff deck_card_def instance_line_def split: list.splits)
  have b3: "plain_block sd supplies"
    using supply_line_marked [OF _ clean] by (auto intro!: plain_block_marked dest!: map_res_mem [OF supplies])
  have b4: "plain_block sd (concat sources)"
    using serialize_stimulus_marked [OF _ clean known] by (auto intro!: plain_block_marked dest!: map_res_mem [OF sources])
  have b5: "plain_block sd branches"
    using probe_line_marked [OF _ terminals clean] by (auto intro!: plain_block_marked dest!: map_res_mem [OF branches])
  have b6: "plain_block sd (if initial = [] then [] else [''.IC '' @ join '' '' initial])"
  proof (rule plain_block_marked)
    have "flat (join '' '' initial)"
      using initial_values_flat [OF initial terminals clean point] by (simp add: flat_join)
    then show "marked l" if "l \<in> set (if initial = [] then [] else [''.IC '' @ join '' '' initial])" for l
      using that markedI [of "''.IC ''" "join '' '' initial"] by (simp add: card_marks_def split: if_split_asm)
  qed
  define vectors where "vectors = rev (remdups (rev (concat (map dp_vectors probes))))"
  have emitted: "\<forall>(k, ns) \<in> set (map (\<lambda>st. (st_id st, source_names st)) active). list_all flat ns"
    using clean_names(2) [OF clean known] by (auto simp: source_names_def Let_def split: stimulus_doc.splits)
  have "list_all flat (dp_vectors dp)" if "dp \<in> set probes" for dp
    using map_res_mem [OF probes that] deck_probe_vectors_flat [OF _ _ clean terminals emitted] by blast
  then have "flat (join '' '' vectors)" by (intro flat_join) (auto simp: vectors_def list_all_iff)
  then have b7: "plain_block sd (if vectors = [] then [] else [''.SAVE '' @ join '' '' vectors])"
    using marked_card [OF markedI [of "''.SAVE ''" "join '' '' vectors"]] by (simp add: card_marks_def)
  have b8: "plain_block sd [analysis]"
    using analysis_line_card [OF analysis] point by (simp add: point_names_def net_name_flat)
  have inst: "flat (dut_instance terminals sd)" "starts ''X_OPENADA_DUT '' (dut_instance terminals sd)"
  proof -
    have "list_all flat ([instance_name] @ map snd terminals @ [sd_top sd])"
      using terminals_flat(1) [OF terminals clean] sealed(2) net_name_flat
      by (auto simp: list_all_iff instance_name_def net_name_def)
    then show "flat (dut_instance terminals sd)" by (simp add: dut_instance_def flat_join)
    show "starts ''X_OPENADA_DUT '' (dut_instance terminals sd)"
      by (cases terminals) (simp_all add: dut_instance_def instance_name_def starts_def join_Cons)
  qed
  have "header_lines dk sd ident csha (number_token temperature) =
      title_line # tl (header_lines dk sd ident csha (number_token temperature))"
    by (simp add: header_lines_def title_line_def)
  then have shape: "dd_lines d = title_line # (tl (header_lines dk sd ident csha (number_token temperature))
        @ (sealed_lines sd @ [[]]) @ supplies @ concat sources @ branches) @ [dut_instance terminals sd]
        @ ((if initial = [] then [] else [''.IC '' @ join '' '' initial])
        @ (if vectors = [] then [] else [''.SAVE '' @ join '' '' vectors]) @ [analysis]) @ [''.END'']"
    unfolding lines vectors_def [symmetric] Let_def by (metis append_Cons append_assoc append_Nil)
  show ?thesis
    unfolding shape using b1 b2 b3 b4 b5 b6 b7 b8 inst
    by (intro exI [of _ terminals] conjI terminals closed_deckI) simp_all
qed

end
