(* ===== verification/DeckInventory.thy ===== *)
theory DeckInventory
  imports DeckEmit RunInventory
begin

text \<open>
  What a successful compilation contains: for every point of the corner its conditions, with distinct
  identifiers, decks of the stated digests and the semantics their digests name.
\<close>

section \<open>One condition\<close>

lemma compile_one_parts:
  assumes "compile_one_condition dk pp sd corner stage pt inputs parameters sample = Inr dc"
  obtains d analysis where
    "serialize_deck dk pp sd corner pt inputs (cc_id (dc_compiled dc)) (cc_sha256 (dc_compiled dc))
       (map_option snd sample) = Inr d"
    and "cc_stage (dc_compiled dc) = stage" "cc_point (dc_compiled dc) = pt_id pt"
    and "cc_id (dc_compiled dc) = condition_name (dk_env dk) stage (pt_id pt) sample"
    and "cc_deck (dc_compiled dc) = join [CHR 0x0A] (dc_lines dc) @ [CHR 0x0A]" "dc_lines dc = dd_lines d"
    and "cc_deck_sha256 (dc_compiled dc) = sha256 (dk_env dk) (cc_deck (dc_compiled dc))"
    and "canonical_sha256 (dk_env dk) (cc_condition (dc_compiled dc)) = Inr (cc_sha256 (dc_compiled dc))"
proof -
  obtain analysis semantics csha d where
    c: "canonical_sha256 (dk_env dk) semantics = Inr csha"
    and d: "serialize_deck dk pp sd corner pt inputs (condition_name (dk_env dk) stage (pt_id pt) sample) csha
       (map_option snd sample) = Inr d"
    and dc: "dc_lines dc = dd_lines d" "cc_stage (dc_compiled dc) = stage" "cc_point (dc_compiled dc) = pt_id pt"
      "cc_id (dc_compiled dc) = condition_name (dk_env dk) stage (pt_id pt) sample"
      "cc_sha256 (dc_compiled dc) = csha" "cc_deck (dc_compiled dc) = deck_text d"
      "cc_deck_sha256 (dc_compiled dc) = sha256 (dk_env dk) (deck_text d)" "cc_condition (dc_compiled dc) = semantics"
    using assms unfolding compile_one_condition_def Let_def by auto
  show ?thesis by (rule that [of d]) (use c d dc in \<open>simp_all add: deck_text_def\<close>)
qed

section \<open>One point\<close>

definition point_samples :: "plan_point \<Rightarrow> (nat \<times> rat) option list \<Rightarrow> bool" where
  "point_samples pt samples \<longleftrightarrow>
     samples = [None] \<or> (\<exists>grid. samples = map Some (enumerate 0 grid) \<and> grid \<noteq> [] \<and> length grid \<le> 1000000)"

lemma dc_grid_bounds: "dc_grid a b c = Inr grid \<Longrightarrow> grid \<noteq> [] \<and> length grid \<le> 1000000"
proof -
  assume ok: "dc_grid a b c = Inr grid"
  define count where "count = \<lfloor>dec_div (dec_sub b a) c\<rfloor> + 1"
  have "1 \<le> count \<and> count \<le> MAX_DC_SAMPLES \<and> grid = map (\<lambda>i. dec_add a (dec_mul c (of_nat i))) [0..<nat count]"
    using ok unfolding dc_grid_def Let_def count_def [symmetric] by (simp split: if_split_asm)
  then have "length grid = nat count" "1 \<le> count" "count \<le> MAX_DC_SAMPLES" by simp_all
  then show ?thesis by (auto simp: MAX_DC_SAMPLES_def)
qed

lemma compile_point_parts:
  assumes "compile_point dk pp sd corner stage inputs pt = Inr dcs"
  obtains samples parameters where "point_samples pt samples"
    and "list_all2 (\<lambda>s dc. compile_one_condition dk pp sd corner stage pt inputs parameters s = Inr dc) samples dcs"
proof -
  obtain initial where fresh: "pt_state pt = Fresh initial"
    using assms by (cases "pt_state pt") (auto simp: compile_point_def Let_def)
  note result = that
  have single: thesis
    if one: "compile_one_condition dk pp sd corner stage pt inputs parameters None = Inr dc" "dcs = [dc]" for parameters dc
    by (rule result [of "[None]" parameters]) (use one in \<open>auto simp: point_samples_def\<close>)
  show ?thesis
  proof (cases "pt_analysis pt")
    case (DcSweep sid x y z)
    then obtain parameters a b c grid where grid: "dc_grid a b c = Inr grid"
      and all: "map_res (\<lambda>s. compile_one_condition dk pp sd corner stage pt inputs parameters (Some s))
         (enumerate 0 grid) = Inr dcs"
      using assms fresh by (auto simp: compile_point_def Let_def)
    show ?thesis
    proof (rule result)
      show "point_samples pt (map Some (enumerate 0 grid))"
        using dc_grid_bounds [OF grid] by (auto simp: point_samples_def)
      show "list_all2 (\<lambda>s dc. compile_one_condition dk pp sd corner stage pt inputs parameters s = Inr dc)
          (map Some (enumerate 0 grid)) dcs"
        using all by (simp add: map_res_eq_Inr list_all2_map1)
    qed
  qed (use assms fresh single in \<open>auto simp: compile_point_def Let_def\<close>)
qed

lemma compile_point_points:
  assumes "compile_point dk pp sd corner stage inputs pt = Inr dcs"
  shows "dcs \<noteq> []" and "dc \<in> set dcs \<Longrightarrow> \<exists>parameters s. compile_one_condition dk pp sd corner stage pt inputs parameters s = Inr dc"
    and "map (cc_point \<circ> dc_compiled) dcs = replicate (length dcs) (pt_id pt)"
proof -
  obtain samples parameters where s: "point_samples pt samples"
    and all: "list_all2 (\<lambda>s dc. compile_one_condition dk pp sd corner stage pt inputs parameters s = Inr dc) samples dcs"
    by (rule compile_point_parts [OF assms])
  have "samples \<noteq> []" using s by (auto simp: point_samples_def enumerate_eq_zip)
  then show "dcs \<noteq> []" using list_all2_lengthD [OF all] by auto
  show one: "\<exists>parameters s. compile_one_condition dk pp sd corner stage pt inputs parameters s = Inr dc" if "dc \<in> set dcs" for dc
    using list_all2_mem_right [OF all that] by blast
  have "cc_point (dc_compiled dc) = pt_id pt" if "dc \<in> set dcs" for dc
    using one [OF that] by (auto elim: compile_one_parts)
  then show "map (cc_point \<circ> dc_compiled) dcs = replicate (length dcs) (pt_id pt)"
    by (intro nth_equalityI) simp_all
qed

section \<open>Distinct identifiers\<close>

lemma dec_nat_inj: "dec_nat m = dec_nat n \<Longrightarrow> m = n"
  by (metis digits_value_dec_nat)

lemma pad6_length: "n < 1000000 \<Longrightarrow> length (pad6 n) = 6"
  using dec_nat_length [of n 5] by (simp add: pad6_def Let_def)

lemma pad6_inj: "m < 1000000 \<Longrightarrow> n < 1000000 \<Longrightarrow> pad6 m = pad6 n \<Longrightarrow> m = n"
proof -
  have "digits_value (pad6 k) = k" for k by (simp add: pad6_def Let_def digits_value_append)
  then show "pad6 m = pad6 n \<Longrightarrow> m = n" by metis
qed

lemma suffix_inj:
  assumes "i < 1000000" "j < 1000000"
    and "condition_suffix env (Some (i, x)) = condition_suffix env (Some (j, y))"
  shows "i = j"
proof -
  have "pad6 i @ ''_'' @ take 8 (sha256 env (number_token x)) = pad6 j @ ''_'' @ take 8 (sha256 env (number_token y))"
    using assms(3) by (simp add: condition_suffix_def)
  then have "pad6 i = pad6 j" using pad6_length [OF assms(1)] pad6_length [OF assms(2)] by simp
  then show ?thesis by (rule pad6_inj [OF assms(1,2)])
qed

text \<open>No dot occurs in an identifier, so the parts of a condition name can be read back.\<close>

definition nodot :: "string \<Rightarrow> bool" where
  "nodot s \<longleftrightarrow> CHR ''.'' \<notin> set s"

lemma net_name_nodot: "net_name s \<Longrightarrow> nodot s"
  using spice_name_chars [of s] name_char_plain by (auto simp: net_name_def nodot_def list_all_iff)

lemma nodot_split:
  "nodot a \<Longrightarrow> nodot b \<Longrightarrow> u = [] \<or> hd u = CHR ''.'' \<Longrightarrow> v = [] \<or> hd v = CHR ''.'' \<Longrightarrow>
     a @ u = b @ v \<Longrightarrow> a = b \<and> u = v"
proof (induction a arbitrary: b)
  case Nil
  then show ?case by (cases b) (auto simp: nodot_def)
next
  case (Cons c a)
  show ?case
  proof (cases b)
    case Nil
    then show ?thesis using Cons.prems by (auto simp: nodot_def)
  next
    case (Cons d b')
    then show ?thesis using Cons.IH [of b'] Cons.prems by (auto simp: nodot_def)
  qed
qed

definition sample_text :: "py_env \<Rightarrow> (nat \<times> rat) option \<Rightarrow> string" where
  "sample_text env s = (if s = None then [] else ''.'' @ condition_suffix env s)"

lemma condition_name_inj:
  assumes "nodot p" "nodot q" "condition_name env stage p s = condition_name env stage q t"
  shows "p = q \<and> sample_text env s = sample_text env t"
proof -
  have "p @ sample_text env s = q @ sample_text env t"
    using assms(3) by (simp add: condition_name_def sample_text_def)
  moreover have "sample_text env r = [] \<or> hd (sample_text env r) = CHR ''.''" for r by (simp add: sample_text_def)
  ultimately show ?thesis using nodot_split [OF assms(1,2)] by blast
qed

lemma compile_point_ids:
  assumes "compile_point dk pp sd corner stage inputs pt = Inr dcs" "nodot (pt_id pt)"
  shows "distinct (map (cc_id \<circ> dc_compiled) dcs)"
proof -
  obtain samples parameters where s: "point_samples pt samples"
    and all: "list_all2 (\<lambda>s dc. compile_one_condition dk pp sd corner stage pt inputs parameters s = Inr dc) samples dcs"
    by (rule compile_point_parts [OF assms(1)])
  have "list_all2 (\<lambda>s dc. cc_id (dc_compiled dc) = condition_name (dk_env dk) stage (pt_id pt) s) samples dcs"
    by (rule list_all2_mono [OF all]) (erule compile_one_parts)
  then have ids: "map (cc_id \<circ> dc_compiled) dcs = map (condition_name (dk_env dk) stage (pt_id pt)) samples"
    by (auto simp: list_all2_conv_all_nth intro: nth_equalityI)
  have "inj_on (condition_name (dk_env dk) stage (pt_id pt)) (set samples)" "distinct samples"
  proof -
    have "distinct (map fst (enumerate 0 grid))" for grid :: "rat list" by simp
    then have "distinct (enumerate 0 grid)" for grid :: "rat list" unfolding distinct_map by blast
    then show "distinct samples" using s by (auto simp: point_samples_def distinct_map)
    show "inj_on (condition_name (dk_env dk) stage (pt_id pt)) (set samples)"
    proof (rule inj_onI)
      fix a b assume ab: "a \<in> set samples" "b \<in> set samples"
        and eq: "condition_name (dk_env dk) stage (pt_id pt) a = condition_name (dk_env dk) stage (pt_id pt) b"
      have same: "sample_text (dk_env dk) a = sample_text (dk_env dk) b"
        using condition_name_inj [OF assms(2,2) eq] by simp
      from s consider "samples = [None]"
        | grid where "samples = map Some (enumerate 0 grid)" "length grid \<le> 1000000" by (auto simp: point_samples_def)
      then show "a = b"
      proof cases
        case 1
        then show ?thesis using ab by simp
      next
        case 2
        then obtain i j where ij: "i < length grid" "j < length grid" "a = Some (i, grid ! i)" "b = Some (j, grid ! j)"
          using ab by (auto simp: in_set_enumerate_eq)
        then have "i = j" using same suffix_inj [of i j] 2(2) by (simp add: sample_text_def)
        then show ?thesis using ij by simp
      qed
    qed
  qed
  then show ?thesis by (simp add: ids distinct_map)
qed

section \<open>One stage\<close>

lemma compile_stage_parts:
  assumes "compile_stage dk pp sd corner resolved stage = Inr dcs"
  obtains sg inputs groups where "map_of (stage_dict (pp_stages pp)) stage = Some sg"
    and "list_all2 (\<lambda>pt g. compile_point dk pp sd corner stage inputs pt = Inr g) (corner_points sg (cb_id corner)) groups"
    and "dcs = concat groups"
  using assms by (auto simp: compile_stage_def map_res_eq_Inr split: option.splits)

lemma remdups_adj_replicate_append:
  "n \<noteq> 0 \<Longrightarrow> x \<notin> set ys \<Longrightarrow> remdups_adj (replicate n x @ ys) = x # remdups_adj ys"
proof (induction n)
  case (Suc n)
  show ?case
  proof (cases "n = 0")
    case True
    then show ?thesis using Suc.prems by (cases ys) simp_all
  next
    case False
    then have "remdups_adj (replicate n x @ ys) = x # remdups_adj ys" using Suc by simp
    moreover obtain m where "n = Suc m" using False by (cases n) simp_all
    ultimately show ?thesis by simp
  qed
qed simp

lemma grouped_points:
  assumes "list_all2 (\<lambda>pt g. compile_point dk pp sd corner stage inputs pt = Inr g) pts groups" "distinct (map pt_id pts)"
  shows "remdups_adj (map (cc_point \<circ> dc_compiled) (concat groups)) = map pt_id pts
     \<and> set (map (cc_point \<circ> dc_compiled) (concat groups)) \<subseteq> pt_id ` set pts"
  using assms
proof (induction rule: list_all2_induct)
  case (Cons pt pts g groups)
  note g = compile_point_points [OF Cons.hyps(1)]
  have rest: "remdups_adj (map (cc_point \<circ> dc_compiled) (concat groups)) = map pt_id pts"
    "set (map (cc_point \<circ> dc_compiled) (concat groups)) \<subseteq> pt_id ` set pts"
    using Cons.IH Cons.prems by (simp_all only: list.map distinct.simps)
  have "pt_id pt \<notin> set (map (cc_point \<circ> dc_compiled) (concat groups))" using rest(2) Cons.prems by auto
  moreover have "length g \<noteq> 0" using g(1) by simp
  ultimately have step: "remdups_adj (replicate (length g) (pt_id pt) @ map (cc_point \<circ> dc_compiled) (concat groups)) =
      pt_id pt # map pt_id pts"
    using remdups_adj_replicate_append rest(1) by metis
  have all: "map (cc_point \<circ> dc_compiled) (concat (g # groups)) =
      replicate (length g) (pt_id pt) @ map (cc_point \<circ> dc_compiled) (concat groups)"
    by (simp only: concat.simps map_append g(3))
  show ?case
    unfolding all step using rest(2) by (auto simp: set_replicate_conv_if)
qed simp

lemma grouped_ids:
  assumes "list_all2 (\<lambda>pt g. compile_point dk pp sd corner stage inputs pt = Inr g) pts groups"
    and "distinct (map pt_id pts)" "\<forall>pt \<in> set pts. nodot (pt_id pt)"
  shows "distinct (map (cc_id \<circ> dc_compiled) (concat groups))"
  using assms
proof (induction rule: list_all2_induct)
  case (Cons pt pts g groups)
  have name: "\<exists>s. cc_id (dc_compiled dc) = condition_name (dk_env dk) stage (pt_id p) s"
    if "compile_point dk pp sd corner stage inputs p = Inr h" "dc \<in> set h" for p h dc
    using compile_point_points(2) [OF that] by (auto elim: compile_one_parts)
  have "cc_id (dc_compiled a) \<noteq> cc_id (dc_compiled b)" if ab: "a \<in> set g" "b \<in> set (concat groups)" for a b
  proof
    assume eq: "cc_id (dc_compiled a) = cc_id (dc_compiled b)"
    obtain h where h: "h \<in> set groups" "b \<in> set h" using ab(2) by auto
    from list_all2_mem_right [OF Cons.hyps(2) h(1)] obtain p where
      p: "p \<in> set pts" "compile_point dk pp sd corner stage inputs p = Inr h" by blast
    obtain s where s: "cc_id (dc_compiled a) = condition_name (dk_env dk) stage (pt_id pt) s"
      using name [OF Cons.hyps(1) ab(1)] by blast
    obtain t where t: "cc_id (dc_compiled b) = condition_name (dk_env dk) stage (pt_id p) t"
      using name [OF p(2) h(2)] by blast
    have "condition_name (dk_env dk) stage (pt_id pt) s = condition_name (dk_env dk) stage (pt_id p) t"
      using eq s t by simp
    then have "pt_id pt = pt_id p" using condition_name_inj Cons.prems(2) p(1) by (metis list.set_intros)
    then show False using Cons.prems(1) p(1) by auto
  qed
  then have "set (map (cc_id \<circ> dc_compiled) g) \<inter> set (map (cc_id \<circ> dc_compiled) (concat groups)) = {}"
    by (auto simp only: set_map comp_def)
  moreover have "distinct (map (cc_id \<circ> dc_compiled) g)"
    using compile_point_ids [OF Cons.hyps(1)] Cons.prems(2) by simp
  moreover have "distinct (map (cc_id \<circ> dc_compiled) (concat groups))"
    by (rule Cons.IH) (use Cons.prems in auto)
  ultimately show ?case by (simp only: concat.simps map_append distinct_append simp_thms)
qed simp

end
