(* ===== verification/DeckExample.thy ===== *)
theory DeckExample
  imports DeckInventory
begin

text \<open>
  A compilation that succeeds: one resistor as the device under test, and the one-point plan of the
  runner's example, whose DC sweep gives two conditions.
\<close>

definition resistor_text :: string where
  "resistor_text =
     ''.subckt buf in out'' @ [CHR 0x0A] @ ''r1 in out 1k'' @ [CHR 0x0A] @ ''.ends'' @ [CHR 0x0A]"

definition sample_deck :: deck_env where
  "sample_deck =
     \<lparr>dk_env = rn_env sample_env, dk_file = (\<lambda>path. Inr (length resistor_text, resistor_text)), dk_artifact = None,
      dk_dut_sha256 = Some sample_digest, dk_plan_raw_sha256 = sample_digest, dk_plan_sha256 = sample_digest,
      dk_binding_sha256 = sample_digest\<rparr>"

definition sample_corner :: corner_binding where
  "sample_corner = \<lparr>cb_id = ''tt'', cb_temperature = 25, cb_values = [(''vdd'', volts 2)]\<rparr>"

lemma sample_context:
  "pc_dut (pp_context sample_prepared) = buffer_dut"
  "pc_corners (pp_context sample_prepared) = [sample_corner]"
  "pc_supplies (pp_context sample_prepared) = [\<lparr>su_id = ''vdd'', su_positive = ''a'', su_negative = ''0'', su_value_id = ''vdd''\<rparr>]"
  "pc_probes (pp_context sample_prepared) = [\<lparr>pr_id = ''vout'', pr_unit = ''V'', pr_doc = PortVoltage ''out'' ''in''\<rparr>]"
  "pc_stimuli (pp_context sample_prepared) =
     [\<lparr>st_id = ''drive'', st_doc = DcState ''vdd'' ''in'' ''bias'' \<lparr>lv_supply = ''vdd'', lv_fraction = 1\<rparr>\<rparr>]"
  by (simp_all add: sample_prepared_def good_prepared_def good_plan_def buffer_plan_def sample_corner_def)

lemma sample_sealed:
  obtains sd where "capture_dut sample_deck sample_prepared = Inr sd"
proof -
  have lines: "dut_lines ''buf'' [''in'', ''out''] resistor_text =
      [] @ Subcircuit # [Device [''r1'', ''in'', ''out'', ''1k'']] @ Ending # [Blank]"
    by code_simp
  have "closed_dut (dut_lines ''buf'' [''in'', ''out''] resistor_text)"
    unfolding closed_dut_def
    by (rule exI [of _ "[]"], rule exI [of _ "[Device [''r1'', ''in'', ''out'', ''1k'']]"], rule exI [of _ "[Blank]"])
      (simp add: lines device_names_def List.map_filter_def)
  moreover have "check_ports [''in'', ''out''] = Inr ()" "spice_name (''OPENADA_'' @ ''bench'' @ ''_'' @ ''buf'')"
    by code_simp+
  moreover have size: "1 \<le> length resistor_text \<and> length resistor_text \<le> MAX_DUT_BYTES"
    by (simp add: resistor_text_def MAX_DUT_BYTES_def)
  moreover have "check_dut_bytes (rn_env sample_env) resistor_text sample_digest = Inr ()"
  proof -
    have "sha256 (rn_env sample_env) resistor_text = sample_digest" by (simp add: sample_env_def)
    moreover have "CHR 0x00 \<notin> set resistor_text" "CHR 0x0D \<notin> set resistor_text" by code_simp+
    ultimately show ?thesis using sample_digest_text size by (simp add: check_dut_bytes_def)
  qed
  ultimately obtain sd where sd: "seal_structural_dut (rn_env sample_env) resistor_text sample_digest ''bench'' ''buf'' [''in'', ''out''] = Inr sd"
    unfolding seal_exact Let_def by blast
  show ?thesis
    by (rule that [of sd])
      (use sd size in \<open>simp add: capture_dut_def sample_context sample_deck_def buffer_dut_def or_else_def sample_digest_def\<close>)
qed

section \<open>Numbers\<close>

lemma decimal_small:
  assumes "\<bar>m\<bar> < 10 ^ 28"
  shows "decimal_round (of_int m) = of_int m" and "decimal_of (of_int m) = of_int m"
    and "decimal_arg path (of_int m) = Inr (of_int m)"
proof -
  show round: "decimal_round (of_int m) = of_int m"
    using decimal_round_exact [OF assms, of 0] by (simp add: pow10_def)
  show dec: "decimal_of (of_int m) = of_int m" by (simp add: decimal_of_def)
  have "decimal_round (of_int \<bar>m\<bar>) = of_int \<bar>m\<bar>"
    using decimal_round_exact [of "\<bar>m\<bar>" 0] assms by (simp add: pow10_def)
  moreover have "(of_int \<bar>m\<bar> :: rat) \<le> of_int (10 ^ 300)"
    using assms by (subst of_int_le_iff) (rule order_trans [OF less_imp_le], assumption, rule power_increasing, simp_all)
  ultimately show "decimal_arg path (of_int m) = Inr (of_int m)"
    unfolding decimal_arg_def decimal_over_def decimal_limit_def Let_def dec by simp
qed

lemma sample_decimals:
  "decimal_arg path 0 = Inr 0" "decimal_arg path 1 = Inr 1" "decimal_arg path 2 = Inr 2" "decimal_arg path 25 = Inr 25"
  using decimal_small(3) [of 0] decimal_small(3) [of 1] decimal_small(3) [of 2] decimal_small(3) [of 25] by simp_all

lemma sample_dc_grid: "dc_grid 0 1 1 = Inr [0, 1]"
  using dc_grid_exact [of 0 1 0 0 1 1 1] by (simp add: pow10_def)

section \<open>The compilation\<close>

lemma sample_level: "supply_values sample_prepared sample_corner = Inr [(''vdd'', 2)]"
  by (simp add: supply_values_def sample_context supply_value_def sample_corner_def lookup_last_def volts_def
      sample_decimals)

lemma sample_terminals: "dut_terminals sample_prepared = Inr [(''in'', ''a''), (''out'', ''y'')]"
  by (simp add: dut_terminals_def current_ports_def sample_context buffer_dut_def connection_def lookup_last_def
      List.map_filter_def Let_def)

lemma sample_idle: "active_stimuli sample_prepared sample_point = Inr []"
  by (simp add: active_stimuli_def sample_point_def)

lemma sample_probe:
  "\<exists>dp. map_res (deck_probe_of [(''in'', ''a''), (''out'', ''y'')] []) (pc_probes (pp_context sample_prepared)) = Inr [dp]
     \<and> dp_id dp = ''vout'' \<and> dp_available dp"
  by (simp add: sample_context deck_probe_of_def terminal_def lookup_last_def Let_def)

lemma sample_serialized:
  "\<exists>d. serialize_deck dk sample_prepared sd sample_corner sample_point [] ident csha (Some x) = Inr d"
proof -
  obtain dp where dp: "map_res (deck_probe_of [(''in'', ''a''), (''out'', ''y'')] [])
      (pc_probes (pp_context sample_prepared)) = Inr [dp]" "dp_id dp = ''vout''" "dp_available dp"
    using sample_probe by blast
  have supplies: "\<exists>ls. map_res (supply_line [(''vdd'', 2)]) (pc_supplies (pp_context sample_prepared)) = Inr ls"
    by (simp add: sample_context supply_line_def lookup_last_def)
  have branches: "sorted_ports sample_prepared = []"
    by (simp add: sorted_ports_def current_ports_def sample_context List.map_filter_def)
  have initial: "initial_values terminals sample_point = Inr []" for terminals
    by (simp add: initial_values_def sample_point_def)
  have required: "require_measurement_probes sample_point [dp] = Inr ()"
    using dp by (simp add: require_measurement_probes_def sample_point_def unavailable_measurement_def lookup_last_def
        measurement_probe_def)
  have analysis: "analysis_line [] b True (pt_analysis sample_point) = Inr ''.OP''" for b
    by (simp add: analysis_line_def sample_point_def sweep_def Let_def)
  have temperature: "cb_temperature sample_corner = 25" by (simp add: sample_corner_def)
  show ?thesis
    using supplies
    by (auto simp: serialize_deck_def Let_def sample_level sample_idle sample_terminals temperature sample_decimals
        branches initial dp(1) required analysis)
qed

lemma sample_semantics:
  obtains analysis semantics csha where "analysis_document [] (Some (i, x)) (pt_analysis sample_point) = Inr analysis"
    and "condition_semantics sample_prepared sample_corner ''s'' sample_point [] [] analysis = Inr semantics"
    and "canonical_sha256 (dk_env sample_deck) semantics = Inr csha"
proof -
  obtain analysis where analysis: "analysis_document [] (Some (i, x)) (pt_analysis sample_point) = Inr analysis"
      "json_value analysis"
    by (simp add: analysis_document_def sample_point_def sweep_def volts_def resolved_quantity_def sample_decimals Let_def)
  obtain semantics where semantics: "condition_semantics sample_prepared sample_corner ''s'' sample_point [] [] analysis = Inr semantics"
      "json_value semantics"
    using analysis(2)
    by (simp add: condition_semantics_def sample_idle)
      (simp add: corner_document_def sample_corner_def quantity_document_def number_value_def volts_def
        sample_point_def state_document_def settle_document_def)
  show ?thesis using that [OF analysis(1) semantics(1)] canonical_sha256_total [OF semantics(2)] by blast
qed

lemma sample_condition_compiled:
  "\<exists>dc. compile_one_condition sample_deck sample_prepared sd sample_corner ''s'' sample_point [] [] (Some (i, x)) = Inr dc"
proof -
  obtain analysis semantics csha where s: "analysis_document [] (Some (i, x)) (pt_analysis sample_point) = Inr analysis"
      "condition_semantics sample_prepared sample_corner ''s'' sample_point [] [] analysis = Inr semantics"
      "canonical_sha256 (dk_env sample_deck) semantics = Inr csha"
    by (rule sample_semantics)
  obtain d where d: "serialize_deck sample_deck sample_prepared sd sample_corner sample_point []
      (condition_name (dk_env sample_deck) ''s'' (pt_id sample_point) (Some (i, x))) csha (Some x) = Inr d"
    using sample_serialized by blast
  show ?thesis by (simp add: compile_one_condition_def s d Let_def)
qed

lemma sample_stage_compiled:
  "\<exists>a b. compile_stage sample_deck sample_prepared sd sample_corner [] ''s'' = Inr [a, b]
     \<and> cc_id (dc_compiled a) \<noteq> cc_id (dc_compiled b)"
proof -
  obtain a b where ab:
      "compile_one_condition sample_deck sample_prepared sd sample_corner ''s'' sample_point [] [] (Some (0, 0)) = Inr a"
      "compile_one_condition sample_deck sample_prepared sd sample_corner ''s'' sample_point [] [] (Some (Suc 0, 1)) = Inr b"
    using sample_condition_compiled by metis
  have grid: "decimal_arg p (q_value (volts 0)) = Inr 0" "decimal_arg p (q_value (volts 1)) = Inr 1" for p
    by (simp_all add: volts_def sample_decimals)
  have fields: "pt_analysis sample_point = sweep (LiteralValue (volts 1))" "pt_state sample_point = Fresh []"
      "pt_parameters sample_point = []" "pt_corner sample_point = ''tt''"
    by (simp_all add: sample_point_def)
  have point: "compile_point sample_deck sample_prepared sd sample_corner ''s'' [] sample_point = Inr [a, b]"
    using ab by (simp add: compile_point_def fields sweep_def grid sample_dc_grid)
  have dict: "map_of (stage_dict (pp_stages sample_prepared)) ''s'' = Some sample_stage"
    by (simp add: stage_dict_def sample_prepared_def sample_stage_def)
  have points: "corner_points sample_stage (cb_id sample_corner) = [sample_point]"
    by (simp add: corner_points_def sample_stage_def sample_corner_def fields)
  have "stage_input_values sample_prepared sample_stage [] = Inr []"
    by (simp add: stage_input_values_def sample_prepared_def sample_binding_def sample_stage_def)
  moreover have "\<not> unsupported_point sample_point" by (simp add: unsupported_point_def fields sweep_def)
  moreover have "cc_id (dc_compiled a) \<noteq> cc_id (dc_compiled b)"
  proof -
    have "cc_id (dc_compiled a) = condition_name (dk_env sample_deck) ''s'' (pt_id sample_point) (Some (0, 0))"
      by (rule compile_one_parts [OF ab(1)])
    moreover have "cc_id (dc_compiled b) = condition_name (dk_env sample_deck) ''s'' (pt_id sample_point) (Some (Suc 0, 1))"
      by (rule compile_one_parts [OF ab(2)])
    ultimately show ?thesis
      using suffix_inj [of 0 "Suc 0" "dk_env sample_deck" 0 1] by (auto simp: condition_name_def)
  qed
  ultimately show ?thesis by (simp add: compile_stage_def dict points point)
qed

lemma sample_compiled:
  obtains sd a b receipt where "prepare_deck sample_deck sample_prepared ''tt'' (Some [''s'']) [] = Inr (sd, [a, b], receipt)"
    and "cc_id (dc_compiled a) \<noteq> cc_id (dc_compiled b)"
proof -
  obtain sd where sd: "capture_dut sample_deck sample_prepared = Inr sd" by (rule sample_sealed)
  obtain a b where ab: "compile_stage sample_deck sample_prepared sd sample_corner [] ''s'' = Inr [a, b]"
      "cc_id (dc_compiled a) \<noteq> cc_id (dc_compiled b)"
    using sample_stage_compiled by blast
  have corner: "select_corner sample_prepared ''tt'' = Inr sample_corner"
    by (simp add: select_corner_def sample_context) (simp add: sample_corner_def)
  have stages: "selected_stages sample_prepared (Some [''s'']) = Inr [''s'']"
    by (simp add: selected_stages_def sample_prepared_def sample_stage_def sorted_texts_def)
  have points: "has_points sample_prepared (cb_id sample_corner) [''s'']"
    by (simp add: has_points_def stage_dict_def sample_prepared_def sample_stage_def corner_points_def sample_corner_def)
      (simp add: sample_point_def)
  have json: "json_value (corner_document sample_corner)"
    by (simp add: corner_document_def sample_corner_def quantity_document_def number_value_def volts_def)
  obtain receipt where "compile_receipt sample_deck sample_prepared sd sample_corner [a, b] = Inr receipt"
    using canonical_sha256_total [OF json, of "dk_env sample_deck"] by (force simp: compile_receipt_def Let_def)
  then show ?thesis
    using that [of sd a b receipt] ab(2) by (simp add: prepare_deck_def sd corner resolve_binding_values_def compile_conditions_def stages ab points)
qed

end
