(* ===== verification/DeckResult.thy ===== *)
theory DeckResult
  imports DeckExample
begin

text \<open>
  What a successful compilation guarantees: decks that are closed, conditions that are exactly those
  of the corner, and, when the runner compiles with it, runs that attempt every point.
\<close>

section \<open>The parts of a compilation\<close>

lemma prepare_deck_parts:
  assumes "prepare_deck dk pp corner stage_ids bs = Inr (sd, dcs, receipt)"
  obtains cb resolved ids groups where "capture_dut dk pp = Inr sd" and "select_corner pp corner = Inr cb"
    and "resolve_binding_values pp bs = Inr resolved" and "selected_stages pp stage_ids = Inr ids"
    and "list_all2 (\<lambda>k g. compile_stage dk pp sd cb resolved k = Inr g) ids groups" and "dcs = concat groups"
    and "has_points pp (cb_id cb) ids"
proof -
  obtain cb resolved where parts: "capture_dut dk pp = Inr sd" "select_corner pp corner = Inr cb"
      "resolve_binding_values pp bs = Inr resolved"
    and conditions: "compile_conditions dk pp sd cb stage_ids resolved = Inr dcs"
    using assms by (auto simp: prepare_deck_def)
  obtain ids groups where "selected_stages pp stage_ids = Inr ids"
      "map_res (compile_stage dk pp sd cb resolved) ids = Inr groups" "dcs = concat groups" "has_points pp (cb_id cb) ids"
    using conditions by (auto simp: compile_conditions_def split: if_split_asm)
  then show ?thesis using that parts by (simp add: map_res_eq_Inr)
qed

lemma select_corner_id: "select_corner pp corner = Inr cb \<Longrightarrow> cb_id cb = corner"
proof -
  assume "select_corner pp corner = Inr cb"
  then have "filter (\<lambda>c. cb_id c = corner) (pc_corners (pp_context pp)) = [cb]"
    by (auto simp: select_corner_def split: if_split_asm list.splits)
  then have "cb \<in> set (filter (\<lambda>c. cb_id c = corner) (pc_corners (pp_context pp)))" by simp
  then show ?thesis by simp
qed

lemma capture_dut_sealed:
  assumes "capture_dut dk pp = Inr sd"
  obtains raw expected where "seal_structural_dut (dk_env dk) raw expected (dut_namespace (pc_dut (pp_context pp)))
      (dut_top (pc_dut (pp_context pp))) (map port_name (dut_ports (pc_dut (pp_context pp)))) = Inr sd"
    and "sd_raw sd = raw" and "expected = or_else (dk_dut_sha256 dk) (dut_sha256 (pc_dut (pp_context pp)))"
    and "sha256 (dk_env dk) raw = expected" and "sd_raw_sha256 sd = expected"
proof -
  obtain raw where raw: "seal_structural_dut (dk_env dk) raw (or_else (dk_dut_sha256 dk) (dut_sha256 (pc_dut (pp_context pp))))
      (dut_namespace (pc_dut (pp_context pp))) (dut_top (pc_dut (pp_context pp)))
      (map port_name (dut_ports (pc_dut (pp_context pp)))) = Inr sd"
    using assms unfolding capture_dut_def Let_def by (auto split: sum.splits if_split_asm)
  from raw show ?thesis
    by (intro that [OF raw]) (auto simp: seal_exact Let_def check_dut_bytes_def split: if_split_asm)
qed

text \<open>Every condition comes from one point of one selected stage.\<close>

lemma compiled_from:
  assumes "prepare_deck dk pp corner stage_ids bs = Inr (sd, dcs, receipt)" and "dc \<in> set dcs"
  obtains cb stage sg pt inputs parameters s where "capture_dut dk pp = Inr sd" and "select_corner pp corner = Inr cb"
    and "map_of (stage_dict (pp_stages pp)) stage = Some sg" and "pt \<in> set (corner_points sg corner)"
    and "compile_one_condition dk pp sd cb stage pt inputs parameters s = Inr dc"
proof -
  obtain cb resolved ids groups where dut: "capture_dut dk pp = Inr sd" and cb: "select_corner pp corner = Inr cb"
    and all: "list_all2 (\<lambda>k g. compile_stage dk pp sd cb resolved k = Inr g) ids groups" and dcs: "dcs = concat groups"
    by (rule prepare_deck_parts [OF assms(1)])
  obtain g where g: "g \<in> set groups" "dc \<in> set g" using assms(2) dcs by auto
  from list_all2_mem_right [OF all g(1)] obtain stage where stage: "compile_stage dk pp sd cb resolved stage = Inr g" by blast
  obtain sg inputs parts where sg: "map_of (stage_dict (pp_stages pp)) stage = Some sg"
    and points: "list_all2 (\<lambda>pt g. compile_point dk pp sd cb stage inputs pt = Inr g) (corner_points sg (cb_id cb)) parts"
    and concat: "g = concat parts"
    by (rule compile_stage_parts [OF stage])
  obtain h where h: "h \<in> set parts" "dc \<in> set h" using g(2) concat by auto
  from list_all2_mem_right [OF points h(1)] obtain pt where
    pt: "pt \<in> set (corner_points sg (cb_id cb))" "compile_point dk pp sd cb stage inputs pt = Inr h" by blast
  obtain parameters s where "compile_one_condition dk pp sd cb stage pt inputs parameters s = Inr dc"
    using compile_point_points(2) [OF pt(2) h(2)] by blast
  then show ?thesis using that dut cb sg pt(1) select_corner_id [OF cb] by simp
qed

section \<open>Closed decks\<close>

lemma condition_name_flat:
  assumes "flat stage" "flat point" "\<And>t. flat (sha256 env t)"
  shows "flat (condition_name env stage point s)"
  using assms by (cases s) (auto simp: condition_name_def condition_suffix_def)

lemma terminals_ports:
  assumes "dut_terminals pp = Inr terminals"
  shows "map fst terminals = map port_name (dut_ports (pc_dut (pp_context pp)))"
proof -
  have "list_all2 (\<lambda>port t. fst t = port_name port) (dut_ports (pc_dut (pp_context pp))) terminals"
    using assms unfolding dut_terminals_def Let_def map_res_eq_Inr
    by (rule list_all2_mono) (auto split: if_split_asm)
  then show ?thesis by (auto simp: list_all2_conv_all_nth intro: nth_equalityI)
qed

text \<open>C2: A compiled deck is closed: when the names of the plan are identifiers and the digests are
  SHA-256 digests, the text of every deck the compiler emits is exactly its lines, each of them is a
  comment, a line of the sealed device under test or one of the compiler's own cards, the deck ends
  in \<open>.END\<close>, and its only subcircuit instance is the sealed device, with one terminal per declared
  port; and the device is the artifact of the declared digest, sealed by the closed grammar.\<close>

theorem deck_closed:
  assumes "prepare_deck dk pp corner stage_ids bs = Inr (sd, dcs, receipt)" and "dc \<in> set dcs"
    and names: "list_all net_name (plan_names pp)"
    and digests: "\<And>t. sha256_text (sha256 (dk_env dk) t)" "sha256_text (dk_plan_sha256 dk)"
  shows "split_on (CHR 0x0A) (cc_deck (dc_compiled dc)) = dc_lines dc @ [[]]
     \<and> (\<exists>terminals. dut_terminals pp = Inr terminals
          \<and> map fst terminals = map port_name (dut_ports (pc_dut (pp_context pp)))
          \<and> closed_deck sd (dut_instance terminals sd) (dc_lines dc))
     \<and> closed_dut (dut_lines (dut_top (pc_dut (pp_context pp))) (map port_name (dut_ports (pc_dut (pp_context pp)))) (sd_raw sd))
     \<and> sha256 (dk_env dk) (sd_raw sd) = or_else (dk_dut_sha256 dk) (dut_sha256 (pc_dut (pp_context pp)))"
proof -
  obtain cb stage sg pt inputs parameters s where dut: "capture_dut dk pp = Inr sd"
    and sg: "map_of (stage_dict (pp_stages pp)) stage = Some sg" and pt: "pt \<in> set (corner_points sg corner)"
    and one: "compile_one_condition dk pp sd cb stage pt inputs parameters s = Inr dc"
    by (rule compiled_from [OF assms(1,2)])
  obtain d where ser: "serialize_deck dk pp sd cb pt inputs (cc_id (dc_compiled dc)) (cc_sha256 (dc_compiled dc))
       (map_option snd s) = Inr d"
    and ident: "cc_id (dc_compiled dc) = condition_name (dk_env dk) stage (pt_id pt) s"
    and deck: "cc_deck (dc_compiled dc) = join [CHR 0x0A] (dc_lines dc) @ [CHR 0x0A]" "dc_lines dc = dd_lines d"
    and csha: "canonical_sha256 (dk_env dk) (cc_condition (dc_compiled dc)) = Inr (cc_sha256 (dc_compiled dc))"
    by (rule compile_one_parts [OF one])
  obtain raw expected where
    seal: "seal_structural_dut (dk_env dk) raw expected (dut_namespace (pc_dut (pp_context pp)))
      (dut_top (pc_dut (pp_context pp))) (map port_name (dut_ports (pc_dut (pp_context pp)))) = Inr sd"
    and raw: "sd_raw sd = raw" "expected = or_else (dk_dut_sha256 dk) (dut_sha256 (pc_dut (pp_context pp)))"
      "sha256 (dk_env dk) raw = expected" "sd_raw_sha256 sd = expected"
    by (rule capture_dut_sealed [OF dut])
  note sealed = sealed_lines_exact [OF seal]
  have member: "sg \<in> set (pp_stages pp)" "sg_id sg = stage" "pt \<in> set (sg_points sg)"
    using stage_dict_member [OF sg] pt by (simp_all add: corner_points_def)
  have point: "list_all net_name (point_names pt)" and stage: "net_name stage" and clean: "clean_context (pp_context pp)"
    using names member by (auto simp: plan_names_def clean_context_def list_all_iff)
  have hash: "flat (sha256 (dk_env dk) t)" for t using digests(1) by (rule sha256_flat)
  have flats: "flat (cc_id (dc_compiled dc))" "flat (cc_sha256 (dc_compiled dc))" "flat (dk_plan_sha256 dk)"
      "flat (sd_raw_sha256 sd)"
  proof -
    show "flat (cc_id (dc_compiled dc))"
      using point stage hash unfolding ident
      by (intro condition_name_flat) (simp_all add: point_names_def net_name_flat)
    obtain t where "sha256 (dk_env dk) t = cc_sha256 (dc_compiled dc)" using csha by (auto simp: canonical_sha256_def)
    then show "flat (cc_sha256 (dc_compiled dc))" using hash [of t] by simp
    show "flat (dk_plan_sha256 dk)" using digests(2) by (rule sha256_flat)
    show "flat (sd_raw_sha256 sd)" using hash [of raw] raw by simp
  qed
  obtain terminals where terminals: "dut_terminals pp = Inr terminals"
      "closed_deck sd (dut_instance terminals sd) (dd_lines d)"
    using serialize_deck_closed [OF ser clean point sealed(2,3) flats] by blast
  have "split_on (CHR 0x0A) (cc_deck (dc_compiled dc)) = dc_lines dc @ [[]]"
    unfolding deck(1) using terminals(2) deck(2) by (simp add: split_on_lines closed_deck_def)
  moreover have "map fst terminals = map port_name (dut_ports (pc_dut (pp_context pp)))"
    by (rule terminals_ports [OF terminals(1)])
  ultimately show ?thesis using terminals deck(2) sealed(4) raw by auto
qed

lemma sample_names: "list_all net_name (plan_names sample_prepared)"
  by code_simp

theorem deck_closed_witness:
  "\<exists>sd dc dcs receipt. prepare_deck sample_deck sample_prepared ''tt'' (Some [''s'']) [] = Inr (sd, dc # dcs, receipt)
     \<and> (\<exists>terminals. dut_terminals sample_prepared = Inr terminals
          \<and> closed_deck sd (dut_instance terminals sd) (dc_lines dc))
     \<and> split_on (CHR 0x0A) (cc_deck (dc_compiled dc)) = dc_lines dc @ [[]]"
proof -
  obtain sd a b receipt where ok: "prepare_deck sample_deck sample_prepared ''tt'' (Some [''s'']) [] = Inr (sd, [a, b], receipt)"
    by (rule sample_compiled) blast
  have "sha256_text (sha256 (dk_env sample_deck) t)" "sha256_text (dk_plan_sha256 sample_deck)" for t
    using sample_digest_text by (simp_all add: sample_deck_def sample_env_def)
  from deck_closed [OF ok _ sample_names this, of a] ok show ?thesis by auto
qed

section \<open>The conditions of a stage\<close>

text \<open>C14: The compilation of a stage is exactly the conditions of its points: when a stage compiles,
  the points its conditions name, read in order, are the points of the corner, each of them has a
  condition, the condition identifiers are distinct when the point identifiers are dotless and
  distinct, and the digests are those of the device, of the deck texts and of the semantics.\<close>

theorem compile_inventory:
  assumes "compile_for_run dk pp corner stage bs = Inr cp"
    and "distinct (map sg_id (pp_stages pp))" and "sg \<in> set (pp_stages pp)" and "sg_id sg = stage"
    and "distinct (map pt_id (sg_points sg))" and "list_all nodot (map pt_id (sg_points sg))"
  shows "remdups_adj (map cc_point (cp_conditions cp)) = map pt_id (corner_points sg corner)
     \<and> cp_conditions cp \<noteq> [] \<and> distinct (map cc_id (cp_conditions cp))
     \<and> sha256 (dk_env dk) (cp_dut_bytes cp) = cp_dut_sha256 cp
     \<and> cp_dut_sha256 cp = or_else (dk_dut_sha256 dk) (dut_sha256 (pc_dut (pp_context pp)))
     \<and> (\<forall>cc \<in> set (cp_conditions cp). cc_stage cc = stage \<and> cc_deck_sha256 cc = sha256 (dk_env dk) (cc_deck cc)
          \<and> canonical_sha256 (dk_env dk) (cc_condition cc) = Inr (cc_sha256 cc))"
proof -
  obtain sd dcs receipt where prepared: "prepare_deck dk pp corner (Some [stage]) bs = Inr (sd, dcs, receipt)"
    and cp: "cp_dut_bytes cp = sd_raw sd" "cp_dut_sha256 cp = sd_raw_sha256 sd" "cp_conditions cp = map dc_compiled dcs"
    using assms(1) by (auto simp: compile_for_run_def)
  obtain cb resolved ids groups where dut: "capture_dut dk pp = Inr sd" and cb: "select_corner pp corner = Inr cb"
    and ids: "selected_stages pp (Some [stage]) = Inr ids"
    and all: "list_all2 (\<lambda>k g. compile_stage dk pp sd cb resolved k = Inr g) ids groups" and dcs: "dcs = concat groups"
    and points: "has_points pp (cb_id cb) ids"
    by (rule prepare_deck_parts [OF prepared])
  have "ids = [stage]" using ids by (auto simp: selected_stages_def Let_def split: if_split_asm)
  with all dcs have compiled: "compile_stage dk pp sd cb resolved stage = Inr dcs" by (auto simp: list_all2_Cons1)
  have sg: "map_of (stage_dict (pp_stages pp)) stage = Some sg"
    using assms(2-4) by (auto simp: stage_dict_distinct comp_def)
  obtain inputs parts where
    parts: "list_all2 (\<lambda>pt g. compile_point dk pp sd cb stage inputs pt = Inr g) (corner_points sg (cb_id cb)) parts"
    and dcs: "dcs = concat parts"
    using compile_stage_parts [OF compiled] sg by (metis option.inject)
  have corner: "cb_id cb = corner" by (rule select_corner_id [OF cb])
  have plain: "distinct (map pt_id (corner_points sg corner))" "\<forall>pt \<in> set (corner_points sg corner). nodot (pt_id pt)"
    using assms(5,6) by (auto simp: corner_points_def distinct_map_filter list_all_iff)
  note grouped = grouped_points [OF parts, unfolded corner, OF plain(1)] grouped_ids [OF parts, unfolded corner, OF plain]
  have "remdups_adj (map cc_point (cp_conditions cp)) = map pt_id (corner_points sg corner)"
    and "distinct (map cc_id (cp_conditions cp))"
    using grouped by (simp_all add: cp dcs)
  moreover have "cp_conditions cp \<noteq> []"
  proof -
    have "corner_points sg corner \<noteq> []" using points \<open>ids = [stage]\<close> by (simp add: has_points_def sg corner)
    then show ?thesis using calculation(1) by auto
  qed
  moreover have "cc_stage cc = stage \<and> cc_deck_sha256 cc = sha256 (dk_env dk) (cc_deck cc)
       \<and> canonical_sha256 (dk_env dk) (cc_condition cc) = Inr (cc_sha256 cc)" if cc: "cc \<in> set (cp_conditions cp)" for cc
  proof -
    obtain dc where dc: "dc \<in> set dcs" "cc = dc_compiled dc" using cc by (auto simp: cp)
    obtain h where h: "h \<in> set parts" "dc \<in> set h" using dc(1) dcs by auto
    from list_all2_mem_right [OF parts h(1)] obtain pt where "compile_point dk pp sd cb stage inputs pt = Inr h" by blast
    from compile_point_points(2) [OF this h(2)] obtain parameters s where
      "compile_one_condition dk pp sd cb stage pt inputs parameters s = Inr dc" by blast
    then show ?thesis unfolding dc(2) by (rule compile_one_parts) simp
  qed
  moreover have "sha256 (dk_env dk) (cp_dut_bytes cp) = cp_dut_sha256 cp
      \<and> cp_dut_sha256 cp = or_else (dk_dut_sha256 dk) (dut_sha256 (pc_dut (pp_context pp)))"
    unfolding cp by (rule capture_dut_sealed [OF dut]) simp
  ultimately show ?thesis by blast
qed

lemma sample_for_run:
  obtains cp where "compile_for_run sample_deck sample_prepared ''tt'' ''s'' [] = Inr cp"
    and "distinct (map cc_id (cp_conditions cp))" and "length (cp_conditions cp) = 2"
proof -
  obtain sd a b receipt where "prepare_deck sample_deck sample_prepared ''tt'' (Some [''s'']) [] = Inr (sd, [a, b], receipt)"
      "cc_id (dc_compiled a) \<noteq> cc_id (dc_compiled b)"
    by (rule sample_compiled)
  then show ?thesis using that by (simp add: compile_for_run_def)
qed

theorem compile_inventory_witness:
  "\<exists>cp. compile_for_run sample_deck sample_prepared ''tt'' ''s'' [] = Inr cp
     \<and> remdups_adj (map cc_point (cp_conditions cp)) = [''p''] \<and> distinct (map cc_id (cp_conditions cp))"
proof -
  obtain cp where cp: "compile_for_run sample_deck sample_prepared ''tt'' ''s'' [] = Inr cp"
    by (rule sample_for_run)
  have stage: "distinct (map sg_id (pp_stages sample_prepared))" "sample_stage \<in> set (pp_stages sample_prepared)"
      "sg_id sample_stage = ''s''" "distinct (map pt_id (sg_points sample_stage))"
      "list_all nodot (map pt_id (sg_points sample_stage))"
    by (simp_all add: sample_prepared_def sample_stage_def) (simp add: sample_point_def nodot_def)
  have "map pt_id (corner_points sample_stage ''tt'') = [''p'']"
    by (simp add: corner_points_def sample_stage_def) (simp add: sample_point_def)
  with compile_inventory [OF cp stage] cp show ?thesis by auto
qed

end
