(* ===== verification/DeckRun.thy ===== *)
theory DeckRun
  imports DeckResult
begin

text \<open>
  The runner with the compiler in place of its parameter: such a run raises nothing but a value error,
  its envelope names the declared device under test, and every point of the corner is attempted.
\<close>

section \<open>Receipts are JSON\<close>

lemma map_res_each: "map_res f xs = Inr ys \<Longrightarrow> x \<in> set xs \<Longrightarrow> \<exists>y. f x = Inr y"
  by (induction xs arbitrary: ys) auto

lemma canonical_json_value: "canonical_json v = Inr t \<Longrightarrow> json_value v"
proof (induction v arbitrary: t rule: canonical_json.induct)
  case (9 d)
  obtain ts where ts: "map_res (\<lambda>kv. case kv of (VStr k, v) \<Rightarrow> pbind (canonical_json v) (\<lambda>t. Inr (k, t))
             | _ \<Rightarrow> Inl (TypeError ''keys must be str'')) d = Inr ts"
    using "9.prems" by auto
  have "is_str (fst kv) \<and> json_value (snd kv)" if kv: "kv \<in> set d" for kv
  proof -
    obtain y where y: "(case kv of (VStr k, v) \<Rightarrow> pbind (canonical_json v) (\<lambda>t. Inr (k, t))
             | _ \<Rightarrow> Inl (TypeError ''keys must be str'')) = Inr y"
      using map_res_each [OF ts kv] by blast
    then obtain k v t where kt: "kv = (VStr k, v)" "canonical_json v = Inr t" by (auto split: prod.splits pyval.splits)
    then show ?thesis using "9.IH" [OF kv kt(1) [symmetric] refl kt(2)] by simp
  qed
  then show ?case by (simp add: list_all_iff)
next
  case (7 xs)
  then obtain ts where ts: "map_res canonical_json xs = Inr ts" by auto
  show ?case using "7.IH" map_res_each [OF ts] by (simp add: list_all_iff) blast
next
  case (8 xs)
  then obtain ts where ts: "map_res canonical_json xs = Inr ts" by auto
  show ?case using "8.IH" map_res_each [OF ts] by (simp add: list_all_iff) blast
qed (auto split: if_split_asm)

lemma canonical_sha256_json: "canonical_sha256 env v = Inr h \<Longrightarrow> json_value v"
  by (auto simp: canonical_sha256_def intro: canonical_json_value)

lemma deck_probe_json: "deck_probe_of terminals sources pr = Inr dp \<Longrightarrow> json_value (deck_probe_document dp)"
  by (auto simp: deck_probe_of_def deck_probe_document_def Let_def list_all_iff
      split: probe_doc.splits probe_polarity.splits list.splits)


lemma serialized_probes_json:
  assumes "serialize_deck dk pp sd corner pt inputs ident csha sample = Inr d"
  shows "list_all json_value (map deck_probe_document (dd_probes d))"
proof -
  obtain terminals sources where "map_res (deck_probe_of terminals sources) (pc_probes (pp_context pp)) = Inr (dd_probes d)"
    using assms unfolding serialize_deck_def Let_def by auto
  then show ?thesis using deck_probe_json by (auto simp: list_all_iff dest!: map_res_mem)
qed

lemma compiled_receipt_json:
  assumes "compile_one_condition dk pp sd corner stage pt inputs parameters s = Inr dc"
  shows "json_value (dc_receipt dc)"
proof -
  obtain analysis semantics csha d ident path deck_sha where
    semantics: "condition_semantics pp corner stage pt inputs parameters analysis = Inr semantics"
    and csha: "canonical_sha256 (dk_env dk) semantics = Inr csha"
    and d: "serialize_deck dk pp sd corner pt inputs ident csha (map_option snd s) = Inr d"
    and receipt: "dc_receipt dc = condition_receipt pt stage ident csha semantics analysis path deck_sha (dd_probes d)"
    using assms unfolding compile_one_condition_def Let_def by auto
  have json: "json_value semantics" by (rule canonical_sha256_json [OF csha])
  moreover have "json_value analysis" using json semantics by (auto simp: condition_semantics_def)
  moreover have "list_all json_value (map deck_probe_document (dd_probes d))" by (rule serialized_probes_json [OF d])
  ultimately show ?thesis by (auto simp: receipt condition_receipt_def list_all_iff)
qed

lemma compile_receipt_json:
  assumes "compile_receipt dk pp sd cb dcs = Inr receipt" and "\<And>dc. dc \<in> set dcs \<Longrightarrow> json_value (dc_receipt dc)"
  shows "json_value receipt"
  using assms by (auto simp: compile_receipt_def Let_def list_all_iff)

lemma compile_for_run_json:
  assumes "compile_for_run dk pp corner stage bs = Inr cp"
  shows "json_value (cp_receipt cp)"
proof -
  obtain sd dcs where ok: "prepare_deck dk pp corner (Some [stage]) bs = Inr (sd, dcs, cp_receipt cp)"
    using assms by (auto simp: compile_for_run_def)
  obtain cb where "compile_receipt dk pp sd cb dcs = Inr (cp_receipt cp)" using ok by (auto simp: prepare_deck_def)
  moreover have "json_value (dc_receipt dc)" if dc: "dc \<in> set dcs" for dc
    by (rule compiled_from [OF ok dc]) (rule compiled_receipt_json)
  ultimately show ?thesis by (rule compile_receipt_json)
qed

section \<open>Every point\<close>

lemma compile_for_run_points:
  assumes "compile_for_run dk pp corner stage bs = Inr cp" and "map_of (stage_dict (pp_stages pp)) stage = Some sg"
    and "pt \<in> set (corner_points sg corner)"
  shows "\<exists>cc \<in> set (cp_conditions cp). cc_stage cc = stage \<and> cc_point cc = pt_id pt"
proof -
  obtain sd dcs receipt where prepared: "prepare_deck dk pp corner (Some [stage]) bs = Inr (sd, dcs, receipt)"
    and cp: "cp_conditions cp = map dc_compiled dcs"
    using assms(1) by (auto simp: compile_for_run_def)
  obtain cb resolved ids groups where cb: "select_corner pp corner = Inr cb"
    and ids: "selected_stages pp (Some [stage]) = Inr ids"
    and all: "list_all2 (\<lambda>k g. compile_stage dk pp sd cb resolved k = Inr g) ids groups" and dcs: "dcs = concat groups"
    by (rule prepare_deck_parts [OF prepared])
  have "ids = [stage]" using ids by (auto simp: selected_stages_def Let_def split: if_split_asm)
  with all dcs have compiled: "compile_stage dk pp sd cb resolved stage = Inr dcs" by (auto simp: list_all2_Cons1)
  obtain inputs parts where
    parts: "list_all2 (\<lambda>pt g. compile_point dk pp sd cb stage inputs pt = Inr g) (corner_points sg (cb_id cb)) parts"
    and dcs: "dcs = concat parts"
    using compile_stage_parts [OF compiled] assms(2) by (metis option.inject)
  have "pt \<in> set (corner_points sg (cb_id cb))" using assms(3) select_corner_id [OF cb] by simp
  then obtain i where i: "i < length parts" "corner_points sg (cb_id cb) ! i = pt"
    using list_all2_lengthD [OF parts] by (metis in_set_conv_nth)
  then have g: "compile_point dk pp sd cb stage inputs pt = Inr (parts ! i)" using list_all2_nthD2 [OF parts] by blast
  then obtain dc where dc: "dc \<in> set (parts ! i)" using compile_point_points(1) [OF g] by (cases "parts ! i") auto
  from compile_point_points(2) [OF g dc] obtain parameters s where
    "compile_one_condition dk pp sd cb stage pt inputs parameters s = Inr dc" by blast
  then have "cc_stage (dc_compiled dc) = stage" "cc_point (dc_compiled dc) = pt_id pt" by (auto elim: compile_one_parts)
  moreover have "dc_compiled dc \<in> set (cp_conditions cp)" using dc nth_mem [OF i(1)] by (auto simp: cp dcs)
  ultimately show ?thesis by blast
qed

lemma run_stage_attempts:
  assumes "rn_compile env = compile_for_run dk pp corner" and "run_stage env pp corner (sg_id sg) s1 = Inr s2"
    and "map_of (stage_dict (pp_stages pp)) (sg_id sg) = Some sg" and "pt \<in> set (corner_points sg corner)"
  shows "\<exists>a \<in> set (rt_attempts s2). at_stage a = sg_id sg \<and> at_point a = pt_id pt"
proof -
  have pt: "pt \<in> set (sg_points sg)" "pt_corner pt = corner" using assms(4) by (auto simp: corner_points_def)
  then have some: "list_ex (\<lambda>pt. pt_corner pt = corner) (sg_points sg)" by (auto simp: list_ex_iff)
  show ?thesis
  proof (cases "compile_for_run dk pp corner (sg_id sg) (rt_bindings s1)")
    case (Inl e)
    then have "stage_uncompiled env corner sg e s1 = Inr s2" using assms(1-3) some by (simp add: run_stage_def)
    then obtain reason missing known where m: "uncompiled_attempts env corner reason sg = Inr (missing, known)"
      "set missing \<subseteq> set (rt_attempts s2)" by (auto simp: stage_uncompiled_def Let_def)
    from uncompiled_from_covers [OF m(1) [unfolded uncompiled_attempts_def] pt] obtain a where
      a: "a \<in> set missing" "at_point a = pt_id pt" by blast
    with uncompiled_from_invalid [OF m(1) [unfolded uncompiled_attempts_def] a(1)] m(2) show ?thesis by blast
  next
    case (Inr cp)
    from compile_for_run_points [OF Inr assms(3,4)] obtain cc where
      cc: "cc \<in> set (cp_conditions cp)" "cc_stage cc = sg_id sg" "cc_point cc = pt_id pt" by blast
    have "execute_stage env pp corner (sg_id sg) cp s1 = Inr s2" using assms(1-3) some Inr by (simp add: run_stage_def)
    then obtain dut where bound: "bind_stage env pp corner (sg_id sg) (executed_stage env pp corner (sg_id sg) cp dut s1) = Inr s2"
      by (auto simp: execute_stage_executed)
    have "attempt_of env (point_documents pp) cc \<in> set (rt_attempts (executed_stage env pp corner (sg_id sg) cp dut s1))"
      using cc(1) by (auto simp: executed_stage_def Let_def execute_conditions_attempts(1))
    moreover have "rt_attempts s2 = rt_attempts (executed_stage env pp corner (sg_id sg) cp dut s1)"
      using bound by (auto simp: bind_stage_def)
    ultimately have "attempt_of env (point_documents pp) cc \<in> set (rt_attempts s2)" by simp
    then show ?thesis using cc by force
  qed
qed

section \<open>The declared device\<close>

definition declared_dut :: "deck_env \<Rightarrow> prepared_plan \<Rightarrow> string" where
  "declared_dut dk pp = or_else (dk_dut_sha256 dk) (dut_sha256 (pc_dut (pp_context pp)))"

lemma compile_for_run_dut:
  assumes "compile_for_run dk pp corner stage bs = Inr cp"
  shows "cp_dut_sha256 cp = declared_dut dk pp" and "sha256 (dk_env dk) (cp_dut_bytes cp) = declared_dut dk pp"
proof -
  obtain sd dcs receipt where ok: "prepare_deck dk pp corner (Some [stage]) bs = Inr (sd, dcs, receipt)"
    and cp: "cp_dut_bytes cp = sd_raw sd" "cp_dut_sha256 cp = sd_raw_sha256 sd"
    using assms by (auto simp: compile_for_run_def)
  have "capture_dut dk pp = Inr sd" using ok by (auto simp: prepare_deck_def)
  then have "sd_raw_sha256 sd = declared_dut dk pp \<and> sha256 (dk_env dk) (sd_raw sd) = declared_dut dk pp"
    by (rule capture_dut_sealed) (simp add: declared_dut_def)
  then show "cp_dut_sha256 cp = declared_dut dk pp" and "sha256 (dk_env dk) (cp_dut_bytes cp) = declared_dut dk pp"
    by (simp_all add: cp)
qed

lemma reachable_dut:
  assumes "rn_compile env = compile_for_run dk pp corner" and "reachable_run env pp corner st"
  shows "rt_dut st = None \<or> rt_dut st = Some (declared_dut dk pp)"
  using assms(2)
proof (induction rule: rtranclp_induct)
  case base
  show ?case by (simp add: initial_run_def)
next
  case (step st st')
  from step.hyps(2) show ?case
  proof (cases rule: stage_step.cases)
    case (executed stage cp sha dut)
    have "cp_dut_sha256 cp = declared_dut dk pp" using executed(2) assms(1) compile_for_run_dut(1) by simp
    then have "sha = declared_dut dk pp"
      using executed(4) by (auto simp: registered_dut_sha256_def Let_def split: if_split_asm)
    then have "dut = Some (declared_dut dk pp)" using executed(5) by (auto simp: same_dut_def split: if_split_asm)
    then show ?thesis using executed(1) by (simp add: executed_stage_def Let_def)
  qed (use step.IH in \<open>auto simp: stage_uncompiled_def bind_stage_def Let_def\<close>)
qed

text \<open>C3: The runner with its compiler: when the compiler is the one modelled here and the digest the
  caller expects is the one it compiles with, a run returns a result or raises a \<open>ValueError\<close> and
  nothing else; the envelope of a result names the declared device under test, whether any stage
  compiled or not; and every point of the corner of every stage has an attempt in the result,
  whatever the simulator does and whichever stages are refused.\<close>

theorem compiled_run_complete:
  assumes compiler: "rn_compile env = compile_for_run dk pp corner"
    and clock: "\<And>e. as_number timeout \<noteq> Some (Inl e)" "is_finite (rn_runtime env)"
    and stages: "distinct (map sg_id (pp_stages pp))"
  shows "case execute_testbench_plan env pp corner (dk_dut_sha256 dk) timeout of
       Inl e \<Rightarrow> value_error e
     | Inr r \<Rightarrow>
         (\<exists>out validity. rr_envelope r = run_envelope env (declared_dut dk pp) corner out validity (rr_attempts r))
         \<and> (\<forall>sg \<in> set (pp_stages pp). \<forall>pt \<in> set (corner_points sg corner).
              \<exists>a \<in> set (rr_attempts r). at_stage a = sg_id sg \<and> at_point a = pt_id pt)"
proof (cases "execute_testbench_plan env pp corner (dk_dut_sha256 dk) timeout")
  case (Inl e)
  have "errs_in value_error (execute_testbench_plan env pp corner (dk_dut_sha256 dk) timeout)"
    by (rule run_failures [OF clock]) (simp add: compiler compile_for_run_json)
  then show ?thesis using Inl by simp
next
  case (Inr r)
  obtain st digest and out :: outputs where st: "run_stages env pp corner = Inr st"
    and digest: "envelope_digest pp (dk_dut_sha256 dk) st = Inr digest"
    and ats: "rr_attempts r = map (emitted_by (op_lineage out)) (rt_attempts st)"
    and envelope: "rr_envelope r = run_envelope env digest corner out
       (named_validity (vd_verdicts (all_verdicts pp corner (rt_values st) (rt_attempts st)))) (rr_attempts r)"
    by (rule run_parts [OF Inr], rule that, assumption+)
  have "digest = declared_dut dk pp"
    using digest reachable_dut [OF compiler run_stages_reachable [OF st]]
    by (auto simp: envelope_digest_def declared_dut_def or_else_def Let_def split: option.splits if_split_asm)
  moreover have "\<exists>a \<in> set (rr_attempts r). at_stage a = sg_id sg \<and> at_point a = pt_id pt"
    if member: "sg \<in> set (pp_stages pp)" "pt \<in> set (corner_points sg corner)" for sg pt
  proof -
    obtain s1 s2 where s: "run_stage env pp corner (sg_id sg) s1 = Inr s2" "set (rt_attempts s2) \<subseteq> set (rt_attempts st)"
      and sg: "map_of (stage_dict (pp_stages pp)) (sg_id sg) = Some sg"
      by (rule run_stage_reached [OF st stages member(1)])
    from run_stage_attempts [OF compiler s(1) sg member(2)] obtain a where
      a: "a \<in> set (rt_attempts s2)" "at_stage a = sg_id sg" "at_point a = pt_id pt" by blast
    then have "emitted_by (op_lineage out) a \<in> set (rr_attempts r)" using s(2) by (auto simp: ats)
    then show ?thesis using a by (intro bexI [of _ "emitted_by (op_lineage out) a"]) simp_all
  qed
  ultimately show ?thesis using envelope Inr by auto
qed

text \<open>A run with the compiler and a simulator that cannot be started.\<close>

definition stalled_env :: run_env where
  "stalled_env = sample_env
     \<lparr>rn_compile := compile_for_run sample_deck sample_prepared ''tt'',
      rn_execute := (\<lambda>cc. Inl (ValueError ''no simulator''))\<rparr>"

lemma stalled_run:
  "\<exists>r. execute_testbench_plan stalled_env sample_prepared ''tt'' (Some sample_digest) (VInt 60) = Inr r"
proof -
  obtain cp where cp: "compile_for_run sample_deck sample_prepared ''tt'' ''s'' [] = Inr cp"
    and ids: "distinct (map cc_id (cp_conditions cp))" "length (cp_conditions cp) = 2"
    by (rule sample_for_run)
  have capacity: "condition_capacity cp {} = Inr ()"
    using ids by (simp add: condition_capacity_def MAX_ENVELOPE_CONDITIONS_def Let_def)
  have "declared_dut sample_deck sample_prepared = sample_digest"
    by (simp add: declared_dut_def sample_deck_def or_else_def sample_digest_def)
  then have sha: "registered_dut_sha256 stalled_env cp = Inr sample_digest"
    using compile_for_run_dut [OF cp] sample_digest_text
    by (simp add: registered_dut_sha256_def stalled_env_def sample_env_def Let_def)
  define s0 where "s0 = executed_stage stalled_env sample_prepared ''tt'' ''s'' cp (Some sample_digest) initial_run"
  have "run_inv stalled_env sample_prepared ''tt'' s0"
    unfolding s0_def by (rule executed_inv) (rule initial_inv)
  then obtain st where st: "bind_stage stalled_env sample_prepared ''tt'' ''s'' s0 = Inr st"
    using bind_stage_total by blast
  have "map_of (stage_dict (pp_stages sample_prepared)) ''s'' = Some sample_stage"
    by (simp add: stage_dict_def sample_prepared_def sample_stage_def)
  moreover have "list_ex (\<lambda>pt. pt_corner pt = ''tt'') (sg_points sample_stage)"
    by (simp add: sample_stage_def) (simp add: sample_point_def)
  moreover have "rn_compile stalled_env ''s'' (rt_bindings initial_run) = Inr cp"
    using cp by (simp add: stalled_env_def initial_run_def)
  moreover have "execute_stage stalled_env sample_prepared ''tt'' ''s'' cp initial_run = Inr st"
    using capacity sha st by (simp add: execute_stage_executed s0_def) (simp add: initial_run_def same_dut_def)
  ultimately have run: "run_stages stalled_env sample_prepared ''tt'' = Inr st"
    by (simp add: run_stages_def sample_stages run_stage_def)
  have fields: "rt_dut st = Some sample_digest" "rt_compilations st = [cp]"
      "rt_attempts st = map (attempt_of stalled_env (point_documents sample_prepared)) (cp_conditions cp)"
    using st by (auto simp: bind_stage_def s0_def executed_stage_def initial_run_def execute_conditions_attempts(1) Let_def)
  have "envelope_digest sample_prepared (Some sample_digest) st = Inr sample_digest"
    using sample_digest_text by (simp add: envelope_digest_def fields)
  moreover have "check_inventory (rt_attempts st) = Inr ()"
    using ids by (simp add: check_inventory_def fields comp_def MAX_ENVELOPE_CONDITIONS_def)
  moreover have "is_finite (rn_runtime stalled_env)" by (simp add: stalled_env_def sample_env_def)
  moreover have "json_value (cp_receipt cp)" by (rule compile_for_run_json [OF cp])
  ultimately obtain r where r: "finish_run stalled_env sample_prepared ''tt'' (Some sample_digest) st = Inr r"
    using finish_run_errors(2) [OF reachable_inv [OF run_stages_reachable [OF run]]] fields by fastforce
  have "timeout_ok (VInt 60) = Inr ()"
    using round64_of_int [of 60] by (simp add: timeout_ok_def as_number_def float_of_int_def)
  moreover have "''tt'' \<in> cb_id ` set (pc_corners (pp_context sample_prepared))"
    by (simp add: sample_context) (simp add: sample_corner_def)
  ultimately show ?thesis using run r by (simp add: execute_testbench_plan_def)
qed

theorem compiled_run_complete_witness:
  "\<exists>r. execute_testbench_plan stalled_env sample_prepared ''tt'' (Some sample_digest) (VInt 60) = Inr r
     \<and> (\<exists>a \<in> set (rr_attempts r). at_stage a = ''s'' \<and> at_point a = ''p'')"
proof -
  obtain r where r: "execute_testbench_plan stalled_env sample_prepared ''tt'' (Some sample_digest) (VInt 60) = Inr r"
    using stalled_run by blast
  have pin: "dk_dut_sha256 sample_deck = Some sample_digest" by (simp add: sample_deck_def)
  have "rn_compile stalled_env = compile_for_run sample_deck sample_prepared ''tt''"
      "\<And>e. as_number (VInt 60) \<noteq> Some (Inl e)" "is_finite (rn_runtime stalled_env)"
      "distinct (map sg_id (pp_stages sample_prepared))"
    using round64_of_int [of 60]
    by (simp_all add: stalled_env_def sample_env_def as_number_def float_of_int_def sample_prepared_def)
  from compiled_run_complete [OF this] r have
    "\<exists>a \<in> set (rr_attempts r). at_stage a = sg_id sample_stage \<and> at_point a = pt_id sample_point"
    if "sample_stage \<in> set (pp_stages sample_prepared)" "sample_point \<in> set (corner_points sample_stage ''tt'')"
    using that unfolding pin by simp
  moreover have "sample_stage \<in> set (pp_stages sample_prepared)" by (simp add: sample_prepared_def)
  moreover have "sample_point \<in> set (corner_points sample_stage ''tt'')"
    by (simp add: corner_points_def sample_stage_def) (simp add: sample_point_def)
  moreover have "sg_id sample_stage = ''s''" "pt_id sample_point = ''p''" by (simp_all add: sample_stage_def sample_point_def)
  ultimately show ?thesis using r by auto
qed

end
