(* ===== verification/RequestFields.thy ===== *)
theory RequestFields
  imports MeasureSeries
begin

text \<open>
  What \<open>operations/result_transfer_measure.py\<close> and \<open>operations/result_spectral_measure.py\<close> share: the
  outcomes of a step, the field validators, which the two files repeat with their own diagnostic codes,
  and rules for what a step raises and what it returns.
\<close>

section \<open>Outcomes\<close>

text \<open>
  The private exceptions of the modules, which end in a refused request and in an unresolved
  measurement, and the built-in exceptions.
\<close>

datatype terror = Refuse string string | Unresolved string string | Raised pyexc

type_synonym 'a tres = "terror + 'a"

definition raising :: "'a pyres \<Rightarrow> 'a tres" where
  "raising m = (case m of Inl e \<Rightarrow> Inl (Raised e) | Inr a \<Rightarrow> Inr a)"

lemma raising_Inr [simp]: "raising m = Inr a \<longleftrightarrow> m = Inr a"
  by (cases m) (simp_all add: raising_def)

lemma raising_simps [simp]: "raising (Inl e) = Inl (Raised e)" "raising (Inr a) = Inr a"
  by (simp_all add: raising_def)

section \<open>Field validators\<close>

text \<open>The validators that the modules repeat, up to the diagnostic code of a refused request.\<close>

definition closed_fields :: "string \<Rightarrow> pyval \<Rightarrow> string \<Rightarrow> string list \<Rightarrow> string list \<Rightarrow> pydict tres" where
  "closed_fields code value label required optional =
     (case as_dict value of
        None \<Rightarrow> Inl (Refuse code (label @ '' must be an object.''))
      | Some d \<Rightarrow>
          (if \<not> list_all (is_str \<circ> fst) d
           then Inl (Refuse code (label @ '' field names must be strings.''))
           else
             (let missing = filter (\<lambda>k. k \<notin> set (str_keys d)) required;
                  extra = filter (\<lambda>k. k \<notin> set required \<and> k \<notin> set optional) (str_keys d)
              in if missing \<noteq> []
                 then Inl (Refuse code (label @ '' is missing required fields: '' @ join '', '' (sorted_texts missing) @ ''.''))
                 else if extra \<noteq> []
                 then Inl (Refuse code (label @ '' contains undeclared fields: '' @ join '', '' (sorted_texts extra) @ ''.''))
                 else Inr d)))"

definition text_field :: "string \<Rightarrow> pyval \<Rightarrow> string \<Rightarrow> nat \<Rightarrow> string tres" where
  "text_field code v label limit =
     (let refused = Inl (Refuse code (label @ '' must be nonempty text of at most '' @ dec_nat limit @ '' characters.''))
      in case as_str v of
           None \<Rightarrow> refused
         | Some t \<Rightarrow> if t = [] \<or> limit < length t then refused else Inr t)"

definition extensions_field :: "string \<Rightarrow> pyval \<Rightarrow> string \<Rightarrow> unit tres" where
  "extensions_field code v label =
     pbind (closed_fields code v label [] []) (\<lambda>item.
     if item \<noteq> [] then Inl (Refuse code (label @ '' must be empty in v1alpha1.'')) else Inr ())"

text \<open>The correlation identity, or the message of the refusal.\<close>

definition request_identity :: "py_env \<Rightarrow> pyval \<Rightarrow> string + string" where
  "request_identity env v =
     (if v = VNone then Inr (new_uuid env)
      else (case Option.bind (as_str v) (\<lambda>t. map_option (\<lambda>n. (t, n)) (uuid_parse t)) of
          None \<Rightarrow> Inl ''request_id must be a canonical UUID.''
        | Some (t, n) \<Rightarrow> if uuid_str n \<noteq> t then Inl ''request_id must be a canonical lowercase UUID.'' else Inr t))"

text \<open>\<open>value == expected\<close> for a text or a finite float on the right.\<close>

definition equals_expected :: "pyval \<Rightarrow> pyval \<Rightarrow> bool" where
  "equals_expected v expected =
     (case expected of
        VFloat (PFin q) \<Rightarrow>
          (case v of VFloat x \<Rightarrow> feq x (PFin q) | VInt i \<Rightarrow> of_int i = q
           | VBool b \<Rightarrow> (if b then 1 else 0) = q | _ \<Rightarrow> False)
      | _ \<Rightarrow> v = expected)"

definition repr_expected :: "pyval \<Rightarrow> string" where
  "repr_expected v = (case v of VStr t \<Rightarrow> repr_text t | VFloat (PFin q) \<Rightarrow> repr_float q | _ \<Rightarrow> [])"

definition expect_field :: "string \<Rightarrow> string \<Rightarrow> pyval \<Rightarrow> pyval \<Rightarrow> string \<Rightarrow> unit tres" where
  "expect_field code method v expected label =
     (if equals_expected v expected then Inr ()
      else Inl (Refuse code (label @ '' must be exactly '' @ repr_expected expected @ '' for '' @ method @ ''.'')))"

text \<open>A refusal of the series keeps its message and gets the code of the module.\<close>

definition series_result :: "string \<Rightarrow> series pyres \<Rightarrow> series tres" where
  "series_result code m =
     (case m of Inl (InvalidRequest c msg) \<Rightarrow> Inl (Refuse code msg)
      | Inl e \<Rightarrow> Inl (Raised e) | Inr n \<Rightarrow> Inr n)"

definition signal_named :: "series \<Rightarrow> string \<Rightarrow> signal_rec tres" where
  "signal_named n name =
     (case find (\<lambda>g. g_name g = name) (r_signals n) of
        None \<Rightarrow> Inl (Raised (KeyError (repr_text name))) | Some g \<Rightarrow> Inr g)"

section \<open>What a step returns\<close>

text \<open>\<open>returns P m\<close>: if \<open>m\<close> raises nothing, its result satisfies \<open>P\<close>.\<close>

definition returns :: "('a \<Rightarrow> bool) \<Rightarrow> 'e + 'a \<Rightarrow> bool" where
  "returns P m \<longleftrightarrow> (case m of Inl e \<Rightarrow> True | Inr a \<Rightarrow> P a)"

named_theorems ret_intros

lemma returns_intros [ret_intros]:
  "returns P (Inl e)"
  "P a \<Longrightarrow> returns P (Inr a)"
  "(\<And>b. q = Inr b \<Longrightarrow> returns P (f b)) \<Longrightarrow> returns P (pbind q f)"
  "(c \<Longrightarrow> returns P m) \<Longrightarrow> (\<not> c \<Longrightarrow> returns P n) \<Longrightarrow> returns P (if c then m else n)"
  "(x = None \<Longrightarrow> returns P m) \<Longrightarrow> (\<And>y. x = Some y \<Longrightarrow> returns P (s y)) \<Longrightarrow>
   returns P (case x of None \<Rightarrow> m | Some y \<Rightarrow> s y)"
  "(\<And>e. z = Inl e \<Longrightarrow> returns P (h e)) \<Longrightarrow> (\<And>y. z = Inr y \<Longrightarrow> returns P (g y)) \<Longrightarrow>
   returns P (case z of Inl e \<Rightarrow> h e | Inr y \<Rightarrow> g y)"
  "(\<And>u v. w = (u, v) \<Longrightarrow> returns P (k u v)) \<Longrightarrow> returns P (case w of (u, v) \<Rightarrow> k u v)"
  "returns P (f' a') \<Longrightarrow> returns P (Let a' f')"
  by (cases q; cases x; cases z; cases w; simp add: returns_def)+

lemma returnsD: "returns P m \<Longrightarrow> m = Inr a \<Longrightarrow> P a"
  by (simp add: returns_def)

section \<open>What the validators raise\<close>

lemma field_refusals [err_intros]:
  assumes "\<And>c msg. P (Refuse c msg)"
  shows "errs_in P (closed_fields code v label req opt)" "errs_in P (text_field code v label limit)"
    "errs_in P (extensions_field code v label)" "errs_in P (expect_field code method v w label)"
  using assms
  by (auto simp: closed_fields_def text_field_def extensions_field_def expect_field_def Let_def
      intro!: errs_in_pbind split: option.split)

lemma errs_in_Inr [err_intros]: "errs_in P (Inr a)"
  by simp

lemma series_result_errors:
  "errs_in refusal m \<Longrightarrow> (\<And>c msg. P (Refuse c msg)) \<Longrightarrow> errs_in P (series_result code m)"
  by (cases m) (auto simp: series_result_def refusal_def split: pyexc.splits)

lemma series_result_Inr [simp]: "series_result code m = Inr n \<longleftrightarrow> m = Inr n"
  by (auto simp: series_result_def split: sum.splits pyexc.splits)

section \<open>What the validators return\<close>

lemma closed_fields_obj [simp]:
  "set req \<subseteq> fst ` set fs \<Longrightarrow> fst ` set fs \<subseteq> set req \<union> set opt \<Longrightarrow>
   closed_fields code (obj fs) label req opt = Inr (map (\<lambda>(k, v). (VStr k, v)) fs)"
  by (auto simp: closed_fields_def filter_empty_conv list_all_iff image_subset_iff)

lemma text_field_value [simp]: "t \<noteq> [] \<Longrightarrow> length t \<le> limit \<Longrightarrow> text_field code (VStr t) label limit = Inr t"
  by (simp add: text_field_def Let_def)

lemma extensions_field_empty [simp]: "extensions_field code (VDict []) label = Inr ()"
  using closed_fields_obj [of "[]" "[]" "[]" code label] by (simp add: extensions_field_def obj_def)

end
