(* ===== verification/TransferModel.thy ===== *)
theory TransferModel
  imports RequestFields
begin

text \<open>
  The request of \<open>openada/operations/result_transfer_measure.py\<close>: the closed transfer document, its
  two operands, single-ended or differential, the frozen method and the metric.
\<close>

section \<open>Field validators\<close>

abbreviation t_request :: "string \<Rightarrow> terror" where
  "t_request msg \<equiv> Refuse ''transfer.request.invalid'' msg"

definition t_closed :: "pyval \<Rightarrow> string \<Rightarrow> string list \<Rightarrow> string list \<Rightarrow> pydict tres" where
  "t_closed = closed_fields ''transfer.request.invalid''"

definition t_text :: "pyval \<Rightarrow> string \<Rightarrow> nat \<Rightarrow> string tres" where
  "t_text = text_field ''transfer.request.invalid''"

definition t_extensions :: "pyval \<Rightarrow> string \<Rightarrow> unit tres" where
  "t_extensions = extensions_field ''transfer.request.invalid''"

section \<open>The method\<close>

definition METHOD_ID :: string where
  "METHOD_ID = ''openada.method/ac-complex-ratio-log-interpolation/v1alpha1''"

definition expected_method :: "(string \<times> pyval) list" where
  "expected_method =
     [(''id'', VStr METHOD_ID), (''ratio'', VStr ''output-over-input''),
      (''phase_unwrap'', VStr ''first-principal-then-nearest-delta''), (''first_phase_range'', VStr ''[-180,180)''),
      (''interpolation'', VStr ''linear-value-over-log10-frequency''),
      (''crossing_policy'', VStr ''require-single-falling''),
      (''bandwidth_reference'', VStr ''first-simulated-frequency-magnitude''),
      (''bandwidth_drop_db'', VFloat (PFin 3)),
      (''phase_margin_definition'', VStr ''180deg-plus-unwrapped-loop-phase-at-unity'')]"

definition t_expect :: "pyval \<Rightarrow> pyval \<Rightarrow> string \<Rightarrow> unit tres" where
  "t_expect = expect_field ''transfer.method.unsupported'' METHOD_ID"

lemmas t_fields = t_closed_def t_text_def t_extensions_def t_expect_def

definition t_method :: "pyval \<Rightarrow> unit tres" where
  "t_method v =
     pbind (t_closed v ''transfer.method'' (map fst expected_method) []) (\<lambda>method.
     pbind (map_res (\<lambda>(name, expected). t_expect (dget method name) expected (''transfer.method.'' @ name))
              expected_method) (\<lambda>us. Inr ()))"

section \<open>Operands\<close>

record phasor_operand =
  op_real :: string
  op_imaginary :: string
  op_negative :: "(string \<times> string) option"

definition operand_names :: "phasor_operand \<Rightarrow> string list" where
  "operand_names p =
     [op_real p, op_imaginary p] @ (case op_negative p of None \<Rightarrow> [] | Some (a, b) \<Rightarrow> [a, b])"

definition t_operand :: "pyval \<Rightarrow> string \<Rightarrow> phasor_operand tres" where
  "t_operand v label =
     pbind (t_closed v label [''real'', ''imaginary''] [''negative_real'', ''negative_imaginary'']) (\<lambda>pair.
     pbind (t_text (dget pair ''real'') (label @ ''.real'') 256) (\<lambda>re.
     pbind (t_text (dget pair ''imaginary'') (label @ ''.imaginary'') 256) (\<lambda>im.
     let r = dhas pair ''negative_real''; i = dhas pair ''negative_imaginary''
     in if r \<noteq> i
        then Inl (t_request (label @ '' declares '' @ repr_text (if r then ''negative_real'' else ''negative_imaginary'')
          @ '' without '' @ repr_text (if r then ''negative_imaginary'' else ''negative_real'')
          @ ''; a differential terminal needs both Cartesian components or neither.''))
        else
        pbind (if r
               then pbind (t_text (dget pair ''negative_real'') (label @ ''.negative_real'') 256) (\<lambda>a.
                    pbind (t_text (dget pair ''negative_imaginary'') (label @ ''.negative_imaginary'') 256) (\<lambda>b.
                    Inr (Some (a, b))))
               else Inr None) (\<lambda>negative.
        let p = \<lparr>op_real = re, op_imaginary = im, op_negative = negative\<rparr>
        in if \<not> distinct (operand_names p)
           then Inl (t_request (label @ '' must name a different series for each Cartesian component.''))
           else Inr p))))"

section \<open>The metric\<close>

definition metric_unit :: "string \<Rightarrow> string option" where
  "metric_unit kind =
     map_of [(''low_frequency_gain_db'', ''dB''), (''low_frequency_impedance'', ''Ohm''),
             (''ac_magnitude_at_frequency'', ''dB''), (''bandwidth_3db'', ''Hz''),
             (''unity_gain_frequency'', ''Hz''), (''phase_margin'', ''deg'')] kind"

definition t_at :: "pyval \<Rightarrow> pyfloat tres" where
  "t_at v =
     pbind (t_closed v ''transfer.metric.at'' [''value'', ''unit''] []) (\<lambda>item.
     let refused = Inl (t_request ''transfer.metric.at.value must be one finite positive number.'')
     in if dget item ''unit'' \<noteq> VStr ''Hz''
        then Inl (Refuse ''transfer.unit.mismatch''
          (''transfer.metric.at.unit must be exactly '' @ repr_text ''Hz'' @ ''.''))
        else (case as_number (dget item ''value'') of
            None \<Rightarrow> refused
          | Some (Inl e) \<Rightarrow> refused
          | Some (Inr x) \<Rightarrow> if \<not> is_finite x \<or> fle x (PFin 0) then refused else Inr x))"

definition t_metric :: "string \<Rightarrow> pyval \<Rightarrow> (string \<times> string \<times> pyfloat option) tres" where
  "t_metric interpretation v =
     pbind (t_closed v ''transfer.metric'' [''kind'', ''unit''] [''at'']) (\<lambda>metric.
     pbind (t_text (dget metric ''kind'') ''transfer.metric.kind'' 48) (\<lambda>kind.
     case metric_unit kind of
       None \<Rightarrow> Inl (Refuse ''transfer.metric.unsupported'' (''Unsupported transfer metric '' @ repr_text kind @ ''.''))
     | Some unit \<Rightarrow>
         if dget metric ''unit'' \<noteq> VStr unit
         then Inl (Refuse ''transfer.unit.mismatch''
           (''transfer.metric.unit must be exactly '' @ repr_text unit @ '' for '' @ repr_text kind @ ''.''))
         else if kind = ''phase_margin'' \<and> interpretation \<noteq> ''loop-gain-negative-feedback''
         then Inl (Refuse ''transfer.phase_margin.invalid_context''
           (''phase_margin requires interpretation '' @ repr_text ''loop-gain-negative-feedback'' @ ''.''))
         else if kind = ''ac_magnitude_at_frequency''
         then (if \<not> dhas metric ''at''
               then Inl (t_request (''transfer.metric.at is required for '' @ repr_text ''ac_magnitude_at_frequency'' @ ''.''))
               else pbind (t_at (dget metric ''at'')) (\<lambda>x. Inr (kind, unit, Some x)))
         else if dhas metric ''at''
         then Inl (t_request (''transfer.metric.at is only declared for '' @ repr_text ''ac_magnitude_at_frequency''
           @ '', not '' @ repr_text kind @ ''.''))
         else Inr (kind, unit, None)))"

section \<open>The request\<close>

record transfer_request =
  tr_id :: string
  tr_input :: phasor_operand
  tr_output :: phasor_operand
  tr_interpretation :: string
  tr_kind :: string
  tr_unit :: string
  tr_frequency :: "pyfloat option"

definition normalize_transfer :: "pyval \<Rightarrow> transfer_request tres" where
  "normalize_transfer v =
     pbind (t_closed v ''transfer''
              [''measurement_id'', ''input'', ''output'', ''interpretation'', ''method'', ''metric'', ''extensions''] [])
       (\<lambda>root.
     pbind (t_extensions (dget root ''extensions'') ''transfer.extensions'') (\<lambda>u.
     pbind (t_text (dget root ''measurement_id'') ''transfer.measurement_id'' 120) (\<lambda>ident.
     if \<not> canonical_role ident
     then Inl (t_request ''transfer.measurement_id is not a canonical identifier.'')
     else
     pbind (t_operand (dget root ''input'') ''transfer.input'') (\<lambda>inp.
     pbind (t_operand (dget root ''output'') ''transfer.output'') (\<lambda>out.
     if \<not> distinct (operand_names inp @ operand_names out)
     then Inl (t_request ''Every input/output Cartesian component series must have a unique name.'')
     else
     pbind (t_text (dget root ''interpretation'') ''transfer.interpretation'' 48) (\<lambda>interpretation.
     if interpretation \<notin> {''forward'', ''loop-gain-negative-feedback''}
     then Inl (t_request (''transfer.interpretation must be '' @ repr_text ''forward'' @ '' or ''
       @ repr_text ''loop-gain-negative-feedback'' @ ''.''))
     else
     pbind (t_method (dget root ''method'')) (\<lambda>u.
     pbind (t_metric interpretation (dget root ''metric'')) (\<lambda>(kind, unit, frequency).
     Inr \<lparr>tr_id = ident, tr_input = inp, tr_output = out, tr_interpretation = interpretation, tr_kind = kind,
          tr_unit = unit, tr_frequency = frequency\<rparr>))))))))"

definition operand_fields :: "phasor_operand \<Rightarrow> (string \<times> pyval) list" where
  "operand_fields p =
     [(''real'', VStr (op_real p)), (''imaginary'', VStr (op_imaginary p))]
     @ (case op_negative p of None \<Rightarrow> []
        | Some (a, b) \<Rightarrow> [(''negative_real'', VStr a), (''negative_imaginary'', VStr b)])"

definition request_json :: "transfer_request \<Rightarrow> pyval" where
  "request_json r =
     obj [(''measurement_id'', VStr (tr_id r)), (''input'', obj (operand_fields (tr_input r))),
          (''output'', obj (operand_fields (tr_output r))), (''interpretation'', VStr (tr_interpretation r)),
          (''method'', obj expected_method),
          (''metric'', obj ([(''kind'', VStr (tr_kind r)), (''unit'', VStr (tr_unit r))]
             @ (case tr_frequency r of None \<Rightarrow> []
                | Some x \<Rightarrow> [(''at'', obj [(''value'', VFloat x), (''unit'', VStr ''Hz'')])]))),
          (''extensions'', VDict [])]"

end
