(* ===== verification/TransferTrace.thy ===== *)
theory TransferTrace
  imports TransferModel "HOL-Library.While_Combinator"
begin

text \<open>
  The numerical core of \<open>openada/operations/result_transfer_measure.py\<close>: complex ratios, their decibels
  and unwrapped phases, falling crossings and interpolation over the logarithm of the frequency.
\<close>

section \<open>Functions of the C library\<close>

text \<open>
  The \<open>math\<close> functions that are not computed by rounding an exact rational result, the magnitude of a
  complex number, \<open>10.0 ** x\<close>, and the text of what they raise.
\<close>

record libm =
  lm_log :: "pyfloat \<Rightarrow> pyfloat pyres"
  lm_log10 :: "pyfloat \<Rightarrow> pyfloat pyres"
  lm_log1p :: "pyfloat \<Rightarrow> pyfloat pyres"
  lm_atan2 :: "pyfloat \<Rightarrow> pyfloat \<Rightarrow> pyfloat pyres"
  lm_abs :: "pyfloat \<times> pyfloat \<Rightarrow> pyfloat pyres"
  lm_pow10 :: "pyfloat \<Rightarrow> pyfloat pyres"
  lm_message :: "pyexc \<Rightarrow> string"

section \<open>Complex numbers\<close>

type_synonym pycomplex = "pyfloat \<times> pyfloat"

definition complex_sub :: "pycomplex \<Rightarrow> pycomplex \<Rightarrow> pycomplex" where
  "complex_sub a b = (fsub (fst a) (fst b), fsub (snd a) (snd b))"

definition complex_zero :: "pycomplex \<Rightarrow> bool" where
  "complex_zero a \<longleftrightarrow> feq (fst a) (PFin 0) \<and> feq (snd a) (PFin 0)"

text \<open>Division of doubles in C; the divisors below are not zero.\<close>

definition ieee_div :: "pyfloat \<Rightarrow> pyfloat \<Rightarrow> pyfloat" where
  "ieee_div x y = (case fdiv x y of Inr z \<Rightarrow> z | Inl e \<Rightarrow> PNaN)"

text \<open>The quotient as the interpreter computes it, scaled by the larger component of the divisor.\<close>

definition complex_div :: "pycomplex \<Rightarrow> pycomplex \<Rightarrow> pycomplex pyres" where
  "complex_div a b =
     (case a of (ar, ai) \<Rightarrow> case b of (br, bi) \<Rightarrow>
        if fle (fabs bi) (fabs br)
        then (if feq br (PFin 0) then Inl ZeroDivisionError
              else let ratio = ieee_div bi br; denom = fadd br (fmul bi ratio)
                   in Inr (ieee_div (fadd ar (fmul ai ratio)) denom, ieee_div (fsub ai (fmul ar ratio)) denom))
        else if fle (fabs br) (fabs bi)
        then (let ratio = ieee_div br bi; denom = fadd (fmul br ratio) bi
              in Inr (ieee_div (fadd (fmul ar ratio) ai) denom, ieee_div (fsub (fmul ai ratio) ar) denom))
        else Inr (PNaN, PNaN))"

section \<open>Operands of a series\<close>

definition t_operand_unit :: "series \<Rightarrow> phasor_operand \<Rightarrow> string \<Rightarrow> string tres" where
  "t_operand_unit n p label =
     pbind (map_res (signal_named n) (operand_names p)) (\<lambda>gs.
     case remdups (map g_unit gs) of
       [u] \<Rightarrow> Inr u
     | us \<Rightarrow> Inl (Refuse ''transfer.unit.mismatch''
         (''Every Cartesian component of '' @ label @ '' must carry the same unit; the declared series carry ''
          @ join '', '' (sorted_texts us) @ ''.'')))"

definition terminal_phasors :: "series \<Rightarrow> string \<Rightarrow> string \<Rightarrow> pycomplex list tres" where
  "terminal_phasors n re im =
     pbind (signal_named n re) (\<lambda>a. pbind (signal_named n im) (\<lambda>b. Inr (zip (g_values a) (g_values b))))"

definition operand_phasors :: "series \<Rightarrow> phasor_operand \<Rightarrow> pycomplex list tres" where
  "operand_phasors n p =
     pbind (terminal_phasors n (op_real p) (op_imaginary p)) (\<lambda>positive.
     case op_negative p of
       None \<Rightarrow> Inr positive
     | Some (re, im) \<Rightarrow> pbind (terminal_phasors n re im) (\<lambda>negative. Inr (map2 complex_sub positive negative)))"

section \<open>Ratios\<close>

definition ratio_point :: "libm \<Rightarrow> nat \<Rightarrow> pycomplex \<times> pycomplex \<Rightarrow> (pycomplex \<times> pyfloat) tres" where
  "ratio_point lm index point =
     (case point of (input, output) \<Rightarrow>
        if complex_zero input \<or> complex_zero output
        then Inl (Unresolved ''transfer.ratio.undefined''
          (''A finite magnitude/phase trace cannot be represented at AC point '' @ dec_nat index
           @ ''; zero input or output magnitude is not floored in v1alpha1.''))
        else
        pbind (raising (complex_div output input)) (\<lambda>ratio.
        pbind (raising (lm_abs lm ratio)) (\<lambda>magnitude.
        pbind (raising (lm_log10 lm magnitude)) (\<lambda>log.
        let db = fmul (PFin 20) log
        in if \<not> (is_finite (fst ratio) \<and> is_finite (snd ratio) \<and> is_finite db)
           then Inl (Unresolved ''transfer.value.non_finite''
             (''The complex ratio produced a non-finite value at AC point '' @ dec_nat index @ ''.''))
           else Inr (ratio, db)))))"

definition ratio_trace :: "libm \<Rightarrow> pycomplex list \<Rightarrow> pycomplex list \<Rightarrow> (pycomplex \<times> pyfloat) list tres" where
  "ratio_trace lm inputs outputs = map_res_i (ratio_point lm) 0 (zip inputs outputs)"

section \<open>Phases\<close>

text \<open>\<open>math.degrees\<close> multiplies by the double nearest to \<open>180 / pi\<close> of the double \<open>pi\<close>.\<close>

definition radians_degrees :: pyfloat where
  "radians_degrees = round64 (180 / (884279719003555 / 281474976710656))"

definition principal_phase :: "libm \<Rightarrow> pycomplex \<Rightarrow> pyfloat tres" where
  "principal_phase lm z =
     pbind (raising (lm_atan2 lm (snd z) (fst z))) (\<lambda>angle.
     let phase = fmul angle radians_degrees
     in Inr (if fle (PFin 180) phase then fsub phase (PFin 360) else phase))"

definition lower_turns :: "pyfloat \<Rightarrow> pyfloat \<Rightarrow> pyfloat option" where
  "lower_turns previous candidate =
     while_option (\<lambda>c. fle (PFin 180) (fsub c previous)) (\<lambda>c. fsub c (PFin 360)) candidate"

definition raise_turns :: "pyfloat \<Rightarrow> pyfloat \<Rightarrow> pyfloat option" where
  "raise_turns previous candidate =
     while_option (\<lambda>c. flt (fsub c previous) (PFin (- 180))) (\<lambda>c. fadd c (PFin 360)) candidate"

text \<open>Nothing when one of the loops does not end.\<close>

fun unwrap_from :: "pyfloat \<Rightarrow> pyfloat list \<Rightarrow> pyfloat list tres option" where
  "unwrap_from previous [] = Some (Inr [])"
| "unwrap_from previous (phase # phases) =
     Option.bind (lower_turns previous phase) (\<lambda>lowered.
     Option.bind (raise_turns previous lowered) (\<lambda>candidate.
     if \<not> is_finite candidate
     then Some (Inl (Unresolved ''transfer.value.non_finite'' ''Phase unwrapping produced a non-finite value.''))
     else map_option (\<lambda>later. pbind later (\<lambda>ps. Inr (candidate # ps))) (unwrap_from candidate phases)))"

definition unwrap_phase :: "libm \<Rightarrow> pycomplex list \<Rightarrow> pyfloat list tres option" where
  "unwrap_phase lm zs =
     (case map_res (principal_phase lm) zs of
        Inl e \<Rightarrow> Some (Inl e)
      | Inr [] \<Rightarrow> Some (Inl (Raised (OtherError ''IndexError'' ''list index out of range'')))
      | Inr (p # ps) \<Rightarrow> map_option (\<lambda>later. pbind later (\<lambda>us. Inr (p # us))) (unwrap_from p ps))"

section \<open>Crossings\<close>

record falling_crossing =
  fc_frequency :: pyfloat
  fc_magnitude :: pyfloat
  fc_phase :: pyfloat

type_synonym trace_point = "pyfloat \<times> pyfloat \<times> pyfloat"

definition falls :: "pyfloat \<Rightarrow> pyfloat \<Rightarrow> pyfloat \<Rightarrow> bool" where
  "falls threshold y0 y1 \<longleftrightarrow> flt threshold y0 \<and> fle y1 threshold"

definition crossing_at :: "libm \<Rightarrow> pyfloat \<Rightarrow> trace_point \<Rightarrow> trace_point \<Rightarrow> falling_crossing tres" where
  "crossing_at lm threshold left right =
     (case left of (f0, y0, p0) \<Rightarrow> case right of (f1, y1, p1) \<Rightarrow>
        pbind (raising (fdiv (fsub threshold y0) (fsub y1 y0))) (\<lambda>fraction.
        pbind (raising (lm_log10 lm f0)) (\<lambda>l0.
        pbind (raising (lm_log10 lm f1)) (\<lambda>l1.
        pbind (raising (lm_pow10 lm (fadd l0 (fmul fraction (fsub l1 l0))))) (\<lambda>frequency.
        let phase = fadd p0 (fmul fraction (fsub p1 p0))
        in if \<not> is_finite frequency \<or> \<not> is_finite phase
           then Inl (Unresolved ''transfer.value.non_finite''
             ''Log-frequency crossing interpolation produced a non-finite value.'')
           else Inr \<lparr>fc_frequency = frequency, fc_magnitude = threshold, fc_phase = phase\<rparr>)))))"

fun falling_crossings :: "libm \<Rightarrow> pyfloat \<Rightarrow> trace_point list \<Rightarrow> falling_crossing list tres" where
  "falling_crossings lm threshold (a # b # rest) =
     pbind (if falls threshold (fst (snd a)) (fst (snd b))
            then pbind (crossing_at lm threshold a b) (\<lambda>c. Inr [c]) else Inr []) (\<lambda>now.
     pbind (falling_crossings lm threshold (b # rest)) (\<lambda>later. Inr (now @ later)))"
| "falling_crossings lm threshold points = Inr []"

definition crossing_status :: "falling_crossing list \<Rightarrow> string" where
  "crossing_status cs =
     (if length cs = 1 then ''measured'' else if cs \<noteq> [] then ''ambiguous'' else ''not_found'')"

section \<open>Magnitude at a frequency\<close>

definition log10_span :: "libm \<Rightarrow> pyfloat \<Rightarrow> pyfloat \<Rightarrow> pyfloat tres" where
  "log10_span lm low high =
     pbind (raising (fdiv (fsub high low) low)) (\<lambda>offset.
     if is_finite offset
     then pbind (raising (lm_log1p lm offset)) (\<lambda>a. pbind (raising (lm_log lm (PFin 10))) (\<lambda>b.
          raising (fdiv a b)))
     else pbind (raising (lm_log10 lm high)) (\<lambda>a. pbind (raising (lm_log10 lm low)) (\<lambda>b. Inr (fsub a b))))"

text \<open>Index -1 is the last point, as the list is read before its first point.\<close>

fun magnitude_from :: "libm \<Rightarrow> pyfloat \<Rightarrow> pyfloat \<times> pyfloat \<Rightarrow> (pyfloat \<times> pyfloat) list \<Rightarrow> pyfloat tres" where
  "magnitude_from lm position before [] =
     Inl (Unresolved ''transfer.value.non_finite'' ''The requested frequency was not bracketed by the simulated axis.'')"
| "magnitude_from lm position before ((frequency, db) # rest) =
     (if feq frequency position then Inr db
      else if flt position frequency
      then pbind (log10_span lm (fst before) frequency) (\<lambda>denominator.
           if feq denominator (PFin 0)
           then Inl (Refuse ''transfer.domain.invalid''
             (''The adjacent simulated frequencies bracketing transfer.metric.at are not resolvable on the log10 ''
              @ ''axis in double precision.''))
           else pbind (log10_span lm (fst before) position) (\<lambda>numerator.
                pbind (raising (fdiv numerator denominator)) (\<lambda>fraction.
                Inr (fadd (snd before) (fmul fraction (fsub db (snd before)))))))
      else magnitude_from lm position (frequency, db) rest)"

definition magnitude_at :: "libm \<Rightarrow> (pyfloat \<times> pyfloat) list \<Rightarrow> pyfloat \<Rightarrow> pyfloat tres" where
  "magnitude_at lm points position =
     (case points of
        [] \<Rightarrow> magnitude_from lm position (PNaN, PNaN) []
      | _ \<Rightarrow> magnitude_from lm position (last points) points)"

end
