(* ===== verification/TransferMeasure.thy ===== *)
theory TransferMeasure
  imports TransferTrace MeasureResult
begin

text \<open>
  The operation \<open>result.transfer.measure\<close> (\<open>openada/operations/result_transfer_measure.py\<close>): one scalar
  and its closed output-over-input trace from a series of real and imaginary parts.
\<close>

section \<open>Records of the result\<close>

record analysis_record =
  an_request :: transfer_request
  an_input_unit :: string
  an_output_unit :: string
  an_ratio_unit :: string
  an_frequencies :: "pyfloat list"
  an_magnitudes :: "pyfloat list"
  an_phases :: "pyfloat list"
  an_reference :: pyfloat
  an_threshold :: pyfloat
  an_bandwidth :: "falling_crossing list"
  an_unity :: "falling_crossing list"
  an_sha256 :: string

record transfer_record =
  tf_status :: string
  tf_analysis :: "analysis_record option"

definition empty_transfer :: transfer_record where
  "empty_transfer = \<lparr>tf_status = ''unknown'', tf_analysis = None\<rparr>"

definition crossing_json :: "falling_crossing \<Rightarrow> pyval" where
  "crossing_json c =
     obj [(''frequency_hz'', VFloat (fc_frequency c)), (''magnitude_db'', VFloat (fc_magnitude c)),
          (''phase_deg'', VFloat (fc_phase c))]"

definition crossing_record :: "falling_crossing list \<Rightarrow> pyfloat \<Rightarrow> pyval" where
  "crossing_record cs threshold =
     obj [(''status'', VStr (crossing_status cs)), (''threshold_db'', VFloat threshold),
          (''count'', VInt (int (length cs))), (''candidates'', VList (map crossing_json cs))]"

definition excluded_metrics :: pyval where
  "excluded_metrics =
     VList [obj [(''metric'', VStr ''gain_margin''),
                 (''reason'', VStr ''v1alpha1 does not infer a phase crossing or gain margin.'')]]"

definition transfer_json :: "transfer_record \<Rightarrow> pyval" where
  "transfer_json t =
     (case tf_analysis t of
        None \<Rightarrow> obj [(''status'', VStr (tf_status t)), (''request_sha256'', VNone), (''method'', VNone),
          (''interpretation'', VNone), (''signals'', VNone), (''reference'', VNone), (''trace'', VNone),
          (''crossings'', VNone), (''excluded_metrics'', excluded_metrics), (''extensions'', VDict [])]
      | Some a \<Rightarrow> obj [(''status'', VStr (tf_status t)), (''request_sha256'', VStr (an_sha256 a)),
          (''method'', obj expected_method), (''interpretation'', VStr (tr_interpretation (an_request a))),
          (''signals'', obj [
             (''input'', obj (operand_fields (tr_input (an_request a)) @ [(''unit'', VStr (an_input_unit a))])),
             (''output'', obj (operand_fields (tr_output (an_request a)) @ [(''unit'', VStr (an_output_unit a))])),
             (''ratio'', VStr ''output-over-input'')]),
          (''reference'', obj [(''kind'', VStr ''first-simulated-frequency-not-dc''),
             (''frequency_hz'', VFloat (hd (an_frequencies a))), (''magnitude_db'', VFloat (hd (an_magnitudes a))),
             (''magnitude'', VFloat (an_reference a)), (''unit'', VStr (an_ratio_unit a))]),
          (''trace'', obj [(''frequency_hz'', VList (map VFloat (an_frequencies a))),
             (''magnitude_db'', VList (map VFloat (an_magnitudes a))),
             (''phase_deg'', VList (map VFloat (an_phases a))),
             (''phase_representation'', VStr ''unwrapped-degrees'')]),
          (''crossings'', obj [(''bandwidth_3db'', crossing_record (an_bandwidth a) (an_threshold a)),
             (''unity_gain'', crossing_record (an_unity a) (PFin 0))]),
          (''excluded_metrics'', excluded_metrics), (''extensions'', VDict [])])"

definition TRANSFER_VERSION :: string where "TRANSFER_VERSION = ''1.1.0''"

definition transfer_algorithm :: "string option \<Rightarrow> string" where
  "transfer_algorithm kind =
     (case kind of None \<Rightarrow> METHOD_ID
      | Some k \<Rightarrow> ''openada.algorithm/transfer.'' @ map (\<lambda>c. if c = CHR ''_'' then CHR ''-'' else c) k @ ''/v1alpha1'')"

text \<open>The measurement record has the fields of \<open>result.measure\<close>; the unit is that of the kind.\<close>

definition transfer_template ::
  "string option \<Rightarrow> string option \<Rightarrow> string option \<Rightarrow> evidence_source option \<Rightarrow> measurement" where
  "transfer_template ident kind signal source =
     \<lparr>m_id = ident, m_kind = kind, m_status = ''unknown'', m_request_sha256 = None, m_value = None,
      m_unit_name = Option.bind kind metric_unit, m_signal_name = signal, m_location = None, m_sample_count = 0,
      m_evidence = source\<rparr>"

definition transfer_measurement_json :: "measurement \<Rightarrow> pyval" where
  "transfer_measurement_json m =
     obj [(''measurement_id'', opt_val VStr (m_id m)), (''kind'', opt_val VStr (m_kind m)),
          (''status'', VStr (m_status m)), (''request_sha256'', opt_val VStr (m_request_sha256 m)),
          (''value'', opt_val VFloat (m_value m)), (''unit'', opt_val VStr (m_unit_name m)),
          (''signal'', opt_val VStr (m_signal_name m)),
          (''location'', opt_val (\<lambda>(v, u). obj [(''value'', VFloat v), (''unit'', VStr u)]) (m_location m)),
          (''algorithm'', obj [(''id'', VStr (transfer_algorithm (m_kind m))), (''version'', VStr TRANSFER_VERSION)]),
          (''sample_count'', VInt (int (m_sample_count m))),
          (''source'', opt_val source_json (m_evidence m)), (''extensions'', VDict [])]"

definition transfer_payload ::
  "py_env \<Rightarrow> string \<Rightarrow> measurement \<Rightarrow> transfer_record \<Rightarrow> string \<Rightarrow> string \<Rightarrow> string \<Rightarrow> diag list \<Rightarrow> envelope" where
  "transfer_payload env correlation m t status summary execution_status diagnostics =
     result_envelope env ''result.transfer.measure'' None (Inr (static_execution execution_status)) status summary
       [] [] diagnostics
       (Some (obj [(''protocol'',
           obj [(''request_id'', VStr correlation),
                (''operation_profile'', VStr ''openada.operation/result.transfer.measure/v1alpha2''),
                (''assertion_profile'', VStr ''openada.assertion/transfer.measurement.valid/v1alpha1''),
                (''implementation_id'', VStr ''org.openada.kernel.transfer-evidence''),
                (''implementation_version'', VStr TRANSFER_VERSION)]),
         (''measurement'', transfer_measurement_json m), (''transfer'', transfer_json t), (''extensions'', VDict [])]))"

section \<open>What is known when an exception is raised\<close>

record transfer_progress =
  tp_source :: "evidence_source option"
  tp_request :: "transfer_request option"
  tp_record :: transfer_record

definition no_transfer :: transfer_progress where
  "no_transfer = \<lparr>tp_source = None, tp_request = None, tp_record = empty_transfer\<rparr>"

definition mark :: "transfer_progress \<Rightarrow> 'a tres \<Rightarrow> (transfer_progress \<times> terror) + 'a" where
  "mark p m = (case m of Inl e \<Rightarrow> Inl (p, e) | Inr a \<Rightarrow> Inr a)"

section \<open>Before the phases\<close>

definition check_frequencies :: "series \<Rightarrow> unit tres" where
  "check_frequencies n =
     (if a_unit (r_axis n) \<noteq> ''Hz''
      then Inl (Refuse ''transfer.unit.mismatch''
        (''The AC transfer axis unit must be exactly '' @ repr_text ''Hz'' @ ''.''))
      else if length (a_values (r_axis n)) < 2
      then Inl (Refuse ''transfer.source.invalid'' ''The AC transfer record needs at least two points.'')
      else if fle (hd (a_values (r_axis n))) (PFin 0)
      then Inl (Refuse ''transfer.domain.invalid''
        ''Every AC frequency must be positive for log-frequency interpolation.'')
      else Inr ())"

definition check_signals :: "series \<Rightarrow> transfer_request \<Rightarrow> unit tres" where
  "check_signals n r =
     (let missing = filter (\<lambda>name. name \<notin> g_name ` set (r_signals n)) (operand_names (tr_input r) @ operand_names (tr_output r))
      in if missing \<noteq> []
         then Inl (Refuse ''transfer.signal.missing''
           (''The normalized series does not contain: '' @ join '', '' missing @ ''.''))
         else Inr ())"

definition ratio_unit :: "string \<Rightarrow> string \<Rightarrow> string \<Rightarrow> string tres" where
  "ratio_unit kind input_unit output_unit =
     (if kind = ''low_frequency_impedance''
      then (if output_unit \<noteq> ''V'' \<or> input_unit \<noteq> ''A''
            then Inl (Refuse ''transfer.unit.mismatch''
              (repr_text kind @ '' is a V-over-A driving-point ratio: every output component must carry ''
               @ repr_text ''V'' @ '' and every input component '' @ repr_text ''A'' @ '', not '' @ repr_text output_unit
               @ '' over '' @ repr_text input_unit @ ''.''))
            else Inr ''Ohm'')
      else if input_unit \<noteq> output_unit
      then Inl (Refuse ''transfer.unit.mismatch''
        (repr_text kind @ '' is a dimensionless dB ratio, so every Cartesian component series must use one identical ''
         @ ''unit; the output is '' @ repr_text output_unit @ '' and the input is '' @ repr_text input_unit
         @ ''. A ratio of unlike units is an impedance or a transconductance, not a gain.''))
      else Inr ''1'')"

definition signal_expression :: "transfer_request \<Rightarrow> string" where
  "signal_expression r =
     (if op_negative (tr_input r) \<noteq> None \<or> op_negative (tr_output r) \<noteq> None
      then ''complex-differential-output-over-input'' else ''complex-output-over-input'')"

text \<open>The series, the request, the three units and the ratios with their decibels.\<close>

definition transfer_ratios ::
  "py_env \<Rightarrow> libm \<Rightarrow> pyval \<Rightarrow> pyval \<Rightarrow>
   (transfer_progress \<times> terror)
   + (series \<times> transfer_request \<times> (string \<times> string \<times> string) \<times> (pycomplex \<times> pyfloat) list)" where
  "transfer_ratios env lm series transfer =
     pbind (mark no_transfer (series_result ''transfer.source.invalid'' (normalize_series env True series))) (\<lambda>n.
     let p1 = no_transfer\<lparr>tp_source := Some (r_source n)\<rparr> in
     pbind (mark p1 (check_frequencies n)) (\<lambda>u.
     pbind (mark p1 (normalize_transfer transfer)) (\<lambda>r.
     mark (p1\<lparr>tp_request := Some r\<rparr>)
       (pbind (check_signals n r) (\<lambda>u.
        pbind (t_operand_unit n (tr_input r) ''transfer.input'') (\<lambda>input_unit.
        pbind (t_operand_unit n (tr_output r) ''transfer.output'') (\<lambda>output_unit.
        pbind (ratio_unit (tr_kind r) input_unit output_unit) (\<lambda>unit.
        pbind (operand_phasors n (tr_input r)) (\<lambda>inputs.
        pbind (operand_phasors n (tr_output r)) (\<lambda>outputs.
        pbind (ratio_trace lm inputs outputs) (\<lambda>ratios.
        Inr (n, r, (input_unit, output_unit, unit), ratios))))))))))))"

section \<open>After the phases\<close>

definition analyze ::
  "py_env \<Rightarrow> libm \<Rightarrow> series \<Rightarrow> transfer_request \<Rightarrow> string \<times> string \<times> string \<Rightarrow> (pycomplex \<times> pyfloat) list \<Rightarrow>
   pyfloat list \<Rightarrow> analysis_record tres" where
  "analyze env lm n r units ratios phases =
     (case units of (input_unit, output_unit, unit) \<Rightarrow>
        let frequencies = a_values (r_axis n); magnitudes = map snd ratios;
            threshold = fsub (hd magnitudes) (PFin 3);
            points = zip frequencies (zip magnitudes phases)
        in pbind (raising (canonical_sha256 env (request_json r))) (\<lambda>sha.
           pbind (falling_crossings lm threshold points) (\<lambda>bandwidth.
           pbind (falling_crossings lm (PFin 0) points) (\<lambda>unity.
           pbind (raising (lm_abs lm (fst (hd ratios)))) (\<lambda>reference.
           Inr \<lparr>an_request = r, an_input_unit = input_unit, an_output_unit = output_unit, an_ratio_unit = unit,
                an_frequencies = frequencies, an_magnitudes = magnitudes, an_phases = phases,
                an_reference = reference, an_threshold = threshold, an_bandwidth = bandwidth, an_unity = unity,
                an_sha256 = sha\<rparr>)))))"

text \<open>The value and its frequency, and the crossings the kind selects.\<close>

definition selected_crossings :: "analysis_record \<Rightarrow> falling_crossing list option" where
  "selected_crossings a =
     (let kind = tr_kind (an_request a)
      in if kind = ''bandwidth_3db'' then Some (an_bandwidth a)
         else if kind \<in> {''unity_gain_frequency'', ''phase_margin''} then Some (an_unity a) else None)"

definition transfer_value :: "libm \<Rightarrow> analysis_record \<Rightarrow> (pyfloat \<times> pyfloat) option tres" where
  "transfer_value lm a =
     (let kind = tr_kind (an_request a); first = hd (an_frequencies a)
      in if kind = ''low_frequency_gain_db'' then Inr (Some (hd (an_magnitudes a), first))
         else if kind = ''low_frequency_impedance'' then Inr (Some (an_reference a, first))
         else if kind = ''ac_magnitude_at_frequency''
         then (case tr_frequency (an_request a) of
             None \<Rightarrow> Inl (Raised (KeyError (repr_text ''at'')))
           | Some x \<Rightarrow>
               if \<not> (fle first x \<and> fle x (last (an_frequencies a)))
               then Inl (Refuse ''transfer.domain.invalid''
                 (''transfer.metric.at lies outside the simulated frequency domain ['' @ repr_float (fval first) @ '', ''
                  @ repr_float (fval (last (an_frequencies a))) @ ''] Hz.''))
               else pbind (magnitude_at lm (zip (an_frequencies a) (an_magnitudes a)) x) (\<lambda>v. Inr (Some (v, x))))
         else if kind = ''bandwidth_3db''
         then Inr (case an_bandwidth a of [c] \<Rightarrow> Some (fc_frequency c, fc_frequency c) | _ \<Rightarrow> None)
         else Inr (case an_unity a of
             [c] \<Rightarrow> Some (if kind = ''unity_gain_frequency'' then fc_frequency c else fadd (PFin 180) (fc_phase c),
                         fc_frequency c)
           | _ \<Rightarrow> None))"

definition finish_transfer ::
  "py_env \<Rightarrow> libm \<Rightarrow> string \<Rightarrow> evidence_source \<Rightarrow> analysis_record \<Rightarrow> envelope tres" where
  "finish_transfer env lm correlation source a =
     (let r = an_request a;
          m = (transfer_template (Some (tr_id r)) (Some (tr_kind r)) (Some (signal_expression r)) (Some source))
                \<lparr>m_request_sha256 := Some (an_sha256 a), m_sample_count := length (an_frequencies a)\<rparr>;
          status = map_option crossing_status (selected_crossings a);
          answer = (\<lambda>m tstatus estatus summary ds.
            transfer_payload env correlation m \<lparr>tf_status = tstatus, tf_analysis = Some a\<rparr> estatus summary ''completed'' ds)
      in pbind (transfer_value lm a) (\<lambda>value.
         if status = Some ''not_found''
         then Inr (answer (m\<lparr>m_status := ''not_found''\<rparr>) ''crossing_not_found'' ''fail''
           ''The valid AC trace contains no requested falling crossing.''
           [diagnostic ''error'' ''transfer.crossing.not_found''
              ''No falling crossing satisfies the declared threshold and closed crossing policy.'' None])
         else if status = Some ''ambiguous''
         then Inr (answer m ''crossing_ambiguous'' ''unknown''
           ''Multiple falling crossings make the requested transfer scalar ambiguous.''
           [diagnostic ''error'' ''transfer.crossing.ambiguous''
              ''The require-single-falling policy found multiple candidate crossings; v1alpha1 does not select one implicitly.''
              None])
         else (case value of
             None \<Rightarrow> Inl (Unresolved ''transfer.value.non_finite'' ''The requested transfer scalar is not finite.'')
           | Some (v, location) \<Rightarrow>
               if \<not> is_finite v
               then Inl (Unresolved ''transfer.value.non_finite'' ''The requested transfer scalar is not finite.'')
               else Inr (answer (m\<lparr>m_status := ''measured'', m_value := Some v, m_location := Some (location, ''Hz'')\<rparr>)
                 ''analyzed'' ''pass'' (''The closed '' @ repr_text (tr_kind r) @ '' AC transfer measurement was derived.'')
                 []))))"

section \<open>The operation\<close>

text \<open>Nothing when the unwrapping of the phases does not end.\<close>

definition transfer_body ::
  "py_env \<Rightarrow> libm \<Rightarrow> string \<Rightarrow> pyval \<Rightarrow> pyval \<Rightarrow> ((transfer_progress \<times> terror) + envelope) option" where
  "transfer_body env lm correlation series transfer =
     (case transfer_ratios env lm series transfer of
        Inl pe \<Rightarrow> Some (Inl pe)
      | Inr (n, r, units, ratios) \<Rightarrow>
          map_option (\<lambda>unwrapped.
            let p = no_transfer\<lparr>tp_source := Some (r_source n), tp_request := Some r\<rparr>
            in pbind (mark p unwrapped) (\<lambda>phases.
               pbind (mark p (analyze env lm n r units ratios phases)) (\<lambda>a.
               mark (p\<lparr>tp_record := \<lparr>tf_status = ''analyzed'', tf_analysis = Some a\<rparr>\<rparr>)
                 (finish_transfer env lm correlation (r_source n) a))))
            (unwrap_phase lm (map fst ratios)))"

text \<open>\<open>OverflowError\<close>, \<open>ValueError\<close> and \<open>ZeroDivisionError\<close> are caught.\<close>

definition numeric_error :: "pyexc \<Rightarrow> bool" where
  "numeric_error e \<longleftrightarrow> (case e of ValueError m \<Rightarrow> True | OverflowError \<Rightarrow> True | ZeroDivisionError \<Rightarrow> True | _ \<Rightarrow> False)"

definition transfer_refusal ::
  "py_env \<Rightarrow> string \<Rightarrow> transfer_progress \<Rightarrow> string \<Rightarrow> string \<Rightarrow> string \<Rightarrow> envelope" where
  "transfer_refusal env correlation p execution_status code msg =
     transfer_payload env correlation
       (transfer_template (map_option tr_id (tp_request p)) (map_option tr_kind (tp_request p))
          (map_option signal_expression (tp_request p)) (tp_source p))
       (tp_record p) ''unknown'' ''The AC transfer measurement could not be established.'' execution_status
       [diagnostic ''error'' code msg None]"

definition transfer_outcome ::
  "py_env \<Rightarrow> libm \<Rightarrow> string \<Rightarrow> (transfer_progress \<times> terror) + envelope \<Rightarrow> envelope pyres" where
  "transfer_outcome env lm correlation m =
     (case m of
        Inr r \<Rightarrow> Inr r
      | Inl (p, Refuse code msg) \<Rightarrow> Inr (transfer_refusal env correlation p ''invalid_request'' code msg)
      | Inl (p, Unresolved code msg) \<Rightarrow> Inr (transfer_refusal env correlation p ''completed'' code msg)
      | Inl (p, Raised e) \<Rightarrow>
          if numeric_error e
          then Inr (transfer_refusal env correlation p ''completed'' ''transfer.value.non_finite''
            (''The transfer calculation failed safely: '' @ lm_message lm e))
          else Inl e)"

definition measure_transfer :: "py_env \<Rightarrow> libm \<Rightarrow> pyval \<Rightarrow> pyval \<Rightarrow> pyval \<Rightarrow> envelope pyres option" where
  "measure_transfer env lm series transfer request_id =
     (case request_identity env request_id of
        Inl msg \<Rightarrow>
          Some (Inr (transfer_payload env (new_uuid env) (transfer_template None None None None) empty_transfer
            ''unknown'' ''The transfer correlation identity is invalid.'' ''invalid_request''
            [diagnostic ''error'' ''transfer.request.invalid'' msg None]))
      | Inr correlation \<Rightarrow> map_option (transfer_outcome env lm correlation) (transfer_body env lm correlation series transfer))"

end
