(* ===== verification/TransferPhase.thy ===== *)
theory TransferPhase
  imports TransferMeasure
begin

text \<open>
  The unwrapping of phases ends on every trace within the limit of points, and yields the principal
  phases up to whole turns, with neighbours at most half a turn apart.
\<close>

section \<open>Rounding of moderate numbers\<close>

definition tiny :: rat where "tiny = 1 / 2 ^ 27"

lemma tiny_bounds: "0 < tiny" "tiny < 1 / 100000000"
  by (simp_all add: tiny_def)

lemma round_near:
  assumes "\<bar>q\<bar> < 2 ^ 26"
  obtains r where "round64 q = PFin r" and "\<bar>r - q\<bar> \<le> tiny"
proof -
  define m where "m = \<lfloor>q * 2 ^ 27\<rfloor>"
  have small: "\<bar>q * 2 ^ 27\<bar> < of_int (2 ^ 53)" using assms by (simp add: abs_mult)
  then have "- of_int (2 ^ 53) < q * 2 ^ 27" "q * 2 ^ 27 < of_int (2 ^ 53)" by linarith+
  then have m: "- (2 ^ 53) \<le> m" "m < 2 ^ 53" by (simp_all add: m_def le_floor_iff floor_less_iff)
  have grid: "rnd (of_int i * tiny) = of_int i * tiny" if "\<bar>i\<bar> \<le> 2 ^ 53" for i
    using rnd_fixed [of i "- 27"] that by (simp add: tiny_def pow2_def)
  have below: "of_int m * tiny \<le> q" and above: "q \<le> of_int (m + 1) * tiny"
    unfolding m_def tiny_def by (simp_all add: divide_le_eq le_divide_eq) linarith+
  have "of_int m * tiny \<le> rnd q" using rnd_mono [OF below] grid [of m] m by simp
  moreover have "rnd q \<le> of_int (m + 1) * tiny" using rnd_mono [OF above] grid [of "m + 1"] m by simp
  ultimately have near: "\<bar>rnd q - q\<bar> \<le> tiny" using below above by (simp add: algebra_simps abs_le_iff)
  have "\<bar>rnd q\<bar> < 2 ^ 26 + 1" using near tiny_bounds assms by linarith
  also have "(2 :: rat) ^ 26 + 1 \<le> pow2 27" by (simp add: pow2_def)
  also have "\<dots> < pow2 1024" by simp
  finally have "round64 q = PFin (rnd q)" by (simp add: round64_def)
  then show ?thesis using near by (rule that)
qed

lemma fsub_near:
  assumes "\<bar>a - b\<bar> < 2 ^ 26"
  obtains r where "fsub (PFin a) (PFin b) = PFin r" and "\<bar>r - (a - b)\<bar> \<le> tiny"
  by (rule round_near [OF assms], rule that) (simp_all add: fsub_def)

lemma fadd_near:
  assumes "\<bar>a + b\<bar> < 2 ^ 26"
  obtains r where "fadd (PFin a) (PFin b) = PFin r" and "\<bar>r - (a + b)\<bar> \<le> tiny"
  by (rule round_near [OF assms], rule that) simp_all

section \<open>Turns\<close>

text \<open>One loop of whole turns in the direction \<open>s\<close>, away from the previous phase \<open>p\<close>.\<close>

lemma turns_end:
  fixes s p c :: rat
  assumes sgn: "s = 1 \<or> s = - 1" and bound: "\<bar>p\<bar> \<le> 20000000" "\<bar>c\<bar> \<le> 20000000"
    and test: "\<And>q. \<bar>q - p\<bar> < 2 ^ 26 \<Longrightarrow> b (PFin q) \<Longrightarrow> 180 - tiny \<le> s * (q - p)"
    and turn: "\<And>q. \<bar>q\<bar> < 2 ^ 25 \<Longrightarrow> \<exists>q'. nxt (PFin q) = PFin q' \<and> \<bar>q' - (q - s * 360)\<bar> \<le> tiny"
  shows "\<exists>q j. while_option b nxt (PFin c) = Some (PFin q) \<and> \<not> b (PFin q)
     \<and> \<bar>q - (c - s * 360 * of_nat j)\<bar> \<le> of_nat j * tiny \<and> s * q \<le> s * c
     \<and> (q = c \<and> j = 0 \<or> - (180 + 2 * tiny) \<le> s * (q - p))"
proof -
  define inv where "inv x \<longleftrightarrow> (\<exists>q j. x = PFin q \<and> \<bar>q - (c - s * 360 * of_nat j)\<bar> \<le> of_nat j * tiny \<and> s * q \<le> s * c
     \<and> (q = c \<and> j = 0 \<or> - (180 + 2 * tiny) \<le> s * (q - p)))" for x
  have start: "inv (PFin c)" unfolding inv_def by (rule exI [of _ c], rule exI [of _ 0]) simp
  have step: "inv (nxt x) \<and> nat \<lceil>s * (fval (nxt x) - p)\<rceil> < nat \<lceil>s * (fval x - p)\<rceil>" if x: "inv x" "b x" for x
  proof -
    obtain q j where q: "x = PFin q" "\<bar>q - (c - s * 360 * of_nat j)\<bar> \<le> of_nat j * tiny" "s * q \<le> s * c"
        "q = c \<or> - (180 + 2 * tiny) \<le> s * (q - p)" using x(1) by (auto simp: inv_def)
    have range: "\<bar>q\<bar> < 2 ^ 25" "\<bar>q - p\<bar> < 2 ^ 26" using sgn bound q(3,4) tiny_bounds by (auto simp: abs_le_iff abs_less_iff)
    have far: "180 - tiny \<le> s * (q - p)" using test [OF range(2)] x(2) q(1) by simp
    obtain q' where q': "nxt x = PFin q'" "\<bar>q' - (q - s * 360)\<bar> \<le> tiny" using turn [OF range(1)] q(1) by blast
    have one: "s * s = 1" using sgn by auto
    have "\<bar>q' - (c - s * 360 * of_nat (Suc j))\<bar> \<le> of_nat (Suc j) * tiny"
      using q(2) q'(2) by (simp add: algebra_simps abs_le_iff)
    moreover have lower: "s * (q' - p) \<le> s * (q - p) - 359" "- (180 + 2 * tiny) \<le> s * (q' - p)"
      using sgn far q'(2) tiny_bounds by (auto simp: abs_le_iff)
    moreover have "s * q' \<le> s * c" using sgn q'(2) q(3) tiny_bounds by (auto simp: abs_le_iff)
    ultimately have "inv (nxt x)" unfolding inv_def q'(1) by blast
    moreover have "nat \<lceil>s * (q' - p)\<rceil> < nat \<lceil>s * (q - p)\<rceil>"
    proof -
      have "\<lceil>s * (q' - p)\<rceil> \<le> \<lceil>s * (q - p) - 359\<rceil>" by (rule ceiling_mono [OF lower(1)])
      then have "\<lceil>s * (q' - p)\<rceil> < \<lceil>s * (q - p)\<rceil>" by (simp add: ceiling_diff_numeral)
      moreover have "0 < \<lceil>s * (q - p)\<rceil>" using far tiny_bounds by (simp add: zero_less_ceiling)
      ultimately show ?thesis by simp
    qed
    ultimately show ?thesis using q(1) q'(1) by simp
  qed
  obtain t where t: "while_option b nxt (PFin c) = Some t"
    using measure_while_option_Some [of inv b nxt "\<lambda>x. nat \<lceil>s * (fval x - p)\<rceil>", OF step start] by blast
  have "inv t" by (rule while_option_rule [where P = inv and b = b and c = nxt, OF _ t start]) (use step in blast)
  moreover have "\<not> b t" by (rule while_option_stop [OF t])
  ultimately show ?thesis using t unfolding inv_def by blast
qed

lemma lower_turns_end:
  assumes "\<bar>p\<bar> \<le> 20000000" "\<bar>c\<bar> \<le> 20000000"
  shows "\<exists>q j. lower_turns (PFin p) (PFin c) = Some (PFin q) \<and> \<bar>q - (c - 360 * of_nat j)\<bar> \<le> of_nat j * tiny
     \<and> q - p \<le> 180 + tiny \<and> (q = c \<and> j = 0 \<or> - (180 + 2 * tiny) \<le> q - p)"
proof -
  have test: "180 - tiny \<le> 1 * (q - p)" if "\<bar>q - p\<bar> < 2 ^ 26" "fle (PFin 180) (fsub (PFin q) (PFin p))" for q
    by (rule fsub_near [OF that(1)]) (use that(2) in \<open>auto simp: abs_le_iff\<close>)
  have turn: "\<exists>q'. fsub (PFin q) (PFin 360) = PFin q' \<and> \<bar>q' - (q - 1 * 360)\<bar> \<le> tiny" if q: "\<bar>q\<bar> < 2 ^ 25" for q
  proof -
    have near: "\<bar>q - 360\<bar> < 2 ^ 26" using q by (auto simp: abs_less_iff)
    show ?thesis by (rule fsub_near [OF near]) auto
  qed
  obtain q j where q: "lower_turns (PFin p) (PFin c) = Some (PFin q)" "\<not> fle (PFin 180) (fsub (PFin q) (PFin p))"
      "\<bar>q - (c - 360 * of_nat j)\<bar> \<le> of_nat j * tiny" "q \<le> c" "q = c \<and> j = 0 \<or> - (180 + 2 * tiny) \<le> q - p"
    using turns_end [where s = 1 and b = "\<lambda>c. fle (PFin 180) (fsub c (PFin p))"
        and nxt = "\<lambda>c. fsub c (PFin 360)", OF disjI1 [OF refl] assms test turn] unfolding lower_turns_def by auto
  have "\<bar>q - p\<bar> < 2 ^ 26" using assms q(4,5) tiny_bounds by (auto simp: abs_le_iff abs_less_iff)
  then have "q - p \<le> 180 + tiny" by (rule fsub_near) (use q(2) in \<open>auto simp: abs_le_iff\<close>)
  then show ?thesis using q by blast
qed

lemma raise_turns_end:
  assumes "\<bar>p\<bar> \<le> 20000000" "\<bar>c\<bar> \<le> 20000000"
  shows "\<exists>q j. raise_turns (PFin p) (PFin c) = Some (PFin q) \<and> \<bar>q - (c + 360 * of_nat j)\<bar> \<le> of_nat j * tiny
     \<and> - (180 + tiny) \<le> q - p \<and> (q = c \<and> j = 0 \<or> q - p \<le> 180 + 2 * tiny)"
proof -
  have test: "180 - tiny \<le> - 1 * (q - p)" if "\<bar>q - p\<bar> < 2 ^ 26" "flt (fsub (PFin q) (PFin p)) (PFin (- 180))" for q
    by (rule fsub_near [OF that(1)]) (use that(2) in \<open>auto simp: abs_le_iff\<close>)
  have turn: "\<exists>q'. fadd (PFin q) (PFin 360) = PFin q' \<and> \<bar>q' - (q - - 1 * 360)\<bar> \<le> tiny" if q: "\<bar>q\<bar> < 2 ^ 25" for q
  proof -
    have near: "\<bar>q + 360\<bar> < 2 ^ 26" using q by (auto simp: abs_less_iff)
    show ?thesis by (rule fadd_near [OF near]) auto
  qed
  obtain q j where q: "raise_turns (PFin p) (PFin c) = Some (PFin q)" "\<not> flt (fsub (PFin q) (PFin p)) (PFin (- 180))"
      "\<bar>q - (c + 360 * of_nat j)\<bar> \<le> of_nat j * tiny" "c \<le> q" "q = c \<and> j = 0 \<or> q - p \<le> 180 + 2 * tiny"
    using turns_end [where s = "- 1" and b = "\<lambda>c. flt (fsub c (PFin p)) (PFin (- 180))"
        and nxt = "\<lambda>c. fadd c (PFin 360)", OF disjI2 [OF refl] assms test turn] unfolding raise_turns_def by auto
  have "\<bar>q - p\<bar> < 2 ^ 26" using assms q(4,5) tiny_bounds by (auto simp: abs_le_iff abs_less_iff)
  then have "- (180 + tiny) \<le> q - p" by (rule fsub_near) (use q(2) in \<open>auto simp: abs_le_iff\<close>)
  then show ?thesis using q by blast
qed

section \<open>A trace of phases\<close>

text \<open>The unwrapped phase differs from the principal one by whole turns, up to rounding.\<close>

definition same_turn :: "pyfloat \<Rightarrow> pyfloat \<Rightarrow> bool" where
  "same_turn u p \<longleftrightarrow> (\<exists>k :: int. \<bar>fval u - (fval p + 360 * of_int k)\<bar> \<le> 1 / 100)"

definition half_turn_apart :: "pyfloat \<Rightarrow> pyfloat \<Rightarrow> bool" where
  "half_turn_apart u v \<longleftrightarrow> \<bar>fval v - fval u\<bar> \<le> 180 + 1 / 100"

definition moderate :: "pyfloat \<Rightarrow> bool" where
  "moderate x \<longleftrightarrow> is_finite x \<and> \<bar>fval x\<bar> \<le> 1000"

lemma few_turns:
  fixes q c d :: rat
  assumes "\<bar>q - (c + 360 * d * of_nat j)\<bar> \<le> of_nat j * tiny" and "d = 1 \<or> d = - 1" and "\<bar>q - c\<bar> \<le> 40002000"
  shows "of_nat j * tiny \<le> 1 / 200"
proof -
  have grow: "of_nat j * tiny \<le> of_nat j * (1 / 100000000)" by (rule mult_left_mono) (use tiny_bounds in simp_all)
  then show ?thesis using assms by (auto simp: abs_le_iff)
qed

lemma unwrap_step:
  assumes "\<bar>p\<bar> \<le> 19000000" "\<bar>c\<bar> \<le> 1000"
  shows "\<exists>l q. lower_turns (PFin p) (PFin c) = Some l \<and> raise_turns (PFin p) l = Some (PFin q)
     \<and> same_turn (PFin q) (PFin c) \<and> half_turn_apart (PFin p) (PFin q)"
proof -
  obtain l i where l: "lower_turns (PFin p) (PFin c) = Some (PFin l)" "\<bar>l - (c - 360 * of_nat i)\<bar> \<le> of_nat i * tiny"
      "l - p \<le> 180 + tiny" "l = c \<and> i = 0 \<or> - (180 + 2 * tiny) \<le> l - p"
    using lower_turns_end [of p c] assms by auto
  have lb: "\<bar>l\<bar> \<le> 19001000" using l(3,4) assms tiny_bounds by (auto simp: abs_le_iff)
  obtain q j where q: "raise_turns (PFin p) (PFin l) = Some (PFin q)" "\<bar>q - (l + 360 * of_nat j)\<bar> \<le> of_nat j * tiny"
      "- (180 + tiny) \<le> q - p" "q = l \<and> j = 0 \<or> q - p \<le> 180 + 2 * tiny"
    using raise_turns_end [of p l] assms lb by auto
  have apart: "\<bar>q - p\<bar> \<le> 180 + 2 * tiny" using q(3,4) l(3) tiny_bounds by (auto simp: abs_le_iff)
  have i: "of_nat i * tiny \<le> 1 / 200"
    by (rule few_turns [where q = l and c = c and d = "- 1"]) (use l(2) lb assms in \<open>auto simp: abs_le_iff\<close>)
  have j: "of_nat j * tiny \<le> 1 / 200"
  proof (cases "j = 0")
    case False
    then have "q - p \<le> 180 + 2 * tiny" using q(4) by simp
    then have far: "\<bar>q - l\<bar> \<le> 40002000" using q(3) lb assms tiny_bounds by (auto simp: abs_le_iff)
    show ?thesis by (rule few_turns [where q = q and c = l and d = 1]) (use q(2) far in simp_all)
  qed simp
  have "\<bar>q - (c + 360 * of_int (int j - int i))\<bar> \<le> 1 / 100"
    by (rule abs_leI) (use l(2) q(2) i j in \<open>simp_all add: algebra_simps abs_le_iff\<close>)
  then have "same_turn (PFin q) (PFin c)" unfolding same_turn_def by (simp only: fval.simps) blast
  moreover have "half_turn_apart (PFin p) (PFin q)" using apart tiny_bounds by (simp add: half_turn_apart_def)
  ultimately show ?thesis using l(1) q(1) by blast
qed

lemma unwrap_from_end:
  assumes "list_all moderate cs" and "is_finite x" and "\<bar>fval x\<bar> + 181 * of_nat (length cs) \<le> 19000000"
  shows "\<exists>us. unwrap_from x cs = Some (Inr us) \<and> list_all2 same_turn us cs \<and> successively half_turn_apart (x # us)
     \<and> list_all is_finite us"
  using assms
proof (induction cs arbitrary: x)
  case (Cons c cs)
  obtain p where p: "x = PFin p" using Cons.prems(2) by (cases x) simp_all
  obtain a where a: "c = PFin a" using Cons.prems(1) by (cases c) (simp_all add: moderate_def)
  have pa: "\<bar>p\<bar> \<le> 19000000" "\<bar>a\<bar> \<le> 1000" using Cons.prems(1,3) by (simp_all add: p a moderate_def)
  obtain l q where q: "lower_turns x c = Some l" "raise_turns x l = Some (PFin q)" "same_turn (PFin q) c"
      "half_turn_apart x (PFin q)" using unwrap_step [OF pa] by (auto simp: p a)
  have "\<bar>q\<bar> + 181 * of_nat (length cs) \<le> 19000000"
    using q(4) Cons.prems(3) abs_triangle_ineq [of "q - p" p] by (simp add: p half_turn_apart_def)
  then obtain us where "unwrap_from (PFin q) cs = Some (Inr us)" "list_all2 same_turn us cs"
      "successively half_turn_apart (PFin q # us)" "list_all is_finite us"
    using Cons.IH [of "PFin q"] Cons.prems(1) by auto
  then show ?case using q by simp
qed simp

section \<open>Principal phases\<close>

lemma degrees_value: "radians_degrees = PFin (1007958012753983 / 17592186044416)"
proof -
  let ?D = "180 / (884279719003555 / 281474976710656) :: rat"
  have "flog2 ?D = 5" using flog2_ge [of ?D 5] flog2_less [of ?D 6] by (simp add: pow2_def)
  then have "uexp ?D = - 47" by (simp add: uexp_def)
  then have "rnd ?D = of_int (rhe (?D * 140737488355328)) / 140737488355328" by (simp add: rnd_def pow2_def)
  also have "rhe (?D * 140737488355328) = 8063664102031864"
  proof -
    have "\<lfloor>?D * 140737488355328\<rfloor> = 8063664102031864" by (rule floor_unique) simp_all
    then show ?thesis by (simp add: rhe_def Let_def)
  qed
  finally have r: "rnd ?D = 1007958012753983 / 17592186044416" by simp
  have "(1007958012753983 / 17592186044416 :: rat) < pow2 6" by (simp add: pow2_def)
  also have "\<dots> < pow2 1024" by simp
  finally show ?thesis by (simp only: radians_degrees_def round64_def r) simp
qed

text \<open>The double nearest to \<open>pi\<close> is mapped to 180 exactly.\<close>

abbreviation pi64 :: rat where "pi64 \<equiv> 884279719003555 / 281474976710656"

lemma half_turn: "rnd (pi64 * (1007958012753983 / 17592186044416)) = 180"
proof -
  let ?D = "pi64 * (1007958012753983 / 17592186044416)"
  have "flog2 ?D = 7" using flog2_ge [of ?D 7] flog2_less [of ?D 8] by (simp add: pow2_def)
  then have "uexp ?D = - 45" by (simp add: uexp_def)
  then have "rnd ?D = of_int (rhe (?D * 35184372088832)) / 35184372088832" by (simp add: rnd_def pow2_def)
  also have "rhe (?D * 35184372088832) = 180 * 35184372088832"
  proof -
    have "\<lfloor>?D * 35184372088832\<rfloor> = 6333186975989759" by (rule floor_unique) simp_all
    then show ?thesis by (simp add: rhe_def Let_def)
  qed
  finally show ?thesis by simp
qed

text \<open>What the C standard documents of \<open>atan2\<close>: an angle between \<open>- pi\<close> and \<open>pi\<close>.\<close>

definition atan2_ok :: "libm \<Rightarrow> bool" where
  "atan2_ok lm \<longleftrightarrow> (\<forall>y x. is_finite y \<longrightarrow> is_finite x \<longrightarrow> (\<exists>a. lm_atan2 lm y x = Inr (PFin a) \<and> \<bar>a\<bar> \<le> pi64))"

definition finite_complex :: "pycomplex \<Rightarrow> bool" where
  "finite_complex z \<longleftrightarrow> is_finite (fst z) \<and> is_finite (snd z)"

definition first_range :: "pyfloat \<Rightarrow> bool" where
  "first_range x \<longleftrightarrow> fle (PFin (- 180)) x \<and> flt x (PFin 180)"

lemma principal_phase_range:
  assumes "atan2_ok lm" and "finite_complex z"
  shows "\<exists>x. principal_phase lm z = Inr x \<and> first_range x"
proof -
  let ?d = "1007958012753983 / 17592186044416 :: rat"
  obtain a where a: "lm_atan2 lm (snd z) (fst z) = Inr (PFin a)" "\<bar>a\<bar> \<le> pi64"
    using assms by (auto simp: atan2_ok_def finite_complex_def)
  have up: "rnd (a * ?d) \<le> 180" using rnd_mono [of "a * ?d" "pi64 * ?d"] a(2) half_turn by (auto simp: abs_le_iff)
  have "rnd (- (pi64 * ?d)) \<le> rnd (a * ?d)" by (rule rnd_mono) (use a(2) in \<open>auto simp: abs_le_iff\<close>)
  then have low: "- 180 \<le> rnd (a * ?d)" using half_turn by (simp only: rnd_minus)
  have "\<bar>rnd (a * ?d)\<bar> < pow2 8" using up low by (simp add: pow2_def abs_less_iff)
  also have "\<dots> < pow2 1024" by simp
  finally have "round64 (a * ?d) = PFin (rnd (a * ?d))" by (simp add: round64_def)
  moreover have "round64 (- 180) = PFin (- 180)" using round64_of_int [of "- 180"] by simp
  moreover have "rnd (a * ?d) = 180" if "180 \<le> rnd (a * ?d)" using that up by simp
  ultimately show ?thesis
    using a(1) up low by (simp add: principal_phase_def degrees_value fsub_def first_range_def not_le Let_def)
qed

lemma first_range_moderate: "first_range x \<Longrightarrow> moderate x"
  by (cases x) (auto simp: first_range_def moderate_def fle_def feq_def abs_le_iff)

lemma map_res_every:
  assumes "\<And>x. x \<in> set xs \<Longrightarrow> \<exists>y. f x = Inr y \<and> P y"
  shows "\<exists>ys. map_res f xs = Inr ys \<and> list_all P ys \<and> length ys = length xs"
  using assms
proof (induction xs)
  case (Cons x xs)
  obtain y where "f x = Inr y" "P y" using Cons.prems by force
  moreover obtain ys where "map_res f xs = Inr ys" "list_all P ys" "length ys = length xs"
    using Cons.IH Cons.prems by force
  ultimately show ?case by simp
qed simp

lemma principal_phases:
  assumes "atan2_ok lm" and "list_all finite_complex zs"
  shows "\<exists>ps. map_res (principal_phase lm) zs = Inr ps \<and> list_all first_range ps \<and> length ps = length zs"
  by (rule map_res_every) (use principal_phase_range [OF assms(1)] assms(2) in \<open>auto simp: list_all_iff\<close>)

lemma unwrap_phase_end:
  assumes "atan2_ok lm" and "list_all finite_complex zs" and "zs \<noteq> []" and "length zs \<le> MAX_POINTS"
  shows "\<exists>ps us. map_res (principal_phase lm) zs = Inr ps \<and> list_all first_range ps
     \<and> unwrap_phase lm zs = Some (Inr us) \<and> hd us = hd ps \<and> list_all2 same_turn us ps
     \<and> successively half_turn_apart us \<and> list_all is_finite us"
proof -
  obtain ps where ps: "map_res (principal_phase lm) zs = Inr ps" "list_all first_range ps" "length ps = length zs"
    using principal_phases [OF assms(1,2)] by blast
  obtain q qs where cons: "ps = q # qs" using ps(3) assms(3) by (cases ps) auto
  have mod: "list_all moderate ps" using ps(2) first_range_moderate by (auto simp: list_all_iff)
  have "of_nat (length qs) \<le> (of_nat MAX_POINTS :: rat)" using ps(3) assms(4) cons by simp
  then have "\<bar>fval q\<bar> + 181 * of_nat (length qs) \<le> 19000000"
    using mod by (simp add: cons moderate_def MAX_POINTS_def)
  then obtain us where "unwrap_from q qs = Some (Inr us)" "list_all2 same_turn us qs"
      "successively half_turn_apart (q # us)" "list_all is_finite us"
    using unwrap_from_end [of qs q] mod by (auto simp: cons moderate_def)
  moreover have "same_turn q q" unfolding same_turn_def by (rule exI [of _ 0]) simp
  ultimately show ?thesis using ps mod by (auto simp: unwrap_phase_def cons moderate_def)
qed

text \<open>C11: unwrapping ends and is exact.  On a nonempty trace of finite ratios within the limit of points, both
  loops end at every point; every principal phase lies in [-180, 180), the first unwrapped phase is
  the first principal one, every other differs from its principal phase by whole turns up to a
  hundredth of a degree, and neighbours are at most half a turn apart, up to the same tolerance.\<close>

theorem unwrap_phase_exact:
  assumes "atan2_ok lm" and "list_all finite_complex zs" and "zs \<noteq> []" and "length zs \<le> MAX_POINTS"
  shows "\<exists>ps us. map_res (principal_phase lm) zs = Inr ps \<and> list_all first_range ps
     \<and> unwrap_phase lm zs = Some (Inr us) \<and> hd us = hd ps \<and> list_all2 same_turn us ps
     \<and> successively half_turn_apart us \<and> list_all is_finite us"
  by (rule unwrap_phase_end [OF assms])

end
