(* ===== verification/TransferTotal.thy ===== *)
theory TransferTotal
  imports TransferPhase
begin

text \<open>
  The operation is total: whatever the values, it returns an envelope; the loops end and no exception
  leaves it.
\<close>

section \<open>The C library\<close>

text \<open>
  What the functions may raise, and that the decimal logarithm of a double is moderate.
\<close>

definition libm_ok :: "libm \<Rightarrow> bool" where
  "libm_ok lm \<longleftrightarrow>
     atan2_ok lm
     \<and> (\<forall>x. errs_in numeric_error (lm_log lm x) \<and> errs_in numeric_error (lm_log10 lm x)
          \<and> errs_in numeric_error (lm_log1p lm x) \<and> errs_in numeric_error (lm_pow10 lm x))
     \<and> (\<forall>z. errs_in numeric_error (lm_abs lm z))
     \<and> (\<forall>x a. lm_log10 lm x = Inr (PFin a) \<longrightarrow> \<bar>a\<bar> \<le> 400)"

lemma libm_errors [err_intros]:
  assumes "libm_ok lm"
  shows "errs_in numeric_error (lm_log lm x)" "errs_in numeric_error (lm_log10 lm x)"
    "errs_in numeric_error (lm_log1p lm x)" "errs_in numeric_error (lm_pow10 lm x)"
    "errs_in numeric_error (lm_abs lm z)"
  using assms unfolding libm_ok_def by blast+

lemma fdiv_numeric [err_intros]: "errs_in numeric_error (fdiv x y)"
  by (induction x y rule: fdiv.induct) (simp_all add: numeric_error_def split: pyfloat.split)

lemma complex_div_errors [err_intros]: "errs_in numeric_error (complex_div a b)"
  by (simp add: complex_div_def Let_def numeric_error_def split: prod.split)

section \<open>Settled outcomes\<close>

text \<open>The outcomes the operation turns into an envelope.\<close>

definition settled :: "terror \<Rightarrow> bool" where
  "settled e \<longleftrightarrow> (case e of Raised x \<Rightarrow> numeric_error x | _ \<Rightarrow> True)"

lemma settled_simps [simp]:
  "settled (Refuse code msg)" "settled (Unresolved code msg)" "settled (Raised x) = numeric_error x"
  by (simp_all add: settled_def)

lemma raising_settled [err_intros]: "errs_in numeric_error m \<Longrightarrow> errs_in settled (raising m)"
  by (cases m) simp_all

section \<open>The request\<close>

lemma t_fields_settled [err_intros]:
  "errs_in settled (t_closed v label req opt)" "errs_in settled (t_text v label limit)"
  "errs_in settled (t_extensions v label)" "errs_in settled (t_expect v w label)"
  unfolding t_fields by (rule field_refusals, simp)+

lemma t_method_settled [err_intros]: "errs_in settled (t_method v)"
  unfolding t_method_def by (intro err_intros) (auto intro!: err_intros split: prod.split)

lemma t_operand_settled [err_intros]: "errs_in settled (t_operand v label)"
  unfolding t_operand_def by (intro err_intros) simp_all

lemma t_at_settled [err_intros]: "errs_in settled (t_at v)"
  unfolding t_at_def by (intro err_intros) (auto split: sum.split)

lemma t_metric_settled [err_intros]: "errs_in settled (t_metric interpretation v)"
  unfolding t_metric_def by (intro err_intros) simp_all

lemma normalize_transfer_settled [err_intros]: "errs_in settled (normalize_transfer v)"
  unfolding normalize_transfer_def by (intro err_intros) (auto split: prod.split)

text \<open>What an accepted request satisfies.\<close>

definition request_ok :: "transfer_request \<Rightarrow> bool" where
  "request_ok r \<longleftrightarrow>
     metric_unit (tr_kind r) = Some (tr_unit r)
     \<and> (tr_kind r = ''ac_magnitude_at_frequency'' \<longleftrightarrow> tr_frequency r \<noteq> None)
     \<and> (\<forall>x. tr_frequency r = Some x \<longrightarrow> is_finite x \<and> flt (PFin 0) x)
     \<and> (tr_kind r = ''phase_margin'' \<longrightarrow> tr_interpretation r = ''loop-gain-negative-feedback'')
     \<and> distinct (operand_names (tr_input r) @ operand_names (tr_output r))"

lemma t_at_ok: "returns (\<lambda>x. is_finite x \<and> flt (PFin 0) x) (t_at v)"
  unfolding t_at_def by (intro ret_intros) (auto simp: is_finite_iff not_le)

lemma t_metric_ok:
  "returns (\<lambda>(kind, unit, frequency). metric_unit kind = Some unit
     \<and> (kind = ''ac_magnitude_at_frequency'' \<longleftrightarrow> frequency \<noteq> None)
     \<and> (\<forall>x. frequency = Some x \<longrightarrow> is_finite x \<and> flt (PFin 0) x)
     \<and> (kind = ''phase_margin'' \<longrightarrow> interpretation = ''loop-gain-negative-feedback'')) (t_metric interpretation v)"
  unfolding t_metric_def by (intro ret_intros) (auto dest: returnsD [OF t_at_ok])

lemma normalize_transfer_ok: "returns request_ok (normalize_transfer v)"
  unfolding normalize_transfer_def request_ok_def
  by (intro ret_intros) (auto dest!: returnsD [OF t_metric_ok])

lemma operand_fields_json: "list_all (json_value \<circ> snd) (operand_fields p)"
  by (simp add: operand_fields_def split: option.split prod.split)

lemma request_json_value: "request_ok r \<Longrightarrow> json_value (request_json r)"
  using operand_fields_json
  by (auto simp: request_json_def request_ok_def expected_method_def split: option.split)

section \<open>The series\<close>

lemma check_frequencies_settled [err_intros]: "errs_in settled (check_frequencies n)"
  by (simp add: check_frequencies_def)

lemma check_signals_settled [err_intros]: "errs_in settled (check_signals n r)"
  by (simp add: check_signals_def Let_def)

lemma ratio_unit_settled [err_intros]: "errs_in settled (ratio_unit kind input_unit output_unit)"
  by (simp add: ratio_unit_def)

text \<open>The components of an operand are all in the series.\<close>

definition operand_known :: "series \<Rightarrow> phasor_operand \<Rightarrow> bool" where
  "operand_known n p \<longleftrightarrow> set (operand_names p) \<subseteq> g_name ` set (r_signals n)"

lemma check_signals_known:
  "check_signals n r = Inr u \<Longrightarrow> operand_known n (tr_input r) \<and> operand_known n (tr_output r)"
  by (auto simp: check_signals_def Let_def operand_known_def filter_empty_conv split: if_splits)

lemma signal_named_known:
  assumes "name \<in> g_name ` set (r_signals n)"
  obtains g where "signal_named n name = Inr g" and "g \<in> set (r_signals n)" and "g_name g = name"
proof -
  obtain g where g: "find (\<lambda>g. g_name g = name) (r_signals n) = Some g"
    using assms by (cases "find (\<lambda>g. g_name g = name) (r_signals n)") (auto simp: find_None_iff)
  then have "g \<in> set (r_signals n) \<and> g_name g = name" by (auto simp: find_Some_iff)
  then show ?thesis using g that [of g] by (simp add: signal_named_def)
qed

lemma signal_named_settled: "name \<in> g_name ` set (r_signals n) \<Longrightarrow> errs_in settled (signal_named n name)"
  by (erule signal_named_known) (simp only: errs_in_simps)

lemma t_operand_unit_settled [err_intros]: "operand_known n p \<Longrightarrow> errs_in settled (t_operand_unit n p label)"
  unfolding t_operand_unit_def operand_known_def
  by (intro err_intros signal_named_settled) (auto split: list.split)

lemma terminal_phasors_total:
  assumes "re \<in> g_name ` set (r_signals n)" "im \<in> g_name ` set (r_signals n)"
    and "list_all (signal_ok points) (r_signals n)"
  shows "\<exists>zs. terminal_phasors n re im = Inr zs \<and> length zs = points"
proof -
  obtain a b where "signal_named n re = Inr a" "a \<in> set (r_signals n)" "signal_named n im = Inr b" "b \<in> set (r_signals n)"
    using signal_named_known [OF assms(1)] signal_named_known [OF assms(2)] by metis
  then show ?thesis using assms(3) by (simp add: terminal_phasors_def list_all_iff signal_ok_def)
qed

lemma operand_phasors_total:
  assumes known: "operand_known n p" and ok: "list_all (signal_ok points) (r_signals n)"
  shows "\<exists>zs. operand_phasors n p = Inr zs \<and> length zs = points"
proof -
  obtain positive where positive: "terminal_phasors n (op_real p) (op_imaginary p) = Inr positive" "length positive = points"
    using terminal_phasors_total [OF _ _ ok, of "op_real p" "op_imaginary p"] known
    by (auto simp: operand_known_def operand_names_def)
  show ?thesis
  proof (cases "op_negative p")
    case (Some ab)
    obtain re im where ab: "ab = (re, im)" by (cases ab)
    obtain negative where "terminal_phasors n re im = Inr negative" "length negative = points"
      using terminal_phasors_total [OF _ _ ok, of re im] known Some
      by (auto simp: operand_known_def operand_names_def ab)
    then show ?thesis using positive Some by (simp add: operand_phasors_def ab)
  qed (simp add: operand_phasors_def positive)
qed

section \<open>The trace\<close>

lemma ratio_point_settled [err_intros]: "libm_ok lm \<Longrightarrow> errs_in settled (ratio_point lm i point)"
  unfolding ratio_point_def by (cases point) (simp only: prod.case, intro err_intros, auto)

text \<open>A point of the trace is finite.\<close>

definition point_ok :: "libm \<Rightarrow> pycomplex \<times> pyfloat \<Rightarrow> bool" where
  "point_ok lm x \<longleftrightarrow> finite_complex (fst x) \<and> is_finite (snd x)
     \<and> (\<exists>m l. lm_abs lm (fst x) = Inr m \<and> lm_log10 lm m = Inr l \<and> snd x = fmul (PFin 20) l)"

lemma ratio_point_ok: "returns (point_ok lm) (ratio_point lm i point)"
  unfolding ratio_point_def by (intro ret_intros) (auto simp: point_ok_def finite_complex_def)

lemma map_res_i_each: "(\<And>i x. returns P (f i x)) \<Longrightarrow> map_res_i f k xs = Inr ys \<Longrightarrow> list_all P ys \<and> length ys = length xs"
  by (induction xs arbitrary: k ys) (auto, metis returnsD)

lemma ratio_trace_ok:
  "ratio_trace lm inputs outputs = Inr ratios \<Longrightarrow>
   list_all (point_ok lm) ratios \<and> length ratios = min (length inputs) (length outputs)"
  unfolding ratio_trace_def using map_res_i_each [OF ratio_point_ok] by fastforce

lemma ratio_trace_settled [err_intros]: "libm_ok lm \<Longrightarrow> errs_in settled (ratio_trace lm inputs outputs)"
  unfolding ratio_trace_def by (intro err_intros)

lemma crossing_at_settled [err_intros]: "libm_ok lm \<Longrightarrow> errs_in settled (crossing_at lm threshold a b)"
  unfolding crossing_at_def by (cases a; cases b) (simp only: prod.case, intro err_intros, auto)

lemma falling_crossings_settled [err_intros]:
  "libm_ok lm \<Longrightarrow> errs_in settled (falling_crossings lm threshold points)"
  by (induction lm threshold points rule: falling_crossings.induct) (auto intro!: err_intros)

lemma log10_span_settled [err_intros]: "libm_ok lm \<Longrightarrow> errs_in settled (log10_span lm low high)"
  unfolding log10_span_def by (intro err_intros)

lemma magnitude_from_settled: "libm_ok lm \<Longrightarrow> errs_in settled (magnitude_from lm position before points)"
  by (induction lm position before points rule: magnitude_from.induct) (auto intro!: err_intros)

lemma magnitude_at_settled [err_intros]: "libm_ok lm \<Longrightarrow> errs_in settled (magnitude_at lm points position)"
  by (cases points) (simp_all add: magnitude_at_def magnitude_from_settled del: magnitude_from.simps)

section \<open>The whole operation\<close>

abbreviation settled_at :: "transfer_progress \<times> terror \<Rightarrow> bool" where
  "settled_at pe \<equiv> settled (snd pe)"

lemma mark_settled [err_intros]: "errs_in settled m \<Longrightarrow> errs_in settled_at (mark p m)"
  by (cases m) (simp_all add: mark_def)

lemma mark_Inr [simp]: "mark p m = Inr a \<longleftrightarrow> m = Inr a"
  by (cases m) (simp_all add: mark_def)

text \<open>The series and the ratios the phases are computed from.\<close>

definition trace_ok :: "libm \<Rightarrow> series \<Rightarrow> transfer_request \<Rightarrow> (pycomplex \<times> pyfloat) list \<Rightarrow> bool" where
  "trace_ok lm n r ratios \<longleftrightarrow>
     series_ok n \<and> request_ok r \<and> a_unit (r_axis n) = ''Hz'' \<and> 2 \<le> length (a_values (r_axis n))
     \<and> flt (PFin 0) (hd (a_values (r_axis n)))
     \<and> length ratios = length (a_values (r_axis n)) \<and> list_all (point_ok lm) ratios"

lemma check_frequencies_ok:
  assumes "check_frequencies n = Inr u" and "series_ok n"
  shows "a_unit (r_axis n) = ''Hz'' \<and> 2 \<le> length (a_values (r_axis n)) \<and> flt (PFin 0) (hd (a_values (r_axis n)))"
proof -
  have c: "a_unit (r_axis n) = ''Hz''" "2 \<le> length (a_values (r_axis n))" "\<not> fle (hd (a_values (r_axis n))) (PFin 0)"
    using assms(1) by (auto simp: check_frequencies_def split: if_splits)
  have "hd (a_values (r_axis n)) \<in> set (a_values (r_axis n))" using c(2) by (intro hd_in_set) auto
  then have "is_finite (hd (a_values (r_axis n)))"
    using assms(2) by (simp add: series_ok_def axis_ok_def list_all_iff finite64_is_finite)
  then have "flt (PFin 0) (hd (a_values (r_axis n)))" using c(3) by (auto simp: is_finite_iff not_le)
  then show ?thesis using c by blast
qed

lemma transfer_ratios_parts:
  assumes "transfer_ratios env lm series transfer = Inr (n, r, units, ratios)"
  shows "normalize_series env True series = Inr n \<and> (\<exists>u. check_frequencies n = Inr u)
     \<and> normalize_transfer transfer = Inr r \<and> (\<exists>u. check_signals n r = Inr u)
     \<and> t_operand_unit n (tr_input r) ''transfer.input'' = Inr (fst units)
     \<and> t_operand_unit n (tr_output r) ''transfer.output'' = Inr (fst (snd units))
     \<and> ratio_unit (tr_kind r) (fst units) (fst (snd units)) = Inr (snd (snd units))
     \<and> (\<exists>inputs outputs. operand_phasors n (tr_input r) = Inr inputs \<and> operand_phasors n (tr_output r) = Inr outputs
          \<and> ratio_trace lm inputs outputs = Inr ratios)"
  using assms by (auto simp: transfer_ratios_def Let_def)

lemma transfer_ratios_ok:
  assumes "env_ok env" and "wf_val series" and "transfer_ratios env lm series transfer = Inr (n, r, units, ratios)"
  shows "trace_ok lm n r ratios"
proof -
  obtain u v inputs outputs where p: "normalize_series env True series = Inr n" "check_frequencies n = Inr u"
      "normalize_transfer transfer = Inr r" "check_signals n r = Inr v"
      "operand_phasors n (tr_input r) = Inr inputs" "operand_phasors n (tr_output r) = Inr outputs"
      "ratio_trace lm inputs outputs = Inr ratios"
    using transfer_ratios_parts [OF assms(3)] by blast
  have ok: "series_ok n" by (rule normalize_series_ok [OF assms(2,1) p(1)])
  have known: "operand_known n (tr_input r)" "operand_known n (tr_output r)" using check_signals_known [OF p(4)] by simp_all
  have points: "list_all (signal_ok (length (a_values (r_axis n)))) (r_signals n)" using ok by (simp add: series_ok_def)
  have "length inputs = length (a_values (r_axis n))" "length outputs = length (a_values (r_axis n))"
    using operand_phasors_total [OF known(1) points] operand_phasors_total [OF known(2) points] p(5,6) by auto
  then show ?thesis
    using ok check_frequencies_ok [OF p(2) ok] returnsD [OF normalize_transfer_ok p(3)] ratio_trace_ok [OF p(7)]
    by (simp add: trace_ok_def)
qed

lemma transfer_ratios_settled:
  assumes "env_ok env" and "libm_ok lm" and "wf_val series"
  shows "errs_in settled_at (transfer_ratios env lm series transfer)"
  unfolding transfer_ratios_def Let_def
proof (intro err_intros series_result_errors assms)
  fix n r u v
  assume "mark no_transfer (series_result ''transfer.source.invalid'' (normalize_series env True series)) = Inr n" "check_signals n r = Inr v"
  then have p: "normalize_series env True series = Inr n" "check_signals n r = Inr v" by simp_all
  have ok: "list_all (signal_ok (length (a_values (r_axis n)))) (r_signals n)"
    using normalize_series_ok [OF assms(3,1) p(1)] by (simp add: series_ok_def)
  show "operand_known n (tr_input r)" "operand_known n (tr_output r)" using check_signals_known [OF p(2)] by simp_all
  then show "errs_in settled (operand_phasors n (tr_input r))" "errs_in settled (operand_phasors n (tr_output r))"
    using operand_phasors_total [OF _ ok] by (blast intro: errs_in_total)+
qed simp_all

lemma analyze_settled:
  assumes "libm_ok lm" and "request_ok r"
  shows "errs_in settled (analyze env lm n r units ratios phases)"
proof -
  obtain sha where "canonical_sha256 env (request_json r) = Inr sha"
    using canonical_sha256_total [OF request_json_value [OF assms(2)]] by blast
  then show ?thesis unfolding analyze_def Let_def
    by (cases units) (simp only: prod.case raising_simps, intro err_intros assms)
qed

lemma transfer_value_settled [err_intros]:
  assumes "libm_ok lm" and "request_ok (an_request a)"
  shows "errs_in settled (transfer_value lm a)"
  unfolding transfer_value_def Let_def
  by (intro err_intros assms) (use assms(2) in \<open>auto simp: request_ok_def split: list.split\<close>)

lemma finish_transfer_settled:
  assumes "libm_ok lm" and "request_ok (an_request a)"
  shows "errs_in settled (finish_transfer env lm correlation source a)"
  unfolding finish_transfer_def Let_def by (intro err_intros assms) (auto split: prod.split)

lemma analyze_request: "analyze env lm n r units ratios phases = Inr a \<Longrightarrow> an_request a = r"
  by (auto simp: analyze_def Let_def split: prod.splits)

lemma trace_unwraps:
  assumes "libm_ok lm" and "trace_ok lm n r ratios"
  shows "\<exists>us. unwrap_phase lm (map fst ratios) = Some (Inr us) \<and> length us = length ratios \<and> list_all is_finite us"
proof -
  have ne: "map fst ratios \<noteq> []" "length (map fst ratios) \<le> MAX_POINTS" "list_all finite_complex (map fst ratios)"
    using assms(2) by (auto simp: trace_ok_def series_ok_def axis_ok_def list_all_iff point_ok_def)
  have at: "atan2_ok lm" using assms(1) by (simp add: libm_ok_def)
  show ?thesis using unwrap_phase_end [OF at ne(3,1,2)] by (auto dest!: list_all2_lengthD map_res_length)
qed

lemma transfer_body_settled:
  assumes "env_ok env" and "libm_ok lm" and "wf_val series"
  shows "\<exists>m. transfer_body env lm correlation series transfer = Some m \<and> errs_in settled_at m"
proof (cases "transfer_ratios env lm series transfer")
  case (Inl pe)
  then show ?thesis using transfer_ratios_settled [OF assms, of transfer] by (simp add: transfer_body_def)
next
  case (Inr x)
  obtain n r units ratios where x: "x = (n, r, units, ratios)" by (cases x)
  have ok: "trace_ok lm n r ratios" using transfer_ratios_ok [OF assms(1,3)] Inr x by blast
  then have req: "request_ok r" by (simp add: trace_ok_def)
  obtain us where us: "unwrap_phase lm (map fst ratios) = Some (Inr us)" using trace_unwraps [OF assms(2) ok] by blast
  have "errs_in settled_at (pbind (mark p (analyze env lm n r units ratios us)) (\<lambda>a.
          mark (p\<lparr>tp_record := \<lparr>tf_status = ''analyzed'', tf_analysis = Some a\<rparr>\<rparr>) (finish_transfer env lm correlation (r_source n) a)))" for p
    by (intro err_intros analyze_settled finish_transfer_settled assms req) (use req analyze_request in auto)
  then show ?thesis by (simp add: transfer_body_def Inr x us Let_def mark_def)
qed

lemma transfer_outcome_total: "errs_in settled_at m \<Longrightarrow> \<exists>r. transfer_outcome env lm correlation m = Inr r"
  by (cases m) (auto simp: transfer_outcome_def split: prod.split terror.split)

text \<open>C12: the transfer operation always answers.  For every environment and C library that behave as
  documented and every request and series, the loops that unwrap the phases end, no exception leaves the
  operation, and it returns a result envelope.\<close>

theorem measure_transfer_total:
  assumes "env_ok env" and "libm_ok lm" and "wf_val series"
  shows "\<exists>r. measure_transfer env lm series transfer request_id = Some (Inr r)"
proof (cases "request_identity env request_id")
  case (Inr correlation)
  obtain m where "transfer_body env lm correlation series transfer = Some m" "errs_in settled_at m"
    using transfer_body_settled [OF assms] by blast
  then show ?thesis using transfer_outcome_total [of m env lm correlation] by (simp add: measure_transfer_def Inr)
qed (simp add: measure_transfer_def)

end
