(* ===== verification/TransferVerdict.thy ===== *)
theory TransferVerdict
  imports TransferTotal
begin

text \<open>
  What the verdicts of the transfer operation rest on: a pass carries a value the request's reference
  reading determines, a failure that the trace never falls through the threshold.
\<close>

section \<open>Falling pairs of points\<close>

text \<open>The indices whose point is above the threshold and whose successor is not.\<close>

definition falling_points :: "pyfloat \<Rightarrow> pyfloat list \<Rightarrow> nat list" where
  "falling_points threshold ys = filter (\<lambda>i. falls threshold (ys ! i) (ys ! Suc i)) [0..<length ys - 1]"

lemma falling_points_Cons:
  "falling_points threshold (a # b # ys) =
     (if falls threshold a b then [0] else []) @ map Suc (falling_points threshold (b # ys))"
proof -
  have "[0..<length (a # b # ys) - 1] = 0 # map Suc [0..<length (b # ys) - 1]"
    by (simp add: upt_conv_Cons map_Suc_upt del: upt_Suc)
  then show ?thesis by (simp add: falling_points_def filter_map comp_def)
qed

lemma falling_points_short: "length ys \<le> 1 \<Longrightarrow> falling_points threshold ys = []"
  by (cases ys) (simp_all add: falling_points_def)

lemma falling_crossings_exact:
  "falling_crossings lm threshold points = Inr cs \<Longrightarrow>
   list_all2 (\<lambda>i c. crossing_at lm threshold (points ! i) (points ! Suc i) = Inr c)
     (falling_points threshold (map (\<lambda>p. fst (snd p)) points)) cs"
proof (induction lm threshold points arbitrary: cs rule: falling_crossings.induct)
  case (1 lm threshold a b rest)
  obtain now later where now: "(if falls threshold (fst (snd a)) (fst (snd b))
       then pbind (crossing_at lm threshold a b) (\<lambda>c. Inr [c]) else Inr []) = Inr now"
    and later: "falling_crossings lm threshold (b # rest) = Inr later" and cs: "cs = now @ later"
    using "1.prems" by auto
  have "list_all2 (\<lambda>i c. crossing_at lm threshold ((a # b # rest) ! i) ((a # b # rest) ! Suc i) = Inr c)
      (map Suc (falling_points threshold (map (\<lambda>p. fst (snd p)) (b # rest)))) later"
    using "1.IH" [OF now later] by (simp add: list_all2_map1)
  then show ?case using now
    by (auto simp: cs falling_points_Cons split: if_splits)
qed (simp_all add: falling_points_short)

lemma stays_above:
  assumes "list_all is_finite ys" and "is_finite threshold" and "falling_points threshold ys = []"
    and "flt threshold (ys ! i)" and "i \<le> j" and "j < length ys"
  shows "flt threshold (ys ! j)"
  using assms(5,6)
proof (induction j rule: dec_induct)
  case base
  show ?case by (rule assms(4))
next
  case (step j)
  have "flt threshold (ys ! j)" using step by simp
  moreover have "\<not> falls threshold (ys ! j) (ys ! Suc j)"
    using assms(3) step.prems by (auto simp: falling_points_def filter_empty_conv)
  ultimately have "\<not> fle (ys ! Suc j) threshold" by (simp add: falls_def)
  moreover have "is_finite (ys ! Suc j)" using assms(1) step.prems by (simp add: list_all_length)
  ultimately show ?case using assms(2) by (auto simp: is_finite_iff not_le)
qed

section \<open>The magnitude at a frequency\<close>

definition interpolated :: "libm \<Rightarrow> pyfloat \<times> pyfloat \<Rightarrow> pyfloat \<times> pyfloat \<Rightarrow> pyfloat \<Rightarrow> pyfloat \<Rightarrow> bool" where
  "interpolated lm left right x v \<longleftrightarrow>
     flt (fst left) x \<and> flt x (fst right)
     \<and> (\<exists>d u t. log10_span lm (fst left) (fst right) = Inr d \<and> log10_span lm (fst left) x = Inr u \<and> fdiv u d = Inr t
          \<and> v = fadd (snd left) (fmul t (fsub (snd right) (snd left))))"

definition read_at :: "libm \<Rightarrow> (pyfloat \<times> pyfloat) list \<Rightarrow> pyfloat \<Rightarrow> pyfloat \<Rightarrow> bool" where
  "read_at lm points x v \<longleftrightarrow>
     (\<exists>k<length points. points ! k = (x, v))
     \<or> (\<exists>k<length points - 1. interpolated lm (points ! k) (points ! Suc k) x v)"

lemma read_at_Cons:
  assumes "read_at lm points x v"
  shows "read_at lm (p # points) x v"
proof -
  consider (hit) k where "k < length points" "points ! k = (x, v)"
    | (between) k where "k < length points - 1" "interpolated lm (points ! k) (points ! Suc k) x v"
    using assms unfolding read_at_def by blast
  then show ?thesis
  proof cases
    case hit
    then have "Suc k < length (p # points) \<and> (p # points) ! Suc k = (x, v)" by simp
    then show ?thesis unfolding read_at_def by blast
  next
    case between
    then have "Suc k < length (p # points) - 1 \<and> interpolated lm ((p # points) ! Suc k) ((p # points) ! Suc (Suc k)) x v" by simp
    then show ?thesis unfolding read_at_def by blast
  qed
qed

lemma magnitude_from_exact:
  assumes "magnitude_from lm x before points = Inr v" and "flt (fst before) x" and "is_finite x"
    and "list_all (is_finite \<circ> fst) points"
  shows "read_at lm (before # points) x v"
  using assms
proof (induction points arbitrary: before)
  case (Cons p points)
  obtain f y where p: "p = (f, y)" by (cases p)
  show ?case
  proof (cases "feq f x")
    case True
    then have "y = v" "f = x" using Cons.prems(1) by (simp add: p) (use True in \<open>simp add: feq_def\<close>)
    then have "(before # p # points) ! 1 = (x, v)" by (simp add: p)
    then show ?thesis unfolding read_at_def by (intro disjI1 exI [of _ 1]) simp
  next
    case unequal: False
    show ?thesis
    proof (cases "flt x f")
      case True
      then have "interpolated lm ((before # p # points) ! 0) ((before # p # points) ! Suc 0) x v"
        using Cons.prems(1,2) unequal by (auto simp: p interpolated_def split: if_splits)
      then show ?thesis unfolding read_at_def by (intro disjI2 exI [of _ 0]) simp
    next
      case False
      then have "flt f x" using unequal Cons.prems(3,4) by (auto simp: p is_finite_iff)
      then have "read_at lm (p # points) x v" using Cons.IH [of p] Cons.prems(1,3,4) unequal False by (simp add: p)
      then show ?thesis by (rule read_at_Cons)
    qed
  qed
qed simp

lemma magnitude_at_exact:
  assumes "magnitude_at lm points x = Inr v" and "is_finite x" and "list_all (is_finite \<circ> fst) points"
    and "fle (fst (hd points)) x"
  shows "read_at lm points x v"
proof (cases points)
  case (Cons p rest)
  obtain f y where p: "p = (f, y)" by (cases p)
  have f: "feq f x \<or> flt f x" using assms(4) by (auto simp: Cons p fle_def)
  show ?thesis
  proof (cases "feq f x")
    case True
    then have "y = v" "f = x" using assms(1) by (simp add: Cons p magnitude_at_def) (use True in \<open>simp add: feq_def\<close>)
    then have "points ! 0 = (x, v)" by (simp add: Cons p)
    then show ?thesis unfolding read_at_def Cons by (intro disjI1 exI [of _ 0]) simp
  next
    case False
    then have less: "flt f x" using f by blast
    then have "\<not> flt x f" using assms(2,3) by (auto simp: Cons p is_finite_iff)
    then have "magnitude_from lm x p rest = Inr v" using assms(1) False by (simp add: Cons p magnitude_at_def)
    then show ?thesis using magnitude_from_exact [of lm x p rest v] less assms(2,3) by (simp add: Cons p)
  qed
qed (use assms(1) in \<open>simp add: magnitude_at_def\<close>)

section \<open>The reference reading\<close>

text \<open>
  The value \<open>v\<close> at the frequency \<open>x\<close> that a request names on a trace of frequencies, ratios with their
  decibels, and phases.
\<close>

definition single_fall ::
  "libm \<Rightarrow> pyfloat \<Rightarrow> trace_point list \<Rightarrow> falling_crossing \<Rightarrow> bool" where
  "single_fall lm threshold points c \<longleftrightarrow>
     (\<exists>k. falling_points threshold (map (\<lambda>p. fst (snd p)) points) = [k]
        \<and> crossing_at lm threshold (points ! k) (points ! Suc k) = Inr c)"

definition reads ::
  "libm \<Rightarrow> transfer_request \<Rightarrow> pyfloat list \<Rightarrow> (pycomplex \<times> pyfloat) list \<Rightarrow> pyfloat list \<Rightarrow> pyfloat \<Rightarrow> pyfloat \<Rightarrow> bool"
where
  "reads lm r fs ratios phases v x \<longleftrightarrow>
     (let kind = tr_kind r; ys = map snd ratios; points = zip fs (zip ys phases)
      in if kind = ''low_frequency_gain_db'' then v = hd ys \<and> x = hd fs
         else if kind = ''low_frequency_impedance'' then lm_abs lm (fst (hd ratios)) = Inr v \<and> x = hd fs
         else if kind = ''ac_magnitude_at_frequency''
         then tr_frequency r = Some x \<and> read_at lm (zip fs ys) x v
         else if kind = ''bandwidth_3db''
         then (\<exists>c. single_fall lm (fsub (hd ys) (PFin 3)) points c \<and> v = fc_frequency c \<and> x = fc_frequency c)
         else (\<exists>c. single_fall lm (PFin 0) points c \<and> x = fc_frequency c
                \<and> v = (if kind = ''unity_gain_frequency'' then fc_frequency c else fadd (PFin 180) (fc_phase c))))"

lemma analyze_parts:
  assumes "analyze env lm n r units ratios phases = Inr a"
  shows "an_request a = r \<and> an_frequencies a = a_values (r_axis n) \<and> an_magnitudes a = map snd ratios
     \<and> an_phases a = phases \<and> an_threshold a = fsub (hd (map snd ratios)) (PFin 3)
     \<and> lm_abs lm (fst (hd ratios)) = Inr (an_reference a)
     \<and> falling_crossings lm (an_threshold a) (zip (an_frequencies a) (zip (an_magnitudes a) phases)) = Inr (an_bandwidth a)
     \<and> falling_crossings lm (PFin 0) (zip (an_frequencies a) (zip (an_magnitudes a) phases)) = Inr (an_unity a)"
  using assms by (auto simp: analyze_def Let_def split: prod.splits)

lemma single_fall_intro:
  "falling_crossings lm threshold points = Inr [c] \<Longrightarrow> single_fall lm threshold points c"
  using falling_crossings_exact [of lm threshold points "[c]"] by (auto simp: single_fall_def list_all2_Cons2)

lemma transfer_value_reads:
  assumes "trace_ok lm n r ratios" and "length phases = length ratios"
    and a: "analyze env lm n r units ratios phases = Inr a" and v: "transfer_value lm a = Inr (Some (v, x))"
  shows "reads lm r (a_values (r_axis n)) ratios phases v x"
proof -
  note p = analyze_parts [OF a]
  have fin: "list_all (is_finite \<circ> fst) (zip (a_values (r_axis n)) (map snd ratios))"
    using assms(1) by (auto simp: trace_ok_def series_ok_def axis_ok_def list_all_iff finite64_is_finite dest: set_zip_leftD)
  have ne: "a_values (r_axis n) \<noteq> []" "ratios \<noteq> []" using assms(1) by (auto simp: trace_ok_def)
  have hd: "fst (hd (zip (a_values (r_axis n)) (map snd ratios))) = hd (a_values (r_axis n))"
    using ne by (cases "a_values (r_axis n)"; cases ratios) simp_all
  have at: "tr_frequency r = Some y \<Longrightarrow> is_finite y" for y using assms(1) by (simp add: trace_ok_def request_ok_def)
  show ?thesis
    using v p at fin magnitude_at_exact [of lm "zip (a_values (r_axis n)) (map snd ratios)" x v] single_fall_intro
    unfolding reads_def transfer_value_def Let_def hd
    by (simp split: if_splits option.splits list.splits) blast+
qed

section \<open>What a verdict rests on\<close>

lemma transfer_payload_status [simp]: "e_status (transfer_payload env c m t st sm x ds) = st"
  by (simp add: transfer_payload_def)

lemma transfer_refusal_status [simp]: "e_status (transfer_refusal env c p x code msg) = ''unknown''"
  by (simp add: transfer_refusal_def)

lemma measure_transfer_known:
  assumes "measure_transfer env lm series transfer request_id = Some (Inr e)" and "e_status e \<noteq> ''unknown''"
  shows "\<exists>correlation n r units ratios phases a.
     transfer_ratios env lm series transfer = Inr (n, r, units, ratios)
     \<and> unwrap_phase lm (map fst ratios) = Some (Inr phases)
     \<and> analyze env lm n r units ratios phases = Inr a
     \<and> finish_transfer env lm correlation (r_source n) a = Inr e"
proof -
  obtain correlation m where m: "transfer_body env lm correlation series transfer = Some m"
      "transfer_outcome env lm correlation m = Inr e"
    using assms by (auto simp: measure_transfer_def split: sum.splits)
  have "m = Inr e" using m(2) assms(2) by (auto simp: transfer_outcome_def split: sum.splits prod.splits terror.splits if_splits)
  then show ?thesis using m(1)
    by (auto simp: transfer_body_def Let_def split: sum.splits prod.splits)
qed

text \<open>The three ways in which an analysed trace ends.\<close>

lemma finish_transfer_cases:
  assumes "finish_transfer env lm correlation source a = Inr e"
  shows "e_status e = ''fail'' \<and> selected_crossings a = Some []
     \<or> e_status e = ''unknown''
     \<or> e_status e = ''pass'' \<and> (\<exists>v x. transfer_value lm a = Inr (Some (v, x)) \<and> is_finite v
          \<and> (\<exists>m t summary. e = transfer_payload env correlation m t ''pass'' summary ''completed'' []
               \<and> m_status m = ''measured'' \<and> m_value m = Some v \<and> m_location m = Some (x, ''Hz'')
               \<and> m_kind m = Some (tr_kind (an_request a)) \<and> m_request_sha256 m = Some (an_sha256 a)
               \<and> m_sample_count m = length (an_frequencies a) \<and> m_evidence m = Some source
               \<and> t = \<lparr>tf_status = ''analyzed'', tf_analysis = Some a\<rparr>))"
proof -
  obtain res where v: "transfer_value lm a = Inr res"
    using assms by (auto simp: finish_transfer_def Let_def)
  have status: "crossing_status cs = ''not_found'' \<longleftrightarrow> cs = []" for cs
    by (auto simp: crossing_status_def split: if_splits)
  let ?r = "an_request a"
  let ?m = "\<lambda>v x. (transfer_template (Some (tr_id ?r)) (Some (tr_kind ?r)) (Some (signal_expression ?r)) (Some source))
     \<lparr>m_request_sha256 := Some (an_sha256 a), m_sample_count := length (an_frequencies a), m_status := ''measured'',
      m_value := Some v, m_location := Some (x, ''Hz'')\<rparr>"
  consider (none) "selected_crossings a = Some []" | (many) "map_option crossing_status (selected_crossings a) = Some ''ambiguous''"
    | (one) "map_option crossing_status (selected_crossings a) \<noteq> Some ''not_found''"
        "map_option crossing_status (selected_crossings a) \<noteq> Some ''ambiguous''"
    by (auto simp: status)
  then show ?thesis
  proof cases
    case none
    then show ?thesis using assms by (auto simp: finish_transfer_def Let_def v crossing_status_def)
  next
    case many
    then show ?thesis using assms by (auto simp: finish_transfer_def Let_def v)
  next
    case one
    obtain w x where r: "res = Some (w, x)" "is_finite w" and e: "e = transfer_payload env correlation (?m w x)
        \<lparr>tf_status = ''analyzed'', tf_analysis = Some a\<rparr> ''pass''
        (''The closed '' @ repr_text (tr_kind ?r) @ '' AC transfer measurement was derived.'') ''completed'' []"
      using assms one by (auto simp: finish_transfer_def Let_def v split: option.splits if_splits)
    have "m_status (?m w x) = ''measured'' \<and> m_value (?m w x) = Some w \<and> m_location (?m w x) = Some (x, ''Hz'')
        \<and> m_kind (?m w x) = Some (tr_kind ?r) \<and> m_request_sha256 (?m w x) = Some (an_sha256 a)
        \<and> m_sample_count (?m w x) = length (an_frequencies a) \<and> m_evidence (?m w x) = Some source"
      by (simp add: transfer_template_def)
    then show ?thesis using e r v by (metis transfer_payload_status)
  qed
qed

text \<open>C9: a pass carries the value the request names.  When the transfer operation passes, the measurement
  record holds a finite value that is the reference reading of the trace computed from the series: the
  first decibels or magnitude, the magnitude at the requested frequency read at a simulated point or
  interpolated between its two neighbours, or the crossing at the only pair of points that falls
  through the threshold.\<close>

theorem transfer_pass_grounded:
  assumes "env_ok env" and "libm_ok lm" and "wf_val series"
    and "measure_transfer env lm series transfer request_id = Some (Inr e)" and "e_status e = ''pass''"
  shows "\<exists>n r units ratios phases v x m t c summary.
     transfer_ratios env lm series transfer = Inr (n, r, units, ratios)
     \<and> unwrap_phase lm (map fst ratios) = Some (Inr phases)
     \<and> reads lm r (a_values (r_axis n)) ratios phases v x \<and> is_finite v
     \<and> e = transfer_payload env c m t ''pass'' summary ''completed'' []
     \<and> m_status m = ''measured'' \<and> m_value m = Some v \<and> m_location m = Some (x, ''Hz'')
     \<and> m_kind m = Some (tr_kind r) \<and> m_sample_count m = length (a_values (r_axis n)) \<and> m_evidence m = Some (r_source n)"
proof -
  obtain correlation n r units ratios phases a where p: "transfer_ratios env lm series transfer = Inr (n, r, units, ratios)"
      "unwrap_phase lm (map fst ratios) = Some (Inr phases)" "analyze env lm n r units ratios phases = Inr a"
      "finish_transfer env lm correlation (r_source n) a = Inr e"
    using measure_transfer_known [OF assms(4)] assms(5) by auto
  have ok: "trace_ok lm n r ratios" by (rule transfer_ratios_ok [OF assms(1,3) p(1)])
  have len: "length phases = length ratios" using trace_unwraps [OF assms(2) ok] p(2) by auto
  obtain v x m t summary where v: "transfer_value lm a = Inr (Some (v, x))" "is_finite v"
      "e = transfer_payload env correlation m t ''pass'' summary ''completed'' []" "m_status m = ''measured''"
      "m_value m = Some v" "m_location m = Some (x, ''Hz'')" "m_kind m = Some (tr_kind (an_request a))"
      "m_sample_count m = length (an_frequencies a)" "m_evidence m = Some (r_source n)"
    using finish_transfer_cases [OF p(4)] assms(5) by auto
  have "reads lm r (a_values (r_axis n)) ratios phases v x" by (rule transfer_value_reads [OF ok len p(3) v(1)])
  then show ?thesis using p(1,2) v analyze_parts [OF p(3)] by metis
qed

text \<open>The threshold of the bandwidth is below the first point.\<close>

lemma bandwidth_threshold:
  assumes "libm_ok lm" and "point_ok lm x"
  shows "is_finite (fsub (snd x) (PFin 3)) \<and> flt (fsub (snd x) (PFin 3)) (snd x)"
proof -
  obtain m l where l: "lm_log10 lm m = Inr l" "snd x = fmul (PFin 20) l" "is_finite (snd x)"
    using assms(2) by (auto simp: point_ok_def)
  then obtain q where q: "l = PFin q" by (cases l) simp_all
  have "\<bar>q\<bar> \<le> 400" using assms(1) l(1) q unfolding libm_ok_def by blast
  then have small: "\<bar>20 * q\<bar> < 2 ^ 26" by (simp add: abs_mult)
  obtain y where y: "snd x = PFin y" "\<bar>y - 20 * q\<bar> \<le> tiny"
    by (rule round_near [OF small]) (use l(2) q in simp)
  have "\<bar>y\<bar> \<le> 8001" using y(2) \<open>\<bar>q\<bar> \<le> 400\<close> tiny_bounds by (auto simp: abs_le_iff)
  then have near: "\<bar>y - 3\<bar> < 2 ^ 26" by (auto simp: abs_le_iff abs_less_iff)
  show ?thesis by (rule fsub_near [OF near]) (use y(1) tiny_bounds in \<open>auto simp: abs_le_iff\<close>)
qed

text \<open>C10: a failure is a fact about the whole trace.  When the transfer operation fails, the request asks
  for a crossing and the trace has none: for a bandwidth, every point stays above 3 dB below the first
  one; for a unity-gain crossing or a phase margin, a trace above 0 dB at some point stays above at
  every later point.\<close>

theorem transfer_fail_certified:
  assumes "env_ok env" and "libm_ok lm" and "wf_val series"
    and "measure_transfer env lm series transfer request_id = Some (Inr e)" and "e_status e = ''fail''"
  shows "\<exists>n r units ratios. transfer_ratios env lm series transfer = Inr (n, r, units, ratios)
     \<and> (tr_kind r = ''bandwidth_3db''
          \<and> (\<forall>x\<in>set ratios. flt (fsub (snd (hd ratios)) (PFin 3)) (snd x))
        \<or> tr_kind r \<in> {''unity_gain_frequency'', ''phase_margin''}
          \<and> (\<forall>i j. i \<le> j \<longrightarrow> j < length ratios \<longrightarrow> flt (PFin 0) (snd (ratios ! i)) \<longrightarrow> flt (PFin 0) (snd (ratios ! j))))"
proof -
  obtain correlation n r units ratios phases a where p: "transfer_ratios env lm series transfer = Inr (n, r, units, ratios)"
      "unwrap_phase lm (map fst ratios) = Some (Inr phases)" "analyze env lm n r units ratios phases = Inr a"
      "finish_transfer env lm correlation (r_source n) a = Inr e"
    using measure_transfer_known [OF assms(4)] assms(5) by auto
  have ok: "trace_ok lm n r ratios" by (rule transfer_ratios_ok [OF assms(1,3) p(1)])
  have len: "length phases = length ratios" "length ratios = length (a_values (r_axis n))"
    using trace_unwraps [OF assms(2) ok] p(2) ok by (auto simp: trace_ok_def)
  have ys: "map (\<lambda>p. fst (snd p)) (zip (a_values (r_axis n)) (zip (map snd ratios) phases)) = map snd ratios"
    by (rule nth_equalityI) (simp_all add: len)
  have fin: "list_all is_finite (map snd ratios)" using ok by (auto simp: trace_ok_def list_all_iff point_ok_def)
  have none: "falling_points threshold (map snd ratios) = []"
    if "falling_crossings lm threshold (zip (a_values (r_axis n)) (zip (map snd ratios) phases)) = Inr []" for threshold
    using falling_crossings_exact [OF that] by (simp only: ys list_all2_Nil2)
  note above = stays_above [OF fin _ none]
  have sel: "selected_crossings a = Some []" using finish_transfer_cases [OF p(4)] assms(5) by auto
  show ?thesis
  proof (cases "tr_kind r = ''bandwidth_3db''")
    case True
    have ne: "ratios \<noteq> []" using ok by (auto simp: trace_ok_def)
    then have first: "point_ok lm (hd ratios)" using ok by (simp add: trace_ok_def list_all_iff)
    have th: "is_finite (fsub (snd (hd ratios)) (PFin 3))" "flt (fsub (snd (hd ratios)) (PFin 3)) (snd (hd ratios))"
      using bandwidth_threshold [OF assms(2) first] by simp_all
    have b: "falling_crossings lm (fsub (snd (hd ratios)) (PFin 3)) (zip (a_values (r_axis n)) (zip (map snd ratios) phases)) = Inr []"
      using sel analyze_parts [OF p(3)] True ne by (auto simp: selected_crossings_def Let_def hd_map)
    have each: "flt (fsub (snd (hd ratios)) (PFin 3)) (snd (ratios ! j))" if "j < length ratios" for j
      using above [OF th(1) b, of 0 j] th(2) ne that by (simp add: hd_conv_nth)
    have "\<forall>x\<in>set ratios. flt (fsub (snd (hd ratios)) (PFin 3)) (snd x)"
    proof
      fix x assume "x \<in> set ratios"
      then obtain j where "j < length ratios" "ratios ! j = x" by (auto simp only: in_set_conv_nth)
      then show "flt (fsub (snd (hd ratios)) (PFin 3)) (snd x)" using each [of j] by simp
    qed
    then show ?thesis using p(1) True by blast
  next
    case False
    then have kind: "tr_kind r \<in> {''unity_gain_frequency'', ''phase_margin''}" and unity: "an_unity a = []"
      using sel analyze_parts [OF p(3)] by (auto simp: selected_crossings_def Let_def split: if_splits)
    have u: "falling_crossings lm (PFin 0) (zip (a_values (r_axis n)) (zip (map snd ratios) phases)) = Inr []"
      using analyze_parts [OF p(3)] unity by auto
    have "flt (PFin 0) (snd (ratios ! j))" if "i \<le> j" "j < length ratios" "flt (PFin 0) (snd (ratios ! i))" for i j
      using above [OF _ u, of i j] that by simp
    then show ?thesis using p(1) kind by blast
  qed
qed

end
