(* ===== verification/TransferExample.thy ===== *)
theory TransferExample
  imports TransferVerdict
begin

text \<open>
  A gain of 10 at 1 Hz and of 1 at 10 Hz, and a flat one, measured with a small C library that is
  exact at the points and at the crossing of unity.
\<close>

section \<open>A C library\<close>

definition example_libm :: libm where
  "example_libm =
     \<lparr>lm_log = (\<lambda>x. Inr (PFin 1)),
      lm_log10 = (\<lambda>x. if x = PFin 1 then Inr (PFin 0) else if x = PFin 10 then Inr (PFin 1)
                     else Inl (ValueError ''math domain error'')),
      lm_log1p = (\<lambda>x. if x = PFin 0 then Inr (PFin 0) else Inl (ValueError ''math domain error'')),
      lm_atan2 = (\<lambda>y x. Inr (PFin 0)), lm_abs = (\<lambda>z. Inr (fabs (fst z))),
      lm_pow10 = (\<lambda>x. if x = PFin 1 then Inr (PFin 10) else Inr (PFin 1)),
      lm_message = (\<lambda>e. ''math domain error'')\<rparr>"

lemma example_libm_ok: "libm_ok example_libm"
  by (simp add: libm_ok_def atan2_ok_def example_libm_def numeric_error_def)

section \<open>A series\<close>

abbreviation ac_signal :: "string \<Rightarrow> pyfloat list \<Rightarrow> pyval" where
  "ac_signal name xs \<equiv> obj [(''name'', VStr name), (''unit'', VStr ''V''), (''values'', VList (map VFloat xs))]"

definition ac_series :: pyval where
  "ac_series =
     obj [(''source'',
            obj [(''operation'', VStr ''simulate''),
                 (''request_id'', VStr ''00000000-0000-4000-8000-000000000000''),
                 (''artifact_role'', VStr ''measurement.source''), (''artifact_sha256'', VStr zeros)]),
          (''axis'', obj [(''name'', VStr ''frequency''), (''unit'', VStr ''Hz''),
             (''values'', VList [VFloat (PFin 1), VFloat (PFin 10)])]),
          (''signals'', VList
             [ac_signal ''in_re'' [PFin 1, PFin 1], ac_signal ''in_im'' [PFin 0, PFin 0],
              ac_signal ''out_re'' [PFin 10, PFin 1], ac_signal ''out_im'' [PFin 0, PFin 0],
              ac_signal ''flat_re'' [PFin 1, PFin 1], ac_signal ''flat_im'' [PFin 0, PFin 0]]),
          (''conditions'', VList []), (''extensions'', VDict [])]"

abbreviation ac_record :: "string \<Rightarrow> pyfloat list \<Rightarrow> signal_rec" where
  "ac_record name xs \<equiv> \<lparr>g_name = name, g_unit = ''V'', g_values = xs\<rparr>"

definition ac_normal :: series where
  "ac_normal =
     \<lparr>r_axis = \<lparr>a_name = ''frequency'', a_unit = ''Hz'', a_values = [PFin 1, PFin 10]\<rparr>,
      r_signals =
        [ac_record ''in_re'' [PFin 1, PFin 1], ac_record ''in_im'' [PFin 0, PFin 0],
         ac_record ''out_re'' [PFin 10, PFin 1], ac_record ''out_im'' [PFin 0, PFin 0],
         ac_record ''flat_re'' [PFin 1, PFin 1], ac_record ''flat_im'' [PFin 0, PFin 0]],
      r_conditions = [],
      r_source = \<lparr>s_operation = ''simulate'', s_request_id = ''00000000-0000-4000-8000-000000000000'',
        s_role = ''measurement.source'', s_artifact_sha256 = zeros, s_series_sha256 = zeros,
        s_conditions_sha256 = zeros, s_conditions = [], s_lineage = None\<rparr>\<rparr>"

lemma ac_wf: "wf_val ac_series"
proof -
  have "f64 (PFin 0)" "f64 (PFin 1)" "f64 (PFin 10)"
    using finite64_0 finite64_1 finite64_of_int [of 10] by (simp_all add: f64_finite64)
  then show ?thesis by (simp add: ac_series_def obj_def wf_val.simps(4))
qed

lemma ac_normalises: "normalize_series example_env True ac_series = Inr ac_normal"
  by (simp add: normalize_series_def ac_series_def example_source m_axis_def m_signals_def m_signal_def
      m_conditions_def bounded_name_def MAX_POINTS_def MAX_SIGNALS_def MAX_CONDITIONS_def ac_normal_def
      example_sha content_json_def axis_json_def signal_json_def fle_def)

section \<open>Two requests\<close>

definition ac_request :: "string \<Rightarrow> string \<Rightarrow> string \<Rightarrow> string \<Rightarrow> pyval" where
  "ac_request re im kind unit =
     obj [(''measurement_id'', VStr ''loop''),
          (''input'', obj [(''real'', VStr ''in_re''), (''imaginary'', VStr ''in_im'')]),
          (''output'', obj [(''real'', VStr re), (''imaginary'', VStr im)]),
          (''interpretation'', VStr ''forward''), (''method'', obj expected_method),
          (''metric'', obj [(''kind'', VStr kind), (''unit'', VStr unit)]), (''extensions'', VDict [])]"

definition ac_transfer :: "string \<Rightarrow> string \<Rightarrow> string \<Rightarrow> string \<Rightarrow> transfer_request" where
  "ac_transfer re im kind unit =
     \<lparr>tr_id = ''loop'', tr_input = \<lparr>op_real = ''in_re'', op_imaginary = ''in_im'', op_negative = None\<rparr>,
      tr_output = \<lparr>op_real = re, op_imaginary = im, op_negative = None\<rparr>, tr_interpretation = ''forward'',
      tr_kind = kind, tr_unit = unit, tr_frequency = None\<rparr>"

lemma ac_method: "t_method (obj expected_method) = Inr ()"
  by (simp add: t_method_def t_fields expect_field_def expected_method_def equals_expected_def case_prod_beta)

lemma ac_operand:
  "re \<noteq> [] \<Longrightarrow> im \<noteq> [] \<Longrightarrow> length re \<le> 256 \<Longrightarrow> length im \<le> 256 \<Longrightarrow> re \<noteq> im \<Longrightarrow>
   t_operand (obj [(''real'', VStr re), (''imaginary'', VStr im)]) label
   = Inr \<lparr>op_real = re, op_imaginary = im, op_negative = None\<rparr>"
  by (simp add: t_operand_def t_fields operand_names_def Let_def)

lemma canonical_loop: "canonical_role ''loop''"
  by (simp add: canonical_role_def ascii_lower_def ord_def)

lemma unity_request:
  "normalize_transfer (ac_request ''out_re'' ''out_im'' ''unity_gain_frequency'' ''Hz'')
   = Inr (ac_transfer ''out_re'' ''out_im'' ''unity_gain_frequency'' ''Hz'')"
  by (simp add: normalize_transfer_def t_fields ac_request_def ac_transfer_def canonical_loop ac_method ac_operand
      operand_names_def t_metric_def metric_unit_def)

lemma bandwidth_request:
  "normalize_transfer (ac_request ''flat_re'' ''flat_im'' ''bandwidth_3db'' ''Hz'')
   = Inr (ac_transfer ''flat_re'' ''flat_im'' ''bandwidth_3db'' ''Hz'')"
  by (simp add: normalize_transfer_def t_fields ac_request_def ac_transfer_def canonical_loop ac_method ac_operand
      operand_names_def t_metric_def metric_unit_def)

section \<open>The traces\<close>

lemma integral_rounds [simp]: "round64 1 = PFin 1" "round64 10 = PFin 10" "round64 (- 3) = PFin (- 3)" "round64 20 = PFin 20" "round64 17 = PFin 17"
    "round64 (- 20) = PFin (- 20)"
  using round64_of_int [of 1] round64_of_int [of 10] round64_of_int [of "- 3"] round64_of_int [of 20] round64_of_int [of 17]
    round64_of_int [of "- 20"] by simp_all

lemma ratio_values:
  "ratio_point example_libm i ((PFin 1, PFin 0), (PFin 10, PFin 0)) = Inr ((PFin 10, PFin 0), PFin 20)"
  "ratio_point example_libm i ((PFin 1, PFin 0), (PFin 1, PFin 0)) = Inr ((PFin 1, PFin 0), PFin 0)"
  by (simp_all add: ratio_point_def complex_zero_def complex_div_def ieee_div_def fsub_def Let_def example_libm_def)

lemma unity_ratios:
  "transfer_ratios example_env example_libm ac_series (ac_request ''out_re'' ''out_im'' ''unity_gain_frequency'' ''Hz'')
   = Inr (ac_normal, ac_transfer ''out_re'' ''out_im'' ''unity_gain_frequency'' ''Hz'', (''V'', ''V'', ''1''),
       [((PFin 10, PFin 0), PFin 20), ((PFin 1, PFin 0), PFin 0)])"
  by (simp add: transfer_ratios_def ac_normalises unity_request Let_def)
    (simp add: check_frequencies_def check_signals_def t_operand_unit_def signal_named_def operand_names_def
      ac_normal_def ac_transfer_def ratio_unit_def operand_phasors_def terminal_phasors_def ratio_trace_def ratio_values
      Let_def mark_def fle_def)

lemma flat_ratios:
  "transfer_ratios example_env example_libm ac_series (ac_request ''flat_re'' ''flat_im'' ''bandwidth_3db'' ''Hz'')
   = Inr (ac_normal, ac_transfer ''flat_re'' ''flat_im'' ''bandwidth_3db'' ''Hz'', (''V'', ''V'', ''1''),
       [((PFin 1, PFin 0), PFin 0), ((PFin 1, PFin 0), PFin 0)])"
  by (simp add: transfer_ratios_def ac_normalises bandwidth_request Let_def)
    (simp add: check_frequencies_def check_signals_def t_operand_unit_def signal_named_def operand_names_def
      ac_normal_def ac_transfer_def ratio_unit_def operand_phasors_def terminal_phasors_def ratio_trace_def ratio_values
      Let_def mark_def fle_def)

lemma ac_phases: "unwrap_phase example_libm [z, w] = Some (Inr [PFin 0, PFin 0])"
  by (simp add: unwrap_phase_def principal_phase_def example_libm_def degrees_value lower_turns_def raise_turns_def
      while_option_unfold fsub_def Let_def)

lemma ac_request_value: "json_value (request_json (ac_transfer re im kind unit))"
  by (simp add: request_json_def ac_transfer_def operand_fields_def expected_method_def)

lemma unity_crossing:
  "falling_crossings example_libm (PFin 0) [(PFin 1, PFin 20, PFin 0), (PFin 10, PFin 0, PFin 0)]
   = Inr [\<lparr>fc_frequency = PFin 10, fc_magnitude = PFin 0, fc_phase = PFin 0\<rparr>]"
  by (simp add: falls_def crossing_at_def fsub_def Let_def example_libm_def)

lemma drop_crossing:
  "\<exists>cs. falling_crossings example_libm (PFin 17) [(PFin 1, PFin 20, PFin 0), (PFin 10, PFin 0, PFin 0)] = Inr cs"
proof -
  have "round64 (3 / 20) = PFin (rnd (3 / 20))" by (rule round64_unit) simp_all
  then show ?thesis by (simp add: falls_def crossing_at_def fsub_def Let_def example_libm_def)
qed

lemma flat_crossings:
  "falling_crossings lm (PFin (- 3)) [(PFin 1, PFin 0, PFin 0), (PFin 10, PFin 0, PFin 0)] = Inr []"
  "falling_crossings lm (PFin 0) [(PFin 1, PFin 0, PFin 0), (PFin 10, PFin 0, PFin 0)] = Inr []"
  by (simp_all add: falls_def)

lemma ac_magnitude: "lm_abs example_libm (PFin x, PFin 0) = Inr (PFin \<bar>x\<bar>)"
  by (simp add: example_libm_def)

lemma unity_analysis:
  "\<exists>a. analyze example_env example_libm ac_normal (ac_transfer ''out_re'' ''out_im'' ''unity_gain_frequency'' ''Hz'') units
        [((PFin 10, PFin 0), PFin 20), ((PFin 1, PFin 0), PFin 0)] [PFin 0, PFin 0] = Inr a
     \<and> an_request a = ac_transfer ''out_re'' ''out_im'' ''unity_gain_frequency'' ''Hz''
     \<and> an_unity a = [\<lparr>fc_frequency = PFin 10, fc_magnitude = PFin 0, fc_phase = PFin 0\<rparr>]"
  using drop_crossing
  by (cases units) (auto simp: analyze_def example_sha ac_request_value ac_normal_def Let_def fsub_def unity_crossing
      ac_magnitude simp del: falling_crossings.simps)

lemma flat_analysis:
  "\<exists>a. analyze example_env example_libm ac_normal (ac_transfer ''flat_re'' ''flat_im'' ''bandwidth_3db'' ''Hz'') units
        [((PFin 1, PFin 0), PFin 0), ((PFin 1, PFin 0), PFin 0)] [PFin 0, PFin 0] = Inr a
     \<and> an_request a = ac_transfer ''flat_re'' ''flat_im'' ''bandwidth_3db'' ''Hz'' \<and> an_bandwidth a = []"
  by (cases units) (simp add: analyze_def example_sha ac_request_value ac_normal_def Let_def fsub_def flat_crossings
      ac_magnitude del: falling_crossings.simps)

lemma unity_passes:
  "\<exists>e. measure_transfer example_env example_libm ac_series
     (ac_request ''out_re'' ''out_im'' ''unity_gain_frequency'' ''Hz'') VNone = Some (Inr e) \<and> e_status e = ''pass''"
proof -
  obtain a where a: "analyze example_env example_libm ac_normal (ac_transfer ''out_re'' ''out_im'' ''unity_gain_frequency'' ''Hz'')
        (''V'', ''V'', ''1'') [((PFin 10, PFin 0), PFin 20), ((PFin 1, PFin 0), PFin 0)] [PFin 0, PFin 0] = Inr a"
      "an_request a = ac_transfer ''out_re'' ''out_im'' ''unity_gain_frequency'' ''Hz''"
      "an_unity a = [\<lparr>fc_frequency = PFin 10, fc_magnitude = PFin 0, fc_phase = PFin 0\<rparr>]"
    using unity_analysis by blast
  show ?thesis
    by (simp add: measure_transfer_def request_identity_def transfer_body_def unity_ratios ac_phases Let_def a(1) mark_def)
      (simp add: finish_transfer_def transfer_value_def selected_crossings_def crossing_status_def a(2,3)
        ac_transfer_def transfer_outcome_def Let_def)
qed

lemma flat_fails:
  "\<exists>e. measure_transfer example_env example_libm ac_series
     (ac_request ''flat_re'' ''flat_im'' ''bandwidth_3db'' ''Hz'') VNone = Some (Inr e) \<and> e_status e = ''fail''"
proof -
  obtain a where a: "analyze example_env example_libm ac_normal (ac_transfer ''flat_re'' ''flat_im'' ''bandwidth_3db'' ''Hz'')
        (''V'', ''V'', ''1'') [((PFin 1, PFin 0), PFin 0), ((PFin 1, PFin 0), PFin 0)] [PFin 0, PFin 0] = Inr a"
      "an_request a = ac_transfer ''flat_re'' ''flat_im'' ''bandwidth_3db'' ''Hz''" "an_bandwidth a = []"
    using flat_analysis by blast
  show ?thesis
    by (simp add: measure_transfer_def request_identity_def transfer_body_def flat_ratios ac_phases Let_def a(1) mark_def)
      (simp add: finish_transfer_def transfer_value_def selected_crossings_def crossing_status_def a(2,3)
        ac_transfer_def transfer_outcome_def Let_def)
qed

section \<open>Witnesses\<close>

theorem measure_transfer_total_witness:
  "\<exists>r. measure_transfer example_env example_libm ac_series (VDict [(VInt 3, VNone)]) (VInt 0) = Some (Inr r)"
  by (rule measure_transfer_total [OF example_env_ok example_libm_ok ac_wf])

theorem unwrap_phase_exact_witness:
  "\<exists>us. unwrap_phase example_libm [(PFin 10, PFin 0), (PFin 1, PFin 0)] = Some (Inr us)"
  using unwrap_phase_exact [of example_libm "[(PFin 10, PFin 0), (PFin 1, PFin 0)]"] example_libm_ok
  by (auto simp: libm_ok_def finite_complex_def MAX_POINTS_def)

theorem transfer_pass_grounded_witness:
  "\<exists>e r v x ratios phases. measure_transfer example_env example_libm ac_series
       (ac_request ''out_re'' ''out_im'' ''unity_gain_frequency'' ''Hz'') VNone = Some (Inr e)
     \<and> reads example_libm r (a_values (r_axis ac_normal)) ratios phases v x \<and> tr_kind r = ''unity_gain_frequency''"
proof -
  obtain e where e: "measure_transfer example_env example_libm ac_series
     (ac_request ''out_re'' ''out_im'' ''unity_gain_frequency'' ''Hz'') VNone = Some (Inr e)" "e_status e = ''pass''"
    using unity_passes by blast
  obtain n r units ratios phases v x where r: "transfer_ratios example_env example_libm ac_series
       (ac_request ''out_re'' ''out_im'' ''unity_gain_frequency'' ''Hz'') = Inr (n, r, units, ratios)"
      "reads example_libm r (a_values (r_axis n)) ratios phases v x"
    using transfer_pass_grounded [OF example_env_ok example_libm_ok ac_wf e] by blast
  then have "n = ac_normal" "tr_kind r = ''unity_gain_frequency''" by (auto simp: unity_ratios ac_transfer_def)
  then show ?thesis using r(2) e(1) by blast
qed

theorem transfer_fail_certified_witness:
  "\<exists>e n r units ratios. measure_transfer example_env example_libm ac_series
       (ac_request ''flat_re'' ''flat_im'' ''bandwidth_3db'' ''Hz'') VNone = Some (Inr e)
     \<and> transfer_ratios example_env example_libm ac_series
         (ac_request ''flat_re'' ''flat_im'' ''bandwidth_3db'' ''Hz'') = Inr (n, r, units, ratios)
     \<and> tr_kind r = ''bandwidth_3db''"
proof -
  obtain e where e: "measure_transfer example_env example_libm ac_series
     (ac_request ''flat_re'' ''flat_im'' ''bandwidth_3db'' ''Hz'') VNone = Some (Inr e)" "e_status e = ''fail''"
    using flat_fails by blast
  obtain n r units ratios where r: "transfer_ratios example_env example_libm ac_series
       (ac_request ''flat_re'' ''flat_im'' ''bandwidth_3db'' ''Hz'') = Inr (n, r, units, ratios)"
    using transfer_fail_certified [OF example_env_ok example_libm_ok ac_wf e] by blast
  then have "tr_kind r = ''bandwidth_3db''" by (auto simp: flat_ratios ac_transfer_def)
  then show ?thesis using r e(1) by blast
qed

end
