(* ===== verification/Spec2Isabelle.thy ===== *)
theory Spec2Isabelle
  imports SpecChain RunOracle RunHost DeckRun TransferExample
begin

text \<open>
  OpenADA is the evidence kernel of an electronic design automation front end: native tools run
  under a bounded process runner, what they produce is reduced to typed results with digests, and
  a verdict is emitted only when the evidence for it is complete.  This library models the parts of
  \<open>src/src/openada\<close> that decide those results and proves what makes them trustworthy.

  \<^bold>\<open>Parts of the program and how they interact.\<close>  A testbench plan (\<open>operations/testbench_plan.py\<close>)
  is validated once.  The runner (\<open>operations/testbench_plan_runner.py\<close>) takes the accepted plan,
  compiles each stage to simulator decks (\<open>operations/testbench_plan_ngspice.py\<close>), executes every
  condition, evaluates measurements, validity rules, reductions and bindings, and publishes an
  observable envelope with a receipt.  The comparator (\<open>operations/testbench_oracle.py\<close>) grades such
  an envelope against an oracle.  Independently, \<open>operations/result_measure.py\<close> derives a scalar from a
  normalised series, \<open>operations/result_transfer_measure.py\<close> one from the complex ratios of such a
  series, \<open>operations/specification_evaluate.py\<close> judges a specification on such records,
  and all answer with the result envelope of \<open>contract.py\<close>; tools are run by \<open>process.py\<close>.

  \<^bold>\<open>Theories.\<close>
  \<^item> \<open>Prelude\<close>: exceptions as the datatype \<open>pyexc\<close>, results as \<open>pyexc + 'a\<close> with \<open>pbind\<close> and the
    traversals \<open>map_res\<close>, \<open>fold_res\<close>, the predicate \<open>errs_in\<close> with its rules \<open>err_intros\<close>, text helpers.
    \<open>PyFloat\<close>: binary64 as rationals with correct rounding (\<open>round64\<close>), \<open>math.fsum\<close>, \<open>math.sqrt\<close>.
    \<open>PyValue\<close>: Python values and the shape checks.  \<open>PyJson\<close>: \<open>repr\<close> of floats, canonical JSON.
  \<^item> \<open>Process\<close> (\<open>process.py\<close>), \<open>Contract\<close> (\<open>contract.py\<close>: envelope, diagnostics, file records).
  \<^item> \<open>Evidence\<close>, \<open>MeasureSeries\<close>, \<open>MeasureKernel\<close>, \<open>MeasureNumeric\<close>, \<open>MeasureResult\<close>: the request and series
    checks, the measurement algorithms and the whole operation of \<open>result_measure.py\<close>.
  \<^item> \<open>TransferModel\<close> (the closed request), \<open>TransferTrace\<close> (complex ratios, decibels, phases, crossings,
    interpolation), \<open>TransferMeasure\<close> (the operation): \<open>result_transfer_measure.py\<close>; \<open>TransferPhase\<close>,
    \<open>TransferTotal\<close>, \<open>TransferVerdict\<close>, \<open>TransferExample\<close>: its proofs.
  \<^item> \<open>SpecModel\<close>, \<open>SpecRecords\<close>, \<open>SpecEvaluate\<close>, \<open>SpecVerdict\<close>, \<open>SpecChain\<close>: \<open>specification_evaluate.py\<close>, its
    refinement to intervals over rationals, and its composition with the measurements.
  \<^item> \<open>OracleInput\<close>, \<open>OracleModel\<close>, \<open>OracleRows\<close>, \<open>OracleCompare\<close>, \<open>OracleExample\<close>, \<open>OracleVerdict\<close>,
    \<open>OracleEvidence\<close>: \<open>testbench_oracle.py\<close>: strict JSON, closed documents, one row per metric, the
    comparison, and its verdict as a minimum in the three-valued order.
  \<^item> \<open>PlanModel\<close>, \<open>PlanParts\<close>, \<open>PlanDag\<close>, \<open>PlanPoints\<close>, \<open>PlanReduce\<close>, \<open>PlanValidate\<close>: the validator of
    \<open>testbench_plan.py\<close>, each \<open>_validate_...\<close> method a definition that returns the issues it records;
    \<open>PlanAccept\<close>, \<open>PlanExample\<close>, \<open>PlanVerdict\<close>: what an accepted plan satisfies.
  \<^item> \<open>RunModel\<close>, \<open>RunEvaluate\<close>, \<open>RunStages\<close>, \<open>RunOutputs\<close>, \<open>RunExecute\<close>: the runner, from one condition
    to \<open>execute_testbench_plan\<close>; \<open>RunOrder\<close>, \<open>RunLineage\<close>, \<open>RunInvariant\<close> (the step relation \<open>stage_step\<close>
    and the invariant of its reachable states), \<open>RunVerdict\<close>, \<open>RunObserve\<close>, \<open>RunExample\<close>, \<open>RunResult\<close>,
    \<open>RunTotal\<close>, \<open>RunInventory\<close>, \<open>RunHost\<close>: its proofs; \<open>RunOracle\<close>: runner and comparator together.
  \<^item> \<open>DeckDecimal\<close>, \<open>DeckSeal\<close>, \<open>DeckValues\<close>, \<open>DeckCompile\<close>: the compiler of \<open>testbench_plan_ngspice.py\<close>, from
    decimals and number tokens over the seal of the device under test to the compile receipt;
    \<open>DeckNumber\<close> (tokens and grids), \<open>DeckClosed\<close> (the seal as a grammar), \<open>DeckText\<close>, \<open>DeckCards\<close>,
    \<open>DeckEmit\<close> (decks line by line), \<open>DeckInventory\<close> (conditions), \<open>DeckExample\<close>, \<open>DeckResult\<close>: its proofs;
    \<open>DeckRun\<close>: the runner with this compiler in place of its parameter.

  \<^bold>\<open>What the lemmas show.\<close>  Measurements are total and grounded in the series they name; the
  unwrapping of AC phases ends and keeps every phase up to whole turns, a transfer value is the
  reference reading of its trace, and a transfer failure means that the trace never falls through its threshold; a
  specification verdict is the abstract interval verdict; an oracle pass rests on complete receipts;
  an accepted plan can be scheduled, binds each input once and drives no port twice; a run emits an
  observable or a verdict \<open>VALID\<close> only on conditions that were executed and completed, loses no point
  of the corner, raises nothing but \<open>ValueError\<close>, and its envelope is one the comparator accepts.  A
  compiled deck consists of closed cards around the sealed device of the declared digest, its numbers
  read back, and its conditions are exactly the points of the corner.

  \<^bold>\<open>Parameters.\<close>  What is not the repository's code is an argument: SHA-256, the clock, UUIDs and host
  facts (\<open>py_env\<close>), the operating system of the process runner, the file system behind a file record,
  the simulator, the raw-file extractor and the square of libm (\<open>run_env\<close>), and the logarithms,
  \<open>atan2\<close>, complex magnitude and power of ten of libm (\<open>libm\<close>, whose documented ranges are \<open>libm_ok\<close>).  The plan compiler is a field
  of \<open>run_env\<close> too, so that the runner's theorems hold for every compiler; \<open>DeckRun\<close> puts the modelled
  one there.  The file behind the device under test is a field of \<open>deck_env\<close>.

  \<^bold>\<open>Bounds and termination.\<close>  The rounds of ready stages end because each round removes a stage
  (\<open>topological_rounds\<close>, by the number of remaining stages); the cycle search by its unvisited
  nodes; decimal rendering and the stripping of zeros by the number; the words of a line by its length; the loops that
  unwrap a phase, modelled by \<open>while_option\<close>, by the distance to the previous phase, which a trace of at
  most \<open>MAX_POINTS\<close> points keeps below 19000000 degrees; the shortest decimal of a float is searched up to 17
  significant digits, which always suffice for binary64.

  \<^bold>\<open>Not modelled.\<close>  JSON-schema checks (the \<open>jsonschema\<close> package runs before the modelled validator, whose
  documents are typed accordingly), reading and publishing files, the child process itself, the
  internal seam that starts a run from a prepared compilation, the checks that a caller has not mutated
  a prepared plan (the model's plan is one value), and the operations that drive native
  tools or parse their logs; the manifest lists each with its reason.  Text is restricted to one
  character per byte, 7-bit where bytes are decoded.  Numbers of a typed plan are rationals: one that
  is integral is taken to be written as an integer where it is digested.
\<close>

end
